(* ===== verification/Db_Prelude.thy ===== *)
theory Db_Prelude
  imports Main "HOL-Library.Product_Lexorder"
begin

text \<open>
  Shared vocabulary of the development: identifiers and instants, the JSON values of audit
  metadata, tables as lists of rows with the queries and row updates the services issue, the
  outcome of a service call, and the interface \<open>row_table\<close> that every table of the schema
  provides (a lookup by primary key and a write of one row).
\<close>

named_theorems row_simps \<open>rewrite rules for queries over updated tables\<close>

section \<open>Identifiers, instants, metadata\<close>

type_synonym uuid = nat

text \<open>A \<open>datetime\<close> in UTC is a number of microseconds, \<open>timedelta\<close> resolution.\<close>

type_synonym time = int

text \<open>A \<open>date\<close>: year, month, day.\<close>

type_synonym date = "nat \<times> nat \<times> nat"

definition seconds :: "int \<Rightarrow> time" where
  "seconds n = n * 1000000"

definition minutes :: "int \<Rightarrow> time" where
  "minutes n = n * 60000000"

definition hours :: "int \<Rightarrow> time" where
  "hours n = n * 3600000000"

definition days :: "int \<Rightarrow> time" where
  "days n = n * 86400000000"

lemma minutes_pos [simp]: "0 < minutes n \<longleftrightarrow> 0 < n"
  by (simp add: minutes_def zero_less_mult_iff)

lemma minutes_mono [simp]: "minutes m \<le> minutes n \<longleftrightarrow> m \<le> n"
  by (simp add: minutes_def)

lemma hours_pos [simp]: "0 < hours n \<longleftrightarrow> 0 < n"
  by (simp add: hours_def zero_less_mult_iff)

text \<open>Values of a JSON column; identifiers and instants stand for their rendered text.\<close>

datatype json =
  JNull | JBool bool | JInt int | JStr string | JId uuid | JTime time | JStrs "string list"

section \<open>Outcomes\<close>

text \<open>
  A service call either raises (the caller then abandons the transaction, so no database is
  returned) or returns a value together with the database it leaves.
\<close>

type_synonym ('e, 'a, 'd) outcome = "'e + ('a \<times> 'd)"

section \<open>Tables as lists of rows\<close>

definition row_get :: "('r \<Rightarrow> 'k) \<Rightarrow> 'k \<Rightarrow> 'r list \<Rightarrow> 'r option" where
  "row_get key k rs = find (\<lambda>r. key r = k) rs"

definition row_put :: "('r \<Rightarrow> 'k) \<Rightarrow> 'r \<Rightarrow> 'r list \<Rightarrow> 'r list" where
  "row_put key r rs = map (\<lambda>x. if key x = key r then r else x) rs"

definition rows_update :: "('r \<Rightarrow> bool) \<Rightarrow> ('r \<Rightarrow> 'r) \<Rightarrow> 'r list \<Rightarrow> 'r list" where
  "rows_update P f rs = map (\<lambda>r. if P r then f r else r) rs"

definition count_where :: "('r \<Rightarrow> bool) \<Rightarrow> 'r list \<Rightarrow> nat" where
  "count_where P rs = length (filter P rs)"

text \<open>
  \<open>ORDER BY key LIMIT 1\<close>: a row with the least key, the first one stored where keys tie.
  A descending column is a negated component of the key.
\<close>

fun first_by :: "('r \<Rightarrow> 'k::linorder) \<Rightarrow> 'r list \<Rightarrow> 'r option" where
  "first_by key [] = None"
| "first_by key (r # rs) =
     (case first_by key rs of
        None \<Rightarrow> Some r
      | Some x \<Rightarrow> (if key x < key r then Some x else Some r))"

lemma row_get_Some: "row_get key k rs = Some r \<Longrightarrow> r \<in> set rs \<and> key r = k"
  by (auto simp: row_get_def find_Some_iff)

lemma row_get_None: "row_get key k rs = None \<longleftrightarrow> k \<notin> key ` set rs"
  by (auto simp: row_get_def find_None_iff)

lemma row_get_in [intro]: "r \<in> set rs \<Longrightarrow> \<exists>x. row_get key (key r) rs = Some x"
  by (cases "row_get key (key r) rs") (auto simp: row_get_None)

lemma row_get_distinct:
  assumes "distinct (map key rs)" and "r \<in> set rs"
  shows "row_get key (key r) rs = Some r"
  using assms by (induction rs) (auto simp: row_get_def image_iff)

lemma row_get_append:
  "row_get key k (xs @ ys) = (case row_get key k xs of None \<Rightarrow> row_get key k ys | Some r \<Rightarrow> Some r)"
  by (induction xs) (auto simp: row_get_def)

lemma row_get_snoc:
  "row_get key k (xs @ [r]) =
     (if row_get key k xs = None \<and> key r = k then Some r else row_get key k xs)"
  by (induction xs) (auto simp: row_get_def)

lemma row_get_put:
  "row_get key k (row_put key r rs) =
     (if k = key r \<and> row_get key k rs \<noteq> None then Some r else row_get key k rs)"
  by (induction rs) (auto simp: row_get_def row_put_def)

lemma keys_row_put [row_simps, simp]: "map key (row_put key r rs) = map key rs"
  by (induction rs) (auto simp: row_put_def)

lemma set_row_put: "x \<in> set (row_put key r rs) \<Longrightarrow> x = r \<or> (x \<in> set rs \<and> key x \<noteq> key r)"
  by (auto simp: row_put_def)

lemma row_put_all:
  "\<lbrakk>\<forall>x \<in> set rs. P x; P r\<rbrakk> \<Longrightarrow> \<forall>x \<in> set (row_put key r rs). P x"
  by (auto dest: set_row_put)

lemma keys_rows_update:
  "(\<And>r. key (f r) = key r) \<Longrightarrow> map key (rows_update P f rs) = map key rs"
  by (auto simp: rows_update_def)

lemma set_rows_update: "set (rows_update P f rs) = {if P r then f r else r | r. r \<in> set rs}"
  by (auto simp: rows_update_def)

lemma rows_update_all:
  "\<lbrakk>\<forall>x \<in> set rs. Q x; \<And>x. \<lbrakk>x \<in> set rs; Q x; P x\<rbrakk> \<Longrightarrow> Q (f x)\<rbrakk>
   \<Longrightarrow> \<forall>x \<in> set (rows_update P f rs). Q x"
  by (auto simp: rows_update_def)

text \<open>An update that takes a row out of its own condition leaves no row that meets it.\<close>

lemma rows_update_none_left:
  assumes "x \<in> set (rows_update P f rs)" and "\<And>r. P r \<Longrightarrow> \<not> P (f r)"
  shows "\<not> P x"
proof -
  from assms(1) have "x \<in> (\<lambda>r. if P r then f r else r) ` set rs" by (simp only: rows_update_def set_map)
  then obtain r where "x = (if P r then f r else r)" by (rule imageE)
  with assms(2) [of r] show ?thesis by (cases "P r") simp_all
qed

lemma find_SomeD: "find P xs = Some x \<Longrightarrow> x \<in> set xs \<and> P x"
  by (auto simp: find_Some_iff)

lemma row_get_rows_update:
  assumes "\<And>r. key (f r) = key r"
  shows "row_get key k (rows_update P f rs) =
           map_option (\<lambda>r. if P r then f r else r) (row_get key k rs)"
  using assms by (induction rs) (auto simp: row_get_def rows_update_def)

lemma length_rows_update [simp]: "length (rows_update P f rs) = length rs"
  by (simp add: rows_update_def)

lemma rows_update_none: "\<forall>r \<in> set rs. \<not> P r \<Longrightarrow> rows_update P f rs = rs"
  by (simp add: rows_update_def map_idI)

lemma first_by_None [simp]: "first_by key rs = None \<longleftrightarrow> rs = []"
  by (cases rs) (auto split: option.splits if_splits)

lemma first_by_in: "first_by key rs = Some r \<Longrightarrow> r \<in> set rs"
  by (induction rs arbitrary: r) (auto split: option.splits if_splits)

lemma first_by_least: "first_by key rs = Some r \<Longrightarrow> x \<in> set rs \<Longrightarrow> key r \<le> key x"
proof (induction rs arbitrary: r x)
  case Nil
  then show ?case by simp
next
  case (Cons y rs)
  show ?case
  proof (cases "first_by key rs")
    case None
    then show ?thesis using Cons.prems by simp
  next
    case (Some z)
    then have z: "u \<in> set rs \<Longrightarrow> key z \<le> key u" for u using Cons.IH [of z u] Some by simp
    show ?thesis
    proof (cases "key z < key y")
      case True
      with Some Cons.prems z show ?thesis by auto
    next
      case False
      then have "key y \<le> key z" by simp
      with False Some Cons.prems show ?thesis by (auto intro: order_trans [OF _ z])
    qed
  qed
qed

lemma count_where_0: "count_where P rs = 0 \<longleftrightarrow> (\<forall>r \<in> set rs. \<not> P r)"
  by (auto simp: count_where_def filter_empty_conv)

lemma count_where_le: "count_where P rs \<le> length rs"
  by (simp add: count_where_def)

lemma count_where_append [simp]:
  "count_where P (xs @ ys) = count_where P xs + count_where P ys"
  by (simp add: count_where_def)

lemma map_filter_mem:
  "y \<in> set (List.map_filter f xs) \<longleftrightarrow> (\<exists>x \<in> set xs. f x = Some y)"
  by (induction xs) (auto simp: List.map_filter_simps split: option.splits)

section \<open>The interface of a table\<close>

text \<open>
  What a service relies on when it reads a row by its key and writes it back: the row read has
  the key asked for, a write is seen by the next read of that key, and by no other.
\<close>

locale row_table =
  fixes get :: "'d \<Rightarrow> 'k \<Rightarrow> 'r option"
    and put :: "'r \<Rightarrow> 'd \<Rightarrow> 'd"
    and key :: "'r \<Rightarrow> 'k"
  assumes get_key: "get d k = Some r \<Longrightarrow> key r = k"
    and get_put: "get (put r d) k = (if k = key r \<and> get d k \<noteq> None then Some r else get d k)"
begin

lemma read_own_write: "get d (key r) = Some r0 \<Longrightarrow> get (put r d) (key r) = Some r"
  by (simp add: get_put)

lemma write_frame: "k \<noteq> key r \<Longrightarrow> get (put r d) k = get d k"
  by (simp add: get_put)

lemma rewrite_row:
  assumes "get d k = Some r0" and "key (f r0) = key r0"
  shows "get (put (f r0) d) k = Some (f r0)"
  using assms get_key [of d k r0] by (simp add: get_put)

lemma write_invariant:
  "\<lbrakk>\<forall>k r. get d k = Some r \<longrightarrow> P r; P r'\<rbrakk> \<Longrightarrow> \<forall>k r. get (put r' d) k = Some r \<longrightarrow> P r"
  by (auto simp: get_put)

lemma last_write_wins:
  "key r = key r' \<Longrightarrow> get (put r' (put r d)) k = get (put r' d) k"
  by (auto simp: get_put)

end

section \<open>More about tables\<close>

text \<open>
  More about tables as lists of rows: writing a row back as an update of exactly that row,
  counting and filtering through an update, deletion by condition, and folding a service call
  over a list of identifiers.
\<close>

lemma row_put_as_update:
  assumes "distinct (map key rs)" and "r0 \<in> set rs" and "key r0 = key r"
  shows "row_put key r rs = rows_update (\<lambda>x. x = r0) (\<lambda>_. r) rs"
proof -
  have "key x = key r \<longleftrightarrow> x = r0" if "x \<in> set rs" for x
    using assms that by (auto simp: distinct_map inj_on_def)
  then show ?thesis by (auto simp: row_put_def rows_update_def)
qed

text \<open>A selection that an update neither enters nor leaves is the same list afterwards.\<close>

lemma filter_rows_update:
  assumes "\<And>r. P r \<Longrightarrow> \<not> Q r \<and> \<not> Q (f r)"
  shows "filter Q (rows_update P f rs) = filter Q rs"
  using assms by (induction rs) (auto simp: rows_update_def)

lemma filter_row_put:
  assumes "distinct (map key rs)" and "r0 \<in> set rs" and "key r0 = key r" and "\<not> Q r0" and "\<not> Q r"
  shows "filter Q (row_put key r rs) = filter Q rs"
  unfolding row_put_as_update [OF assms(1-3)]
  by (rule filter_rows_update) (use assms(4,5) in auto)

text \<open>Taking the one selected row out of the selection.\<close>

lemma filter_row_put_leave:
  assumes "distinct (map key rs)" and "r0 \<in> set rs" and "key r0 = key r" and "\<not> Q r"
  shows "filter Q (row_put key r rs) = filter (\<lambda>x. Q x \<and> x \<noteq> r0) rs"
proof -
  have "filter Q (rows_update (\<lambda>x. x = r0) (\<lambda>_. r) xs) = filter (\<lambda>x. Q x \<and> x \<noteq> r0) xs" for xs
    using assms(4) by (induction xs) (auto simp: rows_update_def)
  then show ?thesis by (simp add: row_put_as_update [OF assms(1-3)])
qed

lemma row_put_same:
  assumes "row_get key k rs = Some r" and "distinct (map key rs)"
  shows "row_put key r rs = rs"
proof -
  have "r \<in> set rs" using assms(1) by (auto dest: row_get_Some)
  with assms(2) have "key x = key r \<Longrightarrow> x = r" if "x \<in> set rs" for x
    using that by (auto simp: distinct_map inj_on_def)
  then show ?thesis unfolding row_put_def by (intro map_idI) auto
qed

lemma distinct_map_filterI: "distinct (map key rs) \<Longrightarrow> distinct (map key (filter P rs))"
  by (induction rs) auto

lemma only_element: "\<lbrakk>x \<in> set ys; length ys \<le> 1\<rbrakk> \<Longrightarrow> ys = [x]"
  by (cases ys) auto

section \<open>Folding an operation over identifiers\<close>

text \<open>
  The loops \<open>for id in ids: if op(id): count += 1\<close>, where \<open>op\<close> says whether it acted.
\<close>

fun count_loop :: "('i \<Rightarrow> 'd \<Rightarrow> bool \<times> 'd) \<Rightarrow> 'i list \<Rightarrow> 'd \<Rightarrow> nat \<times> 'd" where
  "count_loop op [] d = (0, d)"
| "count_loop op (i # is) d =
     (let r = op i d; s = count_loop op is (snd r)
      in ((if fst r then Suc (fst s) else fst s), snd s))"

lemma count_loop_inv:
  assumes "\<And>i d. \<lbrakk>i \<in> set is; I d\<rbrakk> \<Longrightarrow> I (snd (op i d))"
  shows "I d \<Longrightarrow> I (snd (count_loop op is d))"
  using assms by (induction "is" arbitrary: d) (simp_all add: Let_def)

lemma count_loop_idle:
  assumes "\<And>i. i \<in> set is \<Longrightarrow> op i d = (False, d)"
  shows "count_loop op is d = (0, d)"
  using assms by (induction "is") auto

text \<open>The same loop where an operation may raise: the exception leaves the loop.\<close>

fun try_loop :: "('i \<Rightarrow> 'd \<Rightarrow> 'e + bool \<times> 'd) \<Rightarrow> 'i list \<Rightarrow> 'd \<Rightarrow> 'e + nat \<times> 'd" where
  "try_loop op [] d = Inr (0, d)"
| "try_loop op (i # is) d =
     (case op i d of
        Inl err \<Rightarrow> Inl err
      | Inr (acted, d1) \<Rightarrow>
          (case try_loop op is d1 of
             Inl err \<Rightarrow> Inl err
           | Inr (n, d2) \<Rightarrow> Inr ((if acted then Suc n else n), d2)))"

lemma try_loop_total:
  assumes "\<And>i d. \<lbrakk>i \<in> set is; I d\<rbrakk> \<Longrightarrow> \<exists>b d'. op i d = Inr (b, d') \<and> I d'"
  shows "I d \<Longrightarrow> \<exists>n d'. try_loop op is d = Inr (n, d') \<and> I d'"
  using assms
proof (induction "is" arbitrary: d)
  case Nil
  then show ?case by simp
next
  case (Cons i "is")
  from Cons.prems(2) [of i d] Cons.prems(1) obtain b d1 where op: "op i d = Inr (b, d1)" "I d1"
    by auto
  from Cons.IH [OF op(2)] Cons.prems(2) obtain n d2 where "try_loop op is d1 = Inr (n, d2)" "I d2"
    by auto
  with op show ?case by simp
qed

end
