(* ===== verification/Py_Text.thy ===== *)
theory Py_Text
  imports Db_Prelude
begin

text \<open>
  The string operations of the standard library that the services use (\<open>str.strip\<close>,
  \<open>str.lower\<close>, \<open>str.isspace\<close>, \<open>str.isdigit\<close>, \<open>str.partition\<close>, slicing, \<open>str(int)\<close>,
  \<open>dict.fromkeys\<close>), on strings whose code points are below 256.
\<close>

definition code :: "char \<Rightarrow> nat" where
  "code c = of_char c"

definition py_isspace :: "char \<Rightarrow> bool" where
  "py_isspace c = (let n = code c in
     (9 \<le> n \<and> n \<le> 13) \<or> (28 \<le> n \<and> n \<le> 32) \<or> n = 133 \<or> n = 160)"

definition py_isdigit :: "char \<Rightarrow> bool" where
  "py_isdigit c = (let n = code c in (48 \<le> n \<and> n \<le> 57) \<or> n \<in> {178, 179, 185})"

definition py_lower_char :: "char \<Rightarrow> char" where
  "py_lower_char c = (let n = code c in
     if (65 \<le> n \<and> n \<le> 90) \<or> (192 \<le> n \<and> n \<le> 222 \<and> n \<noteq> 215) then char_of (n + 32) else c)"

definition lstrip :: "string \<Rightarrow> string" where
  "lstrip s = dropWhile py_isspace s"

definition strip :: "string \<Rightarrow> string" where
  "strip s = rev (dropWhile py_isspace (rev (lstrip s)))"

definition lower :: "string \<Rightarrow> string" where
  "lower s = map py_lower_char s"

definition isdigit :: "string \<Rightarrow> bool" where
  "isdigit s = (s \<noteq> [] \<and> list_all py_isdigit s)"

definition startswith :: "string \<Rightarrow> string \<Rightarrow> bool" where
  "startswith s p = (take (length p) s = p)"

text \<open>\<open>p in s\<close>: \<open>p\<close> occurs as a substring.\<close>

fun contains :: "string \<Rightarrow> string \<Rightarrow> bool" where
  "contains p [] = (p = [])"
| "contains p (c # s) = (startswith (c # s) p \<or> contains p s)"

text \<open>\<open>s.partition(sep)[2]\<close> for a one-character separator: what follows its first occurrence.\<close>

definition after_first :: "char \<Rightarrow> string \<Rightarrow> string" where
  "after_first c s = drop 1 (dropWhile (\<lambda>x. x \<noteq> c) s)"

text \<open>\<open>s.split(sep)[0]\<close>\<close>

definition before_first :: "char \<Rightarrow> string \<Rightarrow> string" where
  "before_first c s = takeWhile (\<lambda>x. x \<noteq> c) s"

fun dec_digits :: "nat \<Rightarrow> string" where
  "dec_digits n = (if n < 10 then [char_of (48 + n)]
                   else dec_digits (n div 10) @ [char_of (48 + n mod 10)])"

declare dec_digits.simps [simp del]

definition str_int :: "int \<Rightarrow> string" where
  "str_int i = (if i < 0 then CHR 0x2D # dec_digits (nat (- i)) else dec_digits (nat i))"

text \<open>\<open>list(dict.fromkeys(xs))\<close>: duplicates removed, first occurrences kept in order.\<close>

fun fromkeys :: "'a list \<Rightarrow> 'a list" where
  "fromkeys [] = []"
| "fromkeys (x # xs) = x # fromkeys (filter (\<lambda>y. y \<noteq> x) xs)"

lemma set_fromkeys [simp]: "set (fromkeys xs) = set xs"
  by (induction xs rule: fromkeys.induct) auto

lemma distinct_fromkeys [simp]: "distinct (fromkeys xs)"
  by (induction xs rule: fromkeys.induct) auto

lemma fromkeys_Nil [simp]: "fromkeys xs = [] \<longleftrightarrow> xs = []"
  by (cases xs) auto

lemma digit_range: "c \<in> set (dec_digits n) \<Longrightarrow> 48 \<le> code c \<and> code c \<le> 57"
proof (induction n rule: dec_digits.induct)
  case (1 n)
  have d: "48 \<le> code (char_of (48 + m)) \<and> code (char_of (48 + m)) \<le> 57" if "m < 10" for m :: nat
    using that by (simp add: code_def)
  show ?case
  proof (cases "n < 10")
    case True
    with 1 show ?thesis using d by (auto simp: dec_digits.simps [of n])
  next
    case False
    with 1 show ?thesis using d [of "n mod 10"] by (auto simp: dec_digits.simps [of n])
  qed
qed

lemma colon_not_digit: "CHR '':'' \<notin> set (str_int i)"
  using digit_range [of "CHR '':''"] by (auto simp: str_int_def code_def)

lemma after_first_prefix:
  "c \<notin> set p \<Longrightarrow> after_first c (p @ c # s) = s"
  by (induction p) (auto simp: after_first_def)

lemma startswith_iff: "startswith s p \<longleftrightarrow> (\<exists>v. s = p @ v)"
  by (metis append_eq_conv_conj append_take_drop_id startswith_def)

lemma contains_iff: "contains p s \<longleftrightarrow> (\<exists>u v. s = u @ p @ v)"
proof (induction s)
  case Nil
  then show ?case by simp
next
  case (Cons c s)
  have "(\<exists>u v. c # s = u @ p @ v) \<longleftrightarrow> (\<exists>v. c # s = p @ v) \<or> (\<exists>u v. s = u @ p @ v)"
    by (auto simp: Cons_eq_append_conv)
  with Cons show ?case by (simp add: startswith_iff)
qed

lemma dropWhile_no_lead: "dropWhile P s = c # t \<Longrightarrow> \<not> P c"
  by (induction s) (auto split: if_splits)

lemma strip_no_lead:
  assumes "strip s = c # t"
  shows "\<not> py_isspace c"
proof -
  define u where "u = lstrip s"
  obtain v where v: "u = strip s @ v"
    unfolding strip_def u_def [symmetric]
    by (metis rev_append rev_rev_ident takeWhile_dropWhile_id)
  with assms have "u = c # t @ v" by simp
  then show ?thesis by (auto simp: u_def lstrip_def dest: dropWhile_no_lead)
qed

lemma strip_no_trail:
  assumes "strip s = t @ [c]"
  shows "\<not> py_isspace c"
proof -
  have "dropWhile py_isspace (rev (lstrip s)) = c # rev t"
    using assms by (simp add: strip_def rev_swap)
  then show ?thesis by (rule dropWhile_no_lead)
qed

lemma dropWhile_first: "(xs = [] \<or> \<not> P (hd xs)) \<Longrightarrow> dropWhile P xs = xs"
  by (cases xs) auto

lemma strip_idem [simp]: "strip (strip s) = strip s"
proof -
  have lead: "lstrip (strip s) = strip s"
    unfolding lstrip_def
    by (rule dropWhile_first) (metis list.collapse strip_no_lead)
  have "dropWhile py_isspace (rev (strip s)) = rev (strip s)"
    by (rule dropWhile_first) (metis append_butlast_last_id hd_rev rev_is_Nil_conv strip_no_trail)
  with lead show ?thesis by (simp add: strip_def [of "strip s"])
qed

lemma strip_no_space: "\<not> (\<exists>c \<in> set s. py_isspace c) \<Longrightarrow> strip s = s"
proof -
  assume a: "\<not> (\<exists>c \<in> set s. py_isspace c)"
  then have "lstrip s = s" by (auto simp: lstrip_def intro!: dropWhile_first)
  moreover have "dropWhile py_isspace (rev s) = rev s"
    using a by (intro dropWhile_first) (cases "rev s"; force)
  ultimately show ?thesis by (simp add: strip_def)
qed

lemma py_lower_idem: "py_lower_char (py_lower_char c) = py_lower_char c"
proof (cases "(65 \<le> code c \<and> code c \<le> 90) \<or> (192 \<le> code c \<and> code c \<le> 222 \<and> code c \<noteq> 215)")
  case True
  have "code (char_of (code c + 32)) = (code c + 32) mod 256" by (simp add: code_def)
  also have "\<dots> = code c + 32" using True by auto
  finally have "code (char_of (code c + 32)) = code c + 32" .
  with True show ?thesis by (auto simp: py_lower_char_def Let_def)
next
  case False
  then show ?thesis by (auto simp: py_lower_char_def Let_def)
qed

lemma lower_idem [simp]: "lower (lower s) = lower s"
  by (simp add: lower_def py_lower_idem)

end
