(* ===== verification/Config.thy ===== *)
theory Config
  imports Py_Text
begin

text \<open>
  The application settings (\<open>app/config.py\<close>) with their declared defaults, and the start-up
  validation that refuses an unsafe production configuration.
\<close>

datatype app_env = Development | Test | Production

record settings =
  app_env :: app_env
  db_password :: string
  app_secret_key :: string
  field_encryption_key :: string
  field_encryption_key_version :: int
  phone_fingerprint_hmac_key :: string
  phone_fingerprint_key_version :: int
  health_token :: string
  email_notifications_enabled :: bool
  session_idle_minutes :: int
  session_absolute_hours :: int
  step_up_minutes :: int
  default_timezone :: string
  upload_max_bytes :: nat
  upload_max_expanded_bytes :: nat
  upload_max_rows :: nat
  upload_max_columns :: nat
  upload_max_cell_length :: nat
  import_expiry_hours :: int
  celery_task_always_eager :: bool
  lease_duration_minutes :: int
  max_skips_before_review :: int
  cookie_secure :: bool

definition default_settings :: settings where
  "default_settings = \<lparr>app_env = Development, db_password = '''', app_secret_key = '''',
     field_encryption_key = '''', field_encryption_key_version = 1,
     phone_fingerprint_hmac_key = '''', phone_fingerprint_key_version = 1, health_token = '''',
     email_notifications_enabled = False, session_idle_minutes = 30,
     session_absolute_hours = 8, step_up_minutes = 10, default_timezone = ''Africa/Harare'',
     upload_max_bytes = 10485760, upload_max_expanded_bytes = 209715200,
     upload_max_rows = 100000, upload_max_columns = 50, upload_max_cell_length = 500,
     import_expiry_hours = 72, celery_task_always_eager = False, lease_duration_minutes = 15,
     max_skips_before_review = 3, cookie_secure = True\<rparr>"

definition placeholder_markers :: "string list" where
  "placeholder_markers = [''change-me'', ''dev-only'', ''example'', ''not-for-prod'',
     ''placeholder'', ''replace-with'', ''test-secret'']"

datatype config_error =
  Too_short string nat | Placeholder_value string | Low_diversity string |
  Secrets_not_distinct | Cookie_not_secure | Eager_celery

text \<open>One iteration of the loop over \<open>required\<close>.\<close>

definition check_secret :: "string \<Rightarrow> string \<Rightarrow> nat \<Rightarrow> config_error option" where
  "check_secret name value minimum_length =
     (let normalized = lower (strip value) in
      if length value < minimum_length then Some (Too_short name minimum_length)
      else if list_ex (\<lambda>marker. contains marker normalized) placeholder_markers
      then Some (Placeholder_value name)
      else if length (remdups value) < 12 then Some (Low_diversity name)
      else None)"

fun check_secrets :: "(string \<times> string \<times> nat) list \<Rightarrow> config_error option" where
  "check_secrets [] = None"
| "check_secrets ((name, value, n) # rest) =
     (case check_secret name value n of Some e \<Rightarrow> Some e | None \<Rightarrow> check_secrets rest)"

definition required_secrets :: "settings \<Rightarrow> (string \<times> string \<times> nat) list" where
  "required_secrets s =
     [(''DB_PASSWORD'', db_password s, 24),
      (''APP_SECRET_KEY'', app_secret_key s, 32),
      (''FIELD_ENCRYPTION_KEY'', field_encryption_key s, 32),
      (''PHONE_FINGERPRINT_HMAC_KEY'', phone_fingerprint_hmac_key s, 32),
      (''HEALTH_TOKEN'', health_token s, 32)]"

definition validate_production_safety :: "settings \<Rightarrow> config_error option" where
  "validate_production_safety s =
     (if app_env s \<noteq> Production then None
      else case check_secrets (required_secrets s) of
        Some e \<Rightarrow> Some e
      | None \<Rightarrow>
          (if \<not> distinct (map (fst \<circ> snd) (required_secrets s)) then Some Secrets_not_distinct
           else if \<not> cookie_secure s then Some Cookie_not_secure
           else if celery_task_always_eager s then Some Eager_celery
           else None))"

text \<open>What a secret that passes the loop body satisfies.\<close>

definition strong_secret :: "string \<Rightarrow> nat \<Rightarrow> bool" where
  "strong_secret value n \<longleftrightarrow>
     n \<le> length value \<and> 12 \<le> card (set value) \<and>
     (\<forall>marker \<in> set placeholder_markers. \<not> (\<exists>u v. lower (strip value) = u @ marker @ v))"

lemma check_secret_None: "check_secret name value n = None \<longleftrightarrow> strong_secret value n"
  by (auto simp: check_secret_def strong_secret_def Let_def list_ex_iff contains_iff
      length_remdups_card_conv)

lemma check_secrets_None:
  "check_secrets xs = None \<longleftrightarrow> (\<forall>(name, value, n) \<in> set xs. strong_secret value n)"
  by (induction xs rule: check_secrets.induct)
    (auto simp: check_secret_None split: option.splits; metis check_secret_None option.distinct(1))+

end
