(* ===== verification/Schema.thy ===== *)
theory Schema
  imports Db_Prelude
begin

text \<open>
  The rows of the tables (\<open>app/models\<close>), the database as a record of tables, and the
  environment a service call reads: settings, the clock, identifier and token generators, and
  what the lock manager answers. A column that only the code itself writes, from a fixed set
  of values, is a datatype; a column that holds caller-supplied text is a string. Columns
  \<open>created_at\<close> and \<open>updated_at\<close> are kept where some service reads them.
\<close>

section \<open>Work items and call attempts\<close>

datatype work_state =
  Queued | Leased | Callback_wait | Retry_wait | Review | Completed | Suppressed | Cancelled

datatype lease_reason = Normal | Scheduled_callback | Delayed_retry | Immediate_redial

record work_item =
  wi_id :: uuid
  wi_campaign_contact_id :: uuid
  wi_batch_id :: "uuid option"
  wi_campaign_user_assignment_id :: "uuid option"
  wi_assigned_agent_id :: "uuid option"
  wi_state :: work_state
  wi_priority :: int
  wi_due_at :: "time option"
  wi_attempt_count :: int
  wi_max_attempts :: int
  wi_skip_count :: int
  wi_lease_owner_id :: "uuid option"
  wi_lease_id :: "uuid option"
  wi_lease_expires_at :: "time option"
  wi_version :: int
  wi_completed_at :: "time option"
  wi_lease_reason :: "lease_reason option"
  wi_created_at :: time

record call_attempt =
  at_id :: uuid
  at_work_item_id :: uuid
  at_campaign_contact_id :: uuid
  at_agent_id :: uuid
  at_campaign_user_assignment_id :: "uuid option"
  at_disposition_definition_id :: uuid
  at_semantic_outcome :: string
  at_notes_ciphertext :: "string option"
  at_self_reported_duration_seconds :: "int option"
  at_explicit_dnc_requested :: bool
  at_callback_at :: "time option"
  at_idempotency_key :: string
  at_resulting_work_item_state :: work_state
  at_correction_of_attempt_id :: "uuid option"
  at_created_at :: time
  at_source_lease_reason :: "lease_reason option"
  at_resulting_lease_id :: "uuid option"
  at_resulting_lease_expires_at :: "time option"

section \<open>Contacts and suppression\<close>

datatype contact_status = Contact_queued | Contact_suppressed | Contact_completed

record contact =
  co_id :: uuid
  co_phone_ciphertext :: string
  co_phone_fingerprint :: string
  co_phone_key_version :: int
  co_display_name :: "string option"

record campaign_contact =
  cc_id :: uuid
  cc_campaign_id :: uuid
  cc_contact_id :: uuid
  cc_original_phone_protected :: "string option"
  cc_campaign_name_value :: "string option"
  cc_approved_metadata :: "(string \<times> string) list option"
  cc_source_row_reference :: "nat option"
  cc_status :: contact_status
  cc_imported_at :: time
  cc_completed_at :: "time option"
  cc_completed_by_agent_id :: "uuid option"
  cc_final_disposition_code :: "string option"

record suppression_entry =
  se_id :: uuid
  se_organization_scope :: "uuid option"
  se_phone_fingerprint :: string
  se_protected_phone_value :: "string option"
  se_source :: string
  se_effective_at :: time
  se_status :: string
  se_created_by :: "uuid option"

section \<open>Campaigns, staffing, dispositions\<close>

datatype campaign_status = Draft | Active | Paused | Archived | Campaign_completed

datatype row_status = Row_active | Row_ended

record campaign =
  ca_id :: uuid
  ca_owning_scope_type :: string
  ca_owning_scope_id :: "uuid option"
  ca_external_code :: string
  ca_name :: string
  ca_description :: "string option"
  ca_purpose :: "string option"
  ca_data_source :: "string option"
  ca_data_obtained_at :: "time option"
  ca_lawful_basis :: "string option"
  ca_default_region :: string
  ca_timezone :: string
  ca_status :: campaign_status
  ca_created_by :: "uuid option"
  ca_launched_at :: "time option"
  ca_archived_at :: "time option"
  ca_completed_at :: "time option"
  ca_retention_delete_after :: "time option"
  ca_disposition_policy_version :: "int option"

record team_assignment =
  ta_id :: uuid
  ta_campaign_id :: uuid
  ta_team_id :: uuid
  ta_effective_from :: time
  ta_effective_to :: "time option"
  ta_status :: row_status
  ta_staffing_capacity :: "int option"
  ta_assigned_by :: "uuid option"

record user_assignment =
  ua_id :: uuid
  ua_campaign_id :: uuid
  ua_user_id :: uuid
  ua_team_id :: "uuid option"
  ua_campaign_role :: string
  ua_assignment_type :: string
  ua_effective_from :: time
  ua_effective_to :: "time option"
  ua_status :: row_status
  ua_priority :: "int option"
  ua_allocation_percentage :: "int option"
  ua_shift_reference :: "string option"
  ua_assigned_by :: "uuid option"

record disposition =
  di_id :: uuid
  di_campaign_id :: uuid
  di_label :: string
  di_stable_semantic_code :: string
  di_next_action :: "string option"
  di_requires_notes :: bool
  di_requires_callback_time :: bool
  di_counts_as_connected :: bool
  di_counts_as_conversion :: bool
  di_causes_dnc :: bool
  di_display_order :: int
  di_active :: bool
  di_is_standard :: bool
  di_retry_delay_minutes :: "int option"
  di_immediate_redial :: bool
  di_policy_version :: "int option"

section \<open>Flags and audit\<close>

record feature_flag =
  ff_flag_key :: string
  ff_enabled :: bool
  ff_updated_by :: "uuid option"

record audit_event =
  au_action :: string
  au_result :: string
  au_actor_user_id :: "uuid option"
  au_target_type :: "string option"
  au_target_id :: "uuid option"
  au_reason_code :: "string option"
  au_event_metadata :: "(string \<times> json) list"
  au_source_ip :: "string option"
  au_user_agent_summary :: "string option"

section \<open>Identity and authority\<close>

record user =
  us_id :: uuid
  us_workforce_id :: string
  us_email :: string
  us_display_name :: string
  us_password_hash :: "string option"
  us_totp_secret_ciphertext :: "string option"
  us_totp_enrolled :: bool
  us_workforce_status :: string
  us_active :: bool
  us_start_date :: "date option"
  us_end_date :: "date option"
  us_last_login_at :: "time option"
  us_disabled_at :: "time option"
  us_created_at :: time

record team =
  te_id :: uuid
  te_organization_id :: uuid
  te_external_code :: string
  te_name :: string
  te_parent_team_id :: "uuid option"
  te_default_timezone :: string
  te_status :: string

record organization =
  og_id :: uuid
  og_name :: string
  og_status :: string

record team_membership =
  tm_id :: uuid
  tm_team_id :: uuid
  tm_user_id :: uuid
  tm_membership_status :: row_status
  tm_effective_from :: time
  tm_effective_to :: "time option"
  tm_created_by :: "uuid option"
  tm_ended_at :: "time option"

record role_assignment =
  ra_id :: uuid
  ra_user_id :: uuid
  ra_role_code :: string
  ra_scope_type :: string
  ra_scope_id :: "uuid option"
  ra_effective_from :: time
  ra_effective_to :: "time option"
  ra_status :: row_status
  ra_reason_code :: "string option"
  ra_appointed_by :: "uuid option"
  ra_ended_at :: "time option"

record reporting_assignment =
  rp_id :: uuid
  rp_subordinate_user_id :: uuid
  rp_supervisor_user_id :: uuid
  rp_context_type :: string
  rp_context_id :: "uuid option"
  rp_effective_from :: time
  rp_effective_to :: "time option"
  rp_assignment_type :: string
  rp_status :: row_status
  rp_assigned_by :: "uuid option"
  rp_reason_code :: "string option"
  rp_ended_at :: "time option"

record delegation =
  dg_id :: uuid
  dg_delegator_user_id :: uuid
  dg_delegate_user_id :: uuid
  dg_capability_set :: "string list"
  dg_scope_type :: string
  dg_scope_id :: "uuid option"
  dg_effective_from :: time
  dg_effective_to :: "time option"
  dg_reason_code :: "string option"
  dg_approved_by :: "uuid option"
  dg_revoked_at :: "time option"
  dg_created_at :: time

section \<open>Sessions and activation tokens\<close>

record session =
  ss_id :: uuid
  ss_user_id :: uuid
  ss_token_hash :: string
  ss_last_seen_at :: "time option"
  ss_idle_expires_at :: time
  ss_absolute_expires_at :: time
  ss_revoked_at :: "time option"
  ss_source_summary :: "string option"
  ss_mfa_state :: string
  ss_reauthenticated_at :: "time option"

record activation_token =
  tk_id :: uuid
  tk_user_id :: uuid
  tk_token_hash :: string
  tk_purpose :: string
  tk_expires_at :: time
  tk_used_at :: "time option"
  tk_created_by :: "uuid option"

section \<open>Imports\<close>

datatype job_state = Uploaded | Quarantined | Parsing | Failed | Parsed | Committed | Expired

datatype validity = Valid | Invalid

datatype duplicate_category = In_file | In_campaign

record import_job =
  ij_id :: uuid
  ij_campaign_id :: uuid
  ij_uploader_id :: uuid
  ij_source_filename_display :: string
  ij_generated_storage_key :: string
  ij_file_hash :: string
  ij_state :: job_state
  ij_total_rows :: nat
  ij_valid_rows :: nat
  ij_invalid_rows :: nat
  ij_duplicate_rows :: nat
  ij_suppression_hits :: nat
  ij_decision_version :: int
  ij_idempotency_key :: "string option"
  ij_error_summary :: "string option"
  ij_expires_at :: "time option"
  ij_committed_at :: "time option"
  ij_committed_result :: "(nat \<times> nat) option"

record import_row =
  ir_import_job_id :: uuid
  ir_row_number :: nat
  ir_raw_phone_protected :: "string option"
  ir_phone_fingerprint :: "string option"
  ir_canonical_values :: "(string \<times> string) list option"
  ir_validation_result :: validity
  ir_validation_detail :: "string option"
  ir_duplicate_category :: "duplicate_category option"
  ir_suppression_match :: bool

record import_decision =
  id_import_job_id :: uuid
  id_decision_version :: int
  id_decision :: string
  id_decided_by :: uuid
  id_note :: "string option"
  id_created_at :: time

section \<open>Bulk workforce imports\<close>

datatype wf_validity = Row_valid | Row_warning | Row_invalid

datatype wf_risk = Routine | High_risk

text \<open>The stored authorization footprint: each requirement as the list it is serialized to.\<close>

record wf_footprint =
  fp_over_cap :: bool
  fp_requirements :: "json list list"

record wf_job =
  wj_id :: uuid
  wj_import_type :: string
  wj_uploader_id :: uuid
  wj_source_filename_display :: string
  wj_generated_storage_key :: string
  wj_file_hash :: string
  wj_state :: job_state
  wj_total_rows :: nat
  wj_valid_rows :: nat
  wj_warning_rows :: nat
  wj_invalid_rows :: nat
  wj_high_risk_rows :: nat
  wj_decision_version :: int
  wj_idempotency_key :: "string option"
  wj_error_summary :: "string option"
  wj_expires_at :: "time option"
  wj_committed_at :: "time option"
  wj_reversed_at :: "time option"
  wj_committed_result :: "(nat \<times> string) list option"
  wj_footprint :: "wf_footprint option"
  wj_created_at :: time

record wf_row =
  wr_id :: uuid
  wr_import_job_id :: uuid
  wr_row_number :: nat
  wr_action :: "string option"
  wr_external_workforce_id :: "string option"
  wr_normalized_identity :: "uuid option"
  wr_parsed_values :: "(string \<times> json) list option"
  wr_validation_result :: wf_validity
  wr_validation_detail :: "string option"
  wr_conflict_type :: "string option"
  wr_risk_level :: wf_risk
  wr_committed_entity_type :: "string option"
  wr_committed_entity_id :: "uuid option"
  wr_pre_commit_snapshot :: "(string \<times> json) list option"
  wr_reversed_at :: "time option"

record wf_decision =
  wd_import_job_id :: uuid
  wd_decision_version :: int
  wd_decision :: string
  wd_decision_tier :: string
  wd_decided_by :: uuid
  wd_note :: "string option"

section \<open>Notifications and gamification\<close>

record notification =
  nt_id :: uuid
  nt_recipient_user_id :: uuid
  nt_category :: string
  nt_title :: string
  nt_body :: "string option"
  nt_related_entity_type :: "string option"
  nt_related_entity_id :: "uuid option"
  nt_read_at :: "time option"
  nt_created_at :: time

record preference =
  pf_user_id :: uuid
  pf_enabled :: bool
  pf_celebrations_enabled :: bool
  pf_daily_goal :: "int option"

record achievement =
  ac_user_id :: uuid
  ac_achievement_code :: string
  ac_criteria_version :: int
  ac_awarded_at :: time

section \<open>The database\<close>

record db =
  work_items :: "work_item list"
  call_attempts :: "call_attempt list"
  contacts :: "contact list"
  campaign_contacts :: "campaign_contact list"
  suppression_entries :: "suppression_entry list"
  campaigns :: "campaign list"
  team_assignments :: "team_assignment list"
  user_assignments :: "user_assignment list"
  dispositions :: "disposition list"
  feature_flags :: "feature_flag list"
  audit_events :: "audit_event list"
  users :: "user list"
  teams :: "team list"
  organizations :: "organization list"
  team_memberships :: "team_membership list"
  role_assignments :: "role_assignment list"
  reporting_assignments :: "reporting_assignment list"
  delegations :: "delegation list"
  sessions :: "session list"
  activation_tokens :: "activation_token list"
  import_jobs :: "import_job list"
  import_rows :: "import_row list"
  import_decisions :: "import_decision list"
  wf_jobs :: "wf_job list"
  wf_rows :: "wf_row list"
  wf_decisions :: "wf_decision list"
  notifications :: "notification list"
  preferences :: "preference list"
  achievements :: "achievement list"

definition empty_db :: db where
  "empty_db = \<lparr>work_items = [], call_attempts = [], contacts = [], campaign_contacts = [],
     suppression_entries = [], campaigns = [], team_assignments = [], user_assignments = [],
     dispositions = [], feature_flags = [], audit_events = [], users = [], teams = [],
     organizations = [], team_memberships = [], role_assignments = [],
     reporting_assignments = [], delegations = [], sessions = [], activation_tokens = [],
     import_jobs = [], import_rows = [], import_decisions = [], wf_jobs = [], wf_rows = [],
     wf_decisions = [], notifications = [],
     preferences = [], achievements = []\<rparr>"

end
