(* ===== verification/Flags.thy ===== *)
theory Flags
  imports Schema
begin

text \<open>
  The audit log (\<open>app/audit/service.py\<close>) and the rollout flags (\<open>app/flags/service.py\<close>).
  An audit row's identifier and time are column defaults no service reads. The services pass no
  request context; the log-in flows pass the client's address and user agent
  (\<open>record_request_audit\<close>).
\<close>

section \<open>Audit log\<close>

definition record_request_audit ::
  "string \<Rightarrow> string \<Rightarrow> uuid option \<Rightarrow> string option \<Rightarrow> uuid option \<Rightarrow> string option
   \<Rightarrow> (string \<times> json) list \<Rightarrow> string option \<Rightarrow> string option \<Rightarrow> db \<Rightarrow> db" where
  "record_request_audit action result actor target_type target_id reason_code metadata source_ip
     user_agent_summary d =
     d\<lparr>audit_events := audit_events d @
        [\<lparr>au_action = action, au_result = result, au_actor_user_id = actor,
          au_target_type = target_type, au_target_id = target_id,
          au_reason_code = reason_code, au_event_metadata = metadata, au_source_ip = source_ip,
          au_user_agent_summary = user_agent_summary\<rparr>]\<rparr>"

definition record_audit ::
  "string \<Rightarrow> string \<Rightarrow> uuid option \<Rightarrow> string option \<Rightarrow> uuid option \<Rightarrow> string option
   \<Rightarrow> (string \<times> json) list \<Rightarrow> db \<Rightarrow> db" where
  "record_audit action result actor target_type target_id reason_code metadata d =
     d\<lparr>audit_events := audit_events d @
        [\<lparr>au_action = action, au_result = result, au_actor_user_id = actor,
          au_target_type = target_type, au_target_id = target_id,
          au_reason_code = reason_code, au_event_metadata = metadata, au_source_ip = None,
          au_user_agent_summary = None\<rparr>]\<rparr>"

text \<open>The audit trail grew by the events \<open>es\<close> and nothing before them changed.\<close>

definition audit_extends :: "db \<Rightarrow> audit_event list \<Rightarrow> db \<Rightarrow> bool" where
  "audit_extends d es d' \<longleftrightarrow> audit_events d' = audit_events d @ es"

lemma record_audit_sel [simp]:
  "work_items (record_audit a r u tt ti rc m d) = work_items d"
  "call_attempts (record_audit a r u tt ti rc m d) = call_attempts d"
  "contacts (record_audit a r u tt ti rc m d) = contacts d"
  "campaign_contacts (record_audit a r u tt ti rc m d) = campaign_contacts d"
  "suppression_entries (record_audit a r u tt ti rc m d) = suppression_entries d"
  "campaigns (record_audit a r u tt ti rc m d) = campaigns d"
  "team_assignments (record_audit a r u tt ti rc m d) = team_assignments d"
  "user_assignments (record_audit a r u tt ti rc m d) = user_assignments d"
  "dispositions (record_audit a r u tt ti rc m d) = dispositions d"
  "feature_flags (record_audit a r u tt ti rc m d) = feature_flags d"
  "users (record_audit a r u tt ti rc m d) = users d"
  "teams (record_audit a r u tt ti rc m d) = teams d"
  "organizations (record_audit a r u tt ti rc m d) = organizations d"
  "team_memberships (record_audit a r u tt ti rc m d) = team_memberships d"
  "role_assignments (record_audit a r u tt ti rc m d) = role_assignments d"
  "reporting_assignments (record_audit a r u tt ti rc m d) = reporting_assignments d"
  "delegations (record_audit a r u tt ti rc m d) = delegations d"
  "sessions (record_audit a r u tt ti rc m d) = sessions d"
  "activation_tokens (record_audit a r u tt ti rc m d) = activation_tokens d"
  "import_jobs (record_audit a r u tt ti rc m d) = import_jobs d"
  "import_rows (record_audit a r u tt ti rc m d) = import_rows d"
  "import_decisions (record_audit a r u tt ti rc m d) = import_decisions d"
  "notifications (record_audit a r u tt ti rc m d) = notifications d"
  "preferences (record_audit a r u tt ti rc m d) = preferences d"
  "achievements (record_audit a r u tt ti rc m d) = achievements d"
  by (simp_all add: record_audit_def)

lemma record_request_audit_sel [simp]:
  "users (record_request_audit a r u tt ti rc m ip ua d) = users d"
  "sessions (record_request_audit a r u tt ti rc m ip ua d) = sessions d"
  "activation_tokens (record_request_audit a r u tt ti rc m ip ua d) = activation_tokens d"
  by (simp_all add: record_request_audit_def)

lemma record_audit_events:
  "audit_events (record_audit a r u tt ti rc m d) =
     audit_events d @ [\<lparr>au_action = a, au_result = r, au_actor_user_id = u, au_target_type = tt,
       au_target_id = ti, au_reason_code = rc, au_event_metadata = m, au_source_ip = None,
       au_user_agent_summary = None\<rparr>]"
  by (simp add: record_audit_def)

section \<open>Feature flags\<close>

datatype flag_error =
  Feature_disabled string | Unknown_flag string | Permanently_disabled_flag string |
  Invalid_reason_code

definition permanently_disabled :: "string set" where
  "permanently_disabled = {''ai_enabled''}"

definition known_flags :: "string list" where
  "known_flags = [''campaign_import_enabled'', ''campaign_launch_enabled'',
     ''shared_pool_enabled'', ''callbacks_enabled'', ''viewer_enabled'',
     ''retention_execution_enabled'', ''analytics_enabled'', ''ai_enabled'',
     ''workforce_import_enabled'', ''deferred_bulk_activation_enabled'',
     ''standard_dispositions_enabled'', ''agent_gamification_enabled'']"

definition max_reason_code_length :: nat where
  "max_reason_code_length = 50"

definition get_flag :: "db \<Rightarrow> string \<Rightarrow> feature_flag option" where
  "get_flag d k = row_get ff_flag_key k (feature_flags d)"

definition put_flag :: "feature_flag \<Rightarrow> db \<Rightarrow> db" where
  "put_flag f d = d\<lparr>feature_flags := row_put ff_flag_key f (feature_flags d)\<rparr>"

definition is_enabled :: "db \<Rightarrow> string \<Rightarrow> bool" where
  "is_enabled d flag_key =
     (case get_flag d flag_key of None \<Rightarrow> False | Some f \<Rightarrow> ff_enabled f)"

definition require_enabled :: "db \<Rightarrow> string \<Rightarrow> flag_error option" where
  "require_enabled d flag_key =
     (if is_enabled d flag_key then None else Some (Feature_disabled flag_key))"

text \<open>The row \<open>set_flag\<close> writes: a new one, or the one it loaded with two columns set.\<close>

definition upsert_flag :: "string \<Rightarrow> bool \<Rightarrow> uuid \<Rightarrow> db \<Rightarrow> feature_flag \<times> db" where
  "upsert_flag flag_key enabled actor_id d =
     (case get_flag d flag_key of
        None \<Rightarrow>
          let flag = \<lparr>ff_flag_key = flag_key, ff_enabled = enabled, ff_updated_by = Some actor_id\<rparr>
          in (flag, d\<lparr>feature_flags := feature_flags d @ [flag]\<rparr>)
      | Some f \<Rightarrow>
          let flag = f\<lparr>ff_enabled := enabled, ff_updated_by := Some actor_id\<rparr>
          in (flag, put_flag flag d))"

definition set_flag ::
  "string \<Rightarrow> bool \<Rightarrow> uuid \<Rightarrow> string option \<Rightarrow> db
   \<Rightarrow> (flag_error, feature_flag, db) outcome" where
  "set_flag flag_key enabled actor_id reason_code d =
     (if flag_key \<notin> set known_flags then Inl (Unknown_flag flag_key)
      else if enabled \<and> flag_key \<in> permanently_disabled
      then Inl (Permanently_disabled_flag flag_key)
      else if (case reason_code of None \<Rightarrow> False | Some r \<Rightarrow> length r > max_reason_code_length)
      then Inl Invalid_reason_code
      else
        let (flag, d1) = upsert_flag flag_key enabled actor_id d;
            d2 = record_audit ''flags.set'' ''success'' (Some actor_id) (Some ''feature_flag'') None
                   reason_code [(''flag_key'', JStr flag_key), (''enabled'', JBool enabled)] d1
        in Inr (flag, d2))"

interpretation flag_table: row_table get_flag put_flag ff_flag_key
  by unfold_locales (auto simp: get_flag_def put_flag_def row_get_put dest: row_get_Some)

lemma upsert_flag_get:
  "upsert_flag k e u d = (f, d1) \<Longrightarrow>
     get_flag d1 j = (if j = k then
       Some \<lparr>ff_flag_key = k, ff_enabled = e, ff_updated_by = Some u\<rparr> else get_flag d j)"
proof (cases "get_flag d k")
  case None
  then show "upsert_flag k e u d = (f, d1) \<Longrightarrow> ?thesis"
    by (auto simp: upsert_flag_def Let_def get_flag_def row_get_snoc)
next
  case (Some f0)
  then have "ff_flag_key f0 = k" by (rule flag_table.get_key)
  with Some show "upsert_flag k e u d = (f, d1) \<Longrightarrow> ?thesis"
    by (auto simp: upsert_flag_def Let_def flag_table.get_put)
qed

lemma upsert_flag_audit:
  "upsert_flag k e u d = (f, d1) \<Longrightarrow> audit_events d1 = audit_events d"
  by (auto simp: upsert_flag_def put_flag_def Let_def split: option.splits)

lemma get_flag_audit [simp]: "get_flag (record_audit a r u tt ti rc m d) k = get_flag d k"
  by (simp add: get_flag_def)

lemma is_enabled_audit [simp]: "is_enabled (record_audit a r u tt ti rc m d) k = is_enabled d k"
  by (simp add: is_enabled_def)

lemma set_flag_success:
  assumes "set_flag k e u r d = Inr (f, d')"
  obtains d1 where "k \<in> set known_flags" and "\<not> (e \<and> k \<in> permanently_disabled)"
    and "upsert_flag k e u d = (f, d1)"
    and "d' = record_audit ''flags.set'' ''success'' (Some u) (Some ''feature_flag'') None r
               [(''flag_key'', JStr k), (''enabled'', JBool e)] d1"
  using assms by (auto simp: set_flag_def Let_def split: if_splits prod.splits)

text \<open>
  A successful \<open>set_flag\<close> sets exactly the named flag, leaves every other flag as it
  was, appends one audit event, and never enables a permanently disabled flag.
\<close>

theorem set_flag_effect:
  assumes "set_flag k e u r d = Inr (f, d')"
  shows "is_enabled d' j = (if j = k then e else is_enabled d j)
    \<and> (e \<longrightarrow> k \<notin> permanently_disabled)
    \<and> length (audit_events d') = Suc (length (audit_events d))"
  using assms
  by (rule set_flag_success)
    (auto simp: is_enabled_def upsert_flag_get record_audit_events upsert_flag_audit)

theorem set_flag_effect_witness:
  "\<exists>f d'. set_flag ''callbacks_enabled'' True 7 None empty_db = Inr (f, d')
     \<and> is_enabled d' ''callbacks_enabled''"
proof -
  have "\<exists>f d'. set_flag ''callbacks_enabled'' True 7 None empty_db = Inr (f, d')"
    by (simp add: set_flag_def known_flags_def permanently_disabled_def split: prod.splits)
  then obtain f d' where s: "set_flag ''callbacks_enabled'' True 7 None empty_db = Inr (f, d')"
    by blast
  from set_flag_effect [OF s, of "''callbacks_enabled''"] s show ?thesis by auto
qed

end
