(* ===== verification/Security.thy ===== *)
theory Security
  imports Config
begin

text \<open>
  Field encryption, tokens, password verification, phone protection (\<open>app/security\<close>), the
  password policy and the CSRF tokens (\<open>app/auth/password_policy.py\<close>, \<open>csrf.py\<close>). The
  packages they call (Fernet, SHA-256, HMAC, Argon2, phonenumbers, itsdangerous, pyotp) are the
  fields of \<open>crypto\<close>, arguments of the definitions; a field that may raise returns an option.
\<close>

record crypto =
  fernet_encrypt :: "string \<Rightarrow> string"
  fernet_decrypt :: "string \<Rightarrow> string option"
  sha256_hex :: "string \<Rightarrow> string"
  hmac_sha256_hex :: "string \<Rightarrow> string \<Rightarrow> string"
  argon2_hash :: "string \<Rightarrow> string"
  argon2_verify :: "string \<Rightarrow> string \<Rightarrow> bool"
  totp_check :: "string \<Rightarrow> string \<Rightarrow> bool"
  phone_parse :: "string \<Rightarrow> string \<Rightarrow> (string, nat) sum"
  phone_is_valid :: "nat \<Rightarrow> bool"
  phone_format_e164 :: "nat \<Rightarrow> string"
  signer_dumps :: "string \<Rightarrow> string"
  signer_loads :: "int \<Rightarrow> string \<Rightarrow> string option"

section \<open>Field encryption\<close>

definition encrypt :: "crypto \<Rightarrow> settings \<Rightarrow> string \<Rightarrow> string" where
  "encrypt c cfg plaintext =
     ''v'' @ str_int (field_encryption_key_version cfg) @ '':'' @ fernet_encrypt c plaintext"

definition decrypt :: "crypto \<Rightarrow> string \<Rightarrow> string option" where
  "decrypt c ciphertext = fernet_decrypt c (after_first (CHR '':'') ciphertext)"

text \<open>
  Whatever the key version, decrypting an encrypted value gives the value back (Fernet is
  assumed to invert itself under one key).
\<close>

theorem decrypt_encrypt:
  assumes "\<forall>x. fernet_decrypt c (fernet_encrypt c x) = Some x"
  shows "decrypt c (encrypt c cfg s) = Some s"
proof -
  let ?p = "CHR ''v'' # str_int (field_encryption_key_version cfg)"
  have "CHR '':'' \<notin> set ?p" by (simp add: colon_not_digit)
  then have "after_first (CHR '':'') (?p @ CHR '':'' # fernet_encrypt c s) = fernet_encrypt c s"
    by (rule after_first_prefix)
  then show ?thesis using assms by (simp add: decrypt_def encrypt_def)
qed

definition rot_crypto :: crypto where
  "rot_crypto = \<lparr>fernet_encrypt = rev, fernet_decrypt = (\<lambda>s. Some (rev s)), sha256_hex = id,
     hmac_sha256_hex = (@), argon2_hash = id, argon2_verify = (=), totp_check = (=),
     phone_parse = (\<lambda>raw region. Inr (length raw)), phone_is_valid = (\<lambda>n. 6 < n),
     phone_format_e164 = dec_digits, signer_dumps = id, signer_loads = (\<lambda>age s. Some s)\<rparr>"

theorem decrypt_encrypt_witness:
  "decrypt rot_crypto (encrypt rot_crypto default_settings ''notes: 1'') = Some ''notes: 1''"
  by (rule decrypt_encrypt) (simp add: rot_crypto_def)

section \<open>Phones\<close>

datatype phone_error = Number_parse_error string | Not_a_valid_number string

record protected_phone =
  pp_e164 :: string
  pp_ciphertext :: string
  pp_fingerprint :: string
  pp_fingerprint_key_version :: int

definition normalize_to_e164 :: "crypto \<Rightarrow> string \<Rightarrow> string \<Rightarrow> phone_error + string" where
  "normalize_to_e164 c raw default_region =
     (case phone_parse c raw default_region of
        Inl e \<Rightarrow> Inl (Number_parse_error e)
      | Inr parsed \<Rightarrow>
          (if \<not> phone_is_valid c parsed then Inl (Not_a_valid_number default_region)
           else Inr (phone_format_e164 c parsed)))"

definition fingerprint :: "crypto \<Rightarrow> settings \<Rightarrow> string \<Rightarrow> string" where
  "fingerprint c cfg e164 = hmac_sha256_hex c (phone_fingerprint_hmac_key cfg) e164"

definition protect :: "crypto \<Rightarrow> settings \<Rightarrow> string \<Rightarrow> string \<Rightarrow> phone_error + protected_phone" where
  "protect c cfg raw default_region =
     (case normalize_to_e164 c raw default_region of
        Inl e \<Rightarrow> Inl e
      | Inr e164 \<Rightarrow> Inr \<lparr>pp_e164 = e164, pp_ciphertext = encrypt c cfg e164,
          pp_fingerprint = fingerprint c cfg e164,
          pp_fingerprint_key_version = phone_fingerprint_key_version cfg\<rparr>)"

lemma protect_same_number:
  assumes "protect c cfg raw1 r1 = Inr p1" and "protect c cfg raw2 r2 = Inr p2"
    and "pp_e164 p1 = pp_e164 p2"
  shows "pp_fingerprint p1 = pp_fingerprint p2"
  using assms by (auto simp: protect_def split: sum.splits)

section \<open>Passwords and tokens\<close>

definition hash_token :: "crypto \<Rightarrow> string \<Rightarrow> string" where
  "hash_token c token = sha256_hex c token"

definition hash_password :: "crypto \<Rightarrow> string \<Rightarrow> string" where
  "hash_password c password = argon2_hash c password"

definition verify_password :: "crypto \<Rightarrow> string \<Rightarrow> string option \<Rightarrow> bool" where
  "verify_password c password password_hash =
     (case password_hash of
        None \<Rightarrow> False
      | Some h \<Rightarrow> (if h = '''' then False else argon2_verify c password h))"

definition min_password_length :: nat where "min_password_length = 12"

definition common_passwords :: "string list" where
  "common_passwords = [''password'', ''password1'', ''password123'', ''passw0rd'', ''p@ssw0rd'',
     ''p@ssword'', ''123456'', ''1234567'', ''12345678'', ''123456789'', ''1234567890'', ''12345'',
     ''qwerty'', ''qwerty123'', ''qwertyuiop'', ''letmein'', ''letmein123'', ''welcome'',
     ''welcome1'', ''welcome123'', ''admin'', ''administrator'', ''changeme'', ''changeme123'',
     ''iloveyou'', ''monkey'', ''dragon'', ''football'', ''baseball'', ''basketball'', ''master'',
     ''superman'', ''batman'', ''trustno1'', ''shadow'', ''abc123'', ''abc12345'', ''123123'',
     ''111111'', ''000000'', ''666666'', ''sunshine'', ''princess'', ''flower'', ''hunter2'',
     ''starwars'', ''solo'', ''correcthorsebatterystaple'']"

datatype weak_password = Password_too_short | Password_too_common | Password_is_identity

definition validate_password_strength :: "string \<Rightarrow> string list \<Rightarrow> weak_password option" where
  "validate_password_strength password context =
     (if length password < min_password_length then Some Password_too_short
      else
        let normalized = lower (strip password) in
        if normalized \<in> set common_passwords then Some Password_too_common
        else if list_ex (\<lambda>term. lower (strip term) \<noteq> '''' \<and> lower (strip term) = normalized) context
        then Some Password_is_identity
        else None)"

text \<open>
  A password is accepted exactly when it is long enough and its trimmed, lower-cased form is
  neither a listed common password nor a non-blank identity term; so trimming and case are no
  way around the list.
\<close>

theorem password_accepted_iff:
  "validate_password_strength p ctx = None \<longleftrightarrow>
     min_password_length \<le> length p
     \<and> lower (strip p) \<notin> set common_passwords
     \<and> (\<forall>t \<in> set ctx. lower (strip t) = lower (strip p) \<longrightarrow> lower (strip t) = '''')"
  by (auto simp: validate_password_strength_def Let_def list_ex_iff)

theorem password_accepted_iff_witness:
  "validate_password_strength ''  Administrator '' [] = Some Password_too_common
   \<and> validate_password_strength ''a long passphrase'' [''admin''] = None"
proof -
  have n: "lower (strip ''  Administrator '') = ''administrator''"
    by code_simp
  have p: "lower (strip ''a long passphrase'') = ''a long passphrase''" by code_simp
  have "lower (strip ''admin'') = ''admin''" by code_simp
  then have "validate_password_strength ''a long passphrase'' [''admin''] = None"
    by (subst password_accepted_iff) (simp add: p min_password_length_def common_passwords_def)
  moreover have "validate_password_strength ''  Administrator '' [] = Some Password_too_common"
    by (simp add: validate_password_strength_def n min_password_length_def common_passwords_def)
  ultimately show ?thesis by simp
qed

section \<open>CSRF tokens\<close>

definition csrf_max_age :: int where "csrf_max_age = 28800"

definition csrf_issue :: "crypto \<Rightarrow> string \<Rightarrow> string" where
  "csrf_issue c session_id = signer_dumps c session_id"

definition csrf_validate :: "crypto \<Rightarrow> string option \<Rightarrow> string \<Rightarrow> bool" where
  "csrf_validate c token session_id =
     (case token of
        None \<Rightarrow> False
      | Some t \<Rightarrow>
          (if t = '''' then False
           else case signer_loads c csrf_max_age t of
             None \<Rightarrow> False
           | Some decoded \<Rightarrow> decoded = session_id))"

text \<open>A token issued for one session validates for that session and for no other.\<close>

lemma csrf_bound_to_session:
  assumes "\<And>x. signer_loads c csrf_max_age (signer_dumps c x) = Some x"
    and "\<And>x. signer_dumps c x \<noteq> ''''"
  shows "csrf_validate c (Some (csrf_issue c a)) b \<longleftrightarrow> a = b"
  by (simp add: csrf_validate_def csrf_issue_def assms)

end
