(* ===== verification/Runtime.thy ===== *)
theory Runtime
  imports Schema Flags Security
begin

text \<open>
  What a service call reads from its surroundings: the successive \<open>utcnow()\<close> readings and
  random identifiers of the call, and the answers of the lock manager. Also the lock numbers of
  \<open>app/db_locks.py\<close>, effective-dated windows, and the row access of the tables.
\<close>

record env =
  clk :: "nat \<Rightarrow> time"
  fresh_id :: "nat \<Rightarrow> uuid"
  fresh_token :: "nat \<Rightarrow> string"
  phone_busy :: "string \<Rightarrow> bool"
  row_busy :: "uuid \<Rightarrow> bool"

text \<open>No other transaction holds a phone or a row this call asks for.\<close>

definition quiet :: "env \<Rightarrow> bool" where
  "quiet e \<longleftrightarrow> (\<forall>f. \<not> phone_busy e f) \<and> (\<forall>i. \<not> row_busy e i)"

section \<open>Advisory lock numbers\<close>

fun from_bytes_big :: "nat \<Rightarrow> nat list \<Rightarrow> nat" where
  "from_bytes_big acc [] = acc"
| "from_bytes_big acc (b # bs) = from_bytes_big (acc * 256 + b) bs"

text \<open>\<open>int.from_bytes(bs, "big", signed=True)\<close>\<close>

definition from_bytes_signed :: "nat list \<Rightarrow> int" where
  "from_bytes_signed bs =
     (let v = int (from_bytes_big 0 bs); n = length bs in
      if 2 * v \<ge> 256 ^ n then v - 256 ^ n else v)"

definition phone_fingerprint_lock_id :: "(string \<Rightarrow> nat list) \<Rightarrow> string \<Rightarrow> int" where
  "phone_fingerprint_lock_id sha256 phone_fingerprint =
     from_bytes_signed (take 8 (sha256 (''ciphercontact:phone-suppression:v1:'' @ phone_fingerprint)))"

definition idempotency_lock_id ::
  "(string \<Rightarrow> nat list) \<Rightarrow> (uuid \<Rightarrow> string) \<Rightarrow> string \<Rightarrow> uuid \<Rightarrow> string \<Rightarrow> int" where
  "idempotency_lock_id sha256 str_uuid namespace actor_id idempotency_key =
     from_bytes_signed (take 8 (sha256
       (namespace @ '':'' @ str_uuid actor_id @ '':'' @ idempotency_key)))"

definition initial_super_admin_bootstrap_lock_id :: "(string \<Rightarrow> nat list) \<Rightarrow> int" where
  "initial_super_admin_bootstrap_lock_id sha256 =
     from_bytes_signed (take 8 (sha256 ''ciphercontact:initial-super-admin-bootstrap:v1''))"

lemma from_bytes_big_bound:
  "\<forall>b \<in> set bs. b < 256 \<Longrightarrow> from_bytes_big acc bs < (acc + 1) * 256 ^ length bs"
proof (induction acc bs rule: from_bytes_big.induct)
  case (1 acc)
  then show ?case by simp
next
  case (2 acc b bs)
  then have "from_bytes_big acc (b # bs) < (acc * 256 + b + 1) * 256 ^ length bs" by simp
  also have "\<dots> \<le> ((acc + 1) * 256) * 256 ^ length bs"
    using 2(2) by (intro mult_right_mono) auto
  finally show ?case by (simp add: algebra_simps)
qed

text \<open>Eight bytes give a number in PostgreSQL's signed 64-bit range.\<close>

lemma from_bytes_signed_range:
  assumes "length bs = 8" and "\<forall>b \<in> set bs. b < 256"
  shows "- (2 ^ 63) \<le> from_bytes_signed bs \<and> from_bytes_signed bs < 2 ^ 63"
proof -
  have "from_bytes_big 0 bs < 256 ^ 8"
    using from_bytes_big_bound [OF assms(2), of 0] assms(1) by simp
  then have "int (from_bytes_big 0 bs) < 256 ^ 8"
    by (metis of_nat_less_iff of_nat_numeral of_nat_power)
  then show ?thesis using assms(1) by (auto simp: from_bytes_signed_def Let_def)
qed

section \<open>Effective-dated rows\<close>

definition effective_at :: "time \<Rightarrow> time option \<Rightarrow> time \<Rightarrow> bool" where
  "effective_at effective_from effective_to now \<longleftrightarrow>
     effective_from \<le> now \<and> (case effective_to of None \<Rightarrow> True | Some t \<Rightarrow> now < t)"

lemma ended_not_effective: "t \<le> now \<Longrightarrow> \<not> effective_at f (Some t) now"
  by (simp add: effective_at_def)

section \<open>Row access\<close>

definition get_work_item :: "db \<Rightarrow> uuid \<Rightarrow> work_item option" where
  "get_work_item d i = row_get wi_id i (work_items d)"

definition put_work_item :: "work_item \<Rightarrow> db \<Rightarrow> db" where
  "put_work_item w d = d\<lparr>work_items := row_put wi_id w (work_items d)\<rparr>"

definition get_campaign_contact :: "db \<Rightarrow> uuid \<Rightarrow> campaign_contact option" where
  "get_campaign_contact d i = row_get cc_id i (campaign_contacts d)"

definition put_campaign_contact :: "campaign_contact \<Rightarrow> db \<Rightarrow> db" where
  "put_campaign_contact c d = d\<lparr>campaign_contacts := row_put cc_id c (campaign_contacts d)\<rparr>"

definition get_contact :: "db \<Rightarrow> uuid \<Rightarrow> contact option" where
  "get_contact d i = row_get co_id i (contacts d)"

definition get_campaign :: "db \<Rightarrow> uuid \<Rightarrow> campaign option" where
  "get_campaign d i = row_get ca_id i (campaigns d)"

definition put_campaign :: "campaign \<Rightarrow> db \<Rightarrow> db" where
  "put_campaign c d = d\<lparr>campaigns := row_put ca_id c (campaigns d)\<rparr>"

definition get_disposition :: "db \<Rightarrow> uuid \<Rightarrow> disposition option" where
  "get_disposition d i = row_get di_id i (dispositions d)"

definition get_user :: "db \<Rightarrow> uuid \<Rightarrow> user option" where
  "get_user d i = row_get us_id i (users d)"

definition put_user :: "user \<Rightarrow> db \<Rightarrow> db" where
  "put_user u d = d\<lparr>users := row_put us_id u (users d)\<rparr>"

interpretation work_item_table: row_table get_work_item put_work_item wi_id
  by unfold_locales (auto simp: get_work_item_def put_work_item_def row_get_put dest: row_get_Some)

interpretation campaign_contact_table:
  row_table get_campaign_contact put_campaign_contact cc_id
  by unfold_locales
    (auto simp: get_campaign_contact_def put_campaign_contact_def row_get_put dest: row_get_Some)

interpretation campaign_table: row_table get_campaign put_campaign ca_id
  by unfold_locales (auto simp: get_campaign_def put_campaign_def row_get_put dest: row_get_Some)

interpretation user_table: row_table get_user put_user us_id
  by unfold_locales (auto simp: get_user_def put_user_def row_get_put dest: row_get_Some)

lemma put_work_item_sel [simp]:
  "work_items (put_work_item w d) = row_put wi_id w (work_items d)"
  "call_attempts (put_work_item w d) = call_attempts d"
  "contacts (put_work_item w d) = contacts d"
  "campaign_contacts (put_work_item w d) = campaign_contacts d"
  "suppression_entries (put_work_item w d) = suppression_entries d"
  "campaigns (put_work_item w d) = campaigns d"
  "user_assignments (put_work_item w d) = user_assignments d"
  "dispositions (put_work_item w d) = dispositions d"
  "feature_flags (put_work_item w d) = feature_flags d"
  "audit_events (put_work_item w d) = audit_events d"
  by (simp_all add: put_work_item_def)

lemma put_campaign_contact_sel [simp]:
  "work_items (put_campaign_contact c d) = work_items d"
  "call_attempts (put_campaign_contact c d) = call_attempts d"
  "contacts (put_campaign_contact c d) = contacts d"
  "campaign_contacts (put_campaign_contact c d) = row_put cc_id c (campaign_contacts d)"
  "suppression_entries (put_campaign_contact c d) = suppression_entries d"
  "campaigns (put_campaign_contact c d) = campaigns d"
  "user_assignments (put_campaign_contact c d) = user_assignments d"
  "dispositions (put_campaign_contact c d) = dispositions d"
  "feature_flags (put_campaign_contact c d) = feature_flags d"
  "audit_events (put_campaign_contact c d) = audit_events d"
  by (simp_all add: put_campaign_contact_def)

lemma put_campaign_sel [simp]:
  "work_items (put_campaign c d) = work_items d"
  "call_attempts (put_campaign c d) = call_attempts d"
  "contacts (put_campaign c d) = contacts d"
  "campaign_contacts (put_campaign c d) = campaign_contacts d"
  "suppression_entries (put_campaign c d) = suppression_entries d"
  "campaigns (put_campaign c d) = row_put ca_id c (campaigns d)"
  "user_assignments (put_campaign c d) = user_assignments d"
  "team_assignments (put_campaign c d) = team_assignments d"
  "dispositions (put_campaign c d) = dispositions d"
  "feature_flags (put_campaign c d) = feature_flags d"
  "audit_events (put_campaign c d) = audit_events d"
  by (simp_all add: put_campaign_def)

end
