(* ===== verification/Rate_Limit.thy ===== *)
theory Rate_Limit
  imports Config
begin

text \<open>
  The fixed-window rate limiters of \<open>app/auth/ratelimit.py\<close>. Redis is a map from keys to a
  count with an expiry; a command at time \<open>now\<close> sees no key whose expiry has passed. SHA-256
  (\<open>digest\<close>) and the availability of each Redis command (\<open>up i\<close>) are parameters. Counts
  are not part of the database transaction: they stay when a request is rolled back.
\<close>

type_synonym redis = "string \<rightharpoonup> (nat \<times> time option)"

definition window_seconds :: int where "window_seconds = 900"
definition account_limit :: nat where "account_limit = 10"
definition source_limit :: nat where "source_limit = 500"
definition global_limit :: nat where "global_limit = 5000"
definition activation_source_limit :: nat where "activation_source_limit = 50"
definition activation_global_limit :: nat where "activation_global_limit = 500"
definition work_lease_limit :: nat where "work_lease_limit = 300"

text \<open>What Redis serves for a key at an instant.\<close>

definition redis_get :: "redis \<Rightarrow> time \<Rightarrow> string \<Rightarrow> (nat \<times> time option) option" where
  "redis_get r now k =
     (case r k of
        None \<Rightarrow> None
      | Some (c, None) \<Rightarrow> Some (c, None)
      | Some (c, Some t) \<Rightarrow> (if t \<le> now then None else Some (c, Some t)))"

text \<open>The Lua script: \<open>INCR\<close>, and \<open>EXPIRE\<close> when the count became 1.\<close>

definition increment_script :: "string \<Rightarrow> time \<Rightarrow> redis \<Rightarrow> nat \<times> redis" where
  "increment_script k now r =
     (let (c, e) = (case redis_get r now k of None \<Rightarrow> (1, None) | Some (c, e) \<Rightarrow> (Suc c, e));
          e' = (if c = 1 then Some (now + seconds window_seconds) else e)
      in (c, r(k \<mapsto> (c, e'))))"

definition increment :: "string \<Rightarrow> nat \<Rightarrow> time \<Rightarrow> redis \<Rightarrow> bool \<times> redis" where
  "increment k limit now r = (let (c, r') = increment_script k now r in (c \<le> limit, r'))"

definition limiter_key :: "(string \<Rightarrow> string) \<Rightarrow> string \<Rightarrow> string \<Rightarrow> string \<Rightarrow> string" where
  "limiter_key digest namespace signal value = namespace @ '':'' @ signal @ '':'' @ digest value"

text \<open>
  The tuple of decisions: every signal is counted, in order, before any is looked at. An
  unavailable Redis raises at that command; the counts of the earlier ones stay.
\<close>

fun count_signals ::
  "(nat \<Rightarrow> bool) \<Rightarrow> nat \<Rightarrow> time \<Rightarrow> (string \<times> nat) list \<Rightarrow> redis \<Rightarrow> bool list option \<times> redis" where
  "count_signals up i now [] r = (Some [], r)"
| "count_signals up i now ((k, limit) # rest) r =
     (if \<not> up i then (None, r)
      else
        let (b, r1) = increment k limit now r;
            (bs, r2) = count_signals up (Suc i) now rest r1
        in (map_option ((#) b) bs, r2))"

text \<open>The \<open>except\<close> branch: bypass only outside production.\<close>

definition decide :: "app_env \<Rightarrow> bool list option \<times> redis \<Rightarrow> bool \<times> redis" where
  "decide env result =
     (case result of
        (None, r) \<Rightarrow> (env \<noteq> Production, r)
      | (Some decisions, r) \<Rightarrow> (list_all id decisions, r))"

definition login_signals :: "(string \<Rightarrow> string) \<Rightarrow> string \<Rightarrow> string option \<Rightarrow> (string \<times> nat) list" where
  "login_signals digest account source =
     [(limiter_key digest ''login_attempts'' ''account'' account, account_limit),
      (limiter_key digest ''login_attempts'' ''source''
         (case source of None \<Rightarrow> ''unknown'' | Some s \<Rightarrow> if s = '''' then ''unknown'' else s),
       source_limit),
      (''login_attempts:global'', global_limit)]"

definition check_and_increment ::
  "(string \<Rightarrow> string) \<Rightarrow> (nat \<Rightarrow> bool) \<Rightarrow> settings \<Rightarrow> time \<Rightarrow> string \<Rightarrow> string option \<Rightarrow> redis
   \<Rightarrow> bool \<times> redis" where
  "check_and_increment digest up cfg now account source r =
     decide (app_env cfg) (count_signals up 0 now (login_signals digest account source) r)"

definition reset_account :: "(string \<Rightarrow> string) \<Rightarrow> (nat \<Rightarrow> bool) \<Rightarrow> string \<Rightarrow> redis \<Rightarrow> redis" where
  "reset_account digest up account r =
     (if up 0 then r(limiter_key digest ''login_attempts'' ''account'' account := None) else r)"

definition check_and_increment_work_lease ::
  "(string \<Rightarrow> string) \<Rightarrow> (nat \<Rightarrow> bool) \<Rightarrow> settings \<Rightarrow> time \<Rightarrow> string \<Rightarrow> redis \<Rightarrow> bool \<times> redis" where
  "check_and_increment_work_lease digest up cfg now agent_id r =
     decide (app_env cfg)
       (count_signals up 0 now
          [(limiter_key digest ''work_lease_attempts'' ''agent'' agent_id, work_lease_limit)] r)"

definition activation_signals :: "(string \<Rightarrow> string) \<Rightarrow> string option \<Rightarrow> (string \<times> nat) list" where
  "activation_signals digest source =
     [(limiter_key digest ''activation_attempts'' ''source''
         (case source of None \<Rightarrow> ''unknown'' | Some s \<Rightarrow> if s = '''' then ''unknown'' else s),
       activation_source_limit),
      (''activation_attempts:global'', activation_global_limit)]"

definition check_and_increment_activation ::
  "(string \<Rightarrow> string) \<Rightarrow> (nat \<Rightarrow> bool) \<Rightarrow> settings \<Rightarrow> time \<Rightarrow> string option \<Rightarrow> redis
   \<Rightarrow> bool \<times> redis" where
  "check_and_increment_activation digest up cfg now source r =
     decide (app_env cfg) (count_signals up 0 now (activation_signals digest source) r)"

section \<open>One key over a window\<close>

text \<open>The decisions of successive attempts on one key at the given times.\<close>

fun attempts :: "string \<Rightarrow> nat \<Rightarrow> time list \<Rightarrow> redis \<Rightarrow> bool list" where
  "attempts k limit [] r = []"
| "attempts k limit (t # ts) r =
     (let (b, r') = increment k limit t r in b # attempts k limit ts r')"

lemma increment_live:
  assumes "r k = Some (c, Some e)" and "t < e" and "0 < c"
  shows "increment k limit t r = (Suc c \<le> limit, r(k \<mapsto> (Suc c, Some e)))"
  using assms by (simp add: increment_def increment_script_def redis_get_def)

lemma increment_fresh:
  assumes "redis_get r t k = None"
  shows "increment k limit t r = (1 \<le> limit, r(k \<mapsto> (1, Some (t + seconds window_seconds))))"
  using assms by (simp add: increment_def increment_script_def)

lemma attempts_live:
  assumes "r k = Some (c, Some e)" and "0 < c" and "\<forall>t \<in> set ts. t < e"
  shows "attempts k limit ts r = map (\<lambda>i. c + i < limit) [0..<length ts]"
  using assms
proof (induction ts arbitrary: r c)
  case Nil
  then show ?case by simp
next
  case (Cons t ts)
  have "attempts k limit ts (r(k \<mapsto> (Suc c, Some e))) =
        map (\<lambda>i. Suc c + i < limit) [0..<length ts]"
    using Cons.prems by (intro Cons.IH) auto
  moreover have "[0..<length (t # ts)] = 0 # map Suc [0..<length ts]"
    by (simp add: map_Suc_upt upt_conv_Cons del: upt_Suc)
  ultimately show ?case
    using Cons.prems by (simp add: increment_live Suc_le_eq o_def del: upt_Suc)
qed

lemma attempts_window:
  assumes "redis_get r t0 k = None" and "\<forall>t \<in> set ts. t < t0 + seconds window_seconds"
  shows "attempts k limit (t0 # ts) r = map (\<lambda>i. i < limit) [0..<Suc (length ts)]"
proof -
  have "attempts k limit ts (r(k \<mapsto> (1, Some (t0 + seconds window_seconds)))) =
        map (\<lambda>i. 1 + i < limit) [0..<length ts]"
    using assms(2) by (intro attempts_live) auto
  moreover have "[0..<Suc (length ts)] = 0 # map Suc [0..<length ts]"
    by (simp add: map_Suc_upt upt_conv_Cons del: upt_Suc)
  ultimately show ?thesis
    using assms(1) by (simp add: increment_fresh o_def Suc_le_eq del: upt_Suc)
qed

lemma length_filter_upt_less: "length (filter (\<lambda>i. i < m) [0..<n]) = min m n"
proof -
  have "filter (\<lambda>i. i < m) [0..<n] = [0..<min m n]"
    by (induction n) (auto simp: min_def le_Suc_eq)
  then show ?thesis by simp
qed

text \<open>
  Within one window, opened by the first attempt on a key with no live count, exactly the
  first \<open>limit\<close> attempts are allowed and every later one is refused.
\<close>

theorem rate_limit_window:
  assumes "redis_get r t0 k = None" and "\<forall>t \<in> set ts. t < t0 + seconds window_seconds"
  shows "length (filter id (attempts k limit (t0 # ts) r)) = min limit (Suc (length ts))"
  by (simp only: attempts_window [OF assms] filter_map length_map o_def id_apply
      length_filter_upt_less)

theorem rate_limit_window_witness:
  "length (filter id (attempts ''k'' 2 [0, 5, 9] Map.empty)) = 2"
  using rate_limit_window [of Map.empty 0 "''k''" "[5, 9]" 2]
  by (simp add: redis_get_def seconds_def window_seconds_def)

section \<open>Several signals\<close>

lemma increment_cong:
  "r1 k = r k \<Longrightarrow> fst (increment k limit now r1) = fst (increment k limit now r)"
  by (simp add: increment_def increment_script_def redis_get_def split_def Let_def)

lemma increment_frame: "k' \<noteq> k \<Longrightarrow> snd (increment k limit now r) k' = r k'"
  by (simp add: increment_def increment_script_def split_def Let_def)

lemma count_signals_frame:
  "k \<notin> fst ` set sigs \<Longrightarrow> snd (count_signals up i now sigs r) k = r k"
proof (induction up i now sigs r rule: count_signals.induct)
  case (2 up i now k' limit rest r)
  then show ?case
    by (auto simp: Let_def increment_def increment_script_def split: prod.splits)
qed simp

lemma count_signals_up:
  assumes "\<forall>j. up j" and "distinct (map fst sigs)"
  shows "fst (count_signals up i now sigs r) =
           Some (map (\<lambda>(k, limit). fst (increment k limit now r)) sigs)"
  using assms
proof (induction sigs arbitrary: i r)
  case Nil
  then show ?case by simp
next
  case (Cons s sigs)
  obtain k limit where s: "s = (k, limit)" by (cases s)
  define r1 where "r1 = snd (increment k limit now r)"
  have same: "fst (increment k' l' now r1) = fst (increment k' l' now r)"
    if "(k', l') \<in> set sigs" for k' l'
  proof -
    have "k' \<noteq> k" using Cons.prems(2) that s by (auto simp: image_iff)
    then show ?thesis by (intro increment_cong) (simp add: r1_def increment_frame)
  qed
  have "fst (count_signals up (Suc i) now sigs r1) =
          Some (map (\<lambda>(k, limit). fst (increment k limit now r1)) sigs)"
    using Cons.prems by (intro Cons.IH) auto
  also have "map (\<lambda>(k, limit). fst (increment k limit now r1)) sigs =
             map (\<lambda>(k, limit). fst (increment k limit now r)) sigs"
    using same by (auto intro!: map_cong)
  finally show ?case
    using Cons.prems(1) by (auto simp: s r1_def Let_def split: prod.splits)
qed

lemma limiter_key_namespace:
  "limiter_key digest ''activation_attempts'' s v \<noteq> limiter_key digest ''login_attempts'' s' v'"
  "limiter_key digest ''work_lease_attempts'' s v \<noteq> limiter_key digest ''login_attempts'' s' v'"
  "limiter_key digest ''work_lease_attempts'' s v \<noteq> limiter_key digest ''activation_attempts'' s' v'"
  by (simp_all add: limiter_key_def)

lemma login_signals_distinct: "distinct (map fst (login_signals digest account source))"
  by (simp add: login_signals_def limiter_key_def)

text \<open>
  A login attempt with Redis available is allowed exactly when the account, the source and
  the global counter all stay within their limits; with Redis down it is refused in production.
\<close>

theorem login_limiter_decision:
  assumes "\<forall>j. up j"
  shows "fst (check_and_increment digest up cfg now account source r) =
           list_all (\<lambda>(k, limit). fst (increment k limit now r))
             (login_signals digest account source)
     \<and> fst (check_and_increment digest (\<lambda>_. False) cfg now account source r) =
           (app_env cfg \<noteq> Production)"
proof -
  have "fst (count_signals up 0 now (login_signals digest account source) r) =
          Some (map (\<lambda>(k, limit). fst (increment k limit now r)) (login_signals digest account source))"
    by (rule count_signals_up [OF assms login_signals_distinct])
  then show ?thesis
    by (auto simp: check_and_increment_def decide_def list_all_iff login_signals_def
        split: prod.splits option.splits)
qed

theorem login_limiter_decision_witness:
  "fst (check_and_increment id (\<lambda>_. True) default_settings 0 ''a@b'' None (\<lambda>k. None))
   \<and> fst (check_and_increment id (\<lambda>_. False) default_settings 0 ''a@b'' None (\<lambda>k. None))"
  using login_limiter_decision [of "\<lambda>_. True" id default_settings 0 "''a@b''" None "\<lambda>k. None"]
  by (simp add: login_signals_def increment_def increment_script_def redis_get_def
      account_limit_def source_limit_def global_limit_def default_settings_def)

text \<open>Activation guesses never spend the login budget (the keys of the two are disjoint).\<close>

lemma activation_keeps_login:
  assumes "k \<in> fst ` set (login_signals digest account source)"
  shows "snd (check_and_increment_activation digest' up cfg now source' r) k = r k"
proof -
  have "k \<notin> fst ` set (activation_signals digest' source')"
    using assms by (auto simp: login_signals_def activation_signals_def limiter_key_def)
  then have "snd (count_signals up 0 now (activation_signals digest' source') r) k = r k"
    by (rule count_signals_frame)
  then show ?thesis
    by (auto simp: check_and_increment_activation_def decide_def split: prod.splits option.splits)
qed

end
