(* ===== verification/Work_Queue.thy ===== *)
theory Work_Queue
  imports Runtime Rate_Limit
begin

text \<open>
  Leasing (\<open>app/work/service.py\<close>, first half): candidate selection, the phone-before-row
  locking of one candidate, \<open>lease_next\<close> and \<open>get_active_lease\<close>, renewal, and the three
  ways a lease is taken back. A call runs in one transaction over the database it is given.
\<close>

section \<open>Errors and results\<close>

datatype work_fault =
  Missing_lease_identity | Missing_campaign_contact | Missing_contact | Missing_campaign |
  Suppressed_active_lease | Missing_assignment_data | No_recorded_attempts

datatype field_fault =
  Notes_required | Callback_time_required | Callback_not_future | Negative_duration |
  Reason_required | Retry_time_not_future | Maximum_not_raised

datatype disposition_fault =
  Other_campaign | Disposition_inactive | Missing_retry_delay | Unsupported_next_action

datatype work_error =
  Work_item_error work_fault
| Lease_conflict
| Lease_expired
| Disposition_mismatch disposition_fault
| Missing_required_field field_fault
| Idempotency_conflict
| Review_state_error
| Lease_rate_limited
| Feature_off flag_error
| Integrity_error string
| Invalid_token
| Key_error work_state
| Loop_fuel

record lease_result =
  lr_work_item_id :: uuid
  lr_lease_id :: uuid
  lr_lease_expires_at :: time
  lr_campaign_id :: uuid
  lr_campaign_name :: string
  lr_phone_e164 :: string
  lr_contact_name :: "string option"
  lr_approved_metadata :: "(string \<times> string) list option"
  lr_is_callback :: bool
  lr_lease_reason :: lease_reason

definition terminal_states :: "work_state set" where
  "terminal_states = {Completed, Suppressed, Cancelled}"

definition lease_result_of ::
  "crypto \<Rightarrow> work_item \<Rightarrow> campaign_contact \<Rightarrow> contact \<Rightarrow> campaign \<Rightarrow> work_error + lease_result" where
  "lease_result_of c w cc co ca =
     (case (wi_lease_id w, wi_lease_expires_at w) of
        (Some lease_id, Some expires) \<Rightarrow>
          let reason = (case wi_lease_reason w of None \<Rightarrow> Normal | Some r \<Rightarrow> r) in
          (case decrypt c (co_phone_ciphertext co) of
             None \<Rightarrow> Inl Invalid_token
           | Some phone \<Rightarrow> Inr \<lparr>lr_work_item_id = wi_id w, lr_lease_id = lease_id,
               lr_lease_expires_at = expires, lr_campaign_id = ca_id ca,
               lr_campaign_name = ca_name ca, lr_phone_e164 = phone,
               lr_contact_name = cc_campaign_name_value cc,
               lr_approved_metadata = cc_approved_metadata cc,
               lr_is_callback = (reason = Scheduled_callback), lr_lease_reason = reason\<rparr>)
      | _ \<Rightarrow> Inl (Work_item_error Missing_lease_identity))"

section \<open>Assignments and suppression\<close>

definition agent_assignment :: "uuid \<Rightarrow> time \<Rightarrow> user_assignment \<Rightarrow> bool" where
  "agent_assignment agent_id now a \<longleftrightarrow>
     ua_user_id a = agent_id \<and> ua_campaign_role a = ''agent'' \<and> ua_status a = Row_active
     \<and> effective_at (ua_effective_from a) (ua_effective_to a) now"

definition active_primary_assignment :: "db \<Rightarrow> uuid \<Rightarrow> time \<Rightarrow> user_assignment option" where
  "active_primary_assignment d agent_id now =
     first_by (\<lambda>a. - ua_effective_from a)
       (filter (\<lambda>a. agent_assignment agent_id now a \<and> ua_assignment_type a = ''primary'')
         (user_assignments d))"

definition active_assignment_for_campaign ::
  "db \<Rightarrow> uuid \<Rightarrow> uuid \<Rightarrow> time \<Rightarrow> user_assignment option" where
  "active_assignment_for_campaign d agent_id campaign_id now =
     first_by (\<lambda>a. - ua_effective_from a)
       (filter (\<lambda>a. agent_assignment agent_id now a \<and> ua_campaign_id a = campaign_id)
         (user_assignments d))"

definition active_suppression_exists :: "db \<Rightarrow> string \<Rightarrow> bool" where
  "active_suppression_exists d fp =
     list_ex (\<lambda>s. se_phone_fingerprint s = fp \<and> se_status s = ''active'') (suppression_entries d)"

definition campaign_active :: "db \<Rightarrow> uuid \<Rightarrow> bool" where
  "campaign_active d i = (case get_campaign d i of None \<Rightarrow> False | Some c \<Rightarrow> ca_status c = Active)"

section \<open>Candidate selection\<close>

record lease_candidate =
  lc_work_item_id :: uuid
  lc_phone_fingerprint :: string
  lc_campaign_id :: uuid

text \<open>The rows of \<open>WorkItem JOIN CampaignContact JOIN Contact\<close>.\<close>

type_synonym lease_row = "work_item \<times> campaign_contact \<times> contact"

definition join_row :: "db \<Rightarrow> work_item \<Rightarrow> lease_row option" where
  "join_row d w =
     (case get_campaign_contact d (wi_campaign_contact_id w) of
        None \<Rightarrow> None
      | Some cc \<Rightarrow>
          (case get_contact d (cc_contact_id cc) of None \<Rightarrow> None | Some co \<Rightarrow> Some (w, cc, co)))"

definition lease_rows :: "db \<Rightarrow> lease_row list" where
  "lease_rows d = List.map_filter (join_row d) (work_items d)"

definition candidate_of :: "lease_row \<Rightarrow> lease_candidate" where
  "candidate_of row = (case row of (w, cc, co) \<Rightarrow>
     \<lparr>lc_work_item_id = wi_id w, lc_phone_fingerprint = co_phone_fingerprint co,
      lc_campaign_id = cc_campaign_id cc\<rparr>)"

definition due_by :: "work_item \<Rightarrow> time \<Rightarrow> bool" where
  "due_by w now = (case wi_due_at w of None \<Rightarrow> False | Some t \<Rightarrow> t \<le> now)"

definition due_key :: "work_item \<Rightarrow> time" where
  "due_key w = (case wi_due_at w of None \<Rightarrow> 0 | Some t \<Rightarrow> t)"

definition callback_eligible :: "db \<Rightarrow> uuid \<Rightarrow> time \<Rightarrow> lease_row \<Rightarrow> bool" where
  "callback_eligible d agent_id now row = (case row of (w, cc, co) \<Rightarrow>
     wi_state w = Callback_wait \<and> wi_assigned_agent_id w = Some agent_id \<and> due_by w now
     \<and> campaign_active d (cc_campaign_id cc)
     \<and> list_ex (\<lambda>a. agent_assignment agent_id now a \<and> ua_campaign_id a = cc_campaign_id cc)
         (user_assignments d)
     \<and> \<not> active_suppression_exists d (co_phone_fingerprint co))"

definition next_callback_candidate ::
  "db \<Rightarrow> uuid \<Rightarrow> time \<Rightarrow> uuid list \<Rightarrow> lease_candidate option" where
  "next_callback_candidate d agent_id now excluded =
     map_option candidate_of (first_by (\<lambda>(w, cc, co). due_key w)
       (filter (\<lambda>row. callback_eligible d agent_id now row \<and> wi_id (fst row) \<notin> set excluded)
         (lease_rows d)))"

definition queue_eligible :: "db \<Rightarrow> uuid \<Rightarrow> lease_row \<Rightarrow> bool" where
  "queue_eligible d campaign_id row = (case row of (w, cc, co) \<Rightarrow>
     cc_campaign_id cc = campaign_id \<and> wi_state w = Queued
     \<and> \<not> active_suppression_exists d (co_phone_fingerprint co))"

definition next_queue_candidate :: "db \<Rightarrow> uuid \<Rightarrow> uuid list \<Rightarrow> lease_candidate option" where
  "next_queue_candidate d campaign_id excluded =
     map_option candidate_of (first_by (\<lambda>(w, cc, co). (- wi_priority w, wi_created_at w))
       (filter (\<lambda>row. queue_eligible d campaign_id row \<and> wi_id (fst row) \<notin> set excluded)
         (lease_rows d)))"

definition retry_eligible :: "db \<Rightarrow> uuid \<Rightarrow> time \<Rightarrow> lease_row \<Rightarrow> bool" where
  "retry_eligible d campaign_id now row = (case row of (w, cc, co) \<Rightarrow>
     cc_campaign_id cc = campaign_id \<and> wi_state w = Retry_wait \<and> due_by w now
     \<and> \<not> active_suppression_exists d (co_phone_fingerprint co))"

definition next_due_retry_candidate ::
  "db \<Rightarrow> uuid \<Rightarrow> time \<Rightarrow> uuid list \<Rightarrow> lease_candidate option" where
  "next_due_retry_candidate d campaign_id now excluded =
     map_option candidate_of
       (first_by (\<lambda>(w, cc, co). (due_key w, - wi_priority w, wi_created_at w))
         (filter (\<lambda>row. retry_eligible d campaign_id now row \<and> wi_id (fst row) \<notin> set excluded)
           (lease_rows d)))"

section \<open>Locking one candidate\<close>

definition still_leasable :: "uuid \<Rightarrow> time \<Rightarrow> bool \<Rightarrow> bool \<Rightarrow> work_item \<Rightarrow> bool" where
  "still_leasable agent_id now is_callback is_due_retry w =
     (if is_callback then
        wi_state w = Callback_wait \<and> wi_assigned_agent_id w = Some agent_id \<and> due_by w now
      else if is_due_retry then wi_state w = Retry_wait \<and> due_by w now
      else wi_state w = Queued)"

definition close_suppressed :: "time \<Rightarrow> work_item \<Rightarrow> campaign_contact \<Rightarrow> db \<Rightarrow> db" where
  "close_suppressed now w cc d =
     put_campaign_contact
       (cc\<lparr>cc_status := Contact_suppressed, cc_completed_at := Some now,
           cc_final_disposition_code := Some ''explicit_dnc''\<rparr>)
       (put_work_item
         (w\<lparr>wi_state := Suppressed, wi_completed_at := Some now, wi_version := wi_version w + 1\<rparr>)
         d)"

definition lock_lease_candidate ::
  "env \<Rightarrow> uuid \<Rightarrow> time \<Rightarrow> bool \<Rightarrow> bool \<Rightarrow> lease_candidate \<Rightarrow> db
   \<Rightarrow> (work_error, lease_row option, db) outcome" where
  "lock_lease_candidate e agent_id now is_callback is_due_retry cand d =
     (if phone_busy e (lc_phone_fingerprint cand) then Inr (None, d)
      else
        case get_work_item d (lc_work_item_id cand) of
          None \<Rightarrow> Inr (None, d)
        | Some w \<Rightarrow>
            (if \<not> still_leasable agent_id now is_callback is_due_retry w \<or> row_busy e (wi_id w)
             then Inr (None, d)
             else
               case get_campaign_contact d (wi_campaign_contact_id w) of
                 None \<Rightarrow> Inl (Work_item_error Missing_campaign_contact)
               | Some cc \<Rightarrow>
                   (case get_contact d (cc_contact_id cc) of
                      None \<Rightarrow> Inl (Work_item_error Missing_contact)
                    | Some co \<Rightarrow>
                        (if \<not> campaign_active d (cc_campaign_id cc) then Inr (None, d)
                         else if active_suppression_exists d (co_phone_fingerprint co)
                         then Inr (None, close_suppressed now w cc d)
                         else Inr (Some (w, cc, co), d)))))"

section \<open>The active lease\<close>

definition holds_active_lease :: "uuid \<Rightarrow> time \<Rightarrow> work_item \<Rightarrow> bool" where
  "holds_active_lease agent_id now w \<longleftrightarrow>
     wi_state w = Leased \<and> wi_lease_owner_id w = Some agent_id
     \<and> (case wi_lease_expires_at w of None \<Rightarrow> False | Some t \<Rightarrow> now < t)"

definition active_lease_candidate :: "db \<Rightarrow> uuid \<Rightarrow> time \<Rightarrow> lease_candidate option" where
  "active_lease_candidate d agent_id now =
     map_option candidate_of (find (\<lambda>(w, cc, co). holds_active_lease agent_id now w) (lease_rows d))"

definition get_active_lease_locked ::
  "crypto \<Rightarrow> db \<Rightarrow> uuid \<Rightarrow> time \<Rightarrow> work_error + lease_result option" where
  "get_active_lease_locked c d agent_id now =
     (case active_lease_candidate d agent_id now of
        None \<Rightarrow> Inr None
      | Some cand \<Rightarrow>
          (case get_work_item d (lc_work_item_id cand) of
             None \<Rightarrow> Inr None
           | Some w \<Rightarrow>
               (if \<not> holds_active_lease agent_id now w then Inr None
                else
                  case get_campaign_contact d (wi_campaign_contact_id w) of
                    None \<Rightarrow> Inl (Work_item_error Missing_campaign_contact)
                  | Some cc \<Rightarrow>
                      (case get_contact d (cc_contact_id cc) of
                         None \<Rightarrow> Inl (Work_item_error Missing_contact)
                       | Some co \<Rightarrow>
                           (case get_campaign d (cc_campaign_id cc) of
                              None \<Rightarrow> Inr None
                            | Some ca \<Rightarrow>
                                (if ca_status ca \<noteq> Active then Inr None
                                 else if active_suppression_exists d (co_phone_fingerprint co)
                                 then Inl (Work_item_error Suppressed_active_lease)
                                 else map_sum id Some (lease_result_of c w cc co ca)))))))"

definition get_active_lease ::
  "crypto \<Rightarrow> env \<Rightarrow> uuid \<Rightarrow> db \<Rightarrow> work_error + lease_result option" where
  "get_active_lease c e agent_id d = get_active_lease_locked c d agent_id (clk e 0)"

section \<open>Leasing the next contact\<close>

text \<open>
  The three \<open>while True\<close> loops: pick a candidate not yet skipped, try it, skip it when it is
  refused. The fuel is one more than the number of work items, which the loop cannot use up.
\<close>

fun try_candidates ::
  "nat \<Rightarrow> (uuid list \<Rightarrow> db \<Rightarrow> lease_candidate option)
   \<Rightarrow> (lease_candidate \<Rightarrow> db \<Rightarrow> (work_error, 'l option, db) outcome)
   \<Rightarrow> uuid list \<Rightarrow> db \<Rightarrow> (work_error, 'l option, db) outcome" where
  "try_candidates 0 pick attempt skipped d = Inl Loop_fuel"
| "try_candidates (Suc fuel) pick attempt skipped d =
     (case pick skipped d of
        None \<Rightarrow> Inr (None, d)
      | Some cand \<Rightarrow>
          (case attempt cand d of
             Inl err \<Rightarrow> Inl err
           | Inr (Some l, d') \<Rightarrow> Inr (Some l, d')
           | Inr (None, d') \<Rightarrow>
               try_candidates fuel pick attempt (lc_work_item_id cand # skipped) d'))"

definition loop_fuel :: "db \<Rightarrow> nat" where
  "loop_fuel d = Suc (length (work_items d))"

type_synonym choice = "user_assignment \<times> lease_row \<times> lease_reason"

definition attempt_callback ::
  "env \<Rightarrow> uuid \<Rightarrow> time \<Rightarrow> lease_candidate \<Rightarrow> db \<Rightarrow> (work_error, choice option, db) outcome" where
  "attempt_callback e agent_id now cand d =
     (case active_assignment_for_campaign d agent_id (lc_campaign_id cand) (clk e 1) of
        None \<Rightarrow> Inr (None, d)
      | Some a \<Rightarrow>
          (case lock_lease_candidate e agent_id now True False cand d of
             Inl err \<Rightarrow> Inl err
           | Inr (None, d') \<Rightarrow> Inr (None, d')
           | Inr (Some row, d') \<Rightarrow> Inr (Some (a, row, Scheduled_callback), d')))"

definition attempt_pool ::
  "env \<Rightarrow> uuid \<Rightarrow> time \<Rightarrow> user_assignment \<Rightarrow> bool \<Rightarrow> lease_candidate \<Rightarrow> db
   \<Rightarrow> (work_error, choice option, db) outcome" where
  "attempt_pool e agent_id now a is_due_retry cand d =
     (case lock_lease_candidate e agent_id now False is_due_retry cand d of
        Inl err \<Rightarrow> Inl err
      | Inr (None, d') \<Rightarrow> Inr (None, d')
      | Inr (Some row, d') \<Rightarrow>
          Inr (Some (a, row, if is_due_retry then Delayed_retry else Normal), d'))"

definition choose_work ::
  "env \<Rightarrow> uuid \<Rightarrow> time \<Rightarrow> db \<Rightarrow> (work_error, choice option, db) outcome" where
  "choose_work e agent_id now d =
     (case try_candidates (loop_fuel d) (\<lambda>ex d. next_callback_candidate d agent_id now ex)
             (attempt_callback e agent_id now) [] d of
        Inl err \<Rightarrow> Inl err
      | Inr (Some ch, d1) \<Rightarrow> Inr (Some ch, d1)
      | Inr (None, d1) \<Rightarrow>
          (case active_primary_assignment d1 agent_id (clk e 2) of
             None \<Rightarrow> Inr (None, d1)
           | Some a \<Rightarrow>
               (if \<not> campaign_active d1 (ua_campaign_id a) then Inr (None, d1)
                else
                  case try_candidates (loop_fuel d1)
                         (\<lambda>ex d. next_due_retry_candidate d (ua_campaign_id a) now ex)
                         (attempt_pool e agent_id now a True) [] d1 of
                    Inl err \<Rightarrow> Inl err
                  | Inr (Some ch, d2) \<Rightarrow> Inr (Some ch, d2)
                  | Inr (None, d2) \<Rightarrow>
                      try_candidates (loop_fuel d2)
                        (\<lambda>ex d. next_queue_candidate d (ua_campaign_id a) ex)
                        (attempt_pool e agent_id now a False) [] d2)))"

text \<open>The partial unique index \<open>uq_work_items_one_active_lease\<close>, checked at the flush.\<close>

definition one_active_lease :: "db \<Rightarrow> uuid \<Rightarrow> bool" where
  "one_active_lease d agent_id \<longleftrightarrow>
     count_where (\<lambda>w. wi_state w = Leased \<and> wi_lease_owner_id w = Some agent_id) (work_items d) \<le> 1"

definition grant_lease :: "env \<Rightarrow> settings \<Rightarrow> uuid \<Rightarrow> time \<Rightarrow> choice \<Rightarrow> work_item" where
  "grant_lease e cfg agent_id now ch = (case ch of (a, (w, cc, co), reason) \<Rightarrow>
     w\<lparr>wi_state := Leased, wi_lease_owner_id := Some agent_id,
       wi_lease_id := Some (fresh_id e 0),
       wi_lease_expires_at := Some (now + minutes (lease_duration_minutes cfg)),
       wi_lease_reason := Some reason, wi_campaign_user_assignment_id := Some (ua_id a),
       wi_version := wi_version w + 1\<rparr>)"

definition finish_lease ::
  "crypto \<Rightarrow> env \<Rightarrow> settings \<Rightarrow> uuid \<Rightarrow> time \<Rightarrow> choice \<Rightarrow> db
   \<Rightarrow> (work_error, lease_result option, db) outcome" where
  "finish_lease c e cfg agent_id now ch d = (case ch of (a, (w, cc, co), reason) \<Rightarrow>
     let w' = grant_lease e cfg agent_id now ch;
         d1 = put_work_item w' d in
     if \<not> one_active_lease d1 agent_id then Inl (Integrity_error ''uq_work_items_one_active_lease'')
     else
       case get_campaign d1 (cc_campaign_id cc) of
         None \<Rightarrow> Inl (Work_item_error Missing_campaign)
       | Some ca \<Rightarrow>
           let d2 = record_audit ''work.view'' ''success'' (Some agent_id) (Some ''work_item'')
                      (Some (wi_id w)) None [] d1 in
           (case lease_result_of c w' cc co ca of
              Inl err \<Rightarrow> Inl err
            | Inr r \<Rightarrow> Inr (Some r, d2)))"

definition lease_next ::
  "crypto \<Rightarrow> env \<Rightarrow> settings \<Rightarrow> (nat \<Rightarrow> bool) \<Rightarrow> (uuid \<Rightarrow> string) \<Rightarrow> uuid \<Rightarrow> redis \<Rightarrow> db
   \<Rightarrow> (work_error, lease_result option, db) outcome \<times> redis" where
  "lease_next c e cfg up str_uuid agent_id r d =
     (let now = clk e 0 in
      case get_active_lease_locked c d agent_id now of
        Inl err \<Rightarrow> (Inl err, r)
      | Inr (Some active) \<Rightarrow> (Inr (Some active, d), r)
      | Inr None \<Rightarrow>
          (case require_enabled d ''shared_pool_enabled'' of
             Some err \<Rightarrow> (Inl (Feature_off err), r)
           | None \<Rightarrow>
               (let (allowed, r') = check_and_increment_work_lease (sha256_hex c) up cfg now
                                      (str_uuid agent_id) r in
                (if \<not> allowed then Inl Lease_rate_limited
                 else
                   case choose_work e agent_id now d of
                     Inl err \<Rightarrow> Inl err
                   | Inr (None, d') \<Rightarrow> Inr (None, d')
                   | Inr (Some ch, d') \<Rightarrow> finish_lease c e cfg agent_id now ch d', r'))))"

section \<open>Renewal and reclaim\<close>

definition renew_lease ::
  "env \<Rightarrow> settings \<Rightarrow> uuid \<Rightarrow> uuid \<Rightarrow> uuid \<Rightarrow> db \<Rightarrow> (work_error, work_item, db) outcome" where
  "renew_lease e cfg work_item_id agent_id lease_id d =
     (let now = clk e 0 in
      case get_work_item d work_item_id of
        None \<Rightarrow> Inl Lease_conflict
      | Some w \<Rightarrow>
          (if wi_state w \<noteq> Leased \<or> wi_lease_owner_id w \<noteq> Some agent_id
              \<or> wi_lease_id w \<noteq> Some lease_id
              \<or> (case wi_lease_expires_at w of None \<Rightarrow> True | Some t \<Rightarrow> t \<le> now)
           then Inl Lease_conflict
           else
             let w' = w\<lparr>wi_lease_expires_at := Some (now + minutes (lease_duration_minutes cfg)),
                        wi_version := wi_version w + 1\<rparr>
             in Inr (w', put_work_item w' d)))"

text \<open>The body shared by the two reclaim loops.\<close>

definition return_to_pre_lease :: "work_item \<Rightarrow> work_item" where
  "return_to_pre_lease w =
     w\<lparr>wi_state := (if wi_assigned_agent_id w \<noteq> None then Callback_wait else Queued),
       wi_lease_owner_id := None, wi_lease_id := None, wi_lease_expires_at := None,
       wi_version := wi_version w + 1\<rparr>"

definition lease_expired_at :: "time \<Rightarrow> work_item \<Rightarrow> bool" where
  "lease_expired_at now w \<longleftrightarrow>
     wi_state w = Leased \<and> (case wi_lease_expires_at w of None \<Rightarrow> False | Some t \<Rightarrow> t < now)"

definition reclaim_expired_leases :: "env \<Rightarrow> db \<Rightarrow> nat \<times> db" where
  "reclaim_expired_leases e d =
     (let P = (\<lambda>w. lease_expired_at (clk e 0) w \<and> \<not> row_busy e (wi_id w)) in
      (count_where P (work_items d),
       d\<lparr>work_items := rows_update P return_to_pre_lease (work_items d)\<rparr>))"

definition reclaim_leases_for_user :: "env \<Rightarrow> uuid \<Rightarrow> db \<Rightarrow> nat \<times> db" where
  "reclaim_leases_for_user e agent_id d =
     (let P = (\<lambda>w. wi_state w = Leased \<and> wi_lease_owner_id w = Some agent_id
                   \<and> \<not> row_busy e (wi_id w)) in
      (count_where P (work_items d),
       d\<lparr>work_items := rows_update P return_to_pre_lease (work_items d)\<rparr>))"

definition return_to_queue :: "work_item \<Rightarrow> work_item" where
  "return_to_queue w =
     w\<lparr>wi_state := Queued, wi_lease_owner_id := None, wi_lease_id := None,
       wi_lease_expires_at := None, wi_assigned_agent_id := None, wi_due_at := None,
       wi_version := wi_version w + 1\<rparr>"

definition agent_holds_in_campaign :: "db \<Rightarrow> uuid \<Rightarrow> uuid \<Rightarrow> work_item \<Rightarrow> bool" where
  "agent_holds_in_campaign d agent_id campaign_id w \<longleftrightarrow>
     (case get_campaign_contact d (wi_campaign_contact_id w) of
        None \<Rightarrow> False | Some cc \<Rightarrow> cc_campaign_id cc = campaign_id)
     \<and> ((wi_state w = Leased \<and> wi_lease_owner_id w = Some agent_id)
        \<or> (wi_state w = Callback_wait \<and> wi_assigned_agent_id w = Some agent_id))"

definition release_campaign_work_for_agent :: "env \<Rightarrow> uuid \<Rightarrow> uuid \<Rightarrow> db \<Rightarrow> nat \<times> db" where
  "release_campaign_work_for_agent e agent_id campaign_id d =
     (let P = (\<lambda>w. agent_holds_in_campaign d agent_id campaign_id w \<and> \<not> row_busy e (wi_id w)) in
      (count_where P (work_items d),
       d\<lparr>work_items := rows_update P return_to_queue (work_items d)\<rparr>))"

end
