(* ===== verification/Work_Complete.thy ===== *)
theory Work_Complete
  imports Work_Queue
begin

text \<open>
  Completion, skipping and review (\<open>app/work/service.py\<close>, second half): the idempotent
  \<open>complete_work_item\<close> with its global do-not-call handling, \<open>skip_work_item\<close>, the masked
  listings, and the three reviewer decisions on an item at its attempt ceiling.
\<close>

section \<open>Results\<close>

datatype next_step =
  Step_complete | Step_retry_scheduled | Step_callback_scheduled | Step_redial_ready |
  Step_review | Step_suppressed

fun next_step_by_state :: "work_state \<Rightarrow> next_step option" where
  "next_step_by_state Completed = Some Step_complete"
| "next_step_by_state Retry_wait = Some Step_retry_scheduled"
| "next_step_by_state Callback_wait = Some Step_callback_scheduled"
| "next_step_by_state Leased = Some Step_redial_ready"
| "next_step_by_state Review = Some Step_review"
| "next_step_by_state Suppressed = Some Step_suppressed"
| "next_step_by_state Queued = Some Step_retry_scheduled"
| "next_step_by_state Cancelled = None"

record completion_result =
  cr_attempt_id :: uuid
  cr_work_item_state :: work_state
  cr_semantic_outcome :: string
  cr_callback_at :: "time option"
  cr_retry_at :: "time option"
  cr_redial_lease_id :: "uuid option"
  cr_redial_lease_expires_at :: "time option"
  cr_next_step :: next_step

text \<open>\<open>CompletionResult(...)\<close>, with the dictionary lookup of the next step.\<close>

definition completion_result_of ::
  "call_attempt \<Rightarrow> time option \<Rightarrow> work_error + completion_result" where
  "completion_result_of a retry_at =
     (case next_step_by_state (at_resulting_work_item_state a) of
        None \<Rightarrow> Inl (Key_error (at_resulting_work_item_state a))
      | Some s \<Rightarrow> Inr \<lparr>cr_attempt_id = at_id a,
          cr_work_item_state = at_resulting_work_item_state a,
          cr_semantic_outcome = at_semantic_outcome a, cr_callback_at = at_callback_at a,
          cr_retry_at = retry_at, cr_redial_lease_id = at_resulting_lease_id a,
          cr_redial_lease_expires_at = at_resulting_lease_expires_at a, cr_next_step = s\<rparr>)"

section \<open>Loading\<close>

definition load_leased_item ::
  "db \<Rightarrow> uuid \<Rightarrow> uuid \<Rightarrow> uuid \<Rightarrow> time \<Rightarrow> work_error + work_item" where
  "load_leased_item d work_item_id agent_id lease_id now =
     (case get_work_item d work_item_id of
        None \<Rightarrow> Inl Lease_conflict
      | Some w \<Rightarrow>
          (if wi_state w \<noteq> Leased \<or> wi_lease_owner_id w \<noteq> Some agent_id
              \<or> wi_lease_id w \<noteq> Some lease_id
           then Inl Lease_conflict
           else if (case wi_lease_expires_at w of None \<Rightarrow> False | Some t \<Rightarrow> t \<le> now)
           then Inl Lease_expired
           else Inr w))"

definition existing_attempt :: "db \<Rightarrow> uuid \<Rightarrow> string \<Rightarrow> call_attempt option" where
  "existing_attempt d agent_id idempotency_key =
     find (\<lambda>a. at_agent_id a = agent_id \<and> at_idempotency_key a = idempotency_key) (call_attempts d)"

definition phone_fingerprint_for_work_item :: "db \<Rightarrow> uuid \<Rightarrow> string option" where
  "phone_fingerprint_for_work_item d work_item_id =
     (case get_work_item d work_item_id of
        None \<Rightarrow> None
      | Some w \<Rightarrow> map_option (\<lambda>(w, cc, co). co_phone_fingerprint co) (join_row d w))"

definition result_from_existing_attempt ::
  "db \<Rightarrow> call_attempt \<Rightarrow> uuid \<Rightarrow> work_error + completion_result" where
  "result_from_existing_attempt d a work_item_id =
     (if at_work_item_id a \<noteq> work_item_id then Inl Idempotency_conflict
      else
        let retry_at =
          (if at_resulting_work_item_state a = Retry_wait then
             (case get_disposition d (at_disposition_definition_id a) of
                None \<Rightarrow> None
              | Some di \<Rightarrow> map_option (\<lambda>m. at_created_at a + minutes m) (di_retry_delay_minutes di))
           else None)
        in completion_result_of a retry_at)"

section \<open>Global suppression\<close>

definition pending_for_contact :: "db \<Rightarrow> uuid \<Rightarrow> work_item \<Rightarrow> bool" where
  "pending_for_contact d contact_id w \<longleftrightarrow>
     (case get_campaign_contact d (wi_campaign_contact_id w) of
        None \<Rightarrow> False | Some cc \<Rightarrow> cc_contact_id cc = contact_id)
     \<and> wi_state w \<notin> terminal_states"

definition suppress_item :: "time \<Rightarrow> work_item \<Rightarrow> work_item" where
  "suppress_item now w =
     w\<lparr>wi_state := Suppressed, wi_lease_owner_id := None, wi_lease_id := None,
       wi_lease_expires_at := None, wi_completed_at := Some now,
       wi_version := wi_version w + 1\<rparr>"

definition suppress_contact_row :: "time \<Rightarrow> uuid \<Rightarrow> campaign_contact \<Rightarrow> campaign_contact" where
  "suppress_contact_row now created_by cc =
     cc\<lparr>cc_status := Contact_suppressed, cc_completed_at := Some now,
        cc_completed_by_agent_id := Some created_by,
        cc_final_disposition_code := Some ''explicit_dnc''\<rparr>"

text \<open>
  The inner join drops items whose campaign contact is missing, so the loop's own check for one
  never fires.
\<close>

definition suppress_contact_everywhere ::
  "env \<Rightarrow> contact \<Rightarrow> string \<Rightarrow> uuid \<Rightarrow> db \<Rightarrow> db" where
  "suppress_contact_everywhere e co source created_by d =
     (let d1 = (if active_suppression_exists d (co_phone_fingerprint co) then d
                else d\<lparr>suppression_entries := suppression_entries d @
                   [\<lparr>se_id = fresh_id e 1, se_organization_scope = None,
                     se_phone_fingerprint = co_phone_fingerprint co,
                     se_protected_phone_value = Some (co_phone_ciphertext co),
                     se_source = source, se_effective_at = clk e 3, se_status = ''active'',
                     se_created_by = Some created_by\<rparr>]\<rparr>);
          now = clk e 4;
          pending = filter (pending_for_contact d1 (co_id co)) (work_items d1);
          hit = map wi_campaign_contact_id pending
      in d1\<lparr>work_items := rows_update (pending_for_contact d1 (co_id co)) (suppress_item now)
                              (work_items d1),
            campaign_contacts := rows_update (\<lambda>cc. cc_id cc \<in> set hit)
                              (suppress_contact_row now created_by) (campaign_contacts d1)\<rparr>)"

section \<open>Completion\<close>

record completion_request =
  rq_work_item_id :: uuid
  rq_agent_id :: uuid
  rq_lease_id :: uuid
  rq_disposition_id :: uuid
  rq_notes :: "string option"
  rq_callback_at :: "time option"
  rq_duration_seconds :: "int option"
  rq_idempotency_key :: string

definition blank :: "string option \<Rightarrow> bool" where
  "blank s = (case s of None \<Rightarrow> True | Some t \<Rightarrow> t = '''')"

text \<open>The guards between loading the disposition and writing anything, in order.\<close>

definition completion_guard ::
  "env \<Rightarrow> db \<Rightarrow> completion_request \<Rightarrow> campaign_contact \<Rightarrow> disposition option \<Rightarrow> work_error option" where
  "completion_guard e d rq cc dispo =
     (case dispo of
        None \<Rightarrow> Some (Disposition_mismatch Other_campaign)
      | Some di \<Rightarrow>
          (if di_campaign_id di \<noteq> cc_campaign_id cc
           then Some (Disposition_mismatch Other_campaign)
           else if \<not> di_active di then Some (Disposition_mismatch Disposition_inactive)
           else if di_requires_notes di \<and> blank (rq_notes rq)
           then Some (Missing_required_field Notes_required)
           else if rq_callback_at rq \<noteq> None \<and> require_enabled d ''callbacks_enabled'' \<noteq> None
           then map_option Feature_off (require_enabled d ''callbacks_enabled'')
           else if di_requires_callback_time di \<and> rq_callback_at rq = None
           then Some (Missing_required_field Callback_time_required)
           else if di_requires_callback_time di
                  \<and> (case rq_callback_at rq of None \<Rightarrow> False | Some t \<Rightarrow> t \<le> clk e 2)
           then Some (Missing_required_field Callback_not_future)
           else if (case rq_duration_seconds rq of None \<Rightarrow> False | Some s \<Rightarrow> s < 0)
           then Some (Missing_required_field Negative_duration)
           else None))"

definition new_attempt ::
  "crypto \<Rightarrow> env \<Rightarrow> settings \<Rightarrow> completion_request \<Rightarrow> work_item \<Rightarrow> disposition \<Rightarrow> call_attempt" where
  "new_attempt c e cfg rq w di =
     \<lparr>at_id = fresh_id e 0, at_work_item_id = wi_id w,
      at_campaign_contact_id = wi_campaign_contact_id w, at_agent_id = rq_agent_id rq,
      at_campaign_user_assignment_id = wi_campaign_user_assignment_id w,
      at_disposition_definition_id = di_id di,
      at_semantic_outcome = di_stable_semantic_code di,
      at_notes_ciphertext =
        (if blank (rq_notes rq) then None else map_option (encrypt c cfg) (rq_notes rq)),
      at_self_reported_duration_seconds = rq_duration_seconds rq,
      at_explicit_dnc_requested = di_causes_dnc di,
      at_callback_at = (if di_requires_callback_time di then rq_callback_at rq else None),
      at_idempotency_key = rq_idempotency_key rq,
      at_resulting_work_item_state = wi_state w, at_correction_of_attempt_id = None,
      at_created_at = clk e 0, at_source_lease_reason = wi_lease_reason w,
      at_resulting_lease_id = None, at_resulting_lease_expires_at = None\<rparr>"

definition clear_lease :: "work_item \<Rightarrow> work_item" where
  "clear_lease w =
     w\<lparr>wi_lease_owner_id := None, wi_lease_id := None, wi_lease_expires_at := None,
       wi_version := wi_version w + 1\<rparr>"

definition at_ceiling :: "work_item \<Rightarrow> bool" where
  "at_ceiling w \<longleftrightarrow> wi_attempt_count w \<ge> wi_max_attempts w"

text \<open>The callback branch.\<close>

definition schedule_callback :: "uuid \<Rightarrow> time option \<Rightarrow> work_item \<Rightarrow> work_item" where
  "schedule_callback agent_id callback_at w =
     (clear_lease w)\<lparr>wi_state := Callback_wait, wi_due_at := callback_at,
        wi_assigned_agent_id := Some agent_id\<rparr>"

text \<open>The branches on \<open>next_action\<close>; the work item has had its attempt counted.\<close>

definition apply_next_action ::
  "env \<Rightarrow> settings \<Rightarrow> uuid \<Rightarrow> disposition \<Rightarrow> work_item \<Rightarrow> db \<Rightarrow> work_error + db" where
  "apply_next_action e cfg agent_id di w0 d =
     (let next_action = (case di_next_action di of
            None \<Rightarrow> ''complete'' | Some a \<Rightarrow> if a = '''' then ''complete'' else a);
          now = clk e 0;
          w = clear_lease w0 in
      if next_action = ''review'' then Inr (put_work_item (w\<lparr>wi_state := Review\<rparr>) d)
      else if next_action = ''requeue'' then
        Inr (put_work_item (w\<lparr>wi_state := (if at_ceiling w then Review else Queued)\<rparr>) d)
      else if next_action = ''retry_wait'' then
        (if at_ceiling w then Inr (put_work_item (w\<lparr>wi_state := Review\<rparr>) d)
         else
           case di_retry_delay_minutes di of
             None \<Rightarrow> Inl (Disposition_mismatch Missing_retry_delay)
           | Some m \<Rightarrow>
               Inr (record_audit ''work.retry.schedule'' ''success'' (Some agent_id)
                 (Some ''work_item'') (Some (wi_id w)) None
                 [(''due_at'', JTime (now + minutes m))]
                 (put_work_item (w\<lparr>wi_state := Retry_wait, wi_due_at := Some (now + minutes m),
                    wi_assigned_agent_id := None\<rparr>) d)))
      else if next_action = ''immediate_redial'' then
        (if at_ceiling w then Inr (put_work_item (w\<lparr>wi_state := Review\<rparr>) d)
         else
           let new_expiry = now + minutes (lease_duration_minutes cfg) in
           Inr (record_audit ''work.redial.ready'' ''success'' (Some agent_id)
             (Some ''work_item'') (Some (wi_id w)) None
             [(''lease_expires_at'', JTime new_expiry)]
             (put_work_item (w\<lparr>wi_state := Leased, wi_lease_owner_id := Some agent_id,
                wi_lease_id := Some (fresh_id e 2), wi_lease_expires_at := Some new_expiry,
                wi_lease_reason := Some Immediate_redial\<rparr>) d)))
      else if next_action = ''complete'' then
        (case get_campaign_contact d (wi_campaign_contact_id w) of
           None \<Rightarrow> Inl (Work_item_error Missing_campaign_contact)
         | Some cc \<Rightarrow>
             Inr (put_campaign_contact
               (cc\<lparr>cc_status := Contact_completed, cc_completed_at := Some (clk e 4),
                   cc_completed_by_agent_id := Some agent_id,
                   cc_final_disposition_code := Some (di_stable_semantic_code di)\<rparr>)
               (put_work_item (w\<lparr>wi_state := Completed, wi_completed_at := Some (clk e 3)\<rparr>) d)))
      else Inl (Disposition_mismatch Unsupported_next_action))"

text \<open>The dispatch: DNC first, then a callback, then the configured next action.\<close>

definition apply_disposition ::
  "env \<Rightarrow> settings \<Rightarrow> completion_request \<Rightarrow> disposition \<Rightarrow> contact \<Rightarrow> work_item \<Rightarrow> db
   \<Rightarrow> work_error + db" where
  "apply_disposition e cfg rq di co w d =
     (if di_causes_dnc di then
        Inr (record_audit ''work.dnc'' ''success'' (Some (rq_agent_id rq)) (Some ''contact'')
          (Some (co_id co)) None []
          (suppress_contact_everywhere e co ''explicit_contact_request'' (rq_agent_id rq) d))
      else if di_requires_callback_time di then
        Inr (put_work_item (schedule_callback (rq_agent_id rq) (rq_callback_at rq) w) d)
      else apply_next_action e cfg (rq_agent_id rq) di w d)"

text \<open>The attempt row once the work item's final state is known.\<close>

definition settle_attempt :: "work_item \<Rightarrow> call_attempt \<Rightarrow> call_attempt" where
  "settle_attempt w a =
     a\<lparr>at_resulting_work_item_state := wi_state w,
       at_resulting_lease_id := (if wi_state w = Leased then wi_lease_id w else None),
       at_resulting_lease_expires_at :=
         (if wi_state w = Leased then wi_lease_expires_at w else None)\<rparr>"

definition complete_work_item ::
  "crypto \<Rightarrow> env \<Rightarrow> settings \<Rightarrow> completion_request \<Rightarrow> db
   \<Rightarrow> (work_error, completion_result, db) outcome" where
  "complete_work_item c e cfg rq d =
     (case existing_attempt d (rq_agent_id rq) (rq_idempotency_key rq) of
        Some a \<Rightarrow>
          map_sum id (\<lambda>r. (r, d)) (result_from_existing_attempt d a (rq_work_item_id rq))
      | None \<Rightarrow>
      (case phone_fingerprint_for_work_item d (rq_work_item_id rq) of
        None \<Rightarrow> Inl Lease_conflict
      | Some fp \<Rightarrow>
      (case load_leased_item d (rq_work_item_id rq) (rq_agent_id rq) (rq_lease_id rq) (clk e 1) of
        Inl err \<Rightarrow> Inl err
      | Inr w \<Rightarrow>
      (case get_campaign_contact d (wi_campaign_contact_id w) of
        None \<Rightarrow> Inl (Work_item_error Missing_campaign_contact)
      | Some cc \<Rightarrow>
      (case completion_guard e d rq cc (get_disposition d (rq_disposition_id rq)) of
        Some err \<Rightarrow> Inl err
      | None \<Rightarrow>
      (case (get_disposition d (rq_disposition_id rq), get_contact d (cc_contact_id cc)) of
        (None, _) \<Rightarrow> Inl (Disposition_mismatch Other_campaign)
      | (_, None) \<Rightarrow> Inl (Work_item_error Missing_contact)
      | (Some di, Some co) \<Rightarrow>
          (let attempt = new_attempt c e cfg rq w di;
               w1 = w\<lparr>wi_attempt_count := wi_attempt_count w + 1\<rparr>;
               d1 = put_work_item w1 d in
           case apply_disposition e cfg rq di co w1 d1 of
             Inl err \<Rightarrow> Inl err
           | Inr d2 \<Rightarrow>
               (case get_work_item d2 (wi_id w) of
                  None \<Rightarrow> Inl Lease_conflict
                | Some w2 \<Rightarrow>
                    (let a = settle_attempt w2 attempt;
                         d3 = d2\<lparr>call_attempts := call_attempts d2 @ [a]\<rparr>;
                         d4 = record_audit ''work.complete'' ''success'' (Some (rq_agent_id rq))
                                (Some ''work_item'') (Some (wi_id w))
                                (Some (di_stable_semantic_code di)) [] d3;
                         retry_at = (if wi_state w2 = Retry_wait then wi_due_at w2 else None) in
                     map_sum id (\<lambda>r. (r, d4)) (completion_result_of a retry_at))))))))))"

section \<open>Skipping\<close>

definition skip_work_item ::
  "env \<Rightarrow> settings \<Rightarrow> uuid \<Rightarrow> uuid \<Rightarrow> uuid \<Rightarrow> string \<Rightarrow> db \<Rightarrow> (work_error, work_item, db) outcome" where
  "skip_work_item e cfg work_item_id agent_id lease_id reason d =
     (if reason = '''' \<or> strip reason = '''' then Inl (Missing_required_field Reason_required)
      else
        case load_leased_item d work_item_id agent_id lease_id (clk e 0) of
          Inl err \<Rightarrow> Inl err
        | Inr w \<Rightarrow>
            (let n = wi_skip_count w + 1;
                 w' = (clear_lease w)\<lparr>wi_skip_count := n,
                   wi_state := (if n \<ge> max_skips_before_review cfg then Review else Queued)\<rparr>
             in Inr (w', record_audit ''work.skip'' ''success'' (Some agent_id) (Some ''work_item'')
                  (Some (wi_id w)) (Some (take 50 reason)) [] (put_work_item w' d))))"

section \<open>Listings\<close>

record callback_list_item =
  cl_work_item_id :: uuid
  cl_campaign_id :: uuid
  cl_campaign_name :: string
  cl_reference :: string
  cl_due_at :: "time option"

text \<open>The masked reference: the imported name, or eight characters of the work item's id.\<close>

definition masked_reference :: "(uuid \<Rightarrow> string) \<Rightarrow> work_item \<Rightarrow> campaign_contact \<Rightarrow> string" where
  "masked_reference str_uuid w cc =
     (case cc_campaign_name_value cc of
        None \<Rightarrow> ''Contact #'' @ take 8 (str_uuid (wi_id w))
      | Some n \<Rightarrow> if n = '''' then ''Contact #'' @ take 8 (str_uuid (wi_id w)) else n)"

text \<open>\<open>WorkItem JOIN CampaignContact JOIN Campaign\<close>.\<close>

definition campaign_rows :: "db \<Rightarrow> (work_item \<times> campaign_contact \<times> campaign) list" where
  "campaign_rows d =
     List.map_filter (\<lambda>w.
       case get_campaign_contact d (wi_campaign_contact_id w) of
         None \<Rightarrow> None
       | Some cc \<Rightarrow>
           (case get_campaign d (cc_campaign_id cc) of None \<Rightarrow> None | Some ca \<Rightarrow> Some (w, cc, ca)))
       (work_items d)"

text \<open>Ascending order with nulls last, PostgreSQL's default.\<close>

definition nulls_last :: "time option \<Rightarrow> bool \<times> time" where
  "nulls_last t = (case t of None \<Rightarrow> (True, 0) | Some x \<Rightarrow> (False, x))"

definition list_agent_callbacks ::
  "(uuid \<Rightarrow> string) \<Rightarrow> env \<Rightarrow> uuid \<Rightarrow> db \<Rightarrow> callback_list_item list" where
  "list_agent_callbacks str_uuid e agent_id d =
     map (\<lambda>(w, cc, ca). \<lparr>cl_work_item_id = wi_id w, cl_campaign_id = ca_id ca,
            cl_campaign_name = ca_name ca, cl_reference = masked_reference str_uuid w cc,
            cl_due_at = wi_due_at w\<rparr>)
       (sort_key (\<lambda>(w, cc, ca). nulls_last (wi_due_at w))
         (filter (\<lambda>(w, cc, ca). wi_state w = Callback_wait \<and> wi_assigned_agent_id w = Some agent_id
             \<and> ca_status ca = Active
             \<and> list_ex (\<lambda>a. agent_assignment agent_id (clk e 0) a
                              \<and> ua_campaign_id a = cc_campaign_id cc) (user_assignments d))
           (campaign_rows d)))"

record review_item =
  ri_work_item_id :: uuid
  ri_campaign_id :: uuid
  ri_campaign_name :: string
  ri_reference :: string
  ri_last_standard_outcome :: "string option"
  ri_attempt_count :: int
  ri_max_attempts :: int
  ri_last_attempt_at :: "time option"

text \<open>\<open>ORDER BY created_at DESC LIMIT 1\<close> over the item's attempts.\<close>

definition last_attempt :: "db \<Rightarrow> uuid \<Rightarrow> call_attempt option" where
  "last_attempt d work_item_id =
     first_by (\<lambda>a. - at_created_at a)
       (filter (\<lambda>a. at_work_item_id a = work_item_id) (call_attempts d))"

text \<open>\<open>updated_at\<close>, which the ORM maintains on every write, is a parameter.\<close>

definition list_review_items ::
  "(uuid \<Rightarrow> string) \<Rightarrow> (work_item \<Rightarrow> time) \<Rightarrow> uuid \<Rightarrow> db \<Rightarrow> review_item list" where
  "list_review_items str_uuid updated_at campaign_id d =
     map (\<lambda>(w, cc, ca). let la = last_attempt d (wi_id w) in
           \<lparr>ri_work_item_id = wi_id w, ri_campaign_id = ca_id ca, ri_campaign_name = ca_name ca,
            ri_reference = masked_reference str_uuid w cc,
            ri_last_standard_outcome = map_option at_semantic_outcome la,
            ri_attempt_count = wi_attempt_count w, ri_max_attempts = wi_max_attempts w,
            ri_last_attempt_at = map_option at_created_at la\<rparr>)
       (sort_key (\<lambda>(w, cc, ca). updated_at w)
         (filter (\<lambda>(w, cc, ca). wi_state w = Review \<and> cc_campaign_id cc = campaign_id)
           (campaign_rows d)))"

section \<open>Review decisions\<close>

definition load_review_item :: "db \<Rightarrow> uuid \<Rightarrow> work_error + work_item" where
  "load_review_item d work_item_id =
     (case get_work_item d work_item_id of
        None \<Rightarrow> Inl Review_state_error
      | Some w \<Rightarrow> (if wi_state w \<noteq> Review then Inl Review_state_error else Inr w))"

definition reschedule_review_item ::
  "env \<Rightarrow> uuid \<Rightarrow> uuid \<Rightarrow> time \<Rightarrow> string \<Rightarrow> db \<Rightarrow> (work_error, work_item, db) outcome" where
  "reschedule_review_item e work_item_id actor_id retry_at reason d =
     (if reason = '''' \<or> strip reason = '''' then Inl (Missing_required_field Reason_required)
      else if retry_at \<le> clk e 0 then Inl (Missing_required_field Retry_time_not_future)
      else
        case load_review_item d work_item_id of
          Inl err \<Rightarrow> Inl err
        | Inr w \<Rightarrow>
            (let w' = w\<lparr>wi_state := Retry_wait, wi_due_at := Some retry_at,
                       wi_assigned_agent_id := None, wi_version := wi_version w + 1\<rparr>
             in Inr (w', record_audit ''work.review.retry'' ''success'' (Some actor_id)
                  (Some ''work_item'') (Some (wi_id w)) (Some (take 50 reason))
                  [(''retry_at'', JTime retry_at)] (put_work_item w' d))))"

definition increase_review_item_attempts ::
  "env \<Rightarrow> uuid \<Rightarrow> uuid \<Rightarrow> int \<Rightarrow> string \<Rightarrow> db \<Rightarrow> (work_error, work_item, db) outcome" where
  "increase_review_item_attempts e work_item_id actor_id new_max_attempts reason d =
     (if reason = '''' \<or> strip reason = '''' then Inl (Missing_required_field Reason_required)
      else
        case load_review_item d work_item_id of
          Inl err \<Rightarrow> Inl err
        | Inr w \<Rightarrow>
            (if new_max_attempts \<le> wi_attempt_count w
             then Inl (Missing_required_field Maximum_not_raised)
             else
               let w' = w\<lparr>wi_max_attempts := new_max_attempts, wi_state := Retry_wait,
                         wi_due_at := Some (clk e 0), wi_assigned_agent_id := None,
                         wi_version := wi_version w + 1\<rparr>
               in Inr (w', record_audit ''work.review.retry'' ''success'' (Some actor_id)
                    (Some ''work_item'') (Some (wi_id w)) (Some (take 50 reason))
                    [(''new_max_attempts'', JInt new_max_attempts)] (put_work_item w' d))))"

definition close_review_item ::
  "env \<Rightarrow> uuid \<Rightarrow> uuid \<Rightarrow> string \<Rightarrow> db \<Rightarrow> (work_error, work_item, db) outcome" where
  "close_review_item e work_item_id actor_id reason d =
     (if reason = '''' \<or> strip reason = '''' then Inl (Missing_required_field Reason_required)
      else
        case load_review_item d work_item_id of
          Inl err \<Rightarrow> Inl err
        | Inr w \<Rightarrow>
            (case last_attempt d (wi_id w) of
               None \<Rightarrow> Inl (Work_item_error No_recorded_attempts)
             | Some la \<Rightarrow>
                 (case get_campaign_contact d (wi_campaign_contact_id w) of
                    None \<Rightarrow> Inl (Work_item_error Missing_campaign_contact)
                  | Some cc \<Rightarrow>
                      (let now = clk e 0;
                           w' = w\<lparr>wi_state := Completed, wi_completed_at := Some now,
                                  wi_version := wi_version w + 1\<rparr>;
                           cc' = cc\<lparr>cc_status := Contact_completed, cc_completed_at := Some now,
                                    cc_completed_by_agent_id := Some (at_agent_id la),
                                    cc_final_disposition_code := Some (at_semantic_outcome la)\<rparr>
                       in Inr (w', record_audit ''work.review.close'' ''success'' (Some actor_id)
                            (Some ''work_item'') (Some (wi_id w)) (Some (take 50 reason))
                            [(''final_disposition_code'', JStr (at_semantic_outcome la))]
                            (put_campaign_contact cc' (put_work_item w' d)))))))"

end
