(* ===== verification/Work_Lemmas.thy ===== *)
theory Work_Lemmas
  imports Work_Complete
begin

text \<open>
  What the leasing operations do to the database: the outcomes of locking one candidate, the
  interface of a candidate loop with its termination, and the rows a lease is granted on.
\<close>

section \<open>Joins\<close>

lemma join_row_Some:
  "join_row d w = Some (w', cc, co) \<longleftrightarrow>
     w' = w \<and> get_campaign_contact d (wi_campaign_contact_id w) = Some cc
     \<and> get_contact d (cc_contact_id cc) = Some co"
  by (auto simp: join_row_def split: option.splits)

lemma lease_rows_mem:
  "(w, cc, co) \<in> set (lease_rows d) \<longleftrightarrow>
     w \<in> set (work_items d) \<and> get_campaign_contact d (wi_campaign_contact_id w) = Some cc
     \<and> get_contact d (cc_contact_id cc) = Some co"
  by (auto simp: lease_rows_def map_filter_mem join_row_Some)

lemma active_suppression_iff:
  "active_suppression_exists d fp \<longleftrightarrow>
     (\<exists>s \<in> set (suppression_entries d). se_phone_fingerprint s = fp \<and> se_status s = ''active'')"
  by (auto simp: active_suppression_exists_def list_ex_iff)

section \<open>Locking a candidate\<close>

text \<open>The row a lock hands out: re-read under the lock and fit to be leased.\<close>

definition leasable_row :: "env \<Rightarrow> uuid \<Rightarrow> time \<Rightarrow> bool \<Rightarrow> bool \<Rightarrow> db \<Rightarrow> lease_row \<Rightarrow> bool" where
  "leasable_row e agent_id now is_callback is_due_retry d row \<longleftrightarrow>
     (case row of (w, cc, co) \<Rightarrow>
        get_work_item d (wi_id w) = Some w
        \<and> still_leasable agent_id now is_callback is_due_retry w
        \<and> get_campaign_contact d (wi_campaign_contact_id w) = Some cc
        \<and> get_contact d (cc_contact_id cc) = Some co
        \<and> campaign_active d (cc_campaign_id cc)
        \<and> \<not> active_suppression_exists d (co_phone_fingerprint co))"

lemma lock_cases:
  assumes "lock_lease_candidate e a now cb rt cand d = Inr (x, d')"
  obtains (refused) "x = None" and "d' = d"
  | (closed) w cc where "x = None" and "d' = close_suppressed now w cc d"
      and "get_work_item d (lc_work_item_id cand) = Some w" and "still_leasable a now cb rt w"
      and "get_campaign_contact d (wi_campaign_contact_id w) = Some cc"
  | (locked) row where "x = Some row" and "d' = d"
      and "wi_id (fst row) = lc_work_item_id cand" and "leasable_row e a now cb rt d row"
proof -
  note rules = refused closed locked
  show thesis
  proof (cases "phone_busy e (lc_phone_fingerprint cand) \<or> get_work_item d (lc_work_item_id cand) = None")
    case True
    with assms show thesis
      by (intro refused) (auto simp: lock_lease_candidate_def split: if_splits)
  next
    case False
    then obtain w where w: "get_work_item d (lc_work_item_id cand) = Some w" by auto
    then have id: "wi_id w = lc_work_item_id cand" by (rule work_item_table.get_key)
    from assms False w show thesis
      by (auto simp: lock_lease_candidate_def id leasable_row_def
          split: if_splits option.splits intro: rules)
  qed
qed

lemma still_leasable_state: "still_leasable a now cb rt w \<Longrightarrow> wi_state w \<in> {Callback_wait, Retry_wait, Queued}"
  by (auto simp: still_leasable_def split: if_splits)

lemma lock_no_fuel: "lock_lease_candidate e a now cb rt cand d \<noteq> Inl Loop_fuel"
  by (auto simp: lock_lease_candidate_def split: if_splits option.splits)

lemma close_suppressed_sel [simp]:
  "work_items (close_suppressed now w cc d) =
     row_put wi_id (w\<lparr>wi_state := Suppressed, wi_completed_at := Some now,
       wi_version := wi_version w + 1\<rparr>) (work_items d)"
  "call_attempts (close_suppressed now w cc d) = call_attempts d"
  "contacts (close_suppressed now w cc d) = contacts d"
  "suppression_entries (close_suppressed now w cc d) = suppression_entries d"
  "campaigns (close_suppressed now w cc d) = campaigns d"
  "user_assignments (close_suppressed now w cc d) = user_assignments d"
  "feature_flags (close_suppressed now w cc d) = feature_flags d"
  "audit_events (close_suppressed now w cc d) = audit_events d"
  by (simp_all add: close_suppressed_def)

lemma lock_ids:
  "lock_lease_candidate e a now cb rt cand d = Inr (x, d')
   \<Longrightarrow> map wi_id (work_items d') = map wi_id (work_items d)"
  by (erule lock_cases) auto

section \<open>The candidate loops\<close>

text \<open>
  What one of the three loops needs of its candidate query and of its attempt: a candidate is
  an existing work item not skipped yet, and an attempt neither adds nor removes work items.
\<close>

locale candidate_source =
  fixes pick :: "uuid list \<Rightarrow> db \<Rightarrow> lease_candidate option"
    and attempt :: "lease_candidate \<Rightarrow> db \<Rightarrow> (work_error, choice option, db) outcome"
  assumes pick_new:
      "pick ex d = Some cand \<Longrightarrow> lc_work_item_id cand \<in> wi_id ` set (work_items d) - set ex"
    and attempt_ids:
      "attempt cand d = Inr (x, d') \<Longrightarrow> map wi_id (work_items d') = map wi_id (work_items d)"
    and attempt_no_fuel: "attempt cand d \<noteq> Inl Loop_fuel"
begin

lemma loop_total:
  "card (wi_id ` set (work_items d) - set ex) < fuel
   \<Longrightarrow> try_candidates fuel pick attempt ex d \<noteq> Inl Loop_fuel"
proof (induction fuel arbitrary: ex d)
  case 0
  then show ?case by simp
next
  case (Suc fuel)
  show ?case
  proof (cases "pick ex d")
    case None
    then show ?thesis by simp
  next
    case (Some cand)
    show ?thesis
    proof (cases "attempt cand d")
      case (Inl err)
      with Some attempt_no_fuel [of cand d] show ?thesis by simp
    next
      case (Inr y)
      obtain x d' where y: "y = (x, d')" by (cases y)
      have "set (map wi_id (work_items d')) = set (map wi_id (work_items d))"
        using attempt_ids Inr y by metis
      moreover have "lc_work_item_id cand \<in> wi_id ` set (work_items d) - set ex"
        using Some by (rule pick_new)
      ultimately have "card (wi_id ` set (work_items d') - set (lc_work_item_id cand # ex))
          < card (wi_id ` set (work_items d) - set ex)"
        by (intro psubset_card_mono) auto
      with Suc.prems have "try_candidates fuel pick attempt (lc_work_item_id cand # ex) d' \<noteq> Inl Loop_fuel"
        by (intro Suc.IH) simp
      with Some Inr y show ?thesis by (auto split: option.splits)
    qed
  qed
qed

lemma loop_never_starves: "try_candidates (loop_fuel d) pick attempt [] d \<noteq> Inl Loop_fuel"
proof (rule loop_total)
  have "card (wi_id ` set (work_items d)) \<le> length (work_items d)"
    by (metis card_length length_map list.set_map)
  then show "card (wi_id ` set (work_items d) - set []) < loop_fuel d"
    by (simp add: loop_fuel_def)
qed

lemma loop_invariant:
  assumes "\<And>cand d x d'. \<lbrakk>attempt cand d = Inr (x, d'); I d\<rbrakk> \<Longrightarrow> I d'"
    and "try_candidates fuel pick attempt ex d = Inr (x, d')" and "I d"
  shows "I d'"
  using assms(2,3)
proof (induction fuel arbitrary: ex d)
  case 0
  then show ?case by simp
next
  case (Suc fuel)
  then show ?case
    by (auto split: option.splits sum.splits prod.splits intro: assms(1))
qed

lemma loop_choice:
  assumes keep: "\<And>cand d x d'. \<lbrakk>attempt cand d = Inr (x, d'); I d\<rbrakk> \<Longrightarrow> I d'"
    and "try_candidates fuel pick attempt ex d = Inr (Some ch, d')" and "I d"
  shows "\<exists>cand d0 ex'. pick ex' d0 = Some cand \<and> attempt cand d0 = Inr (Some ch, d') \<and> I d0"
  using assms(2,3)
proof (induction fuel arbitrary: ex d)
  case 0
  then show ?case by simp
next
  case (Suc fuel)
  show ?case
  proof (cases "pick ex d")
    case None
    with Suc.prems show ?thesis by simp
  next
    case (Some cand)
    with Suc.prems consider "attempt cand d = Inr (Some ch, d')"
      | d1 where "attempt cand d = Inr (None, d1)"
        "try_candidates fuel pick attempt (lc_work_item_id cand # ex) d1 = Inr (Some ch, d')"
      by (auto split: sum.splits prod.splits option.splits)
    then show ?thesis
    proof cases
      case 1
      with Some Suc.prems show ?thesis by blast
    next
      case (2 d1)
      with Suc.prems have "I d1" by (blast intro: keep)
      with 2 show ?thesis by (blast intro: Suc.IH)
    qed
  qed
qed

text \<open>When nothing came of the loop, every candidate left has been skipped.\<close>

lemma loop_exhausted:
  assumes "try_candidates fuel pick attempt ex d = Inr (None, d')"
  shows "\<exists>ex'. set ex \<subseteq> set ex' \<and> pick ex' d' = None"
  using assms
proof (induction fuel arbitrary: ex d)
  case 0
  then show ?case by simp
next
  case (Suc fuel)
  show ?case
  proof (cases "pick ex d")
    case None
    with Suc.prems show ?thesis by auto
  next
    case (Some cand)
    with Suc.prems obtain d1 where "attempt cand d = Inr (None, d1)"
      and "try_candidates fuel pick attempt (lc_work_item_id cand # ex) d1 = Inr (None, d')"
      by (auto split: sum.splits prod.splits option.splits)
    from Suc.IH [OF this(2)] show ?thesis by auto
  qed
qed

end

lemma pick_from_rows:
  assumes "map_option candidate_of (first_by key (filter (\<lambda>row. P row \<and> wi_id (fst row) \<notin> set ex)
             (lease_rows d))) = Some cand"
  shows "\<exists>row. first_by key (filter (\<lambda>row. P row \<and> wi_id (fst row) \<notin> set ex) (lease_rows d)) = Some row
     \<and> P row \<and> row \<in> set (lease_rows d) \<and> wi_id (fst row) \<notin> set ex \<and> cand = candidate_of row
     \<and> lc_work_item_id cand = wi_id (fst row) \<and> lc_work_item_id cand \<in> wi_id ` set (work_items d) - set ex"
proof -
  from assms obtain row where row:
    "first_by key (filter (\<lambda>row. P row \<and> wi_id (fst row) \<notin> set ex) (lease_rows d)) = Some row"
    "cand = candidate_of row" by auto
  obtain w cc co where r: "row = (w, cc, co)" by (cases row) auto
  from first_by_in [OF row(1)] show ?thesis
    using row by (auto simp: r candidate_of_def lease_rows_mem)
qed


lemma attempt_callback_cases:
  assumes "attempt_callback e a now cand d = Inr (x, d')"
  obtains (nothing) "x = None" and "d' = d"
  | (lock) y where "lock_lease_candidate e a now True False cand d = Inr (y, d')"
      and "\<And>ch. x = Some ch \<Longrightarrow> \<exists>asg row. ch = (asg, row, Scheduled_callback) \<and> y = Some row
             \<and> active_assignment_for_campaign d a (lc_campaign_id cand) (clk e 1) = Some asg"
      and "x = None \<Longrightarrow> y = None"
  using assms
  by (auto simp: attempt_callback_def split: option.splits sum.splits prod.splits)

lemma attempt_pool_cases:
  assumes "attempt_pool e a now asg rt cand d = Inr (x, d')"
  obtains y where "lock_lease_candidate e a now False rt cand d = Inr (y, d')"
    and "\<And>ch. x = Some ch \<Longrightarrow> \<exists>row. ch = (asg, row, if rt then Delayed_retry else Normal) \<and> y = Some row"
    and "x = None \<Longrightarrow> y = None"
  using assms
  by (auto simp: attempt_pool_def split: option.splits sum.splits prod.splits)

interpretation callback_source: candidate_source
  "\<lambda>ex d. next_callback_candidate d agent_id now ex" "attempt_callback e agent_id now"
  for e agent_id now
proof
  show "lc_work_item_id cand \<in> wi_id ` set (work_items d) - set ex"
    if "next_callback_candidate d agent_id now ex = Some cand" for ex d cand
    using pick_from_rows [OF that [unfolded next_callback_candidate_def]] by blast
  show "map wi_id (work_items d') = map wi_id (work_items d)"
    if "attempt_callback e agent_id now cand d = Inr (x, d')" for cand d x d'
    using that by (rule attempt_callback_cases) (auto dest: lock_ids)
  show "attempt_callback e agent_id now cand d \<noteq> Inl Loop_fuel" for cand d
    using lock_no_fuel [of e agent_id now True False cand d]
    by (auto simp: attempt_callback_def split: option.splits sum.splits prod.splits)
qed

interpretation retry_source: candidate_source
  "\<lambda>ex d. next_due_retry_candidate d campaign_id now ex" "attempt_pool e agent_id now asg True"
  for e agent_id now asg campaign_id
proof
  show "lc_work_item_id cand \<in> wi_id ` set (work_items d) - set ex"
    if "next_due_retry_candidate d campaign_id now ex = Some cand" for ex d cand
    using pick_from_rows [OF that [unfolded next_due_retry_candidate_def]] by blast
  show "map wi_id (work_items d') = map wi_id (work_items d)"
    if "attempt_pool e agent_id now asg True cand d = Inr (x, d')" for cand d x d'
    using that by (rule attempt_pool_cases) (auto dest: lock_ids)
  show "attempt_pool e agent_id now asg True cand d \<noteq> Inl Loop_fuel" for cand d
    using lock_no_fuel [of e agent_id now False True cand d]
    by (auto simp: attempt_pool_def split: option.splits sum.splits prod.splits)
qed

interpretation queue_source: candidate_source
  "\<lambda>ex d. next_queue_candidate d campaign_id ex" "attempt_pool e agent_id now asg False"
  for e agent_id now asg campaign_id
proof
  show "lc_work_item_id cand \<in> wi_id ` set (work_items d) - set ex"
    if "next_queue_candidate d campaign_id ex = Some cand" for ex d cand
    using pick_from_rows [OF that [unfolded next_queue_candidate_def]] by blast
  show "map wi_id (work_items d') = map wi_id (work_items d)"
    if "attempt_pool e agent_id now asg False cand d = Inr (x, d')" for cand d x d'
    using that by (rule attempt_pool_cases) (auto dest: lock_ids)
  show "attempt_pool e agent_id now asg False cand d \<noteq> Inl Loop_fuel" for cand d
    using lock_no_fuel [of e agent_id now False False cand d]
    by (auto simp: attempt_pool_def split: option.splits sum.splits prod.splits)
qed

section \<open>Releasing the work of an agent\<close>

lemma release_uncontended:
  assumes "\<And>i. \<not> row_busy e i" and "release_campaign_work_for_agent e a k d = (n, d')"
  shows "d' = d\<lparr>work_items :=
           rows_update (agent_holds_in_campaign d a k) return_to_queue (work_items d)\<rparr>"
    and "n = count_where (agent_holds_in_campaign d a k) (work_items d)"
    and "w \<in> set (work_items d') \<Longrightarrow> \<not> agent_holds_in_campaign d' a k w"
proof -
  show d': "d' = d\<lparr>work_items :=
           rows_update (agent_holds_in_campaign d a k) return_to_queue (work_items d)\<rparr>"
    and "n = count_where (agent_holds_in_campaign d a k) (work_items d)"
    using assms by (auto simp: release_campaign_work_for_agent_def Let_def)
  assume "w \<in> set (work_items d')"
  then have "w \<in> set (rows_update (agent_holds_in_campaign d a k) return_to_queue (work_items d))"
    by (simp add: d')
  then have "\<not> agent_holds_in_campaign d a k w"
    by (rule rows_update_none_left [where f = return_to_queue])
      (simp add: agent_holds_in_campaign_def return_to_queue_def)
  moreover have "agent_holds_in_campaign d' a k w = agent_holds_in_campaign d a k w"
    by (simp add: d' agent_holds_in_campaign_def get_campaign_contact_def)
  ultimately show "\<not> agent_holds_in_campaign d' a k w" by simp
qed

lemma release_frame:
  assumes "release_campaign_work_for_agent e a k d = (n, d')"
  shows "\<exists>ws. d' = d\<lparr>work_items := ws\<rparr>"
  using assms by (auto simp: release_campaign_work_for_agent_def Let_def)

end
