(* ===== verification/Work_Leasing.thy ===== *)
theory Work_Leasing
  imports Work_Lemmas
begin

text \<open>
  The properties of \<open>lease_next\<close>: it always returns, what it hands out may be disclosed to the
  agent, a held lease is resumed unchanged, and in an uncontended database it leases exactly
  the item the documented order names.
\<close>

section \<open>Choosing work\<close>

lemma choose_work_cases:
  assumes "choose_work e a now d = Inr (x, d')"
  obtains (callback) ch where "x = Some ch"
      and "try_candidates (loop_fuel d) (\<lambda>ex d. next_callback_candidate d a now ex)
             (attempt_callback e a now) [] d = Inr (Some ch, d')"
  | (no_assignment) "x = None"
      and "try_candidates (loop_fuel d) (\<lambda>ex d. next_callback_candidate d a now ex)
             (attempt_callback e a now) [] d = Inr (None, d')"
  | (retry) d1 asg ch where "x = Some ch"
      and "try_candidates (loop_fuel d) (\<lambda>ex d. next_callback_candidate d a now ex)
             (attempt_callback e a now) [] d = Inr (None, d1)"
      and "active_primary_assignment d1 a (clk e 2) = Some asg"
      and "campaign_active d1 (ua_campaign_id asg)"
      and "try_candidates (loop_fuel d1)
             (\<lambda>ex d. next_due_retry_candidate d (ua_campaign_id asg) now ex)
             (attempt_pool e a now asg True) [] d1 = Inr (Some ch, d')"
  | (queue) d1 d2 asg where
      "try_candidates (loop_fuel d) (\<lambda>ex d. next_callback_candidate d a now ex)
             (attempt_callback e a now) [] d = Inr (None, d1)"
      and "active_primary_assignment d1 a (clk e 2) = Some asg"
      and "campaign_active d1 (ua_campaign_id asg)"
      and "try_candidates (loop_fuel d1)
             (\<lambda>ex d. next_due_retry_candidate d (ua_campaign_id asg) now ex)
             (attempt_pool e a now asg True) [] d1 = Inr (None, d2)"
      and "try_candidates (loop_fuel d2) (\<lambda>ex d. next_queue_candidate d (ua_campaign_id asg) ex)
             (attempt_pool e a now asg False) [] d2 = Inr (x, d')"
  using assms
  by (auto simp: choose_work_def split: sum.splits prod.splits option.splits if_splits)

text \<open>
  The database changes only by closing suppressed items, so whatever such a closing keeps,
  choosing keeps.
\<close>

lemma attempts_invariant:
  assumes closed: "\<And>d w cc cb rt. \<lbrakk>I d; get_work_item d (wi_id w) = Some w;
        still_leasable a now cb rt w; get_campaign_contact d (wi_campaign_contact_id w) = Some cc\<rbrakk>
        \<Longrightarrow> I (close_suppressed now w cc d)"
    and "I d"
  shows "attempt_callback e a now cand d = Inr (x, d') \<Longrightarrow> I d'"
    and "attempt_pool e a now asg r cand d = Inr (x, d') \<Longrightarrow> I d'"
proof -
  have lock: "I d'" if l: "lock_lease_candidate e a now cb rt cand d = Inr (y, d')" for cb rt y
    using l
  proof (cases rule: lock_cases)
    case refused
    then show ?thesis using \<open>I d\<close> by simp
  next
    case (closed w cc)
    have "wi_id w = lc_work_item_id cand" by (rule work_item_table.get_key [OF closed(3)])
    with closed show ?thesis using \<open>I d\<close> assms(1) by auto
  next
    case (locked row)
    then show ?thesis using \<open>I d\<close> by simp
  qed
  show "attempt_callback e a now cand d = Inr (x, d') \<Longrightarrow> I d'"
    using lock \<open>I d\<close> by (auto elim: attempt_callback_cases)
  show "attempt_pool e a now asg r cand d = Inr (x, d') \<Longrightarrow> I d'"
    using lock by (auto elim: attempt_pool_cases)
qed

lemma choose_work_invariant:
  assumes closed: "\<And>d w cc cb rt. \<lbrakk>I d; get_work_item d (wi_id w) = Some w;
        still_leasable a now cb rt w; get_campaign_contact d (wi_campaign_contact_id w) = Some cc\<rbrakk>
        \<Longrightarrow> I (close_suppressed now w cc d)"
    and "choose_work e a now d = Inr (x, d')" and "I d"
  shows "I d'"
proof -
  note step = attempts_invariant [where I = I, OF closed]
  have cb: "I d2" if "try_candidates n (\<lambda>ex d. next_callback_candidate d a now ex)
      (attempt_callback e a now) ex d1 = Inr (y, d2)" "I d1" for n ex d1 y d2
    using that by (rule callback_source.loop_invariant [where I = I, rotated]) (rule step(1))
  have rt: "I d2" if "try_candidates n (\<lambda>ex d. next_due_retry_candidate d k now ex)
      (attempt_pool e a now asg True) ex d1 = Inr (y, d2)" "I d1" for n ex d1 y d2 asg k
    using that by (rule retry_source.loop_invariant [where I = I, rotated]) (rule step(2))
  have qu: "I d2" if "try_candidates n (\<lambda>ex d. next_queue_candidate d k ex)
      (attempt_pool e a now asg False) ex d1 = Inr (y, d2)" "I d1" for n ex d1 y d2 asg k
    using that by (rule queue_source.loop_invariant [where I = I, rotated]) (rule step(2))
  from assms(2) show ?thesis
  proof (cases rule: choose_work_cases)
    case callback
    then show ?thesis using cb \<open>I d\<close> by blast
  next
    case no_assignment
    then show ?thesis using cb \<open>I d\<close> by blast
  next
    case retry
    then show ?thesis using cb rt \<open>I d\<close> by blast
  next
    case queue
    then show ?thesis using cb rt qu \<open>I d\<close> by blast
  qed
qed

lemma choose_work_ids:
  assumes "choose_work e a now d = Inr (x, d')"
  shows "map wi_id (work_items d') = map wi_id (work_items d)"
  by (rule choose_work_invariant [where I = "\<lambda>d'. map wi_id (work_items d') = map wi_id (work_items d)",
        OF _ assms]) auto

lemma choose_work_frame:
  assumes "choose_work e a now d = Inr (x, d')"
  shows "call_attempts d' = call_attempts d \<and> contacts d' = contacts d
    \<and> suppression_entries d' = suppression_entries d \<and> campaigns d' = campaigns d
    \<and> user_assignments d' = user_assignments d \<and> feature_flags d' = feature_flags d"
  by (rule choose_work_invariant [where I = "\<lambda>d'. call_attempts d' = call_attempts d
        \<and> contacts d' = contacts d \<and> suppression_entries d' = suppression_entries d
        \<and> campaigns d' = campaigns d \<and> user_assignments d' = user_assignments d
        \<and> feature_flags d' = feature_flags d", OF _ assms]) auto

lemma first_by_filterD: "first_by k (filter P xs) = Some x \<Longrightarrow> P x \<and> x \<in> set xs"
  by (auto dest: first_by_in)

lemma distinct_get:
  "\<lbrakk>distinct (map wi_id (work_items d)); w \<in> set (work_items d)\<rbrakk> \<Longrightarrow> get_work_item d (wi_id w) = Some w"
  by (simp add: get_work_item_def row_get_distinct)

lemma lock_authorised:
  assumes dist: "distinct (map wi_id (work_items d))"
    and lock: "lock_lease_candidate e a now cb rt cand d = Inr (Some row, d')"
    and cand: "cand = candidate_of r0" "r0 \<in> set (lease_rows d)"
  shows "d' = d \<and> row = r0 \<and> leasable_row e a now cb rt d row"
  using lock
proof (cases rule: lock_cases)
  case (locked row')
  obtain w0 cc0 co0 where r0: "r0 = (w0, cc0, co0)" by (cases r0) auto
  obtain w cc co where row: "row = (w, cc, co)" by (cases row) auto
  have row': "row' = (w, cc, co)" using locked(1) row by simp
  have "get_work_item d (wi_id w0) = Some w0"
    using dist cand(2) by (intro distinct_get) (auto simp: r0 lease_rows_mem)
  moreover have "wi_id w = wi_id w0"
    using locked(3) by (simp add: row' cand(1) r0 candidate_of_def)
  moreover have "get_work_item d (wi_id w) = Some w"
    using locked(4) by (simp add: row' leasable_row_def)
  ultimately have w: "w = w0" by (metis option.inject)
  have l0: "get_campaign_contact d (wi_campaign_contact_id w0) = Some cc0"
    "get_contact d (cc_contact_id cc0) = Some co0"
    using cand(2) by (simp_all add: r0 lease_rows_mem)
  have l1: "get_campaign_contact d (wi_campaign_contact_id w) = Some cc"
    "get_contact d (cc_contact_id cc) = Some co"
    using locked(4) by (simp_all add: row' leasable_row_def)
  have cc: "cc = cc0" using l0(1) l1(1) w by simp
  have "co = co0" using l0(2) l1(2) cc by simp
  with w cc locked(1,2,4) row row' r0 show ?thesis by simp
qed simp_all

text \<open>The parts of the database that choosing leaves alone, relative to where it started.\<close>

definition same_base :: "db \<Rightarrow> db \<Rightarrow> bool" where
  "same_base d0 d \<longleftrightarrow> map wi_id (work_items d) = map wi_id (work_items d0)
     \<and> user_assignments d = user_assignments d0"

lemma same_base_close [simp]: "same_base d0 (close_suppressed now w cc d) = same_base d0 d"
  by (simp add: same_base_def)

lemma same_base_attempts:
  "\<lbrakk>attempt_callback e a now cand d = Inr (x, d'); same_base d0 d\<rbrakk> \<Longrightarrow> same_base d0 d'"
  "\<lbrakk>attempt_pool e a now asg rt cand d = Inr (x, d'); same_base d0 d\<rbrakk> \<Longrightarrow> same_base d0 d'"
  by (rule attempts_invariant [where I = "same_base d0"]; simp)+

lemma callback_choice:
  assumes dist: "distinct (map wi_id (work_items d))" and base: "same_base d d1"
    and loop: "try_candidates n (\<lambda>ex d. next_callback_candidate d a now ex)
      (attempt_callback e a now) ex d1 = Inr (Some ch, d')"
  shows "\<exists>asg row. ch = (asg, row, Scheduled_callback) \<and> asg \<in> set (user_assignments d)
     \<and> agent_assignment a (clk e 1) asg \<and> ua_campaign_id asg = cc_campaign_id (fst (snd row))
     \<and> leasable_row e a now True False d' row \<and> same_base d d'"
proof -
  have "\<exists>cand d0 ex'. next_callback_candidate d0 a now ex' = Some cand
      \<and> attempt_callback e a now cand d0 = Inr (Some ch, d') \<and> same_base d d0"
    by (rule callback_source.loop_choice [where I = "same_base d", OF _ loop base])
      (rule same_base_attempts(1))
  then obtain cand d0 ex' where pick: "next_callback_candidate d0 a now ex' = Some cand"
    and att: "attempt_callback e a now cand d0 = Inr (Some ch, d')" and b0: "same_base d d0"
    by blast
  from pick_from_rows [OF pick [unfolded next_callback_candidate_def]] obtain r0 where
    r0: "cand = candidate_of r0" "r0 \<in> set (lease_rows d0)" by blast
  from dist b0 have dist0: "distinct (map wi_id (work_items d0))" by (simp add: same_base_def)
  from att show ?thesis
  proof (cases rule: attempt_callback_cases)
    case (lock y)
    from lock(2) [OF refl] obtain asg row where ch: "ch = (asg, row, Scheduled_callback)" "y = Some row"
      and asg: "active_assignment_for_campaign d0 a (lc_campaign_id cand) (clk e 1) = Some asg" by blast
    have l: "d' = d0 \<and> row = r0 \<and> leasable_row e a now True False d0 row"
      by (rule lock_authorised [OF dist0 lock(1) [unfolded ch(2)] r0])
    have "agent_assignment a (clk e 1) asg \<and> ua_campaign_id asg = lc_campaign_id cand
        \<and> asg \<in> set (user_assignments d0)"
      using first_by_filterD [OF asg [unfolded active_assignment_for_campaign_def]] by blast
    moreover have "lc_campaign_id cand = cc_campaign_id (fst (snd row))"
      using l r0 by (simp add: candidate_of_def split_beta)
    ultimately show ?thesis using l b0 ch by (auto simp: same_base_def)
  qed simp
qed

lemma pool_choice:
  assumes dist: "distinct (map wi_id (work_items d))" and b0: "same_base d d0"
    and asg: "active_primary_assignment d1 a (clk e 2) = Some asg" "same_base d d1"
    and r0: "cand = candidate_of r0" "r0 \<in> set (lease_rows d0)"
      "cc_campaign_id (fst (snd r0)) = ua_campaign_id asg"
    and att: "attempt_pool e a now asg rt cand d0 = Inr (Some ch, d')"
  shows "\<exists>row. ch = (asg, row, if rt then Delayed_retry else Normal) \<and> asg \<in> set (user_assignments d)
     \<and> agent_assignment a (clk e 2) asg \<and> ua_campaign_id asg = cc_campaign_id (fst (snd row))
     \<and> leasable_row e a now False rt d' row \<and> same_base d d'"
proof -
  from dist b0 have dist0: "distinct (map wi_id (work_items d0))" by (simp add: same_base_def)
  from att obtain row where ch: "ch = (asg, row, if rt then Delayed_retry else Normal)"
    and lock: "lock_lease_candidate e a now False rt cand d0 = Inr (Some row, d')"
    by (rule attempt_pool_cases) blast
  have l: "d' = d0 \<and> row = r0 \<and> leasable_row e a now False rt d0 row"
    by (rule lock_authorised [OF dist0 lock r0(1,2)])
  have "agent_assignment a (clk e 2) asg \<and> asg \<in> set (user_assignments d)"
    using first_by_filterD [OF asg(1) [unfolded active_primary_assignment_def]] asg(2)
    by (auto simp: same_base_def)
  with l b0 r0 ch show ?thesis by auto
qed

lemma retry_choice:
  assumes "distinct (map wi_id (work_items d))" and "same_base d d1"
    and "active_primary_assignment d1 a (clk e 2) = Some asg"
    and loop: "try_candidates n (\<lambda>ex d. next_due_retry_candidate d (ua_campaign_id asg) now ex)
      (attempt_pool e a now asg True) ex d1 = Inr (Some ch, d')"
  shows "\<exists>row. ch = (asg, row, Delayed_retry) \<and> asg \<in> set (user_assignments d)
     \<and> agent_assignment a (clk e 2) asg \<and> ua_campaign_id asg = cc_campaign_id (fst (snd row))
     \<and> leasable_row e a now False True d' row \<and> same_base d d'"
proof -
  have "\<exists>cand d0 ex'. next_due_retry_candidate d0 (ua_campaign_id asg) now ex' = Some cand
      \<and> attempt_pool e a now asg True cand d0 = Inr (Some ch, d') \<and> same_base d d0"
    by (rule retry_source.loop_choice [where I = "same_base d", OF _ loop assms(2)])
      (rule same_base_attempts(2))
  then obtain cand d0 ex' where pick: "next_due_retry_candidate d0 (ua_campaign_id asg) now ex' = Some cand"
    and att: "attempt_pool e a now asg True cand d0 = Inr (Some ch, d')" and b0: "same_base d d0"
    by blast
  from pick_from_rows [OF pick [unfolded next_due_retry_candidate_def]] obtain r0 where
    "cand = candidate_of r0" "r0 \<in> set (lease_rows d0)" "retry_eligible d0 (ua_campaign_id asg) now r0"
    by blast
  then have r: "cc_campaign_id (fst (snd r0)) = ua_campaign_id asg" "cand = candidate_of r0"
    "r0 \<in> set (lease_rows d0)" by (auto simp: retry_eligible_def split: prod.splits)
  from pool_choice [OF assms(1) b0 assms(3,2) r(2,3,1) att] show ?thesis by simp
qed

lemma queue_choice:
  assumes "distinct (map wi_id (work_items d))" and "same_base d d2" and "same_base d d1"
    and "active_primary_assignment d1 a (clk e 2) = Some asg"
    and loop: "try_candidates n (\<lambda>ex d. next_queue_candidate d (ua_campaign_id asg) ex)
      (attempt_pool e a now asg False) ex d2 = Inr (Some ch, d')"
  shows "\<exists>row. ch = (asg, row, Normal) \<and> asg \<in> set (user_assignments d)
     \<and> agent_assignment a (clk e 2) asg \<and> ua_campaign_id asg = cc_campaign_id (fst (snd row))
     \<and> leasable_row e a now False False d' row \<and> same_base d d'"
proof -
  have "\<exists>cand d0 ex'. next_queue_candidate d0 (ua_campaign_id asg) ex' = Some cand
      \<and> attempt_pool e a now asg False cand d0 = Inr (Some ch, d') \<and> same_base d d0"
    by (rule queue_source.loop_choice [where I = "same_base d", OF _ loop assms(2)])
      (rule same_base_attempts(2))
  then obtain cand d0 ex' where pick: "next_queue_candidate d0 (ua_campaign_id asg) ex' = Some cand"
    and att: "attempt_pool e a now asg False cand d0 = Inr (Some ch, d')" and b0: "same_base d d0"
    by blast
  from pick_from_rows [OF pick [unfolded next_queue_candidate_def]] obtain r0 where
    "cand = candidate_of r0" "r0 \<in> set (lease_rows d0)" "queue_eligible d0 (ua_campaign_id asg) r0"
    by blast
  then have r: "cc_campaign_id (fst (snd r0)) = ua_campaign_id asg" "cand = candidate_of r0"
    "r0 \<in> set (lease_rows d0)" by (auto simp: queue_eligible_def split: prod.splits)
  from pool_choice [OF assms(1) b0 assms(4,3) r(2,3,1) att] show ?thesis by simp
qed

text \<open>What \<open>lease_next\<close> may act on: an authorised assignment and a row fit to be leased.\<close>

definition good_choice :: "env \<Rightarrow> uuid \<Rightarrow> time \<Rightarrow> db \<Rightarrow> choice \<Rightarrow> bool" where
  "good_choice e a now d ch = (case ch of (asg, row, reason) \<Rightarrow>
     asg \<in> set (user_assignments d) \<and> ua_campaign_id asg = cc_campaign_id (fst (snd row))
     \<and> agent_assignment a (if reason = Scheduled_callback then clk e 1 else clk e 2) asg
     \<and> leasable_row e a now (reason = Scheduled_callback) (reason = Delayed_retry) d row
     \<and> reason \<noteq> Immediate_redial)"

lemma choose_work_choice:
  assumes dist: "distinct (map wi_id (work_items d))"
    and choose: "choose_work e a now d = Inr (Some ch, d')"
  shows "good_choice e a now d' ch"
proof -
  have refl: "same_base d d" by (simp add: same_base_def)
  have cb: "same_base d d1" if "try_candidates (loop_fuel d) (\<lambda>ex d. next_callback_candidate d a now ex)
             (attempt_callback e a now) [] d = Inr (None, d1)" for d1
    by (rule callback_source.loop_invariant [where I = "same_base d", OF _ that refl])
      (rule same_base_attempts(1))
  from choose show ?thesis
  proof (cases rule: choose_work_cases)
    case (callback ch')
    from callback(1) have ch': "ch' = ch" by simp
    from callback_choice [OF dist refl callback(2)] obtain asg row where
      "ch = (asg, row, Scheduled_callback)" "asg \<in> set (user_assignments d)"
      "agent_assignment a (clk e 1) asg" "ua_campaign_id asg = cc_campaign_id (fst (snd row))"
      "leasable_row e a now True False d' row" "same_base d d'"
      unfolding ch' by blast
    then show ?thesis by (simp add: good_choice_def same_base_def)
  next
    case (retry d1 asg ch')
    from retry(1) have ch': "ch' = ch" by simp
    from retry_choice [OF dist cb [OF retry(2)] retry(3,5)] obtain row where
      "ch = (asg, row, Delayed_retry)" "asg \<in> set (user_assignments d)"
      "agent_assignment a (clk e 2) asg" "ua_campaign_id asg = cc_campaign_id (fst (snd row))"
      "leasable_row e a now False True d' row" "same_base d d'"
      unfolding ch' by blast
    then show ?thesis by (simp add: good_choice_def same_base_def)
  next
    case (queue d1 d2 asg)
    have "same_base d d2"
      by (rule retry_source.loop_invariant [where I = "same_base d", OF _ queue(4) cb [OF queue(1)]])
        (rule same_base_attempts(2))
    from queue_choice [OF dist this cb [OF queue(1)] queue(2,5)] obtain row where
      "ch = (asg, row, Normal)" "asg \<in> set (user_assignments d)"
      "agent_assignment a (clk e 2) asg" "ua_campaign_id asg = cc_campaign_id (fst (snd row))"
      "leasable_row e a now False False d' row" "same_base d d'"
      by blast
    then show ?thesis by (simp add: good_choice_def same_base_def)
  qed simp
qed

section \<open>What lease_next returns\<close>

lemma finish_lease_cases:
  assumes "finish_lease c e cfg a now ch d = Inr (x, d')"
  obtains asg w cc co reason ca r where "ch = (asg, (w, cc, co), reason)" and "x = Some r"
    and "one_active_lease (put_work_item (grant_lease e cfg a now ch) d) a"
    and "get_campaign d (cc_campaign_id cc) = Some ca"
    and "lease_result_of c (grant_lease e cfg a now ch) cc co ca = Inr r"
    and "d' = record_audit ''work.view'' ''success'' (Some a) (Some ''work_item'')
               (Some (wi_id w)) None [] (put_work_item (grant_lease e cfg a now ch) d)"
proof -
  obtain asg w cc co reason where ch: "ch = (asg, (w, cc, co), reason)" by (cases ch) auto
  show thesis
    using assms
    by (auto simp: finish_lease_def ch Let_def get_campaign_def split: if_splits option.splits sum.splits
        intro!: that [OF ch])
qed

lemma finish_lease_no_fuel: "finish_lease c e cfg a now ch d \<noteq> Inl Loop_fuel"
  by (cases ch) (auto simp: finish_lease_def lease_result_of_def Let_def
      split: option.splits sum.splits prod.splits)

lemma lease_result_facts:
  assumes "lease_result_of c w cc co ca = Inr r"
  shows "lr_work_item_id r = wi_id w \<and> wi_lease_id w = Some (lr_lease_id r)
    \<and> wi_lease_expires_at w = Some (lr_lease_expires_at r)
    \<and> decrypt c (co_phone_ciphertext co) = Some (lr_phone_e164 r)
    \<and> lr_campaign_id r = ca_id ca"
  using assms by (auto simp: lease_result_of_def Let_def split: option.splits)

text \<open>
  A result an agent may see: the database it was read from records that this agent holds the
  lease, the lease has not run out, the campaign is active and the phone is not suppressed.
\<close>

definition disclosable :: "crypto \<Rightarrow> uuid \<Rightarrow> time \<Rightarrow> db \<Rightarrow> lease_result \<Rightarrow> bool" where
  "disclosable c a now d r \<longleftrightarrow> (\<exists>w cc co ca.
     get_work_item d (lr_work_item_id r) = Some w \<and> holds_active_lease a now w
     \<and> wi_lease_id w = Some (lr_lease_id r) \<and> wi_lease_expires_at w = Some (lr_lease_expires_at r)
     \<and> get_campaign_contact d (wi_campaign_contact_id w) = Some cc
     \<and> get_contact d (cc_contact_id cc) = Some co
     \<and> get_campaign d (cc_campaign_id cc) = Some ca \<and> ca_status ca = Active
     \<and> \<not> active_suppression_exists d (co_phone_fingerprint co)
     \<and> decrypt c (co_phone_ciphertext co) = Some (lr_phone_e164 r))"

lemma active_lease_disclosable:
  assumes "get_active_lease_locked c d a now = Inr (Some r)"
  shows "disclosable c a now d r"
proof -
  from assms obtain w cc co ca i where
    w: "get_work_item d i = Some w" "holds_active_lease a now w"
    and cc: "get_campaign_contact d (wi_campaign_contact_id w) = Some cc"
      "get_contact d (cc_contact_id cc) = Some co" "get_campaign d (cc_campaign_id cc) = Some ca"
      "ca_status ca = Active" "\<not> active_suppression_exists d (co_phone_fingerprint co)"
    and r: "lease_result_of c w cc co ca = Inr r"
    by (auto simp: get_active_lease_locked_def split: option.splits if_splits)
       (case_tac "lease_result_of c x2a x2b x2c x2d"; auto)
  have "wi_id w = i" using w(1) by (rule work_item_table.get_key)
  with w cc lease_result_facts [OF r] show ?thesis
    unfolding disclosable_def by (intro exI [of _ w] exI [of _ cc] exI [of _ co] exI [of _ ca]) simp
qed

lemma granted_disclosable:
  assumes good: "good_choice e a now d ch" and pos: "0 < lease_duration_minutes cfg"
    and fin: "finish_lease c e cfg a now ch d = Inr (Some r, d')"
  shows "disclosable c a now d' r"
  using fin
proof (rule finish_lease_cases)
  fix asg w cc co reason ca r'
  let ?w = "grant_lease e cfg a now ch"
  assume ch: "ch = (asg, (w, cc, co), reason)" and "Some r = Some r'"
    and ca: "get_campaign d (cc_campaign_id cc) = Some ca"
    and res: "lease_result_of c ?w cc co ca = Inr r'"
    and d': "d' = record_audit ''work.view'' ''success'' (Some a) (Some ''work_item'')
               (Some (wi_id w)) None [] (put_work_item ?w d)"
  then have r: "lease_result_of c ?w cc co ca = Inr r" by simp
  have sel: "wi_id ?w = wi_id w" "wi_campaign_contact_id ?w = wi_campaign_contact_id w"
    by (simp_all add: grant_lease_def ch)
  have row: "get_work_item d (wi_id w) = Some w"
    "get_campaign_contact d (wi_campaign_contact_id w) = Some cc"
    "get_contact d (cc_contact_id cc) = Some co" "campaign_active d (cc_campaign_id cc)"
    "\<not> active_suppression_exists d (co_phone_fingerprint co)"
    using good by (auto simp: good_choice_def ch leasable_row_def)
  have "get_work_item d' (wi_id ?w) = Some ?w"
    using work_item_table.read_own_write [of d ?w w] row(1)
    by (simp add: d' sel get_work_item_def)
  moreover have "holds_active_lease a now ?w"
    using pos by (simp add: holds_active_lease_def grant_lease_def ch)
  ultimately show ?thesis
    using row ca lease_result_facts [OF r] unfolding disclosable_def
    by (intro exI [of _ ?w] exI [of _ cc] exI [of _ co] exI [of _ ca])
      (simp add: d' sel get_campaign_contact_def get_contact_def get_campaign_def
        campaign_active_def active_suppression_exists_def)
qed

lemma lease_next_cases:
  assumes "fst (lease_next c e cfg up su a r d) = Inr (x, d')"
  obtains (resumed) res where "x = Some res" and "d' = d"
      and "get_active_lease_locked c d a (clk e 0) = Inr (Some res)"
  | (nothing) "x = None" and "choose_work e a (clk e 0) d = Inr (None, d')"
  | (granted) ch d1 where "get_active_lease_locked c d a (clk e 0) = Inr None"
      and "choose_work e a (clk e 0) d = Inr (Some ch, d1)"
      and "finish_lease c e cfg a (clk e 0) ch d1 = Inr (x, d')"
  using assms
  by (auto simp: lease_next_def Let_def split: sum.splits option.splits prod.splits if_splits)

text \<open>
  C1: whatever \<open>lease_next\<close> returns to an agent, resumed or new, is a contact the agent holds
  an unexpired lease on, in an active campaign, whose phone no active suppression names.
\<close>

theorem lease_next_disclosure:
  assumes "distinct (map wi_id (work_items d))" and "0 < lease_duration_minutes cfg"
    and "fst (lease_next c e cfg up su a r d) = Inr (Some res, d')"
  shows "disclosable c a (clk e 0) d' res"
  using assms(3)
proof (cases rule: lease_next_cases)
  case (resumed res')
  then show ?thesis by (simp add: active_lease_disclosable)
next
  case (granted ch d1)
  then show ?thesis
    using granted_disclosable [OF choose_work_choice [OF assms(1)] assms(2)] by blast
qed simp

text \<open>
  C10: \<open>lease_next\<close> always returns: none of its three unbounded loops can run out of work
  items to skip.
\<close>

theorem lease_next_returns: "fst (lease_next c e cfg up su a r d) \<noteq> Inl Loop_fuel"
proof -
  have cb: "x \<noteq> Loop_fuel" if "try_candidates (loop_fuel d) (\<lambda>ex d. next_callback_candidate d a now ex)
      (attempt_callback e a now) [] d = Inl x" for now d x
    using that callback_source.loop_never_starves by metis
  have rt: "x \<noteq> Loop_fuel" if "try_candidates (loop_fuel d) (\<lambda>ex d. next_due_retry_candidate d k now ex)
      (attempt_pool e a now asg True) [] d = Inl x" for now d k asg x
    using that retry_source.loop_never_starves by metis
  have qu: "x \<noteq> Loop_fuel" if "try_candidates (loop_fuel d) (\<lambda>ex d. next_queue_candidate d k ex)
      (attempt_pool e a now asg False) [] d = Inl x" for now d k asg x
    using that queue_source.loop_never_starves by metis
  have ch: "choose_work e a now d \<noteq> Inl Loop_fuel" for now
    by (auto simp: choose_work_def dest: cb rt qu split: sum.split option.split prod.split)
  have "get_active_lease_locked c d a now \<noteq> Inl Loop_fuel" for now
    by (auto simp: get_active_lease_locked_def lease_result_of_def Let_def split: option.splits)
  with ch finish_lease_no_fuel show ?thesis
    by (auto simp: lease_next_def Let_def split: sum.splits option.splits prod.splits)
qed

text \<open>
  An agent who already holds a live lease gets the same lease back; neither the database,
  nor the rate-limit counters, nor the \<open>shared_pool_enabled\<close> flag play a part.
\<close>

theorem lease_next_resumes:
  assumes "get_active_lease c e a d = Inr (Some res)"
  shows "lease_next c e cfg up su a r d = (Inr (Some res, d), r)"
  using assms by (simp add: lease_next_def get_active_lease_def)

text \<open>A contact is only newly leased under an assignment of the agent to its campaign.\<close>

lemma lease_next_authorised:
  assumes "distinct (map wi_id (work_items d))"
    and "get_active_lease_locked c d a (clk e 0) = Inr None"
    and "fst (lease_next c e cfg up su a r d) = Inr (Some res, d')"
  shows "\<exists>asg \<in> set (user_assignments d). ua_campaign_id asg = lr_campaign_id res
     \<and> (agent_assignment a (clk e 1) asg \<or> agent_assignment a (clk e 2) asg)"
  using assms(3)
proof (cases rule: lease_next_cases)
  case (granted ch d1)
  note good = choose_work_choice [OF assms(1) granted(2)]
  have same: "user_assignments d1 = user_assignments d"
    using choose_work_frame [OF granted(2)] by simp
  from granted(3) show ?thesis
  proof (rule finish_lease_cases)
    fix asg w cc co reason ca r'
    assume ch: "ch = (asg, (w, cc, co), reason)" and "Some res = Some r'"
      and ca: "get_campaign d1 (cc_campaign_id cc) = Some ca"
      and r: "lease_result_of c (grant_lease e cfg a (clk e 0) ch) cc co ca = Inr r'"
    then have "lr_campaign_id res = ca_id ca" using lease_result_facts [OF r] by simp
    also have "ca_id ca = cc_campaign_id cc" by (rule campaign_table.get_key [OF ca])
    finally show ?thesis using good same by (auto simp: good_choice_def ch split: if_splits)
  qed
qed (use assms(2) in simp_all)

end
