(* ===== verification/Machines.thy ===== *)
theory Machines
  imports Main
begin

text \<open>
  Step relations in general: reachable states, and two interfaces. \<open>invariant_machine\<close> is what
  a component owes for a property of every reachable state; \<open>history_machine\<close> is what it owes
  for a relation between an earlier and a later state of any run.
\<close>

inductive reachable :: "('s \<Rightarrow> bool) \<Rightarrow> ('s \<Rightarrow> 's \<Rightarrow> bool) \<Rightarrow> 's \<Rightarrow> bool"
  for init step where
  start: "init s \<Longrightarrow> reachable init step s"
| next_state: "\<lbrakk>reachable init step s; step s t\<rbrakk> \<Longrightarrow> reachable init step t"

inductive run :: "('s \<Rightarrow> 's \<Rightarrow> bool) \<Rightarrow> 's \<Rightarrow> 's \<Rightarrow> bool" for step where
  run_refl: "run step s s"
| run_step: "\<lbrakk>run step s t; step t u\<rbrakk> \<Longrightarrow> run step s u"

lemma run_one: "step s t \<Longrightarrow> run step s t"
  by (rule run_step [OF run_refl])

lemma run_trans: "run step t u \<Longrightarrow> run step s t \<Longrightarrow> run step s u"
  by (induction rule: run.induct) (auto intro: run_step)

lemma reachable_run: "run step s t \<Longrightarrow> reachable init step s \<Longrightarrow> reachable init step t"
  by (induction rule: run.induct) (auto intro: next_state)

locale invariant_machine =
  fixes init :: "'s \<Rightarrow> bool" and step :: "'s \<Rightarrow> 's \<Rightarrow> bool" and inv :: "'s \<Rightarrow> bool"
  assumes init_inv: "init s \<Longrightarrow> inv s"
    and step_inv: "\<lbrakk>inv s; step s t\<rbrakk> \<Longrightarrow> inv t"
begin

lemma reachable_inv: "reachable init step s \<Longrightarrow> inv s"
  by (induction rule: reachable.induct) (auto intro: init_inv step_inv)

lemma run_inv: "run step s t \<Longrightarrow> inv s \<Longrightarrow> inv t"
  by (induction rule: run.induct) (auto intro: step_inv)

end

locale history_machine = invariant_machine +
  fixes past :: "'s \<Rightarrow> 's \<Rightarrow> bool"
  assumes past_refl: "past s s"
    and past_trans: "\<lbrakk>past s t; past t u\<rbrakk> \<Longrightarrow> past s u"
    and step_past: "\<lbrakk>inv s; step s t\<rbrakk> \<Longrightarrow> past s t"
begin

lemma run_past: "run step s t \<Longrightarrow> inv s \<Longrightarrow> past s t"
proof (induction rule: run.induct)
  case (run_refl s)
  show ?case by (rule past_refl)
next
  case (run_step s t u)
  then have "inv t" by (auto intro: run_inv)
  with run_step have "past t u" by (auto intro: step_past)
  with run_step show ?case by (auto intro: past_trans)
qed

lemma reachable_past: "\<lbrakk>reachable init step s; run step s t\<rbrakk> \<Longrightarrow> past s t"
  by (auto intro: run_past reachable_inv)

end

end
