(* ===== verification/Work_Invariants.thy ===== *)
theory Work_Invariants
  imports Work_Leasing Work_Complete Machines
begin

text \<open>
  The work queue as a machine. Every operation of \<open>app/work/service.py\<close> that writes work items
  is a step; the invariant says what a work item's columns mean together, that an agent holds
  at most one lease, and that the attempt counters agree with the immutable attempt rows; the
  history relation says what no later step undoes. The retention purge, which deletes the rows
  of a finished campaign, ends this life of a work item and is not a step.
\<close>

section \<open>The invariant\<close>

definition lease_fields_ok :: "work_item \<Rightarrow> bool" where
  "lease_fields_ok w \<longleftrightarrow>
     (wi_state w = Leased \<longleftrightarrow> wi_lease_owner_id w \<noteq> None)
     \<and> (wi_state w = Leased \<longleftrightarrow> wi_lease_id w \<noteq> None)
     \<and> (wi_state w = Leased \<longleftrightarrow> wi_lease_expires_at w \<noteq> None)"

definition item_ok :: "work_item \<Rightarrow> bool" where
  "item_ok w \<longleftrightarrow> lease_fields_ok w
     \<and> (wi_state w = Callback_wait \<longrightarrow> wi_assigned_agent_id w \<noteq> None)
     \<and> (wi_state w = Retry_wait \<longrightarrow> wi_due_at w \<noteq> None \<and> wi_assigned_agent_id w = None)
     \<and> (wi_assigned_agent_id w \<noteq> None \<longrightarrow> wi_due_at w \<noteq> None)
     \<and> (wi_state w \<in> {Completed, Suppressed} \<longleftrightarrow> wi_completed_at w \<noteq> None)"

definition attempts_on :: "call_attempt list \<Rightarrow> uuid \<Rightarrow> int" where
  "attempts_on as i = int (count_where (\<lambda>a. at_work_item_id a = i) as)"

definition items_inv :: "db \<Rightarrow> bool" where
  "items_inv d \<longleftrightarrow> distinct (map wi_id (work_items d)) \<and> (\<forall>w \<in> set (work_items d). item_ok w)
     \<and> (\<forall>a. one_active_lease d a)"

definition counted :: "work_item list \<Rightarrow> call_attempt list \<Rightarrow> bool" where
  "counted ws as \<longleftrightarrow> (\<forall>w \<in> set ws. wi_attempt_count w = attempts_on as (wi_id w))
     \<and> at_work_item_id ` set as \<subseteq> wi_id ` set ws"

definition attempt_keys :: "call_attempt list \<Rightarrow> (uuid \<times> string) list" where
  "attempt_keys as = map (\<lambda>a. (at_agent_id a, at_idempotency_key a)) as"

definition work_inv :: "db \<Rightarrow> bool" where
  "work_inv d \<longleftrightarrow> items_inv d \<and> counted (work_items d) (call_attempts d)
     \<and> distinct (attempt_keys (call_attempts d))"

section \<open>Moves of a work item\<close>

text \<open>
  A lawful change of one row: only a row in a non-terminal state changes, its version goes up,
  its identity and attempt counter stay, and its columns remain meaningful.
\<close>

definition moves :: "work_item \<Rightarrow> work_item \<Rightarrow> bool" where
  "moves w w' \<longleftrightarrow> w' = w \<or>
     (wi_state w \<notin> terminal_states \<and> wi_id w' = wi_id w
      \<and> wi_campaign_contact_id w' = wi_campaign_contact_id w
      \<and> wi_attempt_count w' = wi_attempt_count w \<and> wi_version w < wi_version w'
      \<and> (item_ok w \<longrightarrow> item_ok w'))"

definition leased_to :: "uuid \<Rightarrow> work_item \<Rightarrow> bool" where
  "leased_to a w \<longleftrightarrow> wi_state w = Leased \<and> wi_lease_owner_id w = Some a"

text \<open>A move that grants nobody a lease they did not hold.\<close>

definition settles :: "work_item \<Rightarrow> work_item \<Rightarrow> bool" where
  "settles w w' \<longleftrightarrow> moves w w' \<and> (\<forall>a. leased_to a w' \<longrightarrow> leased_to a w)"

lemma moves_refl [simp]: "moves w w"
  by (simp add: moves_def)

lemma settles_refl [simp]: "settles w w"
  by (simp add: settles_def)

lemma moves_trans: "\<lbrakk>moves w w'; moves w' w''\<rbrakk> \<Longrightarrow> moves w w''"
  by (auto simp: moves_def)

lemma settles_trans: "\<lbrakk>settles w w'; settles w' w''\<rbrakk> \<Longrightarrow> settles w w''"
  by (auto simp: settles_def intro: moves_trans)

lemma moves_id: "moves w w' \<Longrightarrow> wi_id w' = wi_id w"
  by (auto simp: moves_def)

lemma moves_count: "moves w w' \<Longrightarrow> wi_attempt_count w' = wi_attempt_count w"
  by (auto simp: moves_def)

lemma moves_ok: "\<lbrakk>moves w w'; item_ok w\<rbrakk> \<Longrightarrow> item_ok w'"
  by (auto simp: moves_def)

section \<open>Pointwise changes of a table\<close>

lemma list_all2_put:
  assumes "distinct (map key xs)" and "row_get key (key r) xs = Some x" and "R x r"
    and "\<And>x. R x x"
  shows "list_all2 R xs (row_put key r xs)"
proof -
  have "R y (if key y = key r then r else y)" if "y \<in> set xs" for y
    using assms row_get_distinct [OF assms(1) that] by auto
  then show ?thesis by (simp add: row_put_def list_all2_conv_all_nth)
qed

lemma list_all2_rows_update:
  assumes "\<And>x. \<lbrakk>x \<in> set xs; P x\<rbrakk> \<Longrightarrow> R x (f x)" and "\<And>x. R x x"
  shows "list_all2 R xs (rows_update P f xs)"
  using assms by (simp add: rows_update_def list_all2_conv_all_nth)

lemma list_all2_forward: "\<lbrakk>list_all2 R xs ys; x \<in> set xs\<rbrakk> \<Longrightarrow> \<exists>y \<in> set ys. R x y"
  by (metis in_set_conv_nth list_all2_conv_all_nth)

lemma list_all2_backward: "\<lbrakk>list_all2 R xs ys; y \<in> set ys\<rbrakk> \<Longrightarrow> \<exists>x \<in> set xs. R x y"
  by (metis in_set_conv_nth list_all2_conv_all_nth)

lemma list_all2_same_keys:
  assumes "list_all2 R xs ys" and "\<And>x y. R x y \<Longrightarrow> key y = key x"
  shows "map key ys = map key xs"
  using assms by (induction rule: list_all2_induct) auto

lemma count_where_antimono:
  assumes "list_all2 (\<lambda>x y. P y \<longrightarrow> P x) xs ys"
  shows "count_where P ys \<le> count_where P xs"
  using assms by (induction rule: list_all2_induct) (auto simp: count_where_def)

lemma row_get_list_all2:
  assumes "list_all2 R xs ys" and "\<And>x y. R x y \<Longrightarrow> key y = key x"
  shows "row_get key k xs = Some x \<Longrightarrow> \<exists>y. row_get key k ys = Some y \<and> R x y"
  using assms by (induction rule: list_all2_induct) (auto simp: row_get_def split: if_splits)

definition table_settles :: "db \<Rightarrow> db \<Rightarrow> bool" where
  "table_settles d d' \<longleftrightarrow> list_all2 settles (work_items d) (work_items d')
     \<and> call_attempts d' = call_attempts d"

lemma table_settles_refl [simp]: "table_settles d d"
  by (simp add: table_settles_def list_all2_refl)

lemma table_settles_trans: "\<lbrakk>table_settles d d'; table_settles d' d''\<rbrakk> \<Longrightarrow> table_settles d d''"
  by (auto simp: table_settles_def intro: list_all2_trans [of settles settles settles]
      elim: settles_trans)

lemma put_settles:
  assumes "distinct (map wi_id (work_items d))" and "get_work_item d (wi_id w') = Some w"
    and "settles w w'"
  shows "table_settles d (put_work_item w' d)"
  using assms list_all2_put [of wi_id "work_items d" w' w settles]
  by (simp add: table_settles_def get_work_item_def)

lemma ids_of_moves: "list_all2 moves ws ws' \<Longrightarrow> map wi_id ws' = map wi_id ws"
  by (erule list_all2_same_keys) (rule moves_id)

lemma settles_moves: "list_all2 settles ws ws' \<Longrightarrow> list_all2 moves ws ws'"
  by (erule list_all2_mono) (simp add: settles_def)

lemma counted_moves:
  assumes m: "list_all2 moves ws ws'" and c: "counted ws as"
  shows "counted ws' as"
proof -
  have "set (map wi_id ws') = set (map wi_id ws)" by (simp only: ids_of_moves [OF m])
  moreover have "wi_attempt_count w' = attempts_on as (wi_id w')" if "w' \<in> set ws'" for w'
  proof -
    from list_all2_backward [OF m that] obtain w where "w \<in> set ws" "moves w w'" by blast
    with c show ?thesis by (simp add: counted_def moves_id moves_count)
  qed
  ultimately show ?thesis using c by (simp add: counted_def)
qed

lemma items_inv_moves:
  assumes "items_inv d" and m: "list_all2 moves (work_items d) (work_items d')"
    and "\<And>a. one_active_lease d' a"
  shows "items_inv d'"
  using assms ids_of_moves [OF m] list_all2_backward [OF m]
  by (auto simp: items_inv_def dest: moves_ok)

lemma items_inv_settles:
  assumes "items_inv d" and "list_all2 settles (work_items d) (work_items d')"
  shows "items_inv d'"
proof (rule items_inv_moves [OF assms(1) settles_moves [OF assms(2)]])
  fix a
  have "list_all2 (\<lambda>x y. leased_to a y \<longrightarrow> leased_to a x) (work_items d) (work_items d')"
    using assms(2) by (rule list_all2_mono) (auto simp: settles_def)
  from count_where_antimono [OF this] assms(1) show "one_active_lease d' a"
    by (auto simp: items_inv_def one_active_lease_def leased_to_def elim: order_trans)
qed

lemma work_inv_settles:
  assumes "work_inv d" and "table_settles d d'"
  shows "work_inv d'"
proof -
  from assms(2) have st: "list_all2 settles (work_items d) (work_items d')"
    and as: "call_attempts d' = call_attempts d" by (simp_all add: table_settles_def)
  show ?thesis
    using assms(1) items_inv_settles [OF _ st] counted_moves [OF settles_moves [OF st]]
    by (simp add: work_inv_def as)
qed

section \<open>The single-row changes\<close>

lemma movesI:
  "\<lbrakk>wi_state w \<notin> terminal_states; wi_id w' = wi_id w;
    wi_campaign_contact_id w' = wi_campaign_contact_id w;
    wi_attempt_count w' = wi_attempt_count w; wi_version w < wi_version w';
    item_ok w \<Longrightarrow> item_ok w'\<rbrakk> \<Longrightarrow> moves w w'"
  by (simp add: moves_def)

lemma settlesI:
  "\<lbrakk>moves w w'; \<And>a. leased_to a w' \<Longrightarrow> leased_to a w\<rbrakk> \<Longrightarrow> settles w w'"
  by (simp add: settles_def)

lemma unleased [simp]: "wi_state w \<noteq> Leased \<Longrightarrow> \<not> leased_to a w"
  by (simp add: leased_to_def)

text \<open>Rows written without a lease, by the state they are left in.\<close>

lemma item_ok_released:
  "\<lbrakk>wi_state w \<noteq> Leased; wi_lease_owner_id w = None; wi_lease_id w = None;
    wi_lease_expires_at w = None\<rbrakk> \<Longrightarrow> item_ok w \<longleftrightarrow>
     (wi_state w = Callback_wait \<longrightarrow> wi_assigned_agent_id w \<noteq> None)
     \<and> (wi_state w = Retry_wait \<longrightarrow> wi_due_at w \<noteq> None \<and> wi_assigned_agent_id w = None)
     \<and> (wi_assigned_agent_id w \<noteq> None \<longrightarrow> wi_due_at w \<noteq> None)
     \<and> (wi_state w \<in> {Completed, Suppressed} \<longleftrightarrow> wi_completed_at w \<noteq> None)"
  by (simp add: item_ok_def lease_fields_ok_def)

lemma item_ok_due: "item_ok w \<Longrightarrow> wi_assigned_agent_id w \<noteq> None \<Longrightarrow> wi_due_at w \<noteq> None"
  by (simp add: item_ok_def)

lemma item_ok_open: "\<lbrakk>item_ok w; wi_state w \<notin> terminal_states\<rbrakk> \<Longrightarrow> wi_completed_at w = None"
  by (auto simp: item_ok_def terminal_states_def)

lemma item_ok_unleased:
  "\<lbrakk>item_ok w; wi_state w \<noteq> Leased\<rbrakk>
   \<Longrightarrow> wi_lease_owner_id w = None \<and> wi_lease_id w = None \<and> wi_lease_expires_at w = None"
  by (simp add: item_ok_def lease_fields_ok_def)

lemma still_leasable_open:
  "still_leasable a now cb rt w \<Longrightarrow> wi_state w \<notin> terminal_states \<and> wi_state w \<noteq> Leased"
  using still_leasable_state [of a now cb rt w] by (auto simp: terminal_states_def)

lemma settles_close:
  assumes "still_leasable a now cb rt w"
  shows "settles w (w\<lparr>wi_state := Suppressed, wi_completed_at := Some t,
     wi_version := wi_version w + 1\<rparr>)"
  using still_leasable_open [OF assms] item_ok_unleased [of w] item_ok_due [of w]
  by (intro settlesI movesI) (simp_all add: item_ok_released)

lemma settles_return: "wi_state w = Leased \<Longrightarrow> settles w (return_to_pre_lease w)"
  using item_ok_open [of w] item_ok_due [of w]
  by (intro settlesI movesI)
    (simp_all add: return_to_pre_lease_def terminal_states_def item_ok_released)

lemma settles_requeue: "wi_state w \<in> {Leased, Callback_wait} \<Longrightarrow> settles w (return_to_queue w)"
  using item_ok_open [of w]
  by (intro settlesI movesI)
    (auto simp: return_to_queue_def terminal_states_def item_ok_released)

lemma settles_suppress: "wi_state w \<notin> terminal_states \<Longrightarrow> settles w (suppress_item now w)"
  by (intro settlesI movesI)
    (simp_all add: suppress_item_def item_ok_def lease_fields_ok_def)

lemma moves_grant:
  assumes "still_leasable a now cb rt w" and ch: "ch = (asg, (w, cc, co), reason)"
  shows "moves w (grant_lease e cfg agent now ch)"
proof (rule movesI)
  show "item_ok (grant_lease e cfg agent now ch)" if ok: "item_ok w"
    using item_ok_open [OF ok] item_ok_due [OF ok] still_leasable_open [OF assms(1)]
    by (simp add: grant_lease_def ch item_ok_def lease_fields_ok_def)
qed (use still_leasable_open [OF assms(1)] in \<open>simp_all add: grant_lease_def ch\<close>)

end
