(* ===== verification/Work_Steps.thy ===== *)
theory Work_Steps
  imports Work_Invariants "HOL-Library.Sublist"
begin

text \<open>
  The step relation of the work queue, and what each operation owes it: the invariant of
  \<open>Work_Invariants\<close> is kept, and nothing already decided is undone.
\<close>

section \<open>The operations that change one row or many\<close>

lemma choose_work_settles:
  assumes "distinct (map wi_id (work_items d))" and "choose_work e a now d = Inr (x, d')"
  shows "table_settles d d'"
proof -
  have "table_settles d d' \<and> distinct (map wi_id (work_items d'))"
  proof (rule choose_work_invariant [OF _ assms(2)])
    fix d1 w cc cb rt
    assume I: "table_settles d d1 \<and> distinct (map wi_id (work_items d1))"
      and get: "get_work_item d1 (wi_id w) = Some w" and ok: "still_leasable a now cb rt w"
    have "table_settles d1 (close_suppressed now w cc d1)"
      using put_settles [of d1 _ w, OF conjunct2 [OF I] _ settles_close [OF ok]] get
      by (simp add: table_settles_def close_suppressed_def put_campaign_contact_def)
    with I show "table_settles d (close_suppressed now w cc d1)
        \<and> distinct (map wi_id (work_items (close_suppressed now w cc d1)))"
      by (auto elim: table_settles_trans)
  qed (use assms(1) in simp)
  then show ?thesis ..
qed

lemma grant_other: "b \<noteq> a \<Longrightarrow> \<not> leased_to b (grant_lease e cfg a now ch)"
  by (auto simp: leased_to_def grant_lease_def split: prod.splits)

lemma grant_id: "wi_id (grant_lease e cfg a now (asg, (w, cc, co), reason)) = wi_id w"
  by (simp add: grant_lease_def)

lemma finish_lease_inv:
  assumes inv: "work_inv d" and good: "good_choice e a now d ch"
    and fin: "finish_lease c e cfg a now ch d = Inr (x, d')"
  shows "work_inv d' \<and> list_all2 moves (work_items d) (work_items d')
     \<and> call_attempts d' = call_attempts d"
  using fin
proof (rule finish_lease_cases)
  fix asg w cc co reason ca r
  let ?w = "grant_lease e cfg a now ch"
  assume ch: "ch = (asg, (w, cc, co), reason)"
    and one: "one_active_lease (put_work_item ?w d) a"
    and d': "d' = record_audit ''work.view'' ''success'' (Some a) (Some ''work_item'')
               (Some (wi_id w)) None [] (put_work_item ?w d)"
  from inv have dist: "distinct (map wi_id (work_items d))"
    by (simp add: work_inv_def items_inv_def)
  from good have get: "row_get wi_id (wi_id ?w) (work_items d) = Some w"
    and m: "moves w ?w"
    by (auto simp: good_choice_def ch leasable_row_def grant_id get_work_item_def
        intro!: moves_grant)
  have ws: "work_items d' = row_put wi_id ?w (work_items d)"
    and as: "call_attempts d' = call_attempts d" by (simp_all add: d')
  have moved: "list_all2 moves (work_items d) (work_items d')"
    unfolding ws by (rule list_all2_put [where key = wi_id, OF dist get]) (simp_all add: m)
  have "one_active_lease d' b" for b
  proof (cases "b = a")
    case True
    then show ?thesis using one by (simp add: one_active_lease_def ws)
  next
    case False
    have "list_all2 (\<lambda>x y. leased_to b y \<longrightarrow> leased_to b x) (work_items d) (work_items d')"
      unfolding ws by (rule list_all2_put [where key = wi_id, OF dist get]) (simp_all add: grant_other [OF False])
    from count_where_antimono [OF this] inv show ?thesis
      by (auto simp: work_inv_def items_inv_def one_active_lease_def leased_to_def elim: order_trans)
  qed
  with inv moved show ?thesis
    using items_inv_moves [OF _ moved] counted_moves [OF moved] by (simp add: work_inv_def as)
qed

lemma lease_next_inv:
  assumes inv: "work_inv d" and run: "fst (lease_next c e cfg up su a r d) = Inr (x, d')"
  shows "work_inv d' \<and> list_all2 moves (work_items d) (work_items d')
     \<and> call_attempts d' = call_attempts d"
proof -
  from inv have dist: "distinct (map wi_id (work_items d))"
    by (simp add: work_inv_def items_inv_def)
  have chosen: "work_inv d1 \<and> list_all2 moves (work_items d) (work_items d1)
      \<and> call_attempts d1 = call_attempts d" if "choose_work e a (clk e 0) d = Inr (y, d1)" for y d1
    using choose_work_settles [OF dist that] work_inv_settles [OF inv] settles_moves
    by (simp add: table_settles_def)
  from run show ?thesis
  proof (cases rule: lease_next_cases)
    case (resumed res)
    then show ?thesis using inv by (simp add: list_all2_refl)
  next
    case nothing
    then show ?thesis using chosen by blast
  next
    case (granted ch d1)
    have "work_inv d' \<and> list_all2 moves (work_items d1) (work_items d')
        \<and> call_attempts d' = call_attempts d1"
      using chosen [OF granted(2)] choose_work_choice [OF dist granted(2)] granted(3)
      by (intro finish_lease_inv) simp_all
    with chosen [OF granted(2)] show ?thesis
      by (auto intro: list_all2_trans [of moves moves moves] elim: moves_trans)
  qed
qed

lemma settles_renew:
  "wi_state w = Leased \<Longrightarrow> settles w (w\<lparr>wi_lease_expires_at := Some t, wi_version := wi_version w + 1\<rparr>)"
  by (intro settlesI movesI)
    (simp_all add: terminal_states_def item_ok_def lease_fields_ok_def leased_to_def)

lemma put_settles_at:
  assumes "distinct (map wi_id (work_items d))" and get: "get_work_item d i = Some w"
    and "settles w w'"
  shows "table_settles d (put_work_item w' d)"
proof (rule put_settles [OF assms(1) _ assms(3)])
  have "wi_id w' = i" using assms(3) work_item_table.get_key [OF get]
    by (auto simp: settles_def dest: moves_id)
  then show "get_work_item d (wi_id w') = Some w" using get by simp
qed

lemma renew_lease_settles:
  assumes "distinct (map wi_id (work_items d))" and "renew_lease e cfg i a l d = Inr (w', d')"
  shows "table_settles d d'"
  using assms(2)
  by (auto simp: renew_lease_def Let_def split: option.splits if_splits
      intro!: put_settles_at [OF assms(1)] settles_renew)

lemma rows_settle:
  assumes "\<And>w. P w \<Longrightarrow> settles w (f w)"
  shows "table_settles d (d\<lparr>work_items := rows_update P f (work_items d)\<rparr>)"
  using assms by (simp add: table_settles_def list_all2_rows_update)

lemma reclaims_settle:
  "table_settles d (snd (reclaim_expired_leases e d))"
  "table_settles d (snd (reclaim_leases_for_user e a d))"
  "table_settles d (snd (release_campaign_work_for_agent e a i d))"
  by (auto simp: reclaim_expired_leases_def reclaim_leases_for_user_def Let_def
      release_campaign_work_for_agent_def lease_expired_at_def agent_holds_in_campaign_def
      intro!: rows_settle settles_return settles_requeue)

lemma load_leased_item_Inr:
  assumes "load_leased_item d i a l now = Inr w"
  shows "get_work_item d i = Some w \<and> wi_state w = Leased \<and> wi_lease_owner_id w = Some a
    \<and> wi_lease_id w = Some l \<and> wi_id w = i"
  using assms by (auto simp: load_leased_item_def split: option.splits if_splits
      dest: work_item_table.get_key)

lemma load_review_item_Inr:
  assumes "load_review_item d i = Inr w"
  shows "get_work_item d i = Some w \<and> wi_state w = Review \<and> wi_id w = i"
  using assms by (auto simp: load_review_item_def split: option.splits if_splits
      dest: work_item_table.get_key)

lemma table_settles_frame [simp]:
  "table_settles d (record_audit x1 x2 x3 x4 x5 x6 x7 d') = table_settles d d'"
  "table_settles d (put_campaign_contact cc d') = table_settles d d'"
  by (simp_all add: table_settles_def)

lemma settles_skip:
  "wi_state w = Leased \<Longrightarrow> s = Review \<or> s = Queued
   \<Longrightarrow> settles w ((clear_lease w)\<lparr>wi_skip_count := n, wi_state := s\<rparr>)"
  by (intro settlesI movesI)
    (auto simp: clear_lease_def terminal_states_def item_ok_def lease_fields_ok_def leased_to_def)

lemma skip_settles:
  assumes "distinct (map wi_id (work_items d))"
    and "skip_work_item e cfg i a l reason d = Inr (w', d')"
  shows "table_settles d d'"
  using assms(2)
  by (auto simp: skip_work_item_def Let_def split: sum.splits if_splits
      dest!: load_leased_item_Inr intro!: put_settles_at [OF assms(1)] settles_skip)

lemma settles_review:
  assumes "wi_state w = Review"
  shows "settles w (w\<lparr>wi_state := Retry_wait, wi_due_at := Some t, wi_assigned_agent_id := None,
      wi_version := wi_version w + 1\<rparr>)"
    and "settles w (w\<lparr>wi_max_attempts := m, wi_state := Retry_wait, wi_due_at := Some t,
      wi_assigned_agent_id := None, wi_version := wi_version w + 1\<rparr>)"
    and "settles w (w\<lparr>wi_state := Completed, wi_completed_at := Some t,
      wi_version := wi_version w + 1\<rparr>)"
  using assms
  by (intro settlesI movesI;
      auto simp: terminal_states_def item_ok_def lease_fields_ok_def leased_to_def)+

lemma review_settles:
  assumes d: "distinct (map wi_id (work_items d))"
  shows "reschedule_review_item e i a t reason d = Inr (w', d') \<Longrightarrow> table_settles d d'"
    and "increase_review_item_attempts e i a m reason d = Inr (w', d') \<Longrightarrow> table_settles d d'"
    and "close_review_item e i a reason d = Inr (w', d') \<Longrightarrow> table_settles d d'"
  by (auto simp: reschedule_review_item_def increase_review_item_attempts_def
      close_review_item_def Let_def split: sum.splits if_splits option.splits
      dest!: load_review_item_Inr intro!: put_settles_at [OF d] settles_review)

section \<open>Completion\<close>

lemma complete_cases:
  assumes "complete_work_item c e cfg rq d = Inr (r, d')"
  obtains (replay) a where "existing_attempt d (rq_agent_id rq) (rq_idempotency_key rq) = Some a"
      and "result_from_existing_attempt d a (rq_work_item_id rq) = Inr r" and "d' = d"
  | (fresh) w cc di co d2 w2 where
      "existing_attempt d (rq_agent_id rq) (rq_idempotency_key rq) = None"
      and "load_leased_item d (rq_work_item_id rq) (rq_agent_id rq) (rq_lease_id rq) (clk e 1) = Inr w"
      and "get_campaign_contact d (wi_campaign_contact_id w) = Some cc"
      and "get_disposition d (rq_disposition_id rq) = Some di"
      and "completion_guard e d rq cc (Some di) = None"
      and "get_contact d (cc_contact_id cc) = Some co"
      and "apply_disposition e cfg rq di co (w\<lparr>wi_attempt_count := wi_attempt_count w + 1\<rparr>)
             (put_work_item (w\<lparr>wi_attempt_count := wi_attempt_count w + 1\<rparr>) d) = Inr d2"
      and "get_work_item d2 (wi_id w) = Some w2"
      and "completion_result_of (settle_attempt w2 (new_attempt c e cfg rq w di))
             (if wi_state w2 = Retry_wait then wi_due_at w2 else None) = Inr r"
      and "d' = record_audit ''work.complete'' ''success'' (Some (rq_agent_id rq))
             (Some ''work_item'') (Some (wi_id w)) (Some (di_stable_semantic_code di)) []
             (d2\<lparr>call_attempts := call_attempts d2 @ [settle_attempt w2 (new_attempt c e cfg rq w di)]\<rparr>)"
proof (cases "existing_attempt d (rq_agent_id rq) (rq_idempotency_key rq)")
  case (Some a)
  note run = assms [unfolded complete_work_item_def Some option.case]
  have "result_from_existing_attempt d a (rq_work_item_id rq) = Inr r \<and> d' = d"
    using run by (cases "result_from_existing_attempt d a (rq_work_item_id rq)") auto
  then show thesis using replay [OF Some] by blast
next
  case None
  note run = assms [unfolded complete_work_item_def None option.case]
  obtain fp where fp: "phone_fingerprint_for_work_item d (rq_work_item_id rq) = Some fp"
    using run by (cases "phone_fingerprint_for_work_item d (rq_work_item_id rq)") simp_all
  note run = run [unfolded fp option.case]
  obtain w where w: "load_leased_item d (rq_work_item_id rq) (rq_agent_id rq) (rq_lease_id rq)
      (clk e 1) = Inr w"
    using run by (cases "load_leased_item d (rq_work_item_id rq) (rq_agent_id rq)
      (rq_lease_id rq) (clk e 1)") simp_all
  note run = run [unfolded w sum.case]
  obtain cc where cc: "get_campaign_contact d (wi_campaign_contact_id w) = Some cc"
    using run by (cases "get_campaign_contact d (wi_campaign_contact_id w)") simp_all
  note run = run [unfolded cc option.case]
  have guard: "completion_guard e d rq cc (get_disposition d (rq_disposition_id rq)) = None"
    using run by (cases "completion_guard e d rq cc (get_disposition d (rq_disposition_id rq))")
      simp_all
  note run = run [unfolded guard option.case]
  obtain di where di: "get_disposition d (rq_disposition_id rq) = Some di"
    using run by (cases "get_disposition d (rq_disposition_id rq)") simp_all
  note run = run [unfolded di option.case prod.case]
  obtain co where co: "get_contact d (cc_contact_id cc) = Some co"
    using run by (cases "get_contact d (cc_contact_id cc)") simp_all
  note run = run [unfolded co option.case prod.case Let_def]
  obtain d2 where d2: "apply_disposition e cfg rq di co (w\<lparr>wi_attempt_count := wi_attempt_count w + 1\<rparr>)
      (put_work_item (w\<lparr>wi_attempt_count := wi_attempt_count w + 1\<rparr>) d) = Inr d2"
    using run by (cases "apply_disposition e cfg rq di co
      (w\<lparr>wi_attempt_count := wi_attempt_count w + 1\<rparr>)
      (put_work_item (w\<lparr>wi_attempt_count := wi_attempt_count w + 1\<rparr>) d)") simp_all
  note run = run [unfolded d2 sum.case]
  obtain w2 where w2: "get_work_item d2 (wi_id w) = Some w2"
    using run by (cases "get_work_item d2 (wi_id w)") simp_all
  note run = run [unfolded w2 option.case]
  show thesis
    using run
    by (cases "completion_result_of (settle_attempt w2 (new_attempt c e cfg rq w di))
             (if wi_state w2 = Retry_wait then wi_due_at w2 else None)")
      (auto intro!: fresh [OF None w cc di guard [unfolded di] co d2 w2])
qed

lemma suppress_settles: "table_settles d (suppress_contact_everywhere e co source by d)"
  by (auto simp: suppress_contact_everywhere_def Let_def table_settles_def pending_for_contact_def
      intro!: list_all2_rows_update settles_suppress)

text \<open>The changes a completion makes to the leased row, its attempt already counted.\<close>

lemma settles_complete:
  assumes "wi_state w = Leased" and "wi_lease_owner_id w = Some a"
  shows "settles w (schedule_callback a (Some t) w)"
    and "s \<in> {Review, Queued} \<Longrightarrow> settles w ((clear_lease w)\<lparr>wi_state := s\<rparr>)"
    and "settles w ((clear_lease w)\<lparr>wi_state := Retry_wait, wi_due_at := Some t,
           wi_assigned_agent_id := None\<rparr>)"
    and "settles w ((clear_lease w)\<lparr>wi_state := Leased, wi_lease_owner_id := Some a,
           wi_lease_id := Some l, wi_lease_expires_at := Some t, wi_lease_reason := rs\<rparr>)"
    and "settles w ((clear_lease w)\<lparr>wi_state := Completed, wi_completed_at := Some t\<rparr>)"
  using assms
  by (intro settlesI movesI;
      auto simp: clear_lease_def schedule_callback_def terminal_states_def item_ok_def
        lease_fields_ok_def leased_to_def)+

lemma apply_next_action_settles:
  assumes d: "distinct (map wi_id (work_items d))" and get: "get_work_item d i = Some w"
    and w: "wi_state w = Leased" "wi_lease_owner_id w = Some a"
    and run: "apply_next_action e cfg a di w d = Inr d'"
  shows "table_settles d d'"
  using run
  by (auto simp: apply_next_action_def Let_def split: if_splits option.splits
      intro!: put_settles_at [OF d get] settles_complete(2-) [OF w])

lemma apply_disposition_settles:
  assumes d: "distinct (map wi_id (work_items d))" and get: "get_work_item d i = Some w"
    and w: "wi_state w = Leased" "wi_lease_owner_id w = Some (rq_agent_id rq)"
    and cb: "di_requires_callback_time di \<Longrightarrow> rq_callback_at rq \<noteq> None"
    and run: "apply_disposition e cfg rq di co w d = Inr d'"
  shows "table_settles d d'"
  using run cb
  by (auto simp: apply_disposition_def suppress_settles split: if_splits
      intro!: put_settles_at [OF d get] settles_complete(1) [OF w]
      elim!: apply_next_action_settles [OF d get w])

lemma guard_callback:
  "\<lbrakk>completion_guard e d rq cc (Some di) = None; di_requires_callback_time di\<rbrakk>
   \<Longrightarrow> \<exists>t. rq_callback_at rq = Some t \<and> clk e 2 < t"
  by (auto simp: completion_guard_def split: if_splits option.splits)

lemma count_attempt_inv:
  assumes inv: "items_inv d" and get: "get_work_item d i = Some w"
  shows "items_inv (put_work_item (w\<lparr>wi_attempt_count := n\<rparr>) d)"
proof -
  let ?w = "w\<lparr>wi_attempt_count := n\<rparr>"
  have in_d: "w \<in> set (work_items d)" and id: "wi_id w = i"
    using get by (auto simp: get_work_item_def dest: row_get_Some)
  have dist: "distinct (map wi_id (work_items d))" using inv by (simp add: items_inv_def)
  have "one_active_lease (put_work_item ?w d) b" for b
  proof -
    have "list_all2 (\<lambda>x y. leased_to b y \<longrightarrow> leased_to b x) (work_items d)
        (row_put wi_id ?w (work_items d))"
      using get by (intro list_all2_put [where key = wi_id, OF dist, of _ w])
        (simp_all add: leased_to_def get_work_item_def id)
    from count_where_antimono [OF this] inv show ?thesis
      by (auto simp: items_inv_def one_active_lease_def leased_to_def elim: order_trans)
  qed
  moreover have "item_ok ?w"
  proof -
    have "item_ok ?w \<longleftrightarrow> item_ok w" by (simp add: item_ok_def lease_fields_ok_def)
    then show ?thesis using inv in_d by (simp add: items_inv_def)
  qed
  ultimately show ?thesis
    using inv row_put_all [of "work_items d" item_ok ?w wi_id] by (simp add: items_inv_def)
qed

lemma attempt_row [simp]:
  "at_work_item_id (settle_attempt w2 (new_attempt c e cfg rq w di)) = wi_id w"
  "at_agent_id (settle_attempt w2 (new_attempt c e cfg rq w di)) = rq_agent_id rq"
  "at_idempotency_key (settle_attempt w2 (new_attempt c e cfg rq w di)) = rq_idempotency_key rq"
  by (simp_all add: settle_attempt_def new_attempt_def)

lemma counted_attempt:
  assumes inv: "counted (work_items d) as" and get: "get_work_item d (wi_id w) = Some w"
    and dist: "distinct (map wi_id (work_items d))" and a: "at_work_item_id a = wi_id w"
  shows "counted (work_items (put_work_item (w\<lparr>wi_attempt_count := wi_attempt_count w + 1\<rparr>) d))
     (as @ [a])"
proof -
  let ?w = "w\<lparr>wi_attempt_count := wi_attempt_count w + 1\<rparr>"
  have in_d: "w \<in> set (work_items d)" using get by (auto simp: get_work_item_def dest: row_get_Some)
  have new: "attempts_on (as @ [a]) i = attempts_on as i + (if i = wi_id w then 1 else 0)" for i
    using a by (auto simp: attempts_on_def count_where_def)
  have "wi_attempt_count x = attempts_on (as @ [a]) (wi_id x)"
    if "x \<in> set (row_put wi_id ?w (work_items d))" for x
    using set_row_put [OF that] inv in_d by (auto simp: new counted_def)
  moreover have "wi_id ` set (row_put wi_id ?w (work_items d)) = wi_id ` set (work_items d)"
    by (metis keys_row_put list.set_map)
  ultimately show ?thesis using inv a in_d by (auto simp: counted_def)
qed

lemma existing_attempt_None:
  "existing_attempt d a k = None \<longleftrightarrow> (a, k) \<notin> set (attempt_keys (call_attempts d))"
  by (auto simp: existing_attempt_def attempt_keys_def find_None_iff)

text \<open>A first completion: the attempt counted, the item moved on, one attempt appended.\<close>

lemma complete_fresh:
  assumes inv: "work_inv d"
    and load: "load_leased_item d i (rq_agent_id rq) l now = Inr w"
    and guard: "completion_guard e d rq cc (Some di) = None"
    and run: "apply_disposition e cfg rq di co (w\<lparr>wi_attempt_count := wi_attempt_count w + 1\<rparr>)
             (put_work_item (w\<lparr>wi_attempt_count := wi_attempt_count w + 1\<rparr>) d) = Inr d2"
  shows "table_settles (put_work_item (w\<lparr>wi_attempt_count := wi_attempt_count w + 1\<rparr>) d) d2"
    and "items_inv d2"
    and "at_work_item_id a = wi_id w \<Longrightarrow> counted (work_items d2) (call_attempts d @ [a])"
proof -
  let ?w = "w\<lparr>wi_attempt_count := wi_attempt_count w + 1\<rparr>"
  let ?d = "put_work_item ?w d"
  from load_leased_item_Inr [OF load] have get: "get_work_item d i = Some w"
    and w: "wi_state w = Leased" "wi_lease_owner_id w = Some (rq_agent_id rq)" "wi_id w = i"
    by simp_all
  from inv have it: "items_inv d" and dist: "distinct (map wi_id (work_items d))"
    by (simp_all add: work_inv_def items_inv_def)
  have dist1: "distinct (map wi_id (work_items ?d))" using dist by simp
  have get1: "get_work_item ?d i = Some ?w"
    using work_item_table.get_put [of ?w d i] get w(3) by simp
  show st: "table_settles ?d d2"
    using apply_disposition_settles [OF dist1 get1 _ _ _ run] w guard_callback [OF guard] by force
  show "items_inv d2"
    using count_attempt_inv [OF it get] conjunct1 [OF st [unfolded table_settles_def]]
    by (rule items_inv_settles)
  show "counted (work_items d2) (call_attempts d @ [a])" if "at_work_item_id a = wi_id w"
  proof (rule counted_moves)
    show "list_all2 moves (work_items ?d) (work_items d2)"
      using st by (simp add: table_settles_def settles_moves)
    show "counted (work_items ?d) (call_attempts d @ [a])"
      using inv get w(3) by (intro counted_attempt dist that) (simp_all add: work_inv_def)
  qed
qed

lemma complete_inv:
  assumes inv: "work_inv d" and run: "complete_work_item c e cfg rq d = Inr (r, d')"
  shows "work_inv d'"
  using run
proof (cases rule: complete_cases)
  case (fresh w cc di co d2 w2)
  let ?a = "settle_attempt w2 (new_attempt c e cfg rq w di)"
  note eff = complete_fresh [OF inv fresh(2,5,7)]
  have as: "call_attempts d2 = call_attempts d" using eff(1) by (simp add: table_settles_def)
  have "items_inv d' \<longleftrightarrow> items_inv d2" by (simp add: fresh(10) items_inv_def one_active_lease_def)
  moreover have "distinct (attempt_keys (call_attempts d @ [?a]))"
    using inv fresh(1) by (auto simp: work_inv_def existing_attempt_None attempt_keys_def)
  moreover have "counted (work_items d2) (call_attempts d @ [?a])" by (rule eff(3)) simp
  ultimately show ?thesis using eff(2) by (simp add: work_inv_def fresh(10) as)
qed (use inv in simp)

section \<open>The machine\<close>

text \<open>The row \<open>commit_job\<close> inserts for a contact that is not suppressed.\<close>

definition new_work_item :: "uuid \<Rightarrow> uuid \<Rightarrow> time \<Rightarrow> work_item" where
  "new_work_item i campaign_contact_id now =
     \<lparr>wi_id = i, wi_campaign_contact_id = campaign_contact_id, wi_batch_id = None,
      wi_campaign_user_assignment_id = None, wi_assigned_agent_id = None, wi_state = Queued,
      wi_priority = 0, wi_due_at = None, wi_attempt_count = 0, wi_max_attempts = 5,
      wi_skip_count = 0, wi_lease_owner_id = None, wi_lease_id = None,
      wi_lease_expires_at = None, wi_version = 0, wi_completed_at = None,
      wi_lease_reason = None, wi_created_at = now\<rparr>"

inductive work_step :: "crypto \<Rightarrow> settings \<Rightarrow> db \<Rightarrow> db \<Rightarrow> bool" for c cfg where
  lease: "fst (lease_next c e cfg up su a r d) = Inr (x, d') \<Longrightarrow> work_step c cfg d d'"
| renew: "renew_lease e cfg i a l d = Inr (w, d') \<Longrightarrow> work_step c cfg d d'"
| expire: "work_step c cfg d (snd (reclaim_expired_leases e d))"
| revoke: "work_step c cfg d (snd (reclaim_leases_for_user e a d))"
| release: "work_step c cfg d (snd (release_campaign_work_for_agent e a i d))"
| complete: "complete_work_item c e cfg rq d = Inr (res, d') \<Longrightarrow> work_step c cfg d d'"
| skip: "skip_work_item e cfg i a l reason d = Inr (w, d') \<Longrightarrow> work_step c cfg d d'"
| reschedule: "reschedule_review_item e i a t reason d = Inr (w, d') \<Longrightarrow> work_step c cfg d d'"
| more_attempts: "increase_review_item_attempts e i a m reason d = Inr (w, d') \<Longrightarrow> work_step c cfg d d'"
| close_review: "close_review_item e i a reason d = Inr (w, d') \<Longrightarrow> work_step c cfg d d'"
| enqueue: "get_work_item d i = None
    \<Longrightarrow> work_step c cfg d (d\<lparr>work_items := work_items d @ [new_work_item i k now]\<rparr>)"
| elsewhere: "\<lbrakk>work_items d' = work_items d; call_attempts d' = call_attempts d\<rbrakk>
    \<Longrightarrow> work_step c cfg d d'"

definition work_start :: "db \<Rightarrow> bool" where
  "work_start d \<longleftrightarrow> work_items d = [] \<and> call_attempts d = []"

text \<open>
  What a row keeps for ever: its identity and contact; a terminal row does not change at all;
  version and attempt counter never go down, and a change of state raises the version.
\<close>

definition advances :: "work_item \<Rightarrow> work_item \<Rightarrow> bool" where
  "advances w w' \<longleftrightarrow> w' = w \<or>
     (wi_state w \<notin> terminal_states \<and> wi_id w' = wi_id w
      \<and> wi_campaign_contact_id w' = wi_campaign_contact_id w
      \<and> wi_attempt_count w \<le> wi_attempt_count w' \<and> wi_version w \<le> wi_version w'
      \<and> (wi_state w' \<noteq> wi_state w \<longrightarrow> wi_version w < wi_version w'))"

definition work_history :: "db \<Rightarrow> db \<Rightarrow> bool" where
  "work_history d d' \<longleftrightarrow> (\<forall>w \<in> set (work_items d). \<exists>w' \<in> set (work_items d'). advances w w')
     \<and> prefix (call_attempts d) (call_attempts d')"

lemma advances_refl [simp]: "advances w w"
  by (simp add: advances_def)

lemma advances_trans: "\<lbrakk>advances w w'; advances w' w''\<rbrakk> \<Longrightarrow> advances w w''"
  by (auto simp: advances_def)

lemma moves_advances: "moves w w' \<Longrightarrow> advances w w'"
  by (auto simp: moves_def advances_def)

lemma history_refl: "work_history d d"
  unfolding work_history_def by (blast intro: advances_refl prefix_order.refl)

lemma history_trans:
  assumes 1: "work_history d d'" and 2: "work_history d' d''"
  shows "work_history d d''"
proof -
  have "\<exists>w'' \<in> set (work_items d''). advances w w''" if w: "w \<in> set (work_items d)" for w
  proof -
    from 1 w obtain w' where "w' \<in> set (work_items d')" and a: "advances w w'"
      by (auto simp: work_history_def)
    with 2 obtain w'' where "w'' \<in> set (work_items d'')" "advances w' w''"
      by (auto simp: work_history_def)
    with a show ?thesis by (blast intro: advances_trans)
  qed
  moreover have "prefix (call_attempts d) (call_attempts d'')"
    using 1 2 prefix_order.trans by (auto simp: work_history_def)
  ultimately show ?thesis by (simp add: work_history_def)
qed

lemma history_moves:
  assumes "list_all2 moves (work_items d) (work_items d')" and "prefix (call_attempts d) (call_attempts d')"
  shows "work_history d d'"
  using assms list_all2_forward [OF assms(1)] by (fastforce simp: work_history_def intro: moves_advances)

lemma history_settles: "table_settles d d' \<Longrightarrow> work_history d d'"
  by (rule history_moves) (simp_all add: table_settles_def settles_moves)

lemma complete_history:
  assumes inv: "work_inv d" and run: "complete_work_item c e cfg rq d = Inr (r, d')"
  shows "work_history d d'"
  using run
proof (cases rule: complete_cases)
  case (fresh w cc di co d2 w2)
  let ?w = "w\<lparr>wi_attempt_count := wi_attempt_count w + 1\<rparr>"
  note eff = complete_fresh [OF inv fresh(2,5,7)]
  from load_leased_item_Inr [OF fresh(2)] have w: "wi_state w = Leased"
    "get_work_item d (wi_id w) = Some w" by auto
  have dist: "distinct (map wi_id (work_items d))" using inv by (simp add: work_inv_def items_inv_def)
  have "list_all2 advances (work_items d) (row_put wi_id ?w (work_items d))"
    using w by (intro list_all2_put [where key = wi_id, OF dist, of _ w])
      (simp_all add: get_work_item_def advances_def terminal_states_def)
  from list_all2_forward [OF this] have 1: "work_history d (put_work_item ?w d)"
    by (simp add: work_history_def)
  have 2: "work_history (put_work_item ?w d) d2" by (rule history_settles [OF eff(1)])
  have 3: "work_history d2 d'" by (simp add: fresh(10) work_history_def) (auto intro: advances_refl)
  show ?thesis by (rule history_trans [OF history_trans [OF 1 2] 3])
qed (simp add: history_refl)

lemma enqueue_inv:
  assumes inv: "work_inv d" and new: "get_work_item d i = None"
  shows "work_inv (d\<lparr>work_items := work_items d @ [new_work_item i k now]\<rparr>)"
proof -
  have i: "i \<notin> wi_id ` set (work_items d)" using new by (simp add: get_work_item_def row_get_None)
  have "attempts_on (call_attempts d) i = 0"
    using inv i by (auto simp: attempts_on_def count_where_0 work_inv_def counted_def)
  moreover have "item_ok (new_work_item i k now)"
    by (simp add: new_work_item_def item_ok_def lease_fields_ok_def)
  ultimately show ?thesis
    using inv i by (auto simp: work_inv_def items_inv_def counted_def new_work_item_def
        one_active_lease_def count_where_def)
qed

lemma work_step_ok:
  assumes inv: "work_inv d" and step: "work_step c cfg d d'"
  shows "work_inv d' \<and> work_history d d'"
proof -
  have dist: "distinct (map wi_id (work_items d))" using inv by (simp add: work_inv_def items_inv_def)
  have st: ?thesis if "table_settles d d'"
    using work_inv_settles [OF inv that] history_settles [OF that] by simp
  from step show ?thesis
  proof cases
    case lease
    from lease_next_inv [OF inv lease] show ?thesis by (simp add: history_moves)
  next
    case complete
    from complete_inv [OF inv complete] complete_history [OF inv complete] show ?thesis by simp
  next
    case (enqueue i k now)
    from enqueue_inv [OF inv enqueue(2)] show ?thesis
      by (simp add: enqueue(1) work_history_def) (auto intro: advances_refl)
  next
    case elsewhere
    then show ?thesis by (intro st) (simp add: table_settles_def list_all2_refl)
  next
    case renew
    then show ?thesis by (intro st renew_lease_settles [OF dist])
  next
    case skip
    then show ?thesis by (intro st skip_settles [OF dist])
  next
    case reschedule
    then show ?thesis by (intro st review_settles(1) [OF dist])
  next
    case more_attempts
    then show ?thesis by (intro st review_settles(2) [OF dist])
  next
    case close_review
    then show ?thesis by (intro st review_settles(3) [OF dist])
  qed (use st reclaims_settle in simp_all)
qed

interpretation work_queue: history_machine work_start "work_step c cfg" work_inv work_history
  for c cfg
proof unfold_locales
  show "work_inv d" if "work_start d" for d
    using that by (simp add: work_start_def work_inv_def items_inv_def counted_def attempt_keys_def
        one_active_lease_def count_where_def)
qed (auto simp: history_refl dest: work_step_ok elim: history_trans)

section \<open>Properties\<close>

text \<open>
  C2: in every state the queue can reach, through any interleaving of its operations, each work
  item's columns are consistent with its state, no agent holds two leases, every attempt
  counter equals the number of recorded attempts, and no (agent, idempotency key) pair was
  recorded twice.
\<close>

theorem queue_invariant:
  assumes "reachable work_start (work_step c cfg) d"
  shows "(\<forall>w \<in> set (work_items d). item_ok w \<and> wi_attempt_count w = attempts_on (call_attempts d) (wi_id w))
    \<and> (\<forall>a. one_active_lease d a) \<and> distinct (attempt_keys (call_attempts d))"
  using work_queue.reachable_inv [OF assms]
  by (simp add: work_inv_def items_inv_def counted_def)


end
