(* ===== verification/Sample.thy ===== *)
theory Sample
  imports Work_Complete
begin

text \<open>
  A small concrete database and environment on which the theorems' hypotheses are shown to
  hold: one active campaign, agent 7 staffing it, a queued item, an item leased to agent 8.
\<close>

definition sample_crypto :: crypto where
  "sample_crypto = \<lparr>fernet_encrypt = id, fernet_decrypt = Some, sha256_hex = id,
     hmac_sha256_hex = (@), argon2_hash = id, argon2_verify = (=), totp_check = (=),
     phone_parse = (\<lambda>raw region. Inr (length raw)), phone_is_valid = (\<lambda>n. n > 6),
     phone_format_e164 = (\<lambda>n. CHR ''+'' # dec_digits n),
     signer_dumps = id, signer_loads = (\<lambda>age s. Some s)\<rparr>"

definition sample_env :: env where
  "sample_env = \<lparr>clk = (\<lambda>n. 1000 + int n), fresh_id = (\<lambda>n. 900 + n), fresh_token = (\<lambda>n. ''token''),
     phone_busy = (\<lambda>f. False), row_busy = (\<lambda>i. False)\<rparr>"

lemma sample_env_quiet: "quiet sample_env"
  by (simp add: quiet_def sample_env_def)

definition sample_contact :: "uuid \<Rightarrow> string \<Rightarrow> contact" where
  "sample_contact i fp = \<lparr>co_id = i, co_phone_ciphertext = ''v1:+263771'', co_phone_fingerprint = fp,
     co_phone_key_version = 1, co_display_name = None\<rparr>"

definition sample_campaign_contact :: "uuid \<Rightarrow> uuid \<Rightarrow> campaign_contact" where
  "sample_campaign_contact i co = \<lparr>cc_id = i, cc_campaign_id = 1, cc_contact_id = co,
     cc_original_phone_protected = None, cc_campaign_name_value = Some ''Tariro'',
     cc_approved_metadata = None, cc_source_row_reference = None, cc_status = Contact_queued,
     cc_imported_at = 0, cc_completed_at = None, cc_completed_by_agent_id = None,
     cc_final_disposition_code = None\<rparr>"

definition sample_item :: "uuid \<Rightarrow> work_item" where
  "sample_item i = \<lparr>wi_id = i, wi_campaign_contact_id = i, wi_batch_id = None,
     wi_campaign_user_assignment_id = None, wi_assigned_agent_id = None, wi_state = Queued,
     wi_priority = 0, wi_due_at = None, wi_attempt_count = 0, wi_max_attempts = 5,
     wi_skip_count = 0, wi_lease_owner_id = None, wi_lease_id = None,
     wi_lease_expires_at = None, wi_version = 0, wi_completed_at = None,
     wi_lease_reason = None, wi_created_at = 0\<rparr>"

definition leased_item :: work_item where
  "leased_item = (sample_item 2)\<lparr>wi_state := Leased, wi_lease_owner_id := Some 8,
     wi_lease_id := Some 55, wi_lease_expires_at := Some 2000, wi_lease_reason := Some Normal\<rparr>"

definition sample_campaign :: campaign where
  "sample_campaign = \<lparr>ca_id = 1, ca_owning_scope_type = ''team'', ca_owning_scope_id = Some 1,
     ca_external_code = ''C1'', ca_name = ''Survey'', ca_description = None,
     ca_purpose = Some ''p'', ca_data_source = Some ''s'', ca_data_obtained_at = Some 0,
     ca_lawful_basis = Some ''consent'', ca_default_region = ''ZW'',
     ca_timezone = ''Africa/Harare'', ca_status = Active, ca_created_by = None,
     ca_launched_at = Some 0, ca_archived_at = None, ca_completed_at = None,
     ca_retention_delete_after = None, ca_disposition_policy_version = Some 1\<rparr>"

definition sample_assignment :: user_assignment where
  "sample_assignment = \<lparr>ua_id = 1, ua_campaign_id = 1, ua_user_id = 7, ua_team_id = Some 1,
     ua_campaign_role = ''agent'', ua_assignment_type = ''primary'', ua_effective_from = 0,
     ua_effective_to = None, ua_status = Row_active, ua_priority = None,
     ua_allocation_percentage = None, ua_shift_reference = None, ua_assigned_by = None\<rparr>"

definition sample_disposition :: "uuid \<Rightarrow> string \<Rightarrow> string \<Rightarrow> disposition" where
  "sample_disposition i outcome next = \<lparr>di_id = i, di_campaign_id = 1, di_label = outcome,
     di_stable_semantic_code = outcome, di_next_action = Some next, di_requires_notes = False,
     di_requires_callback_time = False, di_counts_as_connected = False,
     di_counts_as_conversion = False, di_causes_dnc = False, di_display_order = 0,
     di_active = True, di_is_standard = True, di_retry_delay_minutes = Some 30,
     di_immediate_redial = False, di_policy_version = Some 1\<rparr>"

definition sample_db :: db where
  "sample_db = empty_db\<lparr>work_items := [sample_item 1, leased_item],
     contacts := [sample_contact 1 ''f1'', sample_contact 2 ''f2''],
     campaign_contacts := [sample_campaign_contact 1 1, sample_campaign_contact 2 2],
     campaigns := [sample_campaign], user_assignments := [sample_assignment],
     dispositions := [sample_disposition 1 ''sale'' ''complete'',
       sample_disposition 2 ''no_answer'' ''retry_wait'',
       (sample_disposition 3 ''explicit_dnc'' ''complete'')\<lparr>di_causes_dnc := True\<rparr>,
       sample_disposition 4 ''busy'' ''immediate_redial''],
     feature_flags := [\<lparr>ff_flag_key = ''shared_pool_enabled'', ff_enabled = True, ff_updated_by = None\<rparr>,
       \<lparr>ff_flag_key = ''callbacks_enabled'', ff_enabled = True, ff_updated_by = None\<rparr>]\<rparr>"

definition sample_request :: "uuid \<Rightarrow> completion_request" where
  "sample_request dispo = \<lparr>rq_work_item_id = 2, rq_agent_id = 8, rq_lease_id = 55,
     rq_disposition_id = dispo, rq_notes = None, rq_callback_at = None,
     rq_duration_seconds = None, rq_idempotency_key = ''k''\<rparr>"

lemmas sample_defs = sample_crypto_def sample_env_def sample_contact_def sample_campaign_contact_def
  sample_item_def leased_item_def sample_campaign_def sample_assignment_def
  sample_disposition_def sample_db_def sample_request_def

lemma sample_ids: "distinct (map wi_id (work_items sample_db))"
  by (simp add: sample_defs)

lemma sample_cfg: "0 < lease_duration_minutes default_settings"
  by (simp add: default_settings_def)

lemmas complete_eval = complete_work_item_def existing_attempt_def phone_fingerprint_for_work_item_def
  load_leased_item_def completion_guard_def new_attempt_def apply_disposition_def
  apply_next_action_def settle_attempt_def completion_result_of_def clear_lease_def
  get_work_item_def put_work_item_def get_campaign_contact_def put_campaign_contact_def
  get_contact_def get_disposition_def get_campaign_def row_get_def row_put_def rows_update_def
  join_row_def blank_def at_ceiling_def require_enabled_def is_enabled_def get_flag_def
  empty_db_def record_audit_def Let_def

lemmas lease_eval = lease_next_def get_active_lease_locked_def active_lease_candidate_def
  holds_active_lease_def lease_rows_def List.map_filter_simps check_and_increment_work_lease_def
  choose_work_def loop_fuel_def next_callback_candidate_def callback_eligible_def
  next_due_retry_candidate_def retry_eligible_def next_queue_candidate_def queue_eligible_def
  attempt_callback_def attempt_pool_def lock_lease_candidate_def still_leasable_def
  candidate_of_def active_suppression_exists_def active_primary_assignment_def
  active_assignment_for_campaign_def agent_assignment_def effective_at_def campaign_active_def
  finish_lease_def grant_lease_def one_active_lease_def count_where_def lease_result_of_def
  due_by_def due_key_def decrypt_def after_first_def

lemma sample_complete:
  "\<exists>x d. complete_work_item sample_crypto sample_env default_settings (sample_request 1) sample_db
     = Inr (x, d) \<and> cr_work_item_state x = Completed"
  by (simp add: complete_eval sample_defs)

lemma sample_lease:
  "\<exists>x d. fst (lease_next sample_crypto sample_env default_settings (\<lambda>n. True) (\<lambda>i. []) 7 (\<lambda>k. None)
     sample_db) = Inr (Some x, d)"
  by (simp add: lease_eval complete_eval sample_defs increment_def increment_script_def
    redis_get_def decide_def work_lease_limit_def)

end
