(* ===== verification/Work_Outcomes.thy ===== *)
theory Work_Outcomes
  imports Work_Steps Sample
begin

text \<open>
  What completing an item does: who may complete, the state each disposition leads to, the
  global effect of a do-not-call request, and the replay of a completion under its
  idempotency key.
\<close>

section \<open>The item after a disposition\<close>

text \<open>\<open>disposition.next_action or "complete"\<close>\<close>

definition effective_action :: "disposition \<Rightarrow> string" where
  "effective_action di =
     (case di_next_action di of None \<Rightarrow> ''complete'' | Some a \<Rightarrow> if a = '''' then ''complete'' else a)"

text \<open>
  The documented outcome: DNC suppresses, a callback disposition waits for its time, an action
  that would call again is diverted to review once the attempts are used up.
\<close>

definition outcome_state :: "disposition \<Rightarrow> int \<Rightarrow> int \<Rightarrow> work_state" where
  "outcome_state di used ceiling =
     (let act = effective_action di in
      if di_causes_dnc di then Suppressed
      else if di_requires_callback_time di then Callback_wait
      else if act = ''complete'' then Completed
      else if act = ''review'' \<or> used \<ge> ceiling then Review
      else if act = ''requeue'' then Queued
      else if act = ''retry_wait'' then Retry_wait
      else Leased)"

lemma get_after_put:
  "\<lbrakk>get_work_item d i = Some w0; wi_id w = i\<rbrakk> \<Longrightarrow> get_work_item (put_work_item w d) i = Some w"
  using work_item_table.get_put [of w d i] by simp

lemma get_work_item_frame [simp]:
  "get_work_item (put_campaign_contact cc d) i = get_work_item d i"
  "get_work_item (record_audit x1 x2 x3 x4 x5 x6 x7 d) i = get_work_item d i"
  "get_work_item (d\<lparr>call_attempts := as\<rparr>) i = get_work_item d i"
  by (simp_all add: get_work_item_def)

lemma apply_next_action_item:
  assumes get: "get_work_item d i = Some w" and run: "apply_next_action e cfg a di w d = Inr d2"
    and plain: "\<not> di_causes_dnc di" "\<not> di_requires_callback_time di"
  shows "\<exists>w2. get_work_item d2 i = Some w2
     \<and> wi_state w2 = outcome_state di (wi_attempt_count w) (wi_max_attempts w)
     \<and> wi_attempt_count w2 = wi_attempt_count w \<and> wi_version w2 = wi_version w + 1
     \<and> (wi_state w2 = Retry_wait \<longrightarrow>
          (\<exists>m. di_retry_delay_minutes di = Some m \<and> wi_due_at w2 = Some (clk e 0 + minutes m)))"
proof -
  have id: "wi_id w = i" by (rule work_item_table.get_key [OF get])
  have act: "effective_action di = (case di_next_action di of
            None \<Rightarrow> ''complete'' | Some a \<Rightarrow> if a = '''' then ''complete'' else a)"
    by (simp add: effective_action_def)
  show ?thesis
    using run
    unfolding apply_next_action_def Let_def act [symmetric]
    by (auto simp: outcome_state_def plain Let_def at_ceiling_def clear_lease_def id
        get_after_put [OF get] split: if_splits option.splits)
qed

lemma suppress_get:
  "get_work_item (suppress_contact_everywhere e co s by d) i =
     map_option (\<lambda>w. if pending_for_contact d (co_id co) w then suppress_item (clk e 4) w else w)
       (get_work_item d i)"
proof -
  have p: "pending_for_contact (d\<lparr>suppression_entries := ses\<rparr>) k w = pending_for_contact d k w" for ses k w
    by (simp add: pending_for_contact_def get_campaign_contact_def)
  show ?thesis
    by (simp add: suppress_contact_everywhere_def Let_def get_work_item_def p
        row_get_rows_update [where key = wi_id] suppress_item_def)
qed

lemma apply_disposition_frame:
  assumes "apply_disposition e cfg rq di co w d = Inr d2"
  shows "dispositions d2 = dispositions d \<and> contacts d2 = contacts d \<and> campaigns d2 = campaigns d
     \<and> user_assignments d2 = user_assignments d \<and> feature_flags d2 = feature_flags d"
  using assms
  by (auto simp: apply_disposition_def apply_next_action_def suppress_contact_everywhere_def Let_def
      split: if_splits option.splits)

lemma apply_disposition_item:
  assumes get: "get_work_item d i = Some w" and run: "apply_disposition e cfg rq di co w d = Inr d2"
    and cc: "get_campaign_contact d (wi_campaign_contact_id w) = Some cc" "cc_contact_id cc = co_id co"
    and live: "wi_state w \<notin> terminal_states"
  shows "\<exists>w2. get_work_item d2 i = Some w2
     \<and> wi_state w2 = outcome_state di (wi_attempt_count w) (wi_max_attempts w)
     \<and> wi_attempt_count w2 = wi_attempt_count w \<and> wi_version w2 = wi_version w + 1
     \<and> (wi_state w2 = Retry_wait \<longrightarrow>
          (\<exists>m. di_retry_delay_minutes di = Some m \<and> wi_due_at w2 = Some (clk e 0 + minutes m)))"
proof -
  have id: "wi_id w = i" by (rule work_item_table.get_key [OF get])
  have pend: "pending_for_contact d (co_id co) w"
    using cc live by (simp add: pending_for_contact_def)
  consider (dnc) "di_causes_dnc di" | (callback) "\<not> di_causes_dnc di" "di_requires_callback_time di"
    | (plain) "\<not> di_causes_dnc di" "\<not> di_requires_callback_time di" by blast
  then show ?thesis
  proof cases
    case dnc
    with run have d2: "get_work_item d2 i = get_work_item
        (suppress_contact_everywhere e co ''explicit_contact_request'' (rq_agent_id rq) d) i"
      by (auto simp: apply_disposition_def)
    then show ?thesis using dnc pend
      by (simp add: suppress_get get suppress_item_def outcome_state_def)
  next
    case callback
    with run have "d2 = put_work_item (schedule_callback (rq_agent_id rq) (rq_callback_at rq) w) d"
      by (simp add: apply_disposition_def)
    then show ?thesis using callback
      by (simp add: get_after_put [OF get] schedule_callback_def clear_lease_def id outcome_state_def)
  next
    case plain
    with run have "apply_next_action e cfg (rq_agent_id rq) di w d = Inr d2"
      by (simp add: apply_disposition_def)
    from apply_next_action_item [OF get this plain] show ?thesis .
  qed
qed

text \<open>A first completion, summed up.\<close>

lemma complete_summary:
  assumes run: "complete_work_item c e cfg rq d = Inr (r, d')"
    and new: "existing_attempt d (rq_agent_id rq) (rq_idempotency_key rq) = None"
  obtains w w2 cc di co d2 where
    "get_work_item d (rq_work_item_id rq) = Some w" "wi_state w = Leased"
    "wi_lease_owner_id w = Some (rq_agent_id rq)" "wi_lease_id w = Some (rq_lease_id rq)"
    "wi_id w = rq_work_item_id rq" "\<forall>t. wi_lease_expires_at w = Some t \<longrightarrow> clk e 1 < t"
    "get_campaign_contact d (wi_campaign_contact_id w) = Some cc"
    "get_contact d (cc_contact_id cc) = Some co"
    "get_disposition d (rq_disposition_id rq) = Some di"
    "completion_guard e d rq cc (Some di) = None"
    "apply_disposition e cfg rq di co (w\<lparr>wi_attempt_count := wi_attempt_count w + 1\<rparr>)
       (put_work_item (w\<lparr>wi_attempt_count := wi_attempt_count w + 1\<rparr>) d) = Inr d2"
    "get_work_item d' (rq_work_item_id rq) = Some w2"
    "wi_state w2 = outcome_state di (wi_attempt_count w + 1) (wi_max_attempts w)"
    "wi_attempt_count w2 = wi_attempt_count w + 1" "wi_version w2 = wi_version w + 1"
    "wi_state w2 = Retry_wait \<longrightarrow>
       (\<exists>m. di_retry_delay_minutes di = Some m \<and> wi_due_at w2 = Some (clk e 0 + minutes m))"
    "completion_result_of (settle_attempt w2 (new_attempt c e cfg rq w di))
       (if wi_state w2 = Retry_wait then wi_due_at w2 else None) = Inr r"
    "d' = record_audit ''work.complete'' ''success'' (Some (rq_agent_id rq))
             (Some ''work_item'') (Some (wi_id w)) (Some (di_stable_semantic_code di)) []
             (d2\<lparr>call_attempts := call_attempts d2 @ [settle_attempt w2 (new_attempt c e cfg rq w di)]\<rparr>)"
  using run
proof (cases rule: complete_cases)
  case (fresh w cc di co d2 w2)
  let ?w = "w\<lparr>wi_attempt_count := wi_attempt_count w + 1\<rparr>"
  from load_leased_item_Inr [OF fresh(2)] have w: "get_work_item d (rq_work_item_id rq) = Some w"
    "wi_state w = Leased" "wi_lease_owner_id w = Some (rq_agent_id rq)"
    "wi_lease_id w = Some (rq_lease_id rq)" "wi_id w = rq_work_item_id rq" by simp_all
  have live: "\<forall>t. wi_lease_expires_at w = Some t \<longrightarrow> clk e 1 < t"
    using fresh(2) by (auto simp: load_leased_item_def split: option.splits if_splits)
  have co: "cc_contact_id cc = co_id co"
    using fresh(6) by (auto simp: get_contact_def dest: row_get_Some)
  have get1: "get_work_item (put_work_item ?w d) (rq_work_item_id rq) = Some ?w"
    using w by (intro get_after_put) simp_all
  have "\<exists>w2. get_work_item d2 (rq_work_item_id rq) = Some w2
     \<and> wi_state w2 = outcome_state di (wi_attempt_count ?w) (wi_max_attempts ?w)
     \<and> wi_attempt_count w2 = wi_attempt_count ?w \<and> wi_version w2 = wi_version ?w + 1
     \<and> (wi_state w2 = Retry_wait \<longrightarrow>
          (\<exists>m. di_retry_delay_minutes di = Some m \<and> wi_due_at w2 = Some (clk e 0 + minutes m)))"
    using fresh(3) w by (intro apply_disposition_item [OF get1 fresh(7) _ co])
      (simp_all add: get_campaign_contact_def terminal_states_def)
  with fresh(8) w have w2: "wi_state w2 = outcome_state di (wi_attempt_count w + 1) (wi_max_attempts w)"
    "wi_attempt_count w2 = wi_attempt_count w + 1" "wi_version w2 = wi_version w + 1"
    "wi_state w2 = Retry_wait \<longrightarrow>
          (\<exists>m. di_retry_delay_minutes di = Some m \<and> wi_due_at w2 = Some (clk e 0 + minutes m))"
    by auto
  have get': "get_work_item d' (rq_work_item_id rq) = Some w2"
    using fresh(8) w by (simp add: fresh(10))
  show thesis
    by (rule that [OF w live fresh(3,6,4,5,7) get' w2 fresh(9,10)])
next
  case (replay a)
  from replay(1) new have False by simp
  then show thesis ..
qed

lemma completion_result_fields:
  assumes "completion_result_of a t = Inr r"
  shows "cr_work_item_state r = at_resulting_work_item_state a \<and> cr_attempt_id r = at_id a"
  using assms by (auto simp: completion_result_of_def split: option.splits)

lemma settle_state [simp]: "at_resulting_work_item_state (settle_attempt w a) = wi_state w"
  by (simp add: settle_attempt_def)

text \<open>
  C5: a completion that is not a replay only succeeds for the agent holding the live lease, under
  an active disposition of the item's own campaign; it leaves the item in the state that
  disposition documents (an action that would call again ends in review at the ceiling), with
  exactly one attempt more and one version more.
\<close>

theorem completion_outcome:
  assumes "complete_work_item c e cfg rq d = Inr (r, d')"
    and "existing_attempt d (rq_agent_id rq) (rq_idempotency_key rq) = None"
  shows "\<exists>w w2 di cc. get_work_item d (rq_work_item_id rq) = Some w
    \<and> leased_to (rq_agent_id rq) w \<and> wi_lease_id w = Some (rq_lease_id rq)
    \<and> (\<forall>t. wi_lease_expires_at w = Some t \<longrightarrow> clk e 1 < t)
    \<and> get_disposition d (rq_disposition_id rq) = Some di \<and> di_active di
    \<and> get_campaign_contact d (wi_campaign_contact_id w) = Some cc
    \<and> di_campaign_id di = cc_campaign_id cc
    \<and> get_work_item d' (rq_work_item_id rq) = Some w2 \<and> cr_work_item_state r = wi_state w2
    \<and> wi_state w2 = outcome_state di (wi_attempt_count w + 1) (wi_max_attempts w)
    \<and> wi_attempt_count w2 = wi_attempt_count w + 1 \<and> wi_version w2 = wi_version w + 1"
proof (rule complete_summary [OF assms])
  fix w w2 cc di co d2
  assume 1: "get_work_item d (rq_work_item_id rq) = Some w" "wi_state w = Leased"
    "wi_lease_owner_id w = Some (rq_agent_id rq)" "wi_lease_id w = Some (rq_lease_id rq)"
    "\<forall>t. wi_lease_expires_at w = Some t \<longrightarrow> clk e 1 < t"
    and 2: "get_campaign_contact d (wi_campaign_contact_id w) = Some cc"
    "get_disposition d (rq_disposition_id rq) = Some di"
    and g: "completion_guard e d rq cc (Some di) = None"
    and 3: "get_work_item d' (rq_work_item_id rq) = Some w2"
    "wi_state w2 = outcome_state di (wi_attempt_count w + 1) (wi_max_attempts w)"
    "wi_attempt_count w2 = wi_attempt_count w + 1" "wi_version w2 = wi_version w + 1"
    and r: "completion_result_of (settle_attempt w2 (new_attempt c e cfg rq w di))
       (if wi_state w2 = Retry_wait then wi_due_at w2 else None) = Inr r"
  from g have "di_active di \<and> di_campaign_id di = cc_campaign_id cc"
    by (auto simp: completion_guard_def split: if_splits)
  with 1 2 3 completion_result_fields [OF r] show ?thesis by (auto simp: leased_to_def)
qed

theorem completion_outcome_witness:
  "\<exists>r d' w2. complete_work_item sample_crypto sample_env default_settings (sample_request 1) sample_db
     = Inr (r, d') \<and> get_work_item d' 2 = Some w2 \<and> wi_attempt_count w2 = 1"
proof -
  have new: "existing_attempt sample_db (rq_agent_id (sample_request 1))
      (rq_idempotency_key (sample_request 1)) = None"
    by (simp add: existing_attempt_def sample_db_def empty_db_def)
  obtain r d' where run: "complete_work_item sample_crypto sample_env default_settings
      (sample_request 1) sample_db = Inr (r, d')" using sample_complete by blast
  have item: "get_work_item sample_db 2 = Some leased_item" "wi_attempt_count leased_item = 0"
    "rq_work_item_id (sample_request 1) = 2"
    by (simp_all add: sample_defs get_work_item_def row_get_def)
  from completion_outcome [OF run new] item run show ?thesis by auto
qed

section \<open>Do not call\<close>

definition item_contact :: "db \<Rightarrow> work_item \<Rightarrow> uuid option" where
  "item_contact d w = map_option cc_contact_id (get_campaign_contact d (wi_campaign_contact_id w))"

lemma pending_iff:
  "pending_for_contact d k w \<longleftrightarrow> item_contact d w = Some k \<and> wi_state w \<notin> terminal_states"
  by (simp add: pending_for_contact_def item_contact_def split: option.splits)

lemma suppress_contact_row_sel [simp]:
  "cc_id (suppress_contact_row t by cc) = cc_id cc"
  "cc_contact_id (suppress_contact_row t by cc) = cc_contact_id cc"
  "cc_campaign_id (suppress_contact_row t by cc) = cc_campaign_id cc"
  by (simp_all add: suppress_contact_row_def)

lemma suppress_item_contact:
  "item_contact (suppress_contact_everywhere e co s by d) w = item_contact d w"
proof -
  have "get_campaign_contact (suppress_contact_everywhere e co s by d) i = map_option (\<lambda>cc.
      if cc_id cc \<in> set (map wi_campaign_contact_id (filter (pending_for_contact d (co_id co)) (work_items d)))
      then suppress_contact_row (clk e 4) by cc else cc) (get_campaign_contact d i)" for i
    by (simp add: suppress_contact_everywhere_def Let_def get_campaign_contact_def
        row_get_rows_update [where key = cc_id] pending_for_contact_def)
  then show ?thesis
    by (cases "get_campaign_contact d (wi_campaign_contact_id w)") (simp_all add: item_contact_def)
qed

lemma suppress_items:
  "work_items (suppress_contact_everywhere e co s by d) =
     map (\<lambda>w. if item_contact d w = Some (co_id co) \<and> wi_state w \<notin> terminal_states
              then suppress_item (clk e 4) w else w) (work_items d)"
  by (simp add: suppress_contact_everywhere_def Let_def rows_update_def pending_iff
      item_contact_def get_campaign_contact_def)

lemma suppress_active:
  "active_suppression_exists (suppress_contact_everywhere e co s by d) (co_phone_fingerprint co)"
  by (auto simp: suppress_contact_everywhere_def Let_def active_suppression_exists_def)

lemma suppressed_contact [simp]:
  "wi_campaign_contact_id (suppress_item t w) = wi_campaign_contact_id w"
  "wi_state (suppress_item t w) = Suppressed"
  by (simp_all add: suppress_item_def)

lemma item_contact_frame [simp]:
  "item_contact (record_audit x1 x2 x3 x4 x5 x6 x7 d) w = item_contact d w"
  "item_contact (put_work_item v d) w = item_contact d w"
  "item_contact (d\<lparr>call_attempts := as\<rparr>) w = item_contact d w"
  by (simp_all add: item_contact_def get_campaign_contact_def)


lemma sample_dnc:
  "\<exists>x d. complete_work_item sample_crypto sample_env default_settings (sample_request 3) sample_db
     = Inr (x, d)"
  by (simp add: complete_eval sample_defs suppress_contact_everywhere_def pending_for_contact_def
      active_suppression_exists_def terminal_states_def suppress_item_def)


section \<open>Replays\<close>

lemma find_append:
  "find P (xs @ ys) = (case find P xs of None \<Rightarrow> find P ys | Some x \<Rightarrow> Some x)"
  by (induction xs) auto

lemma find_prefix: "\<lbrakk>find P xs = Some x; prefix xs ys\<rbrakk> \<Longrightarrow> find P ys = Some x"
  by (auto simp: prefix_def find_append)

lemma existing_attempt_later:
  "\<lbrakk>existing_attempt d a k = Some x; prefix (call_attempts d) (call_attempts d')\<rbrakk>
   \<Longrightarrow> existing_attempt d' a k = Some x"
  unfolding existing_attempt_def by (rule find_prefix)

lemma result_from_dispositions:
  "dispositions d' = dispositions d
   \<Longrightarrow> result_from_existing_attempt d' a i = result_from_existing_attempt d a i"
  by (simp add: result_from_existing_attempt_def get_disposition_def)

text \<open>The attempt a first completion stores answers a replay with the same result.\<close>

lemma replay_of_fresh:
  assumes run: "complete_work_item c e cfg rq d = Inr (r, d')"
    and new: "existing_attempt d (rq_agent_id rq) (rq_idempotency_key rq) = None"
    and inv: "work_inv d"
  shows "\<exists>a. existing_attempt d' (rq_agent_id rq) (rq_idempotency_key rq) = Some a
    \<and> result_from_existing_attempt d' a (rq_work_item_id rq) = Inr r"
proof (rule complete_summary [OF run new])
  fix w w2 :: work_item and cc di co d2
  let ?a = "settle_attempt w2 (new_attempt c e cfg rq w di)"
  let ?w = "w\<lparr>wi_attempt_count := wi_attempt_count w + 1\<rparr>"
  assume w: "get_work_item d (rq_work_item_id rq) = Some w" "wi_id w = rq_work_item_id rq"
      "wi_state w = Leased" "wi_lease_owner_id w = Some (rq_agent_id rq)"
    and di: "get_disposition d (rq_disposition_id rq) = Some di"
    and guard: "completion_guard e d rq cc (Some di) = None"
    and app: "apply_disposition e cfg rq di co ?w (put_work_item ?w d) = Inr d2"
    and retry: "wi_state w2 = Retry_wait \<longrightarrow>
       (\<exists>m. di_retry_delay_minutes di = Some m \<and> wi_due_at w2 = Some (clk e 0 + minutes m))"
    and r: "completion_result_of ?a (if wi_state w2 = Retry_wait then wi_due_at w2 else None) = Inr r"
    and d': "d' = record_audit ''work.complete'' ''success'' (Some (rq_agent_id rq))
             (Some ''work_item'') (Some (wi_id w)) (Some (di_stable_semantic_code di)) []
             (d2\<lparr>call_attempts := call_attempts d2 @ [?a]\<rparr>)"
  have dist: "distinct (map wi_id (work_items (put_work_item ?w d)))"
    using inv by (simp add: work_inv_def items_inv_def)
  have "get_work_item (put_work_item ?w d) (rq_work_item_id rq) = Some ?w"
    using w by (intro get_after_put) simp_all
  from apply_disposition_settles [OF dist this _ _ _ app] w guard_callback [OF guard]
  have "call_attempts d2 = call_attempts d" by (force simp: table_settles_def)
  then have "existing_attempt d' (rq_agent_id rq) (rq_idempotency_key rq) = Some ?a"
    using new by (simp add: existing_attempt_def d' find_append)
  moreover have "result_from_existing_attempt d' ?a (rq_work_item_id rq) = Inr r"
  proof -
    have "di_id di = rq_disposition_id rq" using di by (auto simp: get_disposition_def dest: row_get_Some)
    then have "get_disposition d' (at_disposition_definition_id ?a) = Some di"
      using di apply_disposition_frame [OF app]
      by (simp add: d' get_disposition_def settle_attempt_def new_attempt_def)
    moreover have "at_created_at ?a = clk e 0" by (simp add: settle_attempt_def new_attempt_def)
    ultimately show ?thesis
      using r retry w(2) by (auto simp: result_from_existing_attempt_def)
  qed
  ultimately show ?thesis by blast
qed


lemma sample_inv: "work_inv sample_db"
proof -
  have "one_active_lease sample_db a" for a
    by (simp add: one_active_lease_def count_where_def sample_defs empty_db_def)
  then show ?thesis
    by (simp add: work_inv_def items_inv_def counted_def attempt_keys_def attempts_on_def
        item_ok_def lease_fields_ok_def count_where_def sample_defs empty_db_def)
qed


end
