(* ===== verification/Work_Theorems.thy ===== *)
theory Work_Theorems
  imports Work_Outcomes
begin

text \<open>
  The remaining properties of the work queue: the order in which an uncontended database is
  served, what an unreclaimed lease of the agent's own does, the three ways leases are taken
  back, the reviewer's decisions; and the witnesses of the leasing properties.
\<close>

section \<open>Serving order\<close>

lemma lock_uncontended:
  assumes "quiet e" and dist: "distinct (map wi_id (work_items d))"
    and row: "(w, cc, co) \<in> set (lease_rows d)" and ok: "still_leasable a now cb rt w"
    and act: "campaign_active d (cc_campaign_id cc)"
    and free: "\<not> active_suppression_exists d (co_phone_fingerprint co)"
  shows "lock_lease_candidate e a now cb rt (candidate_of (w, cc, co)) d = Inr (Some (w, cc, co), d)"
proof -
  from row have "w \<in> set (work_items d)"
    and "get_campaign_contact d (wi_campaign_contact_id w) = Some cc"
    and "get_contact d (cc_contact_id cc) = Some co" by (simp_all add: lease_rows_mem)
  moreover from distinct_get [OF dist this(1)] have "get_work_item d (wi_id w) = Some w" .
  ultimately show ?thesis
    using assms(1) ok act free by (simp add: lock_lease_candidate_def candidate_of_def quiet_def)
qed

lemma loop_first:
  assumes "pick [] d = Some cand" and "attempt cand d = Inr (Some ch, d)"
  shows "try_candidates (loop_fuel d) pick attempt [] d = Inr (Some ch, d)"
  using assms by (simp add: loop_fuel_def)

lemma loop_nothing: "pick [] d = None \<Longrightarrow> try_candidates (loop_fuel d) pick attempt [] d = Inr (None, d)"
  by (simp add: loop_fuel_def)

definition due_callbacks :: "db \<Rightarrow> uuid \<Rightarrow> time \<Rightarrow> lease_row list" where
  "due_callbacks d a now = filter (callback_eligible d a now) (lease_rows d)"

definition due_retries :: "db \<Rightarrow> uuid \<Rightarrow> time \<Rightarrow> lease_row list" where
  "due_retries d k now = filter (retry_eligible d k now) (lease_rows d)"

definition queue_rows :: "db \<Rightarrow> uuid \<Rightarrow> lease_row list" where
  "queue_rows d k = filter (queue_eligible d k) (lease_rows d)"

text \<open>
  The documented order: the agent's earliest due callback; else, in the primary campaign, the
  due retry that is oldest due, then of highest priority, then oldest; else the queued item
  of highest priority, then oldest.
\<close>

definition served_first :: "uuid \<Rightarrow> time \<Rightarrow> db \<Rightarrow> (lease_row \<times> lease_reason) option" where
  "served_first a now d =
     (case first_by (\<lambda>(w, cc, co). due_key w) (due_callbacks d a now) of
        Some row \<Rightarrow> Some (row, Scheduled_callback)
      | None \<Rightarrow>
          (case active_primary_assignment d a now of
             None \<Rightarrow> None
           | Some asg \<Rightarrow>
               (if \<not> campaign_active d (ua_campaign_id asg) then None
                else case first_by (\<lambda>(w, cc, co). (due_key w, - wi_priority w, wi_created_at w))
                            (due_retries d (ua_campaign_id asg) now) of
                  Some row \<Rightarrow> Some (row, Delayed_retry)
                | None \<Rightarrow> map_option (\<lambda>row. (row, Normal))
                    (first_by (\<lambda>(w, cc, co). (- wi_priority w, wi_created_at w))
                      (queue_rows d (ua_campaign_id asg))))))"

lemma callback_first:
  assumes q: "quiet e" and clock: "clk e 1 = now" and dist: "distinct (map wi_id (work_items d))"
    and row: "row \<in> set (due_callbacks d a now)"
  shows "\<exists>asg. attempt_callback e a now (candidate_of row) d = Inr (Some (asg, row, Scheduled_callback), d)"
proof -
  obtain w cc co where r: "row = (w, cc, co)" by (cases row) auto
  from row have in_rows: "(w, cc, co) \<in> set (lease_rows d)" and el: "callback_eligible d a now (w, cc, co)"
    by (auto simp: due_callbacks_def r)
  from el have "\<exists>asg \<in> set (user_assignments d). agent_assignment a now asg \<and> ua_campaign_id asg = cc_campaign_id cc"
    by (auto simp: callback_eligible_def list_ex_iff)
  then have "active_assignment_for_campaign d a (cc_campaign_id cc) now \<noteq> None"
    by (auto simp: active_assignment_for_campaign_def filter_empty_conv)
  then obtain asg where "active_assignment_for_campaign d a (lc_campaign_id (candidate_of row)) (clk e 1) = Some asg"
    using clock by (auto simp: r candidate_of_def)
  moreover have "lock_lease_candidate e a now True False (candidate_of row) d = Inr (Some row, d)"
    unfolding r by (rule lock_uncontended [OF q dist in_rows])
      (use el in \<open>auto simp: callback_eligible_def still_leasable_def\<close>)
  ultimately show ?thesis by (simp add: attempt_callback_def)
qed

lemma pool_first:
  assumes q: "quiet e" and dist: "distinct (map wi_id (work_items d))"
    and act: "campaign_active d (ua_campaign_id asg)"
    and row: "row \<in> set (if rt then due_retries d (ua_campaign_id asg) now
                          else queue_rows d (ua_campaign_id asg))"
  shows "attempt_pool e a now asg rt (candidate_of row) d =
    Inr (Some (asg, row, if rt then Delayed_retry else Normal), d)"
proof -
  obtain w cc co where r: "row = (w, cc, co)" by (cases row) auto
  have "lock_lease_candidate e a now False rt (candidate_of row) d = Inr (Some row, d)"
    unfolding r using row act
    by (intro lock_uncontended [OF q dist])
      (auto simp: r due_retries_def queue_rows_def retry_eligible_def queue_eligible_def
        still_leasable_def split: if_splits)
  then show ?thesis by (simp add: attempt_pool_def)
qed

lemma next_candidates:
  "next_callback_candidate d a now [] =
     map_option candidate_of (first_by (\<lambda>(w, cc, co). due_key w) (due_callbacks d a now))"
  "next_due_retry_candidate d k now [] = map_option candidate_of
     (first_by (\<lambda>(w, cc, co). (due_key w, - wi_priority w, wi_created_at w)) (due_retries d k now))"
  "next_queue_candidate d k [] = map_option candidate_of
     (first_by (\<lambda>(w, cc, co). (- wi_priority w, wi_created_at w)) (queue_rows d k))"
  by (simp_all add: next_callback_candidate_def due_callbacks_def next_due_retry_candidate_def
      due_retries_def next_queue_candidate_def queue_rows_def)

lemma choose_work_order:
  assumes q: "quiet e" and clock: "clk e = (\<lambda>n. now)" and dist: "distinct (map wi_id (work_items d))"
  shows "\<exists>x. choose_work e a now d = Inr (x, d) \<and> map_option snd x = served_first a now d"
proof (cases "first_by (\<lambda>(w, cc, co). due_key w) (due_callbacks d a now)")
  case (Some row)
  have "clk e 1 = now" by (simp add: clock)
  from callback_first [OF q this dist first_by_in [OF Some]] obtain asg where
    "attempt_callback e a now (candidate_of row) d = Inr (Some (asg, row, Scheduled_callback), d)" ..
  then have "try_candidates (loop_fuel d) (\<lambda>ex d. next_callback_candidate d a now ex)
      (attempt_callback e a now) [] d = Inr (Some (asg, row, Scheduled_callback), d)"
    by (intro loop_first) (simp_all add: next_candidates Some)
  then show ?thesis by (cases row) (simp add: choose_work_def served_first_def Some)
next
  case None
  have cb: "try_candidates (loop_fuel d) (\<lambda>ex d. next_callback_candidate d a now ex)
      (attempt_callback e a now) [] d = Inr (None, d)"
    by (rule loop_nothing) (simp add: next_candidates None)
  show ?thesis
  proof (cases "active_primary_assignment d a now")
    case no_asg: None
    then show ?thesis by (simp add: choose_work_def served_first_def cb None clock)
  next
    case asg: (Some asg)
    show ?thesis
    proof (cases "campaign_active d (ua_campaign_id asg)")
      case False
      then show ?thesis by (simp add: choose_work_def served_first_def cb None clock asg)
    next
      case act: True
      let ?k = "ua_campaign_id asg"
      let ?retry = "first_by (\<lambda>(w, cc, co). (due_key w, - wi_priority w, wi_created_at w))
                      (due_retries d ?k now)"
      let ?queue = "first_by (\<lambda>(w, cc, co). (- wi_priority w, wi_created_at w)) (queue_rows d ?k)"
      have pool: "attempt_pool e a now asg rt (candidate_of row) d =
          Inr (Some (asg, row, if rt then Delayed_retry else Normal), d)"
        if "(if rt then ?retry else ?queue) = Some row" for rt row
        using that by (intro pool_first [OF q dist act]) (auto split: if_splits dest: first_by_in)
      have rt: "try_candidates (loop_fuel d) (\<lambda>ex d. next_due_retry_candidate d ?k now ex)
          (attempt_pool e a now asg True) [] d =
          Inr (map_option (\<lambda>row. (asg, row, Delayed_retry)) ?retry, d)"
        using pool [of True]
        by (cases ?retry) (auto intro!: loop_first loop_nothing simp: next_candidates)
      have qu: "try_candidates (loop_fuel d) (\<lambda>ex d. next_queue_candidate d ?k ex)
          (attempt_pool e a now asg False) [] d =
          Inr (map_option (\<lambda>row. (asg, row, Normal)) ?queue, d)"
        using pool [of False]
        by (cases ?queue) (auto intro!: loop_first loop_nothing simp: next_candidates)
      show ?thesis
        by (cases ?retry; cases ?queue;
            auto simp: choose_work_def served_first_def cb None clock asg act rt qu intro: prod_cases3)
    qed
  qed
qed

text \<open>
  C9: in an uncontended database at one instant, an agent without a live lease is leased exactly
  the item the documented order names - earliest due callback, then due retry, then queue by
  priority and age - with the matching reason, and nothing when there is none.
\<close>

theorem lease_next_order:
  assumes "quiet e" and clock: "clk e = (\<lambda>n. now)" and "distinct (map wi_id (work_items d))"
    and none: "get_active_lease_locked c d a now = Inr None"
    and run: "fst (lease_next c e cfg up su a r d) = Inr (x, d')"
  shows "case served_first a now d of
      None \<Rightarrow> x = None \<and> d' = d
    | Some ((w, cc, co), reason) \<Rightarrow>
        \<exists>res. x = Some res \<and> lr_work_item_id res = wi_id w \<and> lr_lease_reason res = reason
          \<and> lr_is_callback res = (reason = Scheduled_callback)"
proof -
  from choose_work_order [OF assms(1-3)] obtain y where
    ch: "choose_work e a now d = Inr (y, d)" "map_option snd y = served_first a now d" by blast
  show ?thesis
    using run
  proof (cases rule: lease_next_cases)
    case resumed
    with none clock show ?thesis by simp
  next
    case nothing
    with ch clock show ?thesis by (auto split: option.splits)
  next
    case (granted cho d1)
    with ch clock have y: "y = Some cho" "d1 = d" by auto
    from granted(3) show ?thesis
    proof (rule finish_lease_cases)
      fix asg w cc co reason ca res
      assume cho: "cho = (asg, (w, cc, co), reason)" and x: "x = Some res"
        and res: "lease_result_of c (grant_lease e cfg a (clk e 0) cho) cc co ca = Inr res"
      have "wi_lease_reason (grant_lease e cfg a (clk e 0) cho) = Some reason"
        and "wi_id (grant_lease e cfg a (clk e 0) cho) = wi_id w" by (simp_all add: grant_lease_def cho)
      with res have "lr_work_item_id res = wi_id w \<and> lr_lease_reason res = reason
          \<and> lr_is_callback res = (reason = Scheduled_callback)"
        by (auto simp: lease_result_of_def Let_def split: option.splits)
      moreover have "served_first a now d = Some ((w, cc, co), reason)"
        using ch(2) y cho by simp
      ultimately show ?thesis using x by simp
    qed
  qed
qed

section \<open>A lease of the agent's own that has run out\<close>

lemma in_row_put_other: "\<lbrakk>x \<in> set xs; key x \<noteq> key r\<rbrakk> \<Longrightarrow> x \<in> set (row_put key r xs)"
  by (force simp: row_put_def)

lemma finish_needs_free_agent:
  assumes w0: "w0 \<in> set (work_items d)" "leased_to a w0"
    and dist: "distinct (map wi_id (work_items d))" and good: "good_choice e a now d ch"
  shows "finish_lease c e cfg a now ch d = Inl (Integrity_error ''uq_work_items_one_active_lease'')"
proof -
  obtain asg w cc co reason where ch: "ch = (asg, (w, cc, co), reason)" by (cases ch) auto
  let ?w = "grant_lease e cfg a now ch"
  have row: "get_work_item d (wi_id w) = Some w" and open_w: "wi_state w \<noteq> Leased"
    using good still_leasable_state [of a now _ _ w] by (auto simp: good_choice_def ch leasable_row_def)
  then have w_in: "w \<in> set (work_items d)" by (auto simp: get_work_item_def dest: row_get_Some)
  have id: "wi_id ?w = wi_id w" and lease: "leased_to a ?w"
    by (simp_all add: grant_lease_def ch leased_to_def)
  have "wi_id w0 \<noteq> wi_id w"
    using w0 w_in open_w dist by (auto simp: leased_to_def distinct_map dest: inj_onD)
  then have w0': "w0 \<in> set (row_put wi_id ?w (work_items d))" and "?w \<noteq> w0"
    using w0(1) id by (force simp: row_put_def)+
  moreover have "?w \<in> set (row_put wi_id ?w (work_items d))"
    using w_in id by (force simp: row_put_def)
  ultimately have "{?w, w0} \<subseteq> set (filter (leased_to a) (row_put wi_id ?w (work_items d)))"
    using w0(2) lease by simp
  then have "card {?w, w0} \<le> card (set (filter (leased_to a) (row_put wi_id ?w (work_items d))))"
    by (intro card_mono) simp_all
  also have "\<dots> \<le> count_where (leased_to a) (row_put wi_id ?w (work_items d))"
    unfolding count_where_def by (rule card_length)
  finally have "card {?w, w0} \<le> count_where (leased_to a) (row_put wi_id ?w (work_items d))" .
  with \<open>?w \<noteq> w0\<close> have "2 \<le> count_where (leased_to a) (row_put wi_id ?w (work_items d))" by simp
  then have "\<not> one_active_lease (put_work_item ?w d) a"
    by (simp add: one_active_lease_def leased_to_def [abs_def])
  then show ?thesis by (simp add: finish_lease_def ch Let_def)
qed

text \<open>
  C11: while the agent's own earlier lease has run out but has not been reclaimed, or its
  campaign is paused, \<open>lease_next\<close> never hands out another contact: whenever there is work to
  hand out, the flush violates the one-active-lease index and the call fails.
\<close>

theorem unreclaimed_lease_blocks:
  assumes inv: "work_inv d" and held: "w0 \<in> set (work_items d)" "leased_to a w0"
    and dead: "get_active_lease_locked c d a (clk e 0) = Inr None"
    and work: "choose_work e a (clk e 0) d = Inr (Some ch, d1)"
    and on: "is_enabled d ''shared_pool_enabled''"
    and allowed: "fst (check_and_increment_work_lease (sha256_hex c) up cfg (clk e 0) (su a) r)"
  shows "fst (lease_next c e cfg up su a r d)
    = Inl (Integrity_error ''uq_work_items_one_active_lease'')"
proof -
  have dist: "distinct (map wi_id (work_items d))" using inv by (simp add: work_inv_def items_inv_def)
  have keep: "w0 \<in> set (work_items d1) \<and> distinct (map wi_id (work_items d1))"
  proof (rule choose_work_invariant [OF _ work])
    fix d2 w cc cb rt
    assume I: "w0 \<in> set (work_items d2) \<and> distinct (map wi_id (work_items d2))"
      and w: "get_work_item d2 (wi_id w) = Some w" "still_leasable a (clk e 0) cb rt w"
    have "wi_state w \<noteq> wi_state w0"
      using still_leasable_state [OF w(2)] held(2) by (auto simp: leased_to_def)
    moreover have "get_work_item d2 (wi_id w0) = Some w0" using I by (simp add: distinct_get)
    ultimately have "wi_id w \<noteq> wi_id w0" using w(1) by (metis option.inject)
    with I show "w0 \<in> set (work_items (close_suppressed (clk e 0) w cc d2))
        \<and> distinct (map wi_id (work_items (close_suppressed (clk e 0) w cc d2)))"
      by (auto intro!: in_row_put_other)
  qed (use held dist in simp)
  from finish_needs_free_agent [OF conjunct1 [OF keep] held(2) conjunct2 [OF keep]
      choose_work_choice [OF dist work]]
  have "finish_lease c e cfg a (clk e 0) ch d1 = Inl (Integrity_error ''uq_work_items_one_active_lease'')" .
  moreover obtain r' where "check_and_increment_work_lease (sha256_hex c) up cfg (clk e 0) (su a) r
      = (True, r')"
    using allowed by (metis prod.collapse)
  ultimately show ?thesis
    using dead work on by (simp add: lease_next_def Let_def require_enabled_def)
qed

section \<open>Taking leases back\<close>

text \<open>
  An uncontended \<open>reclaim_expired_leases\<close> leaves no run-out lease, returns each such item
  to its agent's callbacks when it has an assigned agent and to the queue otherwise, with its
  due time kept, counts exactly those items, and touches no other row.
\<close>

theorem reclaim_expired_effect:
  assumes "\<And>i. \<not> row_busy e i" and "reclaim_expired_leases e d = (n, d')"
  shows "n = count_where (lease_expired_at (clk e 0)) (work_items d)
    \<and> list_all2 (\<lambda>w w'. if lease_expired_at (clk e 0) w
         then w' = return_to_pre_lease w
           \<and> wi_state w' = (if wi_assigned_agent_id w = None then Queued else Callback_wait)
           \<and> wi_due_at w' = wi_due_at w \<and> wi_lease_owner_id w' = None
         else w' = w) (work_items d) (work_items d')
    \<and> \<not> list_ex (lease_expired_at (clk e 0)) (work_items d')"
proof -
  have d': "d' = d\<lparr>work_items := rows_update (lease_expired_at (clk e 0)) return_to_pre_lease (work_items d)\<rparr>"
    and n: "n = count_where (lease_expired_at (clk e 0)) (work_items d)"
    using assms by (auto simp: reclaim_expired_leases_def Let_def)
  have "\<not> lease_expired_at (clk e 0) (return_to_pre_lease w)" for w
    by (simp add: lease_expired_at_def return_to_pre_lease_def)
  then show ?thesis
    by (auto simp: d' n list_all2_conv_all_nth rows_update_def list_ex_iff)
      (simp_all add: return_to_pre_lease_def)
qed

theorem reclaim_expired_effect_witness:
  "\<exists>n d'. reclaim_expired_leases (sample_env\<lparr>clk := \<lambda>i. 3000\<rparr>) sample_db = (n, d') \<and> n = 1"
proof -
  obtain n d' where run: "reclaim_expired_leases (sample_env\<lparr>clk := \<lambda>i. 3000\<rparr>) sample_db = (n, d')"
    by (cases "reclaim_expired_leases (sample_env\<lparr>clk := \<lambda>i. 3000\<rparr>) sample_db")
  have "count_where (lease_expired_at 3000) (work_items sample_db) = 1"
    by (simp add: count_where_def lease_expired_at_def sample_defs empty_db_def)
  with reclaim_expired_effect [OF _ run] run show ?thesis by (auto simp: sample_env_def)
qed

text \<open>
  When an agent leaves a campaign, an uncontended \<open>release_campaign_work_for_agent\<close> leaves
  them neither a lease nor a callback there: each such item is back in the shared queue, owned
  and assigned to nobody, and every other row is unchanged.
\<close>

theorem release_leaves_nothing_held:
  assumes "\<And>i. \<not> row_busy e i" and "release_campaign_work_for_agent e a k d = (n, d')"
  shows "(\<forall>w \<in> set (work_items d'). \<not> agent_holds_in_campaign d' a k w)
    \<and> n = count_where (agent_holds_in_campaign d a k) (work_items d)
    \<and> list_all2 (\<lambda>w w'. if agent_holds_in_campaign d a k w
         then wi_state w' = Queued \<and> wi_assigned_agent_id w' = None \<and> wi_lease_owner_id w' = None
           \<and> wi_version w' = wi_version w + 1
         else w' = w) (work_items d) (work_items d')"
  using release_uncontended [OF assms]
  by (auto simp: list_all2_conv_all_nth rows_update_def) (simp_all add: return_to_queue_def)

theorem release_leaves_nothing_held_witness:
  "\<exists>n d'. release_campaign_work_for_agent sample_env 8 1 sample_db = (n, d') \<and> n = 1"
proof -
  obtain n d' where run: "release_campaign_work_for_agent sample_env 8 1 sample_db = (n, d')"
    by (cases "release_campaign_work_for_agent sample_env 8 1 sample_db")
  have "count_where (agent_holds_in_campaign sample_db 8 1) (work_items sample_db) = 1"
    by (simp add: count_where_def agent_holds_in_campaign_def get_campaign_contact_def row_get_def
        sample_defs empty_db_def)
  with release_leaves_nothing_held [OF _ run] run show ?thesis by (auto simp: sample_env_def)
qed

section \<open>Review\<close>

text \<open>
  The two reviewer decisions that reopen an item succeed only on an item in review, give a
  reason, and put it in the shared retry pool, assigned to nobody; rescheduling needs a time
  in the future, raising the ceiling leaves the attempt counter strictly below it.
\<close>

theorem review_reopens:
  assumes "reschedule_review_item e i a t reason d = Inr (w', d')
    \<or> increase_review_item_attempts e i a m reason d = Inr (w', d')"
  shows "\<exists>w. get_work_item d i = Some w \<and> wi_state w = Review \<and> strip reason \<noteq> []
    \<and> get_work_item d' i = Some w' \<and> wi_state w' = Retry_wait \<and> wi_assigned_agent_id w' = None
    \<and> wi_attempt_count w' = wi_attempt_count w \<and> wi_version w' = wi_version w + 1
    \<and> ((wi_due_at w' = Some t \<and> clk e 0 < t \<and> wi_max_attempts w' = wi_max_attempts w)
       \<or> (wi_due_at w' = Some (clk e 0) \<and> wi_attempt_count w' < wi_max_attempts w'))"
  using assms
  by (elim disjE)
    (auto simp: reschedule_review_item_def increase_review_item_attempts_def Let_def
      split: if_splits sum.splits dest!: load_review_item_Inr intro!: get_after_put)

theorem review_reopens_witness:
  "\<exists>w' d'. reschedule_review_item sample_env 1 9 5000 ''again''
      (sample_db\<lparr>work_items := [(sample_item 1)\<lparr>wi_state := Review\<rparr>]\<rparr>) = Inr (w', d')
    \<and> wi_state w' = Retry_wait"
proof -
  have "strip ''again'' \<noteq> []" by code_simp
  then obtain w' d' where run: "reschedule_review_item sample_env 1 9 5000 ''again''
      (sample_db\<lparr>work_items := [(sample_item 1)\<lparr>wi_state := Review\<rparr>]\<rparr>) = Inr (w', d')"
    by (auto simp: reschedule_review_item_def load_review_item_def get_work_item_def row_get_def
        sample_defs Let_def)
  from review_reopens [OF disjI1 [OF run]] run show ?thesis by auto
qed

section \<open>Witnesses of the leasing properties\<close>

lemma lease_next_disclosure_witness:
  "\<exists>res d'. fst (lease_next sample_crypto sample_env default_settings (\<lambda>n. True) (\<lambda>i. []) 7
      (\<lambda>k. None) sample_db) = Inr (Some res, d') \<and> disclosable sample_crypto 7 (clk sample_env 0) d' res"
proof -
  obtain res d' where run: "fst (lease_next sample_crypto sample_env default_settings (\<lambda>n. True)
      (\<lambda>i. []) 7 (\<lambda>k. None) sample_db) = Inr (Some res, d')" using sample_lease by blast
  from lease_next_disclosure [OF sample_ids sample_cfg run] run show ?thesis by blast
qed

lemma sample_active_lease:
  "\<exists>res. get_active_lease sample_crypto sample_env 8 sample_db = Inr (Some res)"
  by (simp add: get_active_lease_def lease_eval complete_eval sample_defs)

lemma lease_next_resumes_witness:
  "\<exists>res. lease_next sample_crypto sample_env default_settings (\<lambda>n. False) (\<lambda>i. []) 8 (\<lambda>k. None)
     sample_db = (Inr (Some res, sample_db), \<lambda>k. None)"
  using sample_active_lease lease_next_resumes by blast

lemma sample_no_lease: "get_active_lease_locked sample_crypto sample_db 7 1000 = Inr None"
  by (simp add: lease_eval complete_eval sample_defs)

lemma lease_next_order_witness:
  "\<exists>x d'. fst (lease_next sample_crypto (sample_env\<lparr>clk := \<lambda>n. 1000\<rparr>) default_settings (\<lambda>n. True)
     (\<lambda>i. []) 7 (\<lambda>k. None) sample_db) = Inr (x, d') \<and> (served_first 7 1000 sample_db = None \<longrightarrow> x = None)"
proof -
  let ?e = "sample_env\<lparr>clk := \<lambda>n. 1000\<rparr>"
  obtain x d' where run: "fst (lease_next sample_crypto ?e default_settings (\<lambda>n. True)
     (\<lambda>i. []) 7 (\<lambda>k. None) sample_db) = Inr (x, d')"
    by (auto simp: lease_eval complete_eval sample_defs increment_def increment_script_def
        redis_get_def decide_def work_lease_limit_def)
  have "quiet ?e" by (simp add: quiet_def sample_env_def)
  from lease_next_order [OF this _ sample_ids sample_no_lease run] run show ?thesis by auto
qed

lemma queue_invariant_witness:
  "\<forall>a. one_active_lease empty_db a"
  using queue_invariant [OF reachable.start, of empty_db] by (simp add: work_start_def empty_db_def)


definition stale_db :: db where
  "stale_db = sample_db\<lparr>work_items := [sample_item 1,
     leased_item\<lparr>wi_lease_owner_id := Some 7, wi_lease_expires_at := Some 500\<rparr>]\<rparr>"

lemma stale_inv: "work_inv stale_db"
proof -
  have "one_active_lease stale_db a" for a
    by (simp add: one_active_lease_def count_where_def stale_db_def sample_defs empty_db_def)
  then show ?thesis
    by (simp add: work_inv_def items_inv_def counted_def attempt_keys_def attempts_on_def
        item_ok_def lease_fields_ok_def count_where_def stale_db_def sample_defs empty_db_def)
qed

lemma unreclaimed_lease_blocks_witness:
  "fst (lease_next sample_crypto sample_env default_settings (\<lambda>n. True) (\<lambda>i. []) 7 (\<lambda>k. None) stale_db)
    = Inl (Integrity_error ''uq_work_items_one_active_lease'')"
proof -
  have work: "\<exists>ch. choose_work sample_env 7 (clk sample_env 0) stale_db = Inr (Some ch, stale_db)"
    by (simp add: lease_eval complete_eval stale_db_def sample_defs)
  then obtain ch where ch: "choose_work sample_env 7 (clk sample_env 0) stale_db = Inr (Some ch, stale_db)" ..
  show ?thesis
  proof (rule unreclaimed_lease_blocks [OF stale_inv _ _ _ ch])
    show "leased_item\<lparr>wi_lease_owner_id := Some 7, wi_lease_expires_at := Some 500\<rparr>
        \<in> set (work_items stale_db)" by (simp add: stale_db_def)
    show "leased_to 7 (leased_item\<lparr>wi_lease_owner_id := Some 7, wi_lease_expires_at := Some 500\<rparr>)"
      by (simp add: leased_to_def leased_item_def)
    show "get_active_lease_locked sample_crypto stale_db 7 (clk sample_env 0) = Inr None"
      by (simp add: lease_eval complete_eval stale_db_def sample_defs)
  qed (simp_all add: complete_eval stale_db_def sample_defs check_and_increment_work_lease_def
      increment_def increment_script_def redis_get_def decide_def work_lease_limit_def)
qed

end
