(* ===== verification/Sessions.thy ===== *)
theory Sessions
  imports Runtime
begin

text \<open>
  Server-side sessions (\<open>app/auth/sessions.py\<close>) and the request dependencies built on them
  (\<open>app/auth/dependencies.py\<close>): loading with a sliding idle window inside an absolute one,
  revocation, rotation, the authenticated-user, CSRF and recent-reauthentication gates.
\<close>

section \<open>The session table\<close>

definition get_session_row :: "db \<Rightarrow> uuid \<Rightarrow> session option" where
  "get_session_row d i = row_get ss_id i (sessions d)"

definition put_session_row :: "session \<Rightarrow> db \<Rightarrow> db" where
  "put_session_row s d = d\<lparr>sessions := row_put ss_id s (sessions d)\<rparr>"

interpretation session_table: row_table get_session_row put_session_row ss_id
  by unfold_locales
    (auto simp: get_session_row_def put_session_row_def row_get_put dest: row_get_Some)

definition mfa_enrollment_required :: string where
  "mfa_enrollment_required = ''enrollment_required''"

definition mfa_satisfied :: string where "mfa_satisfied = ''satisfied''"

definition create_session ::
  "crypto \<Rightarrow> env \<Rightarrow> settings \<Rightarrow> time \<Rightarrow> uuid \<Rightarrow> string option \<Rightarrow> string \<Rightarrow> bool \<Rightarrow> db
   \<Rightarrow> (session \<times> string) \<times> db" where
  "create_session c e cfg now user_id source_summary mfa_state recently_reauthenticated d =
     (let token = fresh_token e 0;
          row = \<lparr>ss_id = fresh_id e 0, ss_user_id = user_id, ss_token_hash = hash_token c token,
            ss_last_seen_at = Some now,
            ss_idle_expires_at = now + minutes (session_idle_minutes cfg),
            ss_absolute_expires_at = now + hours (session_absolute_hours cfg),
            ss_revoked_at = None, ss_source_summary = source_summary, ss_mfa_state = mfa_state,
            ss_reauthenticated_at = (if recently_reauthenticated then Some now else None)\<rparr>
      in ((row, token), d\<lparr>sessions := sessions d @ [row]\<rparr>))"

definition session_by_token :: "crypto \<Rightarrow> db \<Rightarrow> string \<Rightarrow> session option" where
  "session_by_token c d token = find (\<lambda>s. ss_token_hash s = hash_token c token) (sessions d)"

text \<open>The row with its idle window slid forward.\<close>

definition slide :: "settings \<Rightarrow> time \<Rightarrow> session \<Rightarrow> session" where
  "slide cfg now row =
     row\<lparr>ss_last_seen_at := Some now,
         ss_idle_expires_at := min (now + minutes (session_idle_minutes cfg))
                                   (ss_absolute_expires_at row)\<rparr>"

definition load_session ::
  "crypto \<Rightarrow> settings \<Rightarrow> time \<Rightarrow> string option \<Rightarrow> db \<Rightarrow> session option \<times> db" where
  "load_session c cfg now token d =
     (case token of
        None \<Rightarrow> (None, d)
      | Some t \<Rightarrow>
          (if t = '''' then (None, d)
           else
             case session_by_token c d t of
               None \<Rightarrow> (None, d)
             | Some row \<Rightarrow>
                 (if ss_revoked_at row \<noteq> None then (None, d)
                  else if ss_idle_expires_at row \<le> now \<or> ss_absolute_expires_at row \<le> now
                  then (None, d)
                  else (Some (slide cfg now row), put_session_row (slide cfg now row) d))))"

definition revoke_session :: "time \<Rightarrow> session \<Rightarrow> db \<Rightarrow> db" where
  "revoke_session now row d =
     (if ss_revoked_at row = None then put_session_row (row\<lparr>ss_revoked_at := Some now\<rparr>) d else d)"

definition revoke_all_for_user :: "time \<Rightarrow> uuid \<Rightarrow> db \<Rightarrow> db" where
  "revoke_all_for_user now user_id d =
     d\<lparr>sessions := rows_update (\<lambda>s. ss_user_id s = user_id \<and> ss_revoked_at s = None)
         (\<lambda>s. s\<lparr>ss_revoked_at := Some now\<rparr>) (sessions d)\<rparr>"

definition rotate_session ::
  "crypto \<Rightarrow> env \<Rightarrow> settings \<Rightarrow> session \<Rightarrow> string option \<Rightarrow> db \<Rightarrow> (session \<times> string) \<times> db" where
  "rotate_session c e cfg row mfa_state d =
     create_session c e cfg (clk e 1) (ss_user_id row) (ss_source_summary row)
       (case mfa_state of None \<Rightarrow> ss_mfa_state row
        | Some m \<Rightarrow> if m = '''' then ss_mfa_state row else m)
       True (revoke_session (clk e 0) row d)"

section \<open>Request gates\<close>

datatype gate_error =
  Not_authenticated | Account_unavailable | Mfa_enrollment_required | Cross_site_request
| Invalid_csrf_token | Reauthentication_required

definition get_current_session ::
  "crypto \<Rightarrow> settings \<Rightarrow> time \<Rightarrow> string option \<Rightarrow> db \<Rightarrow> (gate_error, session, db) outcome" where
  "get_current_session c cfg now cookie d =
     (case load_session c cfg now cookie d of
        (None, _) \<Rightarrow> Inl Not_authenticated
      | (Some row, d') \<Rightarrow> Inr (row, d'))"

definition get_authenticated_user :: "db \<Rightarrow> session \<Rightarrow> gate_error + user" where
  "get_authenticated_user d row =
     (case get_user d (ss_user_id row) of
        None \<Rightarrow> Inl Account_unavailable
      | Some u \<Rightarrow> if us_active u then Inr u else Inl Account_unavailable)"

definition get_current_user :: "user \<Rightarrow> session \<Rightarrow> gate_error + user" where
  "get_current_user u row =
     (if \<not> us_totp_enrolled u \<or> ss_mfa_state row \<noteq> mfa_satisfied
      then Inl Mfa_enrollment_required else Inr u)"

definition require_csrf ::
  "crypto \<Rightarrow> (uuid \<Rightarrow> string) \<Rightarrow> string option \<Rightarrow> string option \<Rightarrow> session \<Rightarrow> gate_error option" where
  "require_csrf c str_uuid fetch_site token row =
     (if (case fetch_site of None \<Rightarrow> False
          | Some s \<Rightarrow> s \<notin> {''same-origin'', ''same-site'', ''none''})
      then Some Cross_site_request
      else if \<not> csrf_validate c token (str_uuid (ss_id row)) then Some Invalid_csrf_token
      else None)"

definition is_recently_reauthenticated :: "settings \<Rightarrow> time \<Rightarrow> session \<Rightarrow> bool" where
  "is_recently_reauthenticated cfg now row =
     (case ss_reauthenticated_at row of
        None \<Rightarrow> False | Some t \<Rightarrow> now - minutes (step_up_minutes cfg) \<le> t)"

definition require_recent_reauthentication :: "settings \<Rightarrow> time \<Rightarrow> session \<Rightarrow> gate_error option" where
  "require_recent_reauthentication cfg now row =
     (if is_recently_reauthenticated cfg now row then None else Some Reauthentication_required)"

section \<open>Properties\<close>

lemma revoke_all_sel [simp]:
  "work_items (revoke_all_for_user t u d) = work_items d"
  "call_attempts (revoke_all_for_user t u d) = call_attempts d"
  "users (revoke_all_for_user t u d) = users d"
  "teams (revoke_all_for_user t u d) = teams d"
  "role_assignments (revoke_all_for_user t u d) = role_assignments d"
  "delegations (revoke_all_for_user t u d) = delegations d"
  "activation_tokens (revoke_all_for_user t u d) = activation_tokens d"
  "campaigns (revoke_all_for_user t u d) = campaigns d"
  "team_assignments (revoke_all_for_user t u d) = team_assignments d"
  "user_assignments (revoke_all_for_user t u d) = user_assignments d"
  "audit_events (revoke_all_for_user t u d) = audit_events d"
  by (simp_all add: revoke_all_for_user_def)

lemma revoke_all_live:
  assumes "s \<in> set (sessions (revoke_all_for_user t u d))" and "ss_revoked_at s = None"
  shows "ss_user_id s \<noteq> u"
proof -
  have "s \<in> set (rows_update (\<lambda>s. ss_user_id s = u \<and> ss_revoked_at s = None)
      (\<lambda>s. s\<lparr>ss_revoked_at := Some t\<rparr>) (sessions d))"
    using assms(1) by (simp add: revoke_all_for_user_def)
  then have "\<not> (ss_user_id s = u \<and> ss_revoked_at s = None)"
    by (rule rows_update_none_left) simp
  with assms(2) show ?thesis by simp
qed

lemma load_session_Some:
  assumes "load_session c cfg now token d = (Some row, d')"
  obtains t row0 where "token = Some t" and "session_by_token c d t = Some row0"
    and "ss_revoked_at row0 = None" and "now < ss_idle_expires_at row0"
    and "now < ss_absolute_expires_at row0" and "row = slide cfg now row0"
    and "d' = put_session_row row d"
  using assms by (auto simp: load_session_def split: option.splits if_splits)

text \<open>
  A token only loads a session that was not revoked and is inside both of its windows; the
  load moves the idle deadline but never past the absolute one, which no load moves; once all
  of a user's sessions are revoked, no token ever loads one of them again.
\<close>

theorem session_load_bounds:
  assumes "load_session c cfg now token d = (Some row, d')"
  shows "(\<exists>row0 \<in> set (sessions d). ss_id row = ss_id row0 \<and> ss_user_id row = ss_user_id row0
       \<and> ss_revoked_at row0 = None \<and> now < ss_idle_expires_at row0
       \<and> ss_absolute_expires_at row = ss_absolute_expires_at row0)
     \<and> now < ss_absolute_expires_at row
     \<and> ss_idle_expires_at row \<le> ss_absolute_expires_at row
     \<and> (\<forall>t u d0. d = revoke_all_for_user t u d0 \<longrightarrow> ss_user_id row \<noteq> u)"
  using assms
proof (rule load_session_Some)
  fix t row0
  assume by_token: "session_by_token c d t = Some row0" and live: "ss_revoked_at row0 = None"
    and rest: "now < ss_idle_expires_at row0" "now < ss_absolute_expires_at row0"
      "row = slide cfg now row0"
  have "row0 \<in> set (sessions d)"
    using by_token by (auto simp: session_by_token_def find_Some_iff)
  then show ?thesis
    using rest live revoke_all_live [of row0] by (auto simp: slide_def)
qed

definition sample_session :: session where
  "sample_session = \<lparr>ss_id = 1, ss_user_id = 7, ss_token_hash = ''t'', ss_last_seen_at = None,
     ss_idle_expires_at = 100, ss_absolute_expires_at = 200, ss_revoked_at = None,
     ss_source_summary = None, ss_mfa_state = ''satisfied'', ss_reauthenticated_at = None\<rparr>"

theorem session_load_bounds_witness:
  "\<exists>row d'. load_session rot_crypto default_settings 50 (Some ''t'')
     (empty_db\<lparr>sessions := [sample_session]\<rparr>) = (Some row, d') \<and> ss_idle_expires_at row \<le> 200"
proof -
  obtain row d' where run: "load_session rot_crypto default_settings 50 (Some ''t'')
      (empty_db\<lparr>sessions := [sample_session]\<rparr>) = (Some row, d')"
    by (simp add: load_session_def session_by_token_def hash_token_def rot_crypto_def
        sample_session_def)
  have "ss_absolute_expires_at sample_session = 200" by (simp add: sample_session_def)
  with session_load_bounds [OF run] run show ?thesis by (auto simp: empty_db_def)
qed

end
