(* ===== verification/Authz.thy ===== *)
theory Authz
  imports Sessions
begin

text \<open>
  Authorization (\<open>app/authz/capabilities.py\<close>, \<open>app/authz/service.py\<close>): the role-to-capability
  table, effective-dated roles, delegations checked at read time, the scope decision and its
  single and bulk forms, the campaign filter. The successive \<open>utcnow()\<close> readings inside one
  check are taken as one instant \<open>now\<close>.
\<close>

section \<open>Capabilities\<close>

definition role_capabilities :: "(string \<times> string list) list" where
  "role_capabilities =
     [(''super_admin'', [''technical_config'', ''reset_user_auth'', ''view_audit'',
         ''create_manager'', ''manage_roles'']),
      (''manager'', [''appoint_team_leader'', ''appoint_team_captain'', ''create_agent'',
         ''manage_roles'', ''create_campaign'', ''view_campaign'', ''manage_campaign'',
         ''pause_campaign'', ''launch_campaign'', ''archive_campaign'',
         ''assign_campaign_agent'', ''view_campaign_reports'', ''export_completed_campaign'',
         ''view_audit'']),
      (''team_leader'', [''appoint_team_captain'', ''create_agent'', ''create_campaign'',
         ''view_campaign'', ''manage_campaign'', ''pause_campaign'', ''assign_campaign_agent'',
         ''view_campaign_reports'', ''export_completed_campaign'', ''view_audit'']),
      (''team_captain'', [''create_agent'', ''view_campaign'', ''assign_campaign_agent'',
         ''view_campaign_reports'', ''export_completed_campaign'', ''view_audit'']),
      (''agent'', [''work_queue'']),
      (''viewer'', [''view_campaign'', ''view_campaign_reports''])]"

text \<open>\<open>ROLE_CAPABILITIES.get(role, set())\<close>\<close>

definition role_grants :: "string \<Rightarrow> string list" where
  "role_grants role = (case map_of role_capabilities role of None \<Rightarrow> [] | Some cs \<Rightarrow> cs)"

section \<open>Grants\<close>

text \<open>What a role assignment and a delegation have in common: the scope they grant at.\<close>

record scoped_grant =
  sg_scope_type :: string
  sg_scope_id :: "uuid option"

definition role_grant :: "role_assignment \<Rightarrow> scoped_grant" where
  "role_grant ra = \<lparr>sg_scope_type = ra_scope_type ra, sg_scope_id = ra_scope_id ra\<rparr>"

definition delegation_grant :: "delegation \<Rightarrow> scoped_grant" where
  "delegation_grant dg = \<lparr>sg_scope_type = dg_scope_type dg, sg_scope_id = dg_scope_id dg\<rparr>"

definition role_effective :: "time \<Rightarrow> role_assignment \<Rightarrow> bool" where
  "role_effective now ra \<longleftrightarrow>
     ra_status ra = Row_active \<and> effective_at (ra_effective_from ra) (ra_effective_to ra) now"

definition effective_role_assignments :: "db \<Rightarrow> uuid \<Rightarrow> time \<Rightarrow> role_assignment list" where
  "effective_role_assignments d user_id now =
     filter (\<lambda>ra. ra_user_id ra = user_id \<and> role_effective now ra) (role_assignments d)"

definition effective_roles :: "db \<Rightarrow> uuid \<Rightarrow> time \<Rightarrow> string set" where
  "effective_roles d user_id now = set (map ra_role_code (effective_role_assignments d user_id now))"

definition capabilities_for :: "string set \<Rightarrow> string set" where
  "capabilities_for roles = (\<Union>role \<in> roles. set (role_grants role))"

definition delegation_active :: "time \<Rightarrow> delegation \<Rightarrow> bool" where
  "delegation_active now dg \<longleftrightarrow>
     dg_revoked_at dg = None \<and> effective_at (dg_effective_from dg) (dg_effective_to dg) now"

definition active_delegations :: "db \<Rightarrow> uuid \<Rightarrow> time \<Rightarrow> delegation list" where
  "active_delegations d user_id now =
     filter (\<lambda>dg. dg_delegate_user_id dg = user_id \<and> delegation_active now dg) (delegations d)"

definition role_capability_grants :: "db \<Rightarrow> uuid \<Rightarrow> string \<Rightarrow> time \<Rightarrow> scoped_grant list" where
  "role_capability_grants d user_id capability now =
     map role_grant (filter (\<lambda>ra. capability \<in> set (role_grants (ra_role_code ra)))
       (effective_role_assignments d user_id now))"

section \<open>The scope decision\<close>

definition scope_covers :: "scoped_grant \<Rightarrow> string option \<Rightarrow> uuid option \<Rightarrow> bool" where
  "scope_covers g scope_type scope_id =
     (if sg_scope_type g = ''installation'' then True
      else case scope_type of
        None \<Rightarrow> sg_scope_type g = ''organization''
      | Some st \<Rightarrow>
          (if sg_scope_type g = ''organization''
           then sg_scope_id g = None \<or> (st = ''organization'' \<and> sg_scope_id g = scope_id)
           else sg_scope_type g = st \<and> sg_scope_id g = scope_id))"

definition scope_covered_by_assignment ::
  "scoped_grant \<Rightarrow> string \<Rightarrow> uuid option \<Rightarrow> (uuid \<rightharpoonup> uuid) \<Rightarrow> bool" where
  "scope_covered_by_assignment g scope_type scope_id team_organization_ids =
     (if sg_scope_type g = ''installation'' then True
      else if sg_scope_type g = ''organization'' then
        (case sg_scope_id g of
           None \<Rightarrow> True
         | Some org \<Rightarrow>
             (if scope_type = ''organization'' then scope_id = Some org
              else case scope_id of
                None \<Rightarrow> False
              | Some t \<Rightarrow> scope_type = ''team'' \<and> team_organization_ids t = Some org))
      else sg_scope_type g = scope_type \<and> sg_scope_id g = scope_id)"

definition active_team_organization :: "db \<Rightarrow> uuid \<Rightarrow> uuid option" where
  "active_team_organization d team_id =
     map_option te_organization_id
       (find (\<lambda>t. te_id t = team_id \<and> te_status t = ''active'') (teams d))"

definition scope_assignment_covers_target ::
  "db \<Rightarrow> scoped_grant \<Rightarrow> string \<Rightarrow> uuid option \<Rightarrow> bool" where
  "scope_assignment_covers_target d g scope_type scope_id =
     scope_covered_by_assignment g scope_type scope_id
       (if sg_scope_type g = ''organization'' \<and> sg_scope_id g \<noteq> None \<and> scope_type = ''team'' then
          (case scope_id of
             None \<Rightarrow> Map.empty
           | Some t \<Rightarrow> (case active_team_organization d t of
                          None \<Rightarrow> Map.empty | Some org \<Rightarrow> [t \<mapsto> org]))
        else Map.empty)"

definition has_scope_capability_via_role ::
  "db \<Rightarrow> uuid \<Rightarrow> string \<Rightarrow> string \<Rightarrow> uuid option \<Rightarrow> time \<Rightarrow> bool" where
  "has_scope_capability_via_role d user_id capability scope_type scope_id now =
     list_ex (\<lambda>g. scope_assignment_covers_target d g scope_type scope_id)
       (role_capability_grants d user_id capability now)"

definition delegation_still_backed :: "db \<Rightarrow> delegation \<Rightarrow> string \<Rightarrow> time \<Rightarrow> bool" where
  "delegation_still_backed d dg capability now =
     has_scope_capability_via_role d (dg_delegator_user_id dg) capability
       (dg_scope_type dg) (dg_scope_id dg) now"

definition capability_grants :: "db \<Rightarrow> uuid \<Rightarrow> string \<Rightarrow> time \<Rightarrow> scoped_grant list" where
  "capability_grants d user_id capability now =
     role_capability_grants d user_id capability now @
     map delegation_grant
       (filter (\<lambda>dg. capability \<in> set (dg_capability_set dg)
                  \<and> delegation_still_backed d dg capability now)
         (active_delegations d user_id now))"

section \<open>The checks\<close>

definition has_capability ::
  "db \<Rightarrow> uuid \<Rightarrow> string \<Rightarrow> string option \<Rightarrow> uuid option \<Rightarrow> time \<Rightarrow> bool" where
  "has_capability d user_id capability scope_type scope_id now =
     list_ex (\<lambda>g. scope_covers g scope_type scope_id) (capability_grants d user_id capability now)"

definition has_assigned_capability :: "db \<Rightarrow> uuid \<Rightarrow> string \<Rightarrow> time \<Rightarrow> bool" where
  "has_assigned_capability d user_id capability now =
     (capability_grants d user_id capability now \<noteq> [])"

definition users_with_any_capability :: "db \<Rightarrow> string set \<Rightarrow> time \<Rightarrow> uuid set" where
  "users_with_any_capability d wanted now =
     (let role_codes = set (map fst (filter (\<lambda>(role, granted). set granted \<inter> wanted \<noteq> {})
                              role_capabilities))
      in set (map ra_user_id (filter (\<lambda>ra. ra_role_code ra \<in> role_codes \<and> role_effective now ra)
                (role_assignments d)))
         \<union> set (map dg_delegate_user_id
             (filter (\<lambda>dg. delegation_active now dg
                 \<and> list_ex (\<lambda>c. c \<in> wanted \<and> delegation_still_backed d dg c now)
                     (dg_capability_set dg))
               (delegations d))))"

definition has_scope_capability ::
  "db \<Rightarrow> uuid \<Rightarrow> string \<Rightarrow> string \<Rightarrow> uuid option \<Rightarrow> time \<Rightarrow> bool" where
  "has_scope_capability d user_id capability scope_type scope_id now =
     list_ex (\<lambda>g. scope_assignment_covers_target d g scope_type scope_id)
       (capability_grants d user_id capability now)"

section \<open>Bulk scope checks\<close>

text \<open>\<open>itertools.batched\<close>\<close>

fun batched :: "nat \<Rightarrow> 'a list \<Rightarrow> 'a list list" where
  "batched n [] = []"
| "batched n (x # xs) = (x # take (n - 1) xs) # batched n (drop (n - 1) xs)"

definition bulk_chunk_size :: nat where "bulk_chunk_size = 1000"

definition team_rows :: "db \<Rightarrow> uuid list \<Rightarrow> (uuid \<times> uuid) list" where
  "team_rows d chunk = map (\<lambda>t. (te_id t, te_organization_id t))
     (filter (\<lambda>t. te_id t \<in> set chunk \<and> te_status t = ''active'') (teams d))"

text \<open>The dictionary filled chunk by chunk.\<close>

definition team_ancestry :: "db \<Rightarrow> uuid list \<Rightarrow> (uuid \<rightharpoonup> uuid)" where
  "team_ancestry d team_ids =
     fold (\<lambda>chunk m. fold (\<lambda>(t, org) m. m(t \<mapsto> org)) (team_rows d chunk) m)
       (batched bulk_chunk_size team_ids) Map.empty"

definition requested_teams :: "(string \<times> uuid option) list \<Rightarrow> uuid list" where
  "requested_teams requests =
     remdups (List.map_filter (\<lambda>(st, si). if st = ''team'' then si else None) requests)"

definition scope_capabilities_matched ::
  "db \<Rightarrow> uuid \<Rightarrow> string \<Rightarrow> (string \<times> uuid option) list \<Rightarrow> time \<Rightarrow> (string \<times> uuid option) set" where
  "scope_capabilities_matched d user_id capability requests now =
     (let grants = capability_grants d user_id capability now in
      if requests = [] \<or> grants = [] then {}
      else
        let needs = list_ex (\<lambda>g. sg_scope_type g = ''organization'' \<and> sg_scope_id g \<noteq> None) grants;
            ancestry = (if needs then team_ancestry d (requested_teams requests) else Map.empty)
        in set (filter (\<lambda>(st, si). list_ex (\<lambda>g. scope_covered_by_assignment g st si ancestry) grants)
                  requests))"

section \<open>Campaigns\<close>

definition team_on_campaign :: "db \<Rightarrow> time \<Rightarrow> uuid \<Rightarrow> uuid \<Rightarrow> bool" where
  "team_on_campaign d now campaign_id team_id =
     list_ex (\<lambda>ta. ta_campaign_id ta = campaign_id \<and> ta_status ta = Row_active
         \<and> effective_at (ta_effective_from ta) (ta_effective_to ta) now \<and> ta_team_id ta = team_id)
       (team_assignments d)"

definition grant_ids :: "string \<Rightarrow> scoped_grant list \<Rightarrow> uuid list" where
  "grant_ids scope_type grants =
     List.map_filter (\<lambda>g. if sg_scope_type g = scope_type then sg_scope_id g else None) grants"

definition organization_team_ids :: "db \<Rightarrow> uuid list \<Rightarrow> uuid list" where
  "organization_team_ids d organization_ids =
     map te_id (filter (\<lambda>t. te_organization_id t \<in> set organization_ids \<and> te_status t = ''active'')
       (teams d))"

definition campaign_scope_filter :: "db \<Rightarrow> uuid \<Rightarrow> string \<Rightarrow> time \<Rightarrow> campaign \<Rightarrow> bool" where
  "campaign_scope_filter d user_id capability now ca =
     (let grants = capability_grants d user_id capability now in
      if grants = [] then False
      else if list_ex (\<lambda>g. sg_scope_type g = ''installation''
                 \<or> (sg_scope_type g = ''organization'' \<and> sg_scope_id g = None)) grants
      then True
      else
        let campaign_ids = grant_ids ''campaign'' grants;
            team_ids = grant_ids ''team'' grants;
            organization_ids = grant_ids ''organization'' grants;
            owner_in = (\<lambda>st ids. ca_owning_scope_type ca = st
              \<and> (case ca_owning_scope_id ca of None \<Rightarrow> False | Some i \<Rightarrow> i \<in> set ids));
            org_teams = organization_team_ids d organization_ids
        in (campaign_ids \<noteq> [] \<and> ca_id ca \<in> set campaign_ids)
           \<or> (team_ids \<noteq> [] \<and> (owner_in ''team'' team_ids
                \<or> list_ex (team_on_campaign d now (ca_id ca)) team_ids))
           \<or> (organization_ids \<noteq> [] \<and> (owner_in ''organization'' organization_ids
                \<or> owner_in ''team'' org_teams
                \<or> list_ex (team_on_campaign d now (ca_id ca)) org_teams)))"

definition has_campaign_capability :: "db \<Rightarrow> uuid \<Rightarrow> string \<Rightarrow> uuid \<Rightarrow> time \<Rightarrow> bool" where
  "has_campaign_capability d user_id capability campaign_id now =
     list_ex (\<lambda>ca. ca_id ca = campaign_id \<and> campaign_scope_filter d user_id capability now ca)
       (campaigns d)"

definition campaign_ids_with_capability ::
  "db \<Rightarrow> uuid \<Rightarrow> string \<Rightarrow> uuid list \<Rightarrow> time \<Rightarrow> uuid set" where
  "campaign_ids_with_capability d user_id capability campaign_ids now =
     fold (\<lambda>chunk matched. matched \<union> set (map ca_id (filter (\<lambda>ca. ca_id ca \<in> set chunk
              \<and> campaign_scope_filter d user_id capability now ca) (campaigns d))))
       (batched bulk_chunk_size (remdups campaign_ids)) {}"

section \<open>Guards and session invalidation\<close>

datatype authz_error = Self_approval

definition assert_not_self :: "uuid \<Rightarrow> uuid \<Rightarrow> authz_error option" where
  "assert_not_self requester_id subject_id =
     (if requester_id = subject_id then Some Self_approval else None)"

definition invalidate_sessions_on_privilege_change :: "time \<Rightarrow> uuid \<Rightarrow> db \<Rightarrow> db" where
  "invalidate_sessions_on_privilege_change now user_id d = revoke_all_for_user now user_id d"

definition invalidate_delegate_sessions_for_delegator :: "time \<Rightarrow> uuid \<Rightarrow> db \<Rightarrow> db" where
  "invalidate_delegate_sessions_for_delegator now delegator_id d =
     fold (revoke_all_for_user now)
       (remdups (map dg_delegate_user_id
         (filter (\<lambda>dg. dg_delegator_user_id dg = delegator_id \<and> delegation_active now dg)
           (delegations d)))) d"

end
