(* ===== verification/Authz_Properties.thy ===== *)
theory Authz_Properties
  imports Authz
begin

text \<open>
  Properties of authorization: the laws every scope decision obeys, that a delegated capability
  never exceeds what its delegator owns through a role, that the bulk checks agree with the
  single ones, and what the campaign filter admits.
\<close>

section \<open>Scope decisions\<close>

text \<open>
  What the checks need of a decision procedure for "this grant covers that target": an
  installation grant covers everything, and a grant that is neither installation- nor
  organization-wide covers its own scope and nothing else.
\<close>

locale scope_decision =
  fixes covers :: "scoped_grant \<Rightarrow> string \<Rightarrow> uuid option \<Rightarrow> bool"
  assumes installation_covers: "sg_scope_type g = ''installation'' \<Longrightarrow> covers g st si"
    and narrow_exact: "sg_scope_type g \<notin> {''installation'', ''organization''}
      \<Longrightarrow> covers g st si \<longleftrightarrow> sg_scope_type g = st \<and> sg_scope_id g = si"
begin

definition allowed :: "scoped_grant list \<Rightarrow> string \<Rightarrow> uuid option \<Rightarrow> bool" where
  "allowed gs st si = list_ex (\<lambda>g. covers g st si) gs"

lemma allowed_iff: "allowed gs st si \<longleftrightarrow> (\<exists>g \<in> set gs. covers g st si)"
  by (simp add: allowed_def list_ex_iff)

lemma default_deny: "\<not> allowed [] st si"
  by (simp add: allowed_iff)

lemma allowed_mono: "\<lbrakk>set gs \<subseteq> set hs; allowed gs st si\<rbrakk> \<Longrightarrow> allowed hs st si"
  by (auto simp: allowed_iff)

lemma allowed_append: "allowed (gs @ hs) st si \<longleftrightarrow> allowed gs st si \<or> allowed hs st si"
  by (auto simp: allowed_iff)

lemma only_narrow:
  assumes "\<forall>g \<in> set gs. sg_scope_type g \<notin> {''installation'', ''organization''}"
  shows "allowed gs st si \<longleftrightarrow> \<lparr>sg_scope_type = st, sg_scope_id = si\<rparr> \<in> set gs"
proof -
  have "covers g st si \<longleftrightarrow> g = \<lparr>sg_scope_type = st, sg_scope_id = si\<rparr>" if "g \<in> set gs" for g
    using narrow_exact [of g st si] assms that by (cases g) auto
  then show ?thesis by (auto simp: allowed_iff)
qed

end

interpretation plain_scope: scope_decision "\<lambda>g st si. scope_covers g (Some st) si"
  by unfold_locales (auto simp: scope_covers_def)

lemma covers_target_cases:
  "scope_assignment_covers_target d g st si \<longleftrightarrow>
     sg_scope_type g = ''installation''
     \<or> (sg_scope_type g = ''organization''
        \<and> (sg_scope_id g = None
           \<or> (st = ''organization'' \<and> sg_scope_id g = si \<and> si \<noteq> None)
           \<or> (st = ''team'' \<and> (\<exists>t org. si = Some t \<and> sg_scope_id g = Some org
                 \<and> active_team_organization d t = Some org))))
     \<or> (sg_scope_type g \<notin> {''installation'', ''organization''}
        \<and> sg_scope_type g = st \<and> sg_scope_id g = si)"
  by (auto simp: scope_assignment_covers_target_def scope_covered_by_assignment_def
      split: option.splits)

interpretation tree_scope: scope_decision "scope_assignment_covers_target d" for d
  by unfold_locales (auto simp: covers_target_cases)

lemma has_scope_capability_allowed:
  "has_scope_capability d u c st si now = tree_scope.allowed d (capability_grants d u c now) st si"
  "has_scope_capability_via_role d u c st si now =
     tree_scope.allowed d (role_capability_grants d u c now) st si"
  by (simp_all add: has_scope_capability_def has_scope_capability_via_role_def
      tree_scope.allowed_def)

lemma has_capability_allowed:
  "has_capability d u c (Some st) si now = plain_scope.allowed (capability_grants d u c now) st si"
  by (simp add: has_capability_def plain_scope.allowed_def)

text \<open>Coverage composes: whoever covers a grant's own scope covers whatever that grant covers.\<close>

lemma covers_trans:
  assumes "scope_assignment_covers_target d g (sg_scope_type h) (sg_scope_id h)"
    and "scope_assignment_covers_target d h st si"
  shows "scope_assignment_covers_target d g st si"
  using assms by (auto simp: covers_target_cases)

lemma plain_covers_tree:
  "scope_covers g (Some st) si \<Longrightarrow> st = ''organization'' \<longrightarrow> si \<noteq> None
   \<Longrightarrow> scope_assignment_covers_target d g st si"
  by (auto simp: scope_covers_def covers_target_cases split: if_splits)

lemma capability_grants_cases:
  assumes "g \<in> set (capability_grants d u c now)"
  obtains (role) "g \<in> set (role_capability_grants d u c now)"
  | (lent) dg where "dg \<in> set (delegations d)" and "dg_delegate_user_id dg = u"
      and "delegation_active now dg" and "c \<in> set (dg_capability_set dg)"
      and "g = delegation_grant dg"
      and "has_scope_capability_via_role d (dg_delegator_user_id dg) c (dg_scope_type dg)
             (dg_scope_id dg) now"
  using assms
  by (auto simp: capability_grants_def active_delegations_def delegation_still_backed_def)

text \<open>
  C12: default deny and no escalation through delegations. Whoever passes a scope check either
  owns the capability there through a role of their own, or holds an unrevoked delegation in
  its window from somebody who at that very moment owns it there through a role.
\<close>

theorem authority_comes_from_a_role:
  assumes "has_scope_capability d u c st si now"
  shows "has_scope_capability_via_role d u c st si now
    \<or> (\<exists>dg \<in> set (delegations d). dg_delegate_user_id dg = u \<and> delegation_active now dg
         \<and> c \<in> set (dg_capability_set dg)
         \<and> has_scope_capability_via_role d (dg_delegator_user_id dg) c st si now)"
proof -
  from assms obtain g where g: "g \<in> set (capability_grants d u c now)"
    and covers: "scope_assignment_covers_target d g st si"
    by (auto simp: has_scope_capability_def list_ex_iff)
  from g show ?thesis
  proof (cases rule: capability_grants_cases)
    case role
    then show ?thesis using covers by (auto simp: has_scope_capability_via_role_def list_ex_iff)
  next
    case (lent dg)
    from lent(6) obtain h where h: "h \<in> set (role_capability_grants d (dg_delegator_user_id dg) c now)"
      and "scope_assignment_covers_target d h (sg_scope_type g) (sg_scope_id g)"
      by (auto simp: has_scope_capability_via_role_def list_ex_iff lent(5) delegation_grant_def)
    from covers_trans [OF this(2) covers]
    have "has_scope_capability_via_role d (dg_delegator_user_id dg) c st si now"
      using h by (auto simp: has_scope_capability_via_role_def list_ex_iff)
    with lent show ?thesis by blast
  qed
qed

section \<open>Bulk checks\<close>

lemma batched_set: "(\<Union>chunk \<in> set (batched n xs). set chunk) = set xs"
proof (induction n xs rule: batched.induct)
  case (2 n x xs)
  have "set xs = set (take (n - 1) xs) \<union> set (drop (n - 1) xs)"
    by (metis append_take_drop_id set_append)
  with 2 show ?case by auto
qed simp

lemma batched_size: "0 < n \<Longrightarrow> chunk \<in> set (batched n xs) \<Longrightarrow> length chunk \<le> n"
  by (induction n xs rule: batched.induct) auto

lemma fold_union: "fold (\<lambda>x A. A \<union> f x) xs B = B \<union> (\<Union>x \<in> set xs. f x)"
  by (induction xs arbitrary: B) auto

lemma fold_update_lookup:
  assumes "\<forall>(k, v) \<in> set kvs. k = t \<longrightarrow> v = w"
  shows "fold (\<lambda>(k, v) m. m(k \<mapsto> v)) kvs m t = (if t \<in> fst ` set kvs then Some w else m t)"
  using assms by (induction kvs arbitrary: m) (auto split: if_splits)

lemma fold_fold_concat: "fold (\<lambda>x m. fold f (g x) m) xs m = fold f (concat (map g xs)) m"
  by (induction xs arbitrary: m) auto

lemma active_team_Some:
  "active_team_organization d t = Some org
   \<Longrightarrow> \<exists>te \<in> set (teams d). te_id te = t \<and> te_status te = ''active'' \<and> te_organization_id te = org"
  by (auto simp: active_team_organization_def find_Some_iff)

lemma active_team_None:
  "active_team_organization d t = None
   \<longleftrightarrow> (\<forall>te \<in> set (teams d). te_id te = t \<longrightarrow> te_status te \<noteq> ''active'')"
  by (auto simp: active_team_organization_def find_None_iff)

lemma fold_update_other:
  "t \<notin> fst ` set kvs \<Longrightarrow> fold (\<lambda>(k, v) m. m(k \<mapsto> v)) kvs m t = m t"
  by (induction kvs arbitrary: m) auto

lemma team_rows_mem:
  "(t, org) \<in> set (concat (map (team_rows d) (batched n ids))) \<longleftrightarrow>
     t \<in> set ids \<and> (\<exists>te \<in> set (teams d). te_id te = t \<and> te_status te = ''active''
        \<and> te_organization_id te = org)"
proof -
  have "(t, org) \<in> set (concat (map (team_rows d) (batched n ids))) \<longleftrightarrow>
      (\<exists>chunk \<in> set (batched n ids). t \<in> set chunk)
      \<and> (\<exists>te \<in> set (teams d). te_id te = t \<and> te_status te = ''active''
        \<and> te_organization_id te = org)"
    by (auto simp: team_rows_def)
  then show ?thesis using batched_set [of n ids] by blast
qed

lemma team_ancestry_lookup:
  assumes dist: "distinct (map te_id (teams d))"
  shows "team_ancestry d ids t = (if t \<in> set ids then active_team_organization d t else None)"
proof -
  let ?rows = "concat (map (team_rows d) (batched bulk_chunk_size ids))"
  have anc: "team_ancestry d ids = fold (\<lambda>(t, org) m. m(t \<mapsto> org)) ?rows Map.empty"
    by (simp add: team_ancestry_def fold_fold_concat)
  show ?thesis
  proof (cases "t \<in> set ids \<and> active_team_organization d t \<noteq> None")
    case False
    then have "(t, org) \<notin> set ?rows" for org
      unfolding team_rows_mem by (auto simp: active_team_None)
    then have "t \<notin> fst ` set ?rows" by force
    then have "team_ancestry d ids t = None" unfolding anc by (rule fold_update_other)
    with False show ?thesis by auto
  next
    case True
    then obtain org where org: "active_team_organization d t = Some org" by blast
    from active_team_Some [OF org] obtain te where te: "te \<in> set (teams d)" "te_id te = t"
      "te_status te = ''active''" "te_organization_id te = org" by blast
    have only: "te' = te" if "te' \<in> set (teams d)" "te_id te' = t" for te'
      using dist that te by (metis distinct_map inj_onD)
    have "v = org" if "(t, v) \<in> set ?rows" for v
      using that only te(4) unfolding team_rows_mem by blast
    then have all: "\<forall>(k, v) \<in> set ?rows. k = t \<longrightarrow> v = org" by blast
    have "(t, org) \<in> set ?rows" unfolding team_rows_mem using te True by blast
    then have "t \<in> fst ` set ?rows" by (rule rev_image_eqI) simp
    then have "team_ancestry d ids t = Some org"
      unfolding anc using fold_update_lookup [OF all, of Map.empty] by simp
    with True org show ?thesis by simp
  qed
qed

text \<open>
  The bulk scope check, which resolves every team's organization in chunked queries, decides
  each requested pair exactly as the single check does.
\<close>

theorem bulk_scopes_agree:
  assumes dist: "distinct (map te_id (teams d))"
  shows "scope_capabilities_matched d u c requests now =
    {(st, si) \<in> set requests. has_scope_capability d u c st si now}"
proof -
  let ?grants = "capability_grants d u c now"
  let ?needs = "list_ex (\<lambda>g. sg_scope_type g = ''organization'' \<and> sg_scope_id g \<noteq> None) ?grants"
  define anc where "anc = (if ?needs then team_ancestry d (requested_teams requests) else Map.empty)"
  have same: "scope_covered_by_assignment g st si anc = scope_assignment_covers_target d g st si"
    if g: "g \<in> set ?grants" and req: "(st, si) \<in> set requests" for g st si
  proof (cases "sg_scope_type g = ''organization'' \<and> sg_scope_id g \<noteq> None \<and> st = ''team'' \<and> si \<noteq> None")
    case True
    then have "?needs" using g by (auto simp: list_ex_iff)
    moreover obtain t where t: "si = Some t" using True by blast
    moreover have "t \<in> set (requested_teams requests)"
      using req True t by (force simp: requested_teams_def map_filter_mem)
    ultimately have "anc t = active_team_organization d t"
      by (simp add: anc_def team_ancestry_lookup [OF dist])
    then show ?thesis using True t
      by (auto simp: scope_covered_by_assignment_def scope_assignment_covers_target_def
          split: option.splits)
  next
    case False
    then show ?thesis
      by (auto simp: scope_covered_by_assignment_def scope_assignment_covers_target_def
          split: option.splits)
  qed
  show ?thesis
  proof (cases "requests = [] \<or> ?grants = []")
    case True
    then show ?thesis
      by (auto simp: scope_capabilities_matched_def has_scope_capability_def Let_def)
  next
    case False
    then have "scope_capabilities_matched d u c requests now = set (filter (\<lambda>(st, si).
        list_ex (\<lambda>g. scope_covered_by_assignment g st si anc) ?grants) requests)"
      by (simp add: scope_capabilities_matched_def Let_def anc_def)
    then show ?thesis using same by (auto simp: has_scope_capability_def list_ex_iff)
  qed
qed

text \<open>The bulk campaign check, in chunks, agrees with the single one.\<close>

theorem bulk_campaigns_agree:
  "campaign_ids_with_capability d u c ids now = {i \<in> set ids. has_campaign_capability d u c i now}"
proof -
  have "campaign_ids_with_capability d u c ids now =
      (\<Union>chunk \<in> set (batched bulk_chunk_size (remdups ids)). {i \<in> set chunk. has_campaign_capability d u c i now})"
    by (auto simp: campaign_ids_with_capability_def fold_union has_campaign_capability_def list_ex_iff)
  then show ?thesis
    using batched_set [of bulk_chunk_size "remdups ids"] by auto
qed

section \<open>The campaign filter\<close>

text \<open>What one grant reaches: its campaign, the campaigns its team or organization owns or staffs.\<close>

definition grant_reaches :: "db \<Rightarrow> time \<Rightarrow> scoped_grant \<Rightarrow> campaign \<Rightarrow> bool" where
  "grant_reaches d now g ca \<longleftrightarrow>
     (let t = sg_scope_type g; i = sg_scope_id g;
          owner = (ca_owning_scope_type ca, ca_owning_scope_id ca) in
      t = ''installation''
      \<or> (t = ''organization'' \<and> i = None)
      \<or> (t = ''campaign'' \<and> i = Some (ca_id ca))
      \<or> (t = ''team'' \<and> (\<exists>k. i = Some k
            \<and> (owner = (''team'', Some k) \<or> team_on_campaign d now (ca_id ca) k)))
      \<or> (t = ''organization'' \<and> (\<exists>k. i = Some k
            \<and> (owner = (''organization'', Some k)
               \<or> (\<exists>te \<in> set (teams d). te_organization_id te = k \<and> te_status te = ''active''
                    \<and> (owner = (''team'', Some (te_id te))
                       \<or> team_on_campaign d now (ca_id ca) (te_id te)))))))"

lemma grant_ids_mem:
  "i \<in> set (grant_ids st gs) \<longleftrightarrow> (\<exists>g \<in> set gs. sg_scope_type g = st \<and> sg_scope_id g = Some i)"
  by (auto simp: grant_ids_def map_filter_mem split: if_splits)

lemma grant_ids_ex:
  "(\<exists>k \<in> set (grant_ids st gs). P k)
     \<longleftrightarrow> (\<exists>g \<in> set gs. sg_scope_type g = st \<and> (\<exists>k. sg_scope_id g = Some k \<and> P k))"
  using grant_ids_mem [of _ st gs] by blast

lemma org_teams_ex:
  "(\<exists>k \<in> set (organization_team_ids d (grant_ids st gs)). P k)
     \<longleftrightarrow> (\<exists>g \<in> set gs. sg_scope_type g = st \<and> (\<exists>k. sg_scope_id g = Some k
          \<and> (\<exists>te \<in> set (teams d). te_organization_id te = k \<and> te_status te = ''active'' \<and> P (te_id te))))"
  using grant_ids_mem [of _ st gs] by (fastforce simp: organization_team_ids_def)

text \<open>
  C14: the campaign filter admits a campaign exactly when one of the actor's grants of the
  capability reaches it.
\<close>

theorem campaign_filter_iff:
  "campaign_scope_filter d u c now ca
    \<longleftrightarrow> (\<exists>g \<in> set (capability_grants d u c now). grant_reaches d now g ca)"
proof -
  let ?gs = "capability_grants d u c now"
  let ?wide = "\<lambda>g. sg_scope_type g = ''installation''
     \<or> (sg_scope_type g = ''organization'' \<and> sg_scope_id g = None)"
  let ?orgs = "grant_ids ''organization'' ?gs"
  let ?owner = "(ca_owning_scope_type ca, ca_owning_scope_id ca)"
  let ?staffs = "team_on_campaign d now (ca_id ca)"
  show ?thesis
  proof (cases "list_ex ?wide ?gs")
    case True
    then obtain g where g: "g \<in> set ?gs" "?wide g" by (auto simp: list_ex_iff)
    then have "grant_reaches d now g ca" by (auto simp: grant_reaches_def Let_def)
    moreover have "?gs \<noteq> []" using g(1) by auto
    moreover note g(1)
    ultimately have "?gs \<noteq> []" and "\<exists>g \<in> set ?gs. grant_reaches d now g ca" by blast+
    with True show ?thesis by (simp add: campaign_scope_filter_def Let_def)
  next
    case narrow: False
    have "campaign_scope_filter d u c now ca \<longleftrightarrow>
        ca_id ca \<in> set (grant_ids ''campaign'' ?gs)
        \<or> (\<exists>k \<in> set (grant_ids ''team'' ?gs). ?owner = (''team'', Some k) \<or> ?staffs k)
        \<or> (\<exists>k \<in> set ?orgs. ?owner = (''organization'', Some k))
        \<or> (\<exists>k \<in> set (organization_team_ids d ?orgs). ?owner = (''team'', Some k) \<or> ?staffs k)"
    proof (cases "?gs = []")
      case True
      then show ?thesis
        by (simp add: campaign_scope_filter_def grant_ids_def List.map_filter_simps organization_team_ids_def)
    next
      case False
      have "set (organization_team_ids d ?orgs) = {}" if "?orgs = []"
        using that by (simp add: organization_team_ids_def)
      with False narrow show ?thesis
        by (auto simp: campaign_scope_filter_def Let_def list_ex_iff split: option.splits)
    qed
    also have "\<dots> \<longleftrightarrow> (\<exists>g \<in> set ?gs. grant_reaches d now g ca)"
      unfolding grant_ids_mem grant_ids_ex org_teams_ex grant_reaches_def Let_def
      using narrow unfolding list_ex_iff by blast
    finally show ?thesis .
  qed
qed

section \<open>Candidates\<close>

lemma role_capability_grants_nonempty:
  "role_capability_grants d u c now \<noteq> []
    \<longleftrightarrow> (\<exists>ra \<in> set (role_assignments d). ra_user_id ra = u \<and> role_effective now ra
         \<and> c \<in> set (role_grants (ra_role_code ra)))"
  by (auto simp: role_capability_grants_def effective_role_assignments_def filter_empty_conv)

lemma roles_granting:
  "role \<in> set (map fst (filter (\<lambda>(role, granted). set granted \<inter> wanted \<noteq> {}) role_capabilities))
    \<longleftrightarrow> set (role_grants role) \<inter> wanted \<noteq> {}"
proof -
  have dist: "distinct (map fst role_capabilities)" by (simp add: role_capabilities_def)
  have "role \<in> set (map fst (filter (\<lambda>(role, granted). set granted \<inter> wanted \<noteq> {}) role_capabilities))
      \<longleftrightarrow> (\<exists>granted. (role, granted) \<in> set role_capabilities \<and> set granted \<inter> wanted \<noteq> {})"
    by force
  also have "\<dots> \<longleftrightarrow> set (role_grants role) \<inter> wanted \<noteq> {}"
  proof (cases "map_of role_capabilities role")
    case None
    then have "(role, granted) \<notin> set role_capabilities" for granted
      by (simp add: map_of_eq_None_iff rev_image_eqI) (metis fst_conv image_eqI)
    then show ?thesis by (simp add: role_grants_def None)
  next
    case (Some g)
    then have "(role, granted) \<in> set role_capabilities \<longleftrightarrow> granted = g" for granted
      using map_of_is_SomeI [OF dist] map_of_SomeD [OF Some] by fastforce
    then show ?thesis by (simp add: role_grants_def Some)
  qed
  finally show ?thesis .
qed

text \<open>
  The candidate set for a group of capabilities is exactly the users to whom some active
  grant, role or backed delegation, gives one of them.
\<close>

theorem candidate_users_iff:
  "u \<in> users_with_any_capability d wanted now \<longleftrightarrow> (\<exists>c. c \<in> wanted \<and> has_assigned_capability d u c now)"
proof -
  have grants: "has_assigned_capability d u c now \<longleftrightarrow> role_capability_grants d u c now \<noteq> []
      \<or> (\<exists>dg \<in> set (delegations d). dg_delegate_user_id dg = u \<and> delegation_active now dg
          \<and> c \<in> set (dg_capability_set dg) \<and> delegation_still_backed d dg c now)" for c
    by (auto simp: has_assigned_capability_def capability_grants_def active_delegations_def
        filter_empty_conv)
  have "u \<in> users_with_any_capability d wanted now \<longleftrightarrow>
      (\<exists>ra \<in> set (role_assignments d). ra_user_id ra = u \<and> role_effective now ra
         \<and> set (role_grants (ra_role_code ra)) \<inter> wanted \<noteq> {})
      \<or> (\<exists>dg \<in> set (delegations d). dg_delegate_user_id dg = u \<and> delegation_active now dg
          \<and> (\<exists>c \<in> set (dg_capability_set dg). c \<in> wanted \<and> delegation_still_backed d dg c now))"
    unfolding users_with_any_capability_def Let_def roles_granting by (auto simp: list_ex_iff)
  also have "\<dots> \<longleftrightarrow> (\<exists>c. c \<in> wanted \<and> has_assigned_capability d u c now)"
    unfolding grants role_capability_grants_nonempty by blast
  finally show ?thesis .
qed

section \<open>Witnesses\<close>

definition sample_role :: "uuid \<Rightarrow> string \<Rightarrow> string \<Rightarrow> uuid option \<Rightarrow> role_assignment" where
  "sample_role u role st si = \<lparr>ra_id = u, ra_user_id = u, ra_role_code = role, ra_scope_type = st,
     ra_scope_id = si, ra_effective_from = 0, ra_effective_to = None, ra_status = Row_active,
     ra_reason_code = None, ra_appointed_by = None, ra_ended_at = None\<rparr>"

definition sample_team :: "uuid \<Rightarrow> uuid \<Rightarrow> team" where
  "sample_team i org = \<lparr>te_id = i, te_organization_id = org, te_external_code = ''T'', te_name = ''T'',
     te_parent_team_id = None, te_default_timezone = ''UTC'', te_status = ''active''\<rparr>"

definition authz_db :: db where
  "authz_db = empty_db\<lparr>teams := [sample_team 5 2],
     role_assignments := [sample_role 1 ''manager'' ''organization'' (Some 2)]\<rparr>"

lemmas authz_eval = has_scope_capability_def has_scope_capability_via_role_def capability_grants_def
  role_capability_grants_def effective_role_assignments_def role_effective_def effective_at_def
  role_grants_def role_capabilities_def role_grant_def active_delegations_def
  scope_assignment_covers_target_def scope_covered_by_assignment_def active_team_organization_def
  authz_db_def sample_role_def sample_team_def empty_db_def

lemma authority_comes_from_a_role_witness:
  "has_scope_capability_via_role authz_db 1 ''create_agent'' ''team'' (Some 5) 10"
proof -
  have check: "has_scope_capability authz_db 1 ''create_agent'' ''team'' (Some 5) 10"
    by (simp add: authz_eval)
  have "delegations authz_db = []" by (simp add: authz_db_def empty_db_def)
  with authority_comes_from_a_role [OF check] show ?thesis by simp
qed

lemma bulk_scopes_agree_witness:
  "scope_capabilities_matched authz_db 1 ''create_agent'' [(''team'', Some 5)] 10 = {(''team'', Some 5)}"
proof -
  have "distinct (map te_id (teams authz_db))" by (simp add: authz_db_def)
  from bulk_scopes_agree [OF this] have eq: "scope_capabilities_matched authz_db 1 ''create_agent''
      [(''team'', Some 5)] 10 = {(st, si) \<in> set [(''team'', Some 5)].
        has_scope_capability authz_db 1 ''create_agent'' st si 10}" .
  have "has_scope_capability authz_db 1 ''create_agent'' ''team'' (Some 5) 10"
    by (simp add: authz_eval)
  then show ?thesis unfolding eq by auto
qed

end
