(* ===== verification/Delegations.thy ===== *)
theory Delegations
  imports Authz_Properties Machines
begin

text \<open>
  Delegation management (\<open>app/authz/delegations.py\<close>): the guarded creation of a scoped,
  time-limited delegation, its revocation and listing, and what no sequence of these calls can
  bring about.
\<close>

section \<open>Operations\<close>

definition all_capabilities :: "string list" where
  "all_capabilities = concat (map snd role_capabilities)"

definition non_delegable :: "string list" where
  "non_delegable = [''technical_config'', ''reset_user_auth'', ''create_manager'', ''manage_roles'']"

definition valid_scope_types :: "string list" where
  "valid_scope_types = [''installation'', ''organization'', ''team'', ''campaign'']"

datatype delegation_error =
  Self_delegation
| Unknown_scope_type string
| Scope_id_required string
| No_capability
| Unknown_capability "string list"
| Non_delegable_capability "string list"
| Invalid_delegation_window
| Insufficient_delegator_authority "string list"
| Delegation_not_found
| Not_authorized_to_revoke

definition create_delegation ::
  "env \<Rightarrow> uuid \<Rightarrow> uuid \<Rightarrow> string list \<Rightarrow> string \<Rightarrow> uuid option \<Rightarrow> time \<Rightarrow> time option \<Rightarrow> string option
   \<Rightarrow> db \<Rightarrow> (delegation_error, delegation, db) outcome" where
  "create_delegation e delegator_id delegate_id capability_set scope_type scope_id
     effective_from effective_to reason_code d =
     (if delegate_id = delegator_id then Inl Self_delegation
      else if scope_type \<notin> set valid_scope_types then Inl (Unknown_scope_type scope_type)
      else if scope_type \<in> {''team'', ''campaign''} \<and> scope_id = None
      then Inl (Scope_id_required scope_type)
      else
        let caps = fromkeys capability_set;
            unknown = filter (\<lambda>c. c \<notin> set all_capabilities) caps;
            forbidden = filter (\<lambda>c. c \<in> set non_delegable) caps;
            lacking = filter (\<lambda>c. \<not> has_scope_capability_via_role d delegator_id c scope_type
                                scope_id (clk e 0)) caps
        in
        if caps = [] then Inl No_capability
        else if unknown \<noteq> [] then Inl (Unknown_capability unknown)
        else if forbidden \<noteq> [] then Inl (Non_delegable_capability forbidden)
        else if (case effective_to of None \<Rightarrow> False | Some t \<Rightarrow> t \<le> effective_from)
        then Inl Invalid_delegation_window
        else if lacking \<noteq> [] then Inl (Insufficient_delegator_authority lacking)
        else
          let dg = \<lparr>dg_id = fresh_id e 0, dg_delegator_user_id = delegator_id,
                    dg_delegate_user_id = delegate_id, dg_capability_set = caps,
                    dg_scope_type = scope_type, dg_scope_id = scope_id,
                    dg_effective_from = effective_from, dg_effective_to = effective_to,
                    dg_reason_code = reason_code, dg_approved_by = Some delegator_id,
                    dg_revoked_at = None, dg_created_at = clk e 1\<rparr>;
              d1 = d\<lparr>delegations := delegations d @ [dg]\<rparr>;
              d2 = record_audit ''delegation.create'' ''success'' (Some delegator_id)
                     (Some ''delegation'') (Some (dg_id dg)) reason_code
                     [(''delegate_user_id'', JId delegate_id), (''capabilities'', JStrs caps),
                      (''scope_type'', JStr scope_type),
                      (''scope_id'', case scope_id of None \<Rightarrow> JNull | Some i \<Rightarrow> JId i)] d1
          in Inr (dg, invalidate_sessions_on_privilege_change (clk e 2) delegate_id d2))"

definition get_delegation :: "db \<Rightarrow> uuid \<Rightarrow> delegation option" where
  "get_delegation d i = row_get dg_id i (delegations d)"

definition put_delegation :: "delegation \<Rightarrow> db \<Rightarrow> db" where
  "put_delegation dg d = d\<lparr>delegations := row_put dg_id dg (delegations d)\<rparr>"

interpretation delegation_table: row_table get_delegation put_delegation dg_id
  by unfold_locales
    (auto simp: get_delegation_def put_delegation_def row_get_put dest: row_get_Some)

definition revoke_delegation ::
  "env \<Rightarrow> uuid \<Rightarrow> uuid \<Rightarrow> db \<Rightarrow> (delegation_error, delegation, db) outcome" where
  "revoke_delegation e delegation_id actor_id d =
     (case get_delegation d delegation_id of
        None \<Rightarrow> Inl Delegation_not_found
      | Some dg \<Rightarrow>
          (if dg_delegator_user_id dg \<noteq> actor_id then Inl Not_authorized_to_revoke
           else if dg_revoked_at dg \<noteq> None then Inr (dg, d)
           else
             let dg' = dg\<lparr>dg_revoked_at := Some (clk e 0)\<rparr>;
                 d1 = record_audit ''delegation.revoke'' ''success'' (Some actor_id)
                        (Some ''delegation'') (Some (dg_id dg)) None
                        [(''delegate_user_id'', JId (dg_delegate_user_id dg))]
                        (put_delegation dg' d)
             in Inr (dg', invalidate_sessions_on_privilege_change (clk e 1)
                            (dg_delegate_user_id dg) d1)))"

definition list_delegations ::
  "db \<Rightarrow> uuid option \<Rightarrow> uuid option \<Rightarrow> uuid option \<Rightarrow> delegation list" where
  "list_delegations d delegator_id delegate_id involving_user_id =
     sort_key (\<lambda>dg. - dg_created_at dg)
       (filter (\<lambda>dg.
           (case delegator_id of None \<Rightarrow> True | Some u \<Rightarrow> dg_delegator_user_id dg = u)
           \<and> (case delegate_id of None \<Rightarrow> True | Some u \<Rightarrow> dg_delegate_user_id dg = u)
           \<and> (case involving_user_id of None \<Rightarrow> True
              | Some u \<Rightarrow> dg_delegator_user_id dg = u \<or> dg_delegate_user_id dg = u))
         (delegations d))"

section \<open>Creation\<close>

definition delegation_ok :: "delegation \<Rightarrow> bool" where
  "delegation_ok dg \<longleftrightarrow> dg_delegator_user_id dg \<noteq> dg_delegate_user_id dg
     \<and> dg_capability_set dg \<noteq> [] \<and> distinct (dg_capability_set dg)
     \<and> set (dg_capability_set dg) \<subseteq> set all_capabilities - set non_delegable
     \<and> dg_scope_type dg \<in> set valid_scope_types
     \<and> (dg_scope_type dg \<in> {''team'', ''campaign''} \<longrightarrow> dg_scope_id dg \<noteq> None)
     \<and> (\<forall>t. dg_effective_to dg = Some t \<longrightarrow> dg_effective_from dg < t)"

lemma create_delegation_Inr:
  assumes "create_delegation e g u cs st si f t rc d = Inr (dg, d')"
  shows "delegation_ok dg \<and> delegations d' = delegations d @ [dg]
    \<and> dg_delegator_user_id dg = g \<and> dg_delegate_user_id dg = u
    \<and> set (dg_capability_set dg) = set cs \<and> dg_scope_type dg = st \<and> dg_scope_id dg = si
    \<and> dg_effective_from dg = f \<and> dg_effective_to dg = t \<and> dg_revoked_at dg = None
    \<and> (\<forall>c \<in> set cs. has_scope_capability_via_role d g c st si (clk e 0))
    \<and> role_assignments d' = role_assignments d \<and> teams d' = teams d
    \<and> (\<exists>d2. d' = revoke_all_for_user (clk e 2) u d2)"
  using assms
  by (auto simp: create_delegation_def Let_def delegation_ok_def filter_empty_conv
      invalidate_sessions_on_privilege_change_def split: if_splits option.splits)

lemma revoke_all_dead:
  "d' = revoke_all_for_user t u d
   \<Longrightarrow> \<forall>s \<in> set (sessions d'). ss_user_id s = u \<longrightarrow> ss_revoked_at s \<noteq> None"
  using revoke_all_live by blast

lemma via_role_frame:
  "role_assignments d' = role_assignments d \<Longrightarrow> teams d' = teams d
   \<Longrightarrow> has_scope_capability_via_role d' = has_scope_capability_via_role d"
proof -
  assume ra: "role_assignments d' = role_assignments d" and "teams d' = teams d"
  then have "active_team_organization d' = active_team_organization d"
    by (intro ext) (simp add: active_team_organization_def)
  then have "scope_assignment_covers_target d' = scope_assignment_covers_target d"
    by (intro ext) (simp only: scope_assignment_covers_target_def)
  then show ?thesis
    by (intro ext) (simp add: has_scope_capability_via_role_def role_capability_grants_def
        effective_role_assignments_def ra)
qed

text \<open>
  \<open>create_delegation\<close> only lends what the delegator owns: on success the capabilities exist,
  are delegable, are each held by the delegator through a role at that very scope, the
  delegate is somebody else and the window is not empty; the delegation is recorded, and every
  session of the delegate is revoked.
\<close>

theorem create_delegation_guarded:
  assumes "create_delegation e g u cs st si f t rc d = Inr (dg, d')"
  shows "g \<noteq> u \<and> set cs \<noteq> {} \<and> set cs \<inter> set non_delegable = {} \<and> set cs \<subseteq> set all_capabilities
    \<and> (\<forall>c \<in> set cs. has_scope_capability_via_role d g c st si (clk e 0))
    \<and> (\<forall>x. t = Some x \<longrightarrow> f < x)
    \<and> delegations d' = delegations d @ [dg] \<and> delegation_ok dg
    \<and> (\<forall>s \<in> set (sessions d'). ss_user_id s = u \<longrightarrow> ss_revoked_at s \<noteq> None)"
  using create_delegation_Inr [OF assms] revoke_all_dead
  by (auto simp: delegation_ok_def)

text \<open>
  A delegation just created confers each of its capabilities at its scope on the delegate, at
  every instant of its window at which the delegator still owns the capability there.
\<close>

theorem delegation_confers:
  assumes make: "create_delegation e g u cs st si f t rc d = Inr (dg, d')" and c: "c \<in> set cs"
    and window: "effective_at f t now"
    and owned: "has_scope_capability_via_role d' g c st si now"
  shows "has_scope_capability d' u c st si now"
proof -
  note made = create_delegation_Inr [OF make]
  have "delegation_grant dg \<in> set (capability_grants d' u c now)"
    using made c window owned
    by (auto simp: capability_grants_def active_delegations_def delegation_active_def
        delegation_still_backed_def)
  moreover have "scope_assignment_covers_target d' (delegation_grant dg) st si"
    using made by (cases si) (auto simp: covers_target_cases delegation_grant_def)
  ultimately show ?thesis by (auto simp: has_scope_capability_def list_ex_iff)
qed

section \<open>The machine\<close>

inductive delegation_step :: "db \<Rightarrow> db \<Rightarrow> bool" where
  create: "\<lbrakk>create_delegation e g u cs st si f t rc d = Inr (dg, d');
     get_delegation d (dg_id dg) = None\<rbrakk> \<Longrightarrow> delegation_step d d'"
| revoke: "revoke_delegation e i a d = Inr (dg, d') \<Longrightarrow> delegation_step d d'"
| other: "delegations d' = delegations d \<Longrightarrow> delegation_step d d'"

definition delegation_start :: "db \<Rightarrow> bool" where
  "delegation_start d \<longleftrightarrow> delegations d = []"

definition delegations_inv :: "db \<Rightarrow> bool" where
  "delegations_inv d \<longleftrightarrow> distinct (map dg_id (delegations d))
     \<and> (\<forall>dg \<in> set (delegations d). delegation_ok dg)"

text \<open>A delegation is never dropped or changed, but for one revocation, which is final.\<close>

definition delegation_keeps :: "delegation \<Rightarrow> delegation \<Rightarrow> bool" where
  "delegation_keeps dg dg' \<longleftrightarrow>
     dg' = dg \<or> (dg_revoked_at dg = None \<and> (\<exists>t. dg' = dg\<lparr>dg_revoked_at := Some t\<rparr>))"

definition delegation_history :: "db \<Rightarrow> db \<Rightarrow> bool" where
  "delegation_history d d' \<longleftrightarrow>
     (\<forall>dg \<in> set (delegations d). \<exists>dg' \<in> set (delegations d'). delegation_keeps dg dg')"

lemma delegation_keeps_trans:
  "\<lbrakk>delegation_keeps a b; delegation_keeps b c\<rbrakk> \<Longrightarrow> delegation_keeps a c"
  unfolding delegation_keeps_def by (elim disjE conjE exE) (simp | blast)+

lemma delegation_history_trans:
  assumes "delegation_history a b" and "delegation_history b c"
  shows "delegation_history a c"
  unfolding delegation_history_def
proof
  fix dg assume "dg \<in> set (delegations a)"
  with assms(1) obtain dg' where "dg' \<in> set (delegations b)" and k: "delegation_keeps dg dg'"
    by (auto simp: delegation_history_def)
  with assms(2) obtain dg'' where "dg'' \<in> set (delegations c)" "delegation_keeps dg' dg''"
    by (auto simp: delegation_history_def)
  with k show "\<exists>x \<in> set (delegations c). delegation_keeps dg x"
    by (blast intro: delegation_keeps_trans)
qed

lemma revoke_delegation_cases:
  assumes "revoke_delegation e i a d = Inr (dg, d')"
  obtains (again) "get_delegation d i = Some dg" and "dg_revoked_at dg \<noteq> None" and "d' = d"
      and "dg_delegator_user_id dg = a"
  | (first) dg0 d2 where "get_delegation d i = Some dg0" and "dg_revoked_at dg0 = None"
      and "dg_delegator_user_id dg0 = a" and "dg = dg0\<lparr>dg_revoked_at := Some (clk e 0)\<rparr>"
      and "delegations d' = row_put dg_id dg (delegations d)"
      and "d' = revoke_all_for_user (clk e 1) (dg_delegate_user_id dg) d2"
proof (cases "get_delegation d i")
  case None
  with assms show thesis by (simp add: revoke_delegation_def)
next
  case (Some dg0)
  note run = assms [unfolded revoke_delegation_def Some option.case Let_def]
  from run have actor: "dg_delegator_user_id dg0 = a" by (simp split: if_splits)
  show thesis
  proof (cases "dg_revoked_at dg0")
    case (Some t)
    with run actor have "dg0 = dg" "d' = d" by simp_all
    then show thesis using again \<open>get_delegation d i = Some dg0\<close> Some actor by blast
  next
    case None
    let ?d2 = "record_audit ''delegation.revoke'' ''success'' (Some a) (Some ''delegation'')
          (Some (dg_id dg0)) None [(''delegate_user_id'', JId (dg_delegate_user_id dg0))]
          (put_delegation (dg0\<lparr>dg_revoked_at := Some (clk e 0)\<rparr>) d)"
    have "(dg0\<lparr>dg_revoked_at := Some (clk e 0)\<rparr>,
        invalidate_sessions_on_privilege_change (clk e 1) (dg_delegate_user_id dg0) ?d2) = (dg, d')"
      using run by (simp only: actor None simp_thms if_False sum.inject)
    then have dg: "dg = dg0\<lparr>dg_revoked_at := Some (clk e 0)\<rparr>"
      and d': "d' = revoke_all_for_user (clk e 1) (dg_delegate_user_id dg0) ?d2"
      by (auto simp only: prod.inject invalidate_sessions_on_privilege_change_def)
    have "delegations d' = row_put dg_id dg (delegations d)"
      unfolding d' dg by (simp add: put_delegation_def)
    moreover have "dg_delegate_user_id dg0 = dg_delegate_user_id dg" by (simp add: dg)
    ultimately show thesis using first [OF Some None actor dg] d' by simp
  qed
qed

lemma delegation_ok_revoked: "delegation_ok dg \<Longrightarrow> delegation_ok (dg\<lparr>dg_revoked_at := t\<rparr>)"
  by (simp add: delegation_ok_def)

lemma delegation_step_ok:
  assumes inv: "delegations_inv d" and step: "delegation_step d d'"
  shows "delegations_inv d' \<and> delegation_history d d'"
  using step
proof cases
  case (create e g u cs st si f t rc dg)
  have made: "delegation_ok dg" "delegations d' = delegations d @ [dg]"
    using create_delegation_Inr [OF create(1)] by blast+
  have "dg_id dg \<notin> dg_id ` set (delegations d)"
    using create(2) by (simp add: get_delegation_def row_get_None)
  with inv have "delegations_inv d'" by (simp add: delegations_inv_def made)
  moreover have "delegation_history d d'"
    by (auto simp: delegation_history_def made(2) delegation_keeps_def)
  ultimately show ?thesis by simp
next
  case (revoke e i a dg)
  from revoke show ?thesis
  proof (cases rule: revoke_delegation_cases)
    case again
    then show ?thesis using inv by (auto simp: delegation_history_def delegation_keeps_def)
  next
    case (first dg0 d2)
    have in_d: "dg0 \<in> set (delegations d)" and id: "dg_id dg = dg_id dg0"
      using first(1,4) by (auto simp: get_delegation_def dest: row_get_Some)
    have ok: "delegation_ok dg" using inv in_d first(4) delegation_ok_revoked
      by (simp add: delegations_inv_def)
    have "delegations_inv d'"
      using inv row_put_all [of "delegations d" delegation_ok dg dg_id] ok
      by (simp add: delegations_inv_def first(5))
    moreover have "delegation_history d d'"
      unfolding delegation_history_def
    proof
      fix x assume x: "x \<in> set (delegations d)"
      show "\<exists>y \<in> set (delegations d'). delegation_keeps x y"
      proof (cases "dg_id x = dg_id dg0")
        case True
        with inv x in_d have "x = dg0" by (auto simp: delegations_inv_def distinct_map dest: inj_onD)
        then have "delegation_keeps x dg" using first(2,4) by (auto simp: delegation_keeps_def)
        moreover have "dg \<in> set (delegations d')" using in_d id by (force simp: first(5) row_put_def)
        ultimately show ?thesis by blast
      next
        case False
        then have "x \<in> set (delegations d')" using x id by (force simp: first(5) row_put_def)
        then show ?thesis by (auto simp: delegation_keeps_def)
      qed
    qed
    ultimately show ?thesis by simp
  qed
next
  case other
  then show ?thesis using inv by (auto simp: delegations_inv_def delegation_history_def delegation_keeps_def)
qed

interpretation delegation_machine:
  history_machine delegation_start delegation_step delegations_inv delegation_history
proof unfold_locales
  show "delegation_history d d" for d by (auto simp: delegation_history_def delegation_keeps_def)
  show "delegations_inv d" if "delegation_start d" for d
    using that by (simp add: delegation_start_def delegations_inv_def)
  show "delegation_history a c" if "delegation_history a b" "delegation_history b c" for a b c
    using that by (rule delegation_history_trans)
qed (use delegation_step_ok in blast)+


text \<open>
  Only the delegator revokes; the delegation then is dead at every later check and after any
  further delegation activity, and revoking it again changes nothing.
\<close>

theorem revocation_is_final:
  assumes reach: "reachable delegation_start delegation_step d"
    and revoke: "revoke_delegation e i a d = Inr (dg, d')"
    and later: "run delegation_step d' d''"
  shows "dg_delegator_user_id dg = a \<and> dg \<in> set (delegations d'')
     \<and> \<not> delegation_active now dg
     \<and> revoke_delegation e' i a d' = Inr (dg, d')"
proof -
  have step: "delegation_step d d'" by (rule delegation_step.revoke [OF revoke])
  have reach': "reachable delegation_start delegation_step d'"
    by (rule next_state [OF reach step])
  have facts: "dg_delegator_user_id dg = a \<and> dg_revoked_at dg \<noteq> None \<and> get_delegation d' i = Some dg"
    using revoke
  proof (cases rule: revoke_delegation_cases)
    case (first dg0 d2)
    have "dg_id dg = i" "dg_id dg0 = i"
      using first(1,4) by (auto simp: get_delegation_def dest: row_get_Some)
    then show ?thesis
      using first(1,3,4) row_get_put [of dg_id i dg "delegations d"]
      by (simp add: get_delegation_def first(5))
  qed simp
  then have "dg \<in> set (delegations d')" by (auto simp: get_delegation_def dest: row_get_Some)
  then obtain dg' where "dg' \<in> set (delegations d'')" and "delegation_keeps dg dg'"
    using delegation_machine.reachable_past [OF reach' later] by (auto simp: delegation_history_def)
  then have "dg \<in> set (delegations d'')" using facts by (auto simp: delegation_keeps_def)
  with facts show ?thesis by (simp add: delegation_active_def revoke_delegation_def)
qed

section \<open>Witnesses\<close>

definition delegation_env :: env where
  "delegation_env = \<lparr>clk = (\<lambda>n. 10), fresh_id = (\<lambda>n. n), fresh_token = (\<lambda>n. ''t''),
     phone_busy = (\<lambda>f. False), row_busy = (\<lambda>i. False)\<rparr>"

lemma sample_delegation:
  "\<exists>dg d'. create_delegation delegation_env 1 4 [''create_agent''] ''team'' (Some 5) 0 (Some 99) None
     authz_db = Inr (dg, d')"
  by (simp add: create_delegation_def authz_eval delegation_env_def valid_scope_types_def
      all_capabilities_def non_delegable_def Let_def)

lemma create_delegation_guarded_witness:
  "\<exists>dg d'. create_delegation delegation_env 1 4 [''create_agent''] ''team'' (Some 5) 0 (Some 99) None
     authz_db = Inr (dg, d') \<and> delegation_ok dg"
  using sample_delegation create_delegation_guarded by blast

lemma delegation_confers_witness:
  "\<exists>d'. has_scope_capability d' 4 ''create_agent'' ''team'' (Some 5) 50"
proof -
  obtain dg d' where make: "create_delegation delegation_env 1 4 [''create_agent''] ''team'' (Some 5)
      0 (Some 99) None authz_db = Inr (dg, d')" using sample_delegation by blast
  have "has_scope_capability_via_role d' = has_scope_capability_via_role authz_db"
    using create_delegation_Inr [OF make] by (intro via_role_frame) simp_all
  then have "has_scope_capability_via_role d' 1 ''create_agent'' ''team'' (Some 5) 50"
    by (simp add: authz_eval)
  from delegation_confers [OF make _ _ this] show ?thesis by (auto simp: effective_at_def)
qed

lemma authz_db_reachable: "reachable delegation_start delegation_step authz_db"
  by (rule reachable.start) (simp add: delegation_start_def authz_db_def empty_db_def)

definition root_db :: db where
  "root_db = empty_db\<lparr>role_assignments := [sample_role 1 ''super_admin'' ''installation'' None]\<rparr>"


lemma revocation_is_final_witness:
  "\<exists>d'. revoke_delegation delegation_env 0 1 d' \<noteq> Inl Delegation_not_found
     \<and> (\<exists>dg \<in> set (delegations d'). \<not> delegation_active 50 dg)"
proof -
  obtain dg d1 where make: "create_delegation delegation_env 1 4 [''create_agent''] ''team'' (Some 5)
      0 (Some 99) None authz_db = Inr (dg, d1)" using sample_delegation by blast
  have id: "dg_id dg = 0"
    using make by (auto simp: create_delegation_def Let_def delegation_env_def split: if_splits)
  note made = create_delegation_Inr [OF make]
  have "get_delegation authz_db (dg_id dg) = None"
    by (simp add: get_delegation_def row_get_def authz_db_def empty_db_def)
  then have reach: "reachable delegation_start delegation_step d1"
    by (intro next_state [OF authz_db_reachable] delegation_step.create [OF make])
  have "get_delegation d1 0 = Some dg" "dg_revoked_at dg = None" "dg_delegator_user_id dg = 1"
    using made id by (simp_all add: get_delegation_def row_get_def authz_db_def empty_db_def)
  then obtain dg' d2 where revoke: "revoke_delegation delegation_env 0 1 d1 = Inr (dg', d2)"
    by (simp add: revoke_delegation_def Let_def)
  from revocation_is_final [OF reach revoke run_refl, of 50 delegation_env]
  show ?thesis by (intro exI [of _ d2]) auto
qed

end
