(* ===== verification/Auth.thy ===== *)
theory Auth
  imports Sessions
begin

text \<open>
  The authentication service (\<open>app/auth/service.py\<close>, \<open>totp.py\<close>): credential checks, TOTP
  enrolment, one-time activation tokens, password and second-factor resets.
\<close>

section \<open>Signing in\<close>

datatype auth_error =
  Invalid_credentials
| Second_factor_required
| Undecryptable_secret

definition normalize_email :: "string \<Rightarrow> string" where
  "normalize_email email = lower (strip email)"

definition user_by_email :: "db \<Rightarrow> string \<Rightarrow> user option" where
  "user_by_email d email = find (\<lambda>u. us_email u = email) (users d)"

definition authenticate ::
  "crypto \<Rightarrow> string \<Rightarrow> string \<Rightarrow> string option \<Rightarrow> db \<Rightarrow> auth_error + user" where
  "authenticate c email password totp_code d =
     (case user_by_email d (normalize_email email) of
        None \<Rightarrow> Inl Invalid_credentials
      | Some u \<Rightarrow>
          (if \<not> us_active u \<or> us_password_hash u = None then Inl Invalid_credentials
           else if \<not> verify_password c password (us_password_hash u) then Inl Invalid_credentials
           else if us_totp_enrolled u then
             (case totp_code of
                None \<Rightarrow> Inl Second_factor_required
              | Some entered \<Rightarrow>
                  (if entered = '''' then Inl Second_factor_required
                   else case us_totp_secret_ciphertext u of
                     None \<Rightarrow> Inl Invalid_credentials
                   | Some ct \<Rightarrow>
                       (if ct = '''' then Inl Invalid_credentials
                        else case decrypt c ct of
                          None \<Rightarrow> Inl Undecryptable_secret
                        | Some secret \<Rightarrow>
                            (if secret = '''' \<or> \<not> totp_check c secret entered
                             then Inl Invalid_credentials else Inr u))))
           else Inr u))"

section \<open>TOTP enrolment\<close>

datatype totp_error =
  Totp_account_unavailable | Already_enrolled | No_enrollment_in_progress | Invalid_code
| Totp_undecryptable

definition begin_totp_enrollment ::
  "crypto \<Rightarrow> env \<Rightarrow> settings \<Rightarrow> uuid \<Rightarrow> db \<Rightarrow> (totp_error, user \<times> string, db) outcome" where
  "begin_totp_enrollment c e cfg user_id d =
     (case get_user d user_id of
        None \<Rightarrow> Inl Totp_account_unavailable
      | Some u \<Rightarrow>
          (if \<not> us_active u then Inl Totp_account_unavailable
           else if us_totp_enrolled u then Inl Already_enrolled
           else
             let secret = fresh_token e 0;
                 u' = u\<lparr>us_totp_secret_ciphertext := Some (encrypt c cfg secret)\<rparr>
             in Inr ((u', secret), put_user u' d)))"

definition complete_totp_enrollment ::
  "crypto \<Rightarrow> uuid \<Rightarrow> string \<Rightarrow> db \<Rightarrow> (totp_error, user, db) outcome" where
  "complete_totp_enrollment c user_id totp_code d =
     (case get_user d user_id of
        None \<Rightarrow> Inl Totp_account_unavailable
      | Some u \<Rightarrow>
          (if \<not> us_active u then Inl Totp_account_unavailable
           else if us_totp_enrolled u then Inl Already_enrolled
           else case us_totp_secret_ciphertext u of
             None \<Rightarrow> Inl No_enrollment_in_progress
           | Some ct \<Rightarrow>
               (if ct = '''' then Inl No_enrollment_in_progress
                else
                  let normalized = filter (\<lambda>x. x \<noteq> CHR '' '') (strip totp_code) in
                  case decrypt c ct of
                    None \<Rightarrow> Inl Totp_undecryptable
                  | Some secret \<Rightarrow>
                      (if length normalized \<noteq> 6 \<or> \<not> isdigit normalized then Inl Invalid_code
                       else if \<not> totp_check c secret normalized then Inl Invalid_code
                       else let u' = u\<lparr>us_totp_enrolled := True\<rparr> in Inr (u', put_user u' d)))))"

section \<open>Activation tokens\<close>

definition activation_max_age :: int where "activation_max_age = 86400"

definition activation_purpose :: string where "activation_purpose = ''password_activation''"

definition token_live :: "time \<Rightarrow> activation_token \<Rightarrow> bool" where
  "token_live now t \<longleftrightarrow>
     tk_purpose t = activation_purpose \<and> tk_used_at t = None \<and> now < tk_expires_at t"

datatype account_error = User_does_not_exist | Account_disabled | Already_activated

definition issue_activation_token ::
  "crypto \<Rightarrow> env \<Rightarrow> time \<Rightarrow> uuid \<Rightarrow> uuid option \<Rightarrow> db \<Rightarrow> (account_error, string, db) outcome" where
  "issue_activation_token c e now user_id created_by d =
     (case get_user d user_id of
        None \<Rightarrow> Inl User_does_not_exist
      | Some u \<Rightarrow>
          let token = fresh_token e 0;
              spent = rows_update (\<lambda>t. tk_user_id t = user_id \<and> tk_purpose t = activation_purpose
                                    \<and> tk_used_at t = None)
                        (\<lambda>t. t\<lparr>tk_used_at := Some now\<rparr>) (activation_tokens d)
          in Inr (token, d\<lparr>activation_tokens := spent @
               [\<lparr>tk_id = fresh_id e 0, tk_user_id = user_id, tk_token_hash = hash_token c token,
                 tk_purpose = activation_purpose,
                 tk_expires_at = now + seconds activation_max_age, tk_used_at = None,
                 tk_created_by = created_by\<rparr>]\<rparr>))"

definition lock_user :: "db \<Rightarrow> uuid \<Rightarrow> account_error + user" where
  "lock_user d user_id =
     (case get_user d user_id of None \<Rightarrow> Inl User_does_not_exist | Some u \<Rightarrow> Inr u)"

definition issue_with_expiry ::
  "crypto \<Rightarrow> env \<Rightarrow> time \<Rightarrow> time \<Rightarrow> uuid \<Rightarrow> uuid \<Rightarrow> db \<Rightarrow> (account_error, string \<times> time, db) outcome" where
  "issue_with_expiry c e now issued user_id created_by d =
     (case issue_activation_token c e issued user_id (Some created_by) d of
        Inl err \<Rightarrow> Inl err
      | Inr (token, d') \<Rightarrow> Inr ((token, now + seconds activation_max_age), d'))"

definition reset_password ::
  "crypto \<Rightarrow> env \<Rightarrow> uuid \<Rightarrow> uuid \<Rightarrow> db \<Rightarrow> (account_error, string \<times> time, db) outcome" where
  "reset_password c e target_id actor_id d =
     (case lock_user d target_id of
        Inl err \<Rightarrow> Inl err
      | Inr u \<Rightarrow>
          (if \<not> us_active u then Inl Account_disabled
           else
             case issue_with_expiry c e (clk e 1) (clk e 2) (us_id u) actor_id
                    (revoke_all_for_user (clk e 0) (us_id u)
                      (put_user (u\<lparr>us_password_hash := None\<rparr>) d)) of
               Inl err \<Rightarrow> Inl err
             | Inr (result, d') \<Rightarrow>
                 Inr (result, record_audit ''admin.reset_password'' ''success'' (Some actor_id)
                   (Some ''user'') (Some (us_id u)) None [] d')))"

definition reset_mfa :: "env \<Rightarrow> uuid \<Rightarrow> uuid \<Rightarrow> db \<Rightarrow> (account_error, unit, db) outcome" where
  "reset_mfa e target_id actor_id d =
     (case lock_user d target_id of
        Inl err \<Rightarrow> Inl err
      | Inr u \<Rightarrow>
          (if \<not> us_active u then Inl Account_disabled
           else Inr ((), record_audit ''admin.reset_2fa'' ''success'' (Some actor_id) (Some ''user'')
             (Some (us_id u)) None []
             (revoke_all_for_user (clk e 0) (us_id u)
               (put_user (u\<lparr>us_totp_secret_ciphertext := None, us_totp_enrolled := False\<rparr>) d)))))"

definition issue_or_replace_activation_code ::
  "crypto \<Rightarrow> env \<Rightarrow> uuid \<Rightarrow> uuid \<Rightarrow> db \<Rightarrow> (account_error, string \<times> time, db) outcome" where
  "issue_or_replace_activation_code c e target_id actor_id d =
     (case lock_user d target_id of
        Inl err \<Rightarrow> Inl err
      | Inr u \<Rightarrow>
          (if \<not> us_active u then Inl Account_disabled
           else if us_password_hash u \<noteq> None then Inl Already_activated
           else
             case issue_with_expiry c e (clk e 0) (clk e 1) (us_id u) actor_id d of
               Inl err \<Rightarrow> Inl err
             | Inr (result, d') \<Rightarrow>
                 Inr (result, record_audit ''admin.issue_activation_code'' ''success''
                   (Some actor_id) (Some ''user'') (Some (us_id u)) None [] d')))"

definition put_token :: "activation_token \<Rightarrow> db \<Rightarrow> db" where
  "put_token t d = d\<lparr>activation_tokens := row_put tk_id t (activation_tokens d)\<rparr>"

definition consume_activation_token ::
  "crypto \<Rightarrow> time \<Rightarrow> string \<Rightarrow> db \<Rightarrow> uuid option \<times> db" where
  "consume_activation_token c now token d =
     (let h = hash_token c token in
      case find (\<lambda>t. tk_token_hash t = h \<and> token_live now t) (activation_tokens d) of
        None \<Rightarrow> (None, d)
      | Some cand \<Rightarrow>
          (case get_user d (tk_user_id cand) of
             None \<Rightarrow> (None, d)
           | Some u \<Rightarrow>
               (case find (\<lambda>t. tk_token_hash t = h \<and> tk_user_id t = us_id u \<and> token_live now t)
                       (activation_tokens d) of
                  None \<Rightarrow> (None, d)
                | Some row \<Rightarrow> (Some (tk_user_id row), put_token (row\<lparr>tk_used_at := Some now\<rparr>) d))))"

definition activate_user_password ::
  "crypto \<Rightarrow> time \<Rightarrow> string \<Rightarrow> string \<Rightarrow> db \<Rightarrow> user option \<times> db" where
  "activate_user_password c now token new_password d =
     (case consume_activation_token c now token d of
        (None, d') \<Rightarrow> (None, d')
      | (Some user_id, d') \<Rightarrow>
          (case get_user d' user_id of
             None \<Rightarrow> (None, d')
           | Some u \<Rightarrow>
               let u' = u\<lparr>us_password_hash := Some (hash_password c new_password)\<rparr>
               in (Some u', put_user u' d')))"

section \<open>Properties\<close>

lemma authenticated_user:
  "authenticate c email pw entered d = Inr u \<Longrightarrow> u \<in> set (users d) \<and> us_active u \<and> us_password_hash u \<noteq> None"
  by (auto simp: authenticate_def user_by_email_def find_Some_iff split: option.splits if_splits)

text \<open>
  C15: \<open>authenticate\<close> accepts exactly an active user found under the normalized address whose
  password verifies and who, once enrolled, presents a code that checks against the decrypted
  secret; whitespace and case of the address do not matter.
\<close>

theorem authenticate_accepts_iff:
  "authenticate c email pw entered d = Inr u \<longleftrightarrow>
     user_by_email d (normalize_email email) = Some u \<and> us_active u
     \<and> (\<exists>h. us_password_hash u = Some h \<and> h \<noteq> [] \<and> argon2_verify c pw h)
     \<and> (\<not> us_totp_enrolled u
        \<or> (\<exists>k ct s. entered = Some k \<and> k \<noteq> [] \<and> us_totp_secret_ciphertext u = Some ct \<and> ct \<noteq> []
             \<and> decrypt c ct = Some s \<and> s \<noteq> [] \<and> totp_check c s k))"
  by (auto simp: authenticate_def verify_password_def split: option.splits if_splits)

lemma issue_Inr:
  assumes "issue_activation_token c e now u by d = Inr (token, d')"
  shows "token = fresh_token e 0 \<and> users d' = users d \<and> sessions d' = sessions d
    \<and> (\<forall>t \<in> set (activation_tokens d'). tk_user_id t = u \<longrightarrow> tk_purpose t = activation_purpose
         \<longrightarrow> tk_used_at t = None \<longrightarrow> tk_token_hash t = hash_token c token
           \<and> tk_expires_at t = now + seconds activation_max_age)"
proof -
  let ?P = "\<lambda>t. tk_user_id t = u \<and> tk_purpose t = activation_purpose \<and> tk_used_at t = None"
  define spent where
    "spent = rows_update ?P (\<lambda>t. t\<lparr>tk_used_at := Some now\<rparr>) (activation_tokens d)"
  define new where
    "new = \<lparr>tk_id = fresh_id e 0, tk_user_id = u, tk_token_hash = hash_token c (fresh_token e 0),
         tk_purpose = activation_purpose, tk_expires_at = now + seconds activation_max_age,
         tk_used_at = None, tk_created_by = by\<rparr>"
  have d': "token = fresh_token e 0" "d' = d\<lparr>activation_tokens := spent @ [new]\<rparr>"
    using assms
    by (auto simp: issue_activation_token_def Let_def spent_def new_def split: option.splits)
  have "tk_token_hash t = hash_token c token \<and> tk_expires_at t = now + seconds activation_max_age"
    if "t \<in> set (activation_tokens d')" and P: "?P t" for t
  proof -
    from that(1) have "t \<in> set spent \<or> t = new" by (auto simp: d'(2))
    moreover have "\<not> ?P t" if "t \<in> set spent"
      using that unfolding spent_def by (rule rows_update_none_left) simp
    ultimately have "t = new" using P by blast
    then show ?thesis by (simp add: new_def d'(1))
  qed
  then show ?thesis using d'(1) by (simp add: d'(2))
qed

lemma consume_cases:
  assumes "consume_activation_token c now token d = (Some u, d')"
  obtains t where "t \<in> set (activation_tokens d)" and "tk_token_hash t = hash_token c token"
    and "token_live now t" and "tk_user_id t = u" and "d' = put_token (t\<lparr>tk_used_at := Some now\<rparr>) d"
  using assms
  by (auto simp: consume_activation_token_def Let_def dest!: find_SomeD split: option.splits)

lemma activate_cases:
  assumes "activate_user_password c now token pw d = (Some u, d')"
  obtains t u0 where "t \<in> set (activation_tokens d)" and "tk_token_hash t = hash_token c token"
    and "token_live now t" and "get_user d (tk_user_id t) = Some u0"
    and "u = u0\<lparr>us_password_hash := Some (hash_password c pw)\<rparr>"
    and "d' = put_user u (put_token (t\<lparr>tk_used_at := Some now\<rparr>) d)"
proof -
  from assms obtain i d1 u0 where c: "consume_activation_token c now token d = (Some i, d1)"
    and u: "get_user d1 i = Some u0" "u = u0\<lparr>us_password_hash := Some (hash_password c pw)\<rparr>"
      "d' = put_user u d1"
    by (auto simp: activate_user_password_def Let_def split: prod.splits option.splits)
  from c show thesis
  proof (rule consume_cases)
    fix t assume "t \<in> set (activation_tokens d)" "tk_token_hash t = hash_token c token"
      "token_live now t" "tk_user_id t = i" "d1 = put_token (t\<lparr>tk_used_at := Some now\<rparr>) d"
    with u show thesis by (intro that) (simp_all add: get_user_def put_token_def)
  qed
qed

text \<open>
  An activation token works once. When an activation succeeds the token was live, the
  password is the one given and it is stored for the token's user; every later presentation of
  the same token, at any time and with any password, fails and changes nothing.
\<close>

theorem activation_is_single_use:
  assumes dist: "distinct (map tk_token_hash (activation_tokens d))"
    and run: "activate_user_password c now token pw d = (Some u, d')"
  shows "us_password_hash u = Some (hash_password c pw) \<and> get_user d' (us_id u) = Some u
    \<and> activate_user_password c now' token pw' d' = (None, d')"
  using run
proof (rule activate_cases)
  fix t u0
  assume t: "t \<in> set (activation_tokens d)" "tk_token_hash t = hash_token c token"
    and u: "get_user d (tk_user_id t) = Some u0" "u = u0\<lparr>us_password_hash := Some (hash_password c pw)\<rparr>"
    and d': "d' = put_user u (put_token (t\<lparr>tk_used_at := Some now\<rparr>) d)"
  have tokens: "activation_tokens d' = row_put tk_id (t\<lparr>tk_used_at := Some now\<rparr>) (activation_tokens d)"
    by (simp add: d' put_user_def put_token_def)
  have used: "tk_used_at x \<noteq> None"
    if "x \<in> set (activation_tokens d')" "tk_token_hash x = hash_token c token" for x
  proof -
    from set_row_put [OF that(1) [unfolded tokens]] show ?thesis
    proof
      assume "x \<in> set (activation_tokens d) \<and> tk_id x \<noteq> tk_id (t\<lparr>tk_used_at := Some now\<rparr>)"
      moreover from this have "x = t"
        using dist t that(2) by (metis distinct_map inj_onD)
      ultimately show ?thesis by simp
    qed simp
  qed
  have "find (\<lambda>t. tk_token_hash t = hash_token c token \<and> token_live now' t) (activation_tokens d') = None"
    using used by (auto simp: find_None_iff token_live_def)
  then have "activate_user_password c now' token pw' d' = (None, d')"
    by (simp add: activate_user_password_def consume_activation_token_def Let_def)
  moreover have "get_user d' (us_id u) = Some u"
  proof -
    have "us_id u = tk_user_id t" using u user_table.get_key by simp
    moreover have "get_user (put_token x d) i = get_user d i" for x i
      by (simp add: get_user_def put_token_def)
    ultimately show ?thesis using u(1) by (simp add: d' user_table.get_put)
  qed
  ultimately show ?thesis by (simp add: u(2))
qed

text \<open>
  After a password reset the account is locked out until the new token is used: nobody
  authenticates as the target with any password or code, no session token loads a session of
  the target, and the only live activation token of the target is the one returned.
\<close>

theorem reset_locks_out:
  assumes "reset_password c e target actor d = Inr ((token, expires), d')"
  shows "(\<forall>email pw entered u. authenticate c email pw entered d' = Inr u \<longrightarrow> us_id u \<noteq> target)
    \<and> (\<forall>cfg now t row d2. load_session c cfg now t d' = (Some row, d2) \<longrightarrow> ss_user_id row \<noteq> target)
    \<and> (\<forall>t \<in> set (activation_tokens d'). tk_user_id t = target \<longrightarrow> token_live now0 t
         \<longrightarrow> tk_token_hash t = hash_token c token)"
proof -
  from assms obtain u d1 where u: "get_user d target = Some u"
    and iss: "issue_activation_token c e (clk e 2) (us_id u) (Some actor)
      (revoke_all_for_user (clk e 0) (us_id u) (put_user (u\<lparr>us_password_hash := None\<rparr>) d)) = Inr (token, d1)"
    and d': "d' = record_audit ''admin.reset_password'' ''success'' (Some actor)
                   (Some ''user'') (Some (us_id u)) None [] d1"
    by (auto simp: reset_password_def lock_user_def issue_with_expiry_def
        split: option.splits sum.splits if_splits)
  have id: "us_id u = target" by (rule user_table.get_key [OF u])
  note issued = issue_Inr [OF iss]
  have users: "users d' = row_put us_id (u\<lparr>us_password_hash := None\<rparr>) (users d)"
    using issued by (simp add: d' put_user_def)
  have no_pw: "us_password_hash x = None" if "x \<in> set (users d')" "us_id x = target" for x
    using set_row_put [OF that(1) [unfolded users]] that(2) id by auto
  have 1: "us_id x \<noteq> target" if "authenticate c email pw entered d' = Inr x" for email pw entered x
    using authenticated_user [OF that] no_pw [of x] by auto
  have "sessions d' = sessions (revoke_all_for_user (clk e 0) target (put_user (u\<lparr>us_password_hash := None\<rparr>) d))"
    using issued by (simp add: d' id)
  then have live: "ss_user_id s \<noteq> target" if "s \<in> set (sessions d')" "ss_revoked_at s = None" for s
    using revoke_all_live that by metis
  have 2: "ss_user_id row \<noteq> target" if "load_session c cfg now t d' = (Some row, d2)" for cfg now t row d2
    using that
  proof (rule load_session_Some)
    fix s row0
    assume "session_by_token c d' s = Some row0" "ss_revoked_at row0 = None" "row = slide cfg now row0"
    moreover from this have "row0 \<in> set (sessions d')"
      by (auto simp: session_by_token_def find_Some_iff)
    ultimately show ?thesis using live by (simp add: slide_def)
  qed
  have 3: "\<forall>t \<in> set (activation_tokens d'). tk_user_id t = target \<longrightarrow> token_live now0 t
      \<longrightarrow> tk_token_hash t = hash_token c token"
    using issued by (simp add: d' id token_live_def)
  from 1 2 3 show ?thesis by blast
qed

section \<open>Witnesses\<close>

definition sample_user :: user where
  "sample_user = \<lparr>us_id = 7, us_workforce_id = ''W7'', us_email = ''a@b'', us_display_name = ''A'',
     us_password_hash = Some ''pw'', us_totp_secret_ciphertext = None, us_totp_enrolled = False,
     us_workforce_status = ''active'', us_active = True, us_start_date = None, us_end_date = None,
     us_last_login_at = None, us_disabled_at = None, us_created_at = 0\<rparr>"

definition sample_token :: activation_token where
  "sample_token = \<lparr>tk_id = 1, tk_user_id = 7, tk_token_hash = ''t'', tk_purpose = activation_purpose,
     tk_expires_at = 100, tk_used_at = None, tk_created_by = None\<rparr>"

definition auth_db :: db where
  "auth_db = empty_db\<lparr>users := [sample_user], activation_tokens := [sample_token],
     sessions := [sample_session]\<rparr>"

lemmas auth_eval = auth_db_def sample_user_def sample_token_def empty_db_def rot_crypto_def
  get_user_def put_user_def row_get_def row_put_def hash_token_def hash_password_def token_live_def

lemma activation_is_single_use_witness:
  "\<exists>u d'. activate_user_password rot_crypto 50 ''t'' ''new'' auth_db = (Some u, d')
     \<and> activate_user_password rot_crypto 60 ''t'' ''other'' d' = (None, d')"
proof -
  obtain u d' where run: "activate_user_password rot_crypto 50 ''t'' ''new'' auth_db = (Some u, d')"
    by (simp add: activate_user_password_def consume_activation_token_def put_token_def Let_def auth_eval)
  have "distinct (map tk_token_hash (activation_tokens auth_db))" by (simp add: auth_db_def)
  from activation_is_single_use [OF this run] run show ?thesis by blast
qed

lemma authenticate_accepts_iff_witness:
  "authenticate rot_crypto ''  A@B '' ''pw'' None auth_db = Inr sample_user
   \<and> authenticate rot_crypto ''a@b'' ''wrong'' None auth_db \<noteq> Inr sample_user"
proof -
  have "normalize_email ''  A@B '' = ''a@b''" and "normalize_email ''a@b'' = ''a@b''"
    by (simp_all add: normalize_email_def strip_def lstrip_def lower_def py_isspace_def
        py_lower_char_def code_def Let_def char_of_def
        bit_iff_odd)
  moreover have "user_by_email auth_db ''a@b'' = Some sample_user"
    by (simp add: user_by_email_def auth_eval)
  ultimately show ?thesis
    by (auto simp: authenticate_accepts_iff sample_user_def rot_crypto_def)
qed

definition auth_env :: env where
  "auth_env = \<lparr>clk = (\<lambda>n. 50), fresh_id = (\<lambda>n. 9), fresh_token = (\<lambda>n. ''fresh''),
     phone_busy = (\<lambda>f. False), row_busy = (\<lambda>i. False)\<rparr>"

lemma reset_locks_out_witness:
  "\<exists>r d'. reset_password rot_crypto auth_env 7 1 auth_db = Inr (r, d')
     \<and> (\<forall>u. authenticate rot_crypto ''a@b'' ''pw'' None d' \<noteq> Inr (u\<lparr>us_id := 7\<rparr>))"
proof -
  obtain tok x d' where run: "reset_password rot_crypto auth_env 7 1 auth_db = Inr ((tok, x), d')"
    by (simp add: reset_password_def lock_user_def issue_with_expiry_def issue_activation_token_def
        Let_def revoke_all_for_user_def auth_env_def auth_eval)
  from reset_locks_out [OF run, of 0] run show ?thesis by fastforce
qed

end
