(* ===== verification/Standard_Dispositions.thy ===== *)
theory Standard_Dispositions
  imports Work_Complete "HOL-Library.Char_ord" "HOL-Library.List_Lexorder"
begin

text \<open>
  The locked manifest of seven call outcomes (\<open>app/campaigns/standard_dispositions.py\<close>) and
  its check against a campaign's rows (\<open>validate_standard_dispositions\<close> in
  \<open>app/campaigns/service.py\<close>). Each message of the check is a constructor carrying the values
  the message quotes.
\<close>

definition policy_version :: int where "policy_version = 1"

definition min_retry_delay_minutes :: int where "min_retry_delay_minutes = 5"

definition max_retry_delay_minutes :: int where "max_retry_delay_minutes = 10080"

definition default_no_answer_retry_minutes :: int where "default_no_answer_retry_minutes = 60"

definition default_unavailable_retry_minutes :: int where "default_unavailable_retry_minutes = 30"

record standard_disposition =
  sd_order :: int
  sd_label :: string
  sd_stable_semantic_code :: string
  sd_next_action :: "string option"
  sd_causes_dnc :: bool
  sd_requires_callback_time :: bool
  sd_counts_as_connected :: bool
  sd_terminal :: bool
  sd_immediate_redial :: bool
  sd_retry_delay_editable :: bool
  sd_default_retry_delay_minutes :: "int option"

definition standard_dispositions :: "standard_disposition list" where
  "standard_dispositions =
    [\<lparr>sd_order = 10, sd_label = ''Connected'', sd_stable_semantic_code = ''connected'',
      sd_next_action = Some ''complete'', sd_causes_dnc = False,
      sd_requires_callback_time = False, sd_counts_as_connected = True, sd_terminal = True,
      sd_immediate_redial = False, sd_retry_delay_editable = False,
      sd_default_retry_delay_minutes = None\<rparr>,
     \<lparr>sd_order = 20, sd_label = ''No Answer'', sd_stable_semantic_code = ''no_answer'',
      sd_next_action = Some ''retry_wait'', sd_causes_dnc = False,
      sd_requires_callback_time = False, sd_counts_as_connected = False, sd_terminal = False,
      sd_immediate_redial = False, sd_retry_delay_editable = True,
      sd_default_retry_delay_minutes = Some default_no_answer_retry_minutes\<rparr>,
     \<lparr>sd_order = 30, sd_label = ''Call Back Later'', sd_stable_semantic_code = ''callback_later'',
      sd_next_action = None, sd_causes_dnc = False,
      sd_requires_callback_time = True, sd_counts_as_connected = False, sd_terminal = False,
      sd_immediate_redial = False, sd_retry_delay_editable = False,
      sd_default_retry_delay_minutes = None\<rparr>,
     \<lparr>sd_order = 40, sd_label = ''Hung Up'', sd_stable_semantic_code = ''hung_up'',
      sd_next_action = Some ''immediate_redial'', sd_causes_dnc = False,
      sd_requires_callback_time = False, sd_counts_as_connected = False, sd_terminal = False,
      sd_immediate_redial = True, sd_retry_delay_editable = False,
      sd_default_retry_delay_minutes = None\<rparr>,
     \<lparr>sd_order = 50, sd_label = ''Number Disconnected'',
      sd_stable_semantic_code = ''number_disconnected'',
      sd_next_action = Some ''complete'', sd_causes_dnc = False,
      sd_requires_callback_time = False, sd_counts_as_connected = False, sd_terminal = True,
      sd_immediate_redial = False, sd_retry_delay_editable = False,
      sd_default_retry_delay_minutes = None\<rparr>,
     \<lparr>sd_order = 60, sd_label = ''Do Not Call'', sd_stable_semantic_code = ''explicit_dnc'',
      sd_next_action = None, sd_causes_dnc = True,
      sd_requires_callback_time = False, sd_counts_as_connected = False, sd_terminal = True,
      sd_immediate_redial = False, sd_retry_delay_editable = False,
      sd_default_retry_delay_minutes = None\<rparr>,
     \<lparr>sd_order = 70, sd_label = ''Unavailable'', sd_stable_semantic_code = ''unavailable'',
      sd_next_action = Some ''retry_wait'', sd_causes_dnc = False,
      sd_requires_callback_time = False, sd_counts_as_connected = False, sd_terminal = False,
      sd_immediate_redial = False, sd_retry_delay_editable = True,
      sd_default_retry_delay_minutes = Some default_unavailable_retry_minutes\<rparr>]"

text \<open>\<open>STANDARD_DISPOSITIONS_BY_CODE.get(code)\<close>\<close>

definition standard_disposition_by_code :: "string \<Rightarrow> standard_disposition option" where
  "standard_disposition_by_code c = row_get sd_stable_semantic_code c standard_dispositions"

definition retry_delay_in_range :: "int \<Rightarrow> bool" where
  "retry_delay_in_range m \<longleftrightarrow> min_retry_delay_minutes \<le> m \<and> m \<le> max_retry_delay_minutes"

section \<open>Validation\<close>

datatype policy_defect =
  Unexpected_disposition string | Missing_outcome string | Wrong_label string string
| Wrong_order string int | Not_standard string | Wrong_next_action string "string option"
| Wrong_causes_dnc string bool | Wrong_requires_callback_time string bool
| Wrong_counts_as_connected string bool | Wrong_immediate_redial string bool
| Retry_delay_out_of_range string | Unexpected_retry_delay string

text \<open>\<open>{row.stable_semantic_code: row for row in rows}.get(code)\<close>: a later row replaces an earlier one.\<close>

definition by_code :: "disposition list \<Rightarrow> string \<Rightarrow> disposition option" where
  "by_code rows c = find (\<lambda>r. di_stable_semantic_code r = c) (rev rows)"

definition active_dispositions :: "db \<Rightarrow> campaign \<Rightarrow> disposition list" where
  "active_dispositions d ca =
     filter (\<lambda>r. di_campaign_id r = ca_id ca \<and> di_active r) (dispositions d)"

text \<open>The messages for one entry of the manifest whose row is present.\<close>

definition row_defects :: "standard_disposition \<Rightarrow> disposition \<Rightarrow> policy_defect list" where
  "row_defects entry row =
     (let c = sd_stable_semantic_code entry in
      (if di_label row \<noteq> sd_label entry then [Wrong_label c (sd_label entry)] else [])
      @ (if di_display_order row \<noteq> sd_order entry then [Wrong_order c (sd_order entry)] else [])
      @ (if \<not> di_is_standard row then [Not_standard c] else [])
      @ (if di_next_action row \<noteq> sd_next_action entry
         then [Wrong_next_action c (sd_next_action entry)] else [])
      @ (if di_causes_dnc row \<noteq> sd_causes_dnc entry
         then [Wrong_causes_dnc c (sd_causes_dnc entry)] else [])
      @ (if di_requires_callback_time row \<noteq> sd_requires_callback_time entry
         then [Wrong_requires_callback_time c (sd_requires_callback_time entry)] else [])
      @ (if di_counts_as_connected row \<noteq> sd_counts_as_connected entry
         then [Wrong_counts_as_connected c (sd_counts_as_connected entry)] else [])
      @ (if di_immediate_redial row \<noteq> sd_immediate_redial entry
         then [Wrong_immediate_redial c (sd_immediate_redial entry)] else [])
      @ (if sd_retry_delay_editable entry
         then (case di_retry_delay_minutes row of
                 None \<Rightarrow> [Retry_delay_out_of_range c]
               | Some m \<Rightarrow> if retry_delay_in_range m then [] else [Retry_delay_out_of_range c])
         else if di_retry_delay_minutes row \<noteq> None then [Unexpected_retry_delay c] else []))"

definition entry_defects :: "disposition list \<Rightarrow> standard_disposition \<Rightarrow> policy_defect list" where
  "entry_defects rows entry =
     (case by_code rows (sd_stable_semantic_code entry) of
        None \<Rightarrow> [Missing_outcome (sd_stable_semantic_code entry)]
      | Some row \<Rightarrow> row_defects entry row)"

text \<open>\<open>sorted(set(by_code) - set(STANDARD_DISPOSITIONS_BY_CODE))\<close>\<close>

definition unexpected_codes :: "disposition list \<Rightarrow> string list" where
  "unexpected_codes rows =
     sort (filter (\<lambda>c. standard_disposition_by_code c = None)
       (fromkeys (map di_stable_semantic_code rows)))"

record policy_validation =
  pv_valid :: bool
  pv_errors :: "policy_defect list"

definition validate_standard_dispositions :: "db \<Rightarrow> campaign \<Rightarrow> policy_validation" where
  "validate_standard_dispositions d ca =
     (let rows = active_dispositions d ca;
          errors = map Unexpected_disposition (unexpected_codes rows)
                   @ concat (map (entry_defects rows) standard_dispositions)
      in \<lparr>pv_valid = (errors = []), pv_errors = errors\<rparr>)"

section \<open>What a valid policy is\<close>

lemma standard_codes: "map sd_stable_semantic_code standard_dispositions =
   [''connected'', ''no_answer'', ''callback_later'', ''hung_up'', ''number_disconnected'',
    ''explicit_dnc'', ''unavailable'']"
  by (simp add: standard_dispositions_def)

lemma by_code_Some: "by_code rows c = Some r \<Longrightarrow> r \<in> set rows \<and> di_stable_semantic_code r = c"
  by (auto simp: by_code_def dest: find_SomeD)

lemma by_code_None: "by_code rows c = None \<longleftrightarrow> c \<notin> di_stable_semantic_code ` set rows"
  by (auto simp: by_code_def find_None_iff)

lemma by_code_distinct:
  assumes "distinct (map di_stable_semantic_code rows)" and "r \<in> set rows"
  shows "by_code rows (di_stable_semantic_code r) = Some r"
proof -
  have "distinct (map di_stable_semantic_code (rev rows))"
    using assms(1) by (simp add: rev_map [symmetric])
  then show ?thesis
    using row_get_distinct [of di_stable_semantic_code "rev rows" r] assms(2)
    by (simp add: by_code_def row_get_def)
qed

text \<open>The row shows exactly the behaviour its manifest entry fixes.\<close>

definition row_conforms :: "standard_disposition \<Rightarrow> disposition \<Rightarrow> bool" where
  "row_conforms entry row \<longleftrightarrow>
     di_label row = sd_label entry \<and> di_display_order row = sd_order entry \<and> di_is_standard row
     \<and> di_next_action row = sd_next_action entry \<and> di_causes_dnc row = sd_causes_dnc entry
     \<and> di_requires_callback_time row = sd_requires_callback_time entry
     \<and> di_counts_as_connected row = sd_counts_as_connected entry
     \<and> di_immediate_redial row = sd_immediate_redial entry
     \<and> (if sd_retry_delay_editable entry
        then \<exists>m. di_retry_delay_minutes row = Some m \<and> retry_delay_in_range m
        else di_retry_delay_minutes row = None)"

lemma row_defects_none: "row_defects entry row = [] \<longleftrightarrow> row_conforms entry row"
  by (auto simp: row_defects_def row_conforms_def Let_def split: option.splits)

lemma valid_policy_iff:
  "pv_valid (validate_standard_dispositions d ca) \<longleftrightarrow>
     (\<forall>r \<in> set (active_dispositions d ca).
        standard_disposition_by_code (di_stable_semantic_code r) \<noteq> None)
     \<and> (\<forall>entry \<in> set standard_dispositions. \<exists>row.
          by_code (active_dispositions d ca) (sd_stable_semantic_code entry) = Some row
          \<and> row_conforms entry row)"
proof -
  have "unexpected_codes rows = [] \<longleftrightarrow>
      (\<forall>r \<in> set rows. standard_disposition_by_code (di_stable_semantic_code r) \<noteq> None)" for rows
  proof -
    have "unexpected_codes rows = [] \<longleftrightarrow> set (unexpected_codes rows) = {}" by simp
    also have "\<dots> \<longleftrightarrow> (\<forall>r \<in> set rows. standard_disposition_by_code (di_stable_semantic_code r) \<noteq> None)"
      by (auto simp: unexpected_codes_def)
    finally show ?thesis .
  qed
  moreover have "entry_defects rows entry = [] \<longleftrightarrow>
      (\<exists>row. by_code rows (sd_stable_semantic_code entry) = Some row \<and> row_conforms entry row)"
    for rows entry
    by (simp add: entry_defects_def row_defects_none split: option.splits)
  ultimately show ?thesis by (simp add: validate_standard_dispositions_def Let_def)
qed

end
