(* ===== verification/Campaigns.thy ===== *)
theory Campaigns
  imports Work_Queue Standard_Dispositions
begin

text \<open>
  Campaign lifecycle, staffing and dispositions (\<open>app/campaigns/service.py\<close>). An operation
  takes the row its caller loaded, or the row's key; a raised exception is a constructor of
  \<open>campaign_error\<close> carrying the values its message quotes. The constraints of
  \<open>campaign_disposition_definitions\<close> and the unique campaign code are checked at the flush.
\<close>

datatype campaign_error =
  Empty_code | Code_too_long | Code_with_whitespace | Duplicate_campaign_code string
| Only_draft_editable | Cannot_launch campaign_status | Missing_provenance "string list"
| No_contacts | Invalid_policy "policy_defect list" | Launch_disabled flag_error
| Cannot_pause campaign_status | Cannot_archive campaign_status
| At_staffing_capacity nat int | Already_has_primary | Same_campaign | No_primary_on_source
| Destination_not_active
| Dnc_needs_protected_code | Protected_code_needs_dnc | Unknown_next_action
| Retry_delay_range | Install_needs_draft | Policy_already_installed | Dispositions_exist
| No_configurable_delay string | Delay_needs_draft | Not_configured string
| Campaign_integrity string

section \<open>Codes\<close>

definition normalize_campaign_code :: "string \<Rightarrow> campaign_error + string" where
  "normalize_campaign_code external_code =
     (let cleaned = strip external_code in
      if cleaned = '''' then Inl Empty_code
      else if length cleaned > 50 then Inl Code_too_long
      else if list_ex py_isspace cleaned then Inl Code_with_whitespace
      else Inr cleaned)"

section \<open>Staffing\<close>

definition check_staffing_capacity ::
  "time \<Rightarrow> uuid \<Rightarrow> uuid option \<Rightarrow> db \<Rightarrow> campaign_error option" where
  "check_staffing_capacity now campaign_id team_id d =
     (case team_id of
        None \<Rightarrow> None
      | Some t \<Rightarrow>
          (case find (\<lambda>a. ta_campaign_id a = campaign_id \<and> ta_team_id a = t
                    \<and> ta_status a = Row_active
                    \<and> effective_at (ta_effective_from a) (ta_effective_to a) now)
                  (team_assignments d) of
             None \<Rightarrow> None
           | Some a \<Rightarrow>
               (case ta_staffing_capacity a of
                  None \<Rightarrow> None
                | Some capacity \<Rightarrow>
                    let current_count = count_where (\<lambda>u. ua_campaign_id u = campaign_id
                          \<and> ua_team_id u = Some t \<and> ua_status u = Row_active
                          \<and> ua_effective_to u = None) (user_assignments d)
                    in if int current_count \<ge> capacity
                       then Some (At_staffing_capacity current_count capacity) else None)))"

definition assign_team_to_campaign ::
  "env \<Rightarrow> campaign \<Rightarrow> uuid \<Rightarrow> int option \<Rightarrow> uuid \<Rightarrow> db \<Rightarrow> team_assignment \<times> db" where
  "assign_team_to_campaign e ca team_id staffing_capacity actor_id d =
     (let a = \<lparr>ta_id = fresh_id e 0, ta_campaign_id = ca_id ca, ta_team_id = team_id,
                ta_effective_from = clk e 0, ta_effective_to = None, ta_status = Row_active,
                ta_staffing_capacity = staffing_capacity, ta_assigned_by = Some actor_id\<rparr>
      in (a, record_audit ''campaign.team_assignment.create'' ''success'' (Some actor_id)
               (Some ''campaign'') (Some (ca_id ca)) None [(''team_id'', JId team_id)]
               (d\<lparr>team_assignments := team_assignments d @ [a]\<rparr>)))"

definition end_team_assignment ::
  "env \<Rightarrow> team_assignment \<Rightarrow> uuid \<Rightarrow> db \<Rightarrow> team_assignment \<times> db" where
  "end_team_assignment e a actor_id d =
     (let a' = a\<lparr>ta_status := Row_ended, ta_effective_to := Some (clk e 0)\<rparr>
      in (a', record_audit ''campaign.team_assignment.end'' ''success'' (Some actor_id)
                (Some ''campaign'') (Some (ta_campaign_id a)) None
                [(''team_id'', JId (ta_team_id a))]
                (d\<lparr>team_assignments := row_put ta_id a' (team_assignments d)\<rparr>)))"

definition active_primary :: "uuid \<Rightarrow> user_assignment \<Rightarrow> bool" where
  "active_primary agent_id u \<longleftrightarrow> ua_user_id u = agent_id \<and> ua_assignment_type u = ''primary''
     \<and> ua_status u = Row_active \<and> ua_effective_to u = None"

definition new_user_assignment ::
  "env \<Rightarrow> uuid \<Rightarrow> time \<Rightarrow> uuid \<Rightarrow> uuid option \<Rightarrow> uuid \<Rightarrow> string \<Rightarrow> user_assignment" where
  "new_user_assignment e campaign_id now agent_id team_id actor_id assignment_type =
     \<lparr>ua_id = fresh_id e 0, ua_campaign_id = campaign_id, ua_user_id = agent_id,
      ua_team_id = team_id, ua_campaign_role = ''agent'', ua_assignment_type = assignment_type,
      ua_effective_from = now, ua_effective_to = None, ua_status = Row_active,
      ua_priority = None, ua_allocation_percentage = None, ua_shift_reference = None,
      ua_assigned_by = Some actor_id\<rparr>"

definition assign_agent_to_campaign ::
  "env \<Rightarrow> campaign \<Rightarrow> uuid \<Rightarrow> uuid option \<Rightarrow> uuid \<Rightarrow> string \<Rightarrow> int option \<Rightarrow> int option
   \<Rightarrow> string option \<Rightarrow> db \<Rightarrow> (campaign_error, user_assignment, db) outcome" where
  "assign_agent_to_campaign e ca agent_id team_id actor_id assignment_type priority
       allocation_percentage shift_reference d =
     (if assignment_type = ''primary'' \<and> find (active_primary agent_id) (user_assignments d) \<noteq> None
      then Inl Already_has_primary
      else
        case check_staffing_capacity (clk e 0) (ca_id ca) team_id d of
          Some err \<Rightarrow> Inl err
        | None \<Rightarrow>
            let a = (new_user_assignment e (ca_id ca) (clk e 1) agent_id team_id actor_id
                       assignment_type)\<lparr>ua_priority := priority,
                       ua_allocation_percentage := allocation_percentage,
                       ua_shift_reference := shift_reference\<rparr>
            in Inr (a, record_audit ''campaign.assignment.create'' ''success'' (Some actor_id)
                         (Some ''campaign'') (Some (ca_id ca)) None
                         [(''agent_id'', JId agent_id), (''assignment_type'', JStr assignment_type)]
                         (d\<lparr>user_assignments := user_assignments d @ [a]\<rparr>)))"

definition ended_assignment :: "time \<Rightarrow> user_assignment \<Rightarrow> user_assignment" where
  "ended_assignment now a = a\<lparr>ua_status := Row_ended, ua_effective_to := Some now\<rparr>"

definition end_user_assignment ::
  "env \<Rightarrow> user_assignment \<Rightarrow> uuid \<Rightarrow> string option \<Rightarrow> db \<Rightarrow> user_assignment \<times> db" where
  "end_user_assignment e a actor_id reason_code d =
     (let a' = ended_assignment (clk e 0) a;
          d1 = d\<lparr>user_assignments := row_put ua_id a' (user_assignments d)\<rparr>;
          (released, d2) = release_campaign_work_for_agent e (ua_user_id a) (ua_campaign_id a) d1
      in (a', record_audit ''campaign.assignment.end'' ''success'' (Some actor_id)
                (Some ''campaign'') (Some (ua_campaign_id a)) reason_code
                [(''agent_id'', JId (ua_user_id a)),
                 (''work_items_released'', JInt (int released))] d2))"

definition primary_on :: "uuid \<Rightarrow> uuid \<Rightarrow> user_assignment \<Rightarrow> bool" where
  "primary_on agent_id campaign_id u \<longleftrightarrow> active_primary agent_id u \<and> ua_campaign_id u = campaign_id"

definition transfer_agent ::
  "env \<Rightarrow> uuid \<Rightarrow> campaign \<Rightarrow> campaign \<Rightarrow> uuid option \<Rightarrow> uuid \<Rightarrow> string option \<Rightarrow> db
   \<Rightarrow> (campaign_error, user_assignment, db) outcome" where
  "transfer_agent e agent_id from_campaign to_campaign team_id actor_id reason_code d =
     (if ca_id from_campaign = ca_id to_campaign then Inl Same_campaign
      else
        case find (primary_on agent_id (ca_id from_campaign)) (user_assignments d) of
          None \<Rightarrow> Inl No_primary_on_source
        | Some source \<Rightarrow>
            (if ca_status to_campaign \<noteq> Active then Inl Destination_not_active
             else
               case check_staffing_capacity (clk e 0) (ca_id to_campaign) team_id d of
                 Some err \<Rightarrow> Inl err
               | None \<Rightarrow>
                   let now = clk e 1;
                       d1 = d\<lparr>user_assignments :=
                                row_put ua_id (ended_assignment now source) (user_assignments d)\<rparr>;
                       (released, d2) =
                         release_campaign_work_for_agent e agent_id (ca_id from_campaign) d1;
                       destination = new_user_assignment e (ca_id to_campaign) now agent_id
                                       team_id actor_id ''primary'';
                       d3 = d2\<lparr>user_assignments := user_assignments d2 @ [destination]\<rparr>
                   in Inr (destination,
                        record_audit ''campaign.assignment.transfer'' ''success'' (Some actor_id)
                          (Some ''campaign'') (Some (ca_id to_campaign)) reason_code
                          [(''agent_id'', JId agent_id),
                           (''from_campaign_id'', JId (ca_id from_campaign)),
                           (''to_campaign_id'', JId (ca_id to_campaign)),
                           (''work_items_released'', JInt (int released))] d3)))"

section \<open>Lifecycle\<close>

record campaign_request =
  cq_created_by :: uuid
  cq_external_code :: string
  cq_name :: string
  cq_description :: "string option"
  cq_owning_scope_type :: string
  cq_owning_scope_id :: "uuid option"
  cq_default_region :: string
  cq_timezone :: string
  cq_purpose :: "string option"
  cq_data_source :: "string option"
  cq_data_obtained_at :: "time option"
  cq_lawful_basis :: "string option"

definition create_campaign ::
  "env \<Rightarrow> campaign_request \<Rightarrow> db \<Rightarrow> (campaign_error, campaign, db) outcome" where
  "create_campaign e q d =
     (case normalize_campaign_code (cq_external_code q) of
        Inl err \<Rightarrow> Inl err
      | Inr external_code \<Rightarrow>
          (if find (\<lambda>c. ca_external_code c = external_code) (campaigns d) \<noteq> None
           then Inl (Duplicate_campaign_code external_code)
           else
             let ca = \<lparr>ca_id = fresh_id e 0, ca_owning_scope_type = cq_owning_scope_type q,
                   ca_owning_scope_id = cq_owning_scope_id q, ca_external_code = external_code,
                   ca_name = cq_name q, ca_description = cq_description q,
                   ca_purpose = cq_purpose q, ca_data_source = cq_data_source q,
                   ca_data_obtained_at = cq_data_obtained_at q,
                   ca_lawful_basis = cq_lawful_basis q,
                   ca_default_region = cq_default_region q, ca_timezone = cq_timezone q,
                   ca_status = Draft, ca_created_by = Some (cq_created_by q),
                   ca_launched_at = None, ca_archived_at = None, ca_completed_at = None,
                   ca_retention_delete_after = None, ca_disposition_policy_version = None\<rparr>
             in Inr (ca, record_audit ''campaign.create'' ''success'' (Some (cq_created_by q))
                           (Some ''campaign'') (Some (ca_id ca)) None []
                           (d\<lparr>campaigns := campaigns d @ [ca]\<rparr>))))"

text \<open>The keyword arguments of \<open>update_campaign\<close>; an absent one and \<open>None\<close> act alike.\<close>

record campaign_fields =
  cf_name :: "string option"
  cf_description :: "string option"
  cf_default_region :: "string option"
  cf_timezone :: "string option"
  cf_purpose :: "string option"
  cf_data_source :: "string option"
  cf_data_obtained_at :: "time option"
  cf_lawful_basis :: "string option"

definition given :: "'a option \<Rightarrow> 'a \<Rightarrow> 'a" where
  "given v old = (case v of None \<Rightarrow> old | Some x \<Rightarrow> x)"

definition given_opt :: "'a option \<Rightarrow> 'a option \<Rightarrow> 'a option" where
  "given_opt v old = (case v of None \<Rightarrow> old | Some x \<Rightarrow> Some x)"

definition set_fields :: "campaign_fields \<Rightarrow> campaign \<Rightarrow> campaign" where
  "set_fields f ca = ca\<lparr>ca_name := given (cf_name f) (ca_name ca),
     ca_description := given_opt (cf_description f) (ca_description ca),
     ca_default_region := given (cf_default_region f) (ca_default_region ca),
     ca_timezone := given (cf_timezone f) (ca_timezone ca),
     ca_purpose := given_opt (cf_purpose f) (ca_purpose ca),
     ca_data_source := given_opt (cf_data_source f) (ca_data_source ca),
     ca_data_obtained_at := given_opt (cf_data_obtained_at f) (ca_data_obtained_at ca),
     ca_lawful_basis := given_opt (cf_lawful_basis f) (ca_lawful_basis ca)\<rparr>"

definition save_campaign :: "string \<Rightarrow> uuid \<Rightarrow> (string \<times> json) list \<Rightarrow> campaign \<Rightarrow> db \<Rightarrow> campaign \<times> db" where
  "save_campaign action actor_id metadata ca d =
     (ca, record_audit action ''success'' (Some actor_id) (Some ''campaign'') (Some (ca_id ca))
            None metadata (put_campaign ca d))"

definition update_campaign ::
  "campaign \<Rightarrow> uuid \<Rightarrow> campaign_fields \<Rightarrow> db \<Rightarrow> (campaign_error, campaign, db) outcome" where
  "update_campaign ca actor_id changes d =
     (if ca_status ca \<noteq> Draft then Inl Only_draft_editable
      else Inr (save_campaign ''campaign.update'' actor_id [] (set_fields changes ca) d))"

definition missing_provenance :: "campaign \<Rightarrow> string list" where
  "missing_provenance ca =
     (if blank (ca_data_source ca) then [''data_source''] else [])
     @ (if blank (ca_purpose ca) then [''purpose''] else [])
     @ (if ca_data_obtained_at ca = None then [''data_obtained_at''] else [])
     @ (if blank (ca_lawful_basis ca) then [''lawful_basis_or_consent_reference''] else [])"

definition launch_campaign ::
  "env \<Rightarrow> campaign \<Rightarrow> uuid \<Rightarrow> db \<Rightarrow> (campaign_error, campaign, db) outcome" where
  "launch_campaign e ca actor_id d =
     (case require_enabled d ''campaign_launch_enabled'' of
        Some err \<Rightarrow> Inl (Launch_disabled err)
      | None \<Rightarrow>
          (if ca_status ca \<noteq> Draft then Inl (Cannot_launch (ca_status ca))
           else if missing_provenance ca \<noteq> [] then Inl (Missing_provenance (missing_provenance ca))
           else
             let contact_count = count_where (\<lambda>c. cc_campaign_id c = ca_id ca) (campaign_contacts d) in
             if contact_count = 0 then Inl No_contacts
             else if ca_disposition_policy_version ca = Some policy_version
                     \<and> \<not> pv_valid (validate_standard_dispositions d ca)
             then Inl (Invalid_policy (pv_errors (validate_standard_dispositions d ca)))
             else Inr (save_campaign ''campaign.launch'' actor_id
                         [(''contacts'', JInt (int contact_count))]
                         (ca\<lparr>ca_status := Active, ca_launched_at := Some (clk e 0)\<rparr>) d)))"

definition pause_campaign ::
  "campaign \<Rightarrow> uuid \<Rightarrow> db \<Rightarrow> (campaign_error, campaign, db) outcome" where
  "pause_campaign ca actor_id d =
     (if ca_status ca \<noteq> Active then Inl (Cannot_pause (ca_status ca))
      else Inr (save_campaign ''campaign.pause'' actor_id [] (ca\<lparr>ca_status := Paused\<rparr>) d))"

definition archive_campaign ::
  "env \<Rightarrow> campaign \<Rightarrow> uuid \<Rightarrow> db \<Rightarrow> (campaign_error, campaign, db) outcome" where
  "archive_campaign e ca actor_id d =
     (if ca_status ca \<notin> {Active, Paused, Draft} then Inl (Cannot_archive (ca_status ca))
      else Inr (save_campaign ''campaign.archive'' actor_id []
                  (ca\<lparr>ca_status := Archived, ca_archived_at := Some (clk e 0)\<rparr>) d))"

section \<open>Dispositions\<close>

definition protected_dnc_semantic_codes :: "string set" where
  "protected_dnc_semantic_codes = {''explicit_dnc''}"

text \<open>The check and unique constraints of \<open>campaign_disposition_definitions\<close>.\<close>

definition disposition_row_ok :: "disposition \<Rightarrow> bool" where
  "disposition_row_ok r \<longleftrightarrow>
     (case di_retry_delay_minutes r of None \<Rightarrow> True | Some m \<Rightarrow> 5 \<le> m \<and> m \<le> 10080)
     \<and> \<not> (di_immediate_redial r \<and> (di_requires_callback_time r \<or> di_causes_dnc r))"

definition flush_dispositions ::
  "disposition list \<Rightarrow> db \<Rightarrow> campaign_error + db" where
  "flush_dispositions new d =
     (let rows = dispositions d @ new in
      if \<not> list_all disposition_row_ok new
      then Inl (Campaign_integrity ''ck_campaign_disposition_definitions'')
      else if \<not> distinct (map (\<lambda>r. (di_campaign_id r, di_stable_semantic_code r)) rows)
      then Inl (Campaign_integrity ''uq_disposition_campaign_code'')
      else Inr (d\<lparr>dispositions := rows\<rparr>))"

record disposition_request =
  dq_label :: string
  dq_stable_semantic_code :: string
  dq_next_action :: "string option"
  dq_requires_notes :: bool
  dq_requires_callback_time :: bool
  dq_counts_as_connected :: bool
  dq_counts_as_conversion :: bool
  dq_causes_dnc :: bool

definition custom_disposition :: "env \<Rightarrow> campaign \<Rightarrow> disposition_request \<Rightarrow> disposition" where
  "custom_disposition e ca q =
     \<lparr>di_id = fresh_id e 0, di_campaign_id = ca_id ca, di_label = dq_label q,
      di_stable_semantic_code = dq_stable_semantic_code q, di_next_action = dq_next_action q,
      di_requires_notes = dq_requires_notes q,
      di_requires_callback_time = dq_requires_callback_time q,
      di_counts_as_connected = dq_counts_as_connected q,
      di_counts_as_conversion = dq_counts_as_conversion q, di_causes_dnc = dq_causes_dnc q,
      di_display_order = 0, di_active = True, di_is_standard = False,
      di_retry_delay_minutes = None, di_immediate_redial = False, di_policy_version = None\<rparr>"

definition create_disposition ::
  "env \<Rightarrow> campaign \<Rightarrow> uuid \<Rightarrow> disposition_request \<Rightarrow> db \<Rightarrow> (campaign_error, disposition, db) outcome" where
  "create_disposition e ca actor_id q d =
     (if dq_causes_dnc q \<and> dq_stable_semantic_code q \<notin> protected_dnc_semantic_codes
      then Inl Dnc_needs_protected_code
      else if dq_stable_semantic_code q \<in> protected_dnc_semantic_codes \<and> \<not> dq_causes_dnc q
      then Inl Protected_code_needs_dnc
      else if dq_next_action q \<notin> {None, Some ''complete'', Some ''review'', Some ''requeue''}
      then Inl Unknown_next_action
      else
        case flush_dispositions [custom_disposition e ca q] d of
          Inl err \<Rightarrow> Inl err
        | Inr d1 \<Rightarrow>
            Inr (custom_disposition e ca q,
              record_audit ''campaign.disposition.create'' ''success'' (Some actor_id)
                (Some ''campaign'') (Some (ca_id ca)) None
                [(''stable_semantic_code'', JStr (dq_stable_semantic_code q)),
                 (''causes_dnc'', JBool (dq_causes_dnc q))] d1))"

definition validate_retry_delay :: "int \<Rightarrow> campaign_error option" where
  "validate_retry_delay m = (if retry_delay_in_range m then None else Some Retry_delay_range)"

definition retry_override :: "int option \<Rightarrow> int option \<Rightarrow> string \<Rightarrow> int option" where
  "retry_override no_answer unavailable c =
     (if c = ''no_answer'' then no_answer else if c = ''unavailable'' then unavailable else None)"

definition installed_delay :: "int option \<Rightarrow> int option \<Rightarrow> standard_disposition \<Rightarrow> int option" where
  "installed_delay no_answer unavailable entry =
     (if sd_retry_delay_editable entry
      then (case retry_override no_answer unavailable (sd_stable_semantic_code entry) of
              None \<Rightarrow> sd_default_retry_delay_minutes entry | Some m \<Rightarrow> Some m)
      else sd_default_retry_delay_minutes entry)"

definition standard_row ::
  "uuid \<Rightarrow> campaign \<Rightarrow> int option \<Rightarrow> int option \<Rightarrow> standard_disposition \<Rightarrow> disposition" where
  "standard_row i ca no_answer unavailable entry =
     \<lparr>di_id = i, di_campaign_id = ca_id ca, di_label = sd_label entry,
      di_stable_semantic_code = sd_stable_semantic_code entry,
      di_next_action = sd_next_action entry, di_requires_notes = False,
      di_requires_callback_time = sd_requires_callback_time entry,
      di_counts_as_connected = sd_counts_as_connected entry, di_counts_as_conversion = False,
      di_causes_dnc = sd_causes_dnc entry, di_display_order = sd_order entry, di_active = True,
      di_is_standard = True, di_retry_delay_minutes = installed_delay no_answer unavailable entry,
      di_immediate_redial = sd_immediate_redial entry, di_policy_version = Some policy_version\<rparr>"

definition standard_rows :: "env \<Rightarrow> campaign \<Rightarrow> int option \<Rightarrow> int option \<Rightarrow> disposition list" where
  "standard_rows e ca no_answer unavailable =
     map (\<lambda>(i, entry). standard_row (fresh_id e i) ca no_answer unavailable entry)
       (List.enumerate 0 standard_dispositions)"

text \<open>The delay of the row just installed for a code.\<close>

definition delay_of :: "string \<Rightarrow> disposition list \<Rightarrow> json" where
  "delay_of c rows =
     (case by_code rows c of
        None \<Rightarrow> JNull
      | Some r \<Rightarrow> (case di_retry_delay_minutes r of None \<Rightarrow> JNull | Some m \<Rightarrow> JInt m))"

definition install_standard_dispositions ::
  "env \<Rightarrow> campaign \<Rightarrow> uuid \<Rightarrow> int option \<Rightarrow> int option \<Rightarrow> db
   \<Rightarrow> (campaign_error, disposition list, db) outcome" where
  "install_standard_dispositions e ca actor_id no_answer unavailable d =
     (if ca_status ca \<noteq> Draft then Inl Install_needs_draft
      else if ca_disposition_policy_version ca \<noteq> None then Inl Policy_already_installed
      else if count_where (\<lambda>r. di_campaign_id r = ca_id ca) (dispositions d) \<noteq> 0
      then Inl Dispositions_exist
      else
        case List.map_filter validate_retry_delay (List.map_filter id [no_answer, unavailable]) of
          err # _ \<Rightarrow> Inl err
        | [] \<Rightarrow>
            let created = standard_rows e ca no_answer unavailable in
            (case flush_dispositions created d of
               Inl err \<Rightarrow> Inl err
             | Inr d1 \<Rightarrow>
                 Inr (created,
                   snd (save_campaign ''campaign.disposition_policy.install'' actor_id
                     [(''policy_version'', JInt policy_version),
                      (''no_answer_retry_minutes'', delay_of ''no_answer'' created),
                      (''unavailable_retry_minutes'', delay_of ''unavailable'' created)]
                     (ca\<lparr>ca_disposition_policy_version := Some policy_version\<rparr>) d1))))"

definition update_retry_policy ::
  "campaign \<Rightarrow> string \<Rightarrow> int \<Rightarrow> uuid \<Rightarrow> db \<Rightarrow> (campaign_error, disposition, db) outcome" where
  "update_retry_policy ca stable_semantic_code retry_delay_minutes actor_id d =
     (case standard_disposition_by_code stable_semantic_code of
        None \<Rightarrow> Inl (No_configurable_delay stable_semantic_code)
      | Some entry \<Rightarrow>
          (if \<not> sd_retry_delay_editable entry then Inl (No_configurable_delay stable_semantic_code)
           else if ca_status ca \<noteq> Draft then Inl Delay_needs_draft
           else if validate_retry_delay retry_delay_minutes \<noteq> None then Inl Retry_delay_range
           else
             case find (\<lambda>r. di_campaign_id r = ca_id ca
                   \<and> di_stable_semantic_code r = stable_semantic_code) (dispositions d) of
               None \<Rightarrow> Inl (Not_configured stable_semantic_code)
             | Some row \<Rightarrow>
                 let row' = row\<lparr>di_retry_delay_minutes := Some retry_delay_minutes\<rparr> in
                 Inr (row', record_audit ''campaign.retry_policy.update'' ''success'' (Some actor_id)
                   (Some ''campaign'') (Some (ca_id ca)) None
                   [(''stable_semantic_code'', JStr stable_semantic_code),
                    (''retry_delay_minutes'', JInt retry_delay_minutes)]
                   (d\<lparr>dispositions := row_put di_id row' (dispositions d)\<rparr>))))"

end
