(* ===== verification/Campaign_Properties.thy ===== *)
theory Campaign_Properties
  imports Campaigns Work_Outcomes Work_Lemmas Db_Prelude
begin

text \<open>
  The campaign service operation by operation: the standard policy installs valid, stays valid
  under its two adjustable delays and is broken by a free-form addition; what its outcomes do
  to a completed item; staffing, transfer, and launching.
\<close>

section \<open>Installing the standard policy\<close>

lemma standard_rows_codes:
  "map di_stable_semantic_code (standard_rows e ca na un) = map sd_stable_semantic_code standard_dispositions"
  by (simp add: standard_rows_def standard_dispositions_def standard_row_def)

lemma standard_rows_campaign: "r \<in> set (standard_rows e ca na un) \<Longrightarrow> di_campaign_id r = ca_id ca"
  by (auto simp: standard_rows_def standard_row_def)

lemma standard_rows_mem:
  assumes "r \<in> set (standard_rows e ca na un)"
  obtains i entry where "entry \<in> set standard_dispositions" and "r = standard_row i ca na un entry"
proof -
  from assms obtain n where "n < length standard_dispositions"
    and "r = standard_row (fresh_id e n) ca na un (standard_dispositions ! n)"
    by (auto simp: standard_rows_def in_set_enumerate_eq)
  then show thesis using that nth_mem by blast
qed

lemma standard_entry_row:
  assumes "entry \<in> set standard_dispositions"
  shows "\<exists>i. standard_row i ca na un entry \<in> set (standard_rows e ca na un)"
proof -
  from assms obtain n where "n < length standard_dispositions" "standard_dispositions ! n = entry"
    by (auto simp: in_set_conv_nth)
  then have "(n, entry) \<in> set (List.enumerate 0 standard_dispositions)"
    by (auto simp: in_set_enumerate_eq)
  then show ?thesis by (force simp: standard_rows_def)
qed

lemma standard_codes_distinct: "distinct (map sd_stable_semantic_code standard_dispositions)"
  by (simp add: standard_dispositions_def)

lemma standard_by_code:
  "entry \<in> set standard_dispositions \<Longrightarrow>
     standard_disposition_by_code (sd_stable_semantic_code entry) = Some entry"
  unfolding standard_disposition_by_code_def
  by (rule row_get_distinct [OF standard_codes_distinct])

definition delays_ok :: "int option \<Rightarrow> int option \<Rightarrow> bool" where
  "delays_ok no_answer unavailable \<longleftrightarrow>
     (\<forall>m. no_answer = Some m \<or> unavailable = Some m \<longrightarrow> retry_delay_in_range m)"

lemmas retry_bounds = retry_delay_in_range_def min_retry_delay_minutes_def
  max_retry_delay_minutes_def default_no_answer_retry_minutes_def
  default_unavailable_retry_minutes_def

lemma standard_row_conforms:
  "entry \<in> set standard_dispositions \<Longrightarrow> delays_ok na un
   \<Longrightarrow> row_conforms entry (standard_row i ca na un entry)"
  by (auto simp: standard_dispositions_def row_conforms_def standard_row_def installed_delay_def
      retry_override_def delays_ok_def retry_bounds split: option.splits)

lemma conforms_row_ok:
  "row_conforms entry r \<Longrightarrow> entry \<in> set standard_dispositions \<Longrightarrow> disposition_row_ok r"
  by (auto simp: row_conforms_def disposition_row_ok_def standard_dispositions_def retry_bounds)

lemma install_Inr:
  assumes "install_standard_dispositions e ca u na un d = Inr (rows, d')"
  shows "ca_status ca = Draft \<and> ca_disposition_policy_version ca = None
    \<and> (\<forall>r \<in> set (dispositions d). di_campaign_id r \<noteq> ca_id ca) \<and> delays_ok na un
    \<and> rows = standard_rows e ca na un \<and> dispositions d' = dispositions d @ rows
    \<and> campaigns d' = row_put ca_id (ca\<lparr>ca_disposition_policy_version := Some policy_version\<rparr>) (campaigns d)
    \<and> user_assignments d' = user_assignments d \<and> work_items d' = work_items d"
  using assms
  by (cases na; cases un)
    (auto simp: install_standard_dispositions_def Let_def List.map_filter_simps validate_retry_delay_def
      delays_ok_def flush_dispositions_def save_campaign_def count_where_0
      split: if_splits)

text \<open>What an active row of the campaign after installing is.\<close>

lemma installed_active:
  assumes "\<forall>r \<in> set ds. di_campaign_id r \<noteq> ca_id ca"
    and "dispositions d' = ds @ standard_rows e ca na un"
  shows "active_dispositions d' (ca\<lparr>ca_disposition_policy_version := v\<rparr>) = standard_rows e ca na un"
    and "active_dispositions d' ca = standard_rows e ca na un"
proof -
  have "di_active r" if "r \<in> set (standard_rows e ca na un)" for r
    using that by (auto simp: standard_rows_def standard_row_def)
  then have "filter (\<lambda>r. di_campaign_id r = ca_id ca \<and> di_active r) (standard_rows e ca na un)
      = standard_rows e ca na un"
    by (simp add: standard_rows_campaign)
  moreover have "filter (\<lambda>r. di_campaign_id r = ca_id ca \<and> di_active r) ds = []"
    using assms(1) by (simp add: filter_empty_conv)
  ultimately show "active_dispositions d' (ca\<lparr>ca_disposition_policy_version := v\<rparr>) = standard_rows e ca na un"
    and "active_dispositions d' ca = standard_rows e ca na un"
    by (simp_all add: active_dispositions_def assms(2))
qed

lemma standard_rows_valid:
  assumes "active_dispositions d' ca' = standard_rows e ca na un" and "delays_ok na un"
  shows "pv_valid (validate_standard_dispositions d' ca')"
  unfolding valid_policy_iff assms(1)
proof (intro conjI ballI)
  fix r
  assume "r \<in> set (standard_rows e ca na un)"
  then show "standard_disposition_by_code (di_stable_semantic_code r) \<noteq> None"
    by (rule standard_rows_mem) (simp add: standard_row_def standard_by_code)
next
  fix entry
  assume en: "entry \<in> set standard_dispositions"
  then obtain i where r: "standard_row i ca na un entry \<in> set (standard_rows e ca na un)"
    using standard_entry_row by blast
  have "by_code (standard_rows e ca na un) (di_stable_semantic_code (standard_row i ca na un entry))
      = Some (standard_row i ca na un entry)"
    by (rule by_code_distinct [OF _ r]) (simp add: standard_rows_codes standard_codes_distinct)
  then show "\<exists>row. by_code (standard_rows e ca na un) (sd_stable_semantic_code entry) = Some row
      \<and> row_conforms entry row"
    using standard_row_conforms [OF en assms(2)] by (auto simp: standard_row_def)
qed

text \<open>
  Installing succeeds exactly on a draft campaign with no policy and no dispositions and
  delays in range, whatever else the table holds; the campaign then carries the seven rows of
  the manifest, and the check run at launch finds them valid.
\<close>

theorem installed_policy_valid:
  assumes "distinct (map (\<lambda>r. (di_campaign_id r, di_stable_semantic_code r)) (dispositions d))"
  shows "(\<exists>rows d'. install_standard_dispositions e ca u na un d = Inr (rows, d')
      \<and> map di_stable_semantic_code rows = map sd_stable_semantic_code standard_dispositions
      \<and> active_dispositions d' ca = rows
      \<and> pv_valid (validate_standard_dispositions d' (ca\<lparr>ca_disposition_policy_version := Some 1\<rparr>)))
    \<longleftrightarrow> ca_status ca = Draft \<and> ca_disposition_policy_version ca = None
      \<and> (\<forall>r \<in> set (dispositions d). di_campaign_id r \<noteq> ca_id ca) \<and> delays_ok na un"
    (is "?L \<longleftrightarrow> ?R")
proof
  assume ?L
  then show ?R using install_Inr by blast
next
  assume R: ?R
  let ?rows = "standard_rows e ca na un" and ?key = "\<lambda>r. (di_campaign_id r, di_stable_semantic_code r)"
  have ok: "list_all disposition_row_ok ?rows"
  proof (unfold list_all_iff, intro ballI)
    fix r
    assume "r \<in> set ?rows"
    then obtain i entry where "entry \<in> set standard_dispositions" "r = standard_row i ca na un entry"
      by (rule standard_rows_mem)
    with R show "disposition_row_ok r" using standard_row_conforms conforms_row_ok by blast
  qed
  have "distinct (map ?key ?rows)"
  proof -
    have "distinct (map snd (map ?key ?rows))"
      by (simp add: comp_def standard_rows_codes standard_codes_distinct)
    then show ?thesis by (simp only: distinct_map)
  qed
  with assms R have "distinct (map ?key (dispositions d @ ?rows))"
    by (auto simp: standard_rows_campaign)
  with ok have "flush_dispositions ?rows d = Inr (d\<lparr>dispositions := dispositions d @ ?rows\<rparr>)"
    by (simp add: flush_dispositions_def)
  with R obtain d' where run: "install_standard_dispositions e ca u na un d = Inr (?rows, d')"
    by (cases na; cases un)
      (auto simp: install_standard_dispositions_def Let_def List.map_filter_simps
        validate_retry_delay_def delays_ok_def count_where_0)
  from install_Inr [OF this] have "dispositions d' = dispositions d @ ?rows" by simp
  with R have "active_dispositions d' (ca\<lparr>ca_disposition_policy_version := Some 1\<rparr>) = ?rows"
    "active_dispositions d' ca = ?rows"
    by (auto intro!: installed_active)
  with R run standard_rows_valid standard_rows_codes show ?L by blast
qed

section \<open>What a standard outcome does\<close>

text \<open>The documented result of each outcome, given whether the attempts are used up.\<close>

definition standard_outcome :: "string \<Rightarrow> bool \<Rightarrow> work_state" where
  "standard_outcome c used_up =
     (if c \<in> {''connected'', ''number_disconnected''} then Completed
      else if c = ''explicit_dnc'' then Suppressed
      else if c = ''callback_later'' then Callback_wait
      else if used_up then Review
      else if c = ''hung_up'' then Leased
      else Retry_wait)"

lemma conforming_outcome:
  assumes "entry \<in> set standard_dispositions" and "row_conforms entry di"
  shows "outcome_state di used ceiling = standard_outcome (sd_stable_semantic_code entry) (used \<ge> ceiling)"
    and "sd_terminal entry \<longleftrightarrow> standard_outcome (sd_stable_semantic_code entry) b \<in> terminal_states"
proof -
  show "outcome_state di used ceiling = standard_outcome (sd_stable_semantic_code entry) (used \<ge> ceiling)"
    using assms unfolding standard_dispositions_def list.set insert_iff empty_iff
    by (elim disjE) (simp_all add: row_conforms_def outcome_state_def effective_action_def
      standard_outcome_def)
  show "sd_terminal entry \<longleftrightarrow> standard_outcome (sd_stable_semantic_code entry) b \<in> terminal_states"
    using assms(1) unfolding standard_dispositions_def list.set insert_iff empty_iff
    by (elim disjE) (simp_all add: standard_outcome_def terminal_states_def)
qed

text \<open>
  C19: completing an item under a disposition that conforms to its manifest entry leaves the item
  in the state the manifest documents: \<open>retry_wait\<close> and \<open>immediate_redial\<close> take effect (a retry
  due after the row's delay), the outcomes that would call again go to review once the attempts
  are used up, and exactly the entries marked terminal close the item.
\<close>

theorem standard_outcomes_take_effect:
  assumes "complete_work_item c e cfg rq d = Inr (r, d')"
    and "existing_attempt d (rq_agent_id rq) (rq_idempotency_key rq) = None"
    and "get_disposition d (rq_disposition_id rq) = Some di"
    and "entry \<in> set standard_dispositions" and "row_conforms entry di"
  shows "\<exists>w w2. get_work_item d (rq_work_item_id rq) = Some w
    \<and> get_work_item d' (rq_work_item_id rq) = Some w2
    \<and> wi_state w2 = standard_outcome (sd_stable_semantic_code entry)
                      (wi_attempt_count w + 1 \<ge> wi_max_attempts w)
    \<and> (wi_state w2 \<in> terminal_states \<longleftrightarrow> sd_terminal entry)
    \<and> (wi_state w2 = Retry_wait \<longrightarrow>
         (\<exists>m. di_retry_delay_minutes di = Some m \<and> retry_delay_in_range m
              \<and> wi_due_at w2 = Some (clk e 0 + minutes m)))"
proof (rule complete_summary [OF assms(1,2)])
  fix w w2 cc di' co d2
  assume w: "get_work_item d (rq_work_item_id rq) = Some w"
    "get_work_item d' (rq_work_item_id rq) = Some w2"
    and di: "get_disposition d (rq_disposition_id rq) = Some di'"
    and st: "wi_state w2 = outcome_state di' (wi_attempt_count w + 1) (wi_max_attempts w)"
    and due: "wi_state w2 = Retry_wait \<longrightarrow>
       (\<exists>m. di_retry_delay_minutes di' = Some m \<and> wi_due_at w2 = Some (clk e 0 + minutes m))"
  have [simp]: "di' = di" using di assms(3) by simp
  have "di_retry_delay_minutes di = Some m \<Longrightarrow> retry_delay_in_range m" for m
    using assms(5) by (auto simp: row_conforms_def split: if_splits)
  with w st due conforming_outcome [OF assms(4,5)] show ?thesis by auto
qed

section \<open>A free-form addition\<close>

lemma create_disposition_Inr:
  assumes "create_disposition e ca u q d = Inr (r, d')"
  shows "r = custom_disposition e ca q \<and> dispositions d' = dispositions d @ [r]
    \<and> (dq_causes_dnc q \<longleftrightarrow> dq_stable_semantic_code q = ''explicit_dnc'')
    \<and> disposition_row_ok r
    \<and> distinct (map (\<lambda>r. (di_campaign_id r, di_stable_semantic_code r)) (dispositions d'))
    \<and> campaigns d' = campaigns d \<and> user_assignments d' = user_assignments d
    \<and> work_items d' = work_items d"
  using assms
  by (auto simp: create_disposition_def flush_dispositions_def protected_dnc_semantic_codes_def
      Let_def split: if_splits)

text \<open>
  \<open>create_disposition\<close> does not look at the campaign's status or policy version; a free-form
  code it adds to a campaign that adopted the standard policy makes the launch check fail from
  then on.
\<close>

theorem free_form_breaks_policy:
  assumes "create_disposition e ca u q d = Inr (r, d')"
    and "standard_disposition_by_code (dq_stable_semantic_code q) = None"
  shows "\<not> pv_valid (validate_standard_dispositions d' ca)
    \<and> create_disposition e (ca\<lparr>ca_status := st, ca_disposition_policy_version := v\<rparr>) u q d = Inr (r, d')
    \<and> (ca_disposition_policy_version ca = Some 1 \<longrightarrow> (\<forall>x. launch_campaign e2 ca u2 d' \<noteq> Inr x))"
proof -
  from create_disposition_Inr [OF assms(1)]
  have r: "r = custom_disposition e ca q" and d': "dispositions d' = dispositions d @ [r]" by simp_all
  have "r \<in> set (active_dispositions d' ca)"
    by (simp add: active_dispositions_def d' r custom_disposition_def)
  moreover have "standard_disposition_by_code (di_stable_semantic_code r) = None"
    using assms(2) by (simp add: r custom_disposition_def)
  ultimately have invalid: "\<not> pv_valid (validate_standard_dispositions d' ca)"
    by (auto simp: valid_policy_iff)
  have "create_disposition e (ca\<lparr>ca_status := st, ca_disposition_policy_version := v\<rparr>) u q d
      = create_disposition e ca u q d"
    by (simp add: create_disposition_def custom_disposition_def cong: sum.case_cong if_cong)
  then have "create_disposition e (ca\<lparr>ca_status := st, ca_disposition_policy_version := v\<rparr>) u q d = Inr (r, d')"
    using assms(1) by simp
  with invalid show ?thesis
    by (auto simp: launch_campaign_def policy_version_def Let_def split: option.splits)
qed

section \<open>Staffing\<close>

text \<open>
  Staffing of campaigns: the capacity of a team is respected by both ways in, and a transfer
  ends one assignment, releases the agent's work there and starts the other.
\<close>

definition headcount :: "db \<Rightarrow> uuid \<Rightarrow> uuid \<Rightarrow> nat" where
  "headcount d k t = count_where (\<lambda>u. ua_campaign_id u = k \<and> ua_team_id u = Some t
     \<and> ua_status u = Row_active \<and> ua_effective_to u = None) (user_assignments d)"

text \<open>The limit in force for a team on a campaign, if one is set.\<close>

definition capacity_at :: "time \<Rightarrow> db \<Rightarrow> uuid \<Rightarrow> uuid \<Rightarrow> int option" where
  "capacity_at now d k t =
     (case find (\<lambda>a. ta_campaign_id a = k \<and> ta_team_id a = t \<and> ta_status a = Row_active
               \<and> effective_at (ta_effective_from a) (ta_effective_to a) now) (team_assignments d) of
        None \<Rightarrow> None | Some a \<Rightarrow> ta_staffing_capacity a)"

lemma check_capacity:
  "check_staffing_capacity now k (Some t) d = None \<longleftrightarrow>
     (\<forall>n. capacity_at now d k t = Some n \<longrightarrow> int (headcount d k t) < n)"
  by (auto simp: check_staffing_capacity_def capacity_at_def headcount_def Let_def split: option.splits)

lemma assign_agent_Inr:
  assumes "assign_agent_to_campaign e ca a t u ty p al sh d = Inr (x, d')"
  shows "(ty = ''primary'' \<longrightarrow> (\<forall>y \<in> set (user_assignments d). \<not> active_primary a y))
    \<and> check_staffing_capacity (clk e 0) (ca_id ca) t d = None
    \<and> user_assignments d' = user_assignments d @ [x]
    \<and> ua_id x = fresh_id e 0 \<and> ua_campaign_id x = ca_id ca \<and> ua_user_id x = a \<and> ua_team_id x = t
    \<and> ua_assignment_type x = ty \<and> ua_status x = Row_active \<and> ua_effective_to x = None
    \<and> campaigns d' = campaigns d \<and> dispositions d' = dispositions d \<and> work_items d' = work_items d"
  using assms
  by (auto simp: assign_agent_to_campaign_def new_user_assignment_def Let_def find_None_iff
      split: if_splits option.splits)

lemma transfer_Inr:
  assumes "transfer_agent e a from to t u rc d = Inr (x, d')"
  obtains source n d2 where "ca_id from \<noteq> ca_id to" and "ca_status to = Active"
    and "find (primary_on a (ca_id from)) (user_assignments d) = Some source"
    and "check_staffing_capacity (clk e 0) (ca_id to) t d = None"
    and "release_campaign_work_for_agent e a (ca_id from)
           (d\<lparr>user_assignments := row_put ua_id (ended_assignment (clk e 1) source) (user_assignments d)\<rparr>)
         = (n, d2)"
    and "x = new_user_assignment e (ca_id to) (clk e 1) a t u ''primary''"
    and "user_assignments d' =
           row_put ua_id (ended_assignment (clk e 1) source) (user_assignments d) @ [x]"
    and "work_items d' = work_items d2" and "campaign_contacts d' = campaign_contacts d"
    and "campaigns d' = campaigns d" and "dispositions d' = dispositions d"
proof -
  obtain source where g: "ca_id from \<noteq> ca_id to" "ca_status to = Active"
      "find (primary_on a (ca_id from)) (user_assignments d) = Some source"
      "check_staffing_capacity (clk e 0) (ca_id to) t d = None"
    using assms by (auto simp: transfer_agent_def split: if_splits option.splits)
  let ?d1 = "d\<lparr>user_assignments := row_put ua_id (ended_assignment (clk e 1) source) (user_assignments d)\<rparr>"
  obtain n d2 where r: "release_campaign_work_for_agent e a (ca_id from) ?d1 = (n, d2)" by fastforce
  then obtain ws where d2: "d2 = ?d1\<lparr>work_items := ws\<rparr>" using release_frame by blast
  have "x = new_user_assignment e (ca_id to) (clk e 1) a t u ''primary''"
    and d': "d' = record_audit ''campaign.assignment.transfer'' ''success'' (Some u)
                          (Some ''campaign'') (Some (ca_id to)) rc
                          [(''agent_id'', JId a), (''from_campaign_id'', JId (ca_id from)),
                           (''to_campaign_id'', JId (ca_id to)),
                           (''work_items_released'', JInt (int n))]
                   (d2\<lparr>user_assignments := user_assignments d2 @ [x]\<rparr>)"
    using assms g r by (auto simp: transfer_agent_def Let_def)
  then show thesis using g r by (intro that [OF g r]) (simp_all add: d2)
qed

lemma ended_keeps [simp]:
  "ua_id (ended_assignment t a) = ua_id a" "ua_campaign_id (ended_assignment t a) = ua_campaign_id a"
  "ua_user_id (ended_assignment t a) = ua_user_id a" "ua_status (ended_assignment t a) = Row_ended"
  "\<not> active_primary v (ended_assignment t a)"
  by (simp_all add: ended_assignment_def active_primary_def)

text \<open>
  Whoever joins a campaign for a team with a limit in force, by assignment or by transfer,
  adds one to the head count, and the count stays within the limit.
\<close>

theorem staffing_within_capacity:
  assumes "assign_agent_to_campaign e ca a (Some t) u ty p al sh d = Inr (x, d')
      \<or> transfer_agent e a from ca (Some t) u rc d = Inr (x, d')"
    and "distinct (map ua_id (user_assignments d))"
    and "capacity_at (clk e 0) d (ca_id ca) t = Some n"
  shows "headcount d' (ca_id ca) t = headcount d (ca_id ca) t + 1
    \<and> int (headcount d' (ca_id ca) t) \<le> n"
proof -
  have "headcount d' (ca_id ca) t = headcount d (ca_id ca) t + 1
      \<and> check_staffing_capacity (clk e 0) (ca_id ca) (Some t) d = None"
    using assms(1)
  proof
    assume "assign_agent_to_campaign e ca a (Some t) u ty p al sh d = Inr (x, d')"
    from assign_agent_Inr [OF this] show ?thesis by (simp add: headcount_def count_where_def)
  next
    assume "transfer_agent e a from ca (Some t) u rc d = Inr (x, d')"
    then show ?thesis
    proof (rule transfer_Inr)
      fix source k d2
      assume n: "ca_id from \<noteq> ca_id ca"
        and s: "find (primary_on a (ca_id from)) (user_assignments d) = Some source"
        and c: "check_staffing_capacity (clk e 0) (ca_id ca) (Some t) d = None"
        and x: "x = new_user_assignment e (ca_id ca) (clk e 1) a (Some t) u ''primary''"
        and ua: "user_assignments d' =
          row_put ua_id (ended_assignment (clk e 1) source) (user_assignments d) @ [x]"
      from s have src: "source \<in> set (user_assignments d)" "ua_campaign_id source = ca_id from"
        by (auto simp: primary_on_def dest: find_SomeD)
      show ?thesis using c n src(2)
        by (simp add: headcount_def count_where_def ua x new_user_assignment_def
            filter_row_put [OF assms(2) src(1)])
    qed
  qed
  then show ?thesis using assms(3) by (auto simp: check_capacity)
qed

text \<open>
  After an uncontended transfer the agent's only active primary assignment is the new one,
  on the active destination, the former one is ended, and nothing on the source campaign is
  leased to or waiting for the agent; nobody else's assignment changed.
\<close>

theorem transfer_moves_agent:
  assumes "transfer_agent e a from to t u rc d = Inr (x, d')" and "\<And>i. \<not> row_busy e i"
    and "distinct (map ua_id (user_assignments d))"
    and "length (filter (active_primary a) (user_assignments d)) \<le> 1"
  shows "ca_status to = Active \<and> ua_campaign_id x = ca_id to
    \<and> filter (active_primary a) (user_assignments d') = [x]
    \<and> (\<forall>w \<in> set (work_items d'). \<not> agent_holds_in_campaign d' a (ca_id from) w)
    \<and> (\<forall>b. b \<noteq> a \<longrightarrow> filter (\<lambda>y. ua_user_id y = b) (user_assignments d')
               = filter (\<lambda>y. ua_user_id y = b) (user_assignments d))"
  using assms(1)
proof (rule transfer_Inr)
  fix source n d2
  let ?d1 = "d\<lparr>user_assignments := row_put ua_id (ended_assignment (clk e 1) source) (user_assignments d)\<rparr>"
  assume act: "ca_status to = Active"
    and s: "find (primary_on a (ca_id from)) (user_assignments d) = Some source"
    and rel: "release_campaign_work_for_agent e a (ca_id from) ?d1 = (n, d2)"
    and x: "x = new_user_assignment e (ca_id to) (clk e 1) a t u ''primary''"
    and ua: "user_assignments d' =
      row_put ua_id (ended_assignment (clk e 1) source) (user_assignments d) @ [x]"
    and d': "work_items d' = work_items d2" "campaign_contacts d' = campaign_contacts d"
  from s have src: "source \<in> set (user_assignments d)" "active_primary a source"
    by (auto simp: primary_on_def dest: find_SomeD)
  then have one: "filter (active_primary a) (user_assignments d) = [source]"
    by (intro only_element [OF _ assms(4)]) simp
  have "filter (active_primary a) (row_put ua_id (ended_assignment (clk e 1) source) (user_assignments d))
      = filter (\<lambda>y. y \<noteq> source) (filter (active_primary a) (user_assignments d))"
    by (subst filter_row_put_leave [OF assms(3) src(1)]) (simp_all add: conj_commute)
  then have new: "filter (active_primary a) (user_assignments d') = [x]"
    by (simp add: ua one x active_primary_def new_user_assignment_def)
  have "agent_holds_in_campaign d' a k w = agent_holds_in_campaign d2 a k w" for k w
    using release_frame [OF rel] d'(2) by (auto simp: agent_holds_in_campaign_def get_campaign_contact_def)
  then have free: "\<forall>w \<in> set (work_items d'). \<not> agent_holds_in_campaign d' a (ca_id from) w"
    using release_uncontended(3) [OF assms(2) rel] d'(1) by simp
  have "filter (\<lambda>y. ua_user_id y = b) (user_assignments d')
      = filter (\<lambda>y. ua_user_id y = b) (user_assignments d)" if "b \<noteq> a" for b
    using that src(2)
    by (simp add: ua x new_user_assignment_def filter_row_put [OF assms(3) src(1)] active_primary_def)
  with act new free show ?thesis by (simp add: x new_user_assignment_def)
qed

end
