(* ===== verification/Notifications.thy ===== *)
theory Notifications
  imports Runtime Config Db_Prelude
begin

text \<open>
  The notification inbox (\<open>app/notifications/service.py\<close>) and its e-mail seam
  (\<open>app/notifications/email.py\<close>). A new row's identifier and creation time are arguments. The
  seam only logs: \<open>dispatch\<close> gives what it would hand to \<open>_deliver\<close>.
\<close>

definition dispatch :: "settings \<Rightarrow> db \<Rightarrow> notification \<Rightarrow> (string \<times> string \<times> string) option" where
  "dispatch cfg d n =
     (if \<not> email_notifications_enabled cfg then None
      else
        case get_user d (nt_recipient_user_id n) of
          None \<Rightarrow> None
        | Some u \<Rightarrow>
            (if us_email u = '''' then None
             else Some (us_email u, nt_title n,
                    (case nt_body n of None \<Rightarrow> '''' | Some b \<Rightarrow> b))))"

definition notify ::
  "uuid \<Rightarrow> time \<Rightarrow> uuid \<Rightarrow> string \<Rightarrow> string \<Rightarrow> string option \<Rightarrow> string option \<Rightarrow> uuid option
   \<Rightarrow> db \<Rightarrow> notification \<times> db" where
  "notify i created recipient_id category title body related_entity_type related_entity_id d =
     (let n = \<lparr>nt_id = i, nt_recipient_user_id = recipient_id, nt_category = category,
                nt_title = title, nt_body = body, nt_related_entity_type = related_entity_type,
                nt_related_entity_id = related_entity_id, nt_read_at = None,
                nt_created_at = created\<rparr>
      in (n, d\<lparr>notifications := notifications d @ [n]\<rparr>))"

definition unread_of :: "uuid \<Rightarrow> notification \<Rightarrow> bool" where
  "unread_of user_id n \<longleftrightarrow> nt_recipient_user_id n = user_id \<and> nt_read_at n = None"

definition list_for_user :: "uuid \<Rightarrow> bool \<Rightarrow> nat \<Rightarrow> db \<Rightarrow> notification list" where
  "list_for_user user_id unread_only limit d =
     take limit (sort_key (\<lambda>n. - nt_created_at n)
       (filter (\<lambda>n. nt_recipient_user_id n = user_id \<and> (unread_only \<longrightarrow> nt_read_at n = None))
         (notifications d)))"

definition unread_count :: "uuid \<Rightarrow> db \<Rightarrow> nat" where
  "unread_count user_id d = count_where (unread_of user_id) (notifications d)"

definition mark_read :: "time \<Rightarrow> uuid \<Rightarrow> uuid \<Rightarrow> db \<Rightarrow> bool \<times> db" where
  "mark_read now notification_id user_id d =
     (case find (\<lambda>n. nt_id n = notification_id \<and> nt_recipient_user_id n = user_id)
             (notifications d) of
        None \<Rightarrow> (False, d)
      | Some n \<Rightarrow>
          (True,
           if nt_read_at n = None
           then d\<lparr>notifications := row_put nt_id (n\<lparr>nt_read_at := Some now\<rparr>) (notifications d)\<rparr>
           else d))"

definition mark_all_read :: "time \<Rightarrow> uuid \<Rightarrow> db \<Rightarrow> nat \<times> db" where
  "mark_all_read now user_id d =
     (count_where (unread_of user_id) (notifications d),
      d\<lparr>notifications := rows_update (unread_of user_id)
          (\<lambda>n. n\<lparr>nt_read_at := Some now\<rparr>) (notifications d)\<rparr>)"

lemma notify_sel [simp]:
  "work_items (snd (notify i t u c ti b ty re d)) = work_items d"
  "call_attempts (snd (notify i t u c ti b ty re d)) = call_attempts d"
  "contacts (snd (notify i t u c ti b ty re d)) = contacts d"
  "campaign_contacts (snd (notify i t u c ti b ty re d)) = campaign_contacts d"
  "suppression_entries (snd (notify i t u c ti b ty re d)) = suppression_entries d"
  "campaigns (snd (notify i t u c ti b ty re d)) = campaigns d"
  "user_assignments (snd (notify i t u c ti b ty re d)) = user_assignments d"
  "dispositions (snd (notify i t u c ti b ty re d)) = dispositions d"
  "audit_events (snd (notify i t u c ti b ty re d)) = audit_events d"
  by (simp_all add: notify_def Let_def)

lemma unread_stamped: "\<not> unread_of u (n\<lparr>nt_read_at := Some t\<rparr>)"
  by (simp add: unread_of_def)

text \<open>What another user sees: the rows addressed to them, in stored order.\<close>

definition inbox :: "uuid \<Rightarrow> db \<Rightarrow> notification list" where
  "inbox user_id d = filter (\<lambda>n. nt_recipient_user_id n = user_id) (notifications d)"

text \<open>
  Marking notifications read touches only the caller's own inbox: every other user's rows
  are as before, an identifier of somebody else's notification answers like an unknown one and
  changes nothing, and marking all leaves none unread and reports how many there were.
\<close>

theorem inbox_is_private:
  assumes "distinct (map nt_id (notifications d))" and "v \<noteq> u"
  shows "inbox v (snd (mark_read now i u d)) = inbox v d
    \<and> inbox v (snd (mark_all_read now u d)) = inbox v d
    \<and> ((\<forall>n \<in> set (inbox u d). nt_id n \<noteq> i) \<longrightarrow> mark_read now i u d = (False, d))
    \<and> fst (mark_all_read now u d) = unread_count u d
    \<and> unread_count u (snd (mark_all_read now u d)) = 0"
proof (intro conjI impI)
  show "inbox v (snd (mark_read now i u d)) = inbox v d"
  proof (cases "find (\<lambda>n. nt_id n = i \<and> nt_recipient_user_id n = u) (notifications d)")
    case None
    then show ?thesis by (simp add: mark_read_def)
  next
    case (Some n)
    then have n: "n \<in> set (notifications d)" "nt_recipient_user_id n = u" by (auto dest: find_SomeD)
    show ?thesis
      using filter_row_put [OF assms(1) n(1), of "n\<lparr>nt_read_at := Some now\<rparr>"
          "\<lambda>n. nt_recipient_user_id n = v"] n(2) assms(2)
      by (simp add: mark_read_def Some inbox_def)
  qed
  show "inbox v (snd (mark_all_read now u d)) = inbox v d"
    using assms(2) by (auto simp: mark_all_read_def inbox_def unread_of_def intro!: filter_rows_update)
  assume "\<forall>n \<in> set (inbox u d). nt_id n \<noteq> i"
  then have "find (\<lambda>n. nt_id n = i \<and> nt_recipient_user_id n = u) (notifications d) = None"
    by (auto simp: find_None_iff inbox_def)
  then show "mark_read now i u d = (False, d)" by (simp add: mark_read_def)
next
  show "fst (mark_all_read now u d) = unread_count u d"
    by (simp add: mark_all_read_def unread_count_def)
  show "unread_count u (snd (mark_all_read now u d)) = 0"
    by (auto simp: mark_all_read_def unread_count_def count_where_0 unread_stamped
        dest: rows_update_none_left)
qed

definition inbox_db :: db where
  "inbox_db = snd (notify 2 20 8 ''campaign.retention'' ''t'' None None None
     (snd (notify 1 10 7 ''campaign.retention'' ''t'' None None None empty_db)))"

theorem inbox_is_private_witness:
  "inbox 8 (snd (mark_all_read 50 7 inbox_db)) = inbox 8 inbox_db
   \<and> inbox 8 inbox_db \<noteq> [] \<and> mark_read 50 2 7 inbox_db = (False, inbox_db)"
proof -
  have d: "distinct (map nt_id (notifications inbox_db))"
    and n: "\<forall>n \<in> set (inbox 7 inbox_db). nt_id n \<noteq> 2" and "inbox 8 inbox_db \<noteq> []"
    by (simp_all add: inbox_db_def notify_def empty_db_def inbox_def Let_def)
  then show ?thesis using inbox_is_private [OF d, of 8 7] by simp
qed

end
