(* ===== verification/Retention.thy ===== *)
theory Retention
  imports Notifications Campaigns
begin

text \<open>
  Completion-triggered retention (\<open>app/campaigns/retention.py\<close>): detecting that a campaign is
  fully worked, the 60-day countdown, and deleting the contact data when it has run out. The
  notification of the \<open>k\<close>-th campaign marked takes the \<open>k\<close>-th fresh identifier of the call.
\<close>

definition retention_days :: int where "retention_days = 60"

definition contacts_of :: "db \<Rightarrow> uuid \<Rightarrow> campaign_contact list" where
  "contacts_of d k = filter (\<lambda>cc. cc_campaign_id cc = k) (campaign_contacts d)"

definition campaign_is_complete :: "campaign \<Rightarrow> db \<Rightarrow> bool" where
  "campaign_is_complete ca d \<longleftrightarrow>
     ca_status ca = Active
     \<and> length (contacts_of d (ca_id ca)) \<noteq> 0
     \<and> count_where (\<lambda>cc. cc_campaign_id cc = ca_id ca \<and> cc_completed_at cc = None)
         (campaign_contacts d) = 0"

definition completed_row :: "time \<Rightarrow> campaign \<Rightarrow> campaign" where
  "completed_row now ca = ca\<lparr>ca_status := Campaign_completed, ca_completed_at := Some now,
     ca_retention_delete_after := Some (now + days retention_days)\<rparr>"

text \<open>The typographic quotation marks of the title are written as their Windows-1252 codes.\<close>

definition completion_title :: "string \<Rightarrow> string" where
  "completion_title name = ''Campaign '' @ [CHR 0x93] @ name @ [CHR 0x94] @ '' is complete''"

definition completion_body :: string where
  "completion_body = ''Every number has a final disposition. A '' @ str_int retention_days
     @ ''-day retention countdown has started - export the data before it is deleted.''"

definition mark_campaign_completed :: "env \<Rightarrow> time \<Rightarrow> campaign \<Rightarrow> db \<Rightarrow> db" where
  "mark_campaign_completed e now ca d =
     (let d1 = record_audit ''campaign.completed'' ''success'' None (Some ''campaign'')
                 (Some (ca_id ca)) None
                 [(''retention_delete_after'', JTime (now + days retention_days)),
                  (''retention_days'', JInt retention_days)]
                 (put_campaign (completed_row now ca) d)
      in case ca_created_by ca of
           None \<Rightarrow> d1
         | Some owner \<Rightarrow>
             snd (notify (fresh_id e (length (notifications d1))) (clk e 0) owner
                    ''campaign.retention'' (completion_title (ca_name ca)) (Some completion_body)
                    (Some ''campaign'') (Some (ca_id ca)) d1))"

definition mark_if_complete :: "env \<Rightarrow> time \<Rightarrow> uuid \<Rightarrow> db \<Rightarrow> bool \<times> db" where
  "mark_if_complete e now i d =
     (case get_campaign d i of
        None \<Rightarrow> (False, d)
      | Some ca \<Rightarrow>
          (if campaign_is_complete ca d then (True, mark_campaign_completed e now ca d)
           else (False, d)))"

definition detect_completed_campaigns :: "env \<Rightarrow> time \<Rightarrow> db \<Rightarrow> nat \<times> db" where
  "detect_completed_campaigns e now d =
     count_loop (mark_if_complete e now)
       (map ca_id (filter (\<lambda>ca. ca_status ca = Active) (campaigns d))) d"

section \<open>Deletion\<close>

datatype retention_error = Campaign_not_deletable

record deletion_summary =
  dl_campaign_contacts :: nat
  dl_contacts_deleted :: nat

definition drop_contact_rows :: "uuid list \<Rightarrow> uuid \<Rightarrow> db \<Rightarrow> db" where
  "drop_contact_rows campaign_contact_ids k d =
     d\<lparr>call_attempts := filter (\<lambda>a. at_campaign_contact_id a \<notin> set campaign_contact_ids)
         (rows_update (\<lambda>a. at_campaign_contact_id a \<in> set campaign_contact_ids)
           (\<lambda>a. a\<lparr>at_correction_of_attempt_id := None\<rparr>) (call_attempts d)),
       work_items := filter (\<lambda>w. wi_campaign_contact_id w \<notin> set campaign_contact_ids) (work_items d),
       campaign_contacts := filter (\<lambda>cc. cc_campaign_id cc \<noteq> k) (campaign_contacts d)\<rparr>"

definition orphaned :: "uuid list \<Rightarrow> db \<Rightarrow> contact \<Rightarrow> bool" where
  "orphaned contact_ids d co \<longleftrightarrow>
     co_id co \<in> set contact_ids \<and> \<not> (\<exists>cc \<in> set (campaign_contacts d). cc_contact_id cc = co_id co)"

definition delete_completed_campaign_data ::
  "campaign \<Rightarrow> uuid option \<Rightarrow> string option \<Rightarrow> db \<Rightarrow> (retention_error, deletion_summary, db) outcome" where
  "delete_completed_campaign_data ca actor_id reason d =
     (if ca_status ca \<noteq> Campaign_completed then Inl Campaign_not_deletable
      else
        let contact_ids = fromkeys (map cc_contact_id (contacts_of d (ca_id ca)));
            d1 = drop_contact_rows (map cc_id (contacts_of d (ca_id ca))) (ca_id ca) d;
            gone = filter (orphaned contact_ids d1) (contacts d1);
            d2 = d1\<lparr>contacts := filter (\<lambda>co. \<not> orphaned contact_ids d1 co) (contacts d1)\<rparr>;
            d3 = put_campaign (ca\<lparr>ca_retention_delete_after := None\<rparr>) d2
        in Inr (\<lparr>dl_campaign_contacts = length contact_ids, dl_contacts_deleted = length gone\<rparr>,
             record_audit ''campaign.delete_data'' ''success'' actor_id (Some ''campaign'')
               (Some (ca_id ca)) reason
               [(''campaign_contacts'', JInt (int (length contact_ids))),
                (''contacts_deleted'', JInt (int (length gone)))] d3))"

definition purge_due :: "time \<Rightarrow> campaign \<Rightarrow> bool" where
  "purge_due now ca \<longleftrightarrow> ca_status ca = Campaign_completed
     \<and> (case ca_retention_delete_after ca of None \<Rightarrow> False | Some t \<Rightarrow> t \<le> now)"

definition purge_one :: "uuid \<Rightarrow> db \<Rightarrow> retention_error + bool \<times> db" where
  "purge_one i d =
     (case get_campaign d i of
        None \<Rightarrow> Inr (False, d)
      | Some ca \<Rightarrow>
          (case delete_completed_campaign_data ca None (Some ''retention_auto_delete'') d of
             Inl err \<Rightarrow> Inl err
           | Inr (_, d') \<Rightarrow> Inr (True, d')))"

definition purge_expired_campaign_data :: "time \<Rightarrow> db \<Rightarrow> retention_error + nat \<times> db" where
  "purge_expired_campaign_data now d =
     try_loop purge_one (map ca_id (filter (purge_due now) (campaigns d))) d"

definition retention_days_remaining :: "campaign \<Rightarrow> time \<Rightarrow> int option" where
  "retention_days_remaining ca now =
     (case ca_retention_delete_after ca of
        None \<Rightarrow> None
      | Some t \<Rightarrow>
          (let remaining = t - now in
           Some (max 0 (remaining div days 1 + (if remaining mod days 1 \<noteq> 0 then 1 else 0)))))"

section \<open>Detection\<close>

lemma completed_row_id [simp]: "ca_id (completed_row now ca) = ca_id ca"
  by (simp add: completed_row_def)

lemma mark_sel [simp]:
  "campaigns (mark_campaign_completed e now ca d) = row_put ca_id (completed_row now ca) (campaigns d)"
  "campaign_contacts (mark_campaign_completed e now ca d) = campaign_contacts d"
  "work_items (mark_campaign_completed e now ca d) = work_items d"
  "call_attempts (mark_campaign_completed e now ca d) = call_attempts d"
  "contacts (mark_campaign_completed e now ca d) = contacts d"
  "user_assignments (mark_campaign_completed e now ca d) = user_assignments d"
  "dispositions (mark_campaign_completed e now ca d) = dispositions d"
  by (simp_all add: mark_campaign_completed_def Let_def split: option.split)

lemma complete_cong:
  "campaign_contacts d' = campaign_contacts d \<Longrightarrow> campaign_is_complete ca d' = campaign_is_complete ca d"
  by (simp add: campaign_is_complete_def contacts_of_def)

lemma completed_not_complete [simp]: "\<not> campaign_is_complete (completed_row now ca) d"
  by (simp add: campaign_is_complete_def completed_row_def)

text \<open>The row of one campaign after a pass over some identifiers.\<close>

lemma detect_loop:
  "campaign_contacts (snd (count_loop (mark_if_complete e now) is d)) = campaign_contacts d
   \<and> get_campaign (snd (count_loop (mark_if_complete e now) is d)) i =
       map_option (\<lambda>ca. if i \<in> set is \<and> campaign_is_complete ca d then completed_row now ca else ca)
         (get_campaign d i)"
proof (induction "is" arbitrary: d)
  case Nil
  show ?case by (simp add: option.map_ident)
next
  case (Cons j "is")
  show ?case
  proof (cases "\<exists>ca. get_campaign d j = Some ca \<and> campaign_is_complete ca d")
    case True
    then obtain ca where ca: "get_campaign d j = Some ca" "campaign_is_complete ca d" by blast
    let ?d = "mark_campaign_completed e now ca d"
    have id: "ca_id ca = j" by (rule campaign_table.get_key [OF ca(1)])
    have get: "get_campaign ?d i = (if i = j then Some (completed_row now ca) else get_campaign d i)"
      using ca(1) id by (simp add: get_campaign_def row_get_put)
    have step: "count_loop (mark_if_complete e now) (j # is) d =
        (Suc (fst (count_loop (mark_if_complete e now) is ?d)), snd (count_loop (mark_if_complete e now) is ?d))"
      using ca by (simp add: mark_if_complete_def Let_def)
    have "campaign_is_complete x ?d = campaign_is_complete x d" for x by (rule complete_cong) simp
    with Cons.IH [of ?d] ca get show ?thesis
      unfolding step by (cases "i = j") (simp_all add: option.map_comp comp_def)
  next
    case False
    then have "mark_if_complete e now j d = (False, d)"
      by (auto simp: mark_if_complete_def split: option.split)
    with Cons.IH [of d] False show ?thesis
      by (cases "get_campaign d i") (auto simp: Let_def)
  qed
qed

text \<open>
  A detection pass completes exactly the active campaigns that have contacts and none
  outstanding, gives them the 60-day deadline, leaves every other campaign as it was, and a
  second pass at any later time finds nothing to do.
\<close>

theorem detection_marks_exactly:
  assumes "detect_completed_campaigns e now d = (n, d')"
  shows "get_campaign d' i = map_option
      (\<lambda>ca. if campaign_is_complete ca d then completed_row now ca else ca) (get_campaign d i)
    \<and> detect_completed_campaigns e2 later d' = (0, d')"
proof -
  let ?is = "map ca_id (filter (\<lambda>ca. ca_status ca = Active) (campaigns d))"
  have d': "d' = snd (count_loop (mark_if_complete e now) ?is d)"
    using assms by (simp add: detect_completed_campaigns_def)
  have active: "campaign_is_complete ca d \<Longrightarrow> get_campaign d j = Some ca \<Longrightarrow> j \<in> set ?is" for j ca
    by (auto simp: campaign_is_complete_def get_campaign_def dest: row_get_Some)
  have get: "get_campaign d' j = map_option
      (\<lambda>ca. if campaign_is_complete ca d then completed_row now ca else ca) (get_campaign d j)" for j
    using detect_loop [of e now ?is d j] active by (cases "get_campaign d j") (auto simp: d')
  have cc: "campaign_contacts d' = campaign_contacts d"
    using detect_loop [of e now ?is d] by (simp add: d')
  have "mark_if_complete e2 later j d' = (False, d')" for j
    by (cases "get_campaign d j") (simp_all add: mark_if_complete_def get complete_cong [OF cc])
  then have "detect_completed_campaigns e2 later d' = (0, d')"
    unfolding detect_completed_campaigns_def by (intro count_loop_idle) simp
  with get show ?thesis by simp
qed

section \<open>Deletion and purge\<close>

text \<open>The row's contact belongs to campaign \<open>k\<close>.\<close>

definition in_campaign :: "db \<Rightarrow> uuid \<Rightarrow> uuid \<Rightarrow> bool" where
  "in_campaign d k i \<longleftrightarrow> (\<exists>cc \<in> set (campaign_contacts d). cc_id cc = i \<and> cc_campaign_id cc = k)"

lemma in_campaign_ids: "i \<in> cc_id ` set (contacts_of d k) \<longleftrightarrow> in_campaign d k i"
  by (auto simp: in_campaign_def contacts_of_def)

definition referenced :: "db \<Rightarrow> (uuid \<Rightarrow> bool) \<Rightarrow> contact \<Rightarrow> bool" where
  "referenced d P co \<longleftrightarrow>
     (\<exists>cc \<in> set (campaign_contacts d). cc_contact_id cc = co_id co \<and> P (cc_campaign_id cc))"

lemma attempts_dropped:
  assumes "\<And>a. at_campaign_contact_id (f a) = at_campaign_contact_id a"
  shows "filter (\<lambda>a. \<not> P (at_campaign_contact_id a)) (rows_update (\<lambda>a. P (at_campaign_contact_id a)) f xs)
    = filter (\<lambda>a. \<not> P (at_campaign_contact_id a)) xs"
  using assms by (intro filter_rows_update) auto

lemma delete_effect:
  assumes "delete_completed_campaign_data ca u reason d = Inr (s, d')"
  shows "ca_status ca = Campaign_completed"
    and "work_items d' = filter (\<lambda>w. \<not> in_campaign d (ca_id ca) (wi_campaign_contact_id w)) (work_items d)"
    and "call_attempts d' =
      filter (\<lambda>a. \<not> in_campaign d (ca_id ca) (at_campaign_contact_id a)) (call_attempts d)"
    and "campaign_contacts d' = filter (\<lambda>cc. cc_campaign_id cc \<noteq> ca_id ca) (campaign_contacts d)"
    and "contacts d' = filter (\<lambda>co. referenced d (\<lambda>j. j = ca_id ca) co
                              \<longrightarrow> referenced d (\<lambda>j. j \<noteq> ca_id ca) co) (contacts d)"
    and "suppression_entries d' = suppression_entries d"
    and "campaigns d' = row_put ca_id (ca\<lparr>ca_retention_delete_after := None\<rparr>) (campaigns d)"
    and "user_assignments d' = user_assignments d" and "dispositions d' = dispositions d"
    and "length (audit_events d') = Suc (length (audit_events d))"
    and "dl_campaign_contacts s = card (cc_contact_id ` set (contacts_of d (ca_id ca)))"
proof -
  let ?k = "ca_id ca"
  let ?ids = "fromkeys (map cc_contact_id (contacts_of d ?k))"
  define d1 where "d1 = drop_contact_rows (map cc_id (contacts_of d ?k)) ?k d"
  have d1: "work_items d1 = filter (\<lambda>w. \<not> in_campaign d ?k (wi_campaign_contact_id w)) (work_items d)"
    "call_attempts d1 = filter (\<lambda>a. \<not> in_campaign d ?k (at_campaign_contact_id a)) (call_attempts d)"
    "campaign_contacts d1 = filter (\<lambda>cc. cc_campaign_id cc \<noteq> ?k) (campaign_contacts d)"
    "contacts d1 = contacts d" "suppression_entries d1 = suppression_entries d"
    "campaigns d1 = campaigns d" "audit_events d1 = audit_events d"
    "user_assignments d1 = user_assignments d" "dispositions d1 = dispositions d"
    by (simp_all add: d1_def drop_contact_rows_def attempts_dropped in_campaign_ids)
  have orph: "\<not> orphaned ?ids d1 co \<longleftrightarrow> (referenced d (\<lambda>j. j = ?k) co \<longrightarrow> referenced d (\<lambda>j. j \<noteq> ?k) co)" for co
  proof -
    have "co_id co \<in> set ?ids \<longleftrightarrow> referenced d (\<lambda>j. j = ?k) co"
      by (auto simp: referenced_def contacts_of_def image_iff)
    then show ?thesis by (auto simp: orphaned_def d1 referenced_def)
  qed
  have len: "length ?ids = card (cc_contact_id ` set (contacts_of d ?k))"
    using distinct_card [OF distinct_fromkeys, of "map cc_contact_id (contacts_of d ?k)"] by simp
  have "ca_status ca = Campaign_completed"
    and d': "d' = record_audit ''campaign.delete_data'' ''success'' u (Some ''campaign'')
               (Some ?k) reason
               [(''campaign_contacts'', JInt (int (length ?ids))),
                (''contacts_deleted'', JInt (int (length (filter (orphaned ?ids d1) (contacts d1)))))]
            (put_campaign (ca\<lparr>ca_retention_delete_after := None\<rparr>)
              (d1\<lparr>contacts := filter (\<lambda>co. \<not> orphaned ?ids d1 co) (contacts d1)\<rparr>))"
    and s: "dl_campaign_contacts s = length ?ids"
    using assms by (auto simp: delete_completed_campaign_data_def Let_def d1_def [symmetric] split: if_splits)
  then show "ca_status ca = Campaign_completed" by simp
  show "work_items d' = filter (\<lambda>w. \<not> in_campaign d ?k (wi_campaign_contact_id w)) (work_items d)"
    "call_attempts d' = filter (\<lambda>a. \<not> in_campaign d ?k (at_campaign_contact_id a)) (call_attempts d)"
    "campaign_contacts d' = filter (\<lambda>cc. cc_campaign_id cc \<noteq> ?k) (campaign_contacts d)"
    "contacts d' = filter (\<lambda>co. referenced d (\<lambda>j. j = ?k) co \<longrightarrow> referenced d (\<lambda>j. j \<noteq> ?k) co) (contacts d)"
    "suppression_entries d' = suppression_entries d"
    "campaigns d' = row_put ca_id (ca\<lparr>ca_retention_delete_after := None\<rparr>) (campaigns d)"
    "user_assignments d' = user_assignments d" "dispositions d' = dispositions d"
    "length (audit_events d') = Suc (length (audit_events d))"
    "dl_campaign_contacts s = card (cc_contact_id ` set (contacts_of d ?k))"
    using s by (simp_all add: d' d1 orph len record_audit_events)
qed


lemma purge_loop:
  assumes "\<forall>i \<in> set is. \<exists>ca. get_campaign d i = Some ca \<and> ca_status ca = Campaign_completed"
  shows "\<exists>d'. try_loop purge_one is d = Inr (length is, d')
    \<and> suppression_entries d' = suppression_entries d
    \<and> (\<forall>k. contacts_of d' k = (if k \<in> set is then [] else contacts_of d k))"
  using assms
proof (induction "is" arbitrary: d)
  case Nil
  then show ?case by simp
next
  case (Cons i "is")
  then obtain ca where ca: "get_campaign d i = Some ca" "ca_status ca = Campaign_completed" by auto
  then obtain s d1 where run:
    "delete_completed_campaign_data ca None (Some ''retention_auto_delete'') d = Inr (s, d1)"
    by (cases "delete_completed_campaign_data ca None (Some ''retention_auto_delete'') d")
      (auto simp: delete_completed_campaign_data_def Let_def)
  note D = delete_effect [OF run]
  have id: "ca_id ca = i" by (rule campaign_table.get_key [OF ca(1)])
  have get: "get_campaign d1 j = (if j = i then Some (ca\<lparr>ca_retention_delete_after := None\<rparr>)
      else get_campaign d j)" for j
    using ca(1) id by (simp add: get_campaign_def D(7) row_get_put)
  have of1: "contacts_of d1 k = (if k = i then [] else contacts_of d k)" for k
    by (auto simp: contacts_of_def D(4) id filter_empty_conv intro!: filter_cong)
  have "\<forall>j \<in> set is. \<exists>x. get_campaign d1 j = Some x \<and> ca_status x = Campaign_completed"
    using Cons.prems ca by (auto simp: get)
  from Cons.IH [OF this] obtain d' where "try_loop purge_one is d1 = Inr (length is, d')"
    "suppression_entries d' = suppression_entries d1"
    "\<forall>k. contacts_of d' k = (if k \<in> set is then [] else contacts_of d1 k)" by blast
  moreover have "purge_one i d = Inr (True, d1)" using ca(1) run by (simp add: purge_one_def)
  ultimately show ?case by (simp add: of1 D(6))
qed

text \<open>
  The purge never fails, empties exactly the completed campaigns whose deadline has come,
  counts them, and leaves every other campaign's contact rows and all suppression entries.
\<close>

theorem purge_takes_the_due:
  assumes "distinct (map ca_id (campaigns d))"
  shows "\<exists>d'. purge_expired_campaign_data now d = Inr (count_where (purge_due now) (campaigns d), d')
    \<and> suppression_entries d' = suppression_entries d
    \<and> (\<forall>k ca. get_campaign d k = Some ca \<longrightarrow>
          contacts_of d' k = (if purge_due now ca then [] else contacts_of d k))"
proof -
  let ?is = "map ca_id (filter (purge_due now) (campaigns d))"
  have get: "get_campaign d (ca_id ca) = Some ca" if "ca \<in> set (campaigns d)" for ca
    unfolding get_campaign_def by (rule row_get_distinct [OF assms that])
  have "\<forall>i \<in> set ?is. \<exists>ca. get_campaign d i = Some ca \<and> ca_status ca = Campaign_completed"
    using get by (auto simp: purge_due_def)
  from purge_loop [OF this] obtain d' where run: "try_loop purge_one ?is d = Inr (length ?is, d')"
    and d': "suppression_entries d' = suppression_entries d"
      "\<forall>k. contacts_of d' k = (if k \<in> set ?is then [] else contacts_of d k)" by blast
  have "k \<in> set ?is \<longleftrightarrow> purge_due now ca" if "get_campaign d k = Some ca" for k ca
  proof -
    have ca: "ca \<in> set (campaigns d)" "ca_id ca = k"
      using that by (auto simp: get_campaign_def dest: row_get_Some)
    have "x = ca" if "x \<in> set (campaigns d)" "ca_id x = k" for x
      using get [OF that(1)] get [OF ca(1)] that(2) ca(2) by simp
    moreover have "k \<in> set ?is \<longleftrightarrow> (\<exists>x \<in> set (campaigns d). purge_due now x \<and> ca_id x = k)"
      by auto
    ultimately show ?thesis using ca by blast
  qed
  with run d' show ?thesis by (simp add: purge_expired_campaign_data_def count_where_def)
qed

text \<open>
  The days shown are never negative, are zero exactly when the deadline has come, and
  otherwise are the deadline's distance rounded up to whole days.
\<close>

theorem days_remaining_bounds:
  assumes "retention_days_remaining ca now = Some r"
  shows "\<exists>t. ca_retention_delete_after ca = Some t \<and> 0 \<le> r \<and> (r = 0 \<longleftrightarrow> t \<le> now)
    \<and> (0 < r \<longrightarrow> now + days (r - 1) < t \<and> t \<le> now + days r)"
proof -
  obtain t where t: "ca_retention_delete_after ca = Some t"
    and r: "r = max 0 ((t - now) div days 1 + (if (t - now) mod days 1 \<noteq> 0 then 1 else 0))"
    using assms by (auto simp: retention_days_remaining_def Let_def split: option.splits)
  define q m where "q = (t - now) div days 1" and "m = (t - now) mod days 1"
  have "t - now = q * days 1 + m" "0 \<le> m" "m < days 1"
    by (simp_all add: q_def m_def days_def)
  then show ?thesis
    unfolding t r q_def [symmetric] m_def [symmetric] by (auto simp: days_def max_def)
qed

end
