(* ===== verification/Campaign_Steps.thy ===== *)
theory Campaign_Steps
  imports Campaign_Properties Retention Machines
begin

text \<open>
  The campaign services as a step relation: every operation of \<open>app/campaigns/service.py\<close> and
  \<open>retention.py\<close>, with the rows it loads, and the steps of other services, which leave the
  campaign, assignment and disposition tables alone. A detection or purge pass is a sequence of
  its steps for one campaign.
\<close>

section \<open>What stays true of the tables\<close>

definition campaign_ok :: "campaign \<Rightarrow> bool" where
  "campaign_ok ca \<longleftrightarrow>
     normalize_campaign_code (ca_external_code ca) = Inr (ca_external_code ca)
     \<and> (ca_status ca = Draft \<longrightarrow> ca_launched_at ca = None)
     \<and> (ca_status ca \<in> {Active, Paused, Campaign_completed} \<longrightarrow>
          ca_launched_at ca \<noteq> None \<and> missing_provenance ca = [])
     \<and> (ca_status ca = Archived \<longleftrightarrow> ca_archived_at ca \<noteq> None)
     \<and> (ca_status ca = Campaign_completed \<longleftrightarrow> ca_completed_at ca \<noteq> None)
     \<and> (ca_retention_delete_after ca = None
        \<or> ca_retention_delete_after ca = map_option (\<lambda>c. c + days retention_days) (ca_completed_at ca))"

definition campaigns_ok :: "campaign list \<Rightarrow> bool" where
  "campaigns_ok cs \<longleftrightarrow> distinct (map ca_id cs) \<and> distinct (map ca_external_code cs)
     \<and> (\<forall>ca \<in> set cs. campaign_ok ca)"

definition disposition_ok :: "disposition \<Rightarrow> bool" where
  "disposition_ok r \<longleftrightarrow> disposition_row_ok r
     \<and> (di_causes_dnc r \<longleftrightarrow> di_stable_semantic_code r = ''explicit_dnc'')
     \<and> (di_is_standard r \<longrightarrow>
          (\<exists>entry. standard_disposition_by_code (di_stable_semantic_code r) = Some entry
                   \<and> row_conforms entry r))"

abbreviation disposition_key :: "disposition \<Rightarrow> uuid \<times> string" where
  "disposition_key r \<equiv> (di_campaign_id r, di_stable_semantic_code r)"

definition dispositions_ok :: "disposition list \<Rightarrow> bool" where
  "dispositions_ok ds \<longleftrightarrow> distinct (map di_id ds) \<and> distinct (map disposition_key ds)
     \<and> (\<forall>r \<in> set ds. disposition_ok r)"

definition staff_ok :: "user_assignment list \<Rightarrow> bool" where
  "staff_ok us \<longleftrightarrow> distinct (map ua_id us) \<and> (\<forall>u. length (filter (active_primary u) us) \<le> 1)"

definition campaigns_inv :: "db \<Rightarrow> bool" where
  "campaigns_inv d \<longleftrightarrow> campaigns_ok (campaigns d) \<and> dispositions_ok (dispositions d)
     \<and> staff_ok (user_assignments d)"

section \<open>What happened stays\<close>

text \<open>The statuses a campaign can still reach.\<close>

fun leads_to :: "campaign_status \<Rightarrow> campaign_status \<Rightarrow> bool" where
  "leads_to Draft t = True"
| "leads_to Active t = (t \<noteq> Draft)"
| "leads_to Paused t = (t \<in> {Paused, Archived})"
| "leads_to Archived t = (t = Archived)"
| "leads_to Campaign_completed t = (t = Campaign_completed)"

lemma leads_to_refl [simp]: "leads_to s s"
  by (cases s) simp_all

lemma leads_to_trans: "leads_to s t \<Longrightarrow> leads_to t u \<Longrightarrow> leads_to s u"
  by (cases s; cases t; cases u) simp_all

definition campaign_keeps :: "campaign \<Rightarrow> campaign \<Rightarrow> bool" where
  "campaign_keeps ca ca' \<longleftrightarrow>
     ca_id ca' = ca_id ca \<and> ca_external_code ca' = ca_external_code ca
     \<and> leads_to (ca_status ca) (ca_status ca')
     \<and> (ca_disposition_policy_version ca \<noteq> None \<longrightarrow>
          ca_disposition_policy_version ca' = ca_disposition_policy_version ca)
     \<and> (ca_completed_at ca \<noteq> None \<longrightarrow> ca_completed_at ca' = ca_completed_at ca)
     \<and> (ca_status ca \<noteq> Draft \<longrightarrow>
          ca_launched_at ca' = ca_launched_at ca
          \<and> ca_disposition_policy_version ca' = ca_disposition_policy_version ca
          \<and> ca_purpose ca' = ca_purpose ca \<and> ca_data_source ca' = ca_data_source ca
          \<and> ca_data_obtained_at ca' = ca_data_obtained_at ca \<and> ca_lawful_basis ca' = ca_lawful_basis ca)"

lemma campaign_keeps_refl [simp]: "campaign_keeps ca ca"
  by (simp add: campaign_keeps_def)

lemma leads_to_draft: "leads_to s Draft \<Longrightarrow> s = Draft"
  by (cases s) simp_all

lemma campaign_keeps_trans:
  assumes "campaign_keeps a b" and "campaign_keeps b c"
  shows "campaign_keeps a c"
proof -
  have "leads_to (ca_status a) (ca_status c)"
    using assms leads_to_trans by (auto simp: campaign_keeps_def)
  moreover have "ca_status a \<noteq> Draft \<longrightarrow> ca_status b \<noteq> Draft"
    using assms(1) leads_to_draft by (auto simp: campaign_keeps_def)
  ultimately show ?thesis using assms by (simp add: campaign_keeps_def)
qed

definition campaign_history :: "db \<Rightarrow> db \<Rightarrow> bool" where
  "campaign_history d d' \<longleftrightarrow> (\<forall>i ca. get_campaign d i = Some ca \<longrightarrow>
     (\<exists>ca'. get_campaign d' i = Some ca' \<and> campaign_keeps ca ca'))"

section \<open>One change of each table\<close>

text \<open>Nothing, a fresh row, or one row rewritten.\<close>

definition campaigns_move :: "campaign list \<Rightarrow> campaign list \<Rightarrow> bool" where
  "campaigns_move cs cs' \<longleftrightarrow> cs' = cs
     \<or> (\<exists>ca. cs' = cs @ [ca] \<and> ca_id ca \<notin> ca_id ` set cs
          \<and> ca_external_code ca \<notin> ca_external_code ` set cs \<and> campaign_ok ca)
     \<or> (\<exists>ca ca'. row_get ca_id (ca_id ca) cs = Some ca \<and> cs' = row_put ca_id ca' cs
          \<and> campaign_keeps ca ca' \<and> (campaign_ok ca \<longrightarrow> campaign_ok ca'))"

lemma campaigns_move_refl [simp]: "campaigns_move cs cs"
  by (simp add: campaigns_move_def)

lemma campaigns_moveI:
  assumes "get_campaign d i = Some ca" and "campaigns d' = row_put ca_id ca' (campaigns d)"
    and "campaign_keeps ca ca'" and "campaign_ok ca \<Longrightarrow> campaign_ok ca'"
  shows "campaigns_move (campaigns d) (campaigns d')"
proof -
  have "row_get ca_id (ca_id ca) (campaigns d) = Some ca"
    using assms(1) campaign_table.get_key [OF assms(1)] by (simp add: get_campaign_def)
  with assms(2-4) show ?thesis unfolding campaigns_move_def by blast
qed

lemma codes_row_put:
  assumes "row_get ca_id (ca_id ca) cs = Some ca" and "distinct (map ca_id cs)"
    and "ca_id ca' = ca_id ca" and "ca_external_code ca' = ca_external_code ca"
  shows "map ca_external_code (row_put ca_id ca' cs) = map ca_external_code cs"
proof -
  have "ca \<in> set cs" using assms(1) by (auto dest: row_get_Some)
  then have "x = ca" if "x \<in> set cs" "ca_id x = ca_id ca" for x
    using that assms(2) by (auto simp: distinct_map inj_on_def)
  then show ?thesis using assms(3,4) by (auto simp: row_put_def)
qed

lemma campaigns_move_ok:
  assumes "campaigns_move cs cs'" and "campaigns_ok cs"
  shows "campaigns_ok cs'"
  using assms(1) unfolding campaigns_move_def
proof (elim disjE exE conjE)
  fix ca ca'
  assume g: "row_get ca_id (ca_id ca) cs = Some ca" and cs': "cs' = row_put ca_id ca' cs"
    and k: "campaign_keeps ca ca'" and ok: "campaign_ok ca \<longrightarrow> campaign_ok ca'"
  have "campaign_ok ca" using g assms(2) by (auto simp: campaigns_ok_def dest: row_get_Some)
  with ok have "\<forall>x \<in> set cs'. campaign_ok x"
    unfolding cs' using assms(2) by (intro row_put_all) (auto simp: campaigns_ok_def)
  then show ?thesis
    using assms(2) codes_row_put [OF g, of ca'] k by (simp add: campaigns_ok_def cs' campaign_keeps_def)
qed (use assms(2) in \<open>auto simp: campaigns_ok_def\<close>)

lemma campaigns_move_history:
  assumes "campaigns_move (campaigns d) (campaigns d')"
  shows "campaign_history d d'"
  using assms unfolding campaigns_move_def
proof (elim disjE exE conjE)
  fix ca ca'
  assume g: "row_get ca_id (ca_id ca) (campaigns d) = Some ca"
    and cs': "campaigns d' = row_put ca_id ca' (campaigns d)" and k: "campaign_keeps ca ca'"
  have "ca_id ca' = ca_id ca" using k by (simp add: campaign_keeps_def)
  then show ?thesis
    using g k by (auto simp: campaign_history_def get_campaign_def cs' row_get_put)
next
  fix ca
  assume "campaigns d' = campaigns d @ [ca]"
  then show ?thesis by (auto simp: campaign_history_def get_campaign_def row_get_append)
qed (auto simp: campaign_history_def get_campaign_def)

section \<open>The operations\<close>

lemma normalized_code: "normalize_campaign_code s = Inr c \<Longrightarrow> normalize_campaign_code c = Inr c"
  by (auto simp: normalize_campaign_code_def Let_def split: if_splits)

lemma create_campaign_moves:
  assumes "create_campaign e q d = Inr (ca, d')" and "get_campaign d (fresh_id e 0) = None"
  shows "campaigns_move (campaigns d) (campaigns d') \<and> user_assignments d' = user_assignments d
    \<and> dispositions d' = dispositions d"
proof -
  have "ca_id ca \<notin> ca_id ` set (campaigns d) \<and> ca_external_code ca \<notin> ca_external_code ` set (campaigns d)
      \<and> campaign_ok ca \<and> campaigns d' = campaigns d @ [ca]"
    using assms
    by (auto simp: create_campaign_def Let_def get_campaign_def row_get_None campaign_ok_def find_None_iff
        normalized_code image_iff split: sum.splits if_splits)
  moreover have "user_assignments d' = user_assignments d \<and> dispositions d' = dispositions d"
    using assms(1) by (auto simp: create_campaign_def Let_def split: sum.splits if_splits)
  ultimately show ?thesis unfolding campaigns_move_def by blast
qed

lemma save_campaign_sel [simp]:
  "campaigns (snd (save_campaign a u m ca d)) = row_put ca_id ca (campaigns d)"
  "user_assignments (snd (save_campaign a u m ca d)) = user_assignments d"
  "dispositions (snd (save_campaign a u m ca d)) = dispositions d"
  by (simp_all add: save_campaign_def)

text \<open>The four operations that rewrite the loaded row.\<close>

lemma set_fields_keeps:
  "ca_status ca = Draft \<Longrightarrow> campaign_keeps ca (set_fields f ca)
     \<and> (campaign_ok ca \<longrightarrow> campaign_ok (set_fields f ca))"
  by (auto simp: campaign_keeps_def campaign_ok_def set_fields_def)

lemma launch_keeps:
  "\<lbrakk>ca_status ca = Draft; missing_provenance ca = []\<rbrakk>
   \<Longrightarrow> campaign_keeps ca (ca\<lparr>ca_status := Active, ca_launched_at := Some t\<rparr>)
     \<and> (campaign_ok ca \<longrightarrow> campaign_ok (ca\<lparr>ca_status := Active, ca_launched_at := Some t\<rparr>))"
  by (auto simp: campaign_keeps_def campaign_ok_def missing_provenance_def)

lemma pause_keeps:
  "ca_status ca = Active \<Longrightarrow> campaign_keeps ca (ca\<lparr>ca_status := Paused\<rparr>)
     \<and> (campaign_ok ca \<longrightarrow> campaign_ok (ca\<lparr>ca_status := Paused\<rparr>))"
  by (auto simp: campaign_keeps_def campaign_ok_def missing_provenance_def)

lemma archive_keeps:
  "ca_status ca \<in> {Active, Paused, Draft}
   \<Longrightarrow> campaign_keeps ca (ca\<lparr>ca_status := Archived, ca_archived_at := Some t\<rparr>)
     \<and> (campaign_ok ca \<longrightarrow> campaign_ok (ca\<lparr>ca_status := Archived, ca_archived_at := Some t\<rparr>))"
  by (auto simp: campaign_keeps_def campaign_ok_def)

lemma policy_keeps:
  "\<lbrakk>ca_status ca = Draft; ca_disposition_policy_version ca = None\<rbrakk>
   \<Longrightarrow> campaign_keeps ca (ca\<lparr>ca_disposition_policy_version := v\<rparr>)
     \<and> (campaign_ok ca \<longrightarrow> campaign_ok (ca\<lparr>ca_disposition_policy_version := v\<rparr>))"
  by (auto simp: campaign_keeps_def campaign_ok_def missing_provenance_def)

lemma completed_keeps:
  "campaign_is_complete ca d \<Longrightarrow> campaign_ok ca
   \<Longrightarrow> campaign_keeps ca (completed_row t ca) \<and> campaign_ok (completed_row t ca)"
  by (auto simp: campaign_keeps_def campaign_ok_def completed_row_def campaign_is_complete_def
      missing_provenance_def)

lemma purged_keeps:
  "campaign_keeps ca (ca\<lparr>ca_retention_delete_after := None\<rparr>)
     \<and> (campaign_ok ca \<longrightarrow> campaign_ok (ca\<lparr>ca_retention_delete_after := None\<rparr>))"
  by (auto simp: campaign_keeps_def campaign_ok_def missing_provenance_def)

text \<open>What each of them saves.\<close>

lemma update_Inr:
  "update_campaign ca u f d = Inr (x, d') \<Longrightarrow>
     ca_status ca = Draft \<and> (x, d') = save_campaign ''campaign.update'' u [] (set_fields f ca) d"
  by (simp add: update_campaign_def split: if_splits)

lemma launch_Inr:
  assumes "launch_campaign e ca u d = Inr (x, d')"
  shows "ca_status ca = Draft \<and> missing_provenance ca = []
     \<and> (\<exists>cc \<in> set (campaign_contacts d). cc_campaign_id cc = ca_id ca)
     \<and> (ca_disposition_policy_version ca = Some policy_version \<longrightarrow>
          pv_valid (validate_standard_dispositions d ca))
     \<and> (\<exists>m. (x, d') = save_campaign ''campaign.launch'' u m
           (ca\<lparr>ca_status := Active, ca_launched_at := Some (clk e 0)\<rparr>) d)"
proof -
  let ?n = "count_where (\<lambda>c. cc_campaign_id c = ca_id ca) (campaign_contacts d)"
  have g: "ca_status ca = Draft \<and> missing_provenance ca = [] \<and> ?n \<noteq> 0
      \<and> \<not> (ca_disposition_policy_version ca = Some policy_version
            \<and> \<not> pv_valid (validate_standard_dispositions d ca))"
    and s: "save_campaign ''campaign.launch'' u [(''contacts'', JInt (int ?n))]
       (ca\<lparr>ca_status := Active, ca_launched_at := Some (clk e 0)\<rparr>) d = (x, d')"
    using assms unfolding launch_campaign_def Let_def
    by (simp_all split: if_split_asm option.split_asm)
  from g have "\<exists>cc \<in> set (campaign_contacts d). cc_campaign_id cc = ca_id ca"
    by (simp add: count_where_0)
  with g s [symmetric] show ?thesis by blast
qed

lemma pause_Inr:
  "pause_campaign ca u d = Inr (x, d') \<Longrightarrow>
     ca_status ca = Active \<and> (x, d') = save_campaign ''campaign.pause'' u [] (ca\<lparr>ca_status := Paused\<rparr>) d"
  by (simp add: pause_campaign_def split: if_splits)

lemma archive_Inr:
  "archive_campaign e ca u d = Inr (x, d') \<Longrightarrow>
     ca_status ca \<in> {Active, Paused, Draft}
     \<and> (x, d') = save_campaign ''campaign.archive'' u []
                   (ca\<lparr>ca_status := Archived, ca_archived_at := Some (clk e 0)\<rparr>) d"
  by (simp add: archive_campaign_def split: if_splits)

lemma save_moves:
  assumes "get_campaign d i = Some ca" and "(x, d') = save_campaign a u m ca' d"
    and "campaign_keeps ca ca' \<and> (campaign_ok ca \<longrightarrow> campaign_ok ca')"
  shows "campaigns_move (campaigns d) (campaigns d') \<and> user_assignments d' = user_assignments d
    \<and> dispositions d' = dispositions d"
proof -
  have "d' = snd (save_campaign a u m ca' d)" using assms(2) by (metis snd_conv)
  then show ?thesis using campaigns_moveI [OF assms(1), of d' ca'] assms(3) by simp
qed

lemma rewrite_moves:
  assumes g: "get_campaign d i = Some ca"
    and "update_campaign ca u f d = Inr (x, d') \<or> launch_campaign e ca u d = Inr (x, d')
       \<or> pause_campaign ca u d = Inr (x, d') \<or> archive_campaign e ca u d = Inr (x, d')"
  shows "campaigns_move (campaigns d) (campaigns d') \<and> user_assignments d' = user_assignments d
    \<and> dispositions d' = dispositions d"
  using assms(2)
proof (elim disjE)
  assume "update_campaign ca u f d = Inr (x, d')"
  note r = update_Inr [OF this]
  show ?thesis by (rule save_moves [OF g conjunct2 [OF r] set_fields_keeps]) (use r in simp)
next
  assume "launch_campaign e ca u d = Inr (x, d')"
  note r = launch_Inr [OF this]
  then obtain m where m: "(x, d') = save_campaign ''campaign.launch'' u m
    (ca\<lparr>ca_status := Active, ca_launched_at := Some (clk e 0)\<rparr>) d" by blast
  show ?thesis by (rule save_moves [OF g m launch_keeps]) (use r in simp_all)
next
  assume "pause_campaign ca u d = Inr (x, d')"
  note r = pause_Inr [OF this]
  show ?thesis by (rule save_moves [OF g conjunct2 [OF r] pause_keeps]) (use r in simp)
next
  assume "archive_campaign e ca u d = Inr (x, d')"
  note r = archive_Inr [OF this]
  show ?thesis by (rule save_moves [OF g conjunct2 [OF r] archive_keeps]) (use r in simp)
qed

section \<open>Dispositions and staff\<close>

lemma create_disposition_ok:
  assumes "create_disposition e ca u q d = Inr (r, d')" and "dispositions_ok (dispositions d)"
    and "fresh_id e 0 \<notin> di_id ` set (dispositions d)"
  shows "dispositions_ok (dispositions d')"
proof -
  note c = create_disposition_Inr [OF assms(1)]
  then have "disposition_ok r" by (auto simp: disposition_ok_def custom_disposition_def)
  moreover have "di_id r = fresh_id e 0" using c by (simp add: custom_disposition_def)
  moreover have d': "dispositions d' = dispositions d @ [r]"
    and "distinct (map disposition_key (dispositions d'))" using c by blast+
  ultimately show ?thesis using assms(2,3) by (auto simp: dispositions_ok_def)
qed

lemma standard_row_ok:
  assumes "entry \<in> set standard_dispositions" and "delays_ok na un"
  shows "disposition_ok (standard_row i ca na un entry)"
proof -
  note c = standard_row_conforms [OF assms, of i ca]
  then have "disposition_row_ok (standard_row i ca na un entry)" using assms(1) by (rule conforms_row_ok)
  moreover have "sd_causes_dnc entry \<longleftrightarrow> sd_stable_semantic_code entry = ''explicit_dnc''"
    using assms(1) unfolding standard_dispositions_def list.set insert_iff empty_iff
    by (elim disjE) simp_all
  ultimately show ?thesis using c standard_by_code [OF assms(1)]
    by (simp add: disposition_ok_def standard_row_def)
qed

lemma install_ok:
  assumes "install_standard_dispositions e ca u na un d = Inr (rows, d')"
    and "dispositions_ok (dispositions d)"
    and "distinct (map (fresh_id e) [0..<7])" and "fresh_id e ` {..<7} \<inter> di_id ` set (dispositions d) = {}"
  shows "dispositions_ok (dispositions d')"
proof -
  note i = install_Inr [OF assms(1)]
  then have rows: "rows = standard_rows e ca na un" and d': "dispositions d' = dispositions d @ rows"
    and dl: "delays_ok na un" and new: "\<forall>r \<in> set (dispositions d). di_campaign_id r \<noteq> ca_id ca" by blast+
  have ids: "map di_id rows = map (fresh_id e) [0..<7]"
    by (simp add: rows standard_rows_def standard_row_def standard_dispositions_def upt_rec)
  have "distinct (map disposition_key rows)"
  proof -
    have "distinct (map snd (map disposition_key rows))"
      by (simp add: comp_def rows standard_rows_codes standard_codes_distinct)
    then show ?thesis by (simp only: distinct_map)
  qed
  moreover have "\<forall>r \<in> set rows. disposition_ok r \<and> di_campaign_id r = ca_id ca"
    using standard_row_ok [OF _ dl] by (auto simp: rows standard_row_def elim!: standard_rows_mem)
  moreover have "set (map di_id rows) \<inter> di_id ` set (dispositions d) = {}"
    using assms(4) by (simp add: ids atLeast0LessThan)
  ultimately show ?thesis
    using assms(2,3) new unfolding dispositions_ok_def d' map_append distinct_append ids [symmetric]
    by auto
qed

lemma update_retry_Inr:
  assumes "update_retry_policy ca c m u d = Inr (r, d')"
  obtains entry row where "standard_disposition_by_code c = Some entry"
    and "sd_retry_delay_editable entry" and "ca_status ca = Draft" and "retry_delay_in_range m"
    and "row \<in> set (dispositions d)" and "di_campaign_id row = ca_id ca"
    and "di_stable_semantic_code row = c" and "r = row\<lparr>di_retry_delay_minutes := Some m\<rparr>"
    and "dispositions d' = row_put di_id r (dispositions d)"
    and "campaigns d' = campaigns d" and "user_assignments d' = user_assignments d"
  using assms
  by (auto simp: update_retry_policy_def Let_def validate_retry_delay_def
      split: option.splits if_splits dest!: find_SomeD)

lemma update_retry_ok:
  assumes "update_retry_policy ca c m u d = Inr (r, d')" and "dispositions_ok (dispositions d)"
  shows "dispositions_ok (dispositions d')"
  using assms(1)
proof (rule update_retry_Inr)
  fix entry row
  assume e: "standard_disposition_by_code c = Some entry" "sd_retry_delay_editable entry"
    and m: "retry_delay_in_range m" and row: "row \<in> set (dispositions d)"
    and c: "di_stable_semantic_code row = c" and r: "r = row\<lparr>di_retry_delay_minutes := Some m\<rparr>"
    and d': "dispositions d' = row_put di_id r (dispositions d)"
  have "disposition_ok row" using assms(2) row by (simp add: dispositions_ok_def)
  then have ok: "disposition_ok r"
    using e m by (auto simp: disposition_ok_def r c disposition_row_ok_def row_conforms_def retry_bounds)
  have "map disposition_key (row_put di_id r (dispositions d)) = map disposition_key (dispositions d)"
  proof -
    have "x = row" if "x \<in> set (dispositions d)" "di_id x = di_id r" for x
      using that row assms(2) by (auto simp: r dispositions_ok_def distinct_map inj_on_def)
    then show ?thesis by (auto simp: row_put_def r)
  qed
  with ok assms(2) show ?thesis
    unfolding dispositions_ok_def d' by (auto intro!: row_put_all simp del: map_map)
      (auto dest: set_row_put)
qed

lemma staff_ok_append:
  assumes "staff_ok us" and "ua_id x \<notin> ua_id ` set us"
    and "\<And>u. active_primary u x \<Longrightarrow> filter (active_primary u) us = []"
  shows "staff_ok (us @ [x])"
  using assms by (auto simp: staff_ok_def)

lemma staff_ok_ended:
  assumes "staff_ok us" and "a \<in> set us"
  shows "staff_ok (row_put ua_id (ended_assignment t a) us)"
proof -
  have "filter (active_primary u) (row_put ua_id (ended_assignment t a) us)
      = filter (\<lambda>x. active_primary u x \<and> x \<noteq> a) us" for u
    using assms by (intro filter_row_put_leave) (auto simp: staff_ok_def)
  moreover have "length (filter (\<lambda>x. active_primary u x \<and> x \<noteq> a) us) \<le> length (filter (active_primary u) us)" for u
    by (induction us) auto
  ultimately show ?thesis using assms(1) by (auto simp: staff_ok_def intro: order_trans)
qed

lemma assign_agent_ok:
  assumes "assign_agent_to_campaign e ca a t u ty p al sh d = Inr (x, d')"
    and "staff_ok (user_assignments d)" and "fresh_id e 0 \<notin> ua_id ` set (user_assignments d)"
  shows "staff_ok (user_assignments d')"
proof -
  note i = assign_agent_Inr [OF assms(1)]
  have "filter (active_primary v) (user_assignments d) = []" if "active_primary v x" for v
    using that i by (auto simp: filter_empty_conv active_primary_def)
  then have "staff_ok (user_assignments d @ [x])"
    using assms(2,3) i by (intro staff_ok_append) auto
  with i show ?thesis by simp
qed

lemma transfer_ok:
  assumes "transfer_agent e a from to t u rc d = Inr (x, d')"
    and "staff_ok (user_assignments d)" and "fresh_id e 0 \<notin> ua_id ` set (user_assignments d)"
  shows "staff_ok (user_assignments d')"
  using assms(1)
proof (rule transfer_Inr)
  fix source n d2
  let ?us = "row_put ua_id (ended_assignment (clk e 1) source) (user_assignments d)"
  assume s: "find (primary_on a (ca_id from)) (user_assignments d) = Some source"
    and x: "x = new_user_assignment e (ca_id to) (clk e 1) a t u ''primary''"
    and ua: "user_assignments d' = ?us @ [x]"
  from s have src: "source \<in> set (user_assignments d)" "active_primary a source"
    by (auto simp: primary_on_def dest: find_SomeD)
  have "filter (active_primary v) ?us = []" if "active_primary v x" for v
  proof -
    have v: "v = a" using that by (simp add: x active_primary_def new_user_assignment_def)
    have "filter (active_primary a) (user_assignments d) = [source]"
      using src assms(2) by (intro only_element) (auto simp: staff_ok_def)
    moreover have "filter (active_primary a) ?us
        = filter (\<lambda>y. y \<noteq> source) (filter (active_primary a) (user_assignments d))"
      using assms(2) src
      by (subst filter_row_put_leave [of _ _ source]) (auto simp: staff_ok_def conj_commute)
    ultimately show ?thesis by (simp add: v)
  qed
  moreover have "ua_id x \<notin> ua_id ` set ?us"
    using assms(3) keys_row_put [of ua_id "ended_assignment (clk e 1) source" "user_assignments d"]
    by (metis (no_types, lifting) x list.set_map new_user_assignment_def user_assignment.select_convs(1))
  ultimately show ?thesis
    using staff_ok_ended [OF assms(2) src(1)] by (simp add: ua staff_ok_append)
qed

section \<open>The machine\<close>

inductive campaign_step :: "db \<Rightarrow> db \<Rightarrow> bool" where
  create: "\<lbrakk>create_campaign e q d = Inr (ca, d'); get_campaign d (fresh_id e 0) = None\<rbrakk>
    \<Longrightarrow> campaign_step d d'"
| update: "\<lbrakk>get_campaign d i = Some ca; update_campaign ca u f d = Inr (x, d')\<rbrakk> \<Longrightarrow> campaign_step d d'"
| launch: "\<lbrakk>get_campaign d i = Some ca; launch_campaign e ca u d = Inr (x, d')\<rbrakk> \<Longrightarrow> campaign_step d d'"
| pause: "\<lbrakk>get_campaign d i = Some ca; pause_campaign ca u d = Inr (x, d')\<rbrakk> \<Longrightarrow> campaign_step d d'"
| archive: "\<lbrakk>get_campaign d i = Some ca; archive_campaign e ca u d = Inr (x, d')\<rbrakk>
    \<Longrightarrow> campaign_step d d'"
| mark: "mark_if_complete e now i d = (b, d') \<Longrightarrow> campaign_step d d'"
| delete: "\<lbrakk>get_campaign d i = Some ca; delete_completed_campaign_data ca v reason d = Inr (sm, d')\<rbrakk>
    \<Longrightarrow> campaign_step d d'"
| disposition: "\<lbrakk>create_disposition e ca u q2 d = Inr (r, d');
    fresh_id e 0 \<notin> di_id ` set (dispositions d)\<rbrakk> \<Longrightarrow> campaign_step d d'"
| install: "\<lbrakk>get_campaign d i = Some ca; install_standard_dispositions e ca u na un d = Inr (rows, d');
    distinct (map (fresh_id e) [0..<7]); fresh_id e ` {..<7} \<inter> di_id ` set (dispositions d) = {}\<rbrakk>
    \<Longrightarrow> campaign_step d d'"
| retry_policy: "update_retry_policy ca c m u d = Inr (r, d') \<Longrightarrow> campaign_step d d'"
| assign: "\<lbrakk>assign_agent_to_campaign e ca a t u ty p al sh d = Inr (y, d');
    fresh_id e 0 \<notin> ua_id ` set (user_assignments d)\<rbrakk> \<Longrightarrow> campaign_step d d'"
| end_assignment: "\<lbrakk>y \<in> set (user_assignments d); end_user_assignment e y u rc d = (y', d')\<rbrakk>
    \<Longrightarrow> campaign_step d d'"
| transfer: "\<lbrakk>transfer_agent e a from to t u rc d = Inr (y, d');
    fresh_id e 0 \<notin> ua_id ` set (user_assignments d)\<rbrakk> \<Longrightarrow> campaign_step d d'"
| elsewhere: "\<lbrakk>campaigns d' = campaigns d; user_assignments d' = user_assignments d;
    dispositions d' = dispositions d\<rbrakk> \<Longrightarrow> campaign_step d d'"

definition campaign_start :: "db \<Rightarrow> bool" where
  "campaign_start d \<longleftrightarrow> campaigns d = [] \<and> user_assignments d = [] \<and> dispositions d = []"

lemma mark_moves:
  assumes "mark_if_complete e now i d = (b, d')" and "campaigns_ok (campaigns d)"
  shows "campaigns_move (campaigns d) (campaigns d') \<and> user_assignments d' = user_assignments d
    \<and> dispositions d' = dispositions d"
proof (cases "\<exists>ca. get_campaign d i = Some ca \<and> campaign_is_complete ca d")
  case True
  then obtain ca where ca: "get_campaign d i = Some ca" "campaign_is_complete ca d" by blast
  then have d': "d' = mark_campaign_completed e now ca d" using assms(1) by (simp add: mark_if_complete_def)
  have "campaign_ok ca" using ca(1) assms(2) by (auto simp: get_campaign_def campaigns_ok_def dest: row_get_Some)
  from completed_keeps [OF ca(2) this] show ?thesis
    using campaigns_moveI [OF ca(1), of d' "completed_row now ca"] by (simp add: d')
next
  case False
  then have "d' = d" using assms(1) by (auto simp: mark_if_complete_def split: option.splits if_splits)
  then show ?thesis by simp
qed

lemma end_assignment_sel:
  assumes "end_user_assignment e y u rc d = (y', d')"
  shows "user_assignments d' = row_put ua_id (ended_assignment (clk e 0) y) (user_assignments d)
    \<and> campaigns d' = campaigns d \<and> dispositions d' = dispositions d"
proof -
  let ?d1 = "d\<lparr>user_assignments := row_put ua_id (ended_assignment (clk e 0) y) (user_assignments d)\<rparr>"
  obtain n d2 where r: "release_campaign_work_for_agent e (ua_user_id y) (ua_campaign_id y) ?d1 = (n, d2)"
    by fastforce
  then obtain ws where "d2 = ?d1\<lparr>work_items := ws\<rparr>" using release_frame by blast
  then show ?thesis using assms r by (auto simp: end_user_assignment_def Let_def)
qed

text \<open>Each step moves one row of the campaign table at most and keeps the other two in order.\<close>

lemma campaign_step_moves:
  assumes "campaign_step d d'" and "campaigns_inv d"
  shows "campaigns_move (campaigns d) (campaigns d') \<and> dispositions_ok (dispositions d')
    \<and> staff_ok (user_assignments d')"
proof -
  have inv: "campaigns_ok (campaigns d)" "dispositions_ok (dispositions d)"
    "staff_ok (user_assignments d)" using assms(2) by (simp_all add: campaigns_inv_def)
  show ?thesis
    using assms(1)
  proof cases
    case create
    with create_campaign_moves [OF create] inv show ?thesis by simp
  next
    case (update i ca u f x)
    with rewrite_moves [OF update(1), of u f x d'] inv show ?thesis by simp
  next
    case (launch i ca e u x)
    with rewrite_moves [OF launch(1), of u _ x d' e] inv show ?thesis by simp
  next
    case (pause i ca u x)
    with rewrite_moves [OF pause(1), of u _ x d'] inv show ?thesis by simp
  next
    case (archive i ca e u x)
    with rewrite_moves [OF archive(1), of u _ x d' e] inv show ?thesis by simp
  next
    case mark
    with mark_moves [OF mark inv(1)] inv show ?thesis by simp
  next
    case (delete i ca v reason sm)
    note e = delete_effect [OF delete(2)]
    from campaigns_moveI [OF delete(1) e(7)] e(8,9) inv purged_keeps show ?thesis by simp
  next
    case (disposition e ca u q2 r)
    with create_disposition_Inr [OF disposition(1)] create_disposition_ok [OF disposition(1) inv(2)] inv
    show ?thesis by simp
  next
    case (install i ca e u na un rows)
    note r = install_Inr [OF install(2)]
    have "campaigns_move (campaigns d) (campaigns d')"
      using campaigns_moveI [OF install(1), of d' "ca\<lparr>ca_disposition_policy_version := Some policy_version\<rparr>"]
        r policy_keeps by blast
    with r install_ok [OF install(2) inv(2) install(3,4)] inv show ?thesis by simp
  next
    case (retry_policy ca c m u r)
    then have "campaigns d' = campaigns d" "user_assignments d' = user_assignments d"
      by (auto elim: update_retry_Inr)
    with update_retry_ok [OF retry_policy inv(2)] inv show ?thesis by simp
  next
    case (assign e ca a t u ty p al sh y)
    with assign_agent_Inr [OF assign(1)] assign_agent_ok [OF assign(1) inv(3)] inv show ?thesis by simp
  next
    case (end_assignment y e u rc y')
    with end_assignment_sel [OF end_assignment(2)] staff_ok_ended [OF inv(3)] inv show ?thesis by simp
  next
    case (transfer e a src dst t u rc y)
    then have "campaigns d' = campaigns d" "dispositions d' = dispositions d" by (auto elim: transfer_Inr)
    with transfer_ok [OF transfer(1) inv(3) transfer(2)] inv show ?thesis by simp
  next
    case elsewhere
    with inv show ?thesis by simp
  qed
qed

lemma campaign_history_trans:
  "campaign_history d d' \<Longrightarrow> campaign_history d' d'' \<Longrightarrow> campaign_history d d''"
  unfolding campaign_history_def by (meson campaign_keeps_trans)

interpretation campaign_machine:
  history_machine campaign_start campaign_step campaigns_inv campaign_history
proof unfold_locales
  show "campaigns_inv d" if "campaign_start d" for d
    using that by (simp add: campaign_start_def campaigns_inv_def campaigns_ok_def dispositions_ok_def
        staff_ok_def)
  show "campaigns_inv d'" if "campaigns_inv d" "campaign_step d d'" for d d'
    using campaign_step_moves [OF that(2,1)] that(1)
    by (auto simp: campaigns_inv_def intro: campaigns_move_ok)
  show "campaign_history d d" for d by (simp add: campaign_history_def)
  show "campaign_history d d''" if "campaign_history d d'" "campaign_history d' d''" for d d' d''
    using that by (rule campaign_history_trans)
  show "campaign_history d d'" if "campaigns_inv d" "campaign_step d d'" for d d'
    using campaign_step_moves [OF that(2,1)] by (auto intro: campaigns_move_history)
qed

text \<open>
  C17: in every reachable state campaign codes are unique and normalized; a campaign that is or
  was running has its provenance and launch time, a completed one the deadline 60 days after
  its completion; exactly the rows with the protected code suppress, standard rows never drift
  from the manifest; and no user has two active primary assignments.
\<close>

theorem campaign_invariant:
  assumes "reachable campaign_start campaign_step d"
  shows "campaigns_ok (campaigns d) \<and> dispositions_ok (dispositions d) \<and> staff_ok (user_assignments d)"
  using campaign_machine.reachable_inv [OF assms] by (simp add: campaigns_inv_def)

text \<open>
  C18: whatever follows, a campaign keeps its identity and code and moves only forward
  (draft, active, then paused, archived or completed): an archived or completed one never
  changes status, a paused one can only be archived, and launch time, provenance and policy of
  a launched one are frozen.
\<close>

theorem campaign_lifecycle:
  assumes "reachable campaign_start campaign_step d" and "run campaign_step d d'"
    and "get_campaign d i = Some ca"
  shows "\<exists>ca'. get_campaign d' i = Some ca' \<and> campaign_keeps ca ca'"
  using campaign_machine.reachable_past [OF assms(1,2)] assms(3) by (simp add: campaign_history_def)

end
