(* ===== verification/Campaign_Witnesses.thy ===== *)
theory Campaign_Witnesses
  imports Campaign_Steps Sample
begin

text \<open>
  The theorems about campaigns applied to concrete data: a campaign taken from draft through
  the standard policy, staffing and a transfer, to completion and the purge.
\<close>

definition draft_campaign :: campaign where
  "draft_campaign = sample_campaign\<lparr>ca_status := Draft, ca_launched_at := None,
     ca_disposition_policy_version := None\<rparr>"

definition draft_db :: db where
  "draft_db = sample_db\<lparr>campaigns := [draft_campaign], dispositions := []\<rparr>"

lemmas standard_eval = standard_rows_def standard_dispositions_def standard_row_def
  installed_delay_def retry_override_def default_no_answer_retry_minutes_def
  default_unavailable_retry_minutes_def policy_version_def

theorem installed_policy_valid_witness:
  "\<exists>rows d'. install_standard_dispositions sample_env draft_campaign 1 (Some 45) None draft_db
      = Inr (rows, d') \<and> length rows = 7
      \<and> pv_valid (validate_standard_dispositions d' (draft_campaign\<lparr>ca_disposition_policy_version := Some 1\<rparr>))"
proof -
  have "distinct (map (\<lambda>r. (di_campaign_id r, di_stable_semantic_code r)) (dispositions draft_db))"
    by (simp add: draft_db_def)
  from iffD2 [OF installed_policy_valid [OF this, where e = sample_env and ca = draft_campaign
        and u = 1 and na = "Some 45" and un = None]]
  obtain rows d' where i: "install_standard_dispositions sample_env draft_campaign 1 (Some 45) None draft_db
      = Inr (rows, d')"
    and c: "map di_stable_semantic_code rows = map sd_stable_semantic_code standard_dispositions"
    and v: "pv_valid (validate_standard_dispositions d' (draft_campaign\<lparr>ca_disposition_policy_version := Some 1\<rparr>))"
    by (auto simp: draft_campaign_def sample_campaign_def draft_db_def delays_ok_def retry_bounds)
  from c have "length rows = length standard_dispositions" by (rule map_eq_imp_length_eq)
  with i v show ?thesis by (simp add: standard_dispositions_def)
qed

definition standard_db :: db where
  "standard_db = sample_db\<lparr>dispositions := standard_rows sample_env sample_campaign None None\<rparr>"

theorem standard_outcomes_witness:
  "\<exists>r d' w2. complete_work_item sample_crypto sample_env default_settings (sample_request 901) standard_db
     = Inr (r, d') \<and> get_work_item d' 2 = Some w2 \<and> wi_state w2 = Retry_wait"
proof -
  obtain r d' where run: "complete_work_item sample_crypto sample_env default_settings
      (sample_request 901) standard_db = Inr (r, d')"
    by (simp add: complete_eval sample_defs standard_db_def standard_eval)
  have e: "existing_attempt standard_db (rq_agent_id (sample_request 901))
      (rq_idempotency_key (sample_request 901)) = None"
    by (simp add: existing_attempt_def standard_db_def sample_defs empty_db_def)
  let ?entry = "standard_dispositions ! 1"
  have en: "?entry \<in> set standard_dispositions" by (simp add: standard_dispositions_def)
  have g: "get_disposition standard_db (rq_disposition_id (sample_request 901))
      = Some (standard_row 901 sample_campaign None None ?entry)"
    by (simp add: get_disposition_def row_get_def standard_db_def sample_defs standard_eval)
  have c: "row_conforms ?entry (standard_row 901 sample_campaign None None ?entry)"
    by (rule standard_row_conforms [OF en]) (simp add: delays_ok_def)
  have w: "get_work_item standard_db (rq_work_item_id (sample_request 901)) = Some leased_item"
    by (simp add: get_work_item_def row_get_def standard_db_def sample_defs)
  from standard_outcomes_take_effect [OF run e g en c] w run show ?thesis
    by (auto simp: sample_request_def standard_outcome_def standard_dispositions_def leased_item_def
        sample_item_def)
qed

definition free_form :: disposition_request where
  "free_form = \<lparr>dq_label = ''Sale'', dq_stable_semantic_code = ''sale'',
     dq_next_action = Some ''complete'', dq_requires_notes = False, dq_requires_callback_time = False,
     dq_counts_as_connected = True, dq_counts_as_conversion = True, dq_causes_dnc = False\<rparr>"

theorem free_form_breaks_policy_witness:
  "\<exists>r d'. create_disposition sample_env sample_campaign 1 free_form standard_db = Inr (r, d')
     \<and> \<not> pv_valid (validate_standard_dispositions d' sample_campaign)"
proof -
  obtain r d' where run: "create_disposition sample_env sample_campaign 1 free_form standard_db = Inr (r, d')"
    by (simp add: create_disposition_def free_form_def protected_dnc_semantic_codes_def
        flush_dispositions_def Let_def custom_disposition_def disposition_row_ok_def standard_db_def
        sample_defs standard_eval)
  have "standard_disposition_by_code (dq_stable_semantic_code free_form) = None"
    by (simp add: standard_disposition_by_code_def row_get_def free_form_def standard_dispositions_def)
  from free_form_breaks_policy [OF run this] run show ?thesis by blast
qed

section \<open>Staffing\<close>

definition other_campaign :: campaign where
  "other_campaign = sample_campaign\<lparr>ca_id := 2, ca_external_code := ''C2''\<rparr>"

definition staff_db :: db where
  "staff_db = sample_db\<lparr>campaigns := [sample_campaign, other_campaign],
     team_assignments := [\<lparr>ta_id = 1, ta_campaign_id = 2, ta_team_id = 1, ta_effective_from = 0,
       ta_effective_to = None, ta_status = Row_active, ta_staffing_capacity = Some 1, ta_assigned_by = None\<rparr>]\<rparr>"

lemma staff_transfer:
  "\<exists>x d'. transfer_agent sample_env 7 sample_campaign other_campaign (Some 1) 1 None staff_db = Inr (x, d')"
  by (simp add: transfer_agent_def staff_db_def other_campaign_def sample_defs empty_db_def
      primary_on_def active_primary_def check_staffing_capacity_def effective_at_def count_where_def
      Let_def split: prod.split)

lemma staff_ids: "distinct (map ua_id (user_assignments staff_db))"
  by (simp add: staff_db_def sample_defs)

theorem staffing_within_capacity_witness:
  "\<exists>x d'. transfer_agent sample_env 7 sample_campaign other_campaign (Some 1) 1 None staff_db = Inr (x, d')
     \<and> headcount d' 2 1 = 1"
proof -
  obtain x d' where run: "transfer_agent sample_env 7 sample_campaign other_campaign (Some 1) 1 None staff_db
      = Inr (x, d')" using staff_transfer by blast
  have "capacity_at (clk sample_env 0) staff_db (ca_id other_campaign) 1 = Some 1"
    by (simp add: capacity_at_def staff_db_def other_campaign_def sample_env_def effective_at_def
        sample_campaign_def)
  from staffing_within_capacity [OF disjI2 [OF run] staff_ids this] run show ?thesis
    by (auto simp: other_campaign_def)
qed

theorem transfer_moves_agent_witness:
  "\<exists>x d'. transfer_agent sample_env 7 sample_campaign other_campaign (Some 1) 1 None staff_db = Inr (x, d')
     \<and> filter (active_primary 7) (user_assignments d') = [x]"
proof -
  obtain x d' where run: "transfer_agent sample_env 7 sample_campaign other_campaign (Some 1) 1 None staff_db
      = Inr (x, d')" using staff_transfer by blast
  have b: "\<And>i. \<not> row_busy sample_env i" by (simp add: sample_env_def)
  have "length (filter (active_primary 7) (user_assignments staff_db)) \<le> 1"
    by (simp add: staff_db_def sample_defs)
  from transfer_moves_agent [OF run b staff_ids this] run show ?thesis by blast
qed

section \<open>Lifecycle and retention\<close>

definition worked_db :: db where
  "worked_db = sample_db\<lparr>campaign_contacts :=
     [(sample_campaign_contact 1 1)\<lparr>cc_completed_at := Some 500\<rparr>]\<rparr>"

theorem detection_marks_exactly_witness:
  "\<exists>n d'. detect_completed_campaigns sample_env 1000 worked_db = (n, d')
     \<and> get_campaign d' 1 = Some (completed_row 1000 sample_campaign)"
proof -
  obtain n d' where run: "detect_completed_campaigns sample_env 1000 worked_db = (n, d')" by fastforce
  have "get_campaign worked_db 1 = Some sample_campaign"
    by (simp add: get_campaign_def row_get_def worked_db_def sample_defs)
  moreover have "campaign_is_complete sample_campaign worked_db"
    by (simp add: campaign_is_complete_def contacts_of_def count_where_def worked_db_def sample_defs)
  ultimately show ?thesis using detection_marks_exactly [OF run, of 1] run by simp
qed

definition finished_db :: db where
  "finished_db = worked_db\<lparr>campaigns := [completed_row 1000 sample_campaign]\<rparr>"


theorem purge_takes_the_due_witness:
  "\<exists>d'. purge_expired_campaign_data (1000 + days 61) finished_db = Inr (1, d') \<and> contacts_of d' 1 = []"
proof -
  have "distinct (map ca_id (campaigns finished_db))" by (simp add: finished_db_def)
  from purge_takes_the_due [OF this, of "1000 + days 61"] obtain d' where
    "purge_expired_campaign_data (1000 + days 61) finished_db =
       Inr (count_where (purge_due (1000 + days 61)) (campaigns finished_db), d')"
    and c: "\<forall>k ca. get_campaign finished_db k = Some ca \<longrightarrow> contacts_of d' k =
         (if purge_due (1000 + days 61) ca then [] else contacts_of finished_db k)" by blast
  moreover have due: "purge_due (1000 + days 61) (completed_row 1000 sample_campaign)"
    by (simp add: purge_due_def completed_row_def retention_days_def days_def)
  moreover have "get_campaign finished_db 1 = Some (completed_row 1000 sample_campaign)"
    by (simp add: get_campaign_def row_get_def finished_db_def sample_campaign_def)
  ultimately show ?thesis by (auto simp: count_where_def finished_db_def)
qed

theorem days_remaining_bounds_witness:
  "retention_days_remaining (completed_row 0 sample_campaign) 1 = Some 60
   \<and> 1 + days 59 < days 60"
proof -
  have "retention_days_remaining (completed_row 0 sample_campaign) 1 = Some 60"
    by (simp add: retention_days_remaining_def completed_row_def retention_days_def days_def Let_def)
  from days_remaining_bounds [OF this] this show ?thesis
    by (auto simp: completed_row_def retention_days_def)
qed

definition idle_db :: db where
  "idle_db = sample_db\<lparr>campaigns := [], user_assignments := [], dispositions := []\<rparr>"

definition campaign_form :: campaign_request where
  "campaign_form = \<lparr>cq_created_by = 1, cq_external_code = ''C9'', cq_name = ''n'', cq_description = None,
     cq_owning_scope_type = ''team'', cq_owning_scope_id = Some 1, cq_default_region = ''ZW'',
     cq_timezone = ''Africa/Harare'', cq_purpose = Some ''p'', cq_data_source = Some ''s'',
     cq_data_obtained_at = Some 0, cq_lawful_basis = Some ''l''\<rparr>"

lemma idle_create:
  "\<exists>ca d'. create_campaign sample_env campaign_form idle_db = Inr (ca, d')
     \<and> get_campaign d' (ca_id ca) = Some ca \<and> reachable campaign_start campaign_step d'"
proof -
  have n: "normalize_campaign_code ''C9'' = Inr ''C9''"
    by (simp add: normalize_campaign_code_def strip_def lstrip_def py_isspace_def code_def Let_def)
  then obtain ca d' where run: "create_campaign sample_env campaign_form idle_db = Inr (ca, d')"
    and g: "get_campaign d' (ca_id ca) = Some ca"
    by (auto simp: create_campaign_def campaign_form_def idle_db_def Let_def get_campaign_def row_get_def)
  have "reachable campaign_start campaign_step idle_db"
    by (rule start) (simp add: campaign_start_def idle_db_def)
  moreover have "campaign_step idle_db d'"
    by (rule campaign_step.create [OF run]) (simp add: get_campaign_def row_get_def idle_db_def)
  ultimately show ?thesis using run g by (blast intro: next_state)
qed

theorem campaign_invariant_witness:
  "\<exists>ca d'. create_campaign sample_env campaign_form idle_db = Inr (ca, d') \<and> campaigns_ok (campaigns d')"
  using idle_create campaign_invariant by blast

theorem campaign_lifecycle_witness:
  "\<exists>ca d' d'' ca''. create_campaign sample_env campaign_form idle_db = Inr (ca, d')
     \<and> archive_campaign sample_env ca 1 d' = Inr (ca'', d'') \<and> get_campaign d'' (ca_id ca) = Some ca''
     \<and> campaign_keeps ca ca''"
proof -
  obtain ca d' where c: "create_campaign sample_env campaign_form idle_db = Inr (ca, d')"
    and g: "get_campaign d' (ca_id ca) = Some ca" and r: "reachable campaign_start campaign_step d'"
    using idle_create by blast
  have "ca_status ca = Draft"
    using c by (auto simp: create_campaign_def Let_def split: sum.splits if_splits)
  then obtain ca'' d'' where a: "archive_campaign sample_env ca 1 d' = Inr (ca'', d'')"
    and s: "(ca'', d'') = save_campaign ''campaign.archive'' 1 []
      (ca\<lparr>ca_status := Archived, ca_archived_at := Some (clk sample_env 0)\<rparr>) d'"
    by (simp add: archive_campaign_def save_campaign_def)
  have "campaign_step d' d''" by (rule campaign_step.archive [OF g a])
  then have "run campaign_step d' d''" by (rule run_one)
  from campaign_lifecycle [OF r this g] obtain x where x: "get_campaign d'' (ca_id ca) = Some x"
    "campaign_keeps ca x" by blast
  have "get_campaign d'' (ca_id ca) = Some ca''"
    using s g by (simp add: save_campaign_def get_campaign_def row_get_put)
  with x c a show ?thesis by auto
qed

end
