(* ===== verification/Import_Files.thy ===== *)
theory Import_Files
  imports Config Py_Text Schema
begin

text \<open>
  Uploaded files: the filename and container checks (\<open>app/imports/validators.py\<close>), the CSV and
  XLSX readers with their limits (\<open>app/imports/parser.py\<close>) and the quarantine store
  (\<open>app/imports/storage.py\<close>). A file is its bytes, written as a string; UTF-8 decoding, the ZIP
  directory and the cells openpyxl reads are parameters. \<open>csv.reader\<close> is modelled as the state
  machine it is, in its default dialect.
\<close>

record file_lib =
  fl_decode :: "string \<Rightarrow> string \<times> string option"   \<comment> \<open>text decoded, and the error that ends it\<close>
  fl_zip :: "string \<Rightarrow> (string \<times> nat) list option"   \<comment> \<open>entries with their expanded size\<close>
  fl_sheet :: "string \<Rightarrow> string option list list"      \<comment> \<open>rows of the first sheet, cells as text\<close>

section \<open>File names\<close>

text \<open>\<open>PurePosixPath(s).name\<close>\<close>

fun split_on :: "char \<Rightarrow> string \<Rightarrow> string list" where
  "split_on c [] = [[]]"
| "split_on c (x # s) =
     (if x = c then [] # split_on c s
      else (case split_on c s of [] \<Rightarrow> [[x]] | p # ps \<Rightarrow> (x # p) # ps))"

definition path_name :: "string \<Rightarrow> string" where
  "path_name s =
     (case rev (filter (\<lambda>p. p \<noteq> '''' \<and> p \<noteq> ''.'') (split_on CHR ''/'' s)) of
        [] \<Rightarrow> '''' | p # _ \<Rightarrow> p)"

text \<open>Index of the last dot, counted from the end: the length of what follows it.\<close>

definition after_last_dot :: "string \<Rightarrow> nat" where
  "after_last_dot name = length (takeWhile (\<lambda>c. c \<noteq> CHR ''.'') (rev name))"

text \<open>\<open>0 < i < len(name) - 1\<close> for the index \<open>i\<close> of the last dot, if there is one.\<close>

definition has_suffix :: "string \<Rightarrow> bool" where
  "has_suffix name \<longleftrightarrow> 0 < after_last_dot name \<and> after_last_dot name + 1 < length name"

definition path_suffix :: "string \<Rightarrow> string" where
  "path_suffix s = (let name = path_name s in
     if has_suffix name then drop (length name - after_last_dot name - 1) name else '''')"

definition path_stem :: "string \<Rightarrow> string" where
  "path_stem s = (let name = path_name s in
     if has_suffix name then take (length name - after_last_dot name - 1) name else name)"

section \<open>Validation\<close>

datatype upload_error =
  Unsupported_extension string | Zip_signature_in_csv | No_xlsx_signature | Missing_parts
| Macro_or_external_link | Expanded_too_large | Bad_zip | Upload_too_large nat

definition allowed_extensions :: "string set" where
  "allowed_extensions = {''.csv'', ''.xlsx''}"

definition xlsx_signature :: string where
  "xlsx_signature = [CHR ''P'', CHR ''K'', CHR 0x03, CHR 0x04]"

definition required_xlsx_parts :: "string list" where
  "required_xlsx_parts = [''[Content_Types].xml'', ''xl/workbook.xml'']"

definition forbidden_xlsx_prefixes :: "string list" where
  "forbidden_xlsx_prefixes = [''xl/vbaProject'', ''xl/externalLinks/'']"

definition check_extension :: "string \<Rightarrow> upload_error + string" where
  "check_extension display_filename =
     (let ext = lower (path_suffix display_filename) in
      if ext \<notin> allowed_extensions then Inl (Unsupported_extension ext) else Inr ext)"

definition validate_csv_signature :: "string \<Rightarrow> upload_error option" where
  "validate_csv_signature content =
     (if startswith (take 4 content) xlsx_signature then Some Zip_signature_in_csv else None)"

definition validate_xlsx_container :: "file_lib \<Rightarrow> settings \<Rightarrow> string \<Rightarrow> upload_error option" where
  "validate_xlsx_container fl cfg content =
     (if \<not> startswith (take 4 content) xlsx_signature then Some No_xlsx_signature
      else
        case fl_zip fl content of
          None \<Rightarrow> Some Bad_zip
        | Some infos \<Rightarrow>
            let names = map fst infos in
            if \<not> list_all (\<lambda>p. p \<in> set names) required_xlsx_parts then Some Missing_parts
            else if list_ex (\<lambda>p. list_ex (\<lambda>n. startswith n p) names) forbidden_xlsx_prefixes
            then Some Macro_or_external_link
            else if sum_list (map snd infos) > upload_max_expanded_bytes cfg
            then Some Expanded_too_large
            else None)"

definition validate_upload :: "file_lib \<Rightarrow> settings \<Rightarrow> string \<Rightarrow> string \<Rightarrow> upload_error + string" where
  "validate_upload fl cfg content display_filename =
     (case check_extension display_filename of
        Inl err \<Rightarrow> Inl err
      | Inr ext \<Rightarrow>
          (case (if ext = ''.csv'' then validate_csv_signature content
                 else validate_xlsx_container fl cfg content) of
             None \<Rightarrow> Inr ext | Some err \<Rightarrow> Inl err))"

definition truncate_filename :: "string \<Rightarrow> nat \<Rightarrow> string" where
  "truncate_filename display_filename max_len =
     (if length display_filename \<le> max_len then display_filename
      else take (max_len - length (path_suffix display_filename)) (path_stem display_filename)
           @ path_suffix display_filename)"

section \<open>Quarantine storage\<close>

type_synonym storage = "string \<Rightarrow> string option"

fun write_chunks :: "nat \<Rightarrow> string \<Rightarrow> string list \<Rightarrow> upload_error + string" where
  "write_chunks max_bytes written [] = Inr written"
| "write_chunks max_bytes written (chunk # chunks) =
     (if length (written @ chunk) > max_bytes then Inl (Upload_too_large max_bytes)
      else write_chunks max_bytes (written @ chunk) chunks)"

text \<open>Size and SHA-256 of what was written; a file over the limit leaves nothing behind.\<close>

definition write_streamed ::
  "(string \<Rightarrow> string) \<Rightarrow> string \<Rightarrow> string list \<Rightarrow> nat \<Rightarrow> storage \<Rightarrow> (upload_error, nat \<times> string, storage) outcome" where
  "write_streamed sha256 storage_key chunks max_bytes st =
     (case write_chunks max_bytes '''' chunks of
        Inl err \<Rightarrow> Inl err
      | Inr content \<Rightarrow> Inr ((length content, sha256 content), st(storage_key \<mapsto> content)))"

definition storage_delete :: "string \<Rightarrow> storage \<Rightarrow> storage" where
  "storage_delete storage_key st = st(storage_key := None)"

section \<open>The CSV reader\<close>

text \<open>The lines of a text opened with \<open>newline=''\<close>: ended by LF, CR or CR LF, kept as they are.\<close>

fun text_lines :: "string \<Rightarrow> string list" where
  "text_lines [] = []"
| "text_lines [c] = [[c]]"
| "text_lines (c # c2 # s) =
     (if c = CHR 0x0A \<or> c = CHR 0x0D \<and> c2 \<noteq> CHR 0x0A then [c] # text_lines (c2 # s)
      else if c = CHR 0x0D then [c, c2] # text_lines s
      else (case text_lines (c2 # s) of [] \<Rightarrow> [[c]] | l # ls \<Rightarrow> (c # l) # ls))"

datatype csv_state =
  Start_record | Start_field | In_field | In_quoted_field | Quote_in_quoted_field | Eat_crnl

record csv_reader =
  cr_state :: csv_state
  cr_field :: string           \<comment> \<open>characters of the current field, last one first\<close>
  cr_fields :: "string list"   \<comment> \<open>fields of the current record, last one first\<close>

datatype read_error = Unicode_error string | Csv_field_limit | Csv_newline_in_field

definition csv_field_limit :: nat where "csv_field_limit = 131072"

definition csv_start :: csv_reader where
  "csv_start = \<lparr>cr_state = Start_record, cr_field = [], cr_fields = []\<rparr>"

definition save_field :: "csv_state \<Rightarrow> csv_reader \<Rightarrow> csv_reader" where
  "save_field s r = \<lparr>cr_state = s, cr_field = [], cr_fields = rev (cr_field r) # cr_fields r\<rparr>"

definition add_char :: "csv_state \<Rightarrow> char \<Rightarrow> csv_reader \<Rightarrow> read_error + csv_reader" where
  "add_char s c r =
     (if length (cr_field r) \<ge> csv_field_limit then Inl Csv_field_limit
      else Inr (r\<lparr>cr_state := s, cr_field := c # cr_field r\<rparr>))"

definition newline :: "char \<Rightarrow> bool" where
  "newline c \<longleftrightarrow> c = CHR 0x0A \<or> c = CHR 0x0D"

definition quote_char :: char where "quote_char = CHR 0x22"

text \<open>One character in the middle of a record.\<close>

definition field_char :: "char \<Rightarrow> csv_reader \<Rightarrow> read_error + csv_reader" where
  "field_char c r =
     (if newline c then Inr (save_field Eat_crnl r)
      else if c = CHR '','' then Inr (save_field Start_field r)
      else if cr_state r = Start_field \<and> c = quote_char then Inr (r\<lparr>cr_state := In_quoted_field\<rparr>)
      else add_char In_field c r)"

definition csv_char :: "char \<Rightarrow> csv_reader \<Rightarrow> read_error + csv_reader" where
  "csv_char c r =
     (case cr_state r of
        Start_record \<Rightarrow>
          if newline c then Inr (r\<lparr>cr_state := Eat_crnl\<rparr>)
          else field_char c (r\<lparr>cr_state := Start_field\<rparr>)
      | Start_field \<Rightarrow> field_char c r
      | In_field \<Rightarrow> field_char c r
      | In_quoted_field \<Rightarrow>
          if c = quote_char then Inr (r\<lparr>cr_state := Quote_in_quoted_field\<rparr>)
          else add_char In_quoted_field c r
      | Quote_in_quoted_field \<Rightarrow>
          if c = quote_char then add_char In_quoted_field c r
          else field_char c r
      | Eat_crnl \<Rightarrow> if newline c then Inr r else Inl Csv_newline_in_field)"

text \<open>The end-of-line signal after the last character of a line.\<close>

definition csv_eol :: "csv_reader \<Rightarrow> csv_reader" where
  "csv_eol r =
     (case cr_state r of
        Start_record \<Rightarrow> r
      | In_quoted_field \<Rightarrow> r
      | Eat_crnl \<Rightarrow> r\<lparr>cr_state := Start_record\<rparr>
      | _ \<Rightarrow> save_field Start_record r)"

fun csv_line :: "string \<Rightarrow> csv_reader \<Rightarrow> read_error + csv_reader" where
  "csv_line [] r = Inr (csv_eol r)"
| "csv_line (c # s) r = (case csv_char c r of Inl err \<Rightarrow> Inl err | Inr r' \<Rightarrow> csv_line s r')"

text \<open>
  The records of the remaining lines, and the error that ends them. At the end of the input an
  open quoted field is closed.
\<close>

fun csv_records :: "string list \<Rightarrow> read_error option \<Rightarrow> csv_reader \<Rightarrow> string list list \<times> read_error option" where
  "csv_records [] fault r =
     (if fault = None \<and> (cr_field r \<noteq> [] \<or> cr_state r = In_quoted_field)
      then ([rev (cr_fields (save_field Start_record r))], None) else ([], fault))"
| "csv_records (l # ls) fault r =
     (case csv_line l r of
        Inl err \<Rightarrow> ([], Some err)
      | Inr r' \<Rightarrow>
          (if cr_state r' = Start_record
           then let (rows, err) = csv_records ls fault csv_start in (rev (cr_fields r') # rows, err)
           else csv_records ls fault r'))"

definition read_csv :: "file_lib \<Rightarrow> string \<Rightarrow> string list list \<times> read_error option" where
  "read_csv fl content =
     (let (txt, fault) = fl_decode fl content
      in csv_records (text_lines txt) (map_option Unicode_error fault) csv_start)"

section \<open>Parsed rows\<close>

datatype parse_error =
  Too_many_columns nat nat | Too_many_rows nat | Row_too_wide nat | Unsupported_file string
| Read_error read_error | Phone_column_missing string | No_data_rows

text \<open>\<open>ParsedRow.values\<close>: a later column of the same name replaces an earlier one.\<close>

record parsed_row =
  pr_row_number :: nat
  pr_values :: "string \<rightharpoonup> string"

definition formula_like_prefixes :: "char set" where
  "formula_like_prefixes =
     {CHR ''='', CHR ''+'', CHR ''-'', CHR ''@'', CHR 0x09, CHR 0x0D}"

fun sanitize_text :: "string \<Rightarrow> string" where
  "sanitize_text [] = []"
| "sanitize_text (c # s) = (if c \<in> formula_like_prefixes then CHR 0x27 # c # s else c # s)"

definition truncate_cell :: "string \<Rightarrow> nat \<Rightarrow> string" where
  "truncate_cell value max_len = (if length value \<le> max_len then value else take max_len value)"

definition validate_header :: "settings \<Rightarrow> string list \<Rightarrow> parse_error + string list" where
  "validate_header cfg header =
     (if length header > upload_max_columns cfg
      then Inl (Too_many_columns (length header) (upload_max_columns cfg))
      else Inr (map strip header))"

definition row_values :: "settings \<Rightarrow> string list \<Rightarrow> string list \<Rightarrow> (string \<rightharpoonup> string)" where
  "row_values cfg header cells =
     fold (\<lambda>(h, cell) m. m(h \<mapsto> truncate_cell cell (upload_max_cell_length cfg))) (zip header cells)
       Map.empty"

text \<open>The rows a reader yields before it stops, and what stopped it.\<close>

fun parse_rows ::
  "settings \<Rightarrow> string list \<Rightarrow> nat \<Rightarrow> string list list \<Rightarrow> read_error option \<Rightarrow> parsed_row list \<times> parse_error option" where
  "parse_rows cfg header n [] fault = ([], map_option Read_error fault)"
| "parse_rows cfg header n (cells # rest) fault =
     (if n > upload_max_rows cfg then ([], Some (Too_many_rows (upload_max_rows cfg)))
      else if length cells > upload_max_columns cfg then ([], Some (Row_too_wide n))
      else let (rows, err) = parse_rows cfg header (n + 1) rest fault
           in (\<lparr>pr_row_number = n, pr_values = row_values cfg header cells\<rparr> # rows, err))"

definition parse_table ::
  "settings \<Rightarrow> string list list \<times> read_error option \<Rightarrow> parsed_row list \<times> parse_error option" where
  "parse_table cfg table =
     (case table of
        ([], fault) \<Rightarrow> ([], map_option Read_error fault)
      | (header # rest, fault) \<Rightarrow>
          (case validate_header cfg header of
             Inl err \<Rightarrow> ([], Some err)
           | Inr h \<Rightarrow> parse_rows cfg h 1 rest fault))"

definition sheet_text :: "string option list \<Rightarrow> string list" where
  "sheet_text cells = map (\<lambda>c. case c of None \<Rightarrow> '''' | Some t \<Rightarrow> t) cells"

definition file_table :: "file_lib \<Rightarrow> string \<Rightarrow> string \<Rightarrow> (string list list \<times> read_error option) option" where
  "file_table fl extension content =
     (if extension = ''.csv'' then Some (read_csv fl content)
      else if extension = ''.xlsx'' then Some (map sheet_text (fl_sheet fl content), None)
      else None)"

definition parse_file :: "file_lib \<Rightarrow> settings \<Rightarrow> string \<Rightarrow> string \<Rightarrow> parsed_row list \<times> parse_error option" where
  "parse_file fl cfg extension content =
     (case file_table fl extension content of
        None \<Rightarrow> ([], Some (Unsupported_file extension))
      | Some table \<Rightarrow> parse_table cfg table)"

definition read_header :: "file_lib \<Rightarrow> settings \<Rightarrow> string \<Rightarrow> string \<Rightarrow> parse_error + string list" where
  "read_header fl cfg extension content =
     (case file_table fl extension content of
        None \<Rightarrow> Inl (Unsupported_file extension)
      | Some ([], None) \<Rightarrow> Inr []
      | Some ([], Some fault) \<Rightarrow> Inl (Read_error fault)
      | Some (header # _, _) \<Rightarrow> validate_header cfg header)"

end
