(* ===== verification/Imports.thy ===== *)
theory Imports
  imports Import_Files Security Flags Runtime Db_Prelude Work_Steps Campaigns "HOL-Library.Option_ord"
begin

text \<open>
  The import pipeline (\<open>app/imports/classify.py\<close>, \<open>app/imports/service.py\<close>): upload, parse and
  classify, decide, commit, clean up. The quarantine store is passed beside the database. A row
  or identifier created in a loop takes the fresh identifier of its position in the loop.
\<close>

section \<open>Classification\<close>

record row_classification =
  rc_row_number :: nat
  rc_raw_phone_protected :: "string option"
  rc_phone_fingerprint :: "string option"
  rc_canonical_values :: "(string \<times> string) list option"
  rc_validation_result :: validity
  rc_validation_detail :: "string option"
  rc_duplicate_category :: "duplicate_category option"
  rc_suppression_match :: bool

definition existing_contact :: "db \<Rightarrow> string \<Rightarrow> contact option" where
  "existing_contact d fp = find (\<lambda>co. co_phone_fingerprint co = fp) (contacts d)"

definition already_in_campaign :: "db \<Rightarrow> uuid \<Rightarrow> uuid \<Rightarrow> bool" where
  "already_in_campaign d campaign_id contact_id \<longleftrightarrow>
     (\<exists>cc \<in> set (campaign_contacts d). cc_campaign_id cc = campaign_id \<and> cc_contact_id cc = contact_id)"

definition is_suppressed :: "db \<Rightarrow> string \<Rightarrow> bool" where
  "is_suppressed d fp \<longleftrightarrow>
     (\<exists>s \<in> set (suppression_entries d). se_phone_fingerprint s = fp \<and> se_status s = ''active'')"

definition invalid_row :: "nat \<Rightarrow> string \<Rightarrow> row_classification" where
  "invalid_row n detail =
     \<lparr>rc_row_number = n, rc_raw_phone_protected = None, rc_phone_fingerprint = None,
      rc_canonical_values = None, rc_validation_result = Invalid,
      rc_validation_detail = Some detail, rc_duplicate_category = None,
      rc_suppression_match = False\<rparr>"

definition phone_error_text :: "phone_error \<Rightarrow> string" where
  "phone_error_text err =
     (case err of Number_parse_error s \<Rightarrow> s
      | Not_a_valid_number region \<Rightarrow> ''not a valid number for region '' @ region)"

text \<open>\<open>d[k] = v\<close> on a dictionary kept in insertion order.\<close>

fun dict_put :: "'k \<Rightarrow> 'v \<Rightarrow> ('k \<times> 'v) list \<Rightarrow> ('k \<times> 'v) list" where
  "dict_put k v [] = [(k, v)]"
| "dict_put k v ((k', v') # xs) = (if k' = k then (k, v) # xs else (k', v') # dict_put k v xs)"

definition cell_of :: "parsed_row \<Rightarrow> string \<Rightarrow> string option" where
  "cell_of row col = (case pr_values row col of None \<Rightarrow> None | Some t \<Rightarrow> if t = '''' then None else Some t)"

definition canonical_values :: "parsed_row \<Rightarrow> string option \<Rightarrow> string list \<Rightarrow> (string \<times> string) list" where
  "canonical_values row name_column metadata_columns =
     (let named = (case name_column of
                     None \<Rightarrow> []
                   | Some col \<Rightarrow>
                       (if col = '''' then []
                        else case cell_of row col of
                               None \<Rightarrow> [] | Some t \<Rightarrow> [(''name'', sanitize_text (strip t))]))
      in fold (\<lambda>col acc. case cell_of row col of
                None \<Rightarrow> acc | Some t \<Rightarrow> dict_put col (sanitize_text (strip t)) acc)
           metadata_columns named)"

record import_columns =
  ic_phone :: string
  ic_name :: "string option"
  ic_metadata :: "string list"

definition classify_row ::
  "crypto \<Rightarrow> settings \<Rightarrow> db \<Rightarrow> campaign \<Rightarrow> import_columns \<Rightarrow> parsed_row \<Rightarrow> string set
   \<Rightarrow> row_classification \<times> string set" where
  "classify_row c cfg d ca cols row seen =
     (let raw_phone = (case pr_values row (ic_phone cols) of None \<Rightarrow> '''' | Some t \<Rightarrow> strip t) in
      if raw_phone = '''' then (invalid_row (pr_row_number row) ''missing phone value'', seen)
      else
        case protect c cfg raw_phone (ca_default_region ca) of
          Inl err \<Rightarrow> (invalid_row (pr_row_number row) (take 200 (phone_error_text err)), seen)
        | Inr p \<Rightarrow>
            let canonical = canonical_values row (ic_name cols) (ic_metadata cols) in
            (\<lparr>rc_row_number = pr_row_number row, rc_raw_phone_protected = Some (pp_ciphertext p),
               rc_phone_fingerprint = Some (pp_fingerprint p),
               rc_canonical_values = (if canonical = [] then None else Some canonical),
               rc_validation_result = Valid, rc_validation_detail = None,
               rc_duplicate_category =
                 (if pp_fingerprint p \<in> seen then Some In_file
                  else case existing_contact d (pp_fingerprint p) of
                         None \<Rightarrow> None
                       | Some co \<Rightarrow>
                           (if already_in_campaign d (ca_id ca) (co_id co) then Some In_campaign
                            else None)),
               rc_suppression_match = is_suppressed d (pp_fingerprint p)\<rparr>,
             insert (pp_fingerprint p) seen))"

section \<open>Upload\<close>

datatype import_error =
  Import_flag flag_error | Upload_rejected upload_error | Upload_validation upload_error
| Source_file_missing
| Unhandled_csv_error read_error | Job_not_found | Committed_under_other_key
| Not_ready job_state | Stale_decision_version | Not_approved | Import_missing_provenance "string list"
| No_campaign_row | Unknown_decision | Import_integrity string

definition get_job :: "db \<Rightarrow> uuid \<Rightarrow> import_job option" where
  "get_job d i = row_get ij_id i (import_jobs d)"

definition put_job :: "import_job \<Rightarrow> db \<Rightarrow> db" where
  "put_job j d = d\<lparr>import_jobs := row_put ij_id j (import_jobs d)\<rparr>"

definition create_import_job ::
  "crypto \<Rightarrow> file_lib \<Rightarrow> env \<Rightarrow> settings \<Rightarrow> campaign \<Rightarrow> uuid \<Rightarrow> string \<Rightarrow> string list \<Rightarrow> storage \<Rightarrow> db
   \<Rightarrow> (import_error, import_job, storage \<times> db) outcome" where
  "create_import_job c fl e cfg ca uploader_id display_filename file_chunks st d =
     (case require_enabled d ''campaign_import_enabled'' of
        Some err \<Rightarrow> Inl (Import_flag err)
      | None \<Rightarrow>
          (case check_extension display_filename of
             Inl err \<Rightarrow> Inl (Upload_validation err)
           | Inr ext \<Rightarrow>
               let storage_key = fresh_token e 0 in
               (case write_streamed (sha256_hex c) storage_key file_chunks (upload_max_bytes cfg) st of
                  Inl err \<Rightarrow> Inl (Upload_rejected err)
                | Inr ((nbytes, file_hash), st1) \<Rightarrow>
                    (case validate_upload fl cfg (the (st1 storage_key)) display_filename of
                       Inl err \<Rightarrow> Inl (Upload_rejected err)
                     | Inr _ \<Rightarrow>
                         let job = \<lparr>ij_id = fresh_id e 0, ij_campaign_id = ca_id ca,
                               ij_uploader_id = uploader_id,
                               ij_source_filename_display = truncate_filename display_filename 255,
                               ij_generated_storage_key = storage_key, ij_file_hash = file_hash,
                               ij_state = Quarantined, ij_total_rows = 0, ij_valid_rows = 0,
                               ij_invalid_rows = 0, ij_duplicate_rows = 0, ij_suppression_hits = 0,
                               ij_decision_version = 0, ij_idempotency_key = None,
                               ij_error_summary = None,
                               ij_expires_at = Some (clk e 0 + hours (import_expiry_hours cfg)),
                               ij_committed_at = None, ij_committed_result = None\<rparr>
                         in Inr (job, st1,
                              record_audit ''import.upload'' ''success'' (Some uploader_id)
                                (Some ''import_job'') (Some (ij_id job)) None
                                [(''file_hash'', JStr file_hash), (''size'', JInt (int nbytes)),
                                 (''extension'', JStr ext)]
                                (d\<lparr>import_jobs := import_jobs d @ [job]\<rparr>))))))"

section \<open>Parsing\<close>

record parse_counts =
  pc_total :: nat
  pc_valid :: nat
  pc_invalid :: nat
  pc_duplicates :: nat
  pc_suppressed :: nat

definition no_counts :: parse_counts where
  "no_counts = \<lparr>pc_total = 0, pc_valid = 0, pc_invalid = 0, pc_duplicates = 0, pc_suppressed = 0\<rparr>"

definition count_row :: "row_classification \<Rightarrow> parse_counts \<Rightarrow> parse_counts" where
  "count_row r pc =
     (let pc = pc\<lparr>pc_total := pc_total pc + 1\<rparr> in
      if rc_validation_result r = Invalid then pc\<lparr>pc_invalid := pc_invalid pc + 1\<rparr>
      else if rc_duplicate_category r \<noteq> None then pc\<lparr>pc_duplicates := pc_duplicates pc + 1\<rparr>
      else pc\<lparr>pc_valid := pc_valid pc + 1,
              pc_suppressed := pc_suppressed pc + (if rc_suppression_match r then 1 else 0)\<rparr>)"

definition staged_row :: "uuid \<Rightarrow> row_classification \<Rightarrow> import_row" where
  "staged_row job_id r =
     \<lparr>ir_import_job_id = job_id, ir_row_number = rc_row_number r,
      ir_raw_phone_protected = rc_raw_phone_protected r,
      ir_phone_fingerprint = rc_phone_fingerprint r, ir_canonical_values = rc_canonical_values r,
      ir_validation_result = rc_validation_result r, ir_validation_detail = rc_validation_detail r,
      ir_duplicate_category = rc_duplicate_category r, ir_suppression_match = rc_suppression_match r\<rparr>"

text \<open>The rows in file order, with the fingerprints seen so far.\<close>

fun classify_rows ::
  "crypto \<Rightarrow> settings \<Rightarrow> db \<Rightarrow> campaign \<Rightarrow> import_columns \<Rightarrow> string set \<Rightarrow> parsed_row list
   \<Rightarrow> row_classification list" where
  "classify_rows c cfg d ca cols seen [] = []"
| "classify_rows c cfg d ca cols seen (row # rows) =
     (let (r, seen') = classify_row c cfg d ca cols row seen
      in r # classify_rows c cfg d ca cols seen' rows)"

definition parse_batch_size :: nat where "parse_batch_size = 500"

text \<open>Full batches are flushed as they fill; what is left only when the file ends well.\<close>

definition flushed_rows :: "parse_error option \<Rightarrow> 'r list \<Rightarrow> 'r list" where
  "flushed_rows fault rows =
     (if fault = None then rows else take (length rows div parse_batch_size * parse_batch_size) rows)"

definition parse_error_text :: "parse_error \<Rightarrow> string" where
  "parse_error_text err =
     (case err of
        Too_many_columns n limit \<Rightarrow>
          ''too many columns: '' @ str_int (int n) @ '' > '' @ str_int (int limit)
      | Too_many_rows limit \<Rightarrow> ''too many rows: exceeds '' @ str_int (int limit)
      | Row_too_wide n \<Rightarrow> ''row '' @ str_int (int n) @ '' has too many columns''
      | Unsupported_file ext \<Rightarrow> ''unsupported extension: '' @ ext
      | Read_error f \<Rightarrow> (case f of Unicode_error s \<Rightarrow> s | _ \<Rightarrow> '''')
      | Phone_column_missing col \<Rightarrow> ''phone column '' @ [CHR 0x27] @ col @ [CHR 0x27] @ '' not found in file header''
      | No_data_rows \<Rightarrow> ''file has no data rows - upload a file with at least one row'')"

definition parse_failure :: "string \<Rightarrow> import_job \<Rightarrow> db \<Rightarrow> db" where
  "parse_failure text job d =
     record_audit ''import.parse'' ''failure'' (Some (ij_uploader_id job)) (Some ''import_job'')
       (Some (ij_id job)) (Some (take 50 text)) []
       (put_job (job\<lparr>ij_state := Failed, ij_error_summary := Some (take 1000 text)\<rparr>) d)"

text \<open>
  \<open>csv.Error\<close> is not a \<open>ValueError\<close>: it passes the handler and leaves \<open>parse_job\<close>.
\<close>

definition escapes :: "parse_error \<Rightarrow> read_error option" where
  "escapes err = (case err of Read_error Csv_field_limit \<Rightarrow> Some Csv_field_limit
     | Read_error Csv_newline_in_field \<Rightarrow> Some Csv_newline_in_field | _ \<Rightarrow> None)"

definition fail_parse :: "parse_error \<Rightarrow> import_job \<Rightarrow> db \<Rightarrow> import_error + db" where
  "fail_parse err job d =
     (case escapes err of
        Some f \<Rightarrow> Inl (Unhandled_csv_error f)
      | None \<Rightarrow> Inr (parse_failure (parse_error_text err) job d))"

definition parse_job ::
  "crypto \<Rightarrow> file_lib \<Rightarrow> settings \<Rightarrow> storage \<Rightarrow> uuid \<Rightarrow> import_columns \<Rightarrow> db \<Rightarrow> import_error + db" where
  "parse_job c fl cfg st job_id cols d =
     (case get_job d job_id of
        None \<Rightarrow> Inr d
      | Some job0 \<Rightarrow>
          (if ij_state job0 \<noteq> Quarantined then Inr d
           else
             let job = job0\<lparr>ij_state := Parsing\<rparr>; d1 = put_job job d in
             case get_campaign d1 (ij_campaign_id job) of
               None \<Rightarrow>
                 Inr (record_audit ''import.parse'' ''failure'' (Some (ij_uploader_id job))
                        (Some ''import_job'') (Some (ij_id job)) (Some ''campaign_missing'') []
                        (put_job (job\<lparr>ij_state := Failed, ij_error_summary :=
                           Some ''campaign for import job no longer exists''\<rparr>) d1))
             | Some ca \<Rightarrow>
                 (case check_extension (ij_source_filename_display job) of
                    Inl err \<Rightarrow> Inl (Upload_validation err)
                  | Inr ext \<Rightarrow>
                      (case st (ij_generated_storage_key job) of
                       None \<Rightarrow> Inl Source_file_missing
                     | Some content \<Rightarrow>
                      (case read_header fl cfg ext content of
                         Inl err \<Rightarrow> fail_parse err job d1
                       | Inr header \<Rightarrow>
                           (if ic_phone cols \<notin> set header
                            then fail_parse (Phone_column_missing (ic_phone cols)) job d1
                            else
                              let (rows, fault) = parse_file fl cfg ext content;
                                  results = classify_rows c cfg d1 ca cols {} rows;
                                  counts = fold count_row results no_counts;
                                  d2 = d1\<lparr>import_rows := import_rows d1
                                         @ map (staged_row (ij_id job)) (flushed_rows fault results)\<rparr>
                              in case fault of
                                   Some err \<Rightarrow> fail_parse err job d2
                                 | None \<Rightarrow>
                                     (if pc_total counts = 0 then fail_parse No_data_rows job d2
                                      else Inr (record_audit ''import.parse'' ''success''
                                             (Some (ij_uploader_id job)) (Some ''import_job'')
                                             (Some (ij_id job)) None
                                             [(''total'', JInt (int (pc_total counts))),
                                              (''valid'', JInt (int (pc_valid counts))),
                                              (''invalid'', JInt (int (pc_invalid counts)))]
                                             (put_job (job\<lparr>ij_total_rows := pc_total counts,
                                                ij_valid_rows := pc_valid counts,
                                                ij_invalid_rows := pc_invalid counts,
                                                ij_duplicate_rows := pc_duplicates counts,
                                                ij_suppression_hits := pc_suppressed counts,
                                                ij_state := Parsed\<rparr>) d2)))))))))"

section \<open>Preview and decision\<close>

definition get_preview :: "import_job \<Rightarrow> db \<Rightarrow> import_row list" where
  "get_preview job d =
     take 5 (sort_key ir_row_number
       (filter (\<lambda>r. ir_import_job_id r = ij_id job \<and> ir_validation_result r = Invalid)
         (import_rows d)))"

definition record_decision ::
  "time \<Rightarrow> uuid \<Rightarrow> import_job \<Rightarrow> uuid \<Rightarrow> string \<Rightarrow> string option \<Rightarrow> db
   \<Rightarrow> (import_error, import_decision, db) outcome" where
  "record_decision now i job decided_by decision note d =
     (if decision \<notin> {''approve'', ''reject'', ''cancel''} then Inl Unknown_decision
      else
        let job' = job\<lparr>ij_decision_version := ij_decision_version job + 1\<rparr>;
            row = \<lparr>id_import_job_id = ij_id job, id_decision_version = ij_decision_version job',
                   id_decision = decision, id_decided_by = decided_by, id_note = note,
                   id_created_at = now\<rparr>
        in Inr (row, record_audit ''import.decide'' ''success'' (Some decided_by)
                       (Some ''import_job'') (Some (ij_id job)) (Some decision) []
                       ((put_job job' d)\<lparr>import_decisions := import_decisions d @ [row]\<rparr>)))"

definition latest_decision :: "db \<Rightarrow> import_job \<Rightarrow> import_decision option" where
  "latest_decision d job =
     first_by (\<lambda>x. - id_created_at x)
       (filter (\<lambda>x. id_import_job_id x = ij_id job \<and> id_decision_version x = ij_decision_version job)
         (import_decisions d))"

section \<open>Commit\<close>

record commit_state =
  cm_db :: db
  cm_inserted :: nat
  cm_suppressed :: nat

text \<open>The contact of a number: the one stored, or a new row.\<close>

definition contact_for :: "env \<Rightarrow> settings \<Rightarrow> nat \<Rightarrow> string \<Rightarrow> string \<Rightarrow> db \<Rightarrow> contact \<times> db" where
  "contact_for e cfg k fp ciphertext d =
     (case existing_contact d fp of
        Some co \<Rightarrow> (co, d)
      | None \<Rightarrow>
          let co = \<lparr>co_id = fresh_id e (3 * k), co_phone_ciphertext = ciphertext,
                     co_phone_fingerprint = fp, co_phone_key_version = phone_fingerprint_key_version cfg,
                     co_display_name = None\<rparr>
          in (co, d\<lparr>contacts := contacts d @ [co]\<rparr>))"

definition committed_contact ::
  "env \<Rightarrow> nat \<Rightarrow> time \<Rightarrow> uuid \<Rightarrow> contact \<Rightarrow> import_row \<Rightarrow> bool \<Rightarrow> campaign_contact" where
  "committed_contact e k now campaign_id co row suppressed =
     \<lparr>cc_id = fresh_id e (3 * k + 1), cc_campaign_id = campaign_id, cc_contact_id = co_id co,
      cc_original_phone_protected = ir_raw_phone_protected row,
      cc_campaign_name_value =
        (case ir_canonical_values row of None \<Rightarrow> None | Some vs \<Rightarrow> map_of vs ''name''),
      cc_approved_metadata = ir_canonical_values row,
      cc_source_row_reference = Some (ir_row_number row),
      cc_status = (if suppressed then Contact_suppressed else Contact_queued),
      cc_imported_at = now, cc_completed_at = None, cc_completed_by_agent_id = None,
      cc_final_disposition_code = None\<rparr>"

text \<open>The body of the loop for the \<open>k\<close>-th row.\<close>

definition commit_row ::
  "env \<Rightarrow> settings \<Rightarrow> time \<Rightarrow> uuid \<Rightarrow> nat \<Rightarrow> import_row \<Rightarrow> commit_state \<Rightarrow> commit_state" where
  "commit_row e cfg now campaign_id k row s =
     (case (ir_phone_fingerprint row, ir_raw_phone_protected row) of
        (Some fp, Some ciphertext) \<Rightarrow>
          (let d = cm_db s; (co, d1) = contact_for e cfg k fp ciphertext d in
           if existing_contact d fp \<noteq> None \<and> already_in_campaign d campaign_id (co_id co) then s
           else
             let suppressed = is_suppressed d1 fp;
                 cc = committed_contact e k now campaign_id co row suppressed;
                 d2 = d1\<lparr>campaign_contacts := campaign_contacts d1 @ [cc]\<rparr>
             in \<lparr>cm_db = (if suppressed then d2
                          else d2\<lparr>work_items := work_items d2
                                 @ [new_work_item (fresh_id e (3 * k + 2)) (cc_id cc) now]\<rparr>),
                 cm_inserted = cm_inserted s + 1,
                 cm_suppressed = cm_suppressed s + (if suppressed then 1 else 0)\<rparr>)
      | _ \<Rightarrow> s)"

fun commit_rows ::
  "env \<Rightarrow> settings \<Rightarrow> time \<Rightarrow> uuid \<Rightarrow> nat \<Rightarrow> import_row list \<Rightarrow> commit_state \<Rightarrow> commit_state" where
  "commit_rows e cfg now campaign_id k [] s = s"
| "commit_rows e cfg now campaign_id k (row # rows) s =
     commit_rows e cfg now campaign_id (Suc k) rows (commit_row e cfg now campaign_id k row s)"

definition committable :: "db \<Rightarrow> import_job \<Rightarrow> import_row list" where
  "committable d job =
     sort_key (\<lambda>r. (ir_phone_fingerprint r, ir_row_number r))
       (filter (\<lambda>r. ir_import_job_id r = ij_id job \<and> ir_validation_result r = Valid
               \<and> ir_duplicate_category r = None) (import_rows d))"

definition commit_job ::
  "env \<Rightarrow> settings \<Rightarrow> uuid \<Rightarrow> uuid \<Rightarrow> int \<Rightarrow> string \<Rightarrow> db \<Rightarrow> (import_error, nat \<times> nat, db) outcome" where
  "commit_job e cfg job_id actor_id decision_version idempotency_key d =
     (case get_job d job_id of
        None \<Rightarrow> Inl Job_not_found
      | Some job \<Rightarrow>
          (if ij_state job = Committed
           then (if ij_idempotency_key job = Some idempotency_key
                 then Inr ((case ij_committed_result job of None \<Rightarrow> (0, 0) | Some r \<Rightarrow> r), d)
                 else Inl Committed_under_other_key)
           else if ij_state job \<noteq> Parsed then Inl (Not_ready (ij_state job))
           else if ij_decision_version job \<noteq> decision_version then Inl Stale_decision_version
           else if (case latest_decision d job of None \<Rightarrow> True | Some x \<Rightarrow> id_decision x \<noteq> ''approve'')
           then Inl Not_approved
           else
             case get_campaign d (ij_campaign_id job) of
               None \<Rightarrow> Inl No_campaign_row
             | Some ca \<Rightarrow>
                 (if missing_provenance ca \<noteq> []
                  then Inl (Import_missing_provenance (missing_provenance ca))
                  else
                    let now = clk e 0;
                        s = commit_rows e cfg now (ca_id ca) 0 (committable d job)
                              \<lparr>cm_db = d, cm_inserted = 0, cm_suppressed = 0\<rparr>;
                        result = (cm_inserted s, cm_suppressed s);
                        job' = job\<lparr>ij_state := Committed, ij_committed_at := Some now,
                          ij_idempotency_key := Some idempotency_key,
                          ij_committed_result := Some result\<rparr>
                    in Inr (result, record_audit ''import.commit'' ''success'' (Some actor_id)
                              (Some ''import_job'') (Some (ij_id job)) None
                              [(''job_id'', JId (ij_id job)), (''inserted'', JInt (int (fst result))),
                               (''suppressed'', JInt (int (snd result)))]
                              (put_job job' (cm_db s))))))"

section \<open>Cleanup\<close>

definition cleanup_committed_source :: "import_job \<Rightarrow> storage \<Rightarrow> storage" where
  "cleanup_committed_source job st = storage_delete (ij_generated_storage_key job) st"

definition expired_job :: "time \<Rightarrow> import_job \<Rightarrow> bool" where
  "expired_job now j \<longleftrightarrow> (case ij_expires_at j of None \<Rightarrow> False | Some t \<Rightarrow> t < now)"

definition clean_job :: "import_job \<Rightarrow> import_job" where
  "clean_job j = (if ij_state j = Committed then j\<lparr>ij_expires_at := None\<rparr> else j\<lparr>ij_state := Expired\<rparr>)"

definition cleanup_expired_jobs :: "time \<Rightarrow> storage \<Rightarrow> db \<Rightarrow> nat \<times> storage \<times> db" where
  "cleanup_expired_jobs now st d =
     (let expired = filter (expired_job now) (import_jobs d);
          dropped = map ij_id (filter (\<lambda>j. ij_state j \<noteq> Committed) expired)
      in (length expired,
          fold (\<lambda>j. storage_delete (ij_generated_storage_key j)) expired st,
          d\<lparr>import_jobs := rows_update (expired_job now) clean_job (import_jobs d),
            import_rows := filter (\<lambda>r. ir_import_job_id r \<notin> set dropped) (import_rows d)\<rparr>))"

end
