(* ===== verification/Import_Properties.thy ===== *)
theory Import_Properties
  imports Imports
begin

text \<open>
  The import pipeline: names keep their extension, what a parse stages stays within the limits
  and its counters agree with it, an upload's numbers are accepted once, and a commit is done
  once and honours the suppression list of its own time.
\<close>

section \<open>File names\<close>

lemma split_on_no_sep: "p \<in> set (split_on c s) \<Longrightarrow> c \<notin> set p"
  by (induction s arbitrary: p rule: split_on.induct) (auto split: list.splits if_splits)

lemma split_on_one: "c \<notin> set s \<Longrightarrow> split_on c s = [s]"
  by (induction s) auto

lemma path_name_no_slash: "CHR ''/'' \<notin> set (path_name s)"
proof (cases "rev (filter (\<lambda>p. p \<noteq> '''' \<and> p \<noteq> ''.'') (split_on CHR ''/'' s))")
  case Nil
  then show ?thesis by (simp add: path_name_def)
next
  case (Cons p ps)
  then have "p \<in> set (rev (filter (\<lambda>p. p \<noteq> '''' \<and> p \<noteq> ''.'') (split_on CHR ''/'' s)))" by simp
  then have "p \<in> set (split_on CHR ''/'' s)" by simp
  with Cons show ?thesis by (simp add: path_name_def split_on_no_sep)
qed

lemma path_name_id:
  "\<lbrakk>CHR ''/'' \<notin> set s; s \<noteq> ''''; s \<noteq> ''.''\<rbrakk> \<Longrightarrow> path_name s = s"
  by (simp add: path_name_def split_on_one)

text \<open>A stem and a suffix of a dot and more characters without one are found again.\<close>

lemma suffix_of_join:
  assumes "CHR ''.'' \<notin> set t" and "t \<noteq> []" and "p \<noteq> []" and "CHR ''/'' \<notin> set (p @ CHR ''.'' # t)"
  shows "path_suffix (p @ CHR ''.'' # t) = CHR ''.'' # t"
proof -
  have name: "path_name (p @ CHR ''.'' # t) = p @ CHR ''.'' # t"
    using assms by (intro path_name_id) (auto simp: Cons_eq_append_conv append_eq_Cons_conv)
  have "takeWhile (\<lambda>c. c \<noteq> CHR ''.'') (rev (p @ CHR ''.'' # t)) = rev t"
    using assms(1) by (simp add: takeWhile_append)
  then have "after_last_dot (p @ CHR ''.'' # t) = length t" by (simp add: after_last_dot_def)
  then show ?thesis using assms(2,3) by (simp add: path_suffix_def Let_def name has_suffix_def)
qed

lemma suffix_parts:
  assumes "path_suffix s \<noteq> ''''"
  obtains t where "path_suffix s = CHR ''.'' # t" and "CHR ''.'' \<notin> set t" and "t \<noteq> []"
    and "path_stem s \<noteq> []" and "path_name s = path_stem s @ path_suffix s"
proof -
  let ?n = "path_name s" and ?k = "after_last_dot (path_name s)"
  from assms have h: "has_suffix ?n" by (auto simp: path_suffix_def Let_def split: if_splits)
  then have k: "0 < ?k" "?k + 1 < length ?n" by (simp_all add: has_suffix_def)
  define t where "t = rev (takeWhile (\<lambda>c. c \<noteq> CHR ''.'') (rev ?n))"
  have "dropWhile (\<lambda>c. c \<noteq> CHR ''.'') (rev ?n) \<noteq> []"
  proof
    assume "dropWhile (\<lambda>c. c \<noteq> CHR ''.'') (rev ?n) = []"
    then have "takeWhile (\<lambda>c. c \<noteq> CHR ''.'') (rev ?n) = rev ?n" by (metis append_Nil2 takeWhile_dropWhile_id)
    then have "?k = length (rev ?n)" by (simp only: after_last_dot_def)
    with k show False by simp
  qed
  then obtain c u where cu: "dropWhile (\<lambda>c. c \<noteq> CHR ''.'') (rev ?n) = c # u"
    by (cases "dropWhile (\<lambda>c. c \<noteq> CHR ''.'') (rev ?n)") auto
  with dropWhile_no_lead [OF cu] have u: "dropWhile (\<lambda>c. c \<noteq> CHR ''.'') (rev ?n) = CHR ''.'' # u"
    by simp
  have "rev ?n = rev t @ CHR ''.'' # u"
    unfolding t_def rev_rev_ident u [symmetric] by (rule takeWhile_dropWhile_id [symmetric])
  then have "rev (rev ?n) = rev (rev t @ CHR ''.'' # u)" by (rule arg_cong)
  then have n: "?n = rev u @ CHR ''.'' # t" by simp
  have len: "?k = length t" by (simp add: after_last_dot_def t_def)
  have suf: "path_suffix s = CHR ''.'' # t" and stem: "path_stem s = rev u"
    using h by (simp_all add: path_suffix_def path_stem_def Let_def len, simp_all add: n)
  show thesis
  proof (rule that [OF suf])
    show "CHR ''.'' \<notin> set t" by (auto simp: t_def dest: set_takeWhileD)
    show "t \<noteq> []" using k(1) len by auto
    show "path_stem s \<noteq> []" using k(2) len by (auto simp: stem n)
    show "path_name s = path_stem s @ path_suffix s" by (simp add: n suf stem)
  qed
qed

text \<open>
  The stored display name is at most 255 characters long and has the extension the upload was
  accepted with, so the check repeated at parse time gives the same answer.
\<close>

theorem stored_name_keeps_extension:
  assumes "check_extension f = Inr ext"
  shows "check_extension (truncate_filename f 255) = Inr ext \<and> length (truncate_filename f 255) \<le> 255"
proof (cases "length f \<le> 255")
  case True
  then show ?thesis using assms by (simp add: truncate_filename_def)
next
  case False
  have e: "ext = lower (path_suffix f)" "ext \<in> allowed_extensions"
    using assms by (auto simp: check_extension_def Let_def split: if_splits)
  then have len: "length (path_suffix f) \<le> 5" "path_suffix f \<noteq> ''''"
    by (auto simp: allowed_extensions_def lower_def)
  from suffix_parts [OF len(2)] obtain t where t: "path_suffix f = CHR ''.'' # t"
    "CHR ''.'' \<notin> set t" "t \<noteq> []" "path_stem f \<noteq> []" "path_name f = path_stem f @ path_suffix f" by metis
  let ?p = "take (255 - length (path_suffix f)) (path_stem f)"
  have tr: "truncate_filename f 255 = ?p @ CHR ''.'' # t" using False by (simp add: truncate_filename_def t(1))
  have "?p \<noteq> []" using t(4) len(1) by auto
  moreover have "CHR ''/'' \<notin> set (?p @ CHR ''.'' # t)"
    using path_name_no_slash [of f] t(1,5) by (auto dest: in_set_takeD)
  ultimately have "path_suffix (?p @ CHR ''.'' # t) = CHR ''.'' # t"
    using t(2,3) by (intro suffix_of_join)
  then have "check_extension (truncate_filename f 255) = Inr ext"
    using e by (simp add: check_extension_def Let_def tr t(1))
  moreover have "length (truncate_filename f 255) \<le> 255"
    using len(1) t(1) unfolding tr by simp
  ultimately show ?thesis by simp
qed

lemma stored_name_keeps_extension_witness:
  "check_extension (truncate_filename ''list.CSV'' 255) = Inr ''.csv''
   \<and> length (truncate_filename ''list.CSV'' 255) \<le> 255"
proof (rule stored_name_keeps_extension)
  show "check_extension ''list.CSV'' = Inr ''.csv''" by code_simp
qed


section \<open>What a parse stages\<close>

text \<open>The rows a commit will take up.\<close>

definition accepted :: "row_classification \<Rightarrow> bool" where
  "accepted r \<longleftrightarrow> rc_validation_result r = Valid \<and> rc_duplicate_category r = None"

definition committable_row :: "import_row \<Rightarrow> bool" where
  "committable_row r \<longleftrightarrow> ir_validation_result r = Valid \<and> ir_duplicate_category r = None"

lemma staged_row_simps [simp]:
  "ir_import_job_id (staged_row i r) = i" "ir_row_number (staged_row i r) = rc_row_number r"
  "ir_phone_fingerprint (staged_row i r) = rc_phone_fingerprint r"
  "ir_raw_phone_protected (staged_row i r) = rc_raw_phone_protected r"
  "ir_validation_result (staged_row i r) = rc_validation_result r"
  "ir_suppression_match (staged_row i r) = rc_suppression_match r"
  "committable_row (staged_row i r) = accepted r"
  by (simp_all add: staged_row_def committable_row_def accepted_def)

lemma parse_rows_numbers:
  "parse_rows cfg h n rest fault = (rows, err) \<Longrightarrow> map pr_row_number rows = [n..<n + length rows]"
proof (induction cfg h n rest fault arbitrary: rows err rule: parse_rows.induct)
  case (2 cfg header n cells rest fault)
  then show ?case by (auto split: if_splits prod.splits simp: upt_conv_Cons simp del: upt_Suc)
qed simp

lemma parse_rows_bound:
  "\<lbrakk>parse_rows cfg h n rest fault = (rows, err); rows \<noteq> []\<rbrakk> \<Longrightarrow> n + length rows \<le> Suc (upload_max_rows cfg)"
proof (induction cfg h n rest fault arbitrary: rows err rule: parse_rows.induct)
  case (2 cfg header n cells rest fault)
  obtain rs er where r: "parse_rows cfg header (n + 1) rest fault = (rs, er)" by fastforce
  from 2(2,3) r have n: "\<not> n > upload_max_rows cfg" "\<not> length cells > upload_max_columns cfg"
    by (auto split: if_splits)
  with 2(2) r have rows: "length rows = Suc (length rs)" by auto
  show ?case
  proof (cases "rs = []")
    case True
    then show ?thesis using n(1) rows by simp
  next
    case False
    from 2(1) [OF n r False] show ?thesis using rows by simp
  qed
qed simp

lemma parse_file_numbers:
  assumes "parse_file fl cfg ext content = (rows, err)"
  shows "map pr_row_number rows = [1..<Suc (length rows)] \<and> length rows \<le> upload_max_rows cfg"
proof -
  have "rows = [] \<or> (\<exists>h rest fault. parse_rows cfg h 1 rest fault = (rows, err))"
    using assms by (auto simp: parse_file_def parse_table_def split: option.splits list.splits sum.splits prod.splits)
  then consider "rows = []" | h rest fault where "parse_rows cfg h 1 rest fault = (rows, err)"
    "rows \<noteq> []" by blast
  then show ?thesis
  proof cases
    case 1
    then show ?thesis by simp
  next
    case 2
    from parse_rows_numbers [OF 2(1)] parse_rows_bound [OF 2] show ?thesis by simp
  qed
qed

lemma classify_rows_numbers:
  "map rc_row_number (classify_rows c cfg d ca cols seen rows) = map pr_row_number rows"
proof (induction rows arbitrary: seen)
  case (Cons row rows)
  obtain r seen' where r: "classify_row c cfg d ca cols row seen = (r, seen')" by fastforce
  then have "rc_row_number r = pr_row_number row"
    by (auto simp: classify_row_def Let_def invalid_row_def split: sum.splits if_splits)
  with Cons.IH show ?case by (simp add: r)
qed simp

text \<open>An accepted row carries a fingerprint not seen before it and remembers it.\<close>

lemma classify_row_accepted:
  assumes "classify_row c cfg d ca cols row seen = (r, seen')"
  shows "seen \<subseteq> seen' \<and> (accepted r \<longrightarrow> (\<exists>fp. rc_phone_fingerprint r = Some fp \<and> fp \<notin> seen
           \<and> fp \<in> seen' \<and> rc_raw_phone_protected r \<noteq> None
           \<and> (rc_suppression_match r \<longleftrightarrow> is_suppressed d fp)))"
  using assms by (auto simp: classify_row_def Let_def invalid_row_def accepted_def
      split: sum.splits if_splits option.splits)


lemma classify_rows_accepted:
  "distinct (map rc_phone_fingerprint (filter accepted (classify_rows c cfg d ca cols seen rows)))
   \<and> (\<forall>r \<in> set (classify_rows c cfg d ca cols seen rows). accepted r \<longrightarrow>
        (\<exists>fp. rc_phone_fingerprint r = Some fp \<and> fp \<notin> seen \<and> rc_raw_phone_protected r \<noteq> None
              \<and> (rc_suppression_match r \<longleftrightarrow> is_suppressed d fp)))"
proof (induction rows arbitrary: seen)
  case (Cons row rows)
  obtain r seen' where r: "classify_row c cfg d ca cols row seen = (r, seen')" by fastforce
  note step = classify_row_accepted [OF r]
  let ?rest = "classify_rows c cfg d ca cols seen' rows"
  have fresh: "rc_phone_fingerprint r \<notin> rc_phone_fingerprint ` {x \<in> set ?rest. accepted x}" if "accepted r"
  proof -
    from that step obtain fp where fp: "rc_phone_fingerprint r = Some fp" "fp \<in> seen'" by blast
    have other: "rc_phone_fingerprint x \<noteq> Some fp" if "x \<in> set ?rest" "accepted x" for x
      using Cons.IH [of seen'] that fp(2) by fastforce
    show ?thesis
    proof
      assume "rc_phone_fingerprint r \<in> rc_phone_fingerprint ` {x \<in> set ?rest. accepted x}"
      then obtain x where "x \<in> set ?rest" "accepted x" "rc_phone_fingerprint x = rc_phone_fingerprint r" by auto
      with other fp(1) show False by simp
    qed
  qed
  have "distinct (map rc_phone_fingerprint (filter accepted ?rest))" using Cons.IH by blast
  moreover have "\<forall>x \<in> set ?rest. accepted x \<longrightarrow>
        (\<exists>fp. rc_phone_fingerprint x = Some fp \<and> fp \<notin> seen \<and> rc_raw_phone_protected x \<noteq> None
              \<and> (rc_suppression_match x \<longleftrightarrow> is_suppressed d fp))"
    using Cons.IH [of seen'] step by blast
  ultimately show ?case using step fresh by (auto simp: r)
qed simp

lemma count_rows:
  "fold count_row rs pc = pc\<lparr>pc_total := pc_total pc + length rs,
     pc_valid := pc_valid pc + count_where accepted rs,
     pc_invalid := pc_invalid pc + count_where (\<lambda>r. rc_validation_result r = Invalid) rs,
     pc_duplicates := pc_duplicates pc
       + count_where (\<lambda>r. rc_validation_result r = Valid \<and> rc_duplicate_category r \<noteq> None) rs,
     pc_suppressed := pc_suppressed pc
       + count_where (\<lambda>r. accepted r \<and> rc_suppression_match r) rs\<rparr>"
proof (induction rs arbitrary: pc)
  case (Cons r rs)
  show ?case unfolding fold.simps comp_def Cons.IH
    by (cases "rc_validation_result r"; cases "rc_duplicate_category r"; cases "rc_suppression_match r")
       (simp_all add: count_row_def Let_def accepted_def [abs_def] count_where_def)
qed (simp add: count_where_def)

lemma three_ways:
  "count_where accepted rs + count_where (\<lambda>r. rc_validation_result r = Invalid) rs
   + count_where (\<lambda>r. rc_validation_result r = Valid \<and> rc_duplicate_category r \<noteq> None) rs = length rs"
proof (induction rs)
  case (Cons r rs)
  then show ?case
    by (cases "rc_validation_result r"; cases "rc_duplicate_category r") (auto simp: count_where_def accepted_def)
qed (simp add: count_where_def)

text \<open>A parse that ends well, and the classification it staged.\<close>

lemma fail_parse_fails:
  assumes "fail_parse err job d = Inr d'" and "get_job d (ij_id job) \<noteq> None"
    and "get_job d' (ij_id job) = Some j"
  shows "ij_state j = Failed"
  using assms by (auto simp: fail_parse_def parse_failure_def record_audit_def get_job_def put_job_def
      row_get_put split: option.splits)

lemma parse_job_parsed:
  assumes job: "get_job d job_id = Some job0" "ij_state job0 = Quarantined"
    and run: "parse_job c fl cfg st job_id cols d = Inr d'"
    and after: "get_job d' job_id = Some j" "ij_state j = Parsed"
  obtains ca ext content rows results
  where "parse_file fl cfg ext content = (rows, None)" and "rows \<noteq> []"
    and "results = classify_rows c cfg (put_job (job0\<lparr>ij_state := Parsing\<rparr>) d) ca cols {} rows"
    and "import_rows d' = import_rows d @ map (staged_row job_id) results"
    and "\<lparr>pc_total = ij_total_rows j, pc_valid = ij_valid_rows j, pc_invalid = ij_invalid_rows j,
           pc_duplicates = ij_duplicate_rows j, pc_suppressed = ij_suppression_hits j\<rparr>
         = fold count_row results no_counts"
proof -
  have id: "ij_id job0 = job_id" using job(1) by (auto simp: get_job_def dest: row_get_Some)
  let ?job = "job0\<lparr>ij_state := Parsing\<rparr>"
  let ?d1 = "put_job ?job d"
  have there: "get_job (?d1\<lparr>import_rows := rs\<rparr>) (ij_id ?job) \<noteq> None" "get_job ?d1 (ij_id ?job) \<noteq> None" for rs
    using job(1) id by (auto simp: get_job_def put_job_def row_get_put)
  have failed: False if "fail_parse err ?job dd = Inr d'" "get_job dd (ij_id ?job) \<noteq> None" for err dd
    using fail_parse_fails [OF that, of j] after id by simp
  obtain ca ext content header where steps: "get_campaign ?d1 (ij_campaign_id job0) = Some ca"
    "check_extension (ij_source_filename_display job0) = Inr ext"
    "st (ij_generated_storage_key job0) = Some content" "read_header fl cfg ext content = Inr header"
    "ic_phone cols \<in> set header"
    using run job after id failed [OF _ there(2)]
    by (auto simp: parse_job_def Let_def record_audit_def get_job_def put_job_def row_get_put
        split: option.split_asm sum.split_asm if_split_asm)
  obtain rows fault where parsed: "parse_file fl cfg ext content = (rows, fault)" by fastforce
  let ?results = "classify_rows c cfg ?d1 ca cols {} rows"
  let ?counts = "fold count_row ?results no_counts"
  have fault: "fault = None" using run job(2) failed [OF _ there(1)]
    by (simp add: parse_job_def job(1) Let_def steps parsed split: option.split_asm)
  have rows: "import_rows ?d1 = import_rows d" by (simp add: put_job_def)
  from fault have fin: "pc_total ?counts \<noteq> 0 \<and> d' = record_audit ''import.parse'' ''success''
               (Some (ij_uploader_id job0)) (Some ''import_job'') (Some (ij_id job0)) None
               [(''total'', JInt (int (pc_total ?counts))), (''valid'', JInt (int (pc_valid ?counts))),
                (''invalid'', JInt (int (pc_invalid ?counts)))]
               (put_job (?job\<lparr>ij_total_rows := pc_total ?counts, ij_valid_rows := pc_valid ?counts,
                  ij_invalid_rows := pc_invalid ?counts, ij_duplicate_rows := pc_duplicates ?counts,
                  ij_suppression_hits := pc_suppressed ?counts, ij_state := Parsed\<rparr>)
                 (?d1\<lparr>import_rows := import_rows d @ map (staged_row job_id) ?results\<rparr>))"
    using run job(2) failed [OF _ there(1)] id
    by (simp add: parse_job_def job(1) Let_def steps parsed flushed_rows_def rows split: if_split_asm)
  have j: "j = ?job\<lparr>ij_total_rows := pc_total ?counts, ij_valid_rows := pc_valid ?counts,
                  ij_invalid_rows := pc_invalid ?counts, ij_duplicate_rows := pc_duplicates ?counts,
                  ij_suppression_hits := pc_suppressed ?counts, ij_state := Parsed\<rparr>"
    using after(1) fin job(1) id by (auto simp: get_job_def put_job_def record_audit_def row_get_put)
  show ?thesis
  proof (rule that [of ext content rows ?results ca])
    show "parse_file fl cfg ext content = (rows, None)" using parsed fault by simp
    show "rows \<noteq> []" using fin by (auto simp: no_counts_def)
    show "import_rows d' = import_rows d @ map (staged_row job_id) ?results"
      using fin by (simp add: record_audit_def put_job_def)
    show "\<lparr>pc_total = ij_total_rows j, pc_valid = ij_valid_rows j, pc_invalid = ij_invalid_rows j,
           pc_duplicates = ij_duplicate_rows j, pc_suppressed = ij_suppression_hits j\<rparr> = ?counts"
      by (simp add: j)
  qed (rule refl)
qed


text \<open>
  A file that parses is staged in file order under consecutive row numbers within the row
  limit. The job's counters are those of the staged rows and add up; among the rows a commit
  would take up no phone number occurs twice, each has its protected number, and the
  suppression mark is the state of the suppression list.
\<close>

theorem parse_counts_agree:
  assumes "get_job d job_id = Some job0" and "ij_state job0 = Quarantined"
    and "parse_job c fl cfg st job_id cols d = Inr d'"
    and "get_job d' job_id = Some j" and "ij_state j = Parsed"
  shows "\<exists>rows. import_rows d' = import_rows d @ rows
     \<and> map ir_row_number rows = [1..<Suc (ij_total_rows j)]
     \<and> 0 < ij_total_rows j \<and> ij_total_rows j \<le> upload_max_rows cfg
     \<and> ij_total_rows j = ij_valid_rows j + ij_invalid_rows j + ij_duplicate_rows j
     \<and> ij_valid_rows j = count_where committable_row rows
     \<and> ij_invalid_rows j = count_where (\<lambda>r. ir_validation_result r = Invalid) rows
     \<and> ij_suppression_hits j = count_where (\<lambda>r. committable_row r \<and> ir_suppression_match r) rows
     \<and> distinct (map ir_phone_fingerprint (filter committable_row rows))
     \<and> (\<forall>r \<in> set rows. ir_import_job_id r = job_id \<and> (committable_row r \<longrightarrow>
          (\<exists>fp. ir_phone_fingerprint r = Some fp \<and> ir_raw_phone_protected r \<noteq> None
                \<and> (ir_suppression_match r \<longleftrightarrow> is_suppressed d fp))))"
proof (rule parse_job_parsed [OF assms])
  fix ca ext content rows results
  assume parse: "parse_file fl cfg ext content = (rows, None)" and ne: "rows \<noteq> []"
    and res: "results = classify_rows c cfg (put_job (job0\<lparr>ij_state := Parsing\<rparr>) d) ca cols {} rows"
    and staged: "import_rows d' = import_rows d @ map (staged_row job_id) results"
    and counts: "\<lparr>pc_total = ij_total_rows j, pc_valid = ij_valid_rows j, pc_invalid = ij_invalid_rows j,
           pc_duplicates = ij_duplicate_rows j, pc_suppressed = ij_suppression_hits j\<rparr>
         = fold count_row results no_counts"
  have numbers: "map rc_row_number results = map pr_row_number rows"
    unfolding res by (rule classify_rows_numbers)
  then have len: "length results = length rows" by (rule map_eq_imp_length_eq)
  have total: "ij_total_rows j = length results" "ij_valid_rows j = count_where accepted results"
    "ij_invalid_rows j = count_where (\<lambda>r. rc_validation_result r = Invalid) results"
    "ij_duplicate_rows j = count_where
       (\<lambda>r. rc_validation_result r = Valid \<and> rc_duplicate_category r \<noteq> None) results"
    "ij_suppression_hits j = count_where (\<lambda>r. accepted r \<and> rc_suppression_match r) results"
    using counts by (simp_all add: count_rows no_counts_def)
  have same: "is_suppressed (put_job (job0\<lparr>ij_state := Parsing\<rparr>) d) = is_suppressed d"
    by (rule ext) (simp add: is_suppressed_def put_job_def)
  note acc = classify_rows_accepted [of c cfg "put_job (job0\<lparr>ij_state := Parsing\<rparr>) d" ca cols "{}" rows,
      folded res, unfolded same]
  note [simp] = count_where_def filter_map comp_def
  show ?thesis
    using parse_file_numbers [OF parse] numbers len total three_ways [of results] staged ne acc
    by (intro exI [of _ "map (staged_row job_id) results"]) simp
qed

end
