(* ===== verification/Import_Commit.thy ===== *)
theory Import_Commit
  imports Imports
begin

text \<open>
  Committing an import: what one row does, carried over the loop by invariants; what the whole
  commit inserts; and its replay under the same or another key.
\<close>

section \<open>One row\<close>

lemma commit_row_cases:
  assumes run: "commit_row e cfg now k_id k row s = s'"
  obtains (skip) "s' = s"
  | (insert) fp co cs supp
    where "ir_phone_fingerprint row = Some fp" and "co_phone_fingerprint co = fp"
      and "supp = is_suppressed (cm_db s) fp"
      and "contacts (cm_db s') = contacts (cm_db s) @ cs"
      and "cs = [] \<and> co \<in> set (contacts (cm_db s)) \<and> \<not> already_in_campaign (cm_db s) k_id (co_id co)
           \<or> cs = [co] \<and> co_id co = fresh_id e (3 * k)
             \<and> fp \<notin> co_phone_fingerprint ` set (contacts (cm_db s))"
      and "campaign_contacts (cm_db s')
           = campaign_contacts (cm_db s) @ [committed_contact e k now k_id co row supp]"
      and "work_items (cm_db s') = work_items (cm_db s)
             @ (if supp then [] else [new_work_item (fresh_id e (3 * k + 2)) (fresh_id e (3 * k + 1)) now])"
      and "suppression_entries (cm_db s') = suppression_entries (cm_db s)"
      and "import_jobs (cm_db s') = import_jobs (cm_db s)"
      and "cm_inserted s' = cm_inserted s + 1"
      and "cm_suppressed s' = cm_suppressed s + (if supp then 1 else 0)"
proof (cases "ir_phone_fingerprint row")
  case None
  then show ?thesis using run skip by (simp add: commit_row_def)
next
  case (Some fp)
  note fp = Some
  show ?thesis
  proof (cases "ir_raw_phone_protected row")
    case None
    then show ?thesis using run skip fp by (simp add: commit_row_def)
  next
    case (Some ciphertext)
    note row = fp Some
    show ?thesis
    proof (cases "existing_contact (cm_db s) fp")
      case None
      then have no: "fp \<notin> co_phone_fingerprint ` set (contacts (cm_db s))"
        by (auto simp: existing_contact_def find_None_iff)
      let ?co = "\<lparr>co_id = fresh_id e (3 * k), co_phone_ciphertext = ciphertext, co_phone_fingerprint = fp,
                  co_phone_key_version = phone_fingerprint_key_version cfg, co_display_name = None\<rparr>"
      have cf: "contact_for e cfg k fp ciphertext (cm_db s) =
              (?co, cm_db s\<lparr>contacts := contacts (cm_db s) @ [?co]\<rparr>)"
        by (simp add: contact_for_def None Let_def)
      have same: "is_suppressed (cm_db s\<lparr>contacts := contacts (cm_db s) @ [?co]\<rparr>) = is_suppressed (cm_db s)"
        by (rule ext) (simp add: is_suppressed_def)
      show ?thesis
        by (rule insert [of fp ?co "is_suppressed (cm_db s) fp" "[?co]"])
           (simp_all add: run [symmetric] commit_row_def Let_def row None cf no same committed_contact_def)
    next
      case (Some co)
      then have co: "co \<in> set (contacts (cm_db s))" "co_phone_fingerprint co = fp"
        by (auto simp: existing_contact_def find_Some_iff)
      show ?thesis
      proof (cases "already_in_campaign (cm_db s) k_id (co_id co)")
        case True
        then show ?thesis using run row Some skip by (simp add: commit_row_def contact_for_def)
      next
        case False
        have cf: "contact_for e cfg k fp ciphertext (cm_db s) = (co, cm_db s)"
          by (simp add: contact_for_def Some)
        show ?thesis
          by (rule insert [of fp co "is_suppressed (cm_db s) fp" "[]"])
             (simp_all add: run [symmetric] commit_row_def Let_def row Some cf co False committed_contact_def)
      qed
    qed
  qed
qed

lemma commit_rows_inv:
  assumes "\<And>k row s. I k s \<Longrightarrow> I (Suc k) (commit_row e cfg now k_id k row s)"
  shows "I k s \<Longrightarrow> I (k + length rows) (commit_rows e cfg now k_id k rows s)"
proof (induction rows arbitrary: k s)
  case (Cons row rows)
  from Cons.IH [OF assms [OF Cons.prems]] show ?case by simp
qed simp

section \<open>The loop\<close>

text \<open>
  The contact rows a commit adds: in the campaign, for a stored contact, suppressed exactly when
  the contact's number is on the suppression list the commit started from.
\<close>

definition placed :: "db \<Rightarrow> uuid \<Rightarrow> contact list \<Rightarrow> campaign_contact \<Rightarrow> bool" where
  "placed d0 k_id cos cc \<longleftrightarrow> cc_campaign_id cc = k_id \<and> cc_completed_at cc = None
     \<and> (\<exists>co \<in> set cos. co_id co = cc_contact_id cc
          \<and> cc_status cc = (if is_suppressed d0 (co_phone_fingerprint co)
                             then Contact_suppressed else Contact_queued))"

abbreviation cc_pair :: "campaign_contact \<Rightarrow> uuid \<times> uuid" where
  "cc_pair cc \<equiv> (cc_campaign_id cc, cc_contact_id cc)"

text \<open>The keys and the foreign key the tables enforce.\<close>

definition contact_keys :: "db \<Rightarrow> bool" where
  "contact_keys d \<longleftrightarrow> distinct (map co_id (contacts d)) \<and> distinct (map co_phone_fingerprint (contacts d))
     \<and> distinct (map cc_pair (campaign_contacts d))
     \<and> cc_contact_id ` set (campaign_contacts d) \<subseteq> co_id ` set (contacts d)"

definition grown_by ::
  "db \<Rightarrow> contact list \<Rightarrow> campaign_contact list \<Rightarrow> work_item list \<Rightarrow> db \<Rightarrow> bool" where
  "grown_by d0 cs new items d \<longleftrightarrow> contacts d = contacts d0 @ cs
     \<and> campaign_contacts d = campaign_contacts d0 @ new \<and> work_items d = work_items d0 @ items
     \<and> suppression_entries d = suppression_entries d0 \<and> import_jobs d = import_jobs d0"

definition loop_inv :: "env \<Rightarrow> uuid \<Rightarrow> db \<Rightarrow> nat \<Rightarrow> commit_state \<Rightarrow> bool" where
  "loop_inv e k_id d0 k s \<longleftrightarrow> (\<exists>cs new items. grown_by d0 cs new items (cm_db s)
     \<and> contact_keys (cm_db s) \<and> (\<forall>co \<in> set cs. \<exists>i < k. co_id co = fresh_id e (3 * i))
     \<and> list_all (placed d0 k_id (contacts (cm_db s))) new
     \<and> cm_inserted s = length new
     \<and> cm_suppressed s = count_where (\<lambda>cc. cc_status cc = Contact_suppressed) new
     \<and> map wi_campaign_contact_id items = map cc_id (filter (\<lambda>cc. cc_status cc = Contact_queued) new)
     \<and> list_all (\<lambda>w. wi_state w = Queued) items)"

definition fresh_for :: "env \<Rightarrow> db \<Rightarrow> bool" where
  "fresh_for e d \<longleftrightarrow> inj (fresh_id e) \<and> range (fresh_id e) \<inter> co_id ` set (contacts d) = {}"

lemma placed_mono: "list_all (placed d0 k_id cos) new \<Longrightarrow> list_all (placed d0 k_id (cos @ cs)) new"
  unfolding placed_def list_all_iff set_append by blast

lemma committed_contact_simps [simp]:
  "cc_id (committed_contact e k now k_id co row supp) = fresh_id e (3 * k + 1)"
  "cc_campaign_id (committed_contact e k now k_id co row supp) = k_id"
  "cc_contact_id (committed_contact e k now k_id co row supp) = co_id co"
  "cc_status (committed_contact e k now k_id co row supp)
     = (if supp then Contact_suppressed else Contact_queued)"
  "cc_completed_at (committed_contact e k now k_id co row supp) = None"
  by (simp_all add: committed_contact_def)

lemma loop_inv_step:
  assumes fresh: "fresh_for e d0" and inv: "loop_inv e k_id d0 k s"
  shows "loop_inv e k_id d0 (Suc k) (commit_row e cfg now k_id k row s)"
proof -
  from inv obtain cs new items where g: "grown_by d0 cs new items (cm_db s)"
    and keys: "contact_keys (cm_db s)" and ids: "\<forall>co \<in> set cs. \<exists>i < k. co_id co = fresh_id e (3 * i)"
    and rest: "list_all (placed d0 k_id (contacts (cm_db s))) new" "cm_inserted s = length new"
      "cm_suppressed s = count_where (\<lambda>cc. cc_status cc = Contact_suppressed) new"
      "map wi_campaign_contact_id items = map cc_id (filter (\<lambda>cc. cc_status cc = Contact_queued) new)"
      "list_all (\<lambda>w. wi_state w = Queued) items"
    unfolding loop_inv_def by blast
  have "commit_row e cfg now k_id k row s = commit_row e cfg now k_id k row s" by (rule refl)
  then show ?thesis
  proof (cases rule: commit_row_cases)
    case skip
    then show ?thesis using g keys ids rest unfolding loop_inv_def
      by (metis less_SucI)
  next
    case (insert fp co cs' supp)
    let ?cc = "committed_contact e k now k_id co row supp"
    let ?s = "commit_row e cfg now k_id k row s"
    have supp: "supp = is_suppressed d0 fp" using g insert(3) by (simp add: grown_by_def is_suppressed_def)
    have new_id: "fresh_id e (3 * k) \<notin> co_id ` set (contacts (cm_db s))"
    proof
      assume "fresh_id e (3 * k) \<in> co_id ` set (contacts (cm_db s))"
      moreover have "contacts (cm_db s) = contacts d0 @ cs" using g by (simp add: grown_by_def)
      ultimately consider "fresh_id e (3 * k) \<in> co_id ` set (contacts d0)"
        | x where "x \<in> set cs" "co_id x = fresh_id e (3 * k)" by auto
      then show False
      proof cases
        case 1
        then show False using fresh unfolding fresh_for_def by blast
      next
        case 2
        with ids obtain i where i: "i < k" "fresh_id e (3 * i) = fresh_id e (3 * k)" by metis
        from fresh have "inj (fresh_id e)" by (simp add: fresh_for_def)
        from injD [OF this i(2)] i(1) show False by simp
      qed
    qed
    have in': "co \<in> set (contacts (cm_db ?s))" using insert(4,5) by auto
    have no_pair: "(k_id, co_id co) \<notin> cc_pair ` set (campaign_contacts (cm_db s))"
      using insert(5) new_id keys
      by (auto simp: already_in_campaign_def contact_keys_def)
    have keys': "contact_keys (cm_db ?s)"
    proof (cases "cs' = []")
      case True
      then show ?thesis using keys no_pair insert(4,5,6) by (simp add: contact_keys_def)
    next
      case False
      then show ?thesis using keys no_pair new_id insert(2,4,5,6) by (simp add: contact_keys_def) blast
    qed
    have ids': "\<forall>co \<in> set (cs @ cs'). \<exists>i < Suc k. co_id co = fresh_id e (3 * i)"
    proof
      fix x assume "x \<in> set (cs @ cs')"
      then have "x \<in> set cs \<or> co_id x = fresh_id e (3 * k)" using insert(5) by auto
      then show "\<exists>i < Suc k. co_id x = fresh_id e (3 * i)" using ids less_SucI by blast
    qed
    have "placed d0 k_id (contacts (cm_db ?s)) ?cc"
      using in' insert(2) supp by (auto simp: placed_def committed_contact_def)
    then have rest': "list_all (placed d0 k_id (contacts (cm_db ?s))) (new @ [?cc])"
      using placed_mono [OF rest(1)] insert(4) by simp
    let ?items = "items @ (if supp then [] else [new_work_item (fresh_id e (3 * k + 2)) (fresh_id e (3 * k + 1)) now])"
    have "grown_by d0 (cs @ cs') (new @ [?cc]) ?items (cm_db ?s)"
      using g insert by (simp add: grown_by_def)
    moreover have "map wi_campaign_contact_id ?items
        = map cc_id (filter (\<lambda>cc. cc_status cc = Contact_queued) (new @ [?cc]))"
      "list_all (\<lambda>w. wi_state w = Queued) ?items"
      using rest(4,5) by (auto simp: new_work_item_def)
    moreover have "cm_inserted ?s = length (new @ [?cc])"
      "cm_suppressed ?s = count_where (\<lambda>cc. cc_status cc = Contact_suppressed) (new @ [?cc])"
      using rest(2,3) insert by (auto simp: count_where_def)
    ultimately show ?thesis using keys' ids' rest' unfolding loop_inv_def by blast
  qed
qed


section \<open>The commit\<close>

text \<open>What a commit checks before it inserts anything, and what it leaves.\<close>

lemma commit_job_cases:
  assumes run: "commit_job e cfg job_id actor dv key d = Inr (res, d')"
  obtains (replay) j where "get_job d job_id = Some j" and "ij_state j = Committed"
      and "ij_idempotency_key j = Some key"
      and "res = (case ij_committed_result j of None \<Rightarrow> (0, 0) | Some r \<Rightarrow> r)" and "d' = d"
  | (first) j ca s where "get_job d job_id = Some j" and "ij_state j = Parsed"
      and "ij_decision_version j = dv" and "get_campaign d (ij_campaign_id j) = Some ca"
      and "\<exists>x. latest_decision d j = Some x \<and> id_decision x = ''approve''"
      and "missing_provenance ca = []"
      and "s = commit_rows e cfg (clk e 0) (ca_id ca) 0 (committable d j)
             \<lparr>cm_db = d, cm_inserted = 0, cm_suppressed = 0\<rparr>"
      and "res = (cm_inserted s, cm_suppressed s)"
      and "\<exists>ev. d' = (put_job (j\<lparr>ij_state := Committed, ij_committed_at := Some (clk e 0),
             ij_idempotency_key := Some key, ij_committed_result := Some res\<rparr>) (cm_db s))
               \<lparr>audit_events := audit_events (cm_db s) @ [ev]\<rparr>"
proof -
  obtain j where j: "get_job d job_id = Some j" using run by (auto simp: commit_job_def split: option.splits)
  show ?thesis
  proof (cases "ij_state j = Committed")
    case True
    then show ?thesis using run j replay by (auto simp: commit_job_def split: if_splits)
  next
    case False
    then have st: "ij_state j = Parsed" "ij_decision_version j = dv"
      and dec: "\<not> (case latest_decision d j of None \<Rightarrow> True | Some x \<Rightarrow> id_decision x \<noteq> ''approve'')"
      using run j by (auto simp: commit_job_def split: if_split_asm)
    then obtain ca where ca: "get_campaign d (ij_campaign_id j) = Some ca" "missing_provenance ca = []"
      using run j by (auto simp: commit_job_def split: option.split_asm if_split_asm)
    let ?s = "commit_rows e cfg (clk e 0) (ca_id ca) 0 (committable d j)
             \<lparr>cm_db = d, cm_inserted = 0, cm_suppressed = 0\<rparr>"
    have dec': "\<exists>x. latest_decision d j = Some x \<and> id_decision x = ''approve''"
      using dec by (auto split: option.splits)
    have res: "res = (cm_inserted ?s, cm_suppressed ?s)" using run j st dec ca
      by (simp add: commit_job_def Let_def)
    show ?thesis
      using run by (intro first [OF j st ca(1) dec' ca(2) refl res])
        (simp add: commit_job_def j st dec ca Let_def res record_audit_def put_job_def, rule exI, erule sym)
  qed
qed

lemma commit_job_done:
  assumes "commit_job e cfg job_id actor dv key d = Inr (res, d')"
  shows "\<exists>j. get_job d' job_id = Some j \<and> ij_state j = Committed \<and> ij_idempotency_key j = Some key
           \<and> res = (case ij_committed_result j of None \<Rightarrow> (0, 0) | Some r \<Rightarrow> r)"
  using assms
proof (cases rule: commit_job_cases)
  case replay
  then show ?thesis by blast
next
  case (first j ca s)
  have "import_jobs (cm_db (commit_rows e cfg now k_id k rows s0)) = import_jobs (cm_db s0)" for now k_id k rows s0
  proof -
    have "import_jobs (cm_db (commit_row e cfg now k_id k row s1)) = import_jobs (cm_db s1)" for k row s1
      using refl by (rule commit_row_cases) simp_all
    then show ?thesis by (induction rows arbitrary: k s0) simp_all
  qed
  then have "import_jobs (cm_db s) = import_jobs d" using first(7) by simp
  then show ?thesis using first(1,9) by (auto simp: get_job_def put_job_def row_get_put dest: row_get_Some)
qed

text \<open>
  A commit that succeeded is final: repeated under its key by anyone at any time it returns the
  same numbers and changes nothing, under another key it is refused, and the clean-up of expired
  jobs does not change that.
\<close>

theorem commit_is_idempotent:
  assumes "commit_job e cfg job_id actor dv key d = Inr (res, d1)"
    and "d2 = d1 \<or> (\<exists>now st. d2 = snd (snd (cleanup_expired_jobs now st d1)))"
  shows "commit_job e' cfg' job_id actor' dv' key d2 = Inr (res, d2)
     \<and> (key' \<noteq> key \<longrightarrow> commit_job e' cfg' job_id actor' dv' key' d2 = Inl Committed_under_other_key)"
proof -
  from commit_job_done [OF assms(1)] obtain j where j: "get_job d1 job_id = Some j" "ij_state j = Committed"
    "ij_idempotency_key j = Some key" "res = (case ij_committed_result j of None \<Rightarrow> (0, 0) | Some r \<Rightarrow> r)"
    by blast
  from assms(2) have "\<exists>j'. get_job d2 job_id = Some j' \<and> ij_state j' = Committed
      \<and> ij_idempotency_key j' = Some key \<and> ij_committed_result j' = ij_committed_result j"
  proof
    assume "\<exists>now st. d2 = snd (snd (cleanup_expired_jobs now st d1))"
    then obtain now st where "d2 = snd (snd (cleanup_expired_jobs now st d1))" by blast
    then have "get_job d2 job_id = map_option (\<lambda>j. if expired_job now j then clean_job j else j) (get_job d1 job_id)"
      by (simp add: cleanup_expired_jobs_def Let_def get_job_def row_get_rows_update clean_job_def)
    then show ?thesis using j by (simp add: clean_job_def)
  qed (use j in blast)
  then show ?thesis using j(4) by (auto simp: commit_job_def)
qed


lemma commit_rows_grow:
  assumes "fresh_for e d" and "contact_keys d"
  shows "loop_inv e k_id d (length rows)
           (commit_rows e cfg now k_id 0 rows \<lparr>cm_db = d, cm_inserted = 0, cm_suppressed = 0\<rparr>)"
proof -
  have "loop_inv e k_id d 0 \<lparr>cm_db = d, cm_inserted = 0, cm_suppressed = 0\<rparr>"
    using assms(2) unfolding loop_inv_def
    by (intro exI [of _ "[]"]) (simp add: grown_by_def count_where_def)
  from commit_rows_inv [of "loop_inv e k_id d", OF loop_inv_step [OF assms(1)] this]
  show ?thesis by simp
qed

lemma commit_effect:
  assumes "get_job d job_id = Some j" and "ij_state j = Parsed"
    and "commit_job e cfg job_id actor dv key d = Inr ((inserted, suppressed), d')"
    and "contact_keys d" and "fresh_for e d"
  shows "\<exists>new items. campaign_contacts d' = campaign_contacts d @ new
     \<and> work_items d' = work_items d @ items
     \<and> inserted = length new
     \<and> suppressed = count_where (\<lambda>cc. cc_status cc = Contact_suppressed) new
     \<and> (\<forall>cc \<in> set new. cc_campaign_id cc = ij_campaign_id j \<and> cc_completed_at cc = None
          \<and> (\<exists>co \<in> set (contacts d').
          co_id co = cc_contact_id cc
          \<and> cc_status cc = (if is_suppressed d (co_phone_fingerprint co)
                             then Contact_suppressed else Contact_queued)))
     \<and> map wi_campaign_contact_id items = map cc_id (filter (\<lambda>cc. cc_status cc = Contact_queued) new)
     \<and> (\<forall>w \<in> set items. wi_state w = Queued)
     \<and> contact_keys d' \<and> suppression_entries d' = suppression_entries d"
  using assms(3)
proof (cases rule: commit_job_cases)
  case (replay j')
  then show ?thesis using assms(1,2) by simp
next
  case (first j' ca s)
  then have j': "j' = j" using assms(1) by simp
  have ca: "ca_id ca = ij_campaign_id j"
    using first(4) by (auto simp: j' get_campaign_def dest: row_get_Some)
  have "loop_inv e (ij_campaign_id j) d (length (committable d j')) s"
    using commit_rows_grow [OF assms(5,4)] by (simp add: first(7) ca)
  then obtain cs new items where g: "grown_by d cs new items (cm_db s)" "contact_keys (cm_db s)"
    "list_all (placed d (ij_campaign_id j) (contacts (cm_db s))) new" "cm_inserted s = length new"
    "cm_suppressed s = count_where (\<lambda>cc. cc_status cc = Contact_suppressed) new"
    "map wi_campaign_contact_id items = map cc_id (filter (\<lambda>cc. cc_status cc = Contact_queued) new)"
    "list_all (\<lambda>w. wi_state w = Queued) items"
    unfolding loop_inv_def by blast
  have same: "contacts d' = contacts (cm_db s)" "campaign_contacts d' = campaign_contacts (cm_db s)"
    "work_items d' = work_items (cm_db s)" "suppression_entries d' = suppression_entries (cm_db s)"
    using first(9) by (auto simp: put_job_def)
  show ?thesis
    using g same first(8)
    by (intro exI [of _ new] exI [of _ items]) (auto simp: grown_by_def contact_keys_def list_all_iff placed_def)
qed

text \<open>
  C24: a commit only adds rows. Each contact it puts in the campaign is queued, with one queued
  work item, unless its number is on the suppression list at the time of the commit: then it is
  suppressed and has none. No contact is in the campaign twice, no number is stored twice, and the
  numbers returned count the new rows.
\<close>

theorem commit_honours_suppression:
  assumes "get_job d job_id = Some j" and "ij_state j = Parsed"
    and "commit_job e cfg job_id actor dv key d = Inr ((inserted, suppressed), d')"
    and "contact_keys d" and "fresh_for e d"
  shows "\<exists>new items. campaign_contacts d' = campaign_contacts d @ new
     \<and> work_items d' = work_items d @ items
     \<and> inserted = length new
     \<and> suppressed = count_where (\<lambda>cc. cc_status cc = Contact_suppressed) new
     \<and> (\<forall>cc \<in> set new. cc_campaign_id cc = ij_campaign_id j \<and> cc_completed_at cc = None
          \<and> (\<exists>co \<in> set (contacts d').
          co_id co = cc_contact_id cc
          \<and> cc_status cc = (if is_suppressed d (co_phone_fingerprint co)
                             then Contact_suppressed else Contact_queued)))
     \<and> map wi_campaign_contact_id items = map cc_id (filter (\<lambda>cc. cc_status cc = Contact_queued) new)
     \<and> (\<forall>w \<in> set items. wi_state w = Queued)
     \<and> contact_keys d' \<and> suppression_entries d' = suppression_entries d"
  using assms by (rule commit_effect)

end
