(* ===== verification/Import_Outcome.thy ===== *)
theory Import_Outcome
  imports Import_Commit Retention
begin

text \<open>
  What becomes of an imported contact that was suppressed: no work item refers to it, the work
  queue only writes the contact rows its items refer to, so nothing ever completes it, and its
  campaign never counts as complete.
\<close>

definition referred :: "db \<Rightarrow> uuid set" where
  "referred d = wi_campaign_contact_id ` set (work_items d)"

definition leaves_others :: "db \<Rightarrow> db \<Rightarrow> bool" where
  "leaves_others d d' \<longleftrightarrow> referred d' \<subseteq> referred d
     \<and> (\<forall>i. i \<notin> referred d \<longrightarrow> get_campaign_contact d' i = get_campaign_contact d i)"

inductive queue_step :: "crypto \<Rightarrow> settings \<Rightarrow> db \<Rightarrow> db \<Rightarrow> bool" for c cfg where
  lease: "fst (lease_next c e cfg up su a r d) = Inr (x, d') \<Longrightarrow> queue_step c cfg d d'"
| renew: "renew_lease e cfg i a l d = Inr (w, d') \<Longrightarrow> queue_step c cfg d d'"
| expire: "queue_step c cfg d (snd (reclaim_expired_leases e d))"
| revoke: "queue_step c cfg d (snd (reclaim_leases_for_user e a d))"
| release: "queue_step c cfg d (snd (release_campaign_work_for_agent e a i d))"
| complete: "complete_work_item c e cfg rq d = Inr (res, d') \<Longrightarrow> queue_step c cfg d d'"
| skip: "skip_work_item e cfg i a l reason d = Inr (w, d') \<Longrightarrow> queue_step c cfg d d'"
| reschedule: "reschedule_review_item e i a t reason d = Inr (w, d') \<Longrightarrow> queue_step c cfg d d'"
| more_attempts: "increase_review_item_attempts e i a m reason d = Inr (w, d') \<Longrightarrow> queue_step c cfg d d'"
| close_review: "close_review_item e i a reason d = Inr (w, d') \<Longrightarrow> queue_step c cfg d d'"

lemma leaves_refl [simp]: "leaves_others d d"
  by (simp add: leaves_others_def)

lemma leaves_trans: "\<lbrakk>leaves_others d d'; leaves_others d' d''\<rbrakk> \<Longrightarrow> leaves_others d d''"
  by (auto simp: leaves_others_def)

lemma referred_frame [simp]:
  "referred (record_audit x1 x2 x3 x4 x5 x6 x7 d) = referred d"
  "referred (put_campaign_contact cc d) = referred d"
  "referred (d\<lparr>suppression_entries := ss\<rparr>) = referred d"
  "referred (d\<lparr>call_attempts := as\<rparr>) = referred d"
  "referred (d\<lparr>campaign_contacts := ccs\<rparr>) = referred d"
  by (simp_all add: referred_def put_campaign_contact_def record_audit_def)

lemma get_frame [simp]:
  "get_campaign_contact (record_audit x1 x2 x3 x4 x5 x6 x7 d) i = get_campaign_contact d i"
  "get_campaign_contact (put_work_item w d) i = get_campaign_contact d i"
  "get_campaign_contact (d\<lparr>suppression_entries := ss\<rparr>) i = get_campaign_contact d i"
  "get_campaign_contact (d\<lparr>call_attempts := as\<rparr>) i = get_campaign_contact d i"
  "get_campaign_contact (d\<lparr>work_items := ws\<rparr>) i = get_campaign_contact d i"
  by (simp_all add: get_campaign_contact_def put_work_item_def record_audit_def)

lemma referred_put: "wi_campaign_contact_id w \<in> referred d \<Longrightarrow> referred (put_work_item w d) \<subseteq> referred d"
  by (auto simp: referred_def put_work_item_def dest: set_row_put)

lemma get_put_contact:
  "get_campaign_contact (put_campaign_contact cc d) i =
     (if i = cc_id cc \<and> get_campaign_contact d i \<noteq> None then Some cc else get_campaign_contact d i)"
  by (auto simp: get_campaign_contact_def put_campaign_contact_def row_get_put)

lemma get_item_referred: "get_work_item d i = Some w \<Longrightarrow> wi_campaign_contact_id w \<in> referred d"
  by (auto simp: get_work_item_def referred_def dest: row_get_Some)

lemma get_contact_id: "get_campaign_contact d i = Some cc \<Longrightarrow> cc_id cc = i"
  by (auto simp: get_campaign_contact_def dest: row_get_Some)

text \<open>Writing back an item that is stored, and the contact row it refers to.\<close>

lemma leaves_put:
  assumes "wi_campaign_contact_id w \<in> referred d"
  shows "leaves_others d (put_work_item w d)"
  using referred_put [OF assms] by (simp add: leaves_others_def)

lemma leaves_put_contact:
  assumes "cc_id cc \<in> referred d"
  shows "leaves_others d (put_campaign_contact cc d)"
  using assms by (auto simp: leaves_others_def get_put_contact)

lemma leaves_audit [simp]: "leaves_others d (record_audit x1 x2 x3 x4 x5 x6 x7 d') = leaves_others d d'"
  by (simp add: leaves_others_def)

lemma leaves_rows:
  assumes "\<And>w. wi_campaign_contact_id (f w) = wi_campaign_contact_id w"
  shows "leaves_others d (d\<lparr>work_items := rows_update P f (work_items d)\<rparr>)"
  using assms by (auto simp: leaves_others_def referred_def rows_update_def)

lemma leaves_close:
  assumes "get_work_item d (wi_id w) = Some w" and "get_campaign_contact d (wi_campaign_contact_id w) = Some cc"
  shows "leaves_others d (close_suppressed now w cc d)"
proof -
  let ?w = "w\<lparr>wi_state := Suppressed, wi_completed_at := Some now, wi_version := wi_version w + 1\<rparr>"
  have in': "wi_campaign_contact_id ?w \<in> referred d" using get_item_referred [OF assms(1)] by simp
  have "referred (put_work_item ?w d) \<subseteq> referred d" by (rule referred_put [OF in'])
  then show ?thesis using in' get_contact_id [OF assms(2)]
    by (auto simp: close_suppressed_def leaves_others_def get_put_contact)
qed

text \<open>Where an operation writes the item it was given back, in any of its branches.\<close>

lemma leaves_put_same:
  "\<lbrakk>get_work_item d i = Some w; wi_campaign_contact_id w' = wi_campaign_contact_id w\<rbrakk>
   \<Longrightarrow> leaves_others d (put_work_item w' d)"
  by (rule leaves_put) (simp add: get_item_referred)

lemma lease_leaves:
  assumes dist: "distinct (map wi_id (work_items d))"
    and run: "fst (lease_next c e cfg up su a r d) = Inr (x, d')"
  shows "leaves_others d d'"
proof -
  have choose: "leaves_others d d1" if "choose_work e a now d = Inr (y, d1)" for now y d1
    by (rule choose_work_invariant [where I = "leaves_others d", OF _ that leaves_refl])
       (blast intro: leaves_trans leaves_close)
  show ?thesis using run
  proof (cases rule: lease_next_cases)
    case (granted ch d1)
    from granted(3) show ?thesis
    proof (rule finish_lease_cases)
      fix asg w cc co reason ca rr
      assume ch: "ch = (asg, (w, cc, co), reason)"
        and d': "d' = record_audit ''work.view'' ''success'' (Some a) (Some ''work_item'')
               (Some (wi_id w)) None [] (put_work_item (grant_lease e cfg a (clk e 0) ch) d1)"
      have "get_work_item d1 (wi_id w) = Some w"
        using choose_work_choice [OF dist granted(2)] by (simp add: good_choice_def ch leasable_row_def)
      then have "leaves_others d1 (put_work_item (grant_lease e cfg a (clk e 0) ch) d1)"
        by (rule leaves_put_same) (simp add: grant_lease_def ch)
      with choose [OF granted(2)] show ?thesis by (simp add: d') (blast intro: leaves_trans)
    qed
  qed (use choose in simp_all)
qed

lemma row_get_update_outside:
  assumes "\<And>r. key (f r) = key r" and "k \<notin> H"
  shows "row_get key k (rows_update (\<lambda>r. key r \<in> H) f rs) = row_get key k rs"
  using assms by (induction rs) (auto simp: row_get_def rows_update_def)

lemma suppress_leaves: "leaves_others d (suppress_contact_everywhere e co source by' d)"
proof -
  have "\<exists>P. campaign_contacts (suppress_contact_everywhere e co source by' d)
          = rows_update (\<lambda>cc. cc_id cc \<in> set (map wi_campaign_contact_id (filter P (work_items d))))
              (suppress_contact_row (clk e 4) by') (campaign_contacts d)
        \<and> work_items (suppress_contact_everywhere e co source by' d)
          = rows_update P (suppress_item (clk e 4)) (work_items d)"
    by (cases "active_suppression_exists d (co_phone_fingerprint co)";
        simp add: suppress_contact_everywhere_def Let_def; rule exI; rule conjI; rule refl)
  then obtain P where P: "campaign_contacts (suppress_contact_everywhere e co source by' d)
      = rows_update (\<lambda>cc. cc_id cc \<in> set (map wi_campaign_contact_id (filter P (work_items d))))
          (suppress_contact_row (clk e 4) by') (campaign_contacts d)"
    "work_items (suppress_contact_everywhere e co source by' d)
      = rows_update P (suppress_item (clk e 4)) (work_items d)" by blast
  have "referred (suppress_contact_everywhere e co source by' d) \<subseteq> referred d"
    by (auto simp: referred_def P(2) rows_update_def suppress_item_def)
  moreover have "get_campaign_contact (suppress_contact_everywhere e co source by' d) i
      = get_campaign_contact d i" if "i \<notin> referred d" for i
    unfolding get_campaign_contact_def P(1) using that
    by (intro row_get_update_outside) (auto simp: suppress_contact_row_def referred_def)
  ultimately show ?thesis by (simp add: leaves_others_def)
qed

lemma next_action_leaves:
  assumes get: "get_work_item d (wi_id w) = Some w" and run: "apply_next_action e cfg a di w d = Inr d'"
  shows "leaves_others d d'"
proof -
  have clear: "wi_campaign_contact_id (clear_lease w) = wi_campaign_contact_id w"
    by (simp add: clear_lease_def)
  have put: "leaves_others d (put_work_item w' d)" if "wi_campaign_contact_id w' = wi_campaign_contact_id w" for w'
    by (rule leaves_put_same [OF get that])
  have both: "leaves_others d (put_campaign_contact cc' (put_work_item w' d))"
    if "wi_campaign_contact_id w' = wi_campaign_contact_id w" "cc_id cc' = wi_campaign_contact_id w" for w' cc'
    using put [OF that(1)] get_item_referred [OF get] that(2)
    by (auto simp: leaves_others_def get_put_contact)
  show ?thesis using run clear
    by (auto simp: apply_next_action_def Let_def intro!: put both dest: get_contact_id
        split: if_split_asm option.split_asm)
qed

lemma complete_leaves:
  assumes "complete_work_item c e cfg rq d = Inr (res, d')"
  shows "leaves_others d d'"
  using assms
proof (cases rule: complete_cases)
  case (fresh w cc di co d2 w2)
  from load_leased_item_Inr [OF fresh(2)] have w: "get_work_item d (wi_id w) = Some w" by auto
  let ?w = "w\<lparr>wi_attempt_count := wi_attempt_count w + 1\<rparr>"
  let ?d1 = "put_work_item ?w d"
  have 1: "leaves_others d ?d1" by (rule leaves_put_same [OF w]) simp
  have w1: "get_work_item ?d1 (wi_id ?w) = Some ?w"
    using w by (simp add: get_work_item_def put_work_item_def row_get_put)
  have "leaves_others ?d1 d2"
    using fresh(7) by (auto simp: apply_disposition_def schedule_callback_def clear_lease_def suppress_leaves
        intro!: leaves_put_same [OF w1] elim!: next_action_leaves [OF w1] split: if_split_asm)
  with 1 have "leaves_others d d2" by (rule leaves_trans)
  then show ?thesis by (simp add: fresh(10) leaves_others_def)
qed simp

lemma skip_leaves:
  "skip_work_item e cfg i a l reason d = Inr (w', d') \<Longrightarrow> leaves_others d d'"
  by (auto simp: skip_work_item_def Let_def clear_lease_def split: sum.splits if_splits
      dest!: load_leased_item_Inr intro!: leaves_put_same)

lemma renew_leaves: "renew_lease e cfg i a l d = Inr (w', d') \<Longrightarrow> leaves_others d d'"
  by (auto simp: renew_lease_def Let_def split: sum.splits if_splits option.splits intro!: leaves_put_same)

lemma review_leaves:
  "reschedule_review_item e i a t reason d = Inr (w', d') \<Longrightarrow> leaves_others d d'"
  "increase_review_item_attempts e i a m reason d = Inr (w', d') \<Longrightarrow> leaves_others d d'"
  by (auto simp: reschedule_review_item_def increase_review_item_attempts_def Let_def
      split: sum.splits if_splits option.splits dest!: load_review_item_Inr intro!: leaves_put_same)

lemma close_review_leaves:
  assumes "close_review_item e i a reason d = Inr (w', d')"
  shows "leaves_others d d'"
proof -
  have both: "leaves_others d (put_campaign_contact cc' (put_work_item w' d))"
    if "get_work_item d k = Some w" "wi_campaign_contact_id w' = wi_campaign_contact_id w"
      "cc_id cc' = wi_campaign_contact_id w" for k w w' cc'
    using leaves_put_same [OF that(1,2)] get_item_referred [OF that(1)] that(3)
    by (auto simp: leaves_others_def get_put_contact)
  show ?thesis using assms
    by (auto simp: close_review_item_def Let_def split: sum.splits if_splits option.splits
      dest!: load_review_item_Inr intro!: leaves_put_same both) (simp_all add: get_contact_id)
qed

lemma queue_step_leaves:
  assumes inv: "work_inv d" and step: "queue_step c cfg d d'"
  shows "work_inv d' \<and> leaves_others d d'"
proof -
  have "work_step c cfg d d'" using step by cases (auto intro: work_step.intros)
  with inv have "work_inv d'" by (blast dest: work_step_ok)
  moreover have dist: "distinct (map wi_id (work_items d))" using inv by (simp add: work_inv_def items_inv_def)
  from step have "leaves_others d d'"
  proof cases
    case (release e a i)
    then show ?thesis
      by (auto simp: release_campaign_work_for_agent_def Let_def return_to_queue_def intro!: leaves_rows)
  qed (auto simp: reclaim_expired_leases_def reclaim_leases_for_user_def Let_def return_to_pre_lease_def
      intro: lease_leaves [OF dist] renew_leaves complete_leaves skip_leaves review_leaves
        close_review_leaves leaves_rows)
  ultimately show ?thesis by simp
qed

interpretation queue_frame: history_machine work_inv "queue_step c cfg" work_inv leaves_others
  for c cfg
  by unfold_locales (auto dest: queue_step_leaves elim: leaves_trans)


lemma unreferred_stays:
  assumes "get_campaign_contact d i = Some cc" and "i \<notin> referred d" and "work_inv d"
    and "run (queue_step c cfg) d d'"
  shows "get_campaign_contact d' i = Some cc"
  using queue_frame.run_past [OF assms(4,3)] assms(1,2) by (simp add: leaves_others_def)

lemma incomplete_contact:
  assumes "get_campaign_contact d i = Some cc" and "cc_completed_at cc = None"
    and "cc_campaign_id cc = ca_id ca"
  shows "\<not> campaign_is_complete ca d"
proof -
  have "cc \<in> set (campaign_contacts d)"
    using assms(1) by (auto simp: get_campaign_contact_def dest: row_get_Some)
  with assms(2,3) show ?thesis by (auto simp: campaign_is_complete_def count_where_0)
qed

text \<open>
  C26: once a commit has put a suppressed contact into a campaign, the campaign never counts as
  complete again, whatever the work queue does: its retention countdown never starts.
\<close>

theorem suppressed_import_blocks_completion:
  assumes "get_job d job_id = Some j" and "ij_state j = Parsed"
    and "commit_job e cfg job_id actor dv key d = Inr ((inserted, suppressed), d1)"
    and "contact_keys d" and "fresh_for e d" and "suppressed \<noteq> 0"
    and "distinct (map cc_id (campaign_contacts d1))"
    and "referred d \<subseteq> cc_id ` set (campaign_contacts d)" and "work_inv d1"
    and "run (queue_step c cfg) d1 d2" and "get_campaign d2 (ij_campaign_id j) = Some ca"
  shows "\<not> campaign_is_complete ca d2 \<and> mark_if_complete e' now (ij_campaign_id j) d2 = (False, d2)"
proof -
  from commit_effect [OF assms(1-5)] obtain new items where
    grown: "campaign_contacts d1 = campaign_contacts d @ new" "work_items d1 = work_items d @ items"
    and sup: "suppressed = count_where (\<lambda>cc. cc_status cc = Contact_suppressed) new"
    and new: "\<forall>cc \<in> set new. cc_campaign_id cc = ij_campaign_id j \<and> cc_completed_at cc = None"
    and items: "map wi_campaign_contact_id items = map cc_id (filter (\<lambda>cc. cc_status cc = Contact_queued) new)"
    by blast
  from assms(6) obtain cc where cc: "cc \<in> set new" "cc_status cc = Contact_suppressed"
    by (auto simp: sup count_where_0)
  have get: "get_campaign_contact d1 (cc_id cc) = Some cc"
    unfolding get_campaign_contact_def by (rule row_get_distinct [OF assms(7)]) (simp add: grown cc(1))
  have "cc_id cc \<notin> cc_id ` set (campaign_contacts d)"
    using assms(7) cc(1) by (auto simp: grown(1))
  moreover have "cc_id cc \<notin> wi_campaign_contact_id ` set items"
  proof
    assume "cc_id cc \<in> wi_campaign_contact_id ` set items"
    then have "cc_id cc \<in> set (map cc_id (filter (\<lambda>cc. cc_status cc = Contact_queued) new))"
      by (simp only: items [symmetric] set_map)
    then obtain x where "x \<in> set new" "cc_status x = Contact_queued" "cc_id x = cc_id cc" by auto
    then show False using assms(7) cc by (auto simp: grown(1) distinct_map inj_on_def)
  qed
  ultimately have "cc_id cc \<notin> referred d1" using assms(8) by (auto simp: referred_def grown(2))
  from unreferred_stays [OF get this assms(9,10)] have "get_campaign_contact d2 (cc_id cc) = Some cc" .
  from incomplete_contact [OF this] have "\<not> campaign_is_complete ca d2"
    using new cc(1) assms(11) by (auto simp: get_campaign_def dest: row_get_Some)
  then show ?thesis using assms(11) by (simp add: mark_if_complete_def)
qed


end
