(* ===== verification/Import_Witnesses.thy ===== *)
theory Import_Witnesses
  imports Import_Properties Import_Outcome Sample
begin

text \<open>The import properties at concrete files and jobs.\<close>

section \<open>Parsing\<close>

definition import_columns_of :: "string \<Rightarrow> import_columns" where
  "import_columns_of phone = \<lparr>ic_phone = phone, ic_name = None, ic_metadata = []\<rparr>"

definition plain_files :: file_lib where
  "plain_files = \<lparr>fl_decode = (\<lambda>s. (s, None)), fl_zip = (\<lambda>s. None), fl_sheet = (\<lambda>s. [])\<rparr>"

definition sample_job :: import_job where
  "sample_job = \<lparr>ij_id = 70, ij_campaign_id = 1, ij_uploader_id = 5,
     ij_source_filename_display = ''list.csv'', ij_generated_storage_key = ''k'', ij_file_hash = '''',
     ij_state = Quarantined, ij_total_rows = 0, ij_valid_rows = 0, ij_invalid_rows = 0,
     ij_duplicate_rows = 0, ij_suppression_hits = 0, ij_decision_version = 0,
     ij_idempotency_key = None, ij_error_summary = None, ij_expires_at = Some 5000,
     ij_committed_at = None, ij_committed_result = None\<rparr>"

definition upload_db :: db where
  "upload_db = empty_db\<lparr>campaigns := [sample_campaign], import_jobs := [sample_job]\<rparr>"

text \<open>A header and three rows: a number, the same number again, and one too short.\<close>

definition upload_text :: string where
  "upload_text = ''tel'' @ [CHR 0x0A] @ ''0771234'' @ [CHR 0x0A] @ ''0771234'' @ [CHR 0x0A] @ ''12'' @ [CHR 0x0A]"

definition parsed_upload :: "import_error + db" where
  "parsed_upload = parse_job sample_crypto plain_files default_settings [''k'' \<mapsto> upload_text] 70
     (import_columns_of ''tel'') upload_db"

lemmas csv_eval = read_csv_def csv_start_def csv_char_def field_char_def newline_def quote_char_def
  add_char_def save_field_def csv_eol_def csv_field_limit_def

lemma upload_table:
  "read_csv plain_files upload_text = ([[''tel''], [''0771234''], [''0771234''], [''12'']], None)"
  by (simp add: csv_eval plain_files_def upload_text_def)

lemma upload_words: "strip ''tel'' = ''tel''" "strip ''0771234'' = ''0771234''" "strip ''12'' = ''12''"
  by (simp_all add: strip_def lstrip_def py_isspace_def code_def Let_def)
lemma csv_name: "check_extension ''list.csv'' = Inr ''.csv''" by code_simp
lemma settings_limits: "upload_max_rows default_settings = 100000" "upload_max_columns default_settings = 50"
  "upload_max_cell_length default_settings = 500"
  by (simp_all add: default_settings_def)

lemma upload_phones:
  "\<exists>p. protect sample_crypto default_settings ''0771234'' ''ZW'' = Inr p"
  "protect sample_crypto default_settings ''12'' ''ZW'' = Inl (Not_a_valid_number ''ZW'')"
  by (simp_all add: protect_def normalize_to_e164_def sample_crypto_def)

lemma parsed_upload_run:
  "\<exists>d' j. parsed_upload = Inr d' \<and> get_job d' 70 = Some j \<and> ij_state j = Parsed \<and> ij_total_rows j = 3
     \<and> ij_valid_rows j = 1"
proof -
  obtain p where p: "protect sample_crypto default_settings ''0771234'' ''ZW'' = Inr p" using upload_phones(1) by blast
  show ?thesis
  by (simp add: parsed_upload_def parse_job_def upload_db_def sample_job_def get_job_def put_job_def row_get_def
     row_put_def upload_words csv_name get_campaign_def sample_campaign_def Let_def parse_file_def read_header_def file_table_def
     upload_table parse_table_def validate_header_def import_columns_of_def settings_limits
     row_values_def truncate_cell_def classify_row_def p upload_phones existing_contact_def empty_db_def is_suppressed_def
     invalid_row_def count_row_def no_counts_def record_audit_def flushed_rows_def staged_row_def)
qed

lemma parse_counts_agree_witness:
  "\<exists>d' j. parsed_upload = Inr d' \<and> get_job d' 70 = Some j \<and> map ir_row_number (import_rows d') = [1..<4]
     \<and> 3 = ij_valid_rows j + ij_invalid_rows j + ij_duplicate_rows j
     \<and> count_where committable_row (import_rows d') = 1"
proof -
  from parsed_upload_run obtain d' j where run: "parsed_upload = Inr d'" "get_job d' 70 = Some j"
    "ij_state j = Parsed" "ij_total_rows j = 3" "ij_valid_rows j = 1" by blast
  have "get_job upload_db 70 = Some sample_job" "ij_state sample_job = Quarantined"
    by (simp_all add: upload_db_def sample_job_def get_job_def row_get_def)
  from parse_counts_agree [OF this run(1) [unfolded parsed_upload_def] run(2,3)] run
  show ?thesis by (auto simp: upload_db_def empty_db_def)
qed

section \<open>Committing\<close>

text \<open>Two parsed rows, one of whose numbers is on the suppression list.\<close>

definition approved_row :: "nat \<Rightarrow> string \<Rightarrow> import_row" where
  "approved_row n fp = \<lparr>ir_import_job_id = 70, ir_row_number = n, ir_raw_phone_protected = Some fp,
     ir_phone_fingerprint = Some fp, ir_canonical_values = None, ir_validation_result = Valid,
     ir_validation_detail = None, ir_duplicate_category = None, ir_suppression_match = False\<rparr>"

definition parsed_job :: import_job where
  "parsed_job = sample_job\<lparr>ij_state := Parsed, ij_decision_version := 1\<rparr>"

definition approved_db :: db where
  "approved_db = empty_db\<lparr>campaigns := [sample_campaign],
     import_jobs := [parsed_job],
     import_rows := [approved_row 1 ''b'', approved_row 2 ''a''],
     import_decisions := [\<lparr>id_import_job_id = 70, id_decision_version = 1, id_decision = ''approve'',
       id_decided_by = 5, id_note = None, id_created_at = 0\<rparr>],
     suppression_entries := [\<lparr>se_id = 1, se_organization_scope = None, se_phone_fingerprint = ''b'',
       se_protected_phone_value = None, se_source = ''import'', se_effective_at = 0,
       se_status = ''active'', se_created_by = None\<rparr>]\<rparr>"

definition committed :: "(import_error, nat \<times> nat, db) outcome" where
  "committed = commit_job sample_env default_settings 70 5 1 ''k'' approved_db"

lemma approved_job:
  "get_job approved_db 70 = Some (parsed_job)"
  by (simp add: approved_db_def parsed_job_def sample_job_def get_job_def row_get_def)

lemma approved_ready: "contact_keys approved_db" "fresh_for sample_env approved_db"
  by (auto simp: contact_keys_def fresh_for_def approved_db_def empty_db_def sample_env_def inj_def)

lemma committed_run:
  "\<exists>d1. committed = Inr ((2, 1), d1) \<and> map cc_id (campaign_contacts d1) = [901, 904]
     \<and> map cc_campaign_id (campaign_contacts d1) = [1, 1]
     \<and> work_items d1 = [new_work_item 902 901 1000] \<and> call_attempts d1 = []
     \<and> campaigns d1 = [sample_campaign]"
proof -
  have order: "committable approved_db (parsed_job)
      = [approved_row 2 ''a'', approved_row 1 ''b'']"
    by (simp add: committable_def approved_db_def approved_row_def parsed_job_def sample_job_def sort_key_def list_less_def less_char_def)
  have job: "ij_id parsed_job = 70" "ij_state parsed_job = Parsed" "ij_decision_version parsed_job = 1"
    "ij_campaign_id parsed_job = 1" by (simp_all add: parsed_job_def sample_job_def)
  have decision: "map_option id_decision (latest_decision approved_db parsed_job) = Some ''approve''"
    by (simp add: latest_decision_def approved_db_def job)
  have ca: "get_campaign approved_db 1 = Some sample_campaign" "missing_provenance sample_campaign = []"
    by (simp_all add: approved_db_def get_campaign_def row_get_def sample_campaign_def missing_provenance_def blank_def)
  define s where "s = commit_rows sample_env default_settings 1000 1 0 [approved_row 2 ''a'', approved_row 1 ''b'']
      \<lparr>cm_db = approved_db, cm_inserted = 0, cm_suppressed = 0\<rparr>"
  have loop: "cm_inserted s = 2" "cm_suppressed s = 1" "map cc_id (campaign_contacts (cm_db s)) = [901, 904]"
     "map cc_campaign_id (campaign_contacts (cm_db s)) = [1, 1]"
     "work_items (cm_db s) = [new_work_item 902 901 1000]" "call_attempts (cm_db s) = []"
     "campaigns (cm_db s) = [sample_campaign]"
    by (simp_all add: s_def commit_row_def approved_row_def contact_for_def existing_contact_def Let_def
        approved_db_def empty_db_def is_suppressed_def already_in_campaign_def committed_contact_def sample_env_def)
  have now: "clk sample_env 0 = 1000" "ca_id sample_campaign = 1" by (simp_all add: sample_env_def sample_campaign_def)
  from decision obtain x where x: "latest_decision approved_db parsed_job = Some x" "id_decision x = ''approve''"
    by auto
  show ?thesis
    using loop by (simp add: committed_def commit_job_def approved_job order job ca now x Let_def
        s_def [symmetric] record_audit_def put_job_def del: One_nat_def commit_rows.simps)
qed

lemma commit_is_idempotent_witness:
  "\<exists>d1. commit_job sample_env default_settings 70 6 9 ''k'' d1 = Inr ((2, 1), d1)
     \<and> commit_job sample_env default_settings 70 6 9 ''other'' d1 = Inl Committed_under_other_key"
proof -
  from committed_run obtain d1 where "commit_job sample_env default_settings 70 5 1 ''k'' approved_db
      = Inr ((2, 1), d1)" by (auto simp: committed_def)
  from commit_is_idempotent [OF this disjI1 [OF refl], of sample_env default_settings 6 9 "''other''"]
  show ?thesis by auto
qed

lemma commit_honours_suppression_witness:
  "\<exists>d1. committed = Inr ((2, 1), d1) \<and> length (campaign_contacts d1) = 2
     \<and> count_where (\<lambda>cc. cc_status cc = Contact_suppressed) (campaign_contacts d1) = 1
     \<and> length (work_items d1) = 1"
proof -
  from committed_run obtain d1 where d1: "committed = Inr ((2, 1), d1)" "length (work_items d1) = 1" by auto
  have "ij_state parsed_job = Parsed" by (simp add: parsed_job_def)
  from commit_honours_suppression [OF approved_job this d1(1) [unfolded committed_def] approved_ready] d1
  show ?thesis by (auto simp: approved_db_def empty_db_def)
qed

lemma suppressed_import_blocks_completion_witness:
  "\<exists>d1. committed = Inr ((2, 1), d1) \<and> \<not> campaign_is_complete sample_campaign d1"
proof -
  from committed_run obtain d1 where d1: "committed = Inr ((2, 1), d1)"
    "map cc_id (campaign_contacts d1) = [901, 904]" "work_items d1 = [new_work_item 902 901 1000]"
    "call_attempts d1 = []" "campaigns d1 = [sample_campaign]"
    by (elim exE conjE) (rule that)
  have inv: "work_inv d1"
    using d1(3,4) by (simp add: work_inv_def items_inv_def counted_def attempt_keys_def
        one_active_lease_def count_where_def new_work_item_def item_ok_def lease_fields_ok_def attempts_on_def)
  have j: "ij_state parsed_job = Parsed"
    "ij_campaign_id parsed_job = 1"
    by (simp_all add: parsed_job_def sample_job_def)
  have ids: "referred approved_db \<subseteq> cc_id ` set (campaign_contacts approved_db)"
    by (simp add: referred_def approved_db_def empty_db_def)
  have ca: "get_campaign d1 (ij_campaign_id parsed_job) = Some sample_campaign"
    by (simp add: d1(5) get_campaign_def row_get_def j(2) sample_campaign_def)
  from suppressed_import_blocks_completion [OF approved_job j(1) d1(1) [unfolded committed_def] approved_ready
      _ _ ids inv run_refl ca] d1
  show ?thesis by auto
qed

end
