(* ===== verification/Workforce.thy ===== *)
theory Workforce
  imports Authz Auth Work_Queue Db_Prelude "HOL-Library.Char_ord" "HOL-Library.List_Lexorder"
begin

text \<open>
  The workforce (\<open>app/workforce/service.py\<close>): identities, roles, teams and reporting lines. An
  object passed in is the row as it was read; its writes go back by identifier. A unique index
  that a flush would violate is an error value.
\<close>

section \<open>Identities\<close>

definition role_appointment_capability :: "(string \<times> string) list" where
  "role_appointment_capability =
     [(''manager'', ''create_manager''), (''team_leader'', ''appoint_team_leader''),
      (''team_captain'', ''appoint_team_captain''), (''agent'', ''create_agent''),
      (''viewer'', ''manage_roles'')]"

datatype workforce_error =
  Duplicate_identity | Unknown_role string | Self_supervision | Workforce_self authz_error
| Workforce_flag flag_error | Cannot_change "string list" | Workforce_account account_error
| Workforce_integrity string

definition new_user :: "uuid \<Rightarrow> time \<Rightarrow> string \<Rightarrow> string \<Rightarrow> string \<Rightarrow> user" where
  "new_user i now derived_id email display_name =
     \<lparr>us_id = i, us_workforce_id = derived_id, us_email = email, us_display_name = display_name,
      us_password_hash = None, us_totp_secret_ciphertext = None, us_totp_enrolled = False,
      us_workforce_status = ''active'', us_active = True, us_start_date = None, us_end_date = None,
      us_last_login_at = None, us_disabled_at = None, us_created_at = now\<rparr>"

definition user_audit :: "string \<Rightarrow> uuid \<Rightarrow> uuid \<Rightarrow> string option \<Rightarrow> (string \<times> json) list \<Rightarrow> db \<Rightarrow> db" where
  "user_audit action actor target reason metadata d =
     record_audit action ''success'' (Some actor) (Some ''user'') (Some target) reason metadata d"

text \<open>\<open>fresh_id e 0\<close> is the token row's identifier, \<open>fresh_id e 1\<close> the user's.\<close>

definition create_user ::
  "crypto \<Rightarrow> env \<Rightarrow> string \<Rightarrow> string \<Rightarrow> string option \<Rightarrow> uuid \<Rightarrow> bool \<Rightarrow> db
   \<Rightarrow> (workforce_error, user \<times> string option, db) outcome" where
  "create_user c e email display_name workforce_id created_by issue_activation d =
     (let derived_id = (case workforce_id of
            None \<Rightarrow> before_first CHR ''@'' email
          | Some w \<Rightarrow> if w = '''' then before_first CHR ''@'' email else w) in
      if list_ex (\<lambda>u. us_email u = email \<or> us_workforce_id u = derived_id) (users d)
      then Inl Duplicate_identity
      else
        let u = new_user (fresh_id e 1) (clk e 0) derived_id email display_name;
            d1 = user_audit ''workforce.user.create'' created_by (us_id u) None []
                   (d\<lparr>users := users d @ [u]\<rparr>)
        in if issue_activation
           then (case issue_activation_token c e (clk e 1) (us_id u) (Some created_by) d1 of
                   Inl err \<Rightarrow> Inl (Workforce_account err)
                 | Inr (token, d2) \<Rightarrow>
                     Inr ((u, Some token), user_audit ''workforce.user.activation_issued''
                            created_by (us_id u) None [] d2))
           else Inr ((u, None), d1))"

datatype user_change =
  Set_display_name string | Set_start_date "date option" | Set_end_date "date option"
| Set_other string

definition change_field :: "user_change \<Rightarrow> string" where
  "change_field ch = (case ch of Set_display_name _ \<Rightarrow> ''display_name''
     | Set_start_date _ \<Rightarrow> ''start_date'' | Set_end_date _ \<Rightarrow> ''end_date'' | Set_other f \<Rightarrow> f)"

definition updatable_user_fields :: "string list" where
  "updatable_user_fields = [''display_name'', ''start_date'', ''end_date'']"

definition apply_change :: "user_change \<Rightarrow> user \<Rightarrow> user" where
  "apply_change ch u = (case ch of Set_display_name s \<Rightarrow> u\<lparr>us_display_name := s\<rparr>
     | Set_start_date t \<Rightarrow> u\<lparr>us_start_date := t\<rparr> | Set_end_date t \<Rightarrow> u\<lparr>us_end_date := t\<rparr>
     | Set_other f \<Rightarrow> u)"

definition update_user ::
  "user \<Rightarrow> user_change list \<Rightarrow> uuid \<Rightarrow> string option \<Rightarrow> db \<Rightarrow> (workforce_error, user, db) outcome" where
  "update_user target changes actor_id reason_code d =
     (let names = sort (remdups (map change_field changes));
          unknown = filter (\<lambda>f. f \<notin> set updatable_user_fields) names in
      if unknown \<noteq> [] then Inl (Cannot_change unknown)
      else
        let u = fold apply_change changes target
        in Inr (u, user_audit ''workforce.user.update'' actor_id (us_id target) reason_code
                     [(''fields'', JStrs names)] (put_user u d)))"

definition disabled_user :: "time \<Rightarrow> user \<Rightarrow> user" where
  "disabled_user now u =
     u\<lparr>us_active := False, us_workforce_status := ''inactive'', us_disabled_at := Some now\<rparr>"

definition disable_user ::
  "env \<Rightarrow> user \<Rightarrow> uuid \<Rightarrow> string \<Rightarrow> db \<Rightarrow> (workforce_error, user, db) outcome" where
  "disable_user e target actor_id reason_code d =
     (case assert_not_self actor_id (us_id target) of
        Some err \<Rightarrow> Inl (Workforce_self err)
      | None \<Rightarrow>
          let u = disabled_user (clk e 0) target;
              d1 = invalidate_sessions_on_privilege_change (clk e 1) (us_id target) (put_user u d);
              (reclaimed, d2) = reclaim_leases_for_user e (us_id target) d1
          in Inr (u, user_audit ''workforce.user.disable'' actor_id (us_id target) (Some reason_code)
                       [(''leases_reclaimed'', JInt (int reclaimed))] d2))"

definition reactivate_user :: "user \<Rightarrow> uuid \<Rightarrow> string \<Rightarrow> db \<Rightarrow> user \<times> db" where
  "reactivate_user target actor_id reason_code d =
     (let u = target\<lparr>us_active := True, us_workforce_status := ''active'', us_disabled_at := None\<rparr>
      in (u, user_audit ''workforce.user.reactivate'' actor_id (us_id target) (Some reason_code) []
               (put_user u d)))"

section \<open>Roles\<close>

definition open_grant :: "uuid \<Rightarrow> string \<Rightarrow> string \<Rightarrow> uuid option \<Rightarrow> role_assignment \<Rightarrow> bool" where
  "open_grant user_id role_code scope_type scope_id ra \<longleftrightarrow>
     ra_user_id ra = user_id \<and> ra_role_code ra = role_code \<and> ra_scope_type ra = scope_type
     \<and> ra_scope_id ra = scope_id \<and> ra_status ra = Row_active \<and> ra_effective_to ra = None"

definition ended_role :: "time \<Rightarrow> role_assignment \<Rightarrow> role_assignment" where
  "ended_role now ra =
     ra\<lparr>ra_status := Row_ended, ra_effective_to := Some now, ra_ended_at := Some now\<rparr>"

definition scope_json :: "uuid option \<Rightarrow> json" where
  "scope_json scope_id = (case scope_id of None \<Rightarrow> JNull | Some i \<Rightarrow> JId i)"

definition assign_role ::
  "env \<Rightarrow> uuid \<Rightarrow> string \<Rightarrow> string \<Rightarrow> uuid option \<Rightarrow> uuid \<Rightarrow> string option \<Rightarrow> db
   \<Rightarrow> (workforce_error, role_assignment, db) outcome" where
  "assign_role e target_user_id role_code scope_type scope_id appointed_by reason_code d =
     (if role_code \<notin> fst ` set role_appointment_capability then Inl (Unknown_role role_code)
      else
        case (if role_code = ''viewer'' then require_enabled d ''viewer_enabled'' else None) of
          Some err \<Rightarrow> Inl (Workforce_flag err)
        | None \<Rightarrow>
            (case assert_not_self appointed_by target_user_id of
               Some err \<Rightarrow> Inl (Workforce_self err)
             | None \<Rightarrow>
                 let now = clk e 0;
                     prior = open_grant target_user_id role_code scope_type scope_id;
                     ra = \<lparr>ra_id = fresh_id e 0, ra_user_id = target_user_id,
                           ra_role_code = role_code, ra_scope_type = scope_type,
                           ra_scope_id = scope_id, ra_effective_from = now,
                           ra_effective_to = None, ra_status = Row_active,
                           ra_reason_code = reason_code, ra_appointed_by = Some appointed_by,
                           ra_ended_at = None\<rparr>;
                     d1 = d\<lparr>role_assignments :=
                            rows_update prior (ended_role now) (role_assignments d) @ [ra]\<rparr>;
                     d2 = invalidate_sessions_on_privilege_change (clk e 1) target_user_id d1
                 in Inr (ra, user_audit ''workforce.role.assign'' appointed_by target_user_id
                               reason_code
                               [(''role_code'', JStr role_code), (''scope_type'', JStr scope_type),
                                (''scope_id'', scope_json scope_id)] d2)))"

definition put_role :: "role_assignment \<Rightarrow> db \<Rightarrow> db" where
  "put_role ra d = d\<lparr>role_assignments := row_put ra_id ra (role_assignments d)\<rparr>"

definition end_role_assignment ::
  "env \<Rightarrow> role_assignment \<Rightarrow> uuid \<Rightarrow> string \<Rightarrow> db \<Rightarrow> (workforce_error, role_assignment, db) outcome" where
  "end_role_assignment e ra ended_by reason_code d =
     (case assert_not_self ended_by (ra_user_id ra) of
        Some err \<Rightarrow> Inl (Workforce_self err)
      | None \<Rightarrow>
          let ra' = ended_role (clk e 0) ra;
              d1 = invalidate_sessions_on_privilege_change (clk e 1) (ra_user_id ra) (put_role ra' d);
              d2 = invalidate_delegate_sessions_for_delegator (clk e 2) (ra_user_id ra) d1
          in Inr (ra', user_audit ''workforce.role.end'' ended_by (ra_user_id ra) (Some reason_code)
                         [(''role_code'', JStr (ra_role_code ra))] d2))"

section \<open>Teams\<close>

definition default_organization_name :: string where
  "default_organization_name = ''Default organization''"

definition get_or_create_default_organization :: "env \<Rightarrow> uuid \<Rightarrow> db \<Rightarrow> organization \<times> db" where
  "get_or_create_default_organization e created_by d =
     (case organizations d of
        og # _ \<Rightarrow> (og, d)
      | [] \<Rightarrow>
          let og = \<lparr>og_id = fresh_id e 1, og_name = default_organization_name, og_status = ''active''\<rparr>
          in (og, record_audit ''workforce.organization.create'' ''success'' (Some created_by)
                    (Some ''organization'') (Some (og_id og)) None [] (d\<lparr>organizations := [og]\<rparr>)))"

definition team_audit :: "string \<Rightarrow> uuid \<Rightarrow> uuid \<Rightarrow> string option \<Rightarrow> (string \<times> json) list \<Rightarrow> db \<Rightarrow> db" where
  "team_audit action actor target reason metadata d =
     record_audit action ''success'' (Some actor) (Some ''team'') (Some target) reason metadata d"

definition create_team ::
  "env \<Rightarrow> string \<Rightarrow> string \<Rightarrow> uuid option \<Rightarrow> string \<Rightarrow> uuid \<Rightarrow> db \<Rightarrow> (workforce_error, team, db) outcome" where
  "create_team e name external_code parent_team_id timezone created_by d =
     (let (og, d1) = get_or_create_default_organization e created_by d;
          t = \<lparr>te_id = fresh_id e 0, te_organization_id = og_id og, te_external_code = external_code,
               te_name = name, te_parent_team_id = parent_team_id,
               te_default_timezone = timezone, te_status = ''active''\<rparr>
      in if list_ex (\<lambda>x. te_organization_id x = og_id og \<and> te_external_code x = external_code) (teams d1)
         then Inl (Workforce_integrity ''uq_teams_org_external_code'')
         else Inr (t, team_audit ''workforce.team.create'' created_by (te_id t) None []
                        (d1\<lparr>teams := teams d1 @ [t]\<rparr>)))"

definition open_membership :: "uuid \<Rightarrow> uuid \<Rightarrow> team_membership \<Rightarrow> bool" where
  "open_membership team_id user_id m \<longleftrightarrow> tm_team_id m = team_id \<and> tm_user_id m = user_id
     \<and> tm_membership_status m = Row_active \<and> tm_effective_to m = None"

definition add_team_membership :: "env \<Rightarrow> team \<Rightarrow> uuid \<Rightarrow> uuid \<Rightarrow> db \<Rightarrow> team_membership \<times> db" where
  "add_team_membership e t user_id added_by d =
     (case find (open_membership (te_id t) user_id) (team_memberships d) of
        Some m \<Rightarrow> (m, d)
      | None \<Rightarrow>
          let m = \<lparr>tm_id = fresh_id e 0, tm_team_id = te_id t, tm_user_id = user_id,
                   tm_membership_status = Row_active, tm_effective_from = clk e 0,
                   tm_effective_to = None, tm_created_by = Some added_by, tm_ended_at = None\<rparr>
          in (m, team_audit ''workforce.team.add_member'' added_by (te_id t) None
                   [(''user_id'', JId user_id)]
                   (d\<lparr>team_memberships := team_memberships d @ [m]\<rparr>)))"

definition end_team_membership ::
  "env \<Rightarrow> team_membership \<Rightarrow> uuid \<Rightarrow> string option \<Rightarrow> db \<Rightarrow> team_membership \<times> db" where
  "end_team_membership e m ended_by reason_code d =
     (let m' = m\<lparr>tm_membership_status := Row_ended, tm_effective_to := Some (clk e 0),
                 tm_ended_at := Some (clk e 0)\<rparr>
      in (m', team_audit ''workforce.team.end_member'' ended_by (tm_team_id m) reason_code
                [(''user_id'', JId (tm_user_id m))]
                (d\<lparr>team_memberships := row_put tm_id m' (team_memberships d)\<rparr>)))"

section \<open>Reporting lines\<close>

definition open_primary_line :: "uuid \<Rightarrow> string \<Rightarrow> uuid option \<Rightarrow> reporting_assignment \<Rightarrow> bool" where
  "open_primary_line subordinate_id context_type context_id r \<longleftrightarrow>
     rp_subordinate_user_id r = subordinate_id \<and> rp_context_type r = context_type
     \<and> rp_context_id r = context_id \<and> rp_assignment_type r = ''primary''
     \<and> rp_status r = Row_active \<and> rp_effective_to r = None"

definition ended_line :: "time \<Rightarrow> reporting_assignment \<Rightarrow> reporting_assignment" where
  "ended_line now r =
     r\<lparr>rp_status := Row_ended, rp_effective_to := Some now, rp_ended_at := Some now\<rparr>"

definition set_reporting_line ::
  "env \<Rightarrow> uuid \<Rightarrow> uuid \<Rightarrow> string \<Rightarrow> uuid option \<Rightarrow> string \<Rightarrow> uuid \<Rightarrow> string option \<Rightarrow> db
   \<Rightarrow> (workforce_error, reporting_assignment, db) outcome" where
  "set_reporting_line e subordinate_id supervisor_id context_type context_id assignment_type
     assigned_by reason_code d =
     (if subordinate_id = supervisor_id then Inl Self_supervision
      else
        let now = clk e 0;
            kept = (if assignment_type = ''primary''
                    then rows_update (open_primary_line subordinate_id context_type context_id)
                           (ended_line now) (reporting_assignments d)
                    else reporting_assignments d);
            line = \<lparr>rp_id = fresh_id e 0, rp_subordinate_user_id = subordinate_id,
                    rp_supervisor_user_id = supervisor_id, rp_context_type = context_type,
                    rp_context_id = context_id, rp_effective_from = now, rp_effective_to = None,
                    rp_assignment_type = assignment_type, rp_status = Row_active,
                    rp_assigned_by = Some assigned_by, rp_reason_code = reason_code,
                    rp_ended_at = None\<rparr>
        in Inr (line, user_audit ''workforce.reporting_line.set'' assigned_by subordinate_id
                        reason_code [(''supervisor_user_id'', JId supervisor_id)]
                        (d\<lparr>reporting_assignments := kept @ [line]\<rparr>)))"

definition end_reporting_line ::
  "env \<Rightarrow> reporting_assignment \<Rightarrow> uuid \<Rightarrow> string option \<Rightarrow> db \<Rightarrow> reporting_assignment \<times> db" where
  "end_reporting_line e line ended_by reason_code d =
     (let line' = ended_line (clk e 0) line
      in (line', user_audit ''workforce.reporting_line.end'' ended_by (rp_subordinate_user_id line)
                   reason_code [(''supervisor_user_id'', JId (rp_supervisor_user_id line))]
                   (d\<lparr>reporting_assignments := row_put rp_id line' (reporting_assignments d)\<rparr>)))"

end
