(* ===== verification/Workforce_Properties.thy ===== *)
theory Workforce_Properties
  imports Workforce Machines Authz_Properties Sample
begin

text \<open>
  The workforce operations: who can come to hold a role, what disabling a person ends, and that
  primary reporting lines do not stack.
\<close>

section \<open>Roles\<close>

definition grant_key :: "role_assignment \<Rightarrow> uuid \<times> string \<times> string \<times> uuid option" where
  "grant_key ra = (ra_user_id ra, ra_role_code ra, ra_scope_type ra, ra_scope_id ra)"

definition open_role :: "role_assignment \<Rightarrow> bool" where
  "open_role ra \<longleftrightarrow> ra_status ra = Row_active \<and> ra_effective_to ra = None"

text \<open>Appointed to an appointable role by someone else.\<close>

definition appointed :: "role_assignment \<Rightarrow> bool" where
  "appointed ra \<longleftrightarrow> ra_role_code ra \<in> fst ` set role_appointment_capability
     \<and> (\<exists>by'. ra_appointed_by ra = Some by' \<and> by' \<noteq> ra_user_id ra)"

inductive role_step :: "db \<Rightarrow> db \<Rightarrow> bool" where
  assign: "\<lbrakk>assign_role e u role st si by' reason d = Inr (ra, d');
      fresh_id e 0 \<notin> ra_id ` set (role_assignments d)\<rbrakk> \<Longrightarrow> role_step d d'"
| end_role: "\<lbrakk>ra \<in> set (role_assignments d); end_role_assignment e ra by' reason d = Inr (ra', d')\<rbrakk>
    \<Longrightarrow> role_step d d'"

definition roles_inv :: "db \<Rightarrow> bool" where
  "roles_inv d \<longleftrightarrow> distinct (map ra_id (role_assignments d))
     \<and> distinct (map grant_key (filter open_role (role_assignments d)))"

text \<open>A row as it was: the same grant, and in force only when unchanged; a row as it becomes.\<close>

definition same_grant :: "role_assignment \<Rightarrow> role_assignment \<Rightarrow> bool" where
  "same_grant ra ra' \<longleftrightarrow> ra_id ra = ra_id ra' \<and> grant_key ra = grant_key ra'
     \<and> ra_appointed_by ra = ra_appointed_by ra' \<and> (open_role ra' \<longrightarrow> ra = ra')"

definition stays_ended :: "role_assignment \<Rightarrow> role_assignment \<Rightarrow> bool" where
  "stays_ended ra ra' \<longleftrightarrow> ra_id ra' = ra_id ra \<and> (\<not> open_role ra \<longrightarrow> \<not> open_role ra')"

definition roles_past :: "db \<Rightarrow> db \<Rightarrow> bool" where
  "roles_past d d' \<longleftrightarrow>
     (\<forall>ra' \<in> set (role_assignments d'). appointed ra' \<or> (\<exists>ra \<in> set (role_assignments d). same_grant ra ra'))
     \<and> (\<forall>ra \<in> set (role_assignments d). \<exists>ra' \<in> set (role_assignments d'). stays_ended ra ra')"

lemma grant_key_ended [simp]: "grant_key (ended_role now ra) = grant_key ra"
  "\<not> open_role (ended_role now ra)" "ra_id (ended_role now ra) = ra_id ra"
  "ra_appointed_by (ended_role now ra) = ra_appointed_by ra"
  by (simp_all add: grant_key_def open_role_def ended_role_def)

lemma open_grant_iff: "open_grant u role st si ra \<longleftrightarrow> open_role ra \<and> grant_key ra = (u, role, st, si)"
  by (auto simp: open_grant_def open_role_def grant_key_def)

lemma appointed_key: "grant_key ra = grant_key ra' \<Longrightarrow> ra_appointed_by ra = ra_appointed_by ra'
    \<Longrightarrow> appointed ra = appointed ra'"
  by (simp add: appointed_def grant_key_def)

lemma assign_role_Inr:
  assumes "assign_role e u role st si by' reason d = Inr (ra, d')"
  shows "role_assignments d' = rows_update (open_grant u role st si) (ended_role (clk e 0)) (role_assignments d) @ [ra]
     \<and> grant_key ra = (u, role, st, si) \<and> ra_id ra = fresh_id e 0 \<and> open_role ra \<and> appointed ra
     \<and> ra_effective_from ra = clk e 0
     \<and> (\<forall>s \<in> set (sessions d'). ss_revoked_at s = None \<longrightarrow> ss_user_id s \<noteq> u)"
proof -
  have "\<exists>t d0. sessions d' = sessions (revoke_all_for_user t u d0)" using assms
    by (auto simp: assign_role_def Let_def user_audit_def invalidate_sessions_on_privilege_change_def
        split: if_splits option.splits) blast+
  then have live: "\<forall>s \<in> set (sessions d'). ss_revoked_at s = None \<longrightarrow> ss_user_id s \<noteq> u"
    using revoke_all_live by fastforce
  have role: "role \<in> fst ` set role_appointment_capability"
    using assms unfolding assign_role_def by (rule contrapos_pp) simp
  have "role_assignments d' = rows_update (open_grant u role st si) (ended_role (clk e 0)) (role_assignments d) @ [ra]
     \<and> grant_key ra = (u, role, st, si) \<and> ra_id ra = fresh_id e 0 \<and> open_role ra
     \<and> ra_appointed_by ra = Some by' \<and> by' \<noteq> u \<and> ra_effective_from ra = clk e 0" using assms
    by (auto simp: assign_role_def Let_def grant_key_def open_role_def user_audit_def
        invalidate_sessions_on_privilege_change_def assert_not_self_def split: if_splits option.splits)
  moreover from this have "appointed ra" using role by (simp add: appointed_def grant_key_def)
  ultimately show ?thesis using live by simp
qed

lemma end_role_Inr:
  assumes "end_role_assignment e ra by' reason d = Inr (ra', d')"
  shows "role_assignments d' = row_put ra_id (ended_role (clk e 0) ra) (role_assignments d) \<and> by' \<noteq> ra_user_id ra"
proof -
  have "role_assignments (fold (revoke_all_for_user t) us d0) = role_assignments d0" for t us d0
    by (induction us arbitrary: d0) simp_all
  then show ?thesis using assms
    by (auto simp: end_role_assignment_def Let_def put_role_def user_audit_def invalidate_sessions_on_privilege_change_def
        invalidate_delegate_sessions_for_delegator_def assert_not_self_def split: if_splits option.splits)
qed

text \<open>Ending some roles and adding appointed ones keeps the history.\<close>

lemma roles_past_update:
  assumes "role_assignments d' = rows_update P (ended_role now) (role_assignments d) @ new"
    and "\<And>ra. ra \<in> set new \<Longrightarrow> appointed ra"
  shows "roles_past d d'"
  unfolding roles_past_def
proof (intro conjI ballI)
  fix ra' assume "ra' \<in> set (role_assignments d')"
  then consider "ra' \<in> set new" | ra where "ra \<in> set (role_assignments d)" "ra' = (if P ra then ended_role now ra else ra)"
    unfolding assms(1) rows_update_def by auto
  then show "appointed ra' \<or> (\<exists>ra \<in> set (role_assignments d). same_grant ra ra')"
  proof cases
    case 1
    then show ?thesis using assms(2) by blast
  next
    case 2
    then show ?thesis by (intro disjI2 bexI [of _ ra]) (simp_all add: same_grant_def)
  qed
next
  fix ra assume "ra \<in> set (role_assignments d)"
  then have "(if P ra then ended_role now ra else ra) \<in> set (role_assignments d')"
    unfolding assms(1) rows_update_def by simp
  then show "\<exists>ra' \<in> set (role_assignments d'). stays_ended ra ra'"
    by (rule rev_bexI) (simp add: stays_ended_def)
qed

lemma role_step_ok:
  assumes inv: "roles_inv d" and step: "role_step d d'"
  shows "roles_inv d' \<and> roles_past d d'"
  using step
proof cases
  case (assign e u role st si by' reason ra)
  let ?P = "open_grant u role st si" and ?f = "ended_role (clk e 0)"
  note a = assign_role_Inr [OF assign(1)]
  have rs: "role_assignments d' = rows_update ?P ?f (role_assignments d) @ [ra]" using a by simp
  have ids: "map ra_id (rows_update ?P ?f (role_assignments d)) = map ra_id (role_assignments d)"
    by (rule keys_rows_update) simp
  have still: "filter open_role (rows_update ?P ?f rs) = filter (\<lambda>r. open_role r \<and> \<not> ?P r) rs" for rs
    by (induction rs) (auto simp: rows_update_def)
  have opens: "filter open_role (role_assignments d')
      = filter (\<lambda>r. \<not> ?P r) (filter open_role (role_assignments d)) @ [ra]"
    using a by (simp add: rs still conj_commute)
  have "distinct (map grant_key (filter (\<lambda>r. \<not> ?P r) (filter open_role (role_assignments d))))"
    by (rule distinct_map_filterI) (use inv in \<open>simp add: roles_inv_def\<close>)
  moreover have "grant_key ra \<notin> grant_key ` set (filter (\<lambda>r. \<not> ?P r) (filter open_role (role_assignments d)))"
    using a by (auto simp: open_grant_iff)
  ultimately have "distinct (map grant_key (filter open_role (role_assignments d')))"
    unfolding opens by simp
  moreover have "distinct (map ra_id (role_assignments d'))"
    using inv a assign(2) by (simp add: rs ids roles_inv_def)
  moreover have "roles_past d d'"
    by (rule roles_past_update [OF rs]) (use a in simp)
  ultimately show ?thesis by (simp add: roles_inv_def)
next
  case (end_role ra e by' reason ra')
  let ?r = "ended_role (clk e 0) ra"
  have rs: "role_assignments d' = row_put ra_id ?r (role_assignments d)" using end_role_Inr [OF end_role(2)] by simp
  have dist: "distinct (map ra_id (role_assignments d))" using inv by (simp add: roles_inv_def)
  have "filter open_role (role_assignments d') = filter (\<lambda>x. open_role x \<and> x \<noteq> ra) (role_assignments d)"
    unfolding rs by (rule filter_row_put_leave [OF dist end_role(1)]) simp_all
  also have "\<dots> = filter (\<lambda>x. x \<noteq> ra) (filter open_role (role_assignments d))" by (simp add: conj_commute)
  finally have opens: "filter open_role (role_assignments d') = \<dots>" .
  have "distinct (map grant_key (filter open_role (role_assignments d')))"
    unfolding opens by (rule distinct_map_filterI) (use inv in \<open>simp add: roles_inv_def\<close>)
  moreover have upd: "role_assignments d' = rows_update (\<lambda>x. x = ra) (\<lambda>_. ?r) (role_assignments d)"
    unfolding rs by (rule row_put_as_update [OF dist end_role(1)]) simp
  have "role_assignments d' = rows_update (\<lambda>x. x = ra) (ended_role (clk e 0)) (role_assignments d) @ []"
    by (auto simp: upd rows_update_def)
  then have "roles_past d d'" by (rule roles_past_update) simp
  ultimately show ?thesis using dist by (simp add: roles_inv_def rs)
qed

lemma roles_past_refl: "roles_past d d"
  by (auto simp: roles_past_def same_grant_def stays_ended_def)

lemma same_grant_trans: "\<lbrakk>same_grant a b; same_grant b c\<rbrakk> \<Longrightarrow> same_grant a c"
  by (auto simp: same_grant_def)

lemma stays_ended_trans: "\<lbrakk>stays_ended a b; stays_ended b c\<rbrakk> \<Longrightarrow> stays_ended a c"
  by (auto simp: stays_ended_def)

lemma same_grant_appointed: "\<lbrakk>same_grant a b; appointed a\<rbrakk> \<Longrightarrow> appointed b"
  using appointed_key [of a b] by (simp add: same_grant_def)

lemma roles_past_trans:
  assumes "roles_past d d'" and "roles_past d' d''"
  shows "roles_past d d''"
  using assms same_grant_trans same_grant_appointed stays_ended_trans
  unfolding roles_past_def by meson

interpretation role_machine: history_machine roles_inv role_step roles_inv roles_past
  by unfold_locales (auto simp: roles_past_refl dest: role_step_ok elim: roles_past_trans)


section \<open>Disabling a person\<close>

lemma reclaim_user_none_left:
  assumes "quiet e" and "w \<in> set (work_items (snd (reclaim_leases_for_user e u d)))"
  shows "\<not> (wi_state w = Leased \<and> wi_lease_owner_id w = Some u)"
proof -
  let ?P = "\<lambda>w. wi_state w = Leased \<and> wi_lease_owner_id w = Some u"
  have "w \<in> set (rows_update ?P return_to_pre_lease (work_items d))"
    using assms by (simp add: reclaim_leases_for_user_def Let_def quiet_def)
  then show ?thesis by (rule rows_update_none_left) (simp add: return_to_pre_lease_def)
qed


section \<open>Reporting lines\<close>

text \<open>
  A primary reporting line replaces the one before it in its context: afterwards the new line
  is the only primary line of the person there, nobody supervises themselves, and the lines of
  other people and contexts are untouched.
\<close>

theorem reporting_line_replaces:
  assumes "set_reporting_line e junior boss ct ci ''primary'' by' reason d = Inr (line, d')"
  shows "junior \<noteq> boss \<and> filter (open_primary_line junior ct ci) (reporting_assignments d') = [line]
     \<and> rp_supervisor_user_id line = boss
     \<and> filter (\<lambda>r. rp_subordinate_user_id r \<noteq> junior \<or> rp_context_type r \<noteq> ct \<or> rp_context_id r \<noteq> ci)
         (reporting_assignments d')
       = filter (\<lambda>r. rp_subordinate_user_id r \<noteq> junior \<or> rp_context_type r \<noteq> ct \<or> rp_context_id r \<noteq> ci)
         (reporting_assignments d)"
proof -
  let ?P = "open_primary_line junior ct ci" and ?f = "ended_line (clk e 0)"
  have rs: "reporting_assignments d' = rows_update ?P ?f (reporting_assignments d) @ [line]"
    and line: "?P line" "rp_supervisor_user_id line = boss" "junior \<noteq> boss"
    using assms by (auto simp: set_reporting_line_def Let_def user_audit_def open_primary_line_def split: if_splits)
  have "filter ?P (rows_update ?P ?f rs) = []" for rs
    by (induction rs) (auto simp: rows_update_def open_primary_line_def ended_line_def)
  moreover have "filter (\<lambda>r. rp_subordinate_user_id r \<noteq> junior \<or> rp_context_type r \<noteq> ct \<or> rp_context_id r \<noteq> ci)
      (rows_update ?P ?f rs) = filter (\<lambda>r. rp_subordinate_user_id r \<noteq> junior \<or> rp_context_type r \<noteq> ct
        \<or> rp_context_id r \<noteq> ci) rs" for rs
    by (rule filter_rows_update) (auto simp: open_primary_line_def ended_line_def)
  ultimately show ?thesis using line by (auto simp: rs open_primary_line_def)
qed


end
