(* ===== verification/Directory.thy ===== *)
theory Directory
  imports Workforce "HOL-Library.Product_Lexorder"
begin

text \<open>
  What an administrator may see of the workforce (the read side of \<open>app/workforce/service.py\<close>):
  the visible teams, the scoped and filtered directory with its pages, the summary cards and the
  checks on a single person. The \<open>utcnow()\<close> readings of one request are one instant. Text columns
  are compared character by character, identifiers in their stored order.
\<close>

section \<open>Scope\<close>

definition appointment_capabilities :: "string list" where
  "appointment_capabilities = map snd role_appointment_capability"

definition appointment_grants :: "db \<Rightarrow> uuid \<Rightarrow> time \<Rightarrow> scoped_grant list" where
  "appointment_grants d actor_id now =
     map role_grant (filter (\<lambda>ra. list_ex (\<lambda>c. c \<in> set appointment_capabilities) (role_grants (ra_role_code ra)))
       (effective_role_assignments d actor_id now))"

definition wide_grant :: "scoped_grant \<Rightarrow> bool" where
  "wide_grant g \<longleftrightarrow> sg_scope_type g = ''installation''
     \<or> (sg_scope_type g = ''organization'' \<and> sg_scope_id g = None)"

definition visible_team_ids :: "db \<Rightarrow> uuid \<Rightarrow> time \<Rightarrow> bool \<times> uuid set" where
  "visible_team_ids d actor_id now =
     (let grants = appointment_grants d actor_id now;
          sees_everyone = list_ex wide_grant grants;
          organization_ids = grant_ids ''organization'' grants;
          team_ids = set (grant_ids ''team'' grants)
      in (sees_everyone,
          if \<not> sees_everyone \<and> organization_ids \<noteq> []
          then team_ids \<union> set (organization_team_ids d organization_ids) else team_ids))"

definition member_of :: "db \<Rightarrow> uuid set \<Rightarrow> uuid \<Rightarrow> bool" where
  "member_of d team_ids user_id = list_ex (\<lambda>m. tm_user_id m = user_id \<and> tm_team_id m \<in> team_ids
     \<and> tm_membership_status m = Row_active) (team_memberships d)"

definition list_visible_users :: "db \<Rightarrow> uuid \<Rightarrow> time \<Rightarrow> nat \<Rightarrow> user list" where
  "list_visible_users d actor_id now limit =
     (let (sees_everyone, team_ids) = visible_team_ids d actor_id now in
      if sees_everyone then take limit (sort_key (\<lambda>u. - us_created_at u) (users d))
      else if team_ids = {} then []
      else take limit (sort_key (\<lambda>u. - us_created_at u)
             (filter (\<lambda>u. member_of d team_ids (us_id u)) (users d))))"

definition can_manage_user :: "db \<Rightarrow> uuid \<Rightarrow> uuid \<Rightarrow> time \<Rightarrow> bool" where
  "can_manage_user d actor_id target_id now =
     (let target_roles = effective_role_assignments d target_id now in
      if target_roles = []
      then list_ex (\<lambda>c. has_assigned_capability d actor_id c now) appointment_capabilities
      else list_ex (\<lambda>ra. case map_of role_appointment_capability (ra_role_code ra) of
              None \<Rightarrow> False
            | Some c \<Rightarrow> has_scope_capability d actor_id c (ra_scope_type ra) (ra_scope_id ra) now)
             target_roles)"

definition can_view_admin_directory :: "db \<Rightarrow> uuid \<Rightarrow> time \<Rightarrow> bool" where
  "can_view_admin_directory d actor_id now \<longleftrightarrow>
     has_assigned_capability d actor_id ''reset_user_auth'' now
     \<or> list_ex (\<lambda>c. has_assigned_capability d actor_id c now) appointment_capabilities"

definition directory_scope :: "db \<Rightarrow> uuid \<Rightarrow> time \<Rightarrow> bool \<times> uuid set" where
  "directory_scope d actor_id now =
     (let (sees_everyone, team_ids) = visible_team_ids d actor_id now in
      (sees_everyone \<or> has_assigned_capability d actor_id ''reset_user_auth'' now, team_ids))"

section \<open>The activation state of a person\<close>

definition state_disabled :: string where "state_disabled = ''disabled''"
definition state_activation_not_issued :: string where
  "state_activation_not_issued = ''activation_not_issued''"
definition state_activation_code_active :: string where
  "state_activation_code_active = ''activation_code_active''"
definition state_activation_code_expired :: string where
  "state_activation_code_expired = ''activation_code_expired''"
definition state_mfa_setup_required :: string where
  "state_mfa_setup_required = ''mfa_setup_required''"
definition state_ready :: string where "state_ready = ''ready''"

definition activation_states :: "string list" where
  "activation_states = [state_disabled, state_activation_not_issued, state_activation_code_active,
     state_activation_code_expired, state_mfa_setup_required, state_ready]"

definition awaiting_activation_states :: "string list" where
  "awaiting_activation_states = [state_activation_not_issued, state_activation_code_active,
     state_activation_code_expired]"

definition unused_token_expiry :: "db \<Rightarrow> uuid \<Rightarrow> time option" where
  "unused_token_expiry d user_id =
     map_option tk_expires_at (first_by (\<lambda>t. - tk_expires_at t)
       (filter (\<lambda>t. tk_user_id t = user_id \<and> tk_used_at t = None
          \<and> tk_purpose t = ''password_activation'') (activation_tokens d)))"

definition activation_state :: "db \<Rightarrow> time \<Rightarrow> user \<Rightarrow> string" where
  "activation_state d now u =
     (if \<not> us_active u then state_disabled
      else if us_password_hash u \<noteq> None \<and> us_totp_enrolled u then state_ready
      else if us_password_hash u \<noteq> None then state_mfa_setup_required
      else case unused_token_expiry d (us_id u) of
             None \<Rightarrow> state_activation_not_issued
           | Some t \<Rightarrow> if now < t then state_activation_code_active
                       else state_activation_code_expired)"

definition activation_state_for_user :: "db \<Rightarrow> time \<Rightarrow> uuid \<Rightarrow> string" where
  "activation_state_for_user d now user_id =
     (case get_user d user_id of None \<Rightarrow> state_activation_not_issued | Some u \<Rightarrow> activation_state d now u)"

section \<open>Roles and teams of a page of people\<close>

definition team_name :: "db \<Rightarrow> uuid \<Rightarrow> string" where
  "team_name d i = (case find (\<lambda>t. te_id t = i) (teams d) of None \<Rightarrow> ''unknown team'' | Some t \<Rightarrow> te_name t)"

definition role_label :: "db \<Rightarrow> role_assignment \<Rightarrow> string" where
  "role_label d ra =
     (case ra_scope_id ra of
        Some i \<Rightarrow>
          (if ra_scope_type ra = ''team'' then ra_role_code ra @ '' ('' @ team_name d i @ '')''
           else if ra_scope_type ra = ''organization'' then ra_role_code ra @ '' (org-scoped)''
           else ra_role_code ra)
      | None \<Rightarrow> ra_role_code ra)"

definition roles_for_users :: "db \<Rightarrow> uuid list \<Rightarrow> time \<Rightarrow> (uuid \<rightharpoonup> string list)" where
  "roles_for_users d user_ids now =
     fold (\<lambda>ra m. m(ra_user_id ra \<mapsto>
             (case m (ra_user_id ra) of None \<Rightarrow> [] | Some ls \<Rightarrow> ls) @ [role_label d ra]))
       (filter (\<lambda>ra. ra_user_id ra \<in> set user_ids \<and> role_effective now ra) (role_assignments d))
       Map.empty"

definition member_teams :: "db \<Rightarrow> uuid list \<Rightarrow> (uuid \<times> string) list" where
  "member_teams d user_ids = sort_key snd
     (concat (map (\<lambda>m. map (\<lambda>t. (tm_user_id m, te_name t)) (filter (\<lambda>t. te_id t = tm_team_id m) (teams d)))
       (filter (\<lambda>m. tm_user_id m \<in> set user_ids \<and> tm_membership_status m = Row_active)
         (team_memberships d))))"

definition teams_for_users :: "db \<Rightarrow> uuid list \<Rightarrow> (uuid \<rightharpoonup> string list)" where
  "teams_for_users d user_ids =
     fold (\<lambda>(u, name) m. m(u \<mapsto> (case m u of None \<Rightarrow> [] | Some ns \<Rightarrow> ns) @ [name]))
       (member_teams d user_ids) Map.empty"

definition roles_and_teams_for_user :: "db \<Rightarrow> uuid \<Rightarrow> time \<Rightarrow> string list \<times> string list" where
  "roles_and_teams_for_user d user_id now =
     (case roles_for_users d [user_id] now user_id of None \<Rightarrow> [] | Some ls \<Rightarrow> ls,
      case teams_for_users d [user_id] user_id of None \<Rightarrow> [] | Some ns \<Rightarrow> ns)"

section \<open>The directory query\<close>

text \<open>SQL \<open>LIKE\<close> with its default escape character.\<close>

fun like :: "string \<Rightarrow> string \<Rightarrow> bool" where
  "like [] s = (s = [])"
| "like (p # ps) [] = (p = CHR ''%'' \<and> like ps [])"
| "like (p # ps) (c # s) =
     (if p = CHR ''%'' then like ps (c # s) \<or> like (p # ps) s
      else if p = CHR ''_'' then like ps s
      else if p = CHR 0x5C then (case ps of [] \<Rightarrow> False | q # qs \<Rightarrow> q = c \<and> like qs s)
      else p = c \<and> like ps s)"

definition ilike :: "string \<Rightarrow> string \<Rightarrow> bool" where
  "ilike s pattern = like (lower pattern) (lower s)"

record user_query =
  uq_search :: "string option"
  uq_status :: "string option"
  uq_activation_state :: "string option"
  uq_role :: "string option"
  uq_team_id :: "uuid option"
  uq_page :: int
  uq_page_size :: int
  uq_sort :: string

definition directory_page_size_default :: int where "directory_page_size_default = 50"
definition directory_page_size_max :: int where "directory_page_size_max = 100"

definition matches_search :: "string option \<Rightarrow> user \<Rightarrow> bool" where
  "matches_search search u =
     (case search of
        None \<Rightarrow> True
      | Some s \<Rightarrow>
          (if strip s = '''' then True
           else let pattern = ''%'' @ strip s @ ''%'' in
             ilike (us_display_name u) pattern \<or> ilike (us_email u) pattern
             \<or> ilike (us_workforce_id u) pattern))"

definition matches_status :: "string option \<Rightarrow> user \<Rightarrow> bool" where
  "matches_status status u =
     (if status = Some ''active'' then us_active u
      else if status = Some ''inactive'' then \<not> us_active u else True)"

definition matches_role :: "db \<Rightarrow> time \<Rightarrow> string option \<Rightarrow> user \<Rightarrow> bool" where
  "matches_role d now role u =
     (case role of
        None \<Rightarrow> True
      | Some r \<Rightarrow>
          (if r = '''' \<or> r \<notin> fst ` set role_capabilities then True
           else list_ex (\<lambda>ra. ra_user_id ra = us_id u \<and> ra_role_code ra = r \<and> role_effective now ra)
                  (role_assignments d)))"

definition matches_team :: "db \<Rightarrow> uuid option \<Rightarrow> user \<Rightarrow> bool" where
  "matches_team d team_id u = (case team_id of None \<Rightarrow> True | Some t \<Rightarrow> member_of d {t} (us_id u))"

definition matches_activation :: "db \<Rightarrow> time \<Rightarrow> string option \<Rightarrow> user \<Rightarrow> bool" where
  "matches_activation d now st u =
     (case st of None \<Rightarrow> True
      | Some s \<Rightarrow> s \<in> set activation_states \<longrightarrow> activation_state d now u = s)"

definition directory_users :: "db \<Rightarrow> uuid \<Rightarrow> time \<Rightarrow> user_query \<Rightarrow> user list" where
  "directory_users d actor_id now q =
     (let (sees_everyone, team_ids) = directory_scope d actor_id now in
      filter (\<lambda>u. (sees_everyone \<or> member_of d team_ids (us_id u))
          \<and> matches_search (uq_search q) u \<and> matches_status (uq_status q) u
          \<and> matches_role d now (uq_role q) u \<and> matches_team d (uq_team_id q) u
          \<and> matches_activation d now (uq_activation_state q) u) (users d))"

text \<open>\<open>ORDER BY created_at DESC, id DESC\<close> or \<open>ORDER BY display_name, id\<close>\<close>

definition directory_order :: "string \<Rightarrow> user list \<Rightarrow> user list" where
  "directory_order srt us =
     (if srt = ''recent'' then sort_key (\<lambda>u. (- us_created_at u, - int (us_id u))) us
      else sort_key (\<lambda>u. (us_display_name u, us_id u)) us)"

record directory_row =
  dr_user :: user
  dr_roles :: "string list"
  dr_teams :: "string list"
  dr_activation_state :: string

record directory_page =
  dp_rows :: "directory_row list"
  dp_total_count :: nat
  dp_sees_everyone :: bool

definition directory_row_of ::
  "db \<Rightarrow> time \<Rightarrow> (uuid \<rightharpoonup> string list) \<Rightarrow> (uuid \<rightharpoonup> string list) \<Rightarrow> user \<Rightarrow> directory_row" where
  "directory_row_of d now roles_by_user teams_by_user u =
     \<lparr>dr_user = u,
      dr_roles = (case roles_by_user (us_id u) of None \<Rightarrow> [] | Some ls \<Rightarrow> ls),
      dr_teams = (case teams_by_user (us_id u) of None \<Rightarrow> [] | Some ns \<Rightarrow> ns),
      dr_activation_state = activation_state d now u\<rparr>"

definition page_slice :: "int \<Rightarrow> int \<Rightarrow> 'a list \<Rightarrow> 'a list" where
  "page_slice page page_size xs =
     (let p = max page 1; n = min (max page_size 1) directory_page_size_max
      in take (nat n) (drop (nat ((p - 1) * n)) xs))"

definition list_user_directory :: "db \<Rightarrow> uuid \<Rightarrow> time \<Rightarrow> user_query \<Rightarrow> directory_page" where
  "list_user_directory d actor_id now q =
     (let (sees_everyone, team_ids) = directory_scope d actor_id now in
      if \<not> sees_everyone \<and> team_ids = {}
      then \<lparr>dp_rows = [], dp_total_count = 0, dp_sees_everyone = False\<rparr>
      else
        let matched = directory_users d actor_id now q;
            page_users = page_slice (uq_page q) (uq_page_size q) (directory_order (uq_sort q) matched);
            ids = map us_id page_users
        in \<lparr>dp_rows = map (directory_row_of d now (roles_for_users d ids now) (teams_for_users d ids)) page_users,
            dp_total_count = length matched, dp_sees_everyone = sees_everyone\<rparr>)"

section \<open>The summary\<close>

record directory_summary =
  ds_total :: nat
  ds_active :: nat
  ds_inactive :: nat
  ds_awaiting_activation :: nat
  ds_mfa_setup_required :: nat
  ds_never_logged_in :: nat

definition summary_of :: "db \<Rightarrow> uuid \<Rightarrow> time \<Rightarrow> directory_summary" where
  "summary_of d actor_id now =
     (let (sees_everyone, team_ids) = directory_scope d actor_id now in
      if \<not> sees_everyone \<and> team_ids = {}
      then \<lparr>ds_total = 0, ds_active = 0, ds_inactive = 0, ds_awaiting_activation = 0,
            ds_mfa_setup_required = 0, ds_never_logged_in = 0\<rparr>
      else
        let sub = filter (\<lambda>u. sees_everyone \<or> member_of d team_ids (us_id u)) (users d) in
        \<lparr>ds_total = length sub, ds_active = count_where us_active sub,
         ds_inactive = count_where (\<lambda>u. \<not> us_active u) sub,
         ds_awaiting_activation =
           count_where (\<lambda>u. activation_state d now u \<in> set awaiting_activation_states) sub,
         ds_mfa_setup_required = count_where (\<lambda>u. activation_state d now u = state_mfa_setup_required) sub,
         ds_never_logged_in = count_where (\<lambda>u. us_last_login_at u = None) sub\<rparr>)"

definition user_in_admin_scope :: "db \<Rightarrow> uuid \<Rightarrow> uuid \<Rightarrow> time \<Rightarrow> bool" where
  "user_in_admin_scope d actor_id target_id now =
     (let (sees_everyone, team_ids) = directory_scope d actor_id now in
      if sees_everyone then True
      else if team_ids = {} then False
      else member_of d team_ids target_id)"

end
