(* ===== verification/Directory_Properties.thy ===== *)
theory Directory_Properties
  imports Directory Authz_Properties Sample
begin

text \<open>
  The directory shows only what the authorization core allows, its pages neither skip nor repeat
  anyone, and its summary counts the same people.
\<close>

section \<open>Visible teams\<close>

lemma appointment_grants_mem:
  "g \<in> set (appointment_grants d u now) \<longleftrightarrow>
     (\<exists>c \<in> set appointment_capabilities. g \<in> set (role_capability_grants d u c now))"
  by (auto simp: appointment_grants_def role_capability_grants_def list_ex_iff)

lemma active_team_mem:
  assumes "distinct (map te_id (teams d))"
  shows "active_team_organization d t = Some org \<longleftrightarrow>
           (\<exists>x \<in> set (teams d). te_id x = t \<and> te_organization_id x = org \<and> te_status x = ''active'')"
proof -
  have "find (\<lambda>x. te_id x = t \<and> te_status x = ''active'') ts = Some x \<longleftrightarrow>
          x \<in> set ts \<and> te_id x = t \<and> te_status x = ''active''"
    if "distinct (map te_id ts)" for ts x
    using that by (induction ts) auto
  then show ?thesis using assms by (auto simp: active_team_organization_def)
qed


section \<open>Pages\<close>

lemma take_drop_append: "take a xs @ take b (drop a xs) = take (a + b) xs"
  by (simp add: take_add)

lemma pages_prefix:
  assumes "1 \<le> n" and "n \<le> directory_page_size_max"
  shows "concat (map (\<lambda>p. page_slice (int p) n xs) [1..<Suc k]) = take (k * nat n) xs"
proof (induction k)
  case (Suc k)
  have "page_slice (int (Suc k)) n xs = take (nat n) (drop (k * nat n) xs)"
    using assms by (simp add: page_slice_def Let_def nat_mult_distrib)
  then have "concat (map (\<lambda>p. page_slice (int p) n xs) [1..<Suc (Suc k)])
      = take (k * nat n) xs @ take (nat n) (drop (k * nat n) xs)"
    using Suc.IH by simp
  also have "\<dots> = take (k * nat n + nat n) xs" by (simp only: take_add)
  finally show ?case by (simp add: add.commute)
qed simp

lemma directory_rows:
  assumes "dp_sees_everyone (list_user_directory d u now q) \<or> snd (directory_scope d u now) \<noteq> {}"
  shows "map dr_user (dp_rows (list_user_directory d u now q))
     = page_slice (uq_page q) (uq_page_size q) (directory_order (uq_sort q) (directory_users d u now q))"
    and "dp_total_count (list_user_directory d u now q) = length (directory_users d u now q)"
  using assms
  by (auto simp: list_user_directory_def Let_def directory_row_of_def comp_def split: prod.splits if_splits)

lemma no_scope_no_users:
  assumes "directory_scope d u now = (False, {})"
  shows "directory_users d u now q = []"
  by (simp add: directory_users_def assms member_of_def list_ex_iff)

lemma directory_rows_all:
  "map dr_user (dp_rows (list_user_directory d u now q))
     = page_slice (uq_page q) (uq_page_size q) (directory_order (uq_sort q) (directory_users d u now q))
   \<and> dp_total_count (list_user_directory d u now q) = length (directory_users d u now q)"
proof (cases "directory_scope d u now = (False, {})")
  case True
  then show ?thesis
    using no_scope_no_users [OF True, of q]
    by (simp add: list_user_directory_def page_slice_def Let_def directory_order_def)
next
  case False
  then have "dp_sees_everyone (list_user_directory d u now q) \<or> snd (directory_scope d u now) \<noteq> {}"
    by (auto simp: list_user_directory_def Let_def split: prod.splits)
  from directory_rows [OF this] show ?thesis by simp
qed

text \<open>
  Read page by page, with any page size the directory serves, a search shows every matching
  person exactly once, in the order asked for: no one is skipped or repeated between pages.
\<close>

theorem pages_cover_everyone:
  assumes "1 \<le> uq_page_size q" and "uq_page_size q \<le> directory_page_size_max"
    and "int (dp_total_count (list_user_directory d u now q)) \<le> int k * uq_page_size q"
  shows "concat (map (\<lambda>p. map dr_user (dp_rows (list_user_directory d u now (q\<lparr>uq_page := int p\<rparr>)))) [1..<Suc k])
         = directory_order (uq_sort q) (directory_users d u now q)"
proof -
  have same: "directory_users d u now (q\<lparr>uq_page := p\<rparr>) = directory_users d u now q" for p
    by (simp add: directory_users_def)
  let ?xs = "directory_order (uq_sort q) (directory_users d u now q)"
  have len: "length ?xs = dp_total_count (list_user_directory d u now q)"
    using directory_rows_all [of d u now q] by (simp add: directory_order_def)
  have "int (length ?xs) \<le> int (k * nat (uq_page_size q))" using assms(1,3) by (simp add: len)
  then have "length ?xs \<le> k * nat (uq_page_size q)" by linarith
  then have "take (k * nat (uq_page_size q)) ?xs = ?xs" by simp
  with pages_prefix [OF assms(1,2), of ?xs k] show ?thesis
    by (simp add: directory_rows_all same del: upt_Suc)
qed

section \<open>Listing and summary\<close>

definition no_filter :: user_query where
  "no_filter = \<lparr>uq_search = None, uq_status = None, uq_activation_state = None, uq_role = None,
     uq_team_id = None, uq_page = 1, uq_page_size = 50, uq_sort = ''name''\<rparr>"

lemma everyone_visible:
  "directory_users d u now no_filter = filter (\<lambda>x. fst (directory_scope d u now)
     \<or> member_of d (snd (directory_scope d u now)) (us_id x)) (users d)"
  by (simp add: directory_users_def no_filter_def matches_search_def matches_status_def
      matches_role_def matches_team_def matches_activation_def case_prod_beta)

lemma one_filter:
  "directory_users d u now (no_filter\<lparr>uq_status := Some ''active''\<rparr>)
     = filter us_active (directory_users d u now no_filter)"
  "s \<in> set activation_states \<Longrightarrow> directory_users d u now (no_filter\<lparr>uq_activation_state := Some s\<rparr>)
     = filter (\<lambda>x. activation_state d now x = s) (directory_users d u now no_filter)"
  by (simp_all add: directory_users_def no_filter_def matches_search_def matches_status_def
      matches_role_def matches_team_def matches_activation_def case_prod_beta conj_commute)

lemma summary_counts:
  fixes d u now defines "seen \<equiv> directory_users d u now no_filter"
  shows "ds_total (summary_of d u now) = length seen"
    and "ds_active (summary_of d u now) = count_where us_active seen"
    and "ds_inactive (summary_of d u now) = count_where (\<lambda>x. \<not> us_active x) seen"
    and "ds_awaiting_activation (summary_of d u now)
           = count_where (\<lambda>x. activation_state d now x \<in> set awaiting_activation_states) seen"
    and "ds_mfa_setup_required (summary_of d u now)
           = count_where (\<lambda>x. activation_state d now x = state_mfa_setup_required) seen"
proof -
  have [simp]: "\<not> member_of d {} i" for i by (simp add: member_of_def list_ex_iff)
  show "ds_total (summary_of d u now) = length seen"
    and "ds_active (summary_of d u now) = count_where us_active seen"
    and "ds_inactive (summary_of d u now) = count_where (\<lambda>x. \<not> us_active x) seen"
    and "ds_awaiting_activation (summary_of d u now)
           = count_where (\<lambda>x. activation_state d now x \<in> set awaiting_activation_states) seen"
    and "ds_mfa_setup_required (summary_of d u now)
           = count_where (\<lambda>x. activation_state d now x = state_mfa_setup_required) seen"
    by (simp_all add: summary_of_def case_prod_beta Let_def seen_def everyone_visible count_where_def)
qed

lemma activation_state_range: "activation_state d now u \<in> set activation_states"
  by (auto simp: activation_state_def activation_states_def split: option.split)

lemmas state_defs = state_disabled_def state_ready_def state_mfa_setup_required_def
  state_activation_not_issued_def state_activation_code_active_def state_activation_code_expired_def

text \<open>Among active people: ready, setting up a second factor, or awaiting activation.\<close>

lemma state_split:
  "us_active u \<longleftrightarrow> activation_state d now u = state_ready
     \<or> activation_state d now u = state_mfa_setup_required
     \<or> activation_state d now u \<in> set awaiting_activation_states"
  by (auto simp: activation_state_def awaiting_activation_states_def state_defs split: option.split)

lemma count_states:
  "count_where us_active us = count_where (\<lambda>x. activation_state d now x \<in> set awaiting_activation_states) us
     + count_where (\<lambda>x. activation_state d now x = state_mfa_setup_required) us
     + count_where (\<lambda>x. activation_state d now x = state_ready) us"
proof (induction us)
  case (Cons x us)
  then show ?case using state_split [of x d now]
    by (auto simp: count_where_def awaiting_activation_states_def state_defs)
qed (simp add: count_where_def)

text \<open>
  A search narrows what its administrator may see and never widens it, and the summary cards
  count the same people the listing shows: everyone, the active and the inactive, and the active
  divided into ready, setting up a second factor and awaiting activation.
\<close>

theorem directory_agrees_with_summary:
  "(\<forall>r \<in> set (dp_rows (list_user_directory d u now q)).
       user_in_admin_scope d u (us_id (dr_user r)) now \<and> dr_user r \<in> set (users d))
   \<and> dp_total_count (list_user_directory d u now q) \<le> ds_total (summary_of d u now)
   \<and> dp_total_count (list_user_directory d u now no_filter) = ds_total (summary_of d u now)
   \<and> dp_total_count (list_user_directory d u now (no_filter\<lparr>uq_status := Some ''active''\<rparr>))
       = ds_active (summary_of d u now)
   \<and> ds_total (summary_of d u now) = ds_active (summary_of d u now) + ds_inactive (summary_of d u now)
   \<and> ds_active (summary_of d u now) = ds_awaiting_activation (summary_of d u now)
       + ds_mfa_setup_required (summary_of d u now)
       + dp_total_count (list_user_directory d u now (no_filter\<lparr>uq_activation_state := Some state_ready\<rparr>))"
proof -
  have "user_in_admin_scope d u (us_id (dr_user r)) now \<and> dr_user r \<in> set (users d)"
    if "r \<in> set (dp_rows (list_user_directory d u now q))" for r
  proof -
    have "dr_user r \<in> set (map dr_user (dp_rows (list_user_directory d u now q)))" using that by simp
    then have "dr_user r \<in> set (directory_users d u now q)"
      by (auto simp: directory_rows_all page_slice_def Let_def directory_order_def
          dest!: in_set_takeD in_set_dropD split: if_splits)
    then show ?thesis
      by (auto simp: directory_users_def user_in_admin_scope_def member_of_def list_ex_iff split: prod.splits if_splits)
  qed
  moreover have "length (directory_users d u now q) \<le> length (directory_users d u now no_filter)"
  proof -
    have "directory_users d u now q = filter (\<lambda>x. x \<in> set (directory_users d u now q))
        (directory_users d u now no_filter)"
      unfolding everyone_visible filter_filter
      by (auto simp: directory_users_def case_prod_beta intro!: filter_cong)
    then show ?thesis by (metis length_filter_le)
  qed
  moreover have "length (directory_users d u now no_filter)
      = count_where us_active (directory_users d u now no_filter)
        + count_where (\<lambda>x. \<not> us_active x) (directory_users d u now no_filter)"
    by (simp add: count_where_def sum_length_filter_compl)
  moreover have "state_ready \<in> set activation_states" by (simp add: activation_states_def)
  ultimately show ?thesis using count_states [of "directory_users d u now no_filter" d now]
    by (simp add: directory_rows_all summary_counts one_filter count_where_def [symmetric])
qed

end
