(* ===== verification/Workforce_Witnesses.thy ===== *)
theory Workforce_Witnesses
  imports Workforce_Properties Directory_Properties Auth
begin


definition office_db :: db where
  "office_db = empty_db\<lparr>users := [sample_user], role_assignments :=
     [sample_role 1 ''super_admin'' ''installation'' None]\<rparr>"

lemma office_scope: "fst (directory_scope office_db 1 10)"
  by (simp add: directory_scope_def visible_team_ids_def Let_def appointment_grants_def wide_grant_def
      authz_eval office_db_def appointment_capabilities_def role_appointment_capability_def)

lemma office_users: "directory_users office_db 1 10 no_filter = [sample_user]"
  using office_scope by (simp add: everyone_visible) (simp add: office_db_def)

lemma pages_cover_everyone_witness:
  "concat (map (\<lambda>p. map dr_user (dp_rows (list_user_directory office_db 1 10
      (no_filter\<lparr>uq_page := int p\<rparr>)))) [1..<Suc 1]) = [sample_user]"
proof -
  have size: "uq_page_size no_filter = 50" by (simp add: no_filter_def)
  have "dp_total_count (list_user_directory office_db 1 10 no_filter) = 1"
    using directory_rows_all [of office_db 1 10 no_filter] by (simp add: office_users del: One_nat_def)
  with pages_cover_everyone [of no_filter office_db 1 10 1] show ?thesis
    by (simp add: size directory_page_size_max_def office_users directory_order_def del: upt_Suc One_nat_def)
qed

lemma directory_agrees_with_summary_witness: "ds_total (summary_of office_db 1 10) = 1"
proof -
  have "dp_total_count (list_user_directory office_db 1 10 no_filter) = 1"
    using directory_rows_all [of office_db 1 10 no_filter] by (simp add: office_users del: One_nat_def)
  with directory_agrees_with_summary [of office_db 1 10 no_filter] show ?thesis by simp
qed



lemma reporting_line_replaces_witness:
  "\<exists>line d'. set_reporting_line sample_env 7 8 ''team'' (Some 5) ''primary'' 1 None empty_db = Inr (line, d')
     \<and> filter (open_primary_line 7 ''team'' (Some 5)) (reporting_assignments d') = [line]"
proof -
  have "\<exists>line d'. set_reporting_line sample_env 7 8 ''team'' (Some 5) ''primary'' 1 None empty_db = Inr (line, d')"
    by (simp add: set_reporting_line_def Let_def)
  then obtain line d' where r:
    "set_reporting_line sample_env 7 8 ''team'' (Some 5) ''primary'' 1 None empty_db = Inr (line, d')" by blast
  from reporting_line_replaces [OF r] r show ?thesis by blast
qed

end
