(* ===== verification/Wf_Authority.thy ===== *)
theory Wf_Authority
  imports Workforce
begin

text \<open>
  Who may reach a bulk workforce import (\<open>app/workforce_imports/service.py\<close>): the one authorization
  fact each row depends on, the footprint of a job, the bulk resolution of many facts at once, and
  the access checks built on it. A Python set of requirements is the list of its elements in order
  of insertion; the successive \<open>utcnow()\<close> readings of one check are one instant.
\<close>

section \<open>Requirements\<close>

datatype requirement =
  Deny | Need_user uuid | Need_scope string string "uuid option" | Need_campaign uuid

definition row_value :: "wf_row \<Rightarrow> string \<Rightarrow> json" where
  "row_value row key =
     (case wr_parsed_values row of
        None \<Rightarrow> JNull
      | Some vs \<Rightarrow> (case map_of vs key of None \<Rightarrow> JNull | Some j \<Rightarrow> j))"

text \<open>\<open>uuid.UUID(values[key]) if values.get(key) else None\<close> and \<open>values.get(key)\<close>\<close>

definition row_uuid :: "wf_row \<Rightarrow> string \<Rightarrow> uuid option" where
  "row_uuid row key = (case row_value row key of JId i \<Rightarrow> Some i | _ \<Rightarrow> None)"

definition row_text :: "wf_row \<Rightarrow> string \<Rightarrow> string option" where
  "row_text row key = (case row_value row key of JStr s \<Rightarrow> if s = '''' then None else Some s | _ \<Rightarrow> None)"

definition need_identity :: "wf_row \<Rightarrow> requirement option" where
  "need_identity row =
     Some (case wr_normalized_identity row of None \<Rightarrow> Deny | Some u \<Rightarrow> Need_user u)"

definition row_requirement :: "wf_job \<Rightarrow> wf_row \<Rightarrow> requirement option" where
  "row_requirement job row =
     (let t = wj_import_type job in
      if t = ''explicit_deactivations'' \<or> t = ''reporting_assignments'' then need_identity row
      else if t = ''users''
      then (if wr_action row = Some ''create''
            then (if wr_validation_result row = Row_valid then None else Some Deny)
            else if wr_action row = Some ''update'' \<or> wr_action row = Some ''reactivate''
            then need_identity row
            else Some Deny)
      else if t = ''team_memberships''
      then Some (case row_uuid row ''team_id'' of
             None \<Rightarrow> Deny | Some i \<Rightarrow> Need_scope ''appoint_team_captain'' ''team'' (Some i))
      else if t = ''role_assignments''
      then Some (case (Option.bind (row_text row ''role_code'') (map_of role_appointment_capability),
                       (case row_value row ''scope_type'' of JStr s \<Rightarrow> Some s | _ \<Rightarrow> None)) of
             (Some capability, Some scope_type) \<Rightarrow>
               Need_scope capability scope_type (row_uuid row ''scope_id'')
           | _ \<Rightarrow> Deny)
      else if t = ''campaign_user_assignments''
      then Some (case row_uuid row ''campaign_id'' of None \<Rightarrow> Deny | Some i \<Rightarrow> Need_campaign i)
      else Some Deny)"

section \<open>The stored footprint\<close>

definition requirements_cap :: nat where "requirements_cap = 10000"

definition serialize_requirement :: "requirement \<Rightarrow> json list" where
  "serialize_requirement req =
     (case req of
        Deny \<Rightarrow> [JStr ''deny'']
      | Need_user u \<Rightarrow> [JStr ''user'', JId u]
      | Need_scope capability scope_type scope_id \<Rightarrow>
          [JStr ''scope'', JStr capability, JStr scope_type, scope_json scope_id]
      | Need_campaign i \<Rightarrow> [JStr ''campaign'', JId i])"

text \<open>\<open>None\<close> where reading the stored entry raises.\<close>

definition deserialize_requirement :: "json list \<Rightarrow> requirement option" where
  "deserialize_requirement entry =
     (case entry of
        JStr kind # rest \<Rightarrow>
          (if kind = ''deny'' then Some Deny
           else if kind = ''user'' then (case rest of JId u # _ \<Rightarrow> Some (Need_user u) | _ \<Rightarrow> None)
           else if kind = ''scope''
           then (case rest of
                   JStr capability # JStr scope_type # JId i # _ \<Rightarrow>
                     Some (Need_scope capability scope_type (Some i))
                 | JStr capability # JStr scope_type # JNull # _ \<Rightarrow>
                     Some (Need_scope capability scope_type None)
                 | _ \<Rightarrow> None)
           else if kind = ''campaign''
           then (case rest of JId i # _ \<Rightarrow> Some (Need_campaign i) | _ \<Rightarrow> None)
           else None)
      | _ \<Rightarrow> None)"

lemma deserialize_serialize [simp]: "deserialize_requirement (serialize_requirement req) = Some req"
  by (cases req) (auto simp: serialize_requirement_def deserialize_requirement_def scope_json_def
      split: option.split)

text \<open>One more row: the set grows until it passes the cap, then it is given up.\<close>

definition note_requirement :: "requirement option \<Rightarrow> bool \<times> requirement list \<Rightarrow> bool \<times> requirement list" where
  "note_requirement req fp =
     (case fp of (over_cap, reqs) \<Rightarrow>
        if over_cap then (over_cap, reqs)
        else case req of
          None \<Rightarrow> (over_cap, reqs)
        | Some r \<Rightarrow>
            (let reqs' = (if r \<in> set reqs then reqs else reqs @ [r])
             in if requirements_cap < length reqs' then (True, []) else (False, reqs')))"

definition footprint_of :: "bool \<times> requirement list \<Rightarrow> wf_footprint" where
  "footprint_of fp = \<lparr>fp_over_cap = fst fp,
     fp_requirements = (if fst fp then [] else map serialize_requirement (snd fp))\<rparr>"

section \<open>Bulk resolution\<close>

record authority =
  sa_targets :: "uuid set"
  sa_scopes :: "(string \<times> string \<times> uuid option) set"
  sa_campaigns :: "uuid set"

definition authority_chunk_size :: nat where "authority_chunk_size = 1000"

text \<open>The active roles of every target, one query per chunk of targets.\<close>

definition target_roles :: "db \<Rightarrow> time \<Rightarrow> uuid list \<Rightarrow> uuid \<Rightarrow> role_assignment list" where
  "target_roles d now target_ids =
     fold (\<lambda>chunk m. fold (\<lambda>ra m. m(ra_user_id ra := m (ra_user_id ra) @ [ra]))
            (filter (\<lambda>ra. ra_user_id ra \<in> set chunk \<and> role_effective now ra) (role_assignments d)) m)
       (batched authority_chunk_size target_ids) (\<lambda>_. [])"

definition appointment_scope :: "role_assignment \<Rightarrow> (string \<times> string \<times> uuid option) option" where
  "appointment_scope ra =
     map_option (\<lambda>c. (c, ra_scope_type ra, ra_scope_id ra))
       (map_of role_appointment_capability (ra_role_code ra))"

text \<open>The scopes asked of one capability, and which of all the scopes are covered.\<close>

definition scopes_for :: "string \<Rightarrow> (string \<times> string \<times> uuid option) list \<Rightarrow> (string \<times> uuid option) list" where
  "scopes_for capability tuples =
     remdups (List.map_filter (\<lambda>(c, s). if c = capability then Some s else None) tuples)"

definition scope_ok ::
  "db \<Rightarrow> uuid \<Rightarrow> time \<Rightarrow> (string \<times> string \<times> uuid option) list \<Rightarrow> string \<times> string \<times> uuid option \<Rightarrow> bool" where
  "scope_ok d actor_id now tuples tup \<longleftrightarrow> tup \<in> set tuples
     \<and> snd tup \<in> scope_capabilities_matched d actor_id (fst tup) (scopes_for (fst tup) tuples) now"

definition satisfied_authority ::
  "db \<Rightarrow> uuid \<Rightarrow> time \<Rightarrow> uuid list \<Rightarrow> (string \<times> string \<times> uuid option) list \<Rightarrow> uuid list
   \<Rightarrow> authority" where
  "satisfied_authority d actor_id now target_ids scope_tuples campaign_ids =
     (let roles = target_roles d now target_ids;
          all_tuples = scope_tuples
            @ concat (map (\<lambda>t. List.map_filter appointment_scope (roles t)) target_ids);
          no_role_ok = list_ex (\<lambda>t. roles t = []) target_ids
            \<and> list_ex (\<lambda>c. has_assigned_capability d actor_id c now) (map snd role_appointment_capability);
          target_ok = (\<lambda>t. if roles t = [] then no_role_ok
            else list_ex (\<lambda>ra. case appointment_scope ra of None \<Rightarrow> False
                   | Some tup \<Rightarrow> scope_ok d actor_id now all_tuples tup) (roles t))
      in \<lparr>sa_targets = set (filter target_ok target_ids),
          sa_scopes = set (filter (scope_ok d actor_id now all_tuples) scope_tuples),
          sa_campaigns = campaign_ids_with_capability d actor_id ''assign_campaign_agent'' campaign_ids now
            \<inter> set campaign_ids\<rparr>)"

definition required_users :: "requirement option list \<Rightarrow> uuid list" where
  "required_users reqs = remdups (List.map_filter
     (\<lambda>r. case r of Some (Need_user u) \<Rightarrow> Some u | _ \<Rightarrow> None) reqs)"

definition required_scopes :: "requirement option list \<Rightarrow> (string \<times> string \<times> uuid option) list" where
  "required_scopes reqs = remdups (List.map_filter
     (\<lambda>r. case r of Some (Need_scope c st si) \<Rightarrow> Some (c, st, si) | _ \<Rightarrow> None) reqs)"

definition required_campaigns :: "requirement option list \<Rightarrow> uuid list" where
  "required_campaigns reqs = remdups (List.map_filter
     (\<lambda>r. case r of Some (Need_campaign i) \<Rightarrow> Some i | _ \<Rightarrow> None) reqs)"

definition requirement_met :: "authority \<Rightarrow> requirement option \<Rightarrow> bool" where
  "requirement_met sa req =
     (case req of
        None \<Rightarrow> True
      | Some Deny \<Rightarrow> False
      | Some (Need_user u) \<Rightarrow> u \<in> sa_targets sa
      | Some (Need_scope c st si) \<Rightarrow> (c, st, si) \<in> sa_scopes sa
      | Some (Need_campaign i) \<Rightarrow> i \<in> sa_campaigns sa)"

definition requirements_satisfied :: "requirement option list \<Rightarrow> authority \<Rightarrow> bool" where
  "requirements_satisfied reqs sa = list_all (requirement_met sa) reqs"

definition authority_over_requirements :: "db \<Rightarrow> uuid \<Rightarrow> time \<Rightarrow> requirement option list \<Rightarrow> bool" where
  "authority_over_requirements d actor_id now reqs \<longleftrightarrow>
     Some Deny \<notin> set reqs
     \<and> requirements_satisfied reqs (satisfied_authority d actor_id now
          (required_users reqs) (required_scopes reqs) (required_campaigns reqs))"

section \<open>Access to a job\<close>

definition job_rows :: "db \<Rightarrow> wf_job \<Rightarrow> wf_row list" where
  "job_rows d job = filter (\<lambda>r. wr_import_job_id r = wj_id job) (wf_rows d)"

definition committable_rows :: "db \<Rightarrow> wf_job \<Rightarrow> wf_risk option \<Rightarrow> wf_row list" where
  "committable_rows d job risk_level =
     filter (\<lambda>r. wr_validation_result r = Row_valid
        \<and> (case risk_level of None \<Rightarrow> True | Some k \<Rightarrow> wr_risk_level r = k)) (job_rows d job)"

definition rows_authorized :: "db \<Rightarrow> wf_job \<Rightarrow> uuid \<Rightarrow> wf_risk \<Rightarrow> time \<Rightarrow> bool" where
  "rows_authorized d job actor_id risk_level now =
     authority_over_requirements d actor_id now
       (map (row_requirement job) (committable_rows d job (Some risk_level)))"

text \<open>\<open>Inl ()\<close>: a stored entry that cannot be read raises.\<close>

definition stored_requirements :: "wf_footprint \<Rightarrow> unit + requirement option list" where
  "stored_requirements fp =
     (let rs = map deserialize_requirement (fp_requirements fp)
      in if None \<in> set rs then Inl () else Inr rs)"

definition job_access_requirements :: "db \<Rightarrow> wf_job \<Rightarrow> unit + requirement option list option" where
  "job_access_requirements d job =
     (case wj_footprint job of
        Some fp \<Rightarrow>
          (if \<not> fp_over_cap fp then map_sum id Some (stored_requirements fp)
           else if wj_state job \<noteq> Parsed \<or> job_rows d job = [] then Inr None
           else Inr (Some (map (row_requirement job) (job_rows d job))))
      | None \<Rightarrow>
          (if wj_state job \<noteq> Parsed \<or> job_rows d job = [] then Inr None
           else Inr (Some (map (row_requirement job) (job_rows d job)))))"

definition can_access_job :: "db \<Rightarrow> uuid \<Rightarrow> wf_job \<Rightarrow> time \<Rightarrow> unit + bool" where
  "can_access_job d actor_id job now =
     (if actor_id = wj_uploader_id job then Inr True
      else case job_access_requirements d job of
          Inl err \<Rightarrow> Inl err
        | Inr None \<Rightarrow> Inr False
        | Inr (Some reqs) \<Rightarrow> Inr (authority_over_requirements d actor_id now reqs))"

section \<open>The list of visible jobs\<close>

text \<open>
  The first loop: the requirements of every candidate someone else uploaded. A candidate that
  nobody else can reach yet has none.
\<close>

fun gather_requirements ::
  "db \<Rightarrow> uuid \<Rightarrow> wf_job list \<Rightarrow> unit + (wf_job \<times> requirement option list option) list" where
  "gather_requirements d actor_id [] = Inr []"
| "gather_requirements d actor_id (job # jobs) =
     (case (if wj_uploader_id job = actor_id then Inr None else job_access_requirements d job) of
        Inl err \<Rightarrow> Inl err
      | Inr reqs \<Rightarrow>
          (case gather_requirements d actor_id jobs of
             Inl err \<Rightarrow> Inl err
           | Inr rest \<Rightarrow> Inr ((job, reqs) # rest)))"

text \<open>The second loop stops as soon as the list is full.\<close>

fun take_visible ::
  "uuid \<Rightarrow> authority \<Rightarrow> nat \<Rightarrow> wf_job list \<Rightarrow> (wf_job \<times> requirement option list option) list
   \<Rightarrow> wf_job list" where
  "take_visible actor_id sa limit visible [] = visible"
| "take_visible actor_id sa limit visible ((job, reqs) # rest) =
     (if wj_uploader_id job = actor_id
         \<or> (case reqs of None \<Rightarrow> False | Some rs \<Rightarrow> requirements_satisfied rs sa)
      then (if limit \<le> length (visible @ [job]) then visible @ [job]
            else take_visible actor_id sa limit (visible @ [job]) rest)
      else take_visible actor_id sa limit visible rest)"

definition visible_candidates :: "db \<Rightarrow> nat \<Rightarrow> wf_job list" where
  "visible_candidates d candidate_limit = take candidate_limit (sort_key (\<lambda>j. - wj_created_at j) (wf_jobs d))"

definition visible_jobs :: "db \<Rightarrow> uuid \<Rightarrow> time \<Rightarrow> nat \<Rightarrow> nat \<Rightarrow> unit + wf_job list" where
  "visible_jobs d actor_id now limit candidate_limit =
     (case gather_requirements d actor_id (visible_candidates d candidate_limit) of
        Inl err \<Rightarrow> Inl err
      | Inr pairs \<Rightarrow>
          (let reqs = concat (List.map_filter snd pairs);
               sa = satisfied_authority d actor_id now
                      (required_users reqs) (required_scopes reqs) (required_campaigns reqs)
           in Inr (take_visible actor_id sa limit [] pairs)))"

end
