(* ===== verification/Py_Date.thy ===== *)
theory Py_Date
  imports Py_Text
begin

text \<open>
  \<open>datetime.date\<close> as the bulk imports use it: \<open>date.fromisoformat\<close>, which since Python 3.11 reads
  calendar dates (\<open>YYYY-MM-DD\<close>, \<open>YYYYMMDD\<close>) and week dates (\<open>YYYY-Www-D\<close>, \<open>YYYYWwwD\<close>, \<open>YYYY-Www\<close>,
  \<open>YYYYWww\<close>), and \<open>date.isoformat\<close>, which writes \<open>YYYY-MM-DD\<close>.
\<close>

section \<open>The calendar\<close>

definition is_leap :: "nat \<Rightarrow> bool" where
  "is_leap y \<longleftrightarrow> y mod 4 = 0 \<and> (y mod 100 \<noteq> 0 \<or> y mod 400 = 0)"

definition days_in_month :: "nat \<Rightarrow> nat \<Rightarrow> nat" where
  "days_in_month y m = (if m = 2 then if is_leap y then 29 else 28
     else if m \<in> {4, 6, 9, 11} then 30 else 31)"

definition valid_date :: "date \<Rightarrow> bool" where
  "valid_date dt = (case dt of (y, m, d) \<Rightarrow>
     1 \<le> y \<and> y \<le> 9999 \<and> 1 \<le> m \<and> m \<le> 12 \<and> 1 \<le> d \<and> d \<le> days_in_month y m)"

text \<open>The weekday of 1 January, Monday being 0.\<close>

definition first_weekday :: "nat \<Rightarrow> nat" where
  "first_weekday y = (let p = y - 1 in (365 * p + p div 4 - p div 100 + p div 400 + 7) mod 7)"

text \<open>The day \<open>n\<close> days after 1 January of \<open>y\<close>.\<close>

function day_of_year :: "nat \<Rightarrow> nat \<Rightarrow> nat \<Rightarrow> date" where
  "day_of_year y m n =
     (if m \<ge> 12 then if n < 31 then (y, 12, n + 1) else (y + 1, 1, n - 30)
      else if n < days_in_month y m then (y, m, n + 1) else day_of_year y (m + 1) (n - days_in_month y m))"
  by pat_completeness auto
termination by (relation "measure (\<lambda>(y, m, n). 12 - m)") auto

definition week_date :: "nat \<Rightarrow> nat \<Rightarrow> nat \<Rightarrow> date option" where
  "week_date y week day =
     (let fw = first_weekday y;
          long = (fw = 3 \<or> fw = 2 \<and> is_leap y);
          n = int ((week - 1) * 7 + (day - 1)) - int fw + (if fw > 3 then 7 else 0)
      in if y < 1 \<or> 9999 < y \<or> week < 1 \<or> week > 53 \<or> (week = 53 \<and> \<not> long) \<or> day < 1 \<or> day > 7
         then None
         else Some (if n < 0 then (y - 1, 12, nat (32 + n)) else day_of_year y 1 (nat n)))"

section \<open>Reading\<close>

definition digit_val :: "char \<Rightarrow> nat option" where
  "digit_val c = (if 48 \<le> code c \<and> code c \<le> 57 then Some (code c - 48) else None)"

fun parse_digits :: "nat \<Rightarrow> nat \<Rightarrow> string \<Rightarrow> (nat \<times> string) option" where
  "parse_digits 0 acc s = Some (acc, s)"
| "parse_digits (Suc n) acc [] = None"
| "parse_digits (Suc n) acc (c # s) =
     (case digit_val c of None \<Rightarrow> None | Some v \<Rightarrow> parse_digits n (acc * 10 + v) s)"

definition skip_dash :: "bool \<Rightarrow> string \<Rightarrow> string option" where
  "skip_dash wanted s =
     (if \<not> wanted then Some s
      else case s of [] \<Rightarrow> None | c # rest \<Rightarrow> if c = CHR ''-'' then Some rest else None)"

definition parse_calendar :: "nat \<Rightarrow> bool \<Rightarrow> string \<Rightarrow> date option" where
  "parse_calendar y dashes s =
     (case parse_digits 2 0 s of
        None \<Rightarrow> None
      | Some (m, s1) \<Rightarrow>
          (case skip_dash dashes s1 of
             None \<Rightarrow> None
           | Some s2 \<Rightarrow>
               (case parse_digits 2 0 s2 of
                  None \<Rightarrow> None
                | Some (d, s3) \<Rightarrow> if s3 = [] then Some (y, m, d) else None)))"

definition parse_week :: "nat \<Rightarrow> bool \<Rightarrow> string \<Rightarrow> date option" where
  "parse_week y dashes s =
     (case parse_digits 2 0 s of
        None \<Rightarrow> None
      | Some (w, s1) \<Rightarrow>
          (if s1 = [] then week_date y w 1
           else case skip_dash dashes s1 of
             None \<Rightarrow> None
           | Some s2 \<Rightarrow>
               (case parse_digits 1 0 s2 of
                  None \<Rightarrow> None
                | Some (d, s3) \<Rightarrow> if s3 = [] then week_date y w d else None)))"

text \<open>\<open>None\<close> is the \<open>ValueError\<close>.\<close>

definition fromisoformat :: "string \<Rightarrow> date option" where
  "fromisoformat s =
     (case (if length s \<in> {7, 8, 10} then parse_digits 4 0 s else None) of
        None \<Rightarrow> None
      | Some (y, s1) \<Rightarrow>
          (let dashes = startswith s1 ''-''; s2 = (if dashes then drop 1 s1 else s1);
               found = (if startswith s2 ''W'' then parse_week y dashes (drop 1 s2)
                        else parse_calendar y dashes s2)
           in case found of None \<Rightarrow> None | Some dt \<Rightarrow> if valid_date dt then Some dt else None))"

section \<open>Writing\<close>

definition digit :: "nat \<Rightarrow> char" where
  "digit n = char_of (48 + n mod 10)"

definition isoformat :: "date \<Rightarrow> string" where
  "isoformat dt = (case dt of (y, m, d) \<Rightarrow>
     [digit (y div 1000), digit (y div 100), digit (y div 10), digit y, CHR ''-'',
      digit (m div 10), digit m, CHR ''-'', digit (d div 10), digit d])"

lemma code_digit: "code (digit n) = 48 + n mod 10"
proof -
  have "n mod 10 < 10" by simp
  then have "(48 + n mod 10) mod 256 = 48 + n mod 10" by (intro mod_less) linarith
  then show ?thesis by (simp add: code_def digit_def)
qed

lemma digit_val_digit [simp]: "digit_val (digit n) = Some (n mod 10)"
proof -
  have "n mod 10 < 10" by simp
  then show ?thesis by (simp add: digit_val_def code_digit)
qed

lemma digit_not_W: "digit n \<noteq> CHR ''W''" "digit n \<noteq> CHR ''-''"
  using code_digit [of n] by (auto simp: code_def)

lemma four_digits:
  assumes "y \<le> 9999"
  shows "((y div 1000 mod 10 * 10 + y div 100 mod 10) * 10 + y div 10 mod 10) * 10 + y mod 10 = (y::nat)"
proof -
  have "y div 1000 < 10" using assms by (simp add: div_less_iff_less_mult)
  then have "y div 1000 mod 10 = y div 100 div 10" by (simp add: div_mult2_eq [symmetric])
  then have "y div 1000 mod 10 * 10 + y div 100 mod 10 = y div 100" by (simp only: div_mult_mod_eq)
  also have "\<dots> = y div 10 div 10" by (simp add: div_mult2_eq [symmetric])
  finally have "(y div 1000 mod 10 * 10 + y div 100 mod 10) * 10 + y div 10 mod 10 = y div 10"
    by (simp only: div_mult_mod_eq)
  then show ?thesis by (simp only: div_mult_mod_eq)
qed

lemma two_digits:
  assumes "m \<le> 99"
  shows "m div 10 mod 10 * 10 + m mod 10 = (m::nat)"
proof -
  have "m div 10 < 10" using assms by (simp add: div_less_iff_less_mult)
  then have "m div 10 mod 10 = m div 10" by (rule mod_less)
  then show ?thesis by (simp only: div_mult_mod_eq)
qed

lemma parse_two: "parse_digits 2 0 (digit a # digit b # s) = Some (a mod 10 * 10 + b mod 10, s)"
  by (simp only: numeral_2_eq_2 parse_digits.simps digit_val_digit option.case) simp

lemma parse_four: "parse_digits 4 0 (digit a # digit b # digit c # digit e # s)
    = Some (((a mod 10 * 10 + b mod 10) * 10 + c mod 10) * 10 + e mod 10, s)"
proof -
  have four: "4 = Suc (Suc (Suc (Suc 0)))" by simp
  show ?thesis by (simp only: four parse_digits.simps digit_val_digit option.case) simp
qed

lemma days_in_month_le: "days_in_month y m \<le> 31"
  by (simp add: days_in_month_def)

text \<open>Every date is read back as it was written.\<close>

lemma fromisoformat_isoformat:
  assumes "valid_date dt"
  shows "fromisoformat (isoformat dt) = Some dt"
proof (cases dt)
  case (fields y m d)
  from assms fields have "y \<le> 9999" "m \<le> 99" "d \<le> 99"
    using days_in_month_le [of y m] by (auto simp: valid_date_def)
  note here = four_digits [OF this(1)] two_digits [OF this(2)] two_digits [OF this(3)]
  have two: "parse_digits 2 0 (digit (n div 10) # digit n # s) = Some (n, s)" if "n \<le> 99" for n s
    by (simp only: parse_two two_digits [OF that])
  have year: "parse_digits 4 0 (isoformat dt)
      = Some (y, [CHR ''-'', digit (m div 10), digit m, CHR ''-'', digit (d div 10), digit d])"
    by (simp only: fields isoformat_def prod.case parse_four here(1))
  have "parse_calendar y True [digit (m div 10), digit m, CHR ''-'', digit (d div 10), digit d] = Some (y, m, d)"
    by (simp add: parse_calendar_def two \<open>m \<le> 99\<close> \<open>d \<le> 99\<close> skip_dash_def)
  moreover have "length (isoformat dt) = 10" by (simp add: fields isoformat_def)
  moreover have "\<not> startswith (digit x # s) ''W''" for x s by (simp add: startswith_def digit_not_W)
  ultimately show ?thesis using assms
    by (simp add: fromisoformat_def year [unfolded fields] Let_def fields startswith_def digit_not_W)
qed

lemma fromisoformat_valid: "fromisoformat s = Some dt \<Longrightarrow> valid_date dt"
  by (auto simp: fromisoformat_def Let_def split: option.splits prod.splits if_splits)

end
