(* ===== verification/Wf_Classify.thy ===== *)
theory Wf_Classify
  imports Py_Date Workforce Import_Files Campaigns
begin

text \<open>
  The six row classifiers of the bulk workforce import (\<open>app/workforce_imports/classify.py\<close>). Each
  takes a parsed row, the database and the keys already seen in the file, and returns the verdict
  with the keys seen afterwards. An identifier inside a deduplication key is its decimal text.
\<close>

record wf_verdict =
  wv_row_number :: nat
  wv_action :: "string option"
  wv_external_workforce_id :: "string option"
  wv_normalized_identity :: "uuid option"
  wv_parsed_values :: "(string \<times> json) list option"
  wv_validation_result :: wf_validity
  wv_validation_detail :: "string option"
  wv_conflict_type :: "string option"
  wv_risk_level :: wf_risk

section \<open>Values\<close>

definition max_workforce_id_len :: nat where "max_workforce_id_len = 150"
definition max_display_name_len :: nat where "max_display_name_len = 200"
definition max_reason_code_len :: nat where "max_reason_code_len = 50"

definition users_actions :: "string list" where "users_actions = [''create'', ''update'', ''reactivate'']"
definition team_membership_actions :: "string list" where "team_membership_actions = [''add'', ''end'']"
definition role_assignment_actions :: "string list" where "role_assignment_actions = [''assign'', ''end'']"
definition campaign_assignment_actions :: "string list" where
  "campaign_assignment_actions = [''assign'', ''end'']"
definition scope_types :: "string list" where "scope_types = [''installation'', ''organization'', ''team'']"

definition clean :: "string option \<Rightarrow> string" where
  "clean v = sanitize_text (strip (case v of None \<Rightarrow> '''' | Some s \<Rightarrow> s))"

definition cell :: "parsed_row \<Rightarrow> string \<Rightarrow> string" where
  "cell row column = clean (pr_values row column)"

text \<open>\<open>value or None\<close>\<close>

definition or_none :: "string \<Rightarrow> string option" where
  "or_none s = (if s = '''' then None else Some s)"

definition or_null :: "string option \<Rightarrow> json" where
  "or_null v = (case v of None \<Rightarrow> JNull | Some s \<Rightarrow> JStr s)"

definition valid_workforce_id :: "string \<Rightarrow> bool" where
  "valid_workforce_id v \<longleftrightarrow> v \<noteq> '''' \<and> length v \<le> max_workforce_id_len \<and> \<not> list_ex py_isspace v"

definition valid_email :: "string \<Rightarrow> bool" where
  "valid_email v \<longleftrightarrow> v \<noteq> '''' \<and> length v \<le> 320 \<and> \<not> list_ex py_isspace v
     \<and> CHR ''@'' \<in> set v \<and> before_first CHR ''@'' v \<noteq> '''' \<and> after_first CHR ''@'' v \<noteq> ''''
     \<and> CHR ''.'' \<in> set (after_first CHR ''@'' v)"

text \<open>\<open>None\<close> is the \<open>ValueError\<close>, \<open>Some None\<close> the missing date.\<close>

definition parse_date :: "string \<Rightarrow> date option option" where
  "parse_date v = (if v = '''' then Some None else map_option Some (fromisoformat v))"

definition reason_char :: "char \<Rightarrow> bool" where
  "reason_char c \<longleftrightarrow> (97 \<le> code c \<and> code c \<le> 122) \<or> (48 \<le> code c \<and> code c \<le> 57) \<or> c = CHR ''_''"

definition valid_reason_code :: "string \<Rightarrow> bool" where
  "valid_reason_code v \<longleftrightarrow> v \<noteq> '''' \<and> length v \<le> max_reason_code_len \<and> list_all reason_char v"

section \<open>Lookups\<close>

definition lookup_user_id :: "db \<Rightarrow> string \<Rightarrow> uuid option" where
  "lookup_user_id d workforce_id =
     map_option us_id (find (\<lambda>u. us_workforce_id u = workforce_id) (users d))"

definition lookup_user_active :: "db \<Rightarrow> uuid \<Rightarrow> bool" where
  "lookup_user_active d user_id = (case get_user d user_id of None \<Rightarrow> False | Some u \<Rightarrow> us_active u)"

definition lookup_team :: "db \<Rightarrow> string \<Rightarrow> team option" where
  "lookup_team d team_code =
     find (\<lambda>t. te_external_code t = team_code \<and> te_status t = ''active'') (teams d)"

definition lookup_campaign :: "db \<Rightarrow> string \<Rightarrow> campaign option" where
  "lookup_campaign d campaign_code = find (\<lambda>ca. ca_external_code ca = campaign_code) (campaigns d)"

section \<open>Messages\<close>

datatype row_defect =
  Bad_workforce_id | Use_deactivations_template | Bad_users_action | Repeated_identity | User_exists
| Bad_login | Bad_display_name | Bad_date | No_such_user | Long_display_name | Nothing_to_change
| Bad_reason_code | Bad_membership_action | No_team_code | Repeated_membership | No_such_team
| Not_a_member | Bad_assignment_action | Bad_role | Bad_scope_type | No_scope_code | No_such_scope
| Repeated_role | No_assignment | Bad_reporting_action | Bad_supervisor | Supervises_self
| No_such_supervisor | Supervisor_inactive | No_campaign_code | Repeated_campaign | No_such_campaign
| Has_primary | No_primary | Already_active | Already_inactive | Already_member | Already_granted
| Already_set

definition defect_text :: "row_defect \<Rightarrow> string" where
  "defect_text x = (case x of
     Bad_workforce_id \<Rightarrow> ''external_workforce_id is required and must not contain whitespace''
   | Use_deactivations_template \<Rightarrow>
       ''action must be create, update, or reactivate - use the deactivations template for deactivate''
   | Bad_users_action \<Rightarrow> ''action must be create, update, or reactivate''
   | Repeated_identity \<Rightarrow> ''external_workforce_id repeated within this file''
   | User_exists \<Rightarrow> ''a user with this external_workforce_id already exists - use update''
   | Bad_login \<Rightarrow> ''login_identifier must be a valid email address''
   | Bad_display_name \<Rightarrow> ''display_name is required (max 200 characters)''
   | Bad_date \<Rightarrow> ''start_date/end_date must be YYYY-MM-DD''
   | No_such_user \<Rightarrow> ''no existing user matches this external_workforce_id''
   | Long_display_name \<Rightarrow> ''display_name must be at most 200 characters''
   | Nothing_to_change \<Rightarrow> ''update row has no display_name, start_date, or end_date to change''
   | Bad_reason_code \<Rightarrow> ''reason_code is required (lowercase letters, digits, underscore only)''
   | Bad_membership_action \<Rightarrow> ''action must be add or end''
   | No_team_code \<Rightarrow> ''team_code is required''
   | Repeated_membership \<Rightarrow> ''this external_workforce_id/team_code pair repeats within this file''
   | No_such_team \<Rightarrow> ''no active team matches this team_code''
   | Not_a_member \<Rightarrow> ''user is not a current active member of this team''
   | Bad_assignment_action \<Rightarrow> ''action must be assign or end''
   | Bad_role \<Rightarrow> ''role_code must be one of: agent, manager, team_captain, team_leader, viewer''
   | Bad_scope_type \<Rightarrow> ''scope_type must be installation, organization, or team''
   | No_scope_code \<Rightarrow> ''scope_code is required when scope_type is team''
   | No_such_scope \<Rightarrow> ''no active team matches this scope_code''
   | Repeated_role \<Rightarrow> ''this identity/role/scope combination repeats within this file''
   | No_assignment \<Rightarrow> ''no active assignment matches this identity/role/scope to end''
   | Bad_reporting_action \<Rightarrow> ''action must be set''
   | Bad_supervisor \<Rightarrow> ''supervisor_workforce_id is required and must not contain whitespace''
   | Supervises_self \<Rightarrow> ''a user may not supervise themselves''
   | No_such_supervisor \<Rightarrow> ''no existing user matches supervisor_workforce_id''
   | Supervisor_inactive \<Rightarrow> ''supervisor_workforce_id does not match an active user''
   | No_campaign_code \<Rightarrow> ''campaign_code is required''
   | Repeated_campaign \<Rightarrow>
       ''this external_workforce_id/campaign_code/action repeats within this file''
   | No_such_campaign \<Rightarrow> ''no campaign matches this campaign_code''
   | Has_primary \<Rightarrow> ''agent already has an active primary assignment - use a transfer''
   | No_primary \<Rightarrow> ''agent has no active primary assignment on this campaign''
   | Already_active \<Rightarrow> ''user is already active''
   | Already_inactive \<Rightarrow> ''user is already inactive''
   | Already_member \<Rightarrow> ''already an active member of this team''
   | Already_granted \<Rightarrow> ''user already holds this exact role at this scope''
   | Already_set \<Rightarrow> ''this is already the subordinate'' @ [CHR 0x27] @ ''s active supervisor'')"

section \<open>Verdicts\<close>

definition reject :: "nat \<Rightarrow> string option \<Rightarrow> string \<Rightarrow> row_defect \<Rightarrow> string option \<Rightarrow> wf_verdict" where
  "reject n action external_workforce_id detail conflict =
     \<lparr>wv_row_number = n, wv_action = action,
      wv_external_workforce_id = or_none external_workforce_id, wv_normalized_identity = None,
      wv_parsed_values = None, wv_validation_result = Row_invalid,
      wv_validation_detail = Some (defect_text detail), wv_conflict_type = conflict,
      wv_risk_level = Routine\<rparr>"

definition accept ::
  "nat \<Rightarrow> string \<Rightarrow> string \<Rightarrow> uuid option \<Rightarrow> (string \<times> json) list \<Rightarrow> wf_risk \<Rightarrow> wf_verdict" where
  "accept n action external_workforce_id identity values risk =
     \<lparr>wv_row_number = n, wv_action = Some action, wv_external_workforce_id = Some external_workforce_id,
      wv_normalized_identity = identity, wv_parsed_values = Some values,
      wv_validation_result = Row_valid, wv_validation_detail = None, wv_conflict_type = None,
      wv_risk_level = risk\<rparr>"

definition warn ::
  "nat \<Rightarrow> string \<Rightarrow> string \<Rightarrow> uuid option \<Rightarrow> (string \<times> json) list \<Rightarrow> wf_risk \<Rightarrow> row_defect \<Rightarrow> string
   \<Rightarrow> wf_verdict" where
  "warn n action external_workforce_id identity values risk detail conflict =
     (accept n action external_workforce_id identity values risk)
       \<lparr>wv_validation_result := Row_warning, wv_validation_detail := Some (defect_text detail),
        wv_conflict_type := Some conflict\<rparr>"

text \<open>A verdict after the row's key was recorded, unless the file had it already.\<close>

definition unless_seen ::
  "string \<Rightarrow> string set \<Rightarrow> wf_verdict \<Rightarrow> wf_verdict \<Rightarrow> wf_verdict \<times> string set" where
  "unless_seen key seen repeated verdict =
     (if key \<in> seen then (repeated, seen) else (verdict, insert key seen))"

section \<open>Users\<close>

definition date_json :: "date option \<Rightarrow> json" where
  "date_json v = (case v of None \<Rightarrow> JNull | Some dt \<Rightarrow> JStr (isoformat dt))"

definition classify_create :: "parsed_row \<Rightarrow> db \<Rightarrow> string \<Rightarrow> wf_verdict" where
  "classify_create row d ext =
     (let n = pr_row_number row; login = normalize_email (cell row ''login_identifier'');
          display_name = cell row ''display_name''
      in if lookup_user_id d ext \<noteq> None then reject n (Some ''create'') ext User_exists (Some ''already_exists'')
         else if \<not> valid_email login then reject n (Some ''create'') ext Bad_login None
         else if display_name = '''' \<or> max_display_name_len < length display_name
         then reject n (Some ''create'') ext Bad_display_name None
         else case (parse_date (cell row ''start_date''), parse_date (cell row ''end_date'')) of
             (Some start_date, Some end_date) \<Rightarrow>
               accept n ''create'' ext None
                 [(''login_identifier'', JStr login), (''display_name'', JStr display_name),
                  (''start_date'', date_json start_date), (''end_date'', date_json end_date)] Routine
           | _ \<Rightarrow> reject n (Some ''create'') ext Bad_date None)"

definition update_values :: "string \<Rightarrow> date option \<Rightarrow> date option \<Rightarrow> (string \<times> json) list" where
  "update_values display_name start_date end_date =
     (if display_name = '''' then [] else [(''display_name'', JStr display_name)])
     @ (case start_date of None \<Rightarrow> [] | Some dt \<Rightarrow> [(''start_date'', JStr (isoformat dt))])
     @ (case end_date of None \<Rightarrow> [] | Some dt \<Rightarrow> [(''end_date'', JStr (isoformat dt))])"

definition classify_existing :: "parsed_row \<Rightarrow> db \<Rightarrow> string \<Rightarrow> string \<Rightarrow> wf_verdict" where
  "classify_existing row d action ext =
     (let n = pr_row_number row; display_name = cell row ''display_name'' in
      case lookup_user_id d ext of
        None \<Rightarrow> reject n (Some action) ext No_such_user (Some ''unknown_identity'')
      | Some u \<Rightarrow>
          (if action = ''reactivate''
           then (if lookup_user_active d u
                 then warn n action ext (Some u) [] Routine Already_active ''already_active''
                 else accept n action ext (Some u) [] Routine)
           else case (parse_date (cell row ''start_date''), parse_date (cell row ''end_date'')) of
               (Some start_date, Some end_date) \<Rightarrow>
                 (if max_display_name_len < length display_name
                  then reject n (Some action) ext Long_display_name None
                  else if update_values display_name start_date end_date = []
                  then reject n (Some action) ext Nothing_to_change None
                  else accept n action ext (Some u) (update_values display_name start_date end_date) Routine)
             | _ \<Rightarrow> reject n (Some action) ext Bad_date None))"

definition classify_users_row :: "parsed_row \<Rightarrow> db \<Rightarrow> string set \<Rightarrow> wf_verdict \<times> string set" where
  "classify_users_row row d seen =
     (let n = pr_row_number row; action = lower (cell row ''action'');
          ext = cell row ''external_workforce_id''
      in if \<not> valid_workforce_id ext then (reject n (or_none action) '''' Bad_workforce_id None, seen)
         else if action \<notin> set users_actions
         then (reject n (or_none action) ext
                (if action = ''deactivate'' then Use_deactivations_template else Bad_users_action) None, seen)
         else unless_seen ext seen
                (reject n (Some action) ext Repeated_identity (Some ''duplicate_in_file''))
                (if action = ''create'' then classify_create row d ext
                 else classify_existing row d action ext))"

section \<open>Deactivations\<close>

definition classify_deactivation_row :: "parsed_row \<Rightarrow> db \<Rightarrow> string set \<Rightarrow> wf_verdict \<times> string set" where
  "classify_deactivation_row row d seen =
     (let n = pr_row_number row; ext = cell row ''external_workforce_id'';
          reason_code = cell row ''reason_code''; values = [(''reason_code'', JStr reason_code)]
      in if \<not> valid_workforce_id ext then (reject n (Some ''deactivate'') '''' Bad_workforce_id None, seen)
         else unless_seen ext seen
           (reject n (Some ''deactivate'') ext Repeated_identity (Some ''duplicate_in_file''))
           (if \<not> valid_reason_code reason_code then reject n (Some ''deactivate'') ext Bad_reason_code None
            else case lookup_user_id d ext of
                None \<Rightarrow> reject n (Some ''deactivate'') ext No_such_user (Some ''unknown_identity'')
              | Some u \<Rightarrow>
                  (if \<not> lookup_user_active d u
                   then warn n ''deactivate'' ext (Some u) values High_risk Already_inactive ''already_inactive''
                   else accept n ''deactivate'' ext (Some u) values High_risk)))"

section \<open>Team memberships\<close>

definition classify_team_membership_row :: "parsed_row \<Rightarrow> db \<Rightarrow> string set \<Rightarrow> wf_verdict \<times> string set" where
  "classify_team_membership_row row d seen =
     (let n = pr_row_number row; action = lower (cell row ''action'');
          ext = cell row ''external_workforce_id''; team_code = cell row ''team_code'';
          reason_code = or_none (cell row ''reason_code'')
      in if \<not> valid_workforce_id ext then (reject n (or_none action) '''' Bad_workforce_id None, seen)
         else if action \<notin> set team_membership_actions
         then (reject n (or_none action) ext Bad_membership_action None, seen)
         else if team_code = '''' then (reject n (Some action) ext No_team_code None, seen)
         else unless_seen (ext @ '':'' @ team_code) seen
           (reject n (Some action) ext Repeated_membership (Some ''duplicate_in_file''))
           (case lookup_team d team_code of
              None \<Rightarrow> reject n (Some action) ext No_such_team (Some ''unknown_team'')
            | Some t \<Rightarrow>
                (case lookup_user_id d ext of
                   None \<Rightarrow> reject n (Some action) ext No_such_user (Some ''unknown_identity'')
                 | Some u \<Rightarrow>
                     (let member = list_ex (open_membership (te_id t) u) (team_memberships d) in
                      if action = ''add'' \<and> member
                      then warn n action ext (Some u) [(''team_id'', JId (te_id t))] Routine
                             Already_member ''already_member''
                      else if action = ''end'' \<and> \<not> member
                      then reject n (Some action) ext Not_a_member (Some ''not_a_member'')
                      else accept n action ext (Some u)
                             [(''team_id'', JId (te_id t)), (''reason_code'', or_null reason_code)] Routine))))"

section \<open>Role assignments\<close>

text \<open>The scope a row names: \<open>scope_id\<close> is set for a team scope only.\<close>

definition row_scope :: "parsed_row \<Rightarrow> db \<Rightarrow> string \<Rightarrow> (row_defect \<times> string option) + uuid option" where
  "row_scope row d scope_type =
     (if scope_type = ''team''
      then if cell row ''scope_code'' = '''' then Inl (No_scope_code, None)
           else case lookup_team d (cell row ''scope_code'') of
               None \<Rightarrow> Inl (No_such_scope, Some ''unknown_team'')
             | Some t \<Rightarrow> Inr (Some (te_id t))
      else Inr None)"

definition scope_text :: "uuid option \<Rightarrow> string" where
  "scope_text si = (case si of None \<Rightarrow> ''None'' | Some i \<Rightarrow> str_int (int i))"

definition classify_role ::
  "nat \<Rightarrow> string \<Rightarrow> string \<Rightarrow> string \<Rightarrow> string \<Rightarrow> uuid option \<Rightarrow> string \<Rightarrow> db \<Rightarrow> wf_verdict" where
  "classify_role n action ext role_code scope_type scope_id reason_code d =
     (case lookup_user_id d ext of
        None \<Rightarrow> reject n (Some action) ext No_such_user (Some ''unknown_identity'')
      | Some u \<Rightarrow>
          (let held = list_ex (open_grant u role_code scope_type scope_id) (role_assignments d);
               values = [(''role_code'', JStr role_code), (''scope_type'', JStr scope_type),
                         (''scope_id'', scope_json scope_id), (''reason_code'', JStr reason_code)]
           in if action = ''assign'' \<and> held
              then warn n action ext (Some u) values High_risk Already_granted ''already_granted''
              else if action = ''end'' \<and> \<not> held
              then reject n (Some action) ext No_assignment (Some ''not_assigned'')
              else accept n action ext (Some u) values
                     (if action = ''assign'' then High_risk else Routine)))"

definition classify_role_assignment_row :: "parsed_row \<Rightarrow> db \<Rightarrow> string set \<Rightarrow> wf_verdict \<times> string set" where
  "classify_role_assignment_row row d seen =
     (let n = pr_row_number row; action = lower (cell row ''action'');
          ext = cell row ''external_workforce_id''; role_code = lower (cell row ''role_code'');
          scope_type = lower (cell row ''scope_type''); reason_code = cell row ''reason_code''
      in if \<not> valid_workforce_id ext then (reject n (or_none action) '''' Bad_workforce_id None, seen)
         else if action \<notin> set role_assignment_actions
         then (reject n (or_none action) ext Bad_assignment_action None, seen)
         else if role_code \<notin> fst ` set role_appointment_capability
         then (reject n (Some action) ext Bad_role (Some ''unknown_role''), seen)
         else if scope_type \<notin> set scope_types then (reject n (Some action) ext Bad_scope_type None, seen)
         else if \<not> valid_reason_code reason_code then (reject n (Some action) ext Bad_reason_code None, seen)
         else case row_scope row d scope_type of
             Inl (defect, conflict) \<Rightarrow> (reject n (Some action) ext defect conflict, seen)
           | Inr scope_id \<Rightarrow>
               unless_seen (ext @ '':'' @ role_code @ '':'' @ scope_type @ '':'' @ scope_text scope_id) seen
                 (reject n (Some action) ext Repeated_role (Some ''duplicate_in_file''))
                 (classify_role n action ext role_code scope_type scope_id reason_code d))"

section \<open>Reporting lines\<close>

definition primary_supervisor :: "db \<Rightarrow> uuid \<Rightarrow> uuid option" where
  "primary_supervisor d user_id = map_option rp_supervisor_user_id
     (find (open_primary_line user_id ''organization'' None) (reporting_assignments d))"

definition classify_reporting_assignment_row ::
  "parsed_row \<Rightarrow> db \<Rightarrow> string set \<Rightarrow> wf_verdict \<times> string set" where
  "classify_reporting_assignment_row row d seen =
     (let n = pr_row_number row; ext = cell row ''external_workforce_id'';
          sup_ext = cell row ''supervisor_workforce_id'';
          reason_code = or_none (cell row ''reason_code'');
          given = (case pr_values row ''action'' of None \<Rightarrow> '''' | Some s \<Rightarrow> s);
          action = lower (clean (Some (if given = '''' then ''set'' else given)))
      in if \<not> valid_workforce_id ext then (reject n (or_none action) '''' Bad_workforce_id None, seen)
         else if action \<noteq> ''set'' then (reject n (Some action) ext Bad_reporting_action None, seen)
         else if \<not> valid_workforce_id sup_ext then (reject n (Some action) ext Bad_supervisor None, seen)
         else if ext = sup_ext then (reject n (Some action) ext Supervises_self None, seen)
         else unless_seen ext seen
           (reject n (Some action) ext Repeated_identity (Some ''duplicate_in_file''))
           (case lookup_user_id d ext of
              None \<Rightarrow> reject n (Some action) ext No_such_user (Some ''unknown_identity'')
            | Some u \<Rightarrow>
                (case lookup_user_id d sup_ext of
                   None \<Rightarrow> reject n (Some action) ext No_such_supervisor (Some ''unknown_supervisor'')
                 | Some s \<Rightarrow>
                     (let values = [(''supervisor_user_id'', JId s), (''reason_code'', or_null reason_code)] in
                      if \<not> lookup_user_active d s
                      then reject n (Some action) ext Supervisor_inactive (Some ''unknown_supervisor'')
                      else if primary_supervisor d u = Some s
                      then warn n action ext (Some u) values Routine Already_set ''already_set''
                      else accept n action ext (Some u) values Routine))))"

section \<open>Campaign assignments\<close>

definition classify_campaign_assignment_row ::
  "parsed_row \<Rightarrow> db \<Rightarrow> string set \<Rightarrow> wf_verdict \<times> string set" where
  "classify_campaign_assignment_row row d seen =
     (let n = pr_row_number row; action = lower (cell row ''action'');
          ext = cell row ''external_workforce_id''; campaign_code = cell row ''campaign_code'';
          team_code = or_none (cell row ''team_code''); reason_code = or_none (cell row ''reason_code'')
      in if \<not> valid_workforce_id ext then (reject n (or_none action) '''' Bad_workforce_id None, seen)
         else if action \<notin> set campaign_assignment_actions
         then (reject n (or_none action) ext Bad_assignment_action None, seen)
         else if campaign_code = '''' then (reject n (Some action) ext No_campaign_code None, seen)
         else unless_seen (ext @ '':'' @ campaign_code @ '':'' @ action) seen
           (reject n (Some action) ext Repeated_campaign (Some ''duplicate_in_file''))
           (case lookup_campaign d campaign_code of
              None \<Rightarrow> reject n (Some action) ext No_such_campaign (Some ''unknown_campaign'')
            | Some ca \<Rightarrow>
                (case lookup_user_id d ext of
                   None \<Rightarrow> reject n (Some action) ext No_such_user (Some ''unknown_identity'')
                 | Some u \<Rightarrow>
                     (let found = (case team_code of None \<Rightarrow> Some None
                            | Some tc \<Rightarrow> map_option (\<lambda>t. Some (te_id t)) (lookup_team d tc));
                          primary = map_option ua_campaign_id (find (active_primary u) (user_assignments d))
                      in case found of
                           None \<Rightarrow> reject n (Some action) ext No_such_team (Some ''unknown_team'')
                         | Some team_id \<Rightarrow>
                             (let values = [(''campaign_id'', JId (ca_id ca)), (''team_id'', scope_json team_id),
                                            (''reason_code'', or_null reason_code)] in
                              if action = ''assign''
                              then (if primary \<noteq> None
                                    then reject n (Some action) ext Has_primary (Some ''already_assigned'')
                                    else accept n action ext (Some u) values Routine)
                              else if primary \<noteq> Some (ca_id ca)
                              then reject n (Some action) ext No_primary (Some ''not_assigned'')
                              else accept n action ext (Some u) values Routine)))))"

end
