(* ===== verification/Wf_Parse.thy ===== *)
theory Wf_Parse
  imports Wf_Authority Wf_Classify Imports Notifications
begin

text \<open>
  Bulk workforce imports up to the decision (\<open>app/workforce_imports/service.py\<close>): upload, parsing
  with the authorization footprint, the preview, and telling the people who can approve. The text of
  a missing or unknown column is its name; a set of names is sorted as the messages sort it.
\<close>

section \<open>Columns\<close>

definition import_types :: "string list" where
  "import_types = [''users'', ''explicit_deactivations'', ''team_memberships'', ''role_assignments'',
     ''reporting_assignments'', ''campaign_user_assignments'']"

definition required_columns :: "(string \<times> string list) list" where
  "required_columns =
     [(''users'', [''action'', ''external_workforce_id'', ''login_identifier'', ''display_name'']),
      (''explicit_deactivations'', [''external_workforce_id'', ''reason_code'']),
      (''team_memberships'', [''action'', ''external_workforce_id'', ''team_code'']),
      (''role_assignments'',
         [''action'', ''external_workforce_id'', ''role_code'', ''scope_type'', ''reason_code'']),
      (''reporting_assignments'', [''external_workforce_id'', ''supervisor_workforce_id'']),
      (''campaign_user_assignments'', [''action'', ''external_workforce_id'', ''campaign_code''])]"

definition optional_columns :: "(string \<times> string list) list" where
  "optional_columns =
     [(''users'', [''start_date'', ''end_date'']), (''explicit_deactivations'', []),
      (''team_memberships'', [''reason_code'']), (''role_assignments'', [''scope_code'']),
      (''reporting_assignments'', [''reason_code'', ''action'']),
      (''campaign_user_assignments'', [''team_code'', ''reason_code''])]"

definition columns_of :: "(string \<times> string list) list \<Rightarrow> string \<Rightarrow> string list" where
  "columns_of table t = (case map_of table t of None \<Rightarrow> [] | Some cs \<Rightarrow> cs)"

definition allowed_columns :: "string \<Rightarrow> string list" where
  "allowed_columns t = columns_of required_columns t @ columns_of optional_columns t"

definition classify_wf_row :: "string \<Rightarrow> parsed_row \<Rightarrow> db \<Rightarrow> string set \<Rightarrow> wf_verdict \<times> string set" where
  "classify_wf_row t =
     (if t = ''users'' then classify_users_row
      else if t = ''explicit_deactivations'' then classify_deactivation_row
      else if t = ''team_memberships'' then classify_team_membership_row
      else if t = ''role_assignments'' then classify_role_assignment_row
      else if t = ''reporting_assignments'' then classify_reporting_assignment_row
      else classify_campaign_assignment_row)"

definition upload_capabilities :: "string set" where
  "upload_capabilities = set (map snd role_appointment_capability) \<union> {''assign_campaign_agent''}"

section \<open>Errors\<close>

datatype wf_error =
  Wf_unknown_type string | Wf_flag flag_error | Wf_upload_rejected upload_error
| Wf_upload_validation upload_error | Wf_source_missing | Wf_csv_error read_error
| Wf_not_found | Wf_not_ready job_state | Wf_other_key | Wf_not_approved | Wf_no_high_risk_approval
| Wf_only_committed | Wf_already_reversed | Wf_stale_version | Wf_self_approval
| Wf_insufficient_authority | Wf_blocking_errors nat | Wf_unacknowledged_warnings nat
| Wf_bad_decision | Wf_bad_tier | Wf_no_high_risk_rows | Wf_bad_footprint
| Wf_key_error string | Wf_bad_date string | Wf_no_row | Wf_many_rows | Wf_workforce workforce_error

definition get_wf_job :: "db \<Rightarrow> uuid \<Rightarrow> wf_job option" where
  "get_wf_job d i = row_get wj_id i (wf_jobs d)"

definition put_wf_job :: "wf_job \<Rightarrow> db \<Rightarrow> db" where
  "put_wf_job j d = d\<lparr>wf_jobs := row_put wj_id j (wf_jobs d)\<rparr>"

interpretation wf_job_table: row_table get_wf_job put_wf_job wj_id
  by unfold_locales (auto simp: get_wf_job_def put_wf_job_def row_get_put dest: row_get_Some)

definition job_audit ::
  "string \<Rightarrow> string \<Rightarrow> uuid \<Rightarrow> uuid \<Rightarrow> string option \<Rightarrow> (string \<times> json) list \<Rightarrow> db \<Rightarrow> db" where
  "job_audit action outcome actor job_id reason metadata d =
     record_audit action outcome (Some actor) (Some ''workforce_import_job'') (Some job_id) reason metadata d"

section \<open>Upload\<close>

definition create_wf_job ::
  "crypto \<Rightarrow> file_lib \<Rightarrow> env \<Rightarrow> settings \<Rightarrow> string \<Rightarrow> uuid \<Rightarrow> string \<Rightarrow> string list \<Rightarrow> storage \<Rightarrow> db
   \<Rightarrow> (wf_error, wf_job, storage \<times> db) outcome" where
  "create_wf_job c fl e cfg import_type uploader_id display_filename file_chunks st d =
     (if import_type \<notin> set import_types then Inl (Wf_unknown_type import_type)
      else case require_enabled d ''workforce_import_enabled'' of
        Some err \<Rightarrow> Inl (Wf_flag err)
      | None \<Rightarrow>
          (case check_extension display_filename of
             Inl err \<Rightarrow> Inl (Wf_upload_validation err)
           | Inr _ \<Rightarrow>
               let storage_key = fresh_token e 0 in
               (case write_streamed (sha256_hex c) storage_key file_chunks (upload_max_bytes cfg) st of
                  Inl err \<Rightarrow> Inl (Wf_upload_rejected err)
                | Inr ((nbytes, file_hash), st1) \<Rightarrow>
                    (case validate_upload fl cfg (the (st1 storage_key)) display_filename of
                       Inl err \<Rightarrow> Inl (Wf_upload_rejected err)
                     | Inr _ \<Rightarrow>
                         let job = \<lparr>wj_id = fresh_id e 0, wj_import_type = import_type,
                               wj_uploader_id = uploader_id,
                               wj_source_filename_display = truncate_filename display_filename 255,
                               wj_generated_storage_key = storage_key, wj_file_hash = file_hash,
                               wj_state = Quarantined, wj_total_rows = 0, wj_valid_rows = 0,
                               wj_warning_rows = 0, wj_invalid_rows = 0, wj_high_risk_rows = 0,
                               wj_decision_version = 0, wj_idempotency_key = None,
                               wj_error_summary = None,
                               wj_expires_at = Some (clk e 0 + hours (import_expiry_hours cfg)),
                               wj_committed_at = None, wj_reversed_at = None,
                               wj_committed_result = None, wj_footprint = None,
                               wj_created_at = clk e 1\<rparr>
                         in Inr (job, st1,
                              job_audit ''workforce_import.upload'' ''success'' uploader_id (wj_id job) None
                                [(''import_type'', JStr import_type), (''file_hash'', JStr file_hash),
                                 (''size'', JInt (int nbytes))]
                                (d\<lparr>wf_jobs := wf_jobs d @ [job]\<rparr>))))))"

section \<open>Parsing\<close>

definition wf_staged_row :: "env \<Rightarrow> uuid \<Rightarrow> wf_verdict \<Rightarrow> wf_row" where
  "wf_staged_row e job_id v =
     \<lparr>wr_id = fresh_id e (wv_row_number v), wr_import_job_id = job_id, wr_row_number = wv_row_number v,
      wr_action = wv_action v, wr_external_workforce_id = wv_external_workforce_id v,
      wr_normalized_identity = wv_normalized_identity v, wr_parsed_values = wv_parsed_values v,
      wr_validation_result = wv_validation_result v, wr_validation_detail = wv_validation_detail v,
      wr_conflict_type = wv_conflict_type v, wr_risk_level = wv_risk_level v,
      wr_committed_entity_type = None, wr_committed_entity_id = None,
      wr_pre_commit_snapshot = None, wr_reversed_at = None\<rparr>"

fun classify_wf_rows :: "string \<Rightarrow> db \<Rightarrow> string set \<Rightarrow> parsed_row list \<Rightarrow> wf_verdict list" where
  "classify_wf_rows t d seen [] = []"
| "classify_wf_rows t d seen (row # rows) =
     (let (v, seen') = classify_wf_row t row d seen in v # classify_wf_rows t d seen' rows)"

record wf_counts =
  wc_total :: nat
  wc_valid :: nat
  wc_warning :: nat
  wc_invalid :: nat
  wc_high_risk :: nat

definition no_wf_counts :: wf_counts where
  "no_wf_counts = \<lparr>wc_total = 0, wc_valid = 0, wc_warning = 0, wc_invalid = 0, wc_high_risk = 0\<rparr>"

definition count_wf_row :: "wf_row \<Rightarrow> wf_counts \<Rightarrow> wf_counts" where
  "count_wf_row r n =
     (let n = n\<lparr>wc_total := wc_total n + 1\<rparr>;
          n = (case wr_validation_result r of
                 Row_invalid \<Rightarrow> n\<lparr>wc_invalid := wc_invalid n + 1\<rparr>
               | Row_warning \<Rightarrow> n\<lparr>wc_warning := wc_warning n + 1\<rparr>
               | Row_valid \<Rightarrow> n\<lparr>wc_valid := wc_valid n + 1\<rparr>)
      in if wr_risk_level r = High_risk \<and> wr_validation_result r = Row_valid
         then n\<lparr>wc_high_risk := wc_high_risk n + 1\<rparr> else n)"

datatype wf_parse_error =
  Missing_columns "string list" | Unknown_columns "string list" | Wf_parse parse_error

fun join_names :: "string list \<Rightarrow> string" where
  "join_names [] = ''''"
| "join_names [x] = x"
| "join_names (x # xs) = x @ '', '' @ join_names xs"

definition wf_parse_error_text :: "wf_parse_error \<Rightarrow> string" where
  "wf_parse_error_text err =
     (case err of
        Missing_columns cs \<Rightarrow> ''file header is missing required column(s): '' @ join_names cs
          @ '' - download the current template''
      | Unknown_columns cs \<Rightarrow> ''file header has unrecognized column(s): '' @ join_names cs
          @ '' - download the current template''
      | Wf_parse e \<Rightarrow> parse_error_text e)"

definition wf_parse_failure :: "string \<Rightarrow> wf_job \<Rightarrow> db \<Rightarrow> db" where
  "wf_parse_failure txt job d =
     job_audit ''workforce_import.parse'' ''failure'' (wj_uploader_id job) (wj_id job) (Some (take 50 txt)) []
       (put_wf_job (job\<lparr>wj_state := Failed, wj_error_summary := Some (take 1000 txt)\<rparr>) d)"

definition fail_wf_parse :: "wf_parse_error \<Rightarrow> wf_job \<Rightarrow> db \<Rightarrow> wf_error + db" where
  "fail_wf_parse err job d =
     (case (case err of Wf_parse e \<Rightarrow> escapes e | _ \<Rightarrow> None) of
        Some f \<Rightarrow> Inl (Wf_csv_error f)
      | None \<Rightarrow> Inr (wf_parse_failure (wf_parse_error_text err) job d))"

text \<open>The check of the header, before any row is read.\<close>

definition header_fault :: "string \<Rightarrow> string list \<Rightarrow> wf_parse_error option" where
  "header_fault t header =
     (let missing = sort (remdups (filter (\<lambda>c. c \<notin> set header) (columns_of required_columns t)));
          unknown = sort (remdups (filter (\<lambda>c. c \<notin> set (allowed_columns t)) header))
      in if missing \<noteq> [] then Some (Missing_columns missing)
         else if unknown \<noteq> [] then Some (Unknown_columns unknown) else None)"

section \<open>Telling the approvers\<close>

definition uploader_can_self_approve_routine :: "db \<Rightarrow> wf_job \<Rightarrow> time \<Rightarrow> bool" where
  "uploader_can_self_approve_routine d job now =
     rows_authorized d job (wj_uploader_id job) Routine now"

text \<open>The file name between typographic quotation marks, which are three bytes each.\<close>

definition quoted :: "string \<Rightarrow> string" where
  "quoted s = [CHR 0xE2, CHR 0x80, CHR 0x9C] @ s @ [CHR 0xE2, CHR 0x80, CHR 0x9D]"

definition job_notice :: "env \<Rightarrow> nat \<Rightarrow> uuid \<Rightarrow> string \<Rightarrow> string \<Rightarrow> string \<Rightarrow> wf_job \<Rightarrow> db \<Rightarrow> db" where
  "job_notice e k recipient category title body job d =
     snd (notify (fresh_id e k) (clk e k) recipient category title (Some body)
            (Some ''workforce_import_job'') (Some (wj_id job)) d)"

definition review_notice :: "env \<Rightarrow> nat \<Rightarrow> uuid \<Rightarrow> string \<Rightarrow> wf_job \<Rightarrow> db \<Rightarrow> db" where
  "review_notice e k recipient body job d =
     job_notice e k recipient ''workforce_import.needs_review''
       (''An import needs your review: '' @ quoted (wj_source_filename_display job)) body job d"

text \<open>The candidates in some order: here, the order of their identifiers.\<close>

fun notify_candidates :: "env \<Rightarrow> nat \<Rightarrow> time \<Rightarrow> string \<Rightarrow> wf_job \<Rightarrow> uuid list \<Rightarrow> db \<Rightarrow> wf_error + db" where
  "notify_candidates e k now body job [] d = Inr d"
| "notify_candidates e k now body job (u # us) d =
     (if u = wj_uploader_id job then notify_candidates e k now body job us d
      else case can_access_job d u job now of
          Inl _ \<Rightarrow> Inl Wf_bad_footprint
        | Inr False \<Rightarrow> notify_candidates e k now body job us d
        | Inr True \<Rightarrow> notify_candidates e (Suc k) now body job us (review_notice e k u body job d))"

definition review_reason :: "db \<Rightarrow> wf_job \<Rightarrow> time \<Rightarrow> string option" where
  "review_reason d job now =
     (if 0 < wj_high_risk_rows job
      then Some (str_int (int (wj_high_risk_rows job))
             @ '' high-risk row(s) require a second approver who is not the uploader.'')
      else if \<not> uploader_can_self_approve_routine d job now
      then Some (''This import has rows the uploader is not authorized to approve, so it ''
             @ ''needs an approver with authority over them.'')
      else None)"

definition notify_pending_approvers :: "env \<Rightarrow> nat \<Rightarrow> time \<Rightarrow> wf_job \<Rightarrow> db \<Rightarrow> wf_error + db" where
  "notify_pending_approvers e k now job d =
     (case review_reason d job now of
        None \<Rightarrow> Inr d
      | Some body \<Rightarrow> notify_candidates e k now body job
          (sorted_list_of_set (users_with_any_capability d upload_capabilities now)) d)"

section \<open>The parse task\<close>

definition parsed_wf_job :: "wf_counts \<Rightarrow> wf_footprint \<Rightarrow> wf_job \<Rightarrow> wf_job" where
  "parsed_wf_job n fp job =
     job\<lparr>wj_total_rows := wc_total n, wj_valid_rows := wc_valid n, wj_warning_rows := wc_warning n,
        wj_invalid_rows := wc_invalid n, wj_high_risk_rows := wc_high_risk n,
        wj_footprint := Some fp, wj_state := Parsed\<rparr>"

definition parse_wf_job :: "env \<Rightarrow> file_lib \<Rightarrow> settings \<Rightarrow> storage \<Rightarrow> uuid \<Rightarrow> db \<Rightarrow> wf_error + db" where
  "parse_wf_job e fl cfg st job_id d =
     (case get_wf_job d job_id of
        None \<Rightarrow> Inr d
      | Some job0 \<Rightarrow>
          (if wj_state job0 \<noteq> Quarantined then Inr d
           else
             let job = job0\<lparr>wj_state := Parsing\<rparr>; d1 = put_wf_job job d in
             case check_extension (wj_source_filename_display job) of
               Inl err \<Rightarrow> Inl (Wf_upload_validation err)
             | Inr ext \<Rightarrow>
                 (case st (wj_generated_storage_key job) of
                    None \<Rightarrow> Inl Wf_source_missing
                  | Some content \<Rightarrow>
                      (case read_header fl cfg ext content of
                         Inl err \<Rightarrow> fail_wf_parse (Wf_parse err) job d1
                       | Inr header \<Rightarrow>
                           (case header_fault (wj_import_type job) header of
                              Some err \<Rightarrow> fail_wf_parse err job d1
                            | None \<Rightarrow>
                                let (rows, fault) = parse_file fl cfg ext content;
                                    staged = map (wf_staged_row e (wj_id job))
                                      (classify_wf_rows (wj_import_type job) d1 {} rows);
                                    n = fold count_wf_row staged no_wf_counts;
                                    fp = fold (\<lambda>r. note_requirement (row_requirement job r)) staged (False, []);
                                    d2 = d1\<lparr>wf_rows := wf_rows d1 @ flushed_rows fault staged\<rparr>
                                in case fault of
                                     Some err \<Rightarrow> fail_wf_parse (Wf_parse err) job d2
                                   | None \<Rightarrow>
                                       (if wc_total n = 0 then fail_wf_parse (Wf_parse No_data_rows) job d2
                                        else
                                          let job' = parsed_wf_job n (footprint_of fp) job
                                          in notify_pending_approvers e (Suc (length staged)) (clk e 0) job'
                                               (job_audit ''workforce_import.parse'' ''success''
                                                  (wj_uploader_id job) (wj_id job) None
                                                  [(''total'', JInt (int (wc_total n))),
                                                   (''valid'', JInt (int (wc_valid n))),
                                                   (''invalid'', JInt (int (wc_invalid n))),
                                                   (''high_risk'', JInt (int (wc_high_risk n)))]
                                                  (put_wf_job job' d2))))))))"

definition wf_preview :: "wf_job \<Rightarrow> db \<Rightarrow> wf_row list" where
  "wf_preview job d =
     take 5 (sort_key wr_row_number (filter (\<lambda>r. wr_validation_result r = Row_invalid) (job_rows d job)))"

end
