(* ===== verification/Wf_Commit.thy ===== *)
theory Wf_Commit
  imports Wf_Parse
begin

text \<open>
  Deciding and committing a bulk workforce import (\<open>app/workforce_imports/service.py\<close>). A commit
  function returns the row as it leaves it and its outcome; the \<open>k\<close>-th row of a loop reads the
  clock and draws identifiers from its own part of the call's supply.
\<close>

section \<open>Decisions\<close>

definition qualified_high_risk_approver :: "db \<Rightarrow> wf_job \<Rightarrow> uuid \<Rightarrow> time \<Rightarrow> wf_error option" where
  "qualified_high_risk_approver d job approver_id now =
     (if approver_id = wj_uploader_id job then Some Wf_self_approval
      else if \<not> rows_authorized d job approver_id High_risk now then Some Wf_insufficient_authority
      else None)"

definition assert_job_accessible :: "db \<Rightarrow> wf_job \<Rightarrow> uuid \<Rightarrow> time \<Rightarrow> wf_error option" where
  "assert_job_accessible d job actor_id now =
     (case can_access_job d actor_id job now of
        Inl _ \<Rightarrow> Some Wf_bad_footprint
      | Inr ok \<Rightarrow> if ok then None else Some Wf_insufficient_authority)"

text \<open>Everything \<open>record_decision\<close> checks before it writes.\<close>

definition decision_guard ::
  "db \<Rightarrow> wf_job \<Rightarrow> uuid \<Rightarrow> string \<Rightarrow> string \<Rightarrow> bool \<Rightarrow> time \<Rightarrow> wf_error option" where
  "decision_guard d job decided_by decision tier acknowledge_warnings now =
     (case assert_job_accessible d job decided_by now of
        Some err \<Rightarrow> Some err
      | None \<Rightarrow>
          (if wj_state job \<noteq> Parsed then Some (Wf_not_ready (wj_state job))
           else if decision \<notin> {''approve'', ''reject'', ''cancel''} then Some Wf_bad_decision
           else if tier \<notin> {''standard'', ''high_risk''} then Some Wf_bad_tier
           else if tier = ''high_risk'' \<and> wj_high_risk_rows job = 0 then Some Wf_no_high_risk_rows
           else
             case (if decision \<noteq> ''approve'' then None
                   else if tier = ''high_risk'' then qualified_high_risk_approver d job decided_by now
                   else if rows_authorized d job decided_by Routine now then None
                   else Some Wf_insufficient_authority) of
               Some err \<Rightarrow> Some err
             | None \<Rightarrow>
                 (if decision = ''approve'' \<and> 0 < wj_invalid_rows job
                  then Some (Wf_blocking_errors (wj_invalid_rows job))
                  else if decision = ''approve'' \<and> 0 < wj_warning_rows job \<and> \<not> acknowledge_warnings
                  then Some (Wf_unacknowledged_warnings (wj_warning_rows job))
                  else None)))"

definition decision_past_tense :: "string \<Rightarrow> string" where
  "decision_past_tense s = (if s = ''approve'' then ''approved'' else if s = ''reject'' then ''rejected''
     else if s = ''cancel'' then ''cancelled'' else s)"

definition record_wf_decision ::
  "env \<Rightarrow> uuid \<Rightarrow> uuid \<Rightarrow> string \<Rightarrow> string \<Rightarrow> string option \<Rightarrow> bool \<Rightarrow> db
   \<Rightarrow> (wf_error, wf_decision, db) outcome" where
  "record_wf_decision e job_id decided_by decision tier note acknowledge_warnings d =
     (case get_wf_job d job_id of
        None \<Rightarrow> Inl Wf_not_found
      | Some job \<Rightarrow>
          (case decision_guard d job decided_by decision tier acknowledge_warnings (clk e 0) of
             Some err \<Rightarrow> Inl err
           | None \<Rightarrow>
               let job' = job\<lparr>wj_decision_version := wj_decision_version job + 1\<rparr>;
                   row = \<lparr>wd_import_job_id = wj_id job, wd_decision_version = wj_decision_version job',
                          wd_decision = decision, wd_decision_tier = tier,
                          wd_decided_by = decided_by, wd_note = note\<rparr>;
                   d1 = job_audit ''workforce_import.decide'' ''success'' decided_by (wj_id job)
                          (Some decision) [(''decision_tier'', JStr tier)]
                          ((put_wf_job job' d)\<lparr>wf_decisions := wf_decisions d @ [row]\<rparr>)
               in Inr (row, if decided_by = wj_uploader_id job then d1
                     else job_notice e 1 (wj_uploader_id job) ''workforce_import.decision''
                       (''Your import '' @ quoted (wj_source_filename_display job) @ '' was ''
                          @ decision_past_tense decision)
                       (''A '' @ map (\<lambda>c. if c = CHR ''_'' then CHR ''-'' else c) tier
                          @ '' decision was recorded on your bulk import.'') job d1)))"

definition latest_wf_decision :: "db \<Rightarrow> wf_job \<Rightarrow> string \<Rightarrow> wf_decision option" where
  "latest_wf_decision d job tier =
     first_by (\<lambda>x. - wd_decision_version x)
       (filter (\<lambda>x. wd_import_job_id x = wj_id job \<and> wd_decision_tier x = tier) (wf_decisions d))"

definition current_decisions :: "db \<Rightarrow> wf_job \<Rightarrow> wf_decision option \<times> wf_decision option" where
  "current_decisions d job =
     (latest_wf_decision d job ''standard'',
      if wj_high_risk_rows job \<noteq> 0 then latest_wf_decision d job ''high_risk'' else None)"

section \<open>Row outcomes\<close>

text \<open>\<open>None\<close> where the code returns no outcome; otherwise the outcome and a one-time token.\<close>

type_synonym row_outcome = "(string \<times> string option) option"

definition skipped :: "string \<Rightarrow> wf_row \<Rightarrow> wf_row \<times> row_outcome" where
  "skipped conflict row = (row\<lparr>wr_conflict_type := Some conflict\<rparr>, Some (''skipped_conflict'', None))"

definition wrote :: "string \<Rightarrow> uuid \<Rightarrow> wf_row \<Rightarrow> wf_row" where
  "wrote entity_type entity_id row =
     row\<lparr>wr_committed_entity_type := Some entity_type, wr_committed_entity_id := Some entity_id\<rparr>"

text \<open>\<open>scalar_one_or_none\<close> and \<open>scalar_one\<close>\<close>

definition one_or_none :: "'r list \<Rightarrow> wf_error + 'r option" where
  "one_or_none rs = (case rs of [] \<Rightarrow> Inr None | [r] \<Rightarrow> Inr (Some r) | _ \<Rightarrow> Inl Wf_many_rows)"

definition need_uuid :: "wf_row \<Rightarrow> string \<Rightarrow> wf_error + uuid" where
  "need_uuid row key = (case row_value row key of JId i \<Rightarrow> Inr i | _ \<Rightarrow> Inl (Wf_key_error key))"

definition need_text :: "wf_row \<Rightarrow> string \<Rightarrow> wf_error + string" where
  "need_text row key = (case row_value row key of JStr s \<Rightarrow> Inr s | _ \<Rightarrow> Inl (Wf_key_error key))"

section \<open>Users\<close>

text \<open>A field as \<open>getattr\<close> and \<open>isoformat\<close> give it, and the change a stored value makes.\<close>

definition user_field :: "string \<Rightarrow> user \<Rightarrow> json" where
  "user_field field u =
     (if field = ''display_name'' then JStr (us_display_name u)
      else if field = ''start_date'' then date_json (us_start_date u)
      else if field = ''end_date'' then date_json (us_end_date u)
      else JNull)"

definition json_date :: "json \<Rightarrow> wf_error + date option" where
  "json_date v = (case v of
       JStr s \<Rightarrow> if s = '''' then Inr None
                else (case fromisoformat s of None \<Rightarrow> Inl (Wf_bad_date s) | Some dt \<Rightarrow> Inr (Some dt))
     | _ \<Rightarrow> Inr None)"

text \<open>At commit a date field always has a text; a restored one may be null.\<close>

definition stored_date :: "json \<Rightarrow> wf_error + date option" where
  "stored_date v = (case v of
       JStr s \<Rightarrow> (case fromisoformat s of None \<Rightarrow> Inl (Wf_bad_date s) | Some dt \<Rightarrow> Inr (Some dt))
     | _ \<Rightarrow> Inl (Wf_bad_date ''''))"

definition field_change ::
  "(json \<Rightarrow> wf_error + date option) \<Rightarrow> string \<times> json \<Rightarrow> wf_error + user_change" where
  "field_change read_date fv =
     (case fv of (field, v) \<Rightarrow>
        if field = ''start_date'' then map_sum id Set_start_date (read_date v)
        else if field = ''end_date'' then map_sum id Set_end_date (read_date v)
        else if field = ''display_name''
        then Inr (Set_display_name (case v of JStr s \<Rightarrow> s | _ \<Rightarrow> ''''))
        else Inr (Set_other field))"

fun all_right :: "('e + 'a) list \<Rightarrow> 'e + 'a list" where
  "all_right [] = Inr []"
| "all_right (x # xs) =
     (case x of Inl err \<Rightarrow> Inl err
      | Inr a \<Rightarrow> (case all_right xs of Inl err \<Rightarrow> Inl err | Inr as \<Rightarrow> Inr (a # as)))"

definition values_of :: "wf_row \<Rightarrow> (string \<times> json) list" where
  "values_of row = (case wr_parsed_values row of None \<Rightarrow> [] | Some vs \<Rightarrow> vs)"

definition commit_user_create ::
  "crypto \<Rightarrow> env \<Rightarrow> wf_row \<Rightarrow> uuid \<Rightarrow> db \<Rightarrow> (wf_error, wf_row \<times> row_outcome, db) outcome" where
  "commit_user_create c e row actor_id d =
     (let deferred = is_enabled d ''deferred_bulk_activation_enabled'' in
      case (need_text row ''login_identifier'', need_text row ''display_name'') of
        (Inr login, Inr display_name) \<Rightarrow>
          (case create_user c e login display_name (wr_external_workforce_id row) actor_id (\<not> deferred) d of
             Inl Duplicate_identity \<Rightarrow> Inr (skipped ''already_exists'' row, d)
           | Inl err \<Rightarrow> Inl (Wf_workforce err)
           | Inr ((u, token), d1) \<Rightarrow>
               (case (json_date (row_value row ''start_date''), json_date (row_value row ''end_date'')) of
                  (Inr start_date, Inr end_date) \<Rightarrow>
                    let u1 = (if start_date = None then u else u\<lparr>us_start_date := start_date\<rparr>);
                        u2 = (if end_date = None then u1 else u1\<lparr>us_end_date := end_date\<rparr>)
                    in Inr ((wrote ''user'' (us_id u) row, Some (''created'', token)), put_user u2 d1)
                | (Inl err, _) \<Rightarrow> Inl err
                | (_, Inl err) \<Rightarrow> Inl err))
      | (Inl err, _) \<Rightarrow> Inl err
      | (_, Inl err) \<Rightarrow> Inl err)"

definition commit_user_update ::
  "wf_row \<Rightarrow> user \<Rightarrow> uuid \<Rightarrow> db \<Rightarrow> (wf_error, wf_row \<times> row_outcome, db) outcome" where
  "commit_user_update row target actor_id d =
     (let snapshot = map (\<lambda>(field, _). (field, user_field field target)) (values_of row) in
      case all_right (map (field_change stored_date) (values_of row)) of
        Inl err \<Rightarrow> Inl err
      | Inr changes \<Rightarrow>
          (case update_user target changes actor_id None d of
             Inl err \<Rightarrow> Inl (Wf_workforce err)
           | Inr (u, d1) \<Rightarrow>
               Inr ((wrote ''user'' (us_id target) (row\<lparr>wr_pre_commit_snapshot := Some snapshot\<rparr>),
                     Some (''updated'', None)), d1)))"

definition commit_users_row ::
  "crypto \<Rightarrow> env \<Rightarrow> wf_row \<Rightarrow> uuid \<Rightarrow> db \<Rightarrow> (wf_error, wf_row \<times> row_outcome, db) outcome" where
  "commit_users_row c e row actor_id d =
     (if wr_action row = Some ''create'' then commit_user_create c e row actor_id d
      else case wr_normalized_identity row of
        None \<Rightarrow> Inr ((row, None), d)
      | Some i \<Rightarrow>
          (case get_user d i of
             None \<Rightarrow> Inl Wf_no_row
           | Some target \<Rightarrow>
               (if wr_action row = Some ''update'' then commit_user_update row target actor_id d
                else if wr_action row = Some ''reactivate''
                then (if us_active target then Inr (skipped ''already_active'' row, d)
                      else Inr ((wrote ''user'' (us_id target) row, Some (''reactivated'', None)),
                                snd (reactivate_user target actor_id ''bulk_import'' d)))
                else Inr ((row, None), d))))"

definition commit_deactivation_row ::
  "env \<Rightarrow> wf_row \<Rightarrow> uuid \<Rightarrow> db \<Rightarrow> (wf_error, wf_row \<times> row_outcome, db) outcome" where
  "commit_deactivation_row e row actor_id d =
     (case wr_normalized_identity row of
        None \<Rightarrow> Inr ((row, None), d)
      | Some i \<Rightarrow>
          (case get_user d i of
             None \<Rightarrow> Inl Wf_no_row
           | Some target \<Rightarrow>
               (if \<not> us_active target then Inr (skipped ''already_inactive'' row, d)
                else
                  let reason_code = (case row_text row ''reason_code'' of None \<Rightarrow> ''bulk_import'' | Some s \<Rightarrow> s)
                  in case disable_user e target actor_id reason_code d of
                       Inl (Workforce_self _) \<Rightarrow> Inr (skipped ''self_target_not_allowed'' row, d)
                     | Inl err \<Rightarrow> Inl (Wf_workforce err)
                     | Inr (u, d1) \<Rightarrow>
                         Inr ((wrote ''user'' (us_id target) row, Some (''deactivated'', None)), d1))))"

section \<open>Memberships and roles\<close>

definition commit_team_membership_row ::
  "env \<Rightarrow> wf_row \<Rightarrow> uuid \<Rightarrow> db \<Rightarrow> (wf_error, wf_row \<times> row_outcome, db) outcome" where
  "commit_team_membership_row e row actor_id d =
     (case wr_normalized_identity row of
        None \<Rightarrow> Inr ((row, None), d)
      | Some u \<Rightarrow>
          (case need_uuid row ''team_id'' of
             Inl err \<Rightarrow> Inl err
           | Inr team_id \<Rightarrow>
               (case row_get te_id team_id (teams d) of
                  None \<Rightarrow> Inr (skipped ''unknown_team'' row, d)
                | Some t \<Rightarrow>
                    (case one_or_none (filter (open_membership (te_id t) u) (team_memberships d)) of
                       Inl err \<Rightarrow> Inl err
                     | Inr current \<Rightarrow>
                         (if wr_action row = Some ''add''
                          then (if te_status t \<noteq> ''active'' then Inr (skipped ''unknown_team'' row, d)
                                else if current \<noteq> None then Inr (skipped ''already_member'' row, d)
                                else
                                  let (m, d1) = add_team_membership e t u actor_id d in
                                  Inr ((wrote ''team_membership'' (tm_id m) row, Some (''added'', None)), d1))
                          else case current of
                              None \<Rightarrow> Inr (skipped ''not_a_member'' row, d)
                            | Some m \<Rightarrow>
                                let (m', d1) = end_team_membership e m actor_id (row_text row ''reason_code'') d in
                                Inr ((wrote ''team_membership'' (tm_id m') row, Some (''ended'', None)), d1))))))"

definition commit_role_assignment_row ::
  "env \<Rightarrow> wf_row \<Rightarrow> uuid \<Rightarrow> db \<Rightarrow> (wf_error, wf_row \<times> row_outcome, db) outcome" where
  "commit_role_assignment_row e row actor_id d =
     (case wr_normalized_identity row of
        None \<Rightarrow> Inr ((row, None), d)
      | Some u \<Rightarrow>
          (case (need_text row ''role_code'', need_text row ''scope_type'', need_text row ''reason_code'') of
             (Inr role_code, Inr scope_type, Inr reason_code) \<Rightarrow>
               let scope_id = row_uuid row ''scope_id'' in
               (case one_or_none (filter (open_grant u role_code scope_type scope_id) (role_assignments d)) of
                  Inl err \<Rightarrow> Inl err
                | Inr current \<Rightarrow>
                    (if wr_action row = Some ''assign''
                     then (if current \<noteq> None then Inr (skipped ''already_granted'' row, d)
                           else case assign_role e u role_code scope_type scope_id actor_id (Some reason_code) d of
                               Inl (Workforce_self _) \<Rightarrow> Inr (skipped ''self_target_not_allowed'' row, d)
                             | Inl err \<Rightarrow> Inl (Wf_workforce err)
                             | Inr (ra, d1) \<Rightarrow>
                                 Inr ((wrote ''role_assignment'' (ra_id ra) row, Some (''assigned'', None)), d1))
                     else case current of
                         None \<Rightarrow> Inr (skipped ''not_assigned'' row, d)
                       | Some ra \<Rightarrow>
                           (case end_role_assignment e ra actor_id reason_code d of
                              Inl (Workforce_self _) \<Rightarrow> Inr (skipped ''self_target_not_allowed'' row, d)
                            | Inl err \<Rightarrow> Inl (Wf_workforce err)
                            | Inr (ra', d1) \<Rightarrow>
                                Inr ((wrote ''role_assignment'' (ra_id ra') row, Some (''ended'', None)), d1))))
           | (Inl err, _) \<Rightarrow> Inl err
           | (_, Inl err, _) \<Rightarrow> Inl err
           | (_, _, Inl err) \<Rightarrow> Inl err))"

section \<open>Reporting lines and campaigns\<close>

definition commit_reporting_assignment_row ::
  "env \<Rightarrow> wf_row \<Rightarrow> uuid \<Rightarrow> db \<Rightarrow> (wf_error, wf_row \<times> row_outcome, db) outcome" where
  "commit_reporting_assignment_row e row actor_id d =
     (case wr_normalized_identity row of
        None \<Rightarrow> Inr ((row, None), d)
      | Some u \<Rightarrow>
          (case need_uuid row ''supervisor_user_id'' of
             Inl err \<Rightarrow> Inl err
           | Inr s \<Rightarrow>
               (if \<not> lookup_user_active d s then Inr (skipped ''unknown_supervisor'' row, d)
                else
                  let prior = primary_supervisor d u in
                  if prior = Some s then Inr (skipped ''already_set'' row, d)
                  else case set_reporting_line e u s ''organization'' None ''primary'' actor_id
                              (row_text row ''reason_code'') d of
                      Inl Self_supervision \<Rightarrow> Inr (skipped ''self_target_not_allowed'' row, d)
                    | Inl err \<Rightarrow> Inl (Wf_workforce err)
                    | Inr (line, d1) \<Rightarrow>
                        Inr ((wrote ''reporting_assignment'' (rp_id line)
                                (row\<lparr>wr_pre_commit_snapshot := Some [(''prior_supervisor_id'', scope_json prior)]\<rparr>),
                              Some (''set'', None)), d1))))"

definition commit_campaign_assignment_row ::
  "env \<Rightarrow> wf_row \<Rightarrow> uuid \<Rightarrow> db \<Rightarrow> (wf_error, wf_row \<times> row_outcome, db) outcome" where
  "commit_campaign_assignment_row e row actor_id d =
     (case wr_normalized_identity row of
        None \<Rightarrow> Inr ((row, None), d)
      | Some u \<Rightarrow>
          (case need_uuid row ''campaign_id'' of
             Inl err \<Rightarrow> Inl err
           | Inr campaign_id \<Rightarrow>
               (case get_campaign d campaign_id of
                  None \<Rightarrow> Inl Wf_no_row
                | Some ca \<Rightarrow>
                    (if wr_action row = Some ''assign''
                     then (case assign_agent_to_campaign e ca u (row_uuid row ''team_id'') actor_id
                                  ''primary'' None None None d of
                             Inl _ \<Rightarrow> Inr (skipped ''already_assigned'' row, d)
                           | Inr (a, d1) \<Rightarrow>
                               Inr ((wrote ''campaign_user_assignment'' (ua_id a) row, Some (''assigned'', None)), d1))
                     else
                       (case one_or_none (filter (primary_on u (ca_id ca)) (user_assignments d)) of
                          Inl err \<Rightarrow> Inl err
                        | Inr None \<Rightarrow> Inr (skipped ''not_assigned'' row, d)
                        | Inr (Some a) \<Rightarrow>
                            Inr ((wrote ''campaign_user_assignment'' (ua_id a) row, Some (''ended'', None)),
                                 snd (end_user_assignment e a actor_id (row_text row ''reason_code'') d)))))))"

definition commit_wf_row ::
  "crypto \<Rightarrow> env \<Rightarrow> string \<Rightarrow> wf_row \<Rightarrow> uuid \<Rightarrow> db \<Rightarrow> (wf_error, wf_row \<times> row_outcome, db) outcome" where
  "commit_wf_row c e t row actor_id d =
     (if t = ''users'' then commit_users_row c e row actor_id d
      else if t = ''explicit_deactivations'' then commit_deactivation_row e row actor_id d
      else if t = ''team_memberships'' then commit_team_membership_row e row actor_id d
      else if t = ''role_assignments'' then commit_role_assignment_row e row actor_id d
      else if t = ''reporting_assignments'' then commit_reporting_assignment_row e row actor_id d
      else commit_campaign_assignment_row e row actor_id d)"

section \<open>The commit\<close>

text \<open>The part of the call's supply that row \<open>k\<close> draws from; readings of one row precede the next.\<close>

definition row_env :: "env \<Rightarrow> nat \<Rightarrow> env" where
  "row_env e k = e\<lparr>clk := \<lambda>n. clk e (8 * k + n), fresh_id := \<lambda>n. fresh_id e (8 * k + n),
     fresh_token := \<lambda>n. fresh_token e (8 * k + n)\<rparr>"

definition put_wf_row :: "wf_row \<Rightarrow> db \<Rightarrow> db" where
  "put_wf_row row d = d\<lparr>wf_rows := row_put wr_id row (wf_rows d)\<rparr>"

definition row_metadata :: "wf_job \<Rightarrow> wf_row \<Rightarrow> string \<Rightarrow> (string \<times> json) list" where
  "row_metadata job row outcome =
     [(''import_job_id'', JId (wj_id job)), (''import_type'', JStr (wj_import_type job)),
      (''row_number'', JInt (int (wr_row_number row))), (''outcome'', JStr outcome)]"

record wf_commit =
  wk_db :: db
  wk_outcomes :: "(nat \<times> string) list"
  wk_tokens :: "(string \<times> string) list"

definition commit_wf_step ::
  "crypto \<Rightarrow> env \<Rightarrow> wf_job \<Rightarrow> uuid \<Rightarrow> uuid option \<Rightarrow> nat \<Rightarrow> wf_row \<Rightarrow> wf_commit \<Rightarrow> wf_error + wf_commit" where
  "commit_wf_step c e job standard_by high_risk_by k row s =
     (let row_actor = (case high_risk_by of
            Some h \<Rightarrow> if wr_risk_level row = High_risk then h else standard_by
          | None \<Rightarrow> standard_by) in
      case commit_wf_row c (row_env e k) (wj_import_type job) row row_actor (wk_db s) of
        Inl err \<Rightarrow> Inl err
      | Inr ((row', None), d1) \<Rightarrow> Inr (s\<lparr>wk_db := put_wf_row row' d1\<rparr>)
      | Inr ((row', Some (outcome, token)), d1) \<Rightarrow>
          (let d2 = (case wr_committed_entity_id row' of
                 None \<Rightarrow> d1
               | Some i \<Rightarrow> record_audit ''workforce_import.row_commit'' ''success'' (Some row_actor)
                     (wr_committed_entity_type row') (Some i) None (row_metadata job row' outcome) d1)
           in Inr (s\<lparr>wk_db := put_wf_row row' d2,
                     wk_outcomes := wk_outcomes s @ [(wr_row_number row', outcome)],
                     wk_tokens := (case (token, wr_external_workforce_id row') of
                         (Some t, Some w) \<Rightarrow> if t = '''' \<or> w = '''' then wk_tokens s else dict_put w t (wk_tokens s)
                       | _ \<Rightarrow> wk_tokens s)\<rparr>)))"

fun commit_wf_rows ::
  "crypto \<Rightarrow> env \<Rightarrow> wf_job \<Rightarrow> uuid \<Rightarrow> uuid option \<Rightarrow> nat \<Rightarrow> wf_row list \<Rightarrow> wf_commit \<Rightarrow> wf_error + wf_commit" where
  "commit_wf_rows c e job standard_by high_risk_by k [] s = Inr s"
| "commit_wf_rows c e job standard_by high_risk_by k (row # rows) s =
     (case commit_wf_step c e job standard_by high_risk_by k row s of
        Inl err \<Rightarrow> Inl err
      | Inr s1 \<Rightarrow> commit_wf_rows c e job standard_by high_risk_by (Suc k) rows s1)"

text \<open>What a commit verifies against the live database: who stands behind the two tiers.\<close>

definition commit_approvers :: "db \<Rightarrow> wf_job \<Rightarrow> time \<Rightarrow> wf_error + (uuid \<times> uuid option)" where
  "commit_approvers d job now =
     (case latest_wf_decision d job ''standard'' of
        None \<Rightarrow> Inl Wf_not_approved
      | Some standard \<Rightarrow>
          (if wd_decision standard \<noteq> ''approve'' then Inl Wf_not_approved
           else if \<not> rows_authorized d job (wd_decided_by standard) Routine now
           then Inl Wf_insufficient_authority
           else if wj_high_risk_rows job = 0 then Inr (wd_decided_by standard, None)
           else case latest_wf_decision d job ''high_risk'' of
               None \<Rightarrow> Inl Wf_no_high_risk_approval
             | Some h \<Rightarrow>
                 (if wd_decision h \<noteq> ''approve'' then Inl Wf_no_high_risk_approval
                  else case qualified_high_risk_approver d job (wd_decided_by h) now of
                      Some err \<Rightarrow> Inl err
                    | None \<Rightarrow> Inr (wd_decided_by standard, Some (wd_decided_by h)))))"

definition rows_in_order :: "db \<Rightarrow> wf_job \<Rightarrow> wf_row list" where
  "rows_in_order d job = sort_key wr_row_number (committable_rows d job None)"

definition finish_commit :: "env \<Rightarrow> wf_job \<Rightarrow> uuid \<Rightarrow> string \<Rightarrow> wf_commit \<Rightarrow> db" where
  "finish_commit e job actor_id key s =
     (let n = length (wk_outcomes s);
          job' = job\<lparr>wj_state := Committed, wj_committed_at := Some (clk e 1),
                     wj_idempotency_key := Some key, wj_committed_result := Some (wk_outcomes s)\<rparr>;
          d1 = job_audit ''workforce_import.commit'' ''success'' actor_id (wj_id job) None
                 [(''import_type'', JStr (wj_import_type job)), (''row_count'', JInt (int n))]
                 (put_wf_job job' (wk_db s))
      in if actor_id = wj_uploader_id job then d1
         else job_notice e 1 (wj_uploader_id job) ''workforce_import.commit''
                (''Your import '' @ quoted (wj_source_filename_display job) @ '' was committed'')
                (str_int (int n) @ '' row(s) were applied.'') job d1)"

definition commit_wf_job ::
  "crypto \<Rightarrow> env \<Rightarrow> uuid \<Rightarrow> uuid \<Rightarrow> int \<Rightarrow> string \<Rightarrow> db
   \<Rightarrow> (wf_error, (nat \<times> string) list \<times> (string \<times> string) list, db) outcome" where
  "commit_wf_job c e job_id actor_id decision_version key d =
     (case get_wf_job d job_id of
        None \<Rightarrow> Inl Wf_not_found
      | Some job \<Rightarrow>
          (case assert_job_accessible d job actor_id (clk e 0) of
             Some err \<Rightarrow> Inl err
           | None \<Rightarrow>
               (if wj_state job = Committed
                then (if wj_idempotency_key job = Some key
                      then Inr ((case wj_committed_result job of None \<Rightarrow> [] | Some r \<Rightarrow> r, []), d)
                      else Inl Wf_other_key)
                else if wj_state job \<noteq> Parsed then Inl (Wf_not_ready (wj_state job))
                else if wj_decision_version job \<noteq> decision_version then Inl Wf_stale_version
                else if 0 < wj_invalid_rows job then Inl (Wf_blocking_errors (wj_invalid_rows job))
                else case commit_approvers d job (clk e 0) of
                    Inl err \<Rightarrow> Inl err
                  | Inr (standard_by, high_risk_by) \<Rightarrow>
                      (case commit_wf_rows c e job standard_by high_risk_by 1 (rows_in_order d job)
                              \<lparr>wk_db = d, wk_outcomes = [], wk_tokens = []\<rparr> of
                         Inl err \<Rightarrow> Inl err
                       | Inr s \<Rightarrow>
                           Inr ((wk_outcomes s, wk_tokens s), finish_commit e job actor_id key s)))))"

end
