(* ===== verification/Wf_Reverse.thy ===== *)
theory Wf_Reverse
  imports Wf_Commit
begin

text \<open>
  Reversing a committed bulk import and cleaning up (\<open>app/workforce_imports/service.py\<close>). A reversal
  of a row gives \<open>None\<close> when what the row did has been changed since.
\<close>

section \<open>Users\<close>

definition reversal_conflicts :: "wf_row \<Rightarrow> user \<Rightarrow> bool" where
  "reversal_conflicts row target \<longleftrightarrow>
     (if wr_action row = Some ''create'' \<or> wr_action row = Some ''reactivate'' then \<not> us_active target
      else if wr_action row = Some ''deactivate'' then us_active target
      else list_ex (\<lambda>(field, v). user_field field target \<noteq> v) (values_of row))"

definition reverse_user_row :: "env \<Rightarrow> wf_row \<Rightarrow> uuid \<Rightarrow> db \<Rightarrow> (wf_error, string option, db) outcome" where
  "reverse_user_row e row actor_id d =
     (case Option.bind (wr_committed_entity_id row) (get_user d) of
        None \<Rightarrow> Inl Wf_no_row
      | Some target \<Rightarrow>
          (if reversal_conflicts row target then Inr (None, d)
           else if wr_action row = Some ''create'' \<or> wr_action row = Some ''reactivate''
           then (case disable_user e target actor_id ''import_reversal'' d of
                   Inl err \<Rightarrow> Inl (Wf_workforce err) | Inr (_, d1) \<Rightarrow> Inr (Some ''deactivated'', d1))
           else if wr_action row = Some ''deactivate''
           then Inr (Some ''reactivated'', snd (reactivate_user target actor_id ''import_reversal'' d))
           else
             let snapshot = (case wr_pre_commit_snapshot row of None \<Rightarrow> [] | Some vs \<Rightarrow> vs) in
             case all_right (map (field_change json_date) snapshot) of
               Inl err \<Rightarrow> Inl err
             | Inr changes \<Rightarrow>
                 (case update_user target changes actor_id (Some ''import_reversal'') d of
                    Inl err \<Rightarrow> Inl (Wf_workforce err) | Inr (_, d1) \<Rightarrow> Inr (Some ''restored'', d1))))"

section \<open>Memberships, roles and lines\<close>

definition reverse_team_membership_row ::
  "env \<Rightarrow> wf_row \<Rightarrow> uuid \<Rightarrow> db \<Rightarrow> (wf_error, string option, db) outcome" where
  "reverse_team_membership_row e row actor_id d =
     (case Option.bind (wr_committed_entity_id row) (\<lambda>i. row_get tm_id i (team_memberships d)) of
        None \<Rightarrow> Inl Wf_no_row
      | Some m \<Rightarrow>
          (if wr_action row = Some ''add''
           then (if \<not> (tm_membership_status m = Row_active \<and> tm_effective_to m = None) then Inr (None, d)
                 else Inr (Some ''ended'', snd (end_team_membership e m actor_id (Some ''import_reversal'') d)))
           else if list_ex (open_membership (tm_team_id m) (tm_user_id m)) (team_memberships d)
           then Inr (None, d)
           else case row_get te_id (tm_team_id m) (teams d) of
               None \<Rightarrow> Inl Wf_no_row
             | Some t \<Rightarrow> Inr (Some ''added'', snd (add_team_membership e t (tm_user_id m) actor_id d))))"

definition reverse_role_assignment_row ::
  "env \<Rightarrow> wf_row \<Rightarrow> uuid \<Rightarrow> db \<Rightarrow> (wf_error, string option, db) outcome" where
  "reverse_role_assignment_row e row actor_id d =
     (case Option.bind (wr_committed_entity_id row) (\<lambda>i. row_get ra_id i (role_assignments d)) of
        None \<Rightarrow> Inl Wf_no_row
      | Some ra \<Rightarrow>
          (if wr_action row = Some ''assign''
           then (if \<not> (ra_status ra = Row_active \<and> ra_effective_to ra = None) then Inr (None, d)
                 else case end_role_assignment e ra actor_id ''import_reversal'' d of
                     Inl err \<Rightarrow> Inl (Wf_workforce err) | Inr (_, d1) \<Rightarrow> Inr (Some ''ended'', d1))
           else if list_ex (open_grant (ra_user_id ra) (ra_role_code ra) (ra_scope_type ra) (ra_scope_id ra))
                     (role_assignments d)
           then Inr (None, d)
           else case assign_role e (ra_user_id ra) (ra_role_code ra) (ra_scope_type ra) (ra_scope_id ra)
                       actor_id (Some ''import_reversal'') d of
               Inl err \<Rightarrow> Inl (Wf_workforce err) | Inr (_, d1) \<Rightarrow> Inr (Some ''assigned'', d1)))"

definition reverse_reporting_assignment_row ::
  "env \<Rightarrow> wf_row \<Rightarrow> uuid \<Rightarrow> db \<Rightarrow> (wf_error, string option, db) outcome" where
  "reverse_reporting_assignment_row e row actor_id d =
     (case Option.bind (wr_committed_entity_id row) (\<lambda>i. row_get rp_id i (reporting_assignments d)) of
        None \<Rightarrow> Inl Wf_no_row
      | Some line \<Rightarrow>
          (if \<not> (rp_status line = Row_active \<and> rp_effective_to line = None) then Inr (None, d)
           else
             let snapshot = (case wr_pre_commit_snapshot row of None \<Rightarrow> [] | Some vs \<Rightarrow> vs) in
             case map_of snapshot ''prior_supervisor_id'' of
               Some (JId prior) \<Rightarrow>
                 (case set_reporting_line e (rp_subordinate_user_id line) prior ''organization'' None
                         ''primary'' actor_id (Some ''import_reversal'') d of
                    Inl err \<Rightarrow> Inl (Wf_workforce err) | Inr (_, d1) \<Rightarrow> Inr (Some ''restored'', d1))
             | _ \<Rightarrow> Inr (Some ''restored'', snd (end_reporting_line e line actor_id (Some ''import_reversal'') d))))"

definition reverse_campaign_assignment_row ::
  "env \<Rightarrow> wf_row \<Rightarrow> uuid \<Rightarrow> db \<Rightarrow> (wf_error, string option, db) outcome" where
  "reverse_campaign_assignment_row e row actor_id d =
     (case Option.bind (wr_committed_entity_id row) (\<lambda>i. row_get ua_id i (user_assignments d)) of
        None \<Rightarrow> Inl Wf_no_row
      | Some a \<Rightarrow>
          (let active = (ua_status a = Row_active \<and> ua_effective_to a = None) in
           if wr_action row = Some ''assign''
           then (if \<not> active then Inr (None, d)
                 else Inr (Some ''ended'', snd (end_user_assignment e a actor_id None d)))
           else if active then Inr (None, d)
           else case get_campaign d (ua_campaign_id a) of
               None \<Rightarrow> Inl Wf_no_row
             | Some ca \<Rightarrow>
                 (case assign_agent_to_campaign e ca (ua_user_id a) (row_uuid row ''team_id'') actor_id
                         ''primary'' None None None d of
                    Inl _ \<Rightarrow> Inr (None, d) | Inr (_, d1) \<Rightarrow> Inr (Some ''assigned'', d1))))"

definition reverse_wf_row ::
  "env \<Rightarrow> string \<Rightarrow> wf_row \<Rightarrow> uuid \<Rightarrow> db \<Rightarrow> (wf_error, string option, db) outcome" where
  "reverse_wf_row e entity_type row actor_id d =
     (if entity_type = ''user'' then reverse_user_row e row actor_id d
      else if entity_type = ''team_membership'' then reverse_team_membership_row e row actor_id d
      else if entity_type = ''role_assignment'' then reverse_role_assignment_row e row actor_id d
      else if entity_type = ''reporting_assignment'' then reverse_reporting_assignment_row e row actor_id d
      else if entity_type = ''campaign_user_assignment'' then reverse_campaign_assignment_row e row actor_id d
      else Inl (Wf_key_error entity_type))"

section \<open>The reversal\<close>

record wf_reversal =
  wx_db :: db
  wx_reversed :: "(nat \<times> string) list"
  wx_skipped :: "nat list"

definition reverse_wf_step ::
  "env \<Rightarrow> wf_job \<Rightarrow> uuid \<Rightarrow> time \<Rightarrow> nat \<Rightarrow> wf_row \<Rightarrow> wf_reversal \<Rightarrow> wf_error + wf_reversal" where
  "reverse_wf_step e job actor_id now k row s =
     (case wr_committed_entity_type row of
        None \<Rightarrow> Inr s
      | Some entity_type \<Rightarrow>
          (case reverse_wf_row (row_env e k) entity_type row actor_id (wx_db s) of
             Inl err \<Rightarrow> Inl err
           | Inr (None, d1) \<Rightarrow>
               Inr (s\<lparr>wx_db := put_wf_row (row\<lparr>wr_conflict_type := Some ''reversal_conflict''\<rparr>) d1,
                      wx_skipped := wx_skipped s @ [wr_row_number row]\<rparr>)
           | Inr (Some outcome, d1) \<Rightarrow>
               (let d2 = record_audit ''workforce_import.row_reverse'' ''success'' (Some actor_id)
                       (Some entity_type) (wr_committed_entity_id row) None (row_metadata job row outcome) d1
                in Inr (s\<lparr>wx_db := put_wf_row (row\<lparr>wr_reversed_at := Some now\<rparr>) d2,
                          wx_reversed := wx_reversed s @ [(wr_row_number row, outcome)]\<rparr>))))"

fun reverse_wf_rows ::
  "env \<Rightarrow> wf_job \<Rightarrow> uuid \<Rightarrow> time \<Rightarrow> nat \<Rightarrow> wf_row list \<Rightarrow> wf_reversal \<Rightarrow> wf_error + wf_reversal" where
  "reverse_wf_rows e job actor_id now k [] s = Inr s"
| "reverse_wf_rows e job actor_id now k (row # rows) s =
     (case reverse_wf_step e job actor_id now k row s of
        Inl err \<Rightarrow> Inl err
      | Inr s1 \<Rightarrow> reverse_wf_rows e job actor_id now (Suc k) rows s1)"

definition reversible_rows :: "db \<Rightarrow> wf_job \<Rightarrow> wf_row list" where
  "reversible_rows d job =
     filter (\<lambda>r. wr_committed_entity_id r \<noteq> None \<and> wr_reversed_at r = None) (job_rows d job)"

definition reversal_guard :: "db \<Rightarrow> wf_job \<Rightarrow> uuid \<Rightarrow> time \<Rightarrow> wf_error option" where
  "reversal_guard d job actor_id now =
     (case assert_job_accessible d job actor_id now of
        Some err \<Rightarrow> Some err
      | None \<Rightarrow>
          (if wj_state job \<noteq> Committed then Some Wf_only_committed
           else if wj_reversed_at job \<noteq> None then Some Wf_already_reversed
           else case (if 0 < wj_high_risk_rows job
                      then qualified_high_risk_approver d job actor_id now else None) of
               Some err \<Rightarrow> Some err
             | None \<Rightarrow> if rows_authorized d job actor_id Routine now then None
                       else Some Wf_insufficient_authority))"

definition reverse_wf_job ::
  "env \<Rightarrow> uuid \<Rightarrow> uuid \<Rightarrow> db \<Rightarrow> (wf_error, (nat \<times> string) list \<times> nat list, db) outcome" where
  "reverse_wf_job e job_id actor_id d =
     (case get_wf_job d job_id of
        None \<Rightarrow> Inl Wf_not_found
      | Some job \<Rightarrow>
          (case reversal_guard d job actor_id (clk e 0) of
             Some err \<Rightarrow> Inl err
           | None \<Rightarrow>
               (case reverse_wf_rows e job actor_id (clk e 1) 1 (reversible_rows d job)
                       \<lparr>wx_db = d, wx_reversed = [], wx_skipped = []\<rparr> of
                  Inl err \<Rightarrow> Inl err
                | Inr s \<Rightarrow>
                    let n = length (wx_reversed s); m = length (wx_skipped s);
                        d1 = job_audit ''workforce_import.reverse'' ''success'' actor_id (wj_id job) None
                               [(''reversed'', JInt (int n)), (''skipped'', JInt (int m))]
                               (put_wf_job (job\<lparr>wj_reversed_at := Some (clk e 1)\<rparr>) (wx_db s))
                    in Inr ((wx_reversed s, wx_skipped s),
                         if actor_id = wj_uploader_id job then d1
                         else job_notice e 1 (wj_uploader_id job) ''workforce_import.reverse''
                           (''Your import '' @ quoted (wj_source_filename_display job) @ '' was reversed'')
                           (str_int (int n) @ '' row(s) were reverted, '' @ str_int (int m)
                              @ '' left unchanged.'') job d1))))"

section \<open>Clean-up\<close>

definition wf_cleanup_committed_source :: "wf_job \<Rightarrow> storage \<Rightarrow> storage" where
  "wf_cleanup_committed_source job st = storage_delete (wj_generated_storage_key job) st"

definition expired_wf_job :: "time \<Rightarrow> wf_job \<Rightarrow> bool" where
  "expired_wf_job now j \<longleftrightarrow> (case wj_expires_at j of None \<Rightarrow> False | Some t \<Rightarrow> t < now)"

definition clean_wf_job :: "wf_job \<Rightarrow> wf_job" where
  "clean_wf_job j = (if wj_state j = Committed then j\<lparr>wj_expires_at := None\<rparr> else j\<lparr>wj_state := Expired\<rparr>)"

definition wf_cleanup_expired_jobs :: "time \<Rightarrow> storage \<Rightarrow> db \<Rightarrow> nat \<times> storage \<times> db" where
  "wf_cleanup_expired_jobs now st d =
     (let gone = filter (expired_wf_job now) (wf_jobs d);
          dropped = map wj_id (filter (\<lambda>j. wj_state j \<noteq> Committed) gone)
      in (length gone, fold storage_delete (map wj_generated_storage_key gone) st,
          d\<lparr>wf_jobs := rows_update (expired_wf_job now) clean_wf_job (wf_jobs d),
            wf_rows := filter (\<lambda>r. wr_import_job_id r \<notin> set dropped) (wf_rows d)\<rparr>))"

end
