(* ===== verification/Wf_Frames.thy ===== *)
theory Wf_Frames
  imports Wf_Reverse
begin

text \<open>
  The tables of the import itself are written by nobody else: no workforce or campaign operation a
  row is committed or reversed through touches the jobs, the rows or the decisions.
\<close>

definition import_part :: "db \<Rightarrow> wf_job list \<times> wf_row list \<times> wf_decision list" where
  "import_part d = (wf_jobs d, wf_rows d, wf_decisions d)"

named_theorems frame_simps \<open>updates outside the import tables\<close>

lemma import_part_revoke: "import_part (fold (revoke_all_for_user now) us d) = import_part d"
  by (induction us arbitrary: d) (simp_all add: revoke_all_for_user_def import_part_def)

lemma import_part_delegates [frame_simps]:
  "import_part (invalidate_delegate_sessions_for_delegator now i d) = import_part d"
  by (simp add: invalidate_delegate_sessions_for_delegator_def import_part_revoke)

lemma import_part_updates [frame_simps]:
  "import_part (record_audit x1 x2 x3 x4 x5 x6 x7 d) = import_part d"
  "import_part (user_audit act who whom rc m d) = import_part d"
  "import_part (team_audit act who whom rc m d) = import_part d"
  "import_part (put_user u d) = import_part d"
  "import_part (put_role ra d) = import_part d"
  "import_part (invalidate_sessions_on_privilege_change now i d) = import_part d"
  "import_part (d\<lparr>users := us\<rparr>) = import_part d"
  "import_part (d\<lparr>role_assignments := ras\<rparr>) = import_part d"
  "import_part (d\<lparr>team_memberships := tms\<rparr>) = import_part d"
  "import_part (d\<lparr>reporting_assignments := rps\<rparr>) = import_part d"
  "import_part (d\<lparr>user_assignments := uas\<rparr>) = import_part d"
  "import_part (d\<lparr>work_items := wis\<rparr>) = import_part d"
  "import_part (d\<lparr>activation_tokens := ats\<rparr>) = import_part d"
  by (simp_all add: import_part_def record_audit_def user_audit_def team_audit_def put_user_def put_role_def
      invalidate_sessions_on_privilege_change_def revoke_all_for_user_def)

section \<open>The services\<close>

lemma create_user_frame:
  "create_user c e em dn w a iss d = Inr (r, d') \<Longrightarrow> import_part d' = import_part d"
  by (auto simp: create_user_def issue_activation_token_def Let_def frame_simps
      split: if_splits option.splits)

lemma update_user_frame: "update_user u chs a rc d = Inr (r, d') \<Longrightarrow> import_part d' = import_part d"
  by (auto simp: update_user_def Let_def frame_simps split: if_splits)

lemma disable_user_frame: "disable_user e u a rc d = Inr (r, d') \<Longrightarrow> import_part d' = import_part d"
  by (auto simp: disable_user_def reclaim_leases_for_user_def Let_def frame_simps split: option.splits)

lemma reactivate_user_frame: "import_part (snd (reactivate_user u a rc d)) = import_part d"
  by (simp add: reactivate_user_def Let_def frame_simps)

lemma assign_role_frame: "assign_role e u r st si a rc d = Inr (ra, d') \<Longrightarrow> import_part d' = import_part d"
  by (auto simp: assign_role_def Let_def frame_simps split: if_splits option.splits)

lemma end_role_frame: "end_role_assignment e ra a rc d = Inr (r, d') \<Longrightarrow> import_part d' = import_part d"
  by (auto simp: end_role_assignment_def Let_def frame_simps split: option.splits)

lemma add_membership_frame: "add_team_membership e t u a d = (m, d') \<Longrightarrow> import_part d' = import_part d"
  by (auto simp: add_team_membership_def Let_def frame_simps split: option.splits)

lemma end_membership_frame: "end_team_membership e m a rc d = (m', d') \<Longrightarrow> import_part d' = import_part d"
  by (auto simp: end_team_membership_def Let_def frame_simps)

lemma set_line_frame:
  "set_reporting_line e u s ct ci at a rc d = Inr (r, d') \<Longrightarrow> import_part d' = import_part d"
  by (auto simp: set_reporting_line_def Let_def frame_simps split: if_splits)

lemma end_line_frame: "import_part (snd (end_reporting_line e l a rc d)) = import_part d"
  by (simp add: end_reporting_line_def Let_def frame_simps)

lemma assign_agent_frame:
  "assign_agent_to_campaign e ca u t a at p al sh d = Inr (r, d') \<Longrightarrow> import_part d' = import_part d"
  by (auto simp: assign_agent_to_campaign_def Let_def frame_simps split: if_splits option.splits)

lemma end_assignment_frame: "import_part (snd (end_user_assignment e x a rc d)) = import_part d"
  by (simp add: end_user_assignment_def release_campaign_work_for_agent_def Let_def frame_simps)

lemmas service_frames = create_user_frame update_user_frame disable_user_frame assign_role_frame
  end_role_frame add_membership_frame end_membership_frame set_line_frame assign_agent_frame

lemmas pure_frames = reactivate_user_frame end_line_frame end_assignment_frame

section \<open>Committing one row\<close>

text \<open>What a commit may not change of the row it works on.\<close>

definition row_core ::
  "wf_row \<Rightarrow> uuid \<times> uuid \<times> nat \<times> string option \<times> uuid option \<times> (string \<times> json) list option
     \<times> wf_validity \<times> wf_risk" where
  "row_core r = (wr_id r, wr_import_job_id r, wr_row_number r, wr_action r, wr_normalized_identity r,
     wr_parsed_values r, wr_validation_result r, wr_risk_level r)"

lemma row_core_updates [simp]:
  "row_core (wrote t i r) = row_core r" "row_core (fst (skipped k r)) = row_core r"
  "row_core (r\<lparr>wr_pre_commit_snapshot := sn\<rparr>) = row_core r"
  "row_core (r\<lparr>wr_conflict_type := ct\<rparr>) = row_core r"
  "row_core (r\<lparr>wr_reversed_at := ra\<rparr>) = row_core r"
  by (simp_all add: row_core_def wrote_def skipped_def)

definition kept :: "db \<Rightarrow> wf_row \<Rightarrow> (wf_error, wf_row \<times> row_outcome, db) outcome \<Rightarrow> bool" where
  "kept d row r \<longleftrightarrow> (case r of Inl _ \<Rightarrow> True
     | Inr ((row', _), d') \<Rightarrow> import_part d' = import_part d \<and> row_core row' = row_core row)"

lemma kept_leaf:
  "kept d row (Inl err)" "kept d row (Inr (skipped k row, d))" "kept d row (Inr ((row, out), d))"
  "\<lbrakk>import_part d' = import_part d; row_core row' = row_core row\<rbrakk> \<Longrightarrow> kept d row (Inr ((row', out), d'))"
  by (simp_all add: kept_def skipped_def)

lemma kept_if: "\<lbrakk>P \<Longrightarrow> kept d row a; \<not> P \<Longrightarrow> kept d row b\<rbrakk> \<Longrightarrow> kept d row (if P then a else b)"
  by simp

lemma kept_option:
  "\<lbrakk>o' = None \<Longrightarrow> kept d row a; \<And>y. o' = Some y \<Longrightarrow> kept d row (f y)\<rbrakk>
   \<Longrightarrow> kept d row (case o' of None \<Rightarrow> a | Some y \<Rightarrow> f y)"
  by (cases o') simp_all

lemma kept_sum:
  "\<lbrakk>\<And>err. s = Inl err \<Longrightarrow> kept d row (f err); \<And>y. s = Inr y \<Longrightarrow> kept d row (g y)\<rbrakk>
   \<Longrightarrow> kept d row (case s of Inl err \<Rightarrow> f err | Inr y \<Rightarrow> g y)"
  by (cases s) simp_all

lemma kept_pair:
  "(\<And>x y. p = (x, y) \<Longrightarrow> kept d row (f x y)) \<Longrightarrow> kept d row (case p of (x, y) \<Rightarrow> f x y)"
  by (cases p) simp

lemma kept_workforce:
  "\<lbrakk>kept d row a; \<And>x. kept d row (f x); kept d row b; \<And>x. kept d row (g x); \<And>x. kept d row (h x);
    \<And>x. kept d row (k x); \<And>x. kept d row (l x); \<And>x. kept d row (m x)\<rbrakk>
   \<Longrightarrow> kept d row (case_workforce_error a f b g h k l m err)"
  by (cases err) simp_all

lemmas kept_rules = kept_leaf(1-3) kept_workforce kept_if kept_option kept_sum kept_pair kept_leaf(4)

lemma commit_create_kept: "kept d row (commit_user_create c e row a d)"
  unfolding commit_user_create_def Let_def
  by (intro kept_rules) (simp_all add: frame_simps create_user_frame)

lemma commit_users_kept: "kept d row (commit_users_row c e row a d)"
  unfolding commit_users_row_def commit_user_update_def Let_def
  by (intro kept_rules commit_create_kept) (simp_all add: frame_simps service_frames pure_frames)

lemma commit_deactivation_kept: "kept d row (commit_deactivation_row e row a d)"
  unfolding commit_deactivation_row_def Let_def
  by (intro kept_rules) (simp_all add: service_frames)

lemma commit_membership_kept: "kept d row (commit_team_membership_row e row a d)"
  unfolding commit_team_membership_row_def Let_def
  by (intro kept_rules) (simp_all add: service_frames)

lemma commit_role_kept: "kept d row (commit_role_assignment_row e row a d)"
  unfolding commit_role_assignment_row_def Let_def
  by (intro kept_rules) (simp_all add: service_frames)

lemma commit_reporting_kept: "kept d row (commit_reporting_assignment_row e row a d)"
  unfolding commit_reporting_assignment_row_def Let_def
  by (intro kept_rules) (simp_all add: service_frames)

lemma commit_campaign_kept: "kept d row (commit_campaign_assignment_row e row a d)"
  unfolding commit_campaign_assignment_row_def Let_def
  by (intro kept_rules) (simp_all add: service_frames pure_frames)

lemma commit_row_kept: "kept d row (commit_wf_row c e t row a d)"
  unfolding commit_wf_row_def
  by (intro kept_if commit_users_kept commit_deactivation_kept commit_membership_kept commit_role_kept
      commit_reporting_kept commit_campaign_kept)

lemma commit_row_frame:
  "commit_wf_row c e t row a d = Inr ((row', out), d') \<Longrightarrow>
     import_part d' = import_part d \<and> row_core row' = row_core row"
  using commit_row_kept [of d row c e t a] by (simp add: kept_def)

section \<open>Reversing one row\<close>

definition untouched :: "db \<Rightarrow> (wf_error, string option, db) outcome \<Rightarrow> bool" where
  "untouched d r \<longleftrightarrow> (case r of Inl _ \<Rightarrow> True | Inr (_, d') \<Rightarrow> import_part d' = import_part d)"

lemma untouched_leaf:
  "untouched d (Inl err)" "untouched d (Inr (out, d))"
  "import_part d' = import_part d \<Longrightarrow> untouched d (Inr (out, d'))"
  by (simp_all add: untouched_def)

lemma untouched_if: "\<lbrakk>P \<Longrightarrow> untouched d a; \<not> P \<Longrightarrow> untouched d b\<rbrakk> \<Longrightarrow> untouched d (if P then a else b)"
  by simp

lemma untouched_option:
  "\<lbrakk>o' = None \<Longrightarrow> untouched d a; \<And>y. o' = Some y \<Longrightarrow> untouched d (f y)\<rbrakk>
   \<Longrightarrow> untouched d (case o' of None \<Rightarrow> a | Some y \<Rightarrow> f y)"
  by (cases o') simp_all

lemma untouched_sum:
  "\<lbrakk>\<And>err. s = Inl err \<Longrightarrow> untouched d (f err); \<And>y. s = Inr y \<Longrightarrow> untouched d (g y)\<rbrakk>
   \<Longrightarrow> untouched d (case s of Inl err \<Rightarrow> f err | Inr y \<Rightarrow> g y)"
  by (cases s) simp_all

lemma untouched_pair:
  "(\<And>x y. p = (x, y) \<Longrightarrow> untouched d (f x y)) \<Longrightarrow> untouched d (case p of (x, y) \<Rightarrow> f x y)"
  by (cases p) simp

lemma untouched_json:
  "\<lbrakk>\<And>i. v = Some (JId i) \<Longrightarrow> untouched d (f i); untouched d b\<rbrakk>
   \<Longrightarrow> untouched d (case v of Some (JId i) \<Rightarrow> f i | _ \<Rightarrow> b)"
  by (auto split: option.split json.split)

lemmas untouched_rules = untouched_leaf(1,2) untouched_if untouched_json untouched_option untouched_sum
  untouched_pair untouched_leaf(3)

lemma snd_frames:
  "import_part (snd (end_team_membership e m a rc d)) = import_part d"
  "import_part (snd (add_team_membership e t u a d)) = import_part d"
  by (metis end_membership_frame prod.collapse, metis add_membership_frame prod.collapse)

lemma reverse_user_untouched: "untouched d (reverse_user_row e row a d)"
  unfolding reverse_user_row_def Let_def
  by (intro untouched_rules) (simp_all add: service_frames pure_frames)

lemma reverse_membership_untouched: "untouched d (reverse_team_membership_row e row a d)"
  unfolding reverse_team_membership_row_def Let_def
  by (intro untouched_rules) (simp_all add: snd_frames)

lemma reverse_role_untouched: "untouched d (reverse_role_assignment_row e row a d)"
  unfolding reverse_role_assignment_row_def Let_def
  by (intro untouched_rules) (simp_all add: service_frames)

lemma reverse_reporting_untouched: "untouched d (reverse_reporting_assignment_row e row a d)"
  unfolding reverse_reporting_assignment_row_def Let_def
  by (intro untouched_rules) (simp_all add: service_frames pure_frames)

lemma reverse_campaign_untouched: "untouched d (reverse_campaign_assignment_row e row a d)"
  unfolding reverse_campaign_assignment_row_def Let_def
  by (intro untouched_rules) (simp_all add: service_frames pure_frames)

lemma reverse_row_frame:
  assumes "reverse_wf_row e et row a d = Inr (out, d')"
  shows "import_part d' = import_part d"
proof -
  have "untouched d (reverse_wf_row e et row a d)"
    unfolding reverse_wf_row_def
    by (intro untouched_if reverse_user_untouched reverse_membership_untouched reverse_role_untouched
        reverse_reporting_untouched reverse_campaign_untouched untouched_leaf)
  then show ?thesis using assms by (simp add: untouched_def)
qed

section \<open>The loops\<close>

text \<open>The rows of the table agree with a list of rows on what no commit or reversal changes.\<close>

definition agree :: "wf_row list \<Rightarrow> wf_row list \<Rightarrow> bool" where
  "agree rows table \<longleftrightarrow> (\<forall>r \<in> set rows. \<forall>x \<in> set table. wr_id x = wr_id r \<longrightarrow> row_core x = row_core r)"

lemma agree_own: "distinct (map wr_id table) \<Longrightarrow> set rows \<subseteq> set table \<Longrightarrow> agree rows table"
  unfolding agree_def by (auto simp: distinct_map inj_on_def)

lemma agree_core: "map row_core table = map row_core table' \<Longrightarrow> agree rows table \<Longrightarrow> agree rows table'"
  unfolding agree_def
proof (intro ballI impI)
  fix r x
  assume eq: "map row_core table = map row_core table'"
    and a: "\<forall>r\<in>set rows. \<forall>x\<in>set table. wr_id x = wr_id r \<longrightarrow> row_core x = row_core r"
    and r: "r \<in> set rows" and x: "x \<in> set table'" and id: "wr_id x = wr_id r"
  from x have "row_core x \<in> set (map row_core table')" by simp
  then obtain y where y: "y \<in> set table" "row_core y = row_core x" unfolding eq [symmetric] by auto
  then have "wr_id y = wr_id r" using id by (simp add: row_core_def)
  with a r y show "row_core x = row_core r" by metis
qed

lemma put_row_core:
  assumes "agree [row] table" and "row_core row' = row_core row"
  shows "map row_core (row_put wr_id row' table) = map row_core table"
proof -
  have "wr_id row' = wr_id row" using assms(2) by (simp add: row_core_def)
  then show ?thesis using assms by (auto simp: row_put_def agree_def)
qed

lemma put_wf_row_part: "import_part (put_wf_row row d) = (wf_jobs d, row_put wr_id row (wf_rows d), wf_decisions d)"
  by (simp add: import_part_def put_wf_row_def)

definition loop_kept :: "db \<Rightarrow> db \<Rightarrow> bool" where
  "loop_kept d d' \<longleftrightarrow> wf_jobs d' = wf_jobs d \<and> wf_decisions d' = wf_decisions d
     \<and> map row_core (wf_rows d') = map row_core (wf_rows d)"

lemma loop_kept_trans: "\<lbrakk>loop_kept a b; loop_kept b c\<rbrakk> \<Longrightarrow> loop_kept a c"
  by (simp add: loop_kept_def)

lemma loop_kept_put:
  assumes "import_part d1 = import_part d" and "agree [row] (wf_rows d)" and "row_core row' = row_core row"
  shows "loop_kept d (put_wf_row row' d1)"
  using assms put_row_core [of row "wf_rows d" row']
  by (simp add: loop_kept_def import_part_def put_wf_row_def)

lemma loop_kept_agree:
  "\<lbrakk>loop_kept d d'; agree (row # rows) (wf_rows d)\<rbrakk> \<Longrightarrow> agree rows (wf_rows d')"
  by (rule agree_core [of "wf_rows d"]) (auto simp: loop_kept_def agree_def)

lemma commit_step_kept:
  assumes "commit_wf_step c e job sb hb k row s = Inr s'" and "agree [row] (wf_rows (wk_db s))"
  shows "loop_kept (wk_db s) (wk_db s')"
  using assms(1) commit_row_frame assms(2)
  by (auto simp: commit_wf_step_def Let_def frame_simps split: sum.splits prod.splits option.splits
      intro!: loop_kept_put)

lemma commit_rows_kept:
  assumes "commit_wf_rows c e job sb hb k rows s = Inr s'" and "agree rows (wf_rows (wk_db s))"
  shows "loop_kept (wk_db s) (wk_db s')"
  using assms
proof (induction rows arbitrary: k s)
  case (Cons row rows)
  then obtain s1 where s1: "commit_wf_step c e job sb hb k row s = Inr s1"
      "commit_wf_rows c e job sb hb (Suc k) rows s1 = Inr s'" by (auto split: sum.splits)
  have k1: "loop_kept (wk_db s) (wk_db s1)"
    using commit_step_kept [OF s1(1)] Cons.prems(2) by (auto simp: agree_def)
  then have "agree rows (wf_rows (wk_db s1))" using Cons.prems(2) by (rule loop_kept_agree)
  from Cons.IH [OF s1(2) this] k1 show ?case by (rule loop_kept_trans [rotated])
qed (simp add: loop_kept_def)

lemma reverse_step_kept:
  assumes "reverse_wf_step e job a now k row s = Inr s'" and "agree [row] (wf_rows (wx_db s))"
  shows "loop_kept (wx_db s) (wx_db s')"
  using assms(1) reverse_row_frame assms(2)
  by (auto simp: reverse_wf_step_def Let_def frame_simps loop_kept_def [of d d for d]
      split: sum.splits prod.splits option.splits intro!: loop_kept_put)

lemma reverse_rows_kept:
  assumes "reverse_wf_rows e job a now k rows s = Inr s'" and "agree rows (wf_rows (wx_db s))"
  shows "loop_kept (wx_db s) (wx_db s')"
  using assms
proof (induction rows arbitrary: k s)
  case (Cons row rows)
  then obtain s1 where s1: "reverse_wf_step e job a now k row s = Inr s1"
      "reverse_wf_rows e job a now (Suc k) rows s1 = Inr s'" by (auto split: sum.splits)
  have k1: "loop_kept (wx_db s) (wx_db s1)"
    using reverse_step_kept [OF s1(1)] Cons.prems(2) by (auto simp: agree_def)
  then have "agree rows (wf_rows (wx_db s1))" using Cons.prems(2) by (rule loop_kept_agree)
  from Cons.IH [OF s1(2) this] k1 show ?case by (rule loop_kept_trans [rotated])
qed (simp add: loop_kept_def)

end
