(* ===== verification/Wf_Authority_Properties.thy ===== *)
theory Wf_Authority_Properties
  imports Wf_Authority Directory Authz_Properties
begin

text \<open>
  The bulk resolution of an import's authority is the manual screens' own: every requirement is
  decided as the one-row-at-a-time check would decide it, for one job and for the whole list.
\<close>

section \<open>The reference check\<close>

text \<open>What the manual screens ask before the effect of one row.\<close>

definition meets :: "db \<Rightarrow> uuid \<Rightarrow> time \<Rightarrow> requirement option \<Rightarrow> bool" where
  "meets d actor_id now req =
     (case req of
        None \<Rightarrow> True
      | Some Deny \<Rightarrow> False
      | Some (Need_user u) \<Rightarrow> can_manage_user d actor_id u now
      | Some (Need_scope c st si) \<Rightarrow> has_scope_capability d actor_id c st si now
      | Some (Need_campaign i) \<Rightarrow> has_campaign_capability d actor_id ''assign_campaign_agent'' i now)"

section \<open>Roles of the targets\<close>

lemma batched_once:
  assumes "distinct xs" and "t \<in> set xs"
  shows "concat (map (\<lambda>c. if t \<in> set c then ys else []) (batched n xs)) = ys"
  using assms
proof (induction n xs rule: batched.induct)
  case (2 n x xs)
  let ?c = "x # take (n - 1) xs" and ?r = "drop (n - 1) xs"
  have split: "set xs = set (take (n - 1) xs) \<union> set ?r" "distinct ?r"
    "set (take (n - 1) xs) \<inter> set ?r = {}"
    using 2(2) by (metis append_take_drop_id set_append, simp, simp add: set_take_disj_set_drop_if_distinct)
  have none: "concat (map (\<lambda>c. if t \<in> set c then ys else []) (batched n zs)) = []" if "t \<notin> set zs" for zs
  proof -
    have "t \<notin> set c" if "c \<in> set (batched n zs)" for c
      using \<open>t \<notin> set zs\<close> that batched_set [of n zs] by blast
    then show ?thesis by simp
  qed
  show ?case
  proof (cases "t \<in> set ?r")
    case True
    then have "t \<notin> set ?c" using 2(2) split by auto
    with 2(1) [OF split(2) True] show ?thesis by simp
  next
    case False
    then have "t \<in> set ?c" using 2(3) split(1) by auto
    with none [OF False] show ?thesis by simp
  qed
qed simp

lemma fold_group: "fold (\<lambda>ra m. m(key ra := m (key ra) @ [ra])) ras m t = m t @ filter (\<lambda>ra. key ra = t) ras"
  by (induction ras arbitrary: m) simp_all

lemma target_roles_spec:
  assumes "distinct ids" and "t \<in> set ids"
  shows "target_roles d now ids t = effective_role_assignments d t now"
proof -
  let ?chunk = "\<lambda>c. filter (\<lambda>ra. ra_user_id ra \<in> set c \<and> role_effective now ra) (role_assignments d)"
  have one: "filter (\<lambda>ra. ra_user_id ra = t) (?chunk c)
      = (if t \<in> set c then effective_role_assignments d t now else [])" for c
    by (cases "t \<in> set c") (auto simp: effective_role_assignments_def filter_empty_conv intro!: filter_cong)
  have "target_roles d now ids t
      = filter (\<lambda>ra. ra_user_id ra = t) (concat (map ?chunk (batched authority_chunk_size ids)))"
    by (simp add: target_roles_def fold_fold_concat fold_group)
  also have "\<dots> = concat (map (\<lambda>c. filter (\<lambda>ra. ra_user_id ra = t) (?chunk c)) (batched authority_chunk_size ids))"
    by (simp only: filter_concat map_map comp_def)
  also have "\<dots> = effective_role_assignments d t now"
    unfolding one by (rule batched_once [OF assms])
  finally show ?thesis .
qed

section \<open>One requirement\<close>

lemma scopes_for_mem: "s \<in> set (scopes_for c tuples) \<longleftrightarrow> (c, s) \<in> set tuples"
  by (induction tuples) (auto simp: scopes_for_def List.map_filter_simps split: if_splits)

lemma scope_ok_iff:
  assumes "distinct (map te_id (teams d))"
  shows "scope_ok d a now tuples (c, st, si) \<longleftrightarrow>
     (c, st, si) \<in> set tuples \<and> has_scope_capability d a c st si now"
  by (auto simp: scope_ok_def bulk_scopes_agree [OF assms] scopes_for_mem)

lemma target_ok_iff:
  assumes "distinct (map te_id (teams d))" and "distinct ts" and "t \<in> set ts"
  shows "t \<in> sa_targets (satisfied_authority d a now ts ss cs) \<longleftrightarrow> can_manage_user d a t now"
proof -
  let ?roles = "target_roles d now ts"
  let ?all = "ss @ concat (map (\<lambda>t. List.map_filter appointment_scope (?roles t)) ts)"
  have roles: "?roles t = effective_role_assignments d t now" by (rule target_roles_spec [OF assms(2,3)])
  have tup: "(case appointment_scope ra of None \<Rightarrow> False | Some tup \<Rightarrow> scope_ok d a now ?all tup)
      = (case map_of role_appointment_capability (ra_role_code ra) of
           None \<Rightarrow> False | Some c \<Rightarrow> has_scope_capability d a c (ra_scope_type ra) (ra_scope_id ra) now)"
    if "ra \<in> set (?roles t)" for ra
  proof (cases "map_of role_appointment_capability (ra_role_code ra)")
    case (Some c)
    then have "appointment_scope ra = Some (c, ra_scope_type ra, ra_scope_id ra)"
      by (simp add: appointment_scope_def)
    moreover from this have "(c, ra_scope_type ra, ra_scope_id ra) \<in> set ?all"
      using that assms(3) by (auto simp: map_filter_mem)
    ultimately show ?thesis using Some by (simp add: scope_ok_iff [OF assms(1)])
  qed (simp add: appointment_scope_def)
  have "list_ex (\<lambda>ra. case appointment_scope ra of None \<Rightarrow> False | Some tup \<Rightarrow> scope_ok d a now ?all tup) (?roles t)
      = list_ex (\<lambda>ra. case map_of role_appointment_capability (ra_role_code ra) of
           None \<Rightarrow> False | Some c \<Rightarrow> has_scope_capability d a c (ra_scope_type ra) (ra_scope_id ra) now) (?roles t)"
    using tup by (rule list_ex_cong [OF refl])
  moreover have "list_ex (\<lambda>t. ?roles t = []) ts" if "?roles t = []"
    using that assms(3) by (auto simp: list_ex_iff)
  ultimately show ?thesis using assms(3)
    by (simp add: satisfied_authority_def Let_def can_manage_user_def roles [symmetric]
        appointment_capabilities_def)
qed

lemma met_iff_meets:
  assumes "distinct (map te_id (teams d))" and "distinct ts"
    and "\<And>u. req = Some (Need_user u) \<Longrightarrow> u \<in> set ts"
    and "\<And>c st si. req = Some (Need_scope c st si) \<Longrightarrow> (c, st, si) \<in> set ss"
    and "\<And>i. req = Some (Need_campaign i) \<Longrightarrow> i \<in> set cs"
  shows "requirement_met (satisfied_authority d a now ts ss cs) req \<longleftrightarrow> meets d a now req"
proof (cases req)
  case (Some r)
  show ?thesis
  proof (cases r)
    case (Need_user u)
    then show ?thesis using Some assms(3) target_ok_iff [OF assms(1,2), of u a now ss cs]
      by (simp add: requirement_met_def meets_def)
  next
    case (Need_scope c st si)
    then show ?thesis using Some assms(4)
      by (simp add: requirement_met_def meets_def satisfied_authority_def Let_def scope_ok_iff [OF assms(1)])
  next
    case (Need_campaign i)
    then show ?thesis using Some assms(5)
      by (simp add: requirement_met_def meets_def satisfied_authority_def Let_def bulk_campaigns_agree)
  qed (simp add: requirement_met_def meets_def Some)
qed (simp add: requirement_met_def meets_def)

lemma required_mem:
  "u \<in> set (required_users reqs) \<longleftrightarrow> Some (Need_user u) \<in> set reqs"
  "(c, st, si) \<in> set (required_scopes reqs) \<longleftrightarrow> Some (Need_scope c st si) \<in> set reqs"
  "i \<in> set (required_campaigns reqs) \<longleftrightarrow> Some (Need_campaign i) \<in> set reqs"
proof -
  show "u \<in> set (required_users reqs) \<longleftrightarrow> Some (Need_user u) \<in> set reqs"
    by (induction reqs)
      (auto simp: required_users_def List.map_filter_simps split: option.split requirement.split)
  show "(c, st, si) \<in> set (required_scopes reqs) \<longleftrightarrow> Some (Need_scope c st si) \<in> set reqs"
    by (induction reqs)
      (auto simp: required_scopes_def List.map_filter_simps split: option.split requirement.split)
  show "i \<in> set (required_campaigns reqs) \<longleftrightarrow> Some (Need_campaign i) \<in> set reqs"
    by (induction reqs)
      (auto simp: required_campaigns_def List.map_filter_simps split: option.split requirement.split)
qed

lemma distinct_required: "distinct (required_users reqs)"
  by (simp add: required_users_def)

lemma satisfied_iff:
  assumes "distinct (map te_id (teams d))" and "set reqs \<subseteq> set all"
  shows "requirements_satisfied reqs (satisfied_authority d a now (required_users all)
      (required_scopes all) (required_campaigns all)) \<longleftrightarrow> (\<forall>req \<in> set reqs. meets d a now req)"
proof -
  have "requirement_met (satisfied_authority d a now (required_users all) (required_scopes all)
      (required_campaigns all)) req \<longleftrightarrow> meets d a now req" if "req \<in> set reqs" for req
    by (rule met_iff_meets [OF assms(1)])
      (use assms(2) that in \<open>auto simp: required_mem distinct_required\<close>)
  then show ?thesis by (simp add: requirements_satisfied_def list_all_iff)
qed

lemma authority_iff:
  assumes "distinct (map te_id (teams d))"
  shows "authority_over_requirements d a now reqs \<longleftrightarrow> (\<forall>req \<in> set reqs. meets d a now req)"
proof -
  have "\<not> meets d a now (Some Deny)" by (simp add: meets_def)
  then show ?thesis
    using satisfied_iff [OF assms order_refl, of reqs a now]
    by (auto simp: authority_over_requirements_def)
qed


section \<open>The list\<close>

lemma gather_spec:
  assumes "gather_requirements d a jobs = Inr pairs"
  shows "map fst pairs = jobs \<and> (\<forall>(job, reqs) \<in> set pairs. wj_uploader_id job \<noteq> a \<longrightarrow>
     job_access_requirements d job = Inr reqs)"
  using assms
proof (induction jobs arbitrary: pairs)
  case (Cons job jobs)
  then show ?case by (auto split: sum.splits if_splits)
qed simp

lemma take_visible_spec:
  assumes "length visible < limit"
    and "\<And>job reqs. (job, reqs) \<in> set pairs \<Longrightarrow>
      P job \<longleftrightarrow> wj_uploader_id job = a \<or> (case reqs of None \<Rightarrow> False | Some rs \<Rightarrow> requirements_satisfied rs sa)"
  shows "take_visible a sa limit visible pairs = take limit (visible @ filter P (map fst pairs))"
  using assms
proof (induction a sa limit visible pairs rule: take_visible.induct)
  case (2 a sa limit visible job reqs rest)
  have P: "P job \<longleftrightarrow> wj_uploader_id job = a \<or> (case reqs of None \<Rightarrow> False | Some rs \<Rightarrow> requirements_satisfied rs sa)"
    by (rule 2(4)) simp
  show ?case
  proof (cases "P job")
    case True
    show ?thesis
    proof (cases "limit \<le> length (visible @ [job])")
      case True
      then have "limit = length (visible @ [job])" using 2(3) by simp
      then show ?thesis using \<open>P job\<close> P by simp
    next
      case False
      with 2(1) \<open>P job\<close> P 2(4) show ?thesis by simp
    qed
  next
    case False
    with 2(2) P 2(3,4) show ?thesis by simp
  qed
qed simp

text \<open>
  The list of imports, which resolves the authority over all candidates at once, shows exactly
  the candidates the per-job check would let the actor open, newest first, up to the limit.
\<close>

theorem visible_jobs_are_the_accessible:
  assumes "distinct (map te_id (teams d))" and "0 < limit"
    and "visible_jobs d a now limit candidate_limit = Inr jobs"
  shows "jobs = take limit (filter (\<lambda>job. can_access_job d a job now = Inr True)
     (visible_candidates d candidate_limit))"
proof -
  obtain pairs where g: "gather_requirements d a (visible_candidates d candidate_limit) = Inr pairs"
    using assms(3) by (auto simp: visible_jobs_def split: sum.splits)
  let ?all = "concat (List.map_filter snd pairs)"
  let ?sa = "satisfied_authority d a now (required_users ?all) (required_scopes ?all) (required_campaigns ?all)"
  have jobs: "jobs = take_visible a ?sa limit [] pairs"
    using assms(3) g by (simp add: visible_jobs_def Let_def)
  note spec = gather_spec [OF g]
  have acc: "can_access_job d a job now = Inr True \<longleftrightarrow>
      wj_uploader_id job = a \<or> (case reqs of None \<Rightarrow> False | Some rs \<Rightarrow> requirements_satisfied rs ?sa)"
    if "(job, reqs) \<in> set pairs" for job reqs
  proof (cases "wj_uploader_id job = a")
    case False
    with spec that have r: "job_access_requirements d job = Inr reqs" by blast
    show ?thesis
    proof (cases reqs)
      case (Some rs)
      with that have "set rs \<subseteq> set ?all" by (force simp: map_filter_mem)
      then show ?thesis using False r Some
        by (auto simp: can_access_job_def authority_iff [OF assms(1)] satisfied_iff [OF assms(1)])
    qed (use False r in \<open>auto simp: can_access_job_def\<close>)
  qed (simp add: can_access_job_def)
  have "jobs = take limit ([] @ filter (\<lambda>job. can_access_job d a job now = Inr True) (map fst pairs))"
    unfolding jobs by (rule take_visible_spec) (use assms(2) acc in auto)
  then show ?thesis using spec by simp
qed

end
