(* ===== verification/Wf_Properties.thy ===== *)
theory Wf_Properties
  imports Wf_Frames Wf_Authority_Properties
begin

text \<open>
  What a bulk import guarantees: the counters and the footprint that parsing stores, who may commit
  or reverse, and that a commit happens once.
\<close>

section \<open>Parsing\<close>

lemma job_audit_tables [simp]:
  "wf_jobs (job_audit act out u i r m d) = wf_jobs d" "wf_rows (job_audit act out u i r m d) = wf_rows d"
  "wf_decisions (job_audit act out u i r m d) = wf_decisions d"
  "teams (job_audit act out u i r m d) = teams d"
  by (simp_all add: job_audit_def record_audit_def)

lemma put_wf_job_tables [simp]:
  "wf_rows (put_wf_job j d) = wf_rows d" "wf_jobs (put_wf_job j d) = row_put wj_id j (wf_jobs d)"
  "wf_decisions (put_wf_job j d) = wf_decisions d" "teams (put_wf_job j d) = teams d"
  by (simp_all add: put_wf_job_def)

lemma job_notice_eq:
  "job_notice e k u cat title body job d = d\<lparr>notifications := notifications d @
     [\<lparr>nt_id = fresh_id e k, nt_recipient_user_id = u, nt_category = cat, nt_title = title,
       nt_body = Some body, nt_related_entity_type = Some ''workforce_import_job'',
       nt_related_entity_id = Some (wj_id job), nt_read_at = None, nt_created_at = clk e k\<rparr>]\<rparr>"
  by (simp add: job_notice_def notify_def Let_def)

lemma notify_candidates_tables:
  assumes "notify_candidates e k now body job us d = Inr d'"
  shows "wf_jobs d' = wf_jobs d \<and> wf_rows d' = wf_rows d \<and> wf_decisions d' = wf_decisions d \<and> teams d' = teams d"
  using assms
proof (induction us arbitrary: k d)
  case (Cons u us)
  then show ?case
    by (auto simp: review_notice_def job_notice_eq split: if_splits sum.splits bool.splits dest: Cons.IH)
qed simp

lemma notify_pending_tables:
  assumes "notify_pending_approvers e k now job d = Inr d'"
  shows "wf_jobs d' = wf_jobs d \<and> wf_rows d' = wf_rows d \<and> wf_decisions d' = wf_decisions d \<and> teams d' = teams d"
  using assms by (auto simp: notify_pending_approvers_def split: option.splits dest: notify_candidates_tables)

section \<open>Counters\<close>

definition wf_counted :: "wf_row list \<Rightarrow> wf_counts" where
  "wf_counted rs = \<lparr>wc_total = length rs,
     wc_valid = count_where (\<lambda>r. wr_validation_result r = Row_valid) rs,
     wc_warning = count_where (\<lambda>r. wr_validation_result r = Row_warning) rs,
     wc_invalid = count_where (\<lambda>r. wr_validation_result r = Row_invalid) rs,
     wc_high_risk = count_where (\<lambda>r. wr_validation_result r = Row_valid \<and> wr_risk_level r = High_risk) rs\<rparr>"

lemma count_fold: "fold count_wf_row rs no_wf_counts = wf_counted rs"
proof (induction rs rule: rev_induct)
  case (snoc r rs)
  then show ?case
    by (cases "wr_validation_result r"; cases "wr_risk_level r")
      (simp_all add: wf_counted_def count_wf_row_def count_where_def Let_def)
qed (simp add: wf_counted_def no_wf_counts_def count_where_def)

section \<open>The footprint\<close>

lemma note_spec:
  assumes "fp = fold (\<lambda>r. note_requirement (req r)) rs (False, [])"
  shows "snd fp = [] \<and> fst fp \<or> \<not> fst fp \<and> Some ` set (snd fp) = req ` set rs - {None}"
  using assms
proof (induction rs arbitrary: fp rule: rev_induct)
  case (snoc r rs)
  define fp0 where "fp0 = fold (\<lambda>r. note_requirement (req r)) rs (False, [])"
  have fp: "fp = note_requirement (req r) fp0" using snoc.prems by (simp add: fp0_def)
  show ?case
    using snoc.IH [OF fp0_def] unfolding fp
    by (cases fp0; cases "req r")
      (auto simp: note_requirement_def Let_def image_Un insert_Diff_if split: if_splits)
qed simp

lemma stored_footprint: "\<not> fst fp \<Longrightarrow> stored_requirements (footprint_of fp) = Inr (map Some (snd fp))"
  by (auto simp: stored_requirements_def footprint_of_def comp_def Let_def)

section \<open>A parsed job\<close>

lemma fail_wf_parse_state:
  assumes "fail_wf_parse err job d = Inr d'" and "get_wf_job d i = Some x" and "wj_id job = i"
  shows "get_wf_job d' i = Some (job\<lparr>wj_state := Failed,
      wj_error_summary := Some (take 1000 (wf_parse_error_text err))\<rparr>)"
proof -
  have "d' = wf_parse_failure (wf_parse_error_text err) job d"
    using assms(1) by (auto simp: fail_wf_parse_def split: option.splits)
  then have "get_wf_job d' i = get_wf_job (put_wf_job (job\<lparr>wj_state := Failed,
      wj_error_summary := Some (take 1000 (wf_parse_error_text err))\<rparr>) d) i"
    by (simp add: wf_parse_failure_def get_wf_job_def)
  then show ?thesis using assms(2,3) by (simp add: wf_job_table.get_put)
qed

definition staged_of :: "env \<Rightarrow> file_lib \<Rightarrow> settings \<Rightarrow> storage \<Rightarrow> wf_job \<Rightarrow> db \<Rightarrow> wf_row list" where
  "staged_of e fl cfg st job d =
     (case check_extension (wj_source_filename_display job) of
        Inl _ \<Rightarrow> []
      | Inr ext \<Rightarrow> (case st (wj_generated_storage_key job) of
            None \<Rightarrow> []
          | Some content \<Rightarrow> map (wf_staged_row e (wj_id job)) (classify_wf_rows (wj_import_type job)
              (put_wf_job (job\<lparr>wj_state := Parsing\<rparr>) d) {} (fst (parse_file fl cfg ext content)))))"

lemma staged_rows_of_job:
  "filter (\<lambda>r. wr_import_job_id r = wj_id job) (staged_of e fl cfg st job d) = staged_of e fl cfg st job d"
  by (auto simp: staged_of_def wf_staged_row_def filter_id_conv split: sum.split option.split)

lemma parsed_job_shape:
  assumes "get_wf_job d i = Some job" and "wj_state job = Quarantined"
    and "parse_wf_job e fl cfg st i d = Inr d'"
    and "get_wf_job d' i = Some job'" and "wj_state job' = Parsed"
  defines "staged \<equiv> staged_of e fl cfg st job d"
  shows "job' = parsed_wf_job (wf_counted staged)
      (footprint_of (fold (\<lambda>r. note_requirement (row_requirement (job\<lparr>wj_state := Parsing\<rparr>) r)) staged (False, [])))
      (job\<lparr>wj_state := Parsing\<rparr>) \<and> wf_rows d' = wf_rows d @ staged \<and> staged \<noteq> [] \<and> teams d' = teams d
    \<and> (\<exists>dp. notify_pending_approvers e (Suc (length staged)) (clk e 0) job' dp = Inr d'
         \<and> notifications dp = notifications d)"
proof -
  let ?job = "job\<lparr>wj_state := Parsing\<rparr>"
  have i: "wj_id job = i" using assms(1) by (simp add: wf_job_table.get_key)
  have failed: False if "fail_wf_parse err ?job dd = Inr d'" "wf_jobs dd = row_put wj_id ?job (wf_jobs d)" for err dd
  proof -
    have "get_wf_job dd i = Some ?job"
      using that(2) assms(1) i by (simp add: get_wf_job_def row_get_put)
    from fail_wf_parse_state [OF that(1) this] i assms(4,5) show False by simp
  qed
  from assms(3) obtain ext where ext: "check_extension (wj_source_filename_display job) = Inr ext"
    by (auto simp: parse_wf_job_def assms(1,2) Let_def split: sum.splits)
  from assms(3) ext obtain content where content: "st (wj_generated_storage_key job) = Some content"
    by (auto simp: parse_wf_job_def assms(1,2) Let_def split: option.splits)
  obtain rows fault where pf: "parse_file fl cfg ext content = (rows, fault)" by (cases "parse_file fl cfg ext content")
  have staged: "staged = map (wf_staged_row e (wj_id job))
      (classify_wf_rows (wj_import_type job) (put_wf_job ?job d) {} rows)"
    by (simp add: staged_def staged_of_def ext content pf)
  from assms(3) obtain header where header: "read_header fl cfg ext content = Inr header"
    and nofault: "header_fault (wj_import_type job) header = None"
    by (auto simp: parse_wf_job_def assms(1,2) ext content Let_def dest: failed split: sum.splits option.splits)
  have "fault = None" and "staged \<noteq> []"
    using assms(3)
    by (auto simp: parse_wf_job_def assms(1,2) ext content header nofault pf Let_def staged count_fold
        wf_counted_def dest: failed split: option.splits if_splits)
  let ?fp = "footprint_of (fold (\<lambda>r. note_requirement (row_requirement ?job r)) staged (False, []))"
  let ?new = "parsed_wf_job (wf_counted staged) ?fp ?job"
  let ?d2 = "(put_wf_job ?job d)\<lparr>wf_rows := wf_rows d @ staged\<rparr>"
  obtain m where done': "notify_pending_approvers e (Suc (length staged)) (clk e 0) ?new
      (job_audit ''workforce_import.parse'' ''success'' (wj_uploader_id job) i None m (put_wf_job ?new ?d2)) = Inr d'"
    using assms(3) \<open>staged \<noteq> []\<close> i unfolding \<open>fault = None\<close>
    by (auto simp: parse_wf_job_def assms(1,2) ext content header nofault pf \<open>fault = None\<close> Let_def
        staged count_fold wf_counted_def flushed_rows_def)
  note tables = notify_pending_tables [OF done', simplified]
  have "get_wf_job ?d2 i = Some ?job"
    using assms(1) i by (simp add: get_wf_job_def put_wf_job_def row_get_put)
  then have "get_wf_job (put_wf_job ?new ?d2) i = Some ?new"
    using i by (simp add: wf_job_table.get_put parsed_wf_job_def)
  moreover have "get_wf_job d' i = get_wf_job (put_wf_job ?new ?d2) i"
    using tables by (simp add: get_wf_job_def)
  ultimately have "job' = ?new" using assms(4) by simp
  with done' have "\<exists>dp. notify_pending_approvers e (Suc (length staged)) (clk e 0) job' dp = Inr d'
      \<and> notifications dp = notifications d"
    by (intro exI [of _ "job_audit ''workforce_import.parse'' ''success'' (wj_uploader_id job) i None m (put_wf_job ?new ?d2)"])
      (simp add: put_wf_job_def job_audit_def record_audit_def)
  with \<open>job' = ?new\<close> show ?thesis using tables \<open>staged \<noteq> []\<close> by (simp add: put_wf_job_def)
qed

lemma parsed_job_rows:
  assumes "get_wf_job d i = Some job" and "wj_state job = Quarantined" and "job_rows d job = []"
    and "parse_wf_job e fl cfg st i d = Inr d'"
    and "get_wf_job d' i = Some job'" and "wj_state job' = Parsed"
  shows "job_rows d' job' = staged_of e fl cfg st job d" and "staged_of e fl cfg st job d \<noteq> []"
proof -
  note shape = parsed_job_shape [OF assms(1,2,4-6)]
  have "wj_id job' = wj_id job" "wf_rows d' = wf_rows d @ staged_of e fl cfg st job d"
    using shape by (simp_all add: parsed_wf_job_def)
  then show "job_rows d' job' = staged_of e fl cfg st job d"
    using assms(3) by (simp add: job_rows_def staged_rows_of_job)
  show "staged_of e fl cfg st job d \<noteq> []" using shape by blast
qed

text \<open>
  The counters a parsed import shows are the numbers of its stored rows of each kind, so the
  checks on them (blocking errors, warnings to acknowledge, whether a second approver is needed at
  all) speak of the rows that will be committed.
\<close>

lemma parsed_counters_are_the_rows:
  assumes "get_wf_job d i = Some job" and "wj_state job = Quarantined" and "job_rows d job = []"
    and "parse_wf_job e fl cfg st i d = Inr d'"
    and "get_wf_job d' i = Some job'" and "wj_state job' = Parsed"
  shows "wj_total_rows job' = length (job_rows d' job') \<and> 0 < wj_total_rows job'
    \<and> wj_invalid_rows job' = count_where (\<lambda>r. wr_validation_result r = Row_invalid) (job_rows d' job')
    \<and> wj_warning_rows job' = count_where (\<lambda>r. wr_validation_result r = Row_warning) (job_rows d' job')
    \<and> wj_valid_rows job' = length (committable_rows d' job' None)
    \<and> wj_high_risk_rows job' = length (committable_rows d' job' (Some High_risk))
    \<and> wj_total_rows job' = wj_valid_rows job' + wj_warning_rows job' + wj_invalid_rows job'"
proof -
  note shape = parsed_job_shape [OF assms(1,2,4-6)]
  define staged where "staged = staged_of e fl cfg st job d"
  have rows: "job_rows d' job' = staged" "0 < length staged"
    using parsed_job_rows [OF assms] by (simp_all add: staged_def)
  have sum: "length rs = count_where (\<lambda>r. wr_validation_result r = Row_valid) rs
      + count_where (\<lambda>r. wr_validation_result r = Row_warning) rs
      + count_where (\<lambda>r. wr_validation_result r = Row_invalid) rs" for rs
  proof (induction rs)
    case (Cons r rs)
    then show ?case by (cases "wr_validation_result r") (simp_all add: count_where_def)
  qed (simp add: count_where_def)
  show ?thesis
    using shape rows(2) sum [of staged] unfolding committable_rows_def rows(1)
    by (simp add: parsed_wf_job_def wf_counted_def staged_def [symmetric] count_where_def)
qed

section \<open>Access through the footprint\<close>

lemma footprint_rows:
  assumes "get_wf_job d i = Some job" and "wj_state job = Quarantined" and "job_rows d job = []"
    and "parse_wf_job e fl cfg st i d = Inr d'"
    and "get_wf_job d' i = Some job'" and "wj_state job' = Parsed"
    and "wj_footprint later = wj_footprint job'" and "wj_import_type later = wj_import_type job'"
    and "a \<noteq> wj_uploader_id later" and "distinct (map te_id (teams d2))"
    and "map_option fp_over_cap (wj_footprint later) = Some False
      \<or> wj_state later = Parsed \<and> job_rows d2 later = job_rows d' job'"
  shows "can_access_job d2 a later now = Inr (\<forall>row \<in> set (job_rows d' job').
     meets d2 a now (row_requirement job' row))"
proof -
  note shape = parsed_job_shape [OF assms(1,2,4-6)]
  define staged where "staged = staged_of e fl cfg st job d"
  let ?req = "row_requirement (job\<lparr>wj_state := Parsing\<rparr>)"
  let ?fp = "fold (\<lambda>r. note_requirement (?req r)) staged (False, [])"
  have rows: "job_rows d' job' = staged" "staged \<noteq> []"
    using parsed_job_rows [OF assms(1-6)] by (simp_all add: staged_def)
  have req: "row_requirement job' = ?req" "row_requirement later = ?req"
    using shape assms(8) by (simp_all add: fun_eq_iff row_requirement_def parsed_wf_job_def)
  have fp: "wj_footprint later = Some (footprint_of ?fp)"
    using shape assms(7) by (simp add: parsed_wf_job_def staged_def)
  have none: "meets d2 a now None" by (simp add: meets_def)
  show ?thesis
  proof (cases "fst ?fp")
    case True
    then have "wj_state later = Parsed" "job_rows d2 later = staged"
      using assms(11) fp rows by (simp_all add: footprint_of_def)
    then show ?thesis
      using True assms(9) fp rows req
      by (simp add: can_access_job_def job_access_requirements_def footprint_of_def
          authority_iff [OF assms(10)])
  next
    case False
    with note_spec [OF refl, of ?req staged] have "Some ` set (snd ?fp) = ?req ` set staged - {None}" by blast
    then have "(\<forall>r \<in> set (map Some (snd ?fp)). meets d2 a now r) \<longleftrightarrow> (\<forall>r \<in> ?req ` set staged - {None}. meets d2 a now r)"
      by (simp only: set_map)
    also have "\<dots> \<longleftrightarrow> (\<forall>row \<in> set staged. meets d2 a now (?req row))"
      using none by auto
    finally show ?thesis
      using False assms(9) fp rows req
      by (simp add: can_access_job_def job_access_requirements_def stored_footprint
          authority_iff [OF assms(10)] footprint_of_def [of ?fp, THEN arg_cong [of _ _ fp_over_cap]])
  qed
qed

text \<open>
  C29: the footprint is the rows. Whoever did not upload a parsed import can open it exactly when
  the manual screens would let them apply every single row of it, valid or not; and this answer
  does not depend on the rows being there: it is the same from the stored footprint in any later
  database, after commit or clean-up, except for a footprint over its cap, which is read from the
  rows while the job waits for its decision.
\<close>

theorem footprint_is_the_rows:
  assumes "get_wf_job d i = Some job" and "wj_state job = Quarantined" and "job_rows d job = []"
    and "parse_wf_job e fl cfg st i d = Inr d'"
    and "get_wf_job d' i = Some job'" and "wj_state job' = Parsed"
    and "wj_footprint later = wj_footprint job'" and "wj_import_type later = wj_import_type job'"
    and "a \<noteq> wj_uploader_id later" and "distinct (map te_id (teams d2))"
    and "map_option fp_over_cap (wj_footprint later) = Some False
      \<or> wj_state later = Parsed \<and> job_rows d2 later = job_rows d' job'"
  shows "can_access_job d2 a later now = Inr (\<forall>row \<in> set (job_rows d' job').
     meets d2 a now (row_requirement job' row))"
  using assms by (rule footprint_rows)

section \<open>Committing\<close>

lemma committable_in_job: "set (rows_in_order d job) \<subseteq> set (wf_rows d)"
  by (auto simp: rows_in_order_def committable_rows_def job_rows_def)

definition committed_wf_job :: "env \<Rightarrow> string \<Rightarrow> (nat \<times> string) list \<Rightarrow> wf_job \<Rightarrow> wf_job" where
  "committed_wf_job e key outs job = job\<lparr>wj_state := Committed, wj_committed_at := Some (clk e 1),
     wj_idempotency_key := Some key, wj_committed_result := Some outs\<rparr>"

lemma finish_commit_part:
  "import_part (finish_commit e job a key s) =
     (row_put wj_id (committed_wf_job e key (wk_outcomes s) job) (wf_jobs (wk_db s)), wf_rows (wk_db s),
      wf_decisions (wk_db s))"
  by (simp add: finish_commit_def Let_def import_part_def job_notice_eq committed_wf_job_def put_wf_job_def)

lemma commit_job_shape:
  assumes "get_wf_job d i = Some job" and "wj_state job = Parsed" and "distinct (map wr_id (wf_rows d))"
    and "commit_wf_job c e i a ver key d = Inr ((outs, toks), d')"
  shows "wj_decision_version job = ver \<and> wj_invalid_rows job = 0
    \<and> (\<exists>who. commit_approvers d job (clk e 0) = Inr who)
    \<and> wf_jobs d' = row_put wj_id (committed_wf_job e key outs job) (wf_jobs d)
    \<and> wf_decisions d' = wf_decisions d \<and> map row_core (wf_rows d') = map row_core (wf_rows d)"
proof -
  from assms(1,2,4) obtain sb hb s where a: "commit_approvers d job (clk e 0) = Inr (sb, hb)"
    and s: "commit_wf_rows c e job sb hb 1 (rows_in_order d job)
      \<lparr>wk_db = d, wk_outcomes = [], wk_tokens = []\<rparr> = Inr s"
    and d': "d' = finish_commit e job a key s" and outs: "outs = wk_outcomes s"
    and g: "wj_decision_version job = ver" "wj_invalid_rows job = 0"
    by (auto simp: commit_wf_job_def split: option.splits if_splits sum.splits prod.splits)
  have "agree (rows_in_order d job) (wf_rows d)"
    by (rule agree_own [OF assms(3) committable_in_job])
  with commit_rows_kept [OF s] have "loop_kept d (wk_db s)" by simp
  then show ?thesis
    using finish_commit_part [of e job a key s] a g d' outs by (simp add: import_part_def loop_kept_def)
qed

lemma commit_job_row:
  assumes "get_wf_job d i = Some job" and "wj_state job = Parsed" and "distinct (map wr_id (wf_rows d))"
    and "commit_wf_job c e i a ver key d = Inr ((outs, toks), d')"
  shows "get_wf_job d' i = Some (committed_wf_job e key outs job)"
proof -
  have "wf_jobs d' = row_put wj_id (committed_wf_job e key outs job) (wf_jobs d)"
    using commit_job_shape [OF assms] by blast
  moreover have "wj_id job = i" using assms(1) by (simp add: wf_job_table.get_key)
  ultimately show ?thesis
    using assms(1) by (simp add: get_wf_job_def row_get_put committed_wf_job_def)
qed


text \<open>
  A commit happens once. After a commit under a key, in any later database where the job's row
  is as that commit left it, whoever may open the job gets the same outcomes back under the same
  key and version or any other, with no activation token disclosed again and nothing written; any
  other key is refused.
\<close>

theorem bulk_commit_replay:
  assumes "get_wf_job d i = Some job" and "wj_state job = Parsed" and "distinct (map wr_id (wf_rows d))"
    and "commit_wf_job c e i a ver key d = Inr ((outs, toks), d')"
    and "get_wf_job d2 i = get_wf_job d' i"
    and "can_access_job d2 b (committed_wf_job e key outs job) (clk e2 0) = Inr True"
  shows "commit_wf_job c e2 i b ver2 key2 d2 =
     (if key2 = key then Inr ((outs, []), d2) else Inl Wf_other_key)"
  using commit_job_row [OF assms(1-4)] assms(5,6)
  by (simp add: commit_wf_job_def assert_job_accessible_def committed_wf_job_def)

section \<open>Reversing\<close>

text \<open>
  C33: an import too large for its footprint is stuck after the commit. Once it is committed with
  high-risk rows in it, nobody can reverse it: the uploader is refused as a self-approval, and
  everybody else, whatever authority they hold, is refused the job itself.
\<close>

theorem over_cap_import_is_irreversible:
  assumes "get_wf_job d i = Some job" and "wj_state job = Committed" and "wj_reversed_at job = None"
    and "wj_footprint job = Some fp" and "fp_over_cap fp" and "0 < wj_high_risk_rows job"
  shows "reverse_wf_job e i a d =
     Inl (if a = wj_uploader_id job then Wf_self_approval else Wf_insufficient_authority)"
  using assms
  by (simp add: reverse_wf_job_def reversal_guard_def assert_job_accessible_def can_access_job_def
      job_access_requirements_def qualified_high_risk_approver_def)

end
