(* ===== verification/Wf_Types.thy ===== *)
theory Wf_Types
  imports Wf_Commit
begin

text \<open>
  Valid rows are well typed: what a classifier stores is what the commit of that row reads, so a
  commit never fails on the shape of a stored row, whatever happened to the database in between.
\<close>

section \<open>Well-typed rows\<close>

definition date_text :: "json \<Rightarrow> bool" where
  "date_text j \<longleftrightarrow> (\<exists>dt. valid_date dt \<and> j = JStr (isoformat dt))"

definition user_value :: "string \<times> json \<Rightarrow> bool" where
  "user_value fv \<longleftrightarrow> (case fv of (field, v) \<Rightarrow>
     (field = ''display_name'' \<and> (\<exists>s. v = JStr s))
     \<or> ((field = ''start_date'' \<or> field = ''end_date'') \<and> date_text v))"

definition create_values :: "(string \<times> json) list \<Rightarrow> bool" where
  "create_values vs \<longleftrightarrow> (\<exists>login name s t. vs = [(''login_identifier'', JStr login),
     (''display_name'', JStr name), (''start_date'', s), (''end_date'', t)]
     \<and> (s = JNull \<or> date_text s) \<and> (t = JNull \<or> date_text t))"

definition some_valid :: "date option \<Rightarrow> bool" where
  "some_valid v \<longleftrightarrow> (case v of None \<Rightarrow> True | Some dt \<Rightarrow> valid_date dt)"

definition update_values_ok :: "(string \<times> json) list \<Rightarrow> bool" where
  "update_values_ok vs \<longleftrightarrow> (\<exists>name sd ed. vs = update_values name sd ed \<and> vs \<noteq> [] \<and> some_valid sd \<and> some_valid ed)"

definition role_values :: "(string \<times> json) list \<Rightarrow> bool" where
  "role_values vs \<longleftrightarrow> (\<exists>role st si reason. vs = [(''role_code'', JStr role), (''scope_type'', JStr st),
     (''scope_id'', scope_json si), (''reason_code'', JStr reason)]
     \<and> role \<in> fst ` set role_appointment_capability)"

definition verdict_ok :: "string \<Rightarrow> wf_verdict \<Rightarrow> bool" where
  "verdict_ok t v \<longleftrightarrow>
     (\<exists>action ext vs. wv_action v = Some action \<and> wv_external_workforce_id v = Some ext
        \<and> wv_parsed_values v = Some vs
        \<and> (if t = ''users'' \<and> action = ''create'' then create_values vs
           else wv_normalized_identity v \<noteq> None
             \<and> (if t = ''users'' then action = ''reactivate'' \<or> action = ''update'' \<and> update_values_ok vs
                else if t = ''explicit_deactivations'' then action = ''deactivate''
                else if t = ''team_memberships''
                then action \<in> set team_membership_actions \<and> (\<exists>i. map_of vs ''team_id'' = Some (JId i))
                else if t = ''role_assignments'' then action \<in> set role_assignment_actions \<and> role_values vs
                else if t = ''reporting_assignments''
                then \<exists>i. map_of vs ''supervisor_user_id'' = Some (JId i)
                else action \<in> set campaign_assignment_actions
                  \<and> (\<exists>i. map_of vs ''campaign_id'' = Some (JId i)))))"

lemma parse_date_valid: "parse_date s = Some (Some dt) \<Longrightarrow> valid_date dt"
  by (auto simp: parse_date_def dest: fromisoformat_valid split: if_splits)

lemma date_text_iso: "valid_date dt \<Longrightarrow> date_text (JStr (isoformat dt))"
  unfolding date_text_def by blast

lemma date_json_ok: "parse_date s = Some v \<Longrightarrow> date_json v = JNull \<or> date_text (date_json v)"
  by (cases v) (auto simp: date_json_def intro: date_text_iso parse_date_valid)

lemma update_values_typed:
  assumes "parse_date s = Some sd" and "parse_date t = Some ed" and "update_values name sd ed \<noteq> []"
  shows "update_values_ok (update_values name sd ed)"
  using assms parse_date_valid unfolding update_values_ok_def some_valid_def
  by (intro exI [of _ name] exI [of _ sd] exI [of _ ed]) (auto split: option.split)

lemma update_values_user: "update_values_ok vs \<Longrightarrow> list_all user_value vs"
  by (auto simp: update_values_ok_def update_values_def user_value_def some_valid_def
      intro: date_text_iso split: option.splits)

lemma accept_sel [simp]: "wv_validation_result (accept n a x u vs r) = Row_valid"
  "wv_action (accept n a x u vs r) = Some a" "wv_external_workforce_id (accept n a x u vs r) = Some x"
  "wv_normalized_identity (accept n a x u vs r) = u" "wv_parsed_values (accept n a x u vs r) = Some vs"
  "wv_risk_level (accept n a x u vs r) = r" "wv_row_number (accept n a x u vs r) = n"
  by (simp_all add: accept_def)

section \<open>Typing rules\<close>

text \<open>
  The verdict of row \<open>n\<close>: well typed if it is valid, and never high-risk in a users file. One rule for
  each form a classifier has.
\<close>

definition typed :: "string \<Rightarrow> nat \<Rightarrow> wf_verdict \<Rightarrow> bool" where
  "typed t n v \<longleftrightarrow> wv_row_number v = n \<and> (t = ''users'' \<longrightarrow> wv_risk_level v = Routine)
     \<and> (wv_validation_result v = Row_valid \<longrightarrow> verdict_ok t v)"

lemma typed_reject: "typed t n (reject n a x b c)"
  by (simp add: typed_def reject_def)

lemma typed_warn: "(t = ''users'' \<Longrightarrow> r = Routine) \<Longrightarrow> typed t n (warn n a x u vs r b c)"
  by (simp add: typed_def warn_def)

lemma typed_accept:
  "\<lbrakk>t = ''users'' \<Longrightarrow> r = Routine; verdict_ok t (accept n a x u vs r)\<rbrakk> \<Longrightarrow> typed t n (accept n a x u vs r)"
  by (simp add: typed_def)

lemma typed_if: "\<lbrakk>P \<Longrightarrow> typed t n a; \<not> P \<Longrightarrow> typed t n b\<rbrakk> \<Longrightarrow> typed t n (if P then a else b)"
  by simp

lemma typed_option:
  "\<lbrakk>o' = None \<Longrightarrow> typed t n a; \<And>y. o' = Some y \<Longrightarrow> typed t n (f y)\<rbrakk>
   \<Longrightarrow> typed t n (case o' of None \<Rightarrow> a | Some y \<Rightarrow> f y)"
  by (cases o') simp_all

lemma typed_dates:
  "\<lbrakk>\<And>y z. p = Some y \<Longrightarrow> q = Some z \<Longrightarrow> typed t n (f y z); typed t n b\<rbrakk>
   \<Longrightarrow> typed t n (case (p, q) of (Some y, Some z) \<Rightarrow> f y z | _ \<Rightarrow> b)"
  by (cases p; cases q) simp_all

lemma typed_pair: "typed t n v \<Longrightarrow> typed t n (fst (v, seen))"
  by simp

lemma typed_fst_if:
  "\<lbrakk>P \<Longrightarrow> typed t n (fst a); \<not> P \<Longrightarrow> typed t n (fst b)\<rbrakk> \<Longrightarrow> typed t n (fst (if P then a else b))"
  by simp

lemma typed_unless: "\<lbrakk>typed t n r; typed t n v\<rbrakk> \<Longrightarrow> typed t n (fst (unless_seen k seen r v))"
  by (simp add: unless_seen_def)

lemma typed_sum:
  "\<lbrakk>\<And>x y. s = Inl (x, y) \<Longrightarrow> typed t n (fst (f x y)); \<And>z. s = Inr z \<Longrightarrow> typed t n (fst (g z))\<rbrakk>
   \<Longrightarrow> typed t n (fst (case s of Inl (x, y) \<Rightarrow> f x y | Inr z \<Rightarrow> g z))"
  by (cases s) auto

lemmas typed_rules = typed_reject typed_warn typed_pair typed_fst_if typed_if typed_unless typed_option
  typed_dates typed_sum typed_accept

section \<open>The classifiers\<close>

lemma typed_users: "typed ''users'' (pr_row_number row) (fst (classify_users_row row d seen))"
proof -
  have create: "typed ''users'' (pr_row_number row) (classify_create row d x)" for x
    unfolding classify_create_def Let_def
    by (intro typed_rules) (simp_all add: verdict_ok_def create_values_def date_json_ok)
  have "typed ''users'' (pr_row_number row) (classify_existing row d a x)" if "a = ''update'' \<or> a = ''reactivate''" for a x
    unfolding classify_existing_def Let_def using that
    by (intro typed_rules) (simp_all add: verdict_ok_def update_values_typed)
  with create show ?thesis
    unfolding classify_users_row_def Let_def
    by (intro typed_rules) (auto simp: users_actions_def)
qed

lemma typed_deactivation: "typed ''explicit_deactivations'' (pr_row_number row) (fst (classify_deactivation_row row d seen))"
  unfolding classify_deactivation_row_def Let_def
  by (intro typed_rules) (simp_all add: verdict_ok_def)

lemma typed_membership: "typed ''team_memberships'' (pr_row_number row) (fst (classify_team_membership_row row d seen))"
  unfolding classify_team_membership_row_def Let_def
  by (intro typed_rules) (simp_all add: verdict_ok_def)

lemma typed_role: "typed ''role_assignments'' (pr_row_number row) (fst (classify_role_assignment_row row d seen))"
proof -
  have "typed ''role_assignments'' n (classify_role n a x role st si reason d)"
    if "a \<in> set role_assignment_actions" "role \<in> fst ` set role_appointment_capability"
    for n a x role st si reason
    unfolding classify_role_def Let_def using that
    by (intro typed_rules) (auto simp: verdict_ok_def role_values_def)
  then show ?thesis
    unfolding classify_role_assignment_row_def Let_def by (intro typed_rules) simp_all
qed

lemma typed_reporting: "typed ''reporting_assignments'' (pr_row_number row) (fst (classify_reporting_assignment_row row d seen))"
  unfolding classify_reporting_assignment_row_def Let_def
  by (intro typed_rules) (simp_all add: verdict_ok_def)

lemma typed_campaign: "typed ''campaign_user_assignments'' (pr_row_number row) (fst (classify_campaign_assignment_row row d seen))"
  unfolding classify_campaign_assignment_row_def Let_def
  by (intro typed_rules) (simp_all add: verdict_ok_def)

lemmas typed_classifiers = typed_users typed_deactivation typed_membership typed_role typed_reporting
  typed_campaign

lemma classify_wf_row_of:
  "classify_wf_row ''users'' = classify_users_row"
  "classify_wf_row ''explicit_deactivations'' = classify_deactivation_row"
  "classify_wf_row ''team_memberships'' = classify_team_membership_row"
  "classify_wf_row ''role_assignments'' = classify_role_assignment_row"
  "classify_wf_row ''reporting_assignments'' = classify_reporting_assignment_row"
  "classify_wf_row ''campaign_user_assignments'' = classify_campaign_assignment_row"
  by (simp_all add: classify_wf_row_def)

lemma classified_typed:
  assumes "t \<in> set import_types"
  shows "typed t (pr_row_number row) (fst (classify_wf_row t row d seen))"
  using assms unfolding import_types_def list.set insert_iff empty_iff
  by (elim disjE) (simp_all only: classify_wf_row_of typed_classifiers simp_thms)

section \<open>Committing a well-typed row\<close>

text \<open>The results of a commit that do not come from the shape of the row.\<close>

definition shape_ok :: "(wf_error, wf_row \<times> row_outcome, db) outcome \<Rightarrow> bool" where
  "shape_ok r \<longleftrightarrow> (case r of
       Inl err \<Rightarrow> (\<forall>k. err \<noteq> Wf_key_error k) \<and> (\<forall>s. err \<noteq> Wf_bad_date s)
     | Inr ((row, outcome), d) \<Rightarrow> outcome \<noteq> None)"

lemma shape_leaf [simp]:
  "shape_ok (Inl Wf_no_row)" "shape_ok (Inl (Wf_workforce err))" "shape_ok (Inr (skipped k row, d))"
  "shape_ok (Inr ((row, Some out), d))" "shape_ok (Inl Wf_many_rows)"
  by (simp_all add: shape_ok_def skipped_def)

lemma shape_if: "\<lbrakk>P \<Longrightarrow> shape_ok a; \<not> P \<Longrightarrow> shape_ok b\<rbrakk> \<Longrightarrow> shape_ok (if P then a else b)"
  by simp

lemma shape_option:
  "\<lbrakk>o' = None \<Longrightarrow> shape_ok a; \<And>y. o' = Some y \<Longrightarrow> shape_ok (f y)\<rbrakk>
   \<Longrightarrow> shape_ok (case o' of None \<Rightarrow> a | Some y \<Rightarrow> f y)"
  by (cases o') simp_all

lemma shape_sum:
  "\<lbrakk>\<And>err. s = Inl err \<Longrightarrow> shape_ok (f err); \<And>y. s = Inr y \<Longrightarrow> shape_ok (g y)\<rbrakk>
   \<Longrightarrow> shape_ok (case s of Inl err \<Rightarrow> f err | Inr y \<Rightarrow> g y)"
  by (cases s) simp_all

lemma one_or_none_shape: "one_or_none rs = Inl err \<Longrightarrow> shape_ok (Inl err)"
  by (auto simp: one_or_none_def split: list.splits)

lemma json_date_ok: "v = JNull \<or> date_text v \<Longrightarrow> \<exists>x. json_date v = Inr x"
  by (auto simp: json_date_def date_text_def fromisoformat_isoformat)

lemma stored_date_ok: "date_text v \<Longrightarrow> \<exists>x. stored_date v = Inr (Some x)"
  by (auto simp: stored_date_def date_text_def fromisoformat_isoformat)

lemma field_change_ok:
  assumes "user_value fv"
  shows "\<exists>c. field_change stored_date fv = Inr c"
proof -
  obtain field v where fv: "fv = (field, v)" by (cases fv)
  from assms consider s where "field = ''display_name''" "v = JStr s"
    | "field = ''start_date''" "date_text v" | "field = ''end_date''" "date_text v"
    unfolding user_value_def fv prod.case by blast
  then show ?thesis
    by cases (auto simp: fv field_change_def dest: stored_date_ok)
qed

lemma all_right_ok: "list_all user_value vs \<Longrightarrow> \<exists>cs. all_right (map (field_change stored_date) vs) = Inr cs"
  by (induction vs) (auto dest!: field_change_ok)

lemma commit_create_shape:
  assumes "create_values vs" and "wr_parsed_values row = Some vs"
  shows "shape_ok (commit_user_create c e row a d)"
proof -
  obtain login name s t where vs: "vs = [(''login_identifier'', JStr login),
      (''display_name'', JStr name), (''start_date'', s), (''end_date'', t)]"
    and "s = JNull \<or> date_text s" "t = JNull \<or> date_text t"
    using assms(1) unfolding create_values_def by blast
  then obtain sd ed where "json_date s = Inr sd" "json_date t = Inr ed" using json_date_ok by blast
  moreover have "row_value row ''start_date'' = s" "row_value row ''end_date'' = t"
    "need_text row ''login_identifier'' = Inr login" "need_text row ''display_name'' = Inr name"
    using assms(2) vs by (simp_all add: need_text_def row_value_def)
  ultimately have eq: "commit_user_create c e row a d =
    (case create_user c e login name (wr_external_workforce_id row) a
            (\<not> is_enabled d ''deferred_bulk_activation_enabled'') d of
       Inl Duplicate_identity \<Rightarrow> Inr (skipped ''already_exists'' row, d)
     | Inl err \<Rightarrow> Inl (Wf_workforce err)
     | Inr ((u, token), d1) \<Rightarrow>
         let u1 = (if sd = None then u else u\<lparr>us_start_date := sd\<rparr>);
             u2 = (if ed = None then u1 else u1\<lparr>us_end_date := ed\<rparr>)
         in Inr ((wrote ''user'' (us_id u) row, Some (''created'', token)), put_user u2 d1))"
    unfolding commit_user_create_def by (simp only: sum.case prod.case Let_def)
  show ?thesis
    unfolding eq Let_def by (auto split: sum.split workforce_error.split)
qed

lemma commit_update_shape:
  assumes "update_values_ok vs" and "wr_parsed_values row = Some vs"
  shows "shape_ok (commit_user_update row target a d)"
proof -
  obtain cs where "all_right (map (field_change stored_date) vs) = Inr cs"
    using all_right_ok [OF update_values_user [OF assms(1)]] by blast
  then show ?thesis
    using assms(2) by (auto simp: commit_user_update_def values_of_def shape_ok_def split: sum.splits)
qed

lemma need_uuid_ok: "map_of vs k = Some (JId i) \<Longrightarrow> wr_parsed_values row = Some vs \<Longrightarrow> need_uuid row k = Inr i"
  by (simp add: need_uuid_def row_value_def)

lemma shape_pair:
  "(\<And>x y. p = (x, y) \<Longrightarrow> shape_ok (f x y)) \<Longrightarrow> shape_ok (case p of (x, y) \<Rightarrow> f x y)"
  by (cases p) simp

lemma shape_self:
  "\<lbrakk>\<And>x. err = Workforce_self x \<Longrightarrow> shape_ok a; shape_ok (Inl (Wf_workforce err))\<rbrakk>
   \<Longrightarrow> shape_ok (case err of Workforce_self x \<Rightarrow> a | _ \<Rightarrow> Inl (Wf_workforce err))"
  by (cases err) simp_all

lemma shape_one:
  "(\<And>y. shape_ok (f y)) \<Longrightarrow> shape_ok (case one_or_none rs of Inl err \<Rightarrow> Inl err | Inr y \<Rightarrow> f y)"
  by (intro shape_sum) (auto dest: one_or_none_shape)

lemmas shape_rules = shape_if shape_option shape_one shape_sum shape_pair

lemma commit_users_shape:
  assumes "wr_action row = Some ''create'' \<and> create_values vs
      \<or> wr_normalized_identity row = Some i
        \<and> (wr_action row = Some ''reactivate'' \<or> wr_action row = Some ''update'' \<and> update_values_ok vs)"
    and "wr_parsed_values row = Some vs"
  shows "shape_ok (commit_users_row c e row a d)"
  using assms
  by (auto simp: commit_users_row_def commit_create_shape commit_update_shape split: option.split)

lemma commit_deactivation_shape:
  "wr_normalized_identity row = Some i \<Longrightarrow> shape_ok (commit_deactivation_row e row a d)"
  unfolding commit_deactivation_row_def Let_def
  by (auto split: option.split sum.split workforce_error.split)

lemma commit_membership_shape:
  assumes "wr_normalized_identity row = Some i" "need_uuid row ''team_id'' = Inr t"
  shows "shape_ok (commit_team_membership_row e row a d)"
  unfolding commit_team_membership_row_def assms option.case sum.case Let_def
  by (intro shape_rules) auto

lemma commit_role_shape:
  assumes "wr_normalized_identity row = Some i" "role_values vs" "wr_parsed_values row = Some vs"
  shows "shape_ok (commit_role_assignment_row e row a d)"
proof -
  from assms(2,3) obtain r s x where "need_text row ''role_code'' = Inr r"
    "need_text row ''scope_type'' = Inr s" "need_text row ''reason_code'' = Inr x"
    by (auto simp: role_values_def need_text_def row_value_def)
  then show ?thesis
    unfolding commit_role_assignment_row_def
    by (auto simp: assms(1) Let_def intro!: shape_one dest: one_or_none_shape
        split: option.split sum.split workforce_error.split)
qed

lemma commit_reporting_shape:
  assumes "wr_normalized_identity row = Some i" "need_uuid row ''supervisor_user_id'' = Inr t"
  shows "shape_ok (commit_reporting_assignment_row e row a d)"
  unfolding commit_reporting_assignment_row_def assms option.case sum.case Let_def
  by (auto split: option.split sum.split workforce_error.split)

lemma commit_campaign_shape:
  assumes "wr_normalized_identity row = Some i" "need_uuid row ''campaign_id'' = Inr t"
  shows "shape_ok (commit_campaign_assignment_row e row a d)"
  unfolding commit_campaign_assignment_row_def assms option.case sum.case Let_def
  by (intro shape_rules) auto

section \<open>From the file to the commit\<close>

lemma staged_sel:
  "wr_action (wf_staged_row e i v) = wv_action v"
  "wr_normalized_identity (wf_staged_row e i v) = wv_normalized_identity v"
  "wr_parsed_values (wf_staged_row e i v) = wv_parsed_values v"
  by (simp_all add: wf_staged_row_def)

lemma verdict_identity:
  assumes "verdict_ok t v" and "t \<noteq> ''users''"
  shows "\<exists>u. wr_normalized_identity (wf_staged_row e i v) = Some u"
  using assms by (auto simp: verdict_ok_def staged_sel)

lemma verdict_uuid:
  assumes "verdict_ok t v" and "(t, k) \<in> {(''team_memberships'', ''team_id''),
      (''reporting_assignments'', ''supervisor_user_id''), (''campaign_user_assignments'', ''campaign_id'')}"
  shows "\<exists>x. need_uuid (wf_staged_row e i v) k = Inr x"
proof -
  from assms(1) obtain vs where vs: "wv_parsed_values v = Some vs"
    and "t \<noteq> ''users'' \<and> t \<noteq> ''explicit_deactivations'' \<and> t \<noteq> ''role_assignments'' \<Longrightarrow>
      (if t = ''team_memberships'' then \<exists>i. map_of vs ''team_id'' = Some (JId i)
       else if t = ''reporting_assignments'' then \<exists>i. map_of vs ''supervisor_user_id'' = Some (JId i)
       else \<exists>i. map_of vs ''campaign_id'' = Some (JId i))"
    unfolding verdict_ok_def by (metis (no_types, lifting))
  then have "\<exists>x. map_of vs k = Some (JId x)" using assms(2) by (elim insertE) simp_all
  then show ?thesis using vs need_uuid_ok [of vs k _ "wf_staged_row e i v"] by (auto simp: staged_sel)
qed

lemma verdict_users:
  assumes "verdict_ok ''users'' v"
  shows "shape_ok (commit_users_row c e (wf_staged_row e' i v) a d)"
proof -
  from assms obtain vs u where "wv_parsed_values v = Some vs"
    "wv_action v = Some ''create'' \<and> create_values vs \<or> wv_normalized_identity v = Some u
      \<and> (wv_action v = Some ''reactivate'' \<or> wv_action v = Some ''update'' \<and> update_values_ok vs)"
    by (auto simp: verdict_ok_def split: if_splits)
  then show ?thesis by (intro commit_users_shape [of _ vs u]) (simp_all only: staged_sel)
qed

lemma verdict_roles:
  assumes "verdict_ok ''role_assignments'' v"
  shows "\<exists>vs. role_values vs \<and> wr_parsed_values (wf_staged_row e i v) = Some vs"
  using assms by (auto simp: verdict_ok_def staged_sel)

lemma commit_wf_row_of:
  "commit_wf_row c e ''users'' = commit_users_row c e"
  "commit_wf_row c e ''explicit_deactivations'' = commit_deactivation_row e"
  "commit_wf_row c e ''team_memberships'' = commit_team_membership_row e"
  "commit_wf_row c e ''role_assignments'' = commit_role_assignment_row e"
  "commit_wf_row c e ''reporting_assignments'' = commit_reporting_assignment_row e"
  "commit_wf_row c e ''campaign_user_assignments'' = commit_campaign_assignment_row e"
  by (simp_all add: commit_wf_row_def fun_eq_iff)

lemma verdict_shape:
  assumes ok: "verdict_ok t v" and t: "t \<in> set import_types"
  shows "shape_ok (commit_wf_row c e t (wf_staged_row e' i v) a d)"
  using t unfolding import_types_def list.set insert_iff empty_iff
proof (elim disjE, goal_cases)
  case 1
  show ?case using ok unfolding 1 commit_wf_row_of by (rule verdict_users)
next
  case 2
  have "t \<noteq> ''users''" unfolding 2 by simp
  from verdict_identity [OF ok this] show ?case unfolding 2 commit_wf_row_of
    by (auto intro: commit_deactivation_shape)
next
  case 3
  have "t \<noteq> ''users''" unfolding 3 by simp
  from verdict_identity [OF ok this] verdict_uuid [OF ok, of "''team_id''"] show ?case
    unfolding 3 commit_wf_row_of by (meson commit_membership_shape insertI1)
next
  case 4
  have "t \<noteq> ''users''" unfolding 4 by simp
  from verdict_identity [OF ok this] verdict_roles [OF ok [unfolded 4]] show ?case
    unfolding 4 commit_wf_row_of by (meson commit_role_shape)
next
  case 5
  have "t \<noteq> ''users''" unfolding 5 by simp
  from verdict_identity [OF ok this] verdict_uuid [OF ok, of "''supervisor_user_id''"] show ?case
    unfolding 5 commit_wf_row_of by (meson commit_reporting_shape insertI1 insertI2)
next
  case 6
  have "t \<noteq> ''users''" unfolding 6 by simp
  from verdict_identity [OF ok this] verdict_uuid [OF ok, of "''campaign_id''"] show ?case
    unfolding 6 commit_wf_row_of by (meson commit_campaign_shape insertI1 insertI2)
qed simp

text \<open>
  C30: what parsing stores is what committing reads. A row that any of the six classifiers
  accepted, staged and committed later against whatever the database has become, in any role of
  the loop, never fails on a missing value or an unreadable date, and never goes without an
  outcome: the only failures left are the ones the live database causes.
\<close>

theorem accepted_rows_are_well_typed:
  assumes "t \<in> set import_types"
    and "v = fst (classify_wf_row t row d0 seen)" and "wv_validation_result v = Row_valid"
  shows "case commit_wf_row c e t (wf_staged_row e' job_id v) actor_id d of
       Inl err \<Rightarrow> (\<forall>k. err \<noteq> Wf_key_error k) \<and> (\<forall>s. err \<noteq> Wf_bad_date s)
     | Inr ((row', outcome), d') \<Rightarrow> outcome \<noteq> None"
proof -
  have "verdict_ok t v" using classified_typed [OF assms(1), of row d0 seen] assms(2,3)
    by (simp add: typed_def)
  from verdict_shape [OF this assms(1), of c e e' job_id actor_id d] show ?thesis
    unfolding shape_ok_def .
qed

end
