(* ===== verification/Wf_Notices.thy ===== *)
theory Wf_Notices
  imports Wf_Properties Wf_Types
begin

text \<open>
  Who is told about an import that waits for review: sending a notice changes nobody's authority,
  so one pass over the candidates tells exactly those who can open the job.
\<close>

section \<open>Notices do not change authority\<close>

lemma table_notices [simp]:
  "effective_role_assignments (d\<lparr>notifications := ns\<rparr>) = effective_role_assignments d"
  "active_team_organization (d\<lparr>notifications := ns\<rparr>) = active_team_organization d"
  "active_delegations (d\<lparr>notifications := ns\<rparr>) = active_delegations d"
  "team_rows (d\<lparr>notifications := ns\<rparr>) = team_rows d"
  "team_on_campaign (d\<lparr>notifications := ns\<rparr>) = team_on_campaign d"
  "organization_team_ids (d\<lparr>notifications := ns\<rparr>) = organization_team_ids d"
  "target_roles (d\<lparr>notifications := ns\<rparr>) = target_roles d"
  "job_rows (d\<lparr>notifications := ns\<rparr>) = job_rows d"
  by (simp_all add: effective_role_assignments_def active_team_organization_def active_delegations_def
      team_rows_def team_on_campaign_def organization_team_ids_def target_roles_def job_rows_def fun_eq_iff)

lemma grants_notices [simp]:
  "scope_assignment_covers_target (d\<lparr>notifications := ns\<rparr>) = scope_assignment_covers_target d"
  "role_capability_grants (d\<lparr>notifications := ns\<rparr>) = role_capability_grants d"
  "team_ancestry (d\<lparr>notifications := ns\<rparr>) = team_ancestry d"
  unfolding fun_eq_iff scope_assignment_covers_target_def role_capability_grants_def team_ancestry_def
    table_notices by simp_all

lemma capability_notices [simp]:
  "capability_grants (d\<lparr>notifications := ns\<rparr>) = capability_grants d"
  unfolding fun_eq_iff capability_grants_def delegation_still_backed_def has_scope_capability_via_role_def
    table_notices grants_notices by simp

lemma matched_notices [simp]:
  "scope_capabilities_matched (d\<lparr>notifications := ns\<rparr>) = scope_capabilities_matched d"
  "campaign_scope_filter (d\<lparr>notifications := ns\<rparr>) = campaign_scope_filter d"
  "scope_ok (d\<lparr>notifications := ns\<rparr>) = scope_ok d"
  "has_assigned_capability (d\<lparr>notifications := ns\<rparr>) = has_assigned_capability d"
  unfolding fun_eq_iff scope_ok_def has_assigned_capability_def scope_capabilities_matched_def
    campaign_scope_filter_def table_notices grants_notices capability_notices by simp_all

lemma satisfied_notices [simp]:
  "campaign_ids_with_capability (d\<lparr>notifications := ns\<rparr>) = campaign_ids_with_capability d"
  unfolding fun_eq_iff campaign_ids_with_capability_def matched_notices by simp

lemma access_notices [simp]:
  "can_access_job (d\<lparr>notifications := ns\<rparr>) = can_access_job d"
  unfolding fun_eq_iff can_access_job_def job_access_requirements_def authority_over_requirements_def
    satisfied_authority_def table_notices matched_notices satisfied_notices by simp

lemma review_notices [simp]:
  "review_reason (d\<lparr>notifications := ns\<rparr>) = review_reason d"
  "users_with_any_capability (d\<lparr>notifications := ns\<rparr>) = users_with_any_capability d"
  unfolding fun_eq_iff review_reason_def uploader_can_self_approve_routine_def rows_authorized_def
    committable_rows_def authority_over_requirements_def satisfied_authority_def
    users_with_any_capability_def delegation_still_backed_def has_scope_capability_via_role_def
    table_notices matched_notices satisfied_notices grants_notices by simp_all

section \<open>One pass over the candidates\<close>

lemma candidates_told:
  assumes "notify_candidates e k now body job us d = Inr d'"
  shows "\<exists>new. d' = d\<lparr>notifications := notifications d @ new\<rparr>
    \<and> map nt_recipient_user_id new
        = filter (\<lambda>u. u \<noteq> wj_uploader_id job \<and> can_access_job d u job now = Inr True) us
    \<and> (\<forall>n \<in> set new. nt_related_entity_id n = Some (wj_id job) \<and> nt_read_at n = None
         \<and> nt_category n = ''workforce_import.needs_review'')"
  using assms
proof (induction us arbitrary: k d)
  case Nil
  then show ?case by (intro exI [of _ "[]"]) simp
next
  case (Cons u us)
  show ?case
  proof (cases "u \<noteq> wj_uploader_id job \<and> can_access_job d u job now = Inr True")
    case True
    let ?d1 = "review_notice e k u body job d"
    obtain n where n: "?d1 = d\<lparr>notifications := notifications d @ [n]\<rparr>" "nt_recipient_user_id n = u"
      "nt_related_entity_id n = Some (wj_id job)" "nt_read_at n = None"
      "nt_category n = ''workforce_import.needs_review''"
      by (simp add: review_notice_def job_notice_eq)
    from True Cons.prems have "notify_candidates e (Suc k) now body job us ?d1 = Inr d'" by simp
    from Cons.IH [OF this] obtain new where "d' = ?d1\<lparr>notifications := notifications ?d1 @ new\<rparr>"
      "map nt_recipient_user_id new
        = filter (\<lambda>u. u \<noteq> wj_uploader_id job \<and> can_access_job ?d1 u job now = Inr True) us"
      "\<forall>n \<in> set new. nt_related_entity_id n = Some (wj_id job) \<and> nt_read_at n = None
         \<and> nt_category n = ''workforce_import.needs_review''" by blast
    then show ?thesis using True n by (intro exI [of _ "n # new"]) simp
  next
    case False
    then have "notify_candidates e k now body job us d = Inr d'"
      using Cons.prems by (auto split: if_splits sum.splits bool.splits)
    from Cons.IH [OF this] False show ?thesis by (simp only: filter.simps if_False)
  qed
qed

section \<open>Whoever can open a job is a candidate\<close>

lemma grants_candidate:
  assumes "capability_grants d a c now \<noteq> []" and "c \<in> wanted"
  shows "a \<in> users_with_any_capability d wanted now"
proof -
  from assms(1) consider ra where "ra \<in> set (effective_role_assignments d a now)"
      "c \<in> set (role_grants (ra_role_code ra))"
    | dg where "dg \<in> set (active_delegations d a now)" "c \<in> set (dg_capability_set dg)"
        "delegation_still_backed d dg c now"
    by (auto simp: capability_grants_def role_capability_grants_def filter_empty_conv)
  then show ?thesis
  proof cases
    case 1
    then have "ra \<in> set (role_assignments d)" "ra_user_id ra = a" "role_effective now ra"
      by (auto simp: effective_role_assignments_def)
    moreover obtain cs where "(ra_role_code ra, cs) \<in> set role_capabilities" "c \<in> set cs"
      using 1(2) by (cases "map_of role_capabilities (ra_role_code ra)") (auto simp: role_grants_def dest: map_of_SomeD)
    ultimately show ?thesis using assms(2)
      unfolding users_with_any_capability_def Let_def set_map set_filter
      by (intro UnI1 image_eqI [of _ _ ra]) (auto intro!: image_eqI [of _ _ "(ra_role_code ra, cs)"])
  next
    case 2
    then show ?thesis using assms(2)
      unfolding users_with_any_capability_def Let_def
      by (intro UnI2) (auto simp: active_delegations_def list_ex_iff intro!: image_eqI [of _ _ dg])
  qed
qed

lemma has_scope_candidate:
  "\<lbrakk>has_scope_capability d a c st si now; c \<in> wanted\<rbrakk> \<Longrightarrow> a \<in> users_with_any_capability d wanted now"
  by (rule grants_candidate [of _ _ c]) (auto simp: has_scope_capability_def)

lemma appointment_wanted:
  "map_of role_appointment_capability r = Some c \<Longrightarrow> c \<in> upload_capabilities"
  "c \<in> set appointment_capabilities \<Longrightarrow> c \<in> upload_capabilities"
  "''appoint_team_captain'' \<in> upload_capabilities" "''assign_campaign_agent'' \<in> upload_capabilities"
  by (auto simp: upload_capabilities_def appointment_capabilities_def role_appointment_capability_def
      dest: map_of_SomeD split: if_splits)

lemma campaign_candidate:
  assumes "has_campaign_capability d a c i now" and "c \<in> wanted"
  shows "a \<in> users_with_any_capability d wanted now"
proof -
  from assms(1) obtain ca where "campaign_scope_filter d a c now ca"
    by (auto simp: has_campaign_capability_def list_ex_iff)
  then have "capability_grants d a c now \<noteq> []" by (auto simp: campaign_scope_filter_def Let_def)
  with assms(2) show ?thesis by (rule grants_candidate [rotated])
qed

lemma manage_candidate:
  assumes "can_manage_user d a u now"
  shows "a \<in> users_with_any_capability d upload_capabilities now"
  using assms
  by (auto simp: can_manage_user_def Let_def list_ex_iff has_assigned_capability_def
      intro: grants_candidate has_scope_candidate appointment_wanted split: if_splits option.splits)

lemma row_scope_wanted:
  assumes "row_requirement job row = Some (Need_scope c st si)"
  shows "c \<in> upload_capabilities"
  using assms appointment_wanted(1,3)
  by (auto simp: row_requirement_def need_identity_def Let_def bind_eq_Some_conv
      split: if_splits option.splits)

lemma meets_candidate:
  assumes "meets d a now (row_requirement job row)" and "row_requirement job row \<noteq> None"
  shows "a \<in> users_with_any_capability d upload_capabilities now"
proof -
  obtain r where r: "row_requirement job row = Some r" using assms(2) by blast
  show ?thesis
  proof (cases r)
    case (Need_scope c st si)
    with r have "c \<in> upload_capabilities" using row_scope_wanted by simp
    with assms(1) r Need_scope show ?thesis by (auto simp: meets_def intro: has_scope_candidate)
  qed (use assms(1) r in \<open>auto simp: meets_def intro: manage_candidate campaign_candidate appointment_wanted\<close>)
qed

section \<open>Everyone who can decide is told\<close>

lemma finite_candidates: "finite (users_with_any_capability d wanted now)"
  by (simp add: users_with_any_capability_def Let_def)

lemma review_needs_row:
  assumes "review_reason d job now \<noteq> None"
    and "wj_high_risk_rows job = length (committable_rows d job (Some High_risk))"
    and "distinct (map te_id (teams d))"
    and "\<And>row. \<lbrakk>row \<in> set (job_rows d job); wr_risk_level row = High_risk\<rbrakk> \<Longrightarrow> row_requirement job row \<noteq> None"
  shows "\<exists>row \<in> set (job_rows d job). row_requirement job row \<noteq> None"
proof (cases "0 < wj_high_risk_rows job")
  case True
  then obtain row where "row \<in> set (committable_rows d job (Some High_risk))"
    unfolding assms(2) length_greater_0_conv using hd_in_set by blast
  then have "row \<in> set (job_rows d job)" "wr_risk_level row = High_risk"
    by (simp_all add: committable_rows_def)
  then show ?thesis using assms(4) by blast
next
  case False
  then have "\<not> rows_authorized d job (wj_uploader_id job) Routine now"
    using assms(1) by (auto simp: review_reason_def uploader_can_self_approve_routine_def split: if_splits)
  then obtain row where "row \<in> set (committable_rows d job (Some Routine))"
    "\<not> meets d (wj_uploader_id job) now (row_requirement job row)"
    by (auto simp: rows_authorized_def authority_iff [OF assms(3)])
  moreover have "meets d a now None" for a by (simp add: meets_def)
  ultimately have "row \<in> set (job_rows d job)" "row_requirement job row \<noteq> None"
    by (simp add: committable_rows_def, metis)
  then show ?thesis by blast
qed

section \<open>High-risk rows always ask for something\<close>

lemma classify_rows_routine:
  "v \<in> set (classify_wf_rows ''users'' d seen rows) \<Longrightarrow> wv_risk_level v = Routine"
proof (induction rows arbitrary: seen)
  case (Cons row rows)
  then show ?case using typed_users [of row d seen]
    by (cases "classify_users_row row d seen") (auto simp: typed_def classify_wf_row_of)
qed simp

lemma staged_risk:
  assumes "row \<in> set (staged_of e fl cfg st job d)" and "wr_risk_level row = High_risk"
    and "wj_import_type job' = wj_import_type job"
  shows "row_requirement job' row \<noteq> None"
proof
  assume none: "row_requirement job' row = None"
  then have users: "wj_import_type job = ''users''"
    using assms(3) by (auto simp: row_requirement_def need_identity_def Let_def split: if_splits)
  from assms(1) obtain ext content v where
    "v \<in> set (classify_wf_rows (wj_import_type job) (put_wf_job (job\<lparr>wj_state := Parsing\<rparr>) d) {}
       (fst (parse_file fl cfg ext content)))" "row = wf_staged_row e (wj_id job) v"
    by (auto simp: staged_of_def split: sum.splits option.splits)
  then have "wr_risk_level row = Routine" using classify_rows_routine users by (auto simp: wf_staged_row_def)
  with assms(2) show False by simp
qed

text \<open>
  Whoever can decide is told, and nobody else. When an import is parsed, either it needs no
  review and no notice goes out, or everyone other than its uploader who can open it gets exactly
  one unread notice about it, and people who cannot open it get none.
\<close>

theorem reviewers_are_told:
  assumes "get_wf_job d i = Some job" and "wj_state job = Quarantined" and "job_rows d job = []"
    and "distinct (map te_id (teams d))"
    and "parse_wf_job e fl cfg st i d = Inr d'"
    and "get_wf_job d' i = Some job'" and "wj_state job' = Parsed"
  shows "\<exists>new. notifications d' = notifications d @ new \<and> distinct (map nt_recipient_user_id new)
    \<and> (\<forall>n \<in> set new. nt_related_entity_id n = Some i \<and> nt_read_at n = None
         \<and> nt_category n = ''workforce_import.needs_review'')
    \<and> set (map nt_recipient_user_id new) =
        (if review_reason d' job' (clk e 0) = None then {}
         else {a. a \<noteq> wj_uploader_id job' \<and> can_access_job d' a job' (clk e 0) = Inr True})"
proof -
  define staged where "staged = staged_of e fl cfg st job d"
  note shape = parsed_job_shape [OF assms(1,2,5-7)]
  obtain dp where dp: "notify_pending_approvers e (Suc (length staged)) (clk e 0) job' dp = Inr d'"
    "notifications dp = notifications d" using shape by (auto simp: staged_def)
  let ?cands = "sorted_list_of_set (users_with_any_capability dp upload_capabilities (clk e 0))"
  have id: "wj_id job' = wj_id job" "wj_import_type job' = wj_import_type job"
    using shape by (simp_all add: parsed_wf_job_def)
  then have i: "wj_id job' = i" using assms(1) by (simp add: wf_job_table.get_key)
  obtain new where new: "d' = dp\<lparr>notifications := notifications d @ new\<rparr>"
    "map nt_recipient_user_id new = (if review_reason dp job' (clk e 0) = None then []
       else filter (\<lambda>u. u \<noteq> wj_uploader_id job' \<and> can_access_job dp u job' (clk e 0) = Inr True) ?cands)"
    "\<forall>n \<in> set new. nt_related_entity_id n = Some i \<and> nt_read_at n = None
       \<and> nt_category n = ''workforce_import.needs_review''"
  proof (cases "review_reason dp job' (clk e 0)")
    case None
    with dp that [of "[]"] show ?thesis by (simp add: notify_pending_approvers_def)
  next
    case (Some body)
    with dp candidates_told [of e _ "clk e 0" body job' ?cands dp d'] i that show ?thesis
      by (auto simp: notify_pending_approvers_def)
  qed
  have same: "review_reason dp = review_reason d'" "can_access_job dp = can_access_job d'"
    "users_with_any_capability dp = users_with_any_capability d'"
    by (simp_all add: new(1))
  have cand: "a \<in> users_with_any_capability d' upload_capabilities (clk e 0)"
    if r: "review_reason d' job' (clk e 0) \<noteq> None" and a: "a \<noteq> wj_uploader_id job'"
      and acc: "can_access_job d' a job' (clk e 0) = Inr True" for a
  proof -
    have hr: "wj_high_risk_rows job' = length (committable_rows d' job' (Some High_risk))"
      using parsed_counters_are_the_rows [OF assms(1-3,5-7)] by blast
    have td: "distinct (map te_id (teams d'))" using shape assms(4) by simp
    have req: "\<exists>row \<in> set (job_rows d' job'). row_requirement job' row \<noteq> None"
    proof (rule review_needs_row [OF r hr td])
      fix row
      assume "row \<in> set (job_rows d' job')" "wr_risk_level row = High_risk"
      then show "row_requirement job' row \<noteq> None"
        using staged_risk [of row e fl cfg st job d job'] id parsed_job_rows [OF assms(1-3,5-7)] by simp
    qed
    from footprint_rows [OF assms(1-3,5-7) refl refl a td, of "clk e 0"] acc
    have "\<forall>row \<in> set (job_rows d' job'). meets d' a (clk e 0) (row_requirement job' row)"
      using assms(7) by simp
    with req show ?thesis using meets_candidate by blast
  qed
  show ?thesis
  proof (intro exI conjI)
    show "notifications d' = notifications d @ new" using new(1) by simp
    show "distinct (map nt_recipient_user_id new)" unfolding new(2) by simp
    show "set (map nt_recipient_user_id new) = (if review_reason d' job' (clk e 0) = None then {}
        else {a. a \<noteq> wj_uploader_id job' \<and> can_access_job d' a job' (clk e 0) = Inr True})"
      unfolding new(2) same using cand by (auto simp: finite_candidates)
  qed (use new(3) in blast)
qed

end
