(* ===== verification/Wf_Steps.thy ===== *)
theory Wf_Steps
  imports Wf_Notices Import_Properties Machines
begin

text \<open>
  Bulk imports as a state machine: uploads, parses, decisions, commits, reversals and clean-ups in any
  order, between any writes of the rest of the system, and the invariant of every reachable state.
\<close>

section \<open>The machine\<close>

type_synonym import_tables = "wf_job list \<times> wf_row list \<times> wf_decision list"

inductive wf_step :: "db \<Rightarrow> db \<Rightarrow> bool" where
  step_upload:
    "\<lbrakk>create_wf_job c fl e cfg t u name chunks st d = Inr (job, st', d');
      fresh_id e 0 \<notin> wj_id ` set (wf_jobs d)\<rbrakk> \<Longrightarrow> wf_step d d'"
| step_parse:
    "\<lbrakk>parse_wf_job e fl cfg st i d = Inr d'; inj (fresh_id e);
      range (fresh_id e) \<inter> wr_id ` set (wf_rows d) = {}\<rbrakk> \<Longrightarrow> wf_step d d'"
| step_decide: "record_wf_decision e i who decision tier note ack d = Inr (x, d') \<Longrightarrow> wf_step d d'"
| step_commit: "commit_wf_job c e i who ver key d = Inr (r, d') \<Longrightarrow> wf_step d d'"
| step_reverse: "reverse_wf_job e i who d = Inr (r, d') \<Longrightarrow> wf_step d d'"
| step_cleanup: "wf_cleanup_expired_jobs now st d = (n, st', d') \<Longrightarrow> wf_step d d'"
| step_elsewhere: "import_part d' = import_part d \<Longrightarrow> wf_step d d'"

definition no_imports :: "db \<Rightarrow> bool" where
  "no_imports d \<longleftrightarrow> import_part d = ([], [], [])"

section \<open>The invariant\<close>

definition own_rows :: "wf_row list \<Rightarrow> wf_job \<Rightarrow> wf_row list" where
  "own_rows rs j = filter (\<lambda>r. wr_import_job_id r = wj_id j) rs"

definition job_counts :: "wf_job \<Rightarrow> wf_counts" where
  "job_counts j = \<lparr>wc_total = wj_total_rows j, wc_valid = wj_valid_rows j, wc_warning = wj_warning_rows j,
     wc_invalid = wj_invalid_rows j, wc_high_risk = wj_high_risk_rows j\<rparr>"

text \<open>Approved: in both tiers if there is anything high-risk, by two people.\<close>

definition approved :: "wf_decision list \<Rightarrow> wf_job \<Rightarrow> bool" where
  "approved ds j \<longleftrightarrow>
     (\<exists>x \<in> set ds. wd_import_job_id x = wj_id j \<and> wd_decision_tier x = ''standard'' \<and> wd_decision x = ''approve'')
     \<and> (0 < wj_high_risk_rows j \<longrightarrow> (\<exists>x \<in> set ds. wd_import_job_id x = wj_id j
          \<and> wd_decision_tier x = ''high_risk'' \<and> wd_decision x = ''approve'' \<and> wd_decided_by x \<noteq> wj_uploader_id j))"

definition job_sound :: "wf_row list \<Rightarrow> wf_decision list \<Rightarrow> wf_job \<Rightarrow> bool" where
  "job_sound rs ds j \<longleftrightarrow> wj_import_type j \<in> set import_types
     \<and> (wj_state j = Quarantined \<longrightarrow> own_rows rs j = [])
     \<and> (wj_state j = Parsed \<or> wj_state j = Committed \<longrightarrow> job_counts j = wf_counted (own_rows rs j))
     \<and> (wj_state j = Committed \<longrightarrow>
          wj_invalid_rows j = 0 \<and> wj_idempotency_key j \<noteq> None \<and> approved ds j)"

definition wf_sound :: "import_tables \<Rightarrow> bool" where
  "wf_sound p \<longleftrightarrow> (case p of (js, rs, ds) \<Rightarrow>
     distinct (map wj_id js) \<and> distinct (map wr_id rs)
     \<and> (\<forall>r \<in> set rs. wr_import_job_id r \<in> wj_id ` set js)
     \<and> (\<forall>j \<in> set js. job_sound rs ds j))"

section \<open>What the steps do to the tables\<close>

lemma row_put_twice: "key a = key b \<Longrightarrow> row_put key a (row_put key b rs) = row_put key a rs"
  by (auto simp: row_put_def)

lemma approved_cong:
  "\<lbrakk>wj_id j' = wj_id j; wj_high_risk_rows j' = wj_high_risk_rows j; wj_uploader_id j' = wj_uploader_id j\<rbrakk>
   \<Longrightarrow> approved ds j' = approved ds j"
  by (simp add: approved_def)

lemma approved_more: "approved ds j \<Longrightarrow> approved (ds @ new) j"
  by (auto simp: approved_def)

lemma own_rows_other: "wr_import_job_id ` set new \<subseteq> {i} \<Longrightarrow> i \<noteq> wj_id j \<Longrightarrow> own_rows (rs @ new) j = own_rows rs j"
  by (auto simp: own_rows_def filter_empty_conv)

lemma core_sel:
  assumes "row_core a = row_core b"
  shows "wr_id a = wr_id b" "wr_import_job_id a = wr_import_job_id b"
    "wr_validation_result a = wr_validation_result b" "wr_risk_level a = wr_risk_level b"
  using assms by (simp_all add: row_core_def)

lemma core_counted:
  assumes "map row_core rs = map row_core rs'"
  shows "wf_counted (own_rows rs j) = wf_counted (own_rows rs' j)" and "own_rows rs j = [] \<longleftrightarrow> own_rows rs' j = []"
    and "map wr_id rs = map wr_id rs'" and "map wr_import_job_id rs = map wr_import_job_id rs'"
proof -
  have "length rs = length rs'" using assms map_eq_imp_length_eq by blast
  then have "wf_counted (own_rows rs j) = wf_counted (own_rows rs' j) \<and> (own_rows rs j = [] \<longleftrightarrow> own_rows rs' j = [])
      \<and> map wr_id rs = map wr_id rs' \<and> map wr_import_job_id rs = map wr_import_job_id rs'"
    using assms
  proof (induction rs rs' rule: list_induct2)
    case (Cons x xs y ys)
    then have eq: "row_core x = row_core y" by simp
    from Cons have IH: "wf_counted (own_rows xs j) = wf_counted (own_rows ys j)"
      "own_rows xs j = [] \<longleftrightarrow> own_rows ys j = []" "map wr_id xs = map wr_id ys"
      "map wr_import_job_id xs = map wr_import_job_id ys" by simp_all
    show ?case using IH core_sel [OF eq]
      by (auto simp: own_rows_def wf_counted_def count_where_def)
  qed simp
  then show "wf_counted (own_rows rs j) = wf_counted (own_rows rs' j)" "own_rows rs j = [] \<longleftrightarrow> own_rows rs' j = []"
    "map wr_id rs = map wr_id rs'" "map wr_import_job_id rs = map wr_import_job_id rs'" by blast+
qed

lemma core_sound:
  assumes "wf_sound (js, rs, ds)" and "map row_core rs' = map row_core rs"
  shows "wf_sound (js, rs', ds)"
proof -
  note core = core_counted [OF assms(2)]
  have "\<forall>r \<in> set rs'. wr_import_job_id r \<in> wj_id ` set js"
  proof
    fix r assume "r \<in> set rs'"
    then have "wr_import_job_id r \<in> set (map wr_import_job_id rs)" unfolding core(4) [symmetric] by simp
    then show "wr_import_job_id r \<in> wj_id ` set js" using assms(1) by (auto simp: wf_sound_def)
  qed
  then show ?thesis using assms(1) core by (simp add: wf_sound_def job_sound_def)
qed

lemma put_job_sound:
  assumes "wf_sound (js, rs, ds)" and "job_sound rs (ds @ new) job'"
  shows "wf_sound (row_put wj_id job' js, rs, ds @ new)"
proof -
  have "job_sound rs (ds @ new) j" if "j \<in> set js" for j
    using assms(1) that approved_more by (auto simp: wf_sound_def job_sound_def)
  moreover have "wj_id ` set (row_put wj_id job' js) = wj_id ` set js"
    by (metis keys_row_put set_map)
  ultimately show ?thesis using assms by (auto simp: wf_sound_def dest!: set_row_put)
qed

lemma add_rows_sound:
  assumes "wf_sound (js, rs, ds)" and "job \<in> set js" and "wj_id job' = wj_id job"
    and "\<And>r. r \<in> set new \<Longrightarrow> wr_import_job_id r = wj_id job"
    and "distinct (map wr_id (rs @ new))" and "job_sound (rs @ new) ds job'"
  shows "wf_sound (row_put wj_id job' js, rs @ new, ds)"
proof -
  have "wr_import_job_id ` set new \<subseteq> {wj_id job}" using assms(4) by auto
  then have "job_sound (rs @ new) ds j" if "j \<in> set js" "wj_id j \<noteq> wj_id job" for j
    using assms(1) that own_rows_other [of new "wj_id job" j rs] by (auto simp: wf_sound_def job_sound_def)
  moreover have "wj_id ` set (row_put wj_id job' js) = wj_id ` set js"
    by (metis keys_row_put set_map)
  ultimately show ?thesis using assms by (auto simp: wf_sound_def dest!: set_row_put)
qed

section \<open>Each step\<close>

lemma job_of:
  assumes "get_wf_job d i = Some job"
  shows "job \<in> set (wf_jobs d)" and "wj_id job = i"
  using assms by (auto simp: get_wf_job_def dest: row_get_Some)

lemma upload_sound:
  assumes "create_wf_job c fl e cfg t u name chunks st d = Inr (job, st', d')"
    and "fresh_id e 0 \<notin> wj_id ` set (wf_jobs d)" and "wf_sound (import_part d)"
  shows "wf_sound (import_part d')"
proof -
  have job: "import_part d' = (wf_jobs d @ [job], wf_rows d, wf_decisions d)" "wj_id job = fresh_id e 0"
    "wj_state job = Quarantined" "wj_import_type job \<in> set import_types"
    using assms(1)
    by (auto simp: create_wf_job_def Let_def import_part_def split: if_splits option.splits sum.splits prod.splits)
  have "wr_import_job_id r \<in> wj_id ` set (wf_jobs d)" if "r \<in> set (wf_rows d)" for r
    using assms(3) that by (simp add: wf_sound_def import_part_def)
  then have "own_rows (wf_rows d) job = []"
    using assms(2) job(2) unfolding own_rows_def filter_empty_conv by metis
  then have "job_sound (wf_rows d) (wf_decisions d) job" using job by (simp add: job_sound_def)
  then show ?thesis using assms(2,3) job(1,2) by (auto simp: wf_sound_def import_part_def)
qed

lemma decision_sound:
  assumes "record_wf_decision e i who decision tier note ack d = Inr (x, d')" and "wf_sound (import_part d)"
  shows "wf_sound (import_part d')"
proof -
  from assms(1) obtain job where job: "get_wf_job d i = Some job"
    and ok: "decision_guard d job who decision tier ack (clk e 0) = None"
    by (auto simp: record_wf_decision_def split: option.splits)
  then have "import_part d' = (row_put wj_id (job\<lparr>wj_decision_version := wj_decision_version job + 1\<rparr>) (wf_jobs d),
      wf_rows d, wf_decisions d @ [x])"
    using assms(1)
    by (auto simp: record_wf_decision_def Let_def import_part_def job_notice_eq put_wf_job_def split: if_splits)
  moreover have "job_sound (wf_rows d) (wf_decisions d) job"
    using assms(2) job_of [OF job] by (simp add: wf_sound_def import_part_def)
  moreover from this have "job_sound (wf_rows d) (wf_decisions d @ [x])
      (job\<lparr>wj_decision_version := wj_decision_version job + 1\<rparr>)"
    by (auto simp: job_sound_def job_counts_def own_rows_def approved_def)
  ultimately show ?thesis using assms(2) put_job_sound by (simp add: import_part_def)
qed

lemma latest_decision:
  assumes "latest_wf_decision d job tier = Some x"
  shows "x \<in> set (wf_decisions d) \<and> wd_import_job_id x = wj_id job \<and> wd_decision_tier x = tier"
  using first_by_in [OF assms [unfolded latest_wf_decision_def]] by simp

lemma approvers_approved:
  assumes "commit_approvers d job now = Inr w"
  shows "approved (wf_decisions d) job"
proof -
  obtain x where x: "latest_wf_decision d job ''standard'' = Some x" "wd_decision x = ''approve''"
    using assms by (auto simp: commit_approvers_def split: option.splits if_splits)
  have high: "\<exists>h. latest_wf_decision d job ''high_risk'' = Some h \<and> wd_decision h = ''approve''
      \<and> wd_decided_by h \<noteq> wj_uploader_id job" if "0 < wj_high_risk_rows job"
    using assms that
    by (auto simp: commit_approvers_def qualified_high_risk_approver_def split: option.splits if_splits)
  show ?thesis
    unfolding approved_def using latest_decision [OF x(1)] x(2) high latest_decision by blast
qed

lemma commit_sound:
  assumes "commit_wf_job c e i who ver key d = Inr (r, d')" and "wf_sound (import_part d)"
  shows "wf_sound (import_part d')"
proof -
  from assms(1) obtain job where job: "get_wf_job d i = Some job"
    by (auto simp: commit_wf_job_def split: option.splits)
  obtain outs toks where r: "r = (outs, toks)" by (cases r)
  show ?thesis
  proof (cases "wj_state job = Parsed")
    case False
    then have "d' = d" using assms(1) job
      by (auto simp: commit_wf_job_def split: option.splits if_splits)
    then show ?thesis using assms(2) by simp
  next
    case True
    have "distinct (map wr_id (wf_rows d))" using assms(2) by (simp add: wf_sound_def import_part_def)
    note shape = commit_job_shape [OF job True this assms(1) [unfolded r]]
    then obtain w where w: "commit_approvers d job (clk e 0) = Inr w" by blast
    let ?job = "committed_wf_job e key outs job"
    have core: "map row_core (wf_rows d') = map row_core (wf_rows d)" using shape by blast
    have sound: "job_sound (wf_rows d) (wf_decisions d) job"
      using assms(2) job_of [OF job] by (simp add: wf_sound_def import_part_def)
    have "approved (wf_decisions d) job"
      by (rule approvers_approved [OF w])
    then have "job_sound (wf_rows d') (wf_decisions d @ []) ?job"
      using sound shape True core_counted(1,2) [OF core, of job]
      by (auto simp: job_sound_def committed_wf_job_def job_counts_def own_rows_def approved_def)
    from put_job_sound [OF core_sound [OF assms(2) [unfolded import_part_def] core] this]
    show ?thesis using shape by (simp add: import_part_def)
  qed
qed

lemma reverse_sound:
  assumes "reverse_wf_job e i who d = Inr (r, d')" and "wf_sound (import_part d)"
  shows "wf_sound (import_part d')"
proof -
  from assms(1) obtain job s where job: "get_wf_job d i = Some job"
    and s: "reverse_wf_rows e job who (clk e 1) 1 (reversible_rows d job)
      \<lparr>wx_db = d, wx_reversed = [], wx_skipped = []\<rparr> = Inr s"
    and d': "import_part d' = (row_put wj_id (job\<lparr>wj_reversed_at := Some (clk e 1)\<rparr>) (wf_jobs (wx_db s)),
      wf_rows (wx_db s), wf_decisions (wx_db s))"
    by (auto simp: reverse_wf_job_def Let_def import_part_def job_notice_eq put_wf_job_def
        split: option.splits sum.splits if_splits)
  have "agree (reversible_rows d job) (wf_rows d)"
    using assms(2) by (intro agree_own) (auto simp: wf_sound_def import_part_def reversible_rows_def job_rows_def)
  with reverse_rows_kept [OF s] have kept: "loop_kept d (wx_db s)" by simp
  have "job_sound (wf_rows d) (wf_decisions d) job"
    using assms(2) job_of [OF job] by (simp add: wf_sound_def import_part_def)
  then have "job_sound (wf_rows (wx_db s)) (wf_decisions d @ []) (job\<lparr>wj_reversed_at := Some (clk e 1)\<rparr>)"
    using kept core_counted(1,2) [of "wf_rows (wx_db s)" "wf_rows d" job]
    by (auto simp: job_sound_def job_counts_def own_rows_def approved_def loop_kept_def)
  moreover have "wf_sound (wf_jobs d, wf_rows (wx_db s), wf_decisions d)"
    using core_sound [OF assms(2) [unfolded import_part_def]] kept by (simp add: loop_kept_def)
  ultimately show ?thesis using put_job_sound kept d' by (fastforce simp: loop_kept_def)
qed

section \<open>Parsing\<close>

lemma classify_wf_numbers:
  assumes "t \<in> set import_types"
  shows "map wv_row_number (classify_wf_rows t d seen rows) = map pr_row_number rows"
proof (induction rows arbitrary: seen)
  case (Cons row rows)
  then show ?case using classified_typed [OF assms, of row d seen]
    by (cases "classify_wf_row t row d seen") (simp add: typed_def)
qed simp

lemma staged_ids:
  assumes "inj (fresh_id e)" and "wj_import_type job \<in> set import_types"
    and "range (fresh_id e) \<inter> wr_id ` set rs = {}" and "distinct (map wr_id rs)"
  shows "distinct (map wr_id (rs @ take m (staged_of e fl cfg st job d)))"
    and "r \<in> set (take m (staged_of e fl cfg st job d)) \<Longrightarrow> wr_import_job_id r = wj_id job"
proof -
  let ?staged = "staged_of e fl cfg st job d"
  have own: "wr_import_job_id r = wj_id job \<and> wr_id r \<in> range (fresh_id e)" if "r \<in> set ?staged" for r
    using that by (auto simp: staged_of_def wf_staged_row_def split: sum.splits option.splits)
  have "\<exists>ns. map wr_id ?staged = map (fresh_id e) ns \<and> distinct ns"
  proof (cases "?staged = []")
    case False
    then obtain ext content where *: "?staged = map (wf_staged_row e (wj_id job)) (classify_wf_rows
        (wj_import_type job) (put_wf_job (job\<lparr>wj_state := Parsing\<rparr>) d) {} (fst (parse_file fl cfg ext content)))"
      by (auto simp: staged_of_def split: sum.splits option.splits)
    obtain rows err where pf: "parse_file fl cfg ext content = (rows, err)" by fastforce
    let ?ns = "map wv_row_number (classify_wf_rows (wj_import_type job) (put_wf_job (job\<lparr>wj_state := Parsing\<rparr>) d) {} rows)"
    have "map wr_id ?staged = map (fresh_id e) ?ns" unfolding * pf by (simp add: wf_staged_row_def)
    moreover have "distinct ?ns"
      using parse_file_numbers [OF pf] by (simp add: classify_wf_numbers [OF assms(2)] del: upt_Suc)
    ultimately show ?thesis by blast
  qed (auto intro: exI [of _ "[]"])
  then obtain ns where ns: "map wr_id ?staged = map (fresh_id e) ns" "distinct ns" by blast
  have "distinct (map wr_id ?staged)"
    unfolding ns(1) using ns(2) assms(1) by (simp add: distinct_map inj_on_subset [of _ UNIV])
  then have "distinct (map wr_id (take m ?staged))" by (metis distinct_take take_map)
  moreover have "wr_id ` set (take m ?staged) \<subseteq> range (fresh_id e)"
    using own by (meson image_subsetI in_set_takeD)
  ultimately show "distinct (map wr_id (rs @ take m ?staged))" using assms(3,4) by auto
  show "r \<in> set (take m ?staged) \<Longrightarrow> wr_import_job_id r = wj_id job"
    using own by (meson in_set_takeD)
qed

text \<open>What a parse does to the tables: nothing, or a failure that keeps flushed batches, or success.\<close>

lemma fail_parse_part:
  assumes "fail_wf_parse err job d = Inr d'"
  shows "\<exists>job'. import_part d' = (row_put wj_id job' (wf_jobs d), wf_rows d, wf_decisions d)
    \<and> wj_id job' = wj_id job \<and> wj_state job' = Failed \<and> wj_import_type job' = wj_import_type job"
  using assms by (auto simp: fail_wf_parse_def wf_parse_failure_def import_part_def put_wf_job_def
      split: option.splits intro!: exI [of _ "job\<lparr>wj_state := Failed, wj_error_summary := s\<rparr>" for s])

lemma parse_part:
  assumes "parse_wf_job e fl cfg st i d = Inr d'"
  shows "d' = d \<or> (\<exists>job job' m. get_wf_job d i = Some job \<and> wj_state job = Quarantined
    \<and> import_part d' = (row_put wj_id job' (wf_jobs d), wf_rows d @ take m (staged_of e fl cfg st job d), wf_decisions d)
    \<and> wj_id job' = wj_id job \<and> wj_import_type job' = wj_import_type job
    \<and> (wj_state job' = Failed \<or> wj_state job' = Parsed
         \<and> job_counts job' = wf_counted (staged_of e fl cfg st job d) \<and> take m (staged_of e fl cfg st job d) = staged_of e fl cfg st job d))"
proof (cases "d' = d")
  case False
  then obtain job where job: "get_wf_job d i = Some job" "wj_state job = Quarantined"
    using assms by (auto simp: parse_wf_job_def split: option.splits if_splits)
  let ?job = "job\<lparr>wj_state := Parsing\<rparr>" and ?staged = "staged_of e fl cfg st job d"
  obtain ext where ext: "check_extension (wj_source_filename_display job) = Inr ext"
    using assms by (auto simp: parse_wf_job_def job Let_def split: sum.splits)
  obtain content where content: "st (wj_generated_storage_key job) = Some content"
    using assms by (auto simp: parse_wf_job_def job Let_def ext split: option.splits)
  obtain rows fault where pf: "parse_file fl cfg ext content = (rows, fault)" by fastforce
  have staged: "?staged = map (wf_staged_row e (wj_id job))
      (classify_wf_rows (wj_import_type job) (put_wf_job ?job d) {} rows)"
    by (simp add: staged_of_def ext content pf)
  have failed: ?thesis if f: "fail_wf_parse err ?job dd = Inr d'"
    and dd: "import_part dd = (row_put wj_id ?job (wf_jobs d), wf_rows d @ take m ?staged, wf_decisions d)" for err dd m
  proof -
    from fail_parse_part [OF f] dd obtain job' where
      "import_part d' = (row_put wj_id job' (row_put wj_id ?job (wf_jobs d)), wf_rows d @ take m ?staged, wf_decisions d)"
      "wj_id job' = wj_id job" "wj_state job' = Failed" "wj_import_type job' = wj_import_type job"
      by (auto simp: import_part_def)
    then show ?thesis using job by (intro disjI2 exI [of _ job] exI [of _ job'] exI [of _ m]) (simp add: row_put_twice)
  qed
  have d1: "import_part (put_wf_job ?job d) = (row_put wj_id ?job (wf_jobs d), wf_rows d @ take 0 ?staged, wf_decisions d)"
    by (simp add: import_part_def)
  show ?thesis
  proof (cases "read_header fl cfg ext content")
    case (Inl err)
    then show ?thesis using assms by (intro failed [OF _ d1]) (simp add: parse_wf_job_def job Let_def ext content)
  next
    case (Inr header)
    show ?thesis
    proof (cases "header_fault (wj_import_type job) header")
      case (Some err)
      then show ?thesis using assms Inr
        by (intro failed [OF _ d1]) (simp add: parse_wf_job_def job Let_def ext content)
    next
      case None
      let ?flushed = "flushed_rows fault ?staged"
      let ?d2 = "(put_wf_job ?job d)\<lparr>wf_rows := wf_rows d @ ?flushed\<rparr>"
      obtain m where m: "?flushed = take m ?staged"
        by (cases "fault = None") (auto simp: flushed_rows_def intro: that [of "length ?staged"])
      have d2: "import_part ?d2 = (row_put wj_id ?job (wf_jobs d), wf_rows d @ take m ?staged, wf_decisions d)"
        by (simp add: import_part_def m)
      note eq = assms [unfolded parse_wf_job_def job option.case]
      show ?thesis
      proof (cases "fault = None \<and> ?staged \<noteq> []")
        case False
        then obtain err where "fail_wf_parse err ?job ?d2 = Inr d'"
          using assms by (auto simp: parse_wf_job_def job Let_def ext content Inr None pf staged count_fold
              wf_counted_def flushed_rows_def split: option.splits)
        then show ?thesis using d2 by (rule failed)
      next
        case True
        let ?new = "parsed_wf_job (wf_counted ?staged)
          (footprint_of (fold (\<lambda>r. note_requirement (row_requirement ?job r)) ?staged (False, []))) ?job"
        from True obtain md where "notify_pending_approvers e (Suc (length ?staged)) (clk e 0) ?new
            (job_audit ''workforce_import.parse'' ''success'' (wj_uploader_id job) (wj_id job) None md (put_wf_job ?new ?d2)) = Inr d'"
          using assms by (auto simp: parse_wf_job_def job Let_def ext content Inr None pf staged count_fold
              wf_counted_def flushed_rows_def)
        from notify_pending_tables [OF this] m True
        have "import_part d' = (row_put wj_id ?new (wf_jobs d), wf_rows d @ take m ?staged, wf_decisions d)"
          "take m ?staged = ?staged"
          by (simp_all add: import_part_def row_put_twice parsed_wf_job_def flushed_rows_def)
        then show ?thesis using job
          by (intro disjI2 exI [of _ job] exI [of _ ?new] exI [of _ m])
            (simp add: parsed_wf_job_def job_counts_def)
      qed
    qed
  qed
qed simp

lemma parse_sound:
  assumes "parse_wf_job e fl cfg st i d = Inr d'" and "inj (fresh_id e)"
    and "range (fresh_id e) \<inter> wr_id ` set (wf_rows d) = {}" and "wf_sound (import_part d)"
  shows "wf_sound (import_part d')"
proof (cases "d' = d")
  case True
  then show ?thesis using assms(4) by simp
next
  case False
  let ?staged = "staged_of e fl cfg st" 
  obtain job job' m where job: "get_wf_job d i = Some job" "wj_state job = Quarantined"
    and part: "import_part d' = (row_put wj_id job' (wf_jobs d), wf_rows d @ take m (?staged job d), wf_decisions d)"
    and id: "wj_id job' = wj_id job" "wj_import_type job' = wj_import_type job"
    and res: "wj_state job' = Failed \<or> wj_state job' = Parsed \<and> job_counts job' = wf_counted (?staged job d)
      \<and> take m (?staged job d) = ?staged job d"
    using parse_part [OF assms(1)] False by blast
  let ?staged = "staged_of e fl cfg st job d"
  have sound: "job_sound (wf_rows d) (wf_decisions d) job" "distinct (map wr_id (wf_rows d))"
    using assms(4) job_of [OF job(1)] by (simp_all add: wf_sound_def import_part_def)
  then have t: "wj_import_type job \<in> set import_types" and none: "own_rows (wf_rows d) job = []"
    using job(2) by (simp_all add: job_sound_def)
  note ids = staged_ids [OF assms(2) t assms(3) sound(2), where m = m and fl = fl and cfg = cfg and st = st and d = d]
  have "own_rows (wf_rows d @ take m ?staged) job' = take m ?staged"
    using none ids(2) id(1) by (auto simp: own_rows_def filter_id_conv)
  then have "job_sound (wf_rows d @ take m ?staged) (wf_decisions d) job'"
    using res t id(2) by (auto simp: job_sound_def)
  from add_rows_sound [OF assms(4) [unfolded import_part_def] job_of(1) [OF job(1)] id(1) ids(2) ids(1) this]
  show ?thesis by (simp add: part)
qed

section \<open>Clean-up\<close>

lemma cleanup_sound:
  assumes "wf_cleanup_expired_jobs now st d = (n, st', d')" and "wf_sound (import_part d)"
  shows "wf_sound (import_part d')"
proof -
  let ?js = "rows_update (expired_wf_job now) clean_wf_job (wf_jobs d)"
  let ?gone = "map wj_id (filter (\<lambda>j. wj_state j \<noteq> Committed) (filter (expired_wf_job now) (wf_jobs d)))"
  let ?rs = "filter (\<lambda>r. wr_import_job_id r \<notin> set ?gone) (wf_rows d)"
  have part: "import_part d' = (?js, ?rs, wf_decisions d)"
    using assms(1) by (auto simp: wf_cleanup_expired_jobs_def Let_def import_part_def)
  have keys: "map wj_id ?js = map wj_id (wf_jobs d)"
    by (auto simp: rows_update_def clean_wf_job_def)
  then have ids: "wj_id ` set ?js = wj_id ` set (wf_jobs d)" by (metis set_map)
  have dist: "distinct (map wj_id (wf_jobs d))" "distinct (map wr_id (wf_rows d))"
    using assms(2) by (simp_all add: wf_sound_def import_part_def)
  have "job_sound ?rs (wf_decisions d) j'" if j': "j' \<in> set ?js" for j'
  proof -
    obtain j where j: "j \<in> set (wf_jobs d)" "j' = (if expired_wf_job now j then clean_wf_job j else j)"
      using j' by (auto simp: rows_update_def)
    have sound: "job_sound (wf_rows d) (wf_decisions d) j"
      using assms(2) j(1) by (simp add: wf_sound_def import_part_def)
    have id: "wj_id j' = wj_id j" using j(2) by (simp add: clean_wf_job_def)
    show ?thesis
    proof (cases "expired_wf_job now j \<and> wj_state j \<noteq> Committed")
      case True
      then show ?thesis using sound j(2) by (simp add: job_sound_def clean_wf_job_def)
    next
      case False
      then have "wj_id j \<notin> set ?gone"
        using dist(1) j(1) by (auto simp: distinct_map inj_on_def)
      then have "wr_import_job_id r = wj_id j \<Longrightarrow> wr_import_job_id r \<notin> set ?gone" for r by simp
      then have "own_rows ?rs j' = own_rows (wf_rows d) j"
        unfolding own_rows_def filter_filter id by (intro filter_cong refl) blast
      then show ?thesis using sound False j(2)
        by (auto simp: job_sound_def clean_wf_job_def job_counts_def approved_def own_rows_def split: if_splits)
    qed
  qed
  moreover have "distinct (map wr_id ?rs)" using dist(2) by (rule distinct_map_filterI)
  moreover have "\<forall>r \<in> set ?rs. wr_import_job_id r \<in> wj_id ` set ?js"
    using assms(2) unfolding ids by (simp add: wf_sound_def import_part_def)
  ultimately show ?thesis using dist(1)
    unfolding part wf_sound_def prod.case keys by blast
qed

section \<open>The invariant of every reachable state\<close>

interpretation wf_machine: invariant_machine no_imports wf_step "\<lambda>d. wf_sound (import_part d)"
proof unfold_locales
  show "no_imports d \<Longrightarrow> wf_sound (import_part d)" for d
    by (simp add: no_imports_def wf_sound_def)
  show "\<lbrakk>wf_sound (import_part d); wf_step d d'\<rbrakk> \<Longrightarrow> wf_sound (import_part d')" for d d'
    by (erule wf_step.cases)
      (simp_all add: upload_sound parse_sound decision_sound commit_sound reverse_sound cleanup_sound)
qed

text \<open>
  C28: in every state that uploads, parses, decisions, commits, reversals and clean-ups can lead to,
  in any order and between any other writes, the counters of a parsed or committed import are the
  numbers of its rows of each kind, and a committed import has no invalid row, remembers the key it
  was committed under, and was approved in the standard tier, and by somebody other than its
  uploader in the high-risk tier if any of its valid rows is high-risk.
\<close>

theorem imports_invariant:
  assumes "reachable no_imports wf_step d" and "job \<in> set (wf_jobs d)"
    and "wj_state job = Parsed \<or> wj_state job = Committed"
  shows "wj_total_rows job = length (job_rows d job)
    \<and> wj_invalid_rows job = count_where (\<lambda>r. wr_validation_result r = Row_invalid) (job_rows d job)
    \<and> wj_warning_rows job = count_where (\<lambda>r. wr_validation_result r = Row_warning) (job_rows d job)
    \<and> wj_high_risk_rows job = length (committable_rows d job (Some High_risk))
    \<and> (wj_state job = Committed \<longrightarrow> wj_invalid_rows job = 0 \<and> wj_idempotency_key job \<noteq> None
        \<and> (\<exists>x \<in> set (wf_decisions d). wd_import_job_id x = wj_id job \<and> wd_decision x = ''approve''
             \<and> wd_decision_tier x = ''standard'')
        \<and> (committable_rows d job (Some High_risk) \<noteq> [] \<longrightarrow>
            (\<exists>x \<in> set (wf_decisions d). wd_import_job_id x = wj_id job \<and> wd_decision x = ''approve''
               \<and> wd_decision_tier x = ''high_risk'' \<and> wd_decided_by x \<noteq> wj_uploader_id job)))"
proof -
  have "job_sound (wf_rows d) (wf_decisions d) job"
    using wf_machine.reachable_inv [OF assms(1)] assms(2) by (simp add: wf_sound_def import_part_def)
  then have counts: "job_counts job = wf_counted (job_rows d job)"
    and committed: "wj_state job = Committed \<Longrightarrow> wj_invalid_rows job = 0 \<and> wj_idempotency_key job \<noteq> None
      \<and> approved (wf_decisions d) job"
    using assms(3) by (auto simp: job_sound_def own_rows_def job_rows_def)
  have c: "wj_total_rows job = length (job_rows d job)"
    "wj_invalid_rows job = count_where (\<lambda>r. wr_validation_result r = Row_invalid) (job_rows d job)"
    "wj_warning_rows job = count_where (\<lambda>r. wr_validation_result r = Row_warning) (job_rows d job)"
    "wj_high_risk_rows job = length (committable_rows d job (Some High_risk))"
    using counts by (simp_all add: job_counts_def wf_counted_def count_where_def committable_rows_def)
  show ?thesis using c committed by (auto simp: approved_def)
qed

end
