(* ===== verification/Wf_Roundtrip.thy ===== *)
theory Wf_Roundtrip
  imports Wf_Types Wf_Reverse
begin

text \<open>
  Committing an update of a person and reversing it brings the person back: the snapshot a commit
  stores is exactly what the reversal reads.
\<close>

section \<open>The changes of a row\<close>

definition row_changes :: "string \<Rightarrow> date option \<Rightarrow> date option \<Rightarrow> user_change list" where
  "row_changes name sd ed = (if name = '''' then [] else [Set_display_name name])
     @ (case sd of None \<Rightarrow> [] | Some dt \<Rightarrow> [Set_start_date (Some dt)])
     @ (case ed of None \<Rightarrow> [] | Some dt \<Rightarrow> [Set_end_date (Some dt)])"

definition row_restores :: "user \<Rightarrow> string \<Rightarrow> date option \<Rightarrow> date option \<Rightarrow> user_change list" where
  "row_restores u name sd ed = (if name = '''' then [] else [Set_display_name (us_display_name u)])
     @ (case sd of None \<Rightarrow> [] | Some _ \<Rightarrow> [Set_start_date (us_start_date u)])
     @ (case ed of None \<Rightarrow> [] | Some _ \<Rightarrow> [Set_end_date (us_end_date u)])"

lemma all_right_append:
  "\<lbrakk>all_right xs = Inr as; all_right ys = Inr bs\<rbrakk> \<Longrightarrow> all_right (xs @ ys) = Inr (as @ bs)"
  by (induction xs arbitrary: as) (auto split: sum.splits)

lemma stored_date_iso: "valid_date dt \<Longrightarrow> stored_date (JStr (isoformat dt)) = Inr (Some dt)"
  by (simp add: stored_date_def fromisoformat_isoformat)

lemma iso_nonempty: "isoformat dt \<noteq> []"
  by (cases dt) (simp add: isoformat_def)

lemma json_date_iso: "some_valid v \<Longrightarrow> json_date (date_json v) = Inr v"
  by (cases v) (auto simp: json_date_def date_json_def some_valid_def fromisoformat_isoformat iso_nonempty)

lemma field_changes:
  "field_change g (''display_name'', JStr s) = Inr (Set_display_name s)"
  "g x = Inr t \<Longrightarrow> field_change g (''start_date'', x) = Inr (Set_start_date t)"
  "g x = Inr t \<Longrightarrow> field_change g (''end_date'', x) = Inr (Set_end_date t)"
  by (simp_all add: field_change_def)

lemma changes_of_values:
  assumes "some_valid sd" and "some_valid ed"
  shows "all_right (map (field_change stored_date) (update_values name sd ed)) = Inr (row_changes name sd ed)"
  using assms unfolding update_values_def row_changes_def map_append some_valid_def
  by (intro all_right_append) (auto simp: field_changes stored_date_iso split: option.split)

definition snapshot_of :: "user \<Rightarrow> (string \<times> json) list \<Rightarrow> (string \<times> json) list" where
  "snapshot_of u vs = map (\<lambda>(field, _). (field, user_field field u)) vs"

lemma user_fields:
  "user_field ''display_name'' u = JStr (us_display_name u)"
  "user_field ''start_date'' u = date_json (us_start_date u)"
  "user_field ''end_date'' u = date_json (us_end_date u)"
  by (simp_all add: user_field_def)

lemma restores_of_snapshot:
  assumes "some_valid (us_start_date u)" and "some_valid (us_end_date u)"
  shows "all_right (map (field_change json_date) (snapshot_of u (update_values name sd ed)))
    = Inr (row_restores u name sd ed)"
  using assms unfolding update_values_def row_restores_def snapshot_of_def map_append
  by (intro all_right_append) (auto simp: field_changes user_fields json_date_iso split: option.split)

section \<open>Applying and undoing them\<close>

lemma update_user_known:
  assumes "\<And>ch. ch \<in> set changes \<Longrightarrow> change_field ch \<in> set updatable_user_fields"
  shows "\<exists>d'. update_user u changes a rc d = Inr (fold apply_change changes u, d')
    \<and> users d' = row_put us_id (fold apply_change changes u) (users d)"
proof -
  have "filter (\<lambda>f. f \<notin> set updatable_user_fields) (sort (remdups (map change_field changes))) = []"
    using assms by (auto simp: filter_empty_conv)
  then show ?thesis
    by (simp add: update_user_def Let_def user_audit_def record_audit_def put_user_def)
qed

lemma known_changes:
  "ch \<in> set (row_changes name sd ed) \<Longrightarrow> change_field ch \<in> set updatable_user_fields"
  "ch \<in> set (row_restores u name sd ed) \<Longrightarrow> change_field ch \<in> set updatable_user_fields"
  by (auto simp: row_changes_def row_restores_def change_field_def updatable_user_fields_def
      split: if_splits option.splits)

lemma changed_fields:
  assumes "(field, v) \<in> set (update_values name sd ed)"
  shows "user_field field (fold apply_change (row_changes name sd ed) u) = v"
  using assms
  by (auto simp: update_values_def row_changes_def apply_change_def user_fields date_json_def
      split: if_splits option.splits)

lemma restored_user:
  "fold apply_change (row_restores u name sd ed) (fold apply_change (row_changes name sd ed) u) = u"
  by (cases u) (simp add: row_changes_def row_restores_def apply_change_def split: option.split)

lemma changes_keep_id: "us_id (fold apply_change chs u) = us_id u"
  by (induction chs arbitrary: u) (auto simp: apply_change_def split: user_change.split)

text \<open>
  C31: reversing undoes. A row the users classifier accepted as an update, committed and then, in any
  later database whose people are as the commit left them, reversed by anyone, is restored, and
  every person of the directory is again exactly what they were before the commit.
\<close>

theorem reversal_restores_people:
  assumes "v = fst (classify_users_row prow d0 seen)"
    and "wv_validation_result v = Row_valid" and "wv_action v = Some ''update''"
    and "commit_wf_row c e ''users'' (wf_staged_row e0 job_id v) a d = Inr ((row', out), d1)"
    and "distinct (map us_id (users d))"
    and "\<And>u. u \<in> set (users d) \<Longrightarrow> some_valid (us_start_date u) \<and> some_valid (us_end_date u)"
    and "users d2 = users d1"
  shows "out = Some (''updated'', None)
    \<and> (\<exists>d3. reverse_wf_row e2 (the (wr_committed_entity_type row')) row' b d2 = Inr (Some ''restored'', d3)
         \<and> users d3 = users d)"
proof -
  let ?row = "wf_staged_row e0 job_id v"
  have "verdict_ok ''users'' v" using typed_users [of prow d0 seen] assms(1,2) by (simp add: typed_def)
  then obtain i name sd ed where act: "wv_action v = Some ''update''" and i: "wv_normalized_identity v = Some i"
    and vs: "wv_parsed_values v = Some (update_values name sd ed)" and valid: "some_valid sd" "some_valid ed"
    using assms(3) by (auto simp: verdict_ok_def update_values_ok_def)
  note row = staged_sel [of e0 job_id v]
  obtain target where t: "get_user d i = Some target"
    using assms(4) by (auto simp: commit_wf_row_of commit_users_row_def row act i split: option.splits)
  have target: "target \<in> set (users d)" "us_id target = i"
    using t by (auto simp: get_user_def dest: row_get_Some)
  let ?new = "fold apply_change (row_changes name sd ed) target"
  have new_id: "us_id ?new = i" using target(2) by (simp add: changes_keep_id)
  have changes: "all_right (map (field_change stored_date) (values_of ?row)) = Inr (row_changes name sd ed)"
    by (simp add: values_of_def row vs changes_of_values [OF valid])
  obtain du where du: "update_user target (row_changes name sd ed) a None d = Inr (?new, du)"
    "users du = row_put us_id ?new (users d)"
    using update_user_known [of "row_changes name sd ed"] known_changes(1) by metis
  have "commit_wf_row c e ''users'' ?row a d =
      Inr ((wrote ''user'' i (?row\<lparr>wr_pre_commit_snapshot := Some (snapshot_of target (values_of ?row))\<rparr>),
        Some (''updated'', None)), du)"
    by (simp add: commit_wf_row_of commit_users_row_def row act i t commit_user_update_def changes du(1)
        Let_def snapshot_of_def target(2))
  then have row': "row' = wrote ''user'' i (?row\<lparr>wr_pre_commit_snapshot := Some (snapshot_of target (values_of ?row))\<rparr>)"
    and out: "out = Some (''updated'', None)" and d1: "d1 = du"
    using assms(4) by simp_all
  have cur: "get_user d2 i = Some ?new"
    using t assms(7) new_id by (simp add: get_user_def d1 du(2) row_get_put)
  have sel: "wr_committed_entity_type row' = Some ''user''" "wr_committed_entity_id row' = Some i"
    "wr_action row' = Some ''update''" "values_of row' = update_values name sd ed"
    "wr_pre_commit_snapshot row' = Some (snapshot_of target (update_values name sd ed))"
    by (simp_all add: row' wrote_def values_of_def row act vs)
  have quiet: "\<not> reversal_conflicts row' ?new"
    using changed_fields by (auto simp: reversal_conflicts_def sel list_ex_iff)
  have restores: "all_right (map (field_change json_date) (snapshot_of target (update_values name sd ed)))
      = Inr (row_restores target name sd ed)"
    using assms(6) target(1) by (intro restores_of_snapshot) auto
  obtain dr where dr: "update_user ?new (row_restores target name sd ed) b (Some ''import_reversal'') d2
      = Inr (target, dr)" "users dr = row_put us_id target (users d2)"
    using update_user_known [of "row_restores target name sd ed" ?new b "Some ''import_reversal''" d2]
      known_changes(2) by (metis restored_user)
  have "users dr = users d"
  proof -
    have "row_put us_id target (row_put us_id ?new (users d)) = users d"
    proof -
      have "target = x" if "x \<in> set (users d)" "us_id x = i" for x
        using that target assms(5) by (auto simp: distinct_map inj_on_def)
      then show ?thesis
        using target(2) new_id by (auto simp: row_put_def comp_def intro!: map_idI)
    qed
    then show ?thesis using dr(2) assms(7) d1 du(2) by simp
  qed
  then show ?thesis
    using out sel cur quiet restores dr(1)
    by (intro conjI exI [of _ dr]) (simp_all add: reverse_wf_row_def reverse_user_row_def)
qed

end
