(* ===== verification/Wf_Witnesses.thy ===== *)
theory Wf_Witnesses
  imports Wf_Steps Wf_Roundtrip Import_Witnesses Workforce_Witnesses
begin

text \<open>
  The bulk import properties at concrete inputs: an office whose Super Admin is person 1, a file by
  person 5 that deactivates person 8, and the import before its commit.
\<close>

section \<open>The office\<close>

definition person :: "uuid \<Rightarrow> string \<Rightarrow> user" where
  "person i w = sample_user\<lparr>us_id := i, us_workforce_id := w, us_email := w\<rparr>"

definition desk :: db where
  "desk = empty_db\<lparr>users := [person 1 ''W1'', person 5 ''W5'', person 8 ''W8''],
     role_assignments := [sample_role 1 ''super_admin'' ''installation'' None],
     feature_flags := [\<lparr>ff_flag_key = ''workforce_import_enabled'', ff_enabled = True, ff_updated_by = None\<rparr>]\<rparr>"

definition leaver_text :: string where
  "leaver_text = ''external_workforce_id,reason_code'' @ [CHR 0x0A] @ ''W8,left'' @ [CHR 0x0A]"

definition leaver_job :: wf_job where
  "leaver_job = \<lparr>wj_id = 900, wj_import_type = ''explicit_deactivations'', wj_uploader_id = 5,
     wj_source_filename_display = ''list.csv'', wj_generated_storage_key = ''token'',
     wj_file_hash = leaver_text, wj_state = Quarantined, wj_total_rows = 0, wj_valid_rows = 0,
     wj_warning_rows = 0, wj_invalid_rows = 0, wj_high_risk_rows = 0, wj_decision_version = 0,
     wj_idempotency_key = None, wj_error_summary = None, wj_expires_at = Some (1000 + hours (import_expiry_hours default_settings)),
     wj_committed_at = None, wj_reversed_at = None, wj_committed_result = None, wj_footprint = None,
     wj_created_at = 1001\<rparr>"

definition leaver_desk :: db where
  "leaver_desk = desk\<lparr>wf_jobs := [leaver_job]\<rparr>"

definition leaver_storage :: storage where "leaver_storage = [''token'' \<mapsto> leaver_text]"

lemma leaver_table:
  "read_csv plain_files leaver_text = ([[''external_workforce_id'', ''reason_code''], [''W8'', ''left'']], None)"
  by (simp add: csv_eval plain_files_def leaver_text_def)

lemma leaver_words: "strip ''external_workforce_id'' = ''external_workforce_id''"
  "strip ''reason_code'' = ''reason_code''" "strip ''W8'' = ''W8''" "strip ''left'' = ''left''"
  by (simp_all add: strip_def lstrip_def py_isspace_def code_def Let_def)

definition leaver_values :: "string \<rightharpoonup> string" where
  "leaver_values = [''external_workforce_id'' \<mapsto> ''W8'', ''reason_code'' \<mapsto> ''left'']"

definition leaver_row :: parsed_row where
  "leaver_row = \<lparr>pr_row_number = 1, pr_values = leaver_values\<rparr>"

lemma leaver_file:
  "parse_file plain_files default_settings ''.csv'' leaver_text = ([leaver_row], None)"
  "read_header plain_files default_settings ''.csv'' leaver_text = Inr [''external_workforce_id'', ''reason_code'']"
  by (simp_all add: parse_file_def read_header_def file_table_def leaver_table parse_table_def
      validate_header_def settings_limits leaver_words row_values_def truncate_cell_def leaver_row_def
      leaver_values_def)

lemma leaver_header: "header_fault ''explicit_deactivations'' [''external_workforce_id'', ''reason_code''] = None"
  by (simp add: header_fault_def columns_of_def required_columns_def optional_columns_def allowed_columns_def)

definition leaver_verdict :: wf_verdict where
  "leaver_verdict = accept 1 ''deactivate'' ''W8'' (Some 8) [(''reason_code'', JStr ''left'')] High_risk"

lemma leaver_cells: "cell leaver_row ''external_workforce_id'' = ''W8''" "cell leaver_row ''reason_code'' = ''left''"
  by (simp_all add: cell_def clean_def leaver_row_def leaver_values_def leaver_words formula_like_prefixes_def)

lemma leaver_classified:
  assumes "users d = users desk"
  shows "fst (classify_deactivation_row leaver_row d {}) = leaver_verdict"
proof -
  have "valid_workforce_id ''W8''" "valid_reason_code ''left''"
    by (simp_all add: valid_workforce_id_def valid_reason_code_def max_workforce_id_len_def max_reason_code_len_def
        py_isspace_def code_def reason_char_def)
  moreover have "lookup_user_id d ''W8'' = Some 8" "lookup_user_active d 8"
    by (simp_all add: lookup_user_id_def lookup_user_active_def get_user_def row_get_def assms desk_def
        person_def sample_user_def)
  ultimately show ?thesis
    by (simp add: classify_deactivation_row_def Let_def leaver_cells leaver_verdict_def unless_seen_def)
      (simp add: leaver_row_def)
qed

section \<open>Parsing the file\<close>

lemma candidates_total:
  assumes "\<And>u x. can_access_job d u job now \<noteq> Inl x"
  shows "\<exists>d'. notify_candidates e k now body job us d = Inr d'"
  using assms
proof (induction us arbitrary: k d)
  case (Cons u us)
  have more: "\<exists>d'. notify_candidates e (Suc k) now body job us (review_notice e k u body job d) = Inr d'"
    by (rule Cons.IH) (simp add: review_notice_def job_notice_eq Cons.prems)
  show ?case
  proof (cases "can_access_job d u job now")
    case (Inl x)
    with Cons.prems show ?thesis by blast
  next
    case (Inr ok)
    with more Cons.IH [OF Cons.prems] show ?thesis by (cases ok) simp_all
  qed
qed simp

lemma notify_total:
  assumes "\<And>u x. can_access_job d u job now \<noteq> Inl x"
  shows "\<exists>d'. notify_pending_approvers e k now job d = Inr d'"
  using candidates_total [OF assms] by (cases "review_reason d job now") (simp_all add: notify_pending_approvers_def)

lemma footprint_readable:
  assumes "wj_footprint job = Some (footprint_of fp)" and "\<not> fst fp"
  shows "can_access_job d u job now \<noteq> Inl x"
  using assms stored_footprint [of fp]
  by (simp add: can_access_job_def job_access_requirements_def footprint_of_def)

definition leaver_staged :: wf_row where
  "leaver_staged = wf_staged_row sample_env 900 leaver_verdict"

lemma leaver_sel: "wr_validation_result leaver_staged = Row_valid" "wr_risk_level leaver_staged = High_risk"
  "wr_normalized_identity leaver_staged = Some 8" "wr_import_job_id leaver_staged = 900"
  "wr_row_number leaver_staged = 1" "wr_id leaver_staged = 901" "wr_action leaver_staged = Some ''deactivate''"
  by (simp_all add: leaver_staged_def leaver_verdict_def wf_staged_row_def sample_env_def)

lemma leaver_desk_sel: "get_wf_job leaver_desk 900 = Some leaver_job" "wj_state leaver_job = Quarantined"
  "job_rows leaver_desk leaver_job = []" "wj_id leaver_job = 900" "teams leaver_desk = []"
  "wj_import_type leaver_job = ''explicit_deactivations''" "wj_uploader_id leaver_job = 5"
  "wj_source_filename_display leaver_job = ''list.csv''" "wj_generated_storage_key leaver_job = ''token''"
  by (simp_all add: leaver_desk_def leaver_job_def get_wf_job_def row_get_def job_rows_def desk_def empty_db_def)

lemma leaver_staged_of:
  "staged_of sample_env plain_files default_settings leaver_storage leaver_job leaver_desk = [leaver_staged]"
proof -
  have "fst (classify_wf_row ''explicit_deactivations'' leaver_row
      (put_wf_job (leaver_job\<lparr>wj_state := Parsing\<rparr>) leaver_desk) {}) = leaver_verdict"
    by (simp add: classify_wf_row_of leaver_classified put_wf_job_def leaver_desk_def)
  then show ?thesis
    by (simp add: staged_of_def leaver_job_def csv_name leaver_storage_def leaver_file case_prod_beta leaver_staged_def)
qed

definition leaver_run :: "wf_error + db" where
  "leaver_run = parse_wf_job sample_env plain_files default_settings leaver_storage 900 leaver_desk"

lemma leaver_parsed:
  "\<exists>d' j. leaver_run = Inr d' \<and> get_wf_job d' 900 = Some j \<and> wj_state j = Parsed \<and> wj_high_risk_rows j = 1
     \<and> map_option fp_over_cap (wj_footprint j) = Some False \<and> wj_uploader_id j = 5
     \<and> wj_import_type j = ''explicit_deactivations''"
proof -
  let ?job = "leaver_job\<lparr>wj_state := Parsing\<rparr>"
  have rows: "classify_wf_rows ''explicit_deactivations'' (put_wf_job ?job leaver_desk) {} [leaver_row] = [leaver_verdict]"
    using leaver_classified [of "put_wf_job ?job leaver_desk"]
    by (simp add: classify_wf_row_of put_wf_job_def leaver_desk_def case_prod_beta)
  let ?fp = "fold (\<lambda>r. note_requirement (row_requirement ?job r)) [leaver_staged] (False, [])"
  let ?new = "parsed_wf_job (wf_counted [leaver_staged]) (footprint_of ?fp) ?job"
  have fp: "\<not> fst ?fp"
    by (simp add: row_requirement_def leaver_desk_sel need_identity_def leaver_sel note_requirement_def requirements_cap_def)
  have n: "fold count_wf_row [leaver_staged] no_wf_counts = wf_counted [leaver_staged]" "wc_total (wf_counted [leaver_staged]) = 1"
    "wc_high_risk (wf_counted [leaver_staged]) = 1"
    by (simp_all only: count_fold) (simp_all add: wf_counted_def count_where_def leaver_sel)
  let ?d2 = "(put_wf_job ?job leaver_desk)\<lparr>wf_rows := wf_rows leaver_desk @ [leaver_staged]\<rparr>"
  let ?c = "wf_counted [leaver_staged]"
  let ?d3 = "job_audit ''workforce_import.parse'' ''success'' 5 900 None [(''total'', JInt 1),
    (''valid'', JInt (int (wc_valid ?c))), (''invalid'', JInt (int (wc_invalid ?c))), (''high_risk'', JInt 1)]
    (put_wf_job ?new ?d2)"
  have eq: "leaver_run = notify_pending_approvers sample_env (Suc (Suc 0)) 1000 ?new ?d3"
    by (simp add: leaver_run_def parse_wf_job_def leaver_desk_sel Let_def csv_name leaver_storage_def leaver_file
        leaver_header flushed_rows_def rows n leaver_staged_def [symmetric] sample_env_def [THEN arg_cong [of _ _ clk]]
        del: classify_wf_rows.simps fold.simps)
  have fpj: "wj_footprint ?new = Some (footprint_of ?fp)" by (simp add: parsed_wf_job_def)
  obtain d' where d': "leaver_run = Inr d'"
    using notify_total [OF footprint_readable [OF fpj fp]] unfolding eq by blast
  have "get_wf_job ?d2 900 = Some ?job"
    by (simp add: get_wf_job_def put_wf_job_def row_get_put leaver_desk_sel)
      (simp add: leaver_desk_def row_get_def row_put_def leaver_desk_sel)
  then have "get_wf_job ?d3 900 = Some ?new"
    by (simp add: get_wf_job_def row_get_put parsed_wf_job_def leaver_desk_sel del: fold.simps)
  moreover have "wf_jobs d' = wf_jobs ?d3"
    using notify_pending_tables [OF eq [symmetric, unfolded d']] by blast
  ultimately have "get_wf_job d' 900 = Some ?new" by (simp only: get_wf_job_def)
  moreover have "\<not> fp_over_cap (footprint_of ?fp)" using fp by (simp add: footprint_of_def del: fold.simps)
  ultimately show ?thesis using d' fpj
    by (intro exI conjI) (assumption | simp add: parsed_wf_job_def n leaver_desk_sel del: fold.simps)+
qed

lemma parsed_counters_example:
  "\<exists>d' j. leaver_run = Inr d' \<and> get_wf_job d' 900 = Some j \<and> wj_total_rows j = 1
     \<and> length (committable_rows d' j (Some High_risk)) = 1"
proof -
  obtain d' j where run: "leaver_run = Inr d'" "get_wf_job d' 900 = Some j" "wj_state j = Parsed"
    "wj_high_risk_rows j = 1" using leaver_parsed by blast
  from parsed_counters_are_the_rows [OF leaver_desk_sel(1-3) run(1) [unfolded leaver_run_def] run(2,3)]
    parsed_job_rows [OF leaver_desk_sel(1-3) run(1) [unfolded leaver_run_def] run(2,3)]
  show ?thesis using run by (auto simp: leaver_staged_of)
qed

lemma admin_manages: "can_manage_user leaver_desk 1 8 10" "\<not> can_manage_user leaver_desk 7 8 10"
  by (simp_all add: can_manage_user_def Let_def authz_eval leaver_desk_def desk_def has_assigned_capability_def
      appointment_capabilities_def role_appointment_capability_def)

lemma footprint_is_the_rows_witness:
  "\<exists>j. can_access_job leaver_desk 1 j 10 = Inr True \<and> can_access_job leaver_desk 7 j 10 = Inr False
     \<and> wj_state j = Parsed"
proof -
  obtain d' j where run: "leaver_run = Inr d'" "get_wf_job d' 900 = Some j" "wj_state j = Parsed"
    and fp: "map_option fp_over_cap (wj_footprint j) = Some False" and j: "wj_uploader_id j = 5"
      "wj_import_type j = ''explicit_deactivations''"
    using leaver_parsed by blast
  have rows: "job_rows d' j = [leaver_staged]"
    using parsed_job_rows [OF leaver_desk_sel(1-3) run(1) [unfolded leaver_run_def] run(2,3)]
    by (simp add: leaver_staged_of)
  have req: "row_requirement j leaver_staged = Some (Need_user 8)"
    by (simp add: row_requirement_def j need_identity_def leaver_sel)
  have access: "can_access_job leaver_desk a j 10 = Inr (can_manage_user leaver_desk a 8 10)" if "a \<noteq> 5" for a
    using footprint_is_the_rows [OF leaver_desk_sel(1-3) run(1) [unfolded leaver_run_def] run(2,3) refl refl,
        of a leaver_desk 10] fp that
    by (simp add: rows req meets_def leaver_desk_sel j)
  show ?thesis using access [of 1] access [of 7] run(3) admin_manages
    by (intro exI [of _ j]) (simp del: One_nat_def)
qed

lemma reviewers_are_told_witness:
  "\<exists>d' j new. leaver_run = Inr d' \<and> get_wf_job d' 900 = Some j \<and> notifications d' = new
     \<and> set (map nt_recipient_user_id new) = {a. a \<noteq> 5 \<and> can_access_job d' a j 1000 = Inr True}"
proof -
  obtain d' j where run: "leaver_run = Inr d'" "get_wf_job d' 900 = Some j" "wj_state j = Parsed"
    "wj_high_risk_rows j = 1" "wj_uploader_id j = 5" using leaver_parsed by blast
  have "distinct (map te_id (teams leaver_desk))" by (simp add: leaver_desk_sel)
  from reviewers_are_told [OF leaver_desk_sel(1-3) this run(1) [unfolded leaver_run_def] run(2,3)]
  obtain new where "notifications d' = notifications leaver_desk @ new"
    "set (map nt_recipient_user_id new) = (if review_reason d' j (clk sample_env 0) = None then {}
       else {a. a \<noteq> wj_uploader_id j \<and> can_access_job d' a j (clk sample_env 0) = Inr True})" by blast
  moreover have "notifications leaver_desk = []" "clk sample_env 0 = 1000"
    by (simp_all add: leaver_desk_def desk_def empty_db_def sample_env_def)
  moreover have "review_reason d' j 1000 \<noteq> None" using run(4) by (simp add: review_reason_def)
  ultimately show ?thesis using run(1,2,5) by auto
qed

section \<open>From the upload on\<close>

lemma desk_tables: "wf_jobs desk = []" "wf_rows desk = []" "wf_decisions desk = []"
  by (simp_all add: desk_def empty_db_def)

lemma leaver_uploaded:
  "\<exists>st d'. create_wf_job sample_crypto plain_files sample_env default_settings ''explicit_deactivations'' 5 ''list.csv''
     [leaver_text] Map.empty desk = Inr (leaver_job, st, d') \<and> wf_jobs d' = [leaver_job]
     \<and> wf_rows d' = [] \<and> wf_decisions d' = []"
proof -
  have "is_enabled desk ''workforce_import_enabled''"
    by (simp add: is_enabled_def get_flag_def row_get_def desk_def)
  then have flag: "require_enabled desk ''workforce_import_enabled'' = None" by (simp add: require_enabled_def)
  have ok: "validate_upload plain_files default_settings leaver_text ''list.csv'' = Inr ''.csv''"
    by (simp add: validate_upload_def csv_name validate_csv_signature_def leaver_text_def xlsx_signature_def startswith_def)
  have "length leaver_text \<le> upload_max_bytes default_settings"
    by (simp add: leaver_text_def default_settings_def)
  then have stored: "write_streamed (sha256_hex sample_crypto) ''token'' [leaver_text] (upload_max_bytes default_settings)
      Map.empty = Inr ((length leaver_text, leaver_text), [''token'' \<mapsto> leaver_text])"
    by (simp add: write_streamed_def sample_crypto_def)
  have "truncate_filename ''list.csv'' 255 = ''list.csv''" by (simp add: truncate_filename_def)
  then show ?thesis
    using stored ok
    by (simp add: create_wf_job_def import_types_def flag csv_name Let_def sample_env_def leaver_job_def desk_tables)
qed

lemma imports_invariant_witness:
  "\<exists>d' j. leaver_run = Inr d' \<and> get_wf_job d' 900 = Some j \<and> wj_total_rows j = length (job_rows d' j)"
proof -
  obtain st d0 where up: "create_wf_job sample_crypto plain_files sample_env default_settings ''explicit_deactivations''
      5 ''list.csv'' [leaver_text] Map.empty desk = Inr (leaver_job, st, d0)"
    and part: "import_part leaver_desk = import_part d0"
    using leaver_uploaded by (auto simp: import_part_def leaver_desk_def desk_def empty_db_def)
  obtain d' j where run: "leaver_run = Inr d'" "get_wf_job d' 900 = Some j" "wj_state j = Parsed"
    using leaver_parsed by blast
  have "reachable no_imports wf_step desk"
    by (rule reachable.start) (simp add: no_imports_def import_part_def desk_def empty_db_def)
  moreover have "wf_step desk d0"
    by (rule step_upload [OF up]) (simp add: desk_def empty_db_def)
  moreover have "wf_step d0 leaver_desk" by (rule step_elsewhere [OF part])
  moreover have "wf_step leaver_desk d'"
    by (rule step_parse [OF run(1) [unfolded leaver_run_def]])
      (simp_all add: sample_env_def inj_def leaver_desk_def desk_def empty_db_def)
  ultimately have "reachable no_imports wf_step d'" by (blast intro: next_state)
  moreover have "j \<in> set (wf_jobs d')" using run(2) by (rule job_of)
  ultimately show ?thesis using imports_invariant [of d' j] run by blast
qed

section \<open>Approving and committing\<close>

definition approval :: "int \<Rightarrow> string \<Rightarrow> wf_decision" where
  "approval n tier = \<lparr>wd_import_job_id = 900, wd_decision_version = n, wd_decision = ''approve'',
     wd_decision_tier = tier, wd_decided_by = 1, wd_note = None\<rparr>"

definition ready_job :: wf_job where
  "ready_job = leaver_job\<lparr>wj_state := Parsed, wj_total_rows := 1, wj_valid_rows := 1, wj_high_risk_rows := 1,
     wj_decision_version := 2, wj_footprint := Some (footprint_of (False, [Need_user 8]))\<rparr>"

definition ready_desk :: db where
  "ready_desk = desk\<lparr>wf_jobs := [ready_job], wf_rows := [leaver_staged],
     wf_decisions := [approval 1 ''standard'', approval 2 ''high_risk'']\<rparr>"

definition ready_run :: "(wf_error, (nat \<times> string) list \<times> (string \<times> string) list, db) outcome" where
  "ready_run = commit_wf_job sample_crypto sample_env 900 5 2 ''k'' ready_desk"

lemma ready_sel: "get_wf_job ready_desk 900 = Some ready_job" "wj_state ready_job = Parsed"
  "wj_id ready_job = 900" "wj_uploader_id ready_job = 5" "wj_high_risk_rows ready_job = 1"
  "wj_invalid_rows ready_job = 0" "wj_decision_version ready_job = 2" "teams ready_desk = []"
  "wj_import_type ready_job = ''explicit_deactivations''" "job_rows ready_desk ready_job = [leaver_staged]"
  "wj_footprint ready_job = Some (footprint_of (False, [Need_user 8]))"
  by (simp_all add: ready_desk_def ready_job_def leaver_job_def get_wf_job_def row_get_def job_rows_def desk_def
      empty_db_def leaver_sel)

lemma ready_rows: "committable_rows ready_desk ready_job (Some High_risk) = [leaver_staged]"
  "committable_rows ready_desk ready_job (Some Routine) = []" "rows_in_order ready_desk ready_job = [leaver_staged]"
  by (simp_all add: committable_rows_def ready_sel leaver_sel rows_in_order_def)

lemma ready_requirement: "row_requirement ready_job leaver_staged = Some (Need_user 8)"
  by (simp add: row_requirement_def ready_sel need_identity_def leaver_sel)

lemma ready_manages: "can_manage_user ready_desk 1 8 1000" "\<not> can_manage_user ready_desk 7 8 1000"
  by (simp_all add: can_manage_user_def Let_def authz_eval ready_desk_def desk_def has_assigned_capability_def
      appointment_capabilities_def role_appointment_capability_def)

lemma ready_distinct: "distinct (map te_id (teams ready_desk))" "distinct (map wr_id (wf_rows ready_desk))"
  by (simp_all add: ready_sel) (simp add: ready_desk_def)

lemma ready_high_risk: "rows_authorized ready_desk ready_job 1 High_risk 1000"
  "\<not> rows_authorized ready_desk ready_job 7 High_risk 1000"
  using ready_manages
  by (simp_all add: rows_authorized_def authority_iff [OF ready_distinct(1)] ready_rows ready_requirement meets_def)


lemma ready_access: "can_access_job ready_desk 1 ready_job 1000 = Inr True" "can_access_job ready_desk 5 ready_job 1000 = Inr True"
  using ready_manages
  by (simp_all add: can_access_job_def job_access_requirements_def ready_sel stored_footprint
      authority_iff [OF ready_distinct(1)] meets_def footprint_of_def [of "(False, xs)" for xs, THEN arg_cong [of _ _ fp_over_cap]])

lemma visible_jobs_are_the_accessible_witness:
  "visible_jobs ready_desk 1 1000 5 200 = Inr [ready_job]"
proof -
  have jobs: "visible_candidates ready_desk 200 = [ready_job]"
    by (simp add: visible_candidates_def ready_desk_def)
  then obtain js where js: "visible_jobs ready_desk 1 1000 5 200 = Inr js"
    by (auto simp: visible_jobs_def Let_def job_access_requirements_def ready_sel stored_footprint
        footprint_of_def [of "(False, xs)" for xs, THEN arg_cong [of _ _ fp_over_cap]])
  from visible_jobs_are_the_accessible [OF ready_distinct(1) _ js] show ?thesis
    using js by (simp add: jobs ready_access del: One_nat_def)
qed

lemma ready_approvers: "commit_approvers ready_desk ready_job 1000 = Inr (1, Some 1)"
proof -
  have "latest_wf_decision ready_desk ready_job ''standard'' = Some (approval 1 ''standard'')"
    "latest_wf_decision ready_desk ready_job ''high_risk'' = Some (approval 2 ''high_risk'')"
    by (simp_all add: latest_wf_decision_def ready_desk_def approval_def ready_sel)
  moreover have "rows_authorized ready_desk ready_job 1 Routine 1000"
    by (simp add: rows_authorized_def ready_rows authority_iff [OF ready_distinct(1)])
  ultimately show ?thesis
    using ready_high_risk(1)
    by (simp add: commit_approvers_def approval_def ready_sel qualified_high_risk_approver_def del: One_nat_def)
qed

lemma ready_committed: "\<exists>d'. ready_run = Inr (([(1, ''deactivated'')], []), d') \<and> teams d' = []
    \<and> role_assignments d' = role_assignments ready_desk"
proof -
  have target: "get_user ready_desk 8 = Some (person 8 ''W8'')" "us_active (person 8 ''W8'')" "us_id (person 8 ''W8'') = 8"
    by (simp_all add: get_user_def row_get_def ready_desk_def desk_def person_def sample_user_def)
  have step: "\<exists>s. commit_wf_step sample_crypto sample_env ready_job 1 (Some 1) 1 leaver_staged
      \<lparr>wk_db = ready_desk, wk_outcomes = [], wk_tokens = []\<rparr> = Inr s
      \<and> wk_outcomes s = [(1, ''deactivated'')] \<and> wk_tokens s = [] \<and> teams (wk_db s) = []
      \<and> role_assignments (wk_db s) = role_assignments ready_desk"
    by (simp add: commit_wf_step_def leaver_sel ready_sel commit_wf_row_of commit_deactivation_row_def target Let_def
        disable_user_def assert_not_self_def case_prod_beta wrote_def put_wf_row_def record_audit_def user_audit_def
        reclaim_leases_for_user_def invalidate_sessions_on_privilege_change_def revoke_all_for_user_def put_user_def)
  have now: "clk sample_env 0 = 1000" by (simp add: sample_env_def)
  from step show ?thesis
    by (auto simp: ready_run_def commit_wf_job_def ready_sel assert_job_accessible_def now ready_access ready_approvers
        ready_rows finish_commit_def Let_def job_audit_def record_audit_def put_wf_job_def)
qed


lemma bulk_commit_replay_witness:
  "\<exists>d'. ready_run = Inr (([(1, ''deactivated'')], []), d')
     \<and> commit_wf_job sample_crypto sample_env 900 5 7 ''k'' d' = Inr (([(1, ''deactivated'')], []), d')
     \<and> commit_wf_job sample_crypto sample_env 900 5 2 ''other'' d' = Inl Wf_other_key"
proof -
  obtain d' where run: "ready_run = Inr (([(1, ''deactivated'')], []), d')" using ready_committed by blast
  have "can_access_job d' 5 (committed_wf_job sample_env ''k'' [(1, ''deactivated'')] ready_job) (clk sample_env 0) = Inr True"
    by (simp add: can_access_job_def committed_wf_job_def ready_sel)
  from bulk_commit_replay [OF ready_sel(1,2) ready_distinct(2) run [unfolded ready_run_def] refl this, where ?ver2.0 = 7 and ?key2.0 = "''k''"]
    bulk_commit_replay [OF ready_sel(1,2) ready_distinct(2) run [unfolded ready_run_def] refl this, where ?ver2.0 = 2 and ?key2.0 = "''other''"]
    run show ?thesis by (intro exI [of _ d']) (simp del: One_nat_def)
qed

text \<open>The same import with a footprint that was given up.\<close>

lemma over_cap_import_is_irreversible_witness:
  "let job = ready_job\<lparr>wj_state := Committed, wj_footprint := Some (footprint_of (True, []))\<rparr>;
       d = ready_desk\<lparr>wf_jobs := [job]\<rparr>
   in reverse_wf_job sample_env 900 5 d = Inl Wf_self_approval
      \<and> reverse_wf_job sample_env 900 1 d = Inl Wf_insufficient_authority"
proof -
  let ?job = "ready_job\<lparr>wj_state := Committed, wj_footprint := Some (footprint_of (True, []))\<rparr>"
  let ?d = "ready_desk\<lparr>wf_jobs := [?job]\<rparr>"
  have "get_wf_job ?d 900 = Some ?job" "wj_state ?job = Committed" "wj_reversed_at ?job = None"
    "wj_footprint ?job = Some (footprint_of (True, []))" "fp_over_cap (footprint_of (True, []))"
    "0 < wj_high_risk_rows ?job"
    by (simp_all add: get_wf_job_def row_get_def ready_sel footprint_of_def)
      (simp add: ready_job_def leaver_job_def)
  from over_cap_import_is_irreversible [OF this, of sample_env 5] over_cap_import_is_irreversible [OF this, of sample_env 1]
  show ?thesis by (simp add: ready_sel Let_def del: One_nat_def)
qed

section \<open>Updating and restoring a person\<close>

definition rename_values :: "string \<rightharpoonup> string" where
  "rename_values = [''action'' \<mapsto> ''update'', ''external_workforce_id'' \<mapsto> ''W8'', ''display_name'' \<mapsto> ''Nyasha'']"

definition rename_row :: parsed_row where
  "rename_row = \<lparr>pr_row_number = 1, pr_values = rename_values\<rparr>"

definition rename_verdict :: wf_verdict where
  "rename_verdict = accept 1 ''update'' ''W8'' (Some 8) [(''display_name'', JStr ''Nyasha'')] Routine"

lemma rename_words: "strip ''update'' = ''update''" "strip ''Nyasha'' = ''Nyasha''" "strip [] = []"
  by (simp_all add: strip_def lstrip_def py_isspace_def code_def Let_def)

lemma rename_lower: "lower ''update'' = ''update''" by code_simp

lemma rename_cells: "cell rename_row ''action'' = ''update''" "cell rename_row ''external_workforce_id'' = ''W8''"
  "cell rename_row ''display_name'' = ''Nyasha''" "cell rename_row ''start_date'' = []" "cell rename_row ''end_date'' = []"
  by (simp_all add: cell_def clean_def rename_row_def rename_values_def rename_words leaver_words formula_like_prefixes_def)

lemma rename_classified: "fst (classify_users_row rename_row desk {}) = rename_verdict"
proof -
  have "valid_workforce_id ''W8''"
    by (simp add: valid_workforce_id_def max_workforce_id_len_def py_isspace_def code_def)
  moreover have "lookup_user_id desk ''W8'' = Some 8"
    by (simp add: lookup_user_id_def desk_def person_def sample_user_def)
  ultimately show ?thesis
    by (simp add: classify_users_row_def Let_def rename_cells rename_lower users_actions_def unless_seen_def
        classify_existing_def parse_date_def max_display_name_len_def update_values_def rename_verdict_def)
      (simp add: rename_row_def)
qed

lemma rename_accepted: "wv_validation_result rename_verdict = Row_valid" "wv_action rename_verdict = Some ''update''"
  by (simp_all add: rename_verdict_def)

lemma accepted_rows_are_well_typed_witness:
  "case commit_wf_row sample_crypto sample_env ''users'' (wf_staged_row sample_env 900 rename_verdict) 1 empty_db of
       Inl err \<Rightarrow> (\<forall>k. err \<noteq> Wf_key_error k) \<and> (\<forall>s. err \<noteq> Wf_bad_date s)
     | Inr ((row', outcome), d') \<Rightarrow> outcome \<noteq> None"
proof -
  have "''users'' \<in> set import_types" by (simp add: import_types_def)
  from accepted_rows_are_well_typed [OF this _ rename_accepted(1), of rename_row desk "{}"]
  show ?thesis by (simp add: classify_wf_row_of rename_classified)
qed

lemma reversal_restores_people_witness:
  "\<exists>row' out d1 d3. commit_wf_row sample_crypto sample_env ''users'' (wf_staged_row sample_env 900 rename_verdict) 1 desk
       = Inr ((row', out), d1)
     \<and> reverse_wf_row sample_env (the (wr_committed_entity_type row')) row' 1 d1 = Inr (Some ''restored'', d3)
     \<and> users d3 = users desk"
proof -
  have target: "get_user desk 8 = Some (person 8 ''W8'')"
    by (simp add: get_user_def row_get_def desk_def person_def sample_user_def)
  then obtain row' out d1 where run: "commit_wf_row sample_crypto sample_env ''users''
      (wf_staged_row sample_env 900 rename_verdict) 1 desk = Inr ((row', out), d1)"
    by (auto simp: commit_wf_row_of commit_users_row_def staged_sel rename_verdict_def commit_user_update_def
        values_of_def field_change_def Let_def update_user_def change_field_def updatable_user_fields_def)
  have "distinct (map us_id (users desk))" by (simp add: desk_def person_def)
  moreover have "\<And>u. u \<in> set (users desk) \<Longrightarrow> some_valid (us_start_date u) \<and> some_valid (us_end_date u)"
    by (auto simp: desk_def person_def sample_user_def some_valid_def)
  ultimately show ?thesis
    using reversal_restores_people [OF rename_classified [symmetric] rename_accepted run _ _ refl, of sample_env 1] run
    by blast
qed

end
