(* ===== verification/Auth_Flows.thy ===== *)
theory Auth_Flows
  imports Auth Rate_Limit
begin

text \<open>
  What every request of the API passes before its handler runs (the dependencies of
  \<open>app/auth/dependencies.py\<close> as FastAPI resolves them: those of the route in their order, then
  those of the handler's parameters), and the replies a handler gives. A handler runs on the
  rate limiter's Redis and the database; the counters stay whatever it does, and it returns the
  database it committed.
\<close>

record request =
  rq_cookie :: "string option"
  rq_csrf_token :: "string option"
  rq_fetch_site :: "string option"
  rq_forwarded_for :: "string option"
  rq_client_host :: "string option"
  rq_user_agent :: "string option"

text \<open>A refusal is an \<open>HTTPException\<close>; an exception no handler catches is a server error.\<close>

datatype 'a reply = Reply 'a | Http_error nat string | Server_error

type_synonym world = "redis \<times> db"

text \<open>\<open>_client_ip\<close> and \<open>_source_summary\<close> of the routers.\<close>

definition client_ip :: "request \<Rightarrow> string option" where
  "client_ip rq =
     (case rq_forwarded_for rq of
        None \<Rightarrow> rq_client_host rq
      | Some forwarded \<Rightarrow>
          (if forwarded = '''' then rq_client_host rq
           else Some (strip (before_first (CHR '','') forwarded))))"

definition source_summary :: "request \<Rightarrow> string" where
  "source_summary rq = take 255 (case rq_user_agent rq of None \<Rightarrow> '''' | Some a \<Rightarrow> a)"

fun gate_reply :: "gate_error \<Rightarrow> 'a reply" where
  "gate_reply Not_authenticated = Http_error 401 ''not authenticated''"
| "gate_reply Account_unavailable = Http_error 401 ''account unavailable''"
| "gate_reply Mfa_enrollment_required = Http_error 403 ''mfa_enrollment_required''"
| "gate_reply Cross_site_request = Http_error 403 ''cross-site request''"
| "gate_reply Invalid_csrf_token = Http_error 403 ''invalid csrf token''"
| "gate_reply Reauthentication_required = Http_error 403 ''reauthentication_required''"

datatype gate = Csrf | Recent_reauthentication

definition check_gate ::
  "crypto \<Rightarrow> settings \<Rightarrow> (uuid \<Rightarrow> string) \<Rightarrow> time \<Rightarrow> request \<Rightarrow> session \<Rightarrow> gate \<Rightarrow> gate_error option" where
  "check_gate c cfg str_uuid now rq row g =
     (case g of
        Csrf \<Rightarrow> require_csrf c str_uuid (rq_fetch_site rq) (rq_csrf_token rq) row
      | Recent_reauthentication \<Rightarrow> require_recent_reauthentication cfg now row)"

fun first_refusal :: "(gate \<Rightarrow> gate_error option) \<Rightarrow> gate list \<Rightarrow> gate_error option" where
  "first_refusal check [] = None"
| "first_refusal check (g # gs) =
     (case check g of Some err \<Rightarrow> Some err | None \<Rightarrow> first_refusal check gs)"

lemma first_refusal_None [simp]:
  "first_refusal check gs = None \<longleftrightarrow> (\<forall>g \<in> set gs. check g = None)"
  by (induction gs) (auto split: option.splits)

text \<open>
  The session is loaded and its slid window committed before any other check; the gates of the
  route follow.
\<close>

definition with_session ::
  "crypto \<Rightarrow> settings \<Rightarrow> (uuid \<Rightarrow> string) \<Rightarrow> env \<Rightarrow> request \<Rightarrow> gate list
   \<Rightarrow> (session \<Rightarrow> world \<Rightarrow> 'a reply \<times> world) \<Rightarrow> world \<Rightarrow> 'a reply \<times> world" where
  "with_session c cfg str_uuid e rq gates handler w =
     (case get_current_session c cfg (clk e 0) (rq_cookie rq) (snd w) of
        Inl err \<Rightarrow> (gate_reply err, w)
      | Inr (row, d) \<Rightarrow>
          (case first_refusal (check_gate c cfg str_uuid (clk e 1) rq row) gates of
             Some err \<Rightarrow> (gate_reply err, fst w, d)
           | None \<Rightarrow> handler row (fst w, d)))"

text \<open>The user of the session, who must be active; \<open>full\<close> asks for a satisfied second factor.\<close>

definition with_user ::
  "crypto \<Rightarrow> settings \<Rightarrow> (uuid \<Rightarrow> string) \<Rightarrow> env \<Rightarrow> request \<Rightarrow> gate list \<Rightarrow> bool
   \<Rightarrow> (session \<Rightarrow> user \<Rightarrow> world \<Rightarrow> 'a reply \<times> world) \<Rightarrow> world \<Rightarrow> 'a reply \<times> world" where
  "with_user c cfg str_uuid e rq gates full handler =
     with_session c cfg str_uuid e rq gates
       (\<lambda>row w.
          case get_authenticated_user (snd w) row of
            Inl err \<Rightarrow> (gate_reply err, w)
          | Inr u \<Rightarrow>
              (if full then
                 (case get_current_user u row of
                    Inl err \<Rightarrow> (gate_reply err, w)
                  | Inr u' \<Rightarrow> handler row u' w)
               else handler row u w))"

section \<open>What a handler may rely on\<close>

lemma gate_reply_refuses [simp]: "gate_reply err \<noteq> Reply x"
  by (cases err) simp_all

lemma with_session_Reply:
  assumes "with_session c cfg su e rq gates h w = (Reply x, w')"
  obtains t row0 where "rq_cookie rq = Some t" and "row0 \<in> set (sessions (snd w))"
    and "ss_token_hash row0 = hash_token c t" and "ss_revoked_at row0 = None"
    and "clk e 0 < ss_idle_expires_at row0" and "clk e 0 < ss_absolute_expires_at row0"
    and "\<forall>g \<in> set gates. check_gate c cfg su (clk e 1) rq (slide cfg (clk e 0) row0) g = None"
    and "h (slide cfg (clk e 0) row0)
           (fst w, put_session_row (slide cfg (clk e 0) row0) (snd w)) = (Reply x, w')"
proof -
  from assms obtain row d where load: "load_session c cfg (clk e 0) (rq_cookie rq) (snd w) = (Some row, d)"
    and gates: "\<forall>g \<in> set gates. check_gate c cfg su (clk e 1) rq row g = None"
    and h: "h row (fst w, d) = (Reply x, w')"
    by (auto simp: with_session_def get_current_session_def split: sum.splits option.splits prod.splits)
  from load show thesis
  proof (rule load_session_Some)
    fix t row0
    assume a: "rq_cookie rq = Some t" "session_by_token c (snd w) t = Some row0"
      "ss_revoked_at row0 = None" "clk e 0 < ss_idle_expires_at row0"
      "clk e 0 < ss_absolute_expires_at row0" "row = slide cfg (clk e 0) row0"
      "d = put_session_row row (snd w)"
    have "row0 \<in> set (sessions (snd w)) \<and> ss_token_hash row0 = hash_token c t"
      using a(2) by (auto simp: session_by_token_def dest: find_SomeD)
    then show thesis using a gates h by (intro that [of t row0]) simp_all
  qed
qed

lemma put_session_users [simp]:
  "users (put_session_row s d) = users d" "get_user (put_session_row s d) = get_user d"
  "audit_events (put_session_row s d) = audit_events d"
  by (simp_all add: put_session_row_def get_user_def fun_eq_iff)

text \<open>
  A handler behind \<open>with_user\<close> runs only for a live session of an active person, after every
  gate of its route and, where the route asks for it, with a second factor both enrolled and
  satisfied in this session.
\<close>

theorem handler_runs_authenticated:
  assumes "with_user c cfg su e rq gates full h w = (Reply x, w')"
  obtains row0 row u where "row0 \<in> set (sessions (snd w))" and "row = slide cfg (clk e 0) row0"
    and "\<exists>t. rq_cookie rq = Some t \<and> ss_token_hash row0 = hash_token c t"
    and "ss_revoked_at row0 = None" and "clk e 0 < ss_absolute_expires_at row0"
    and "get_user (snd w) (ss_user_id row) = Some u" and "us_active u"
    and "full \<longrightarrow> us_totp_enrolled u \<and> ss_mfa_state row = mfa_satisfied"
    and "\<forall>g \<in> set gates. check_gate c cfg su (clk e 1) rq row g = None"
    and "h row u (fst w, put_session_row row (snd w)) = (Reply x, w')"
  using assms unfolding with_user_def
proof (rule with_session_Reply)
  fix t row0
  let ?row = "slide cfg (clk e 0) row0"
  assume a: "rq_cookie rq = Some t" "row0 \<in> set (sessions (snd w))"
    "ss_token_hash row0 = hash_token c t" "ss_revoked_at row0 = None"
    "clk e 0 < ss_absolute_expires_at row0"
    "\<forall>g \<in> set gates. check_gate c cfg su (clk e 1) rq ?row g = None"
    and run: "(case get_authenticated_user (snd (fst w, put_session_row ?row (snd w))) ?row of
            Inl err \<Rightarrow> (gate_reply err, fst w, put_session_row ?row (snd w))
          | Inr u \<Rightarrow>
              (if full then
                 (case get_current_user u ?row of
                    Inl err \<Rightarrow> (gate_reply err, fst w, put_session_row ?row (snd w))
                  | Inr u' \<Rightarrow> h ?row u' (fst w, put_session_row ?row (snd w)))
               else h ?row u (fst w, put_session_row ?row (snd w)))) = (Reply x, w')"
  show thesis
  proof (cases "get_authenticated_user (snd w) ?row")
    case (Inl err)
    with run show thesis by (simp add: get_authenticated_user_def split: option.splits if_splits)
  next
    case (Inr u)
    then have u: "get_user (snd w) (ss_user_id ?row) = Some u" "us_active u"
      by (auto simp: get_authenticated_user_def split: option.splits if_splits)
    with run have "(full \<longrightarrow> us_totp_enrolled u \<and> ss_mfa_state ?row = mfa_satisfied)
        \<and> h ?row u (fst w, put_session_row ?row (snd w)) = (Reply x, w')"
      by (auto simp: get_authenticated_user_def get_current_user_def split: if_splits sum.splits)
    with a u show thesis by (intro that [of row0 ?row u]) (auto simp: slide_def)
  qed
qed

section \<open>The endpoints of the authentication API\<close>

text \<open>
  The authentication API (\<open>app/auth/router.py\<close>): signing in and out, stepping up, enrolling a
  second factor, revoking sessions, activating an account. Each handler is composed of the rate
  limiter, the authentication service, the session store and the audit log in the order of the
  code. \<open>up\<close> tells which Redis commands of the request find the server; the limiter issues its
  counters first and the reset comes after them.
\<close>

record auth_platform =
  ap_digest :: "string \<Rightarrow> string"
  ap_str_uuid :: "uuid \<Rightarrow> string"
  ap_redis_up :: "nat \<Rightarrow> bool"
  ap_provisioning_uri :: "string \<Rightarrow> string \<Rightarrow> string"

record user_out =
  uo_id :: uuid
  uo_email :: string
  uo_display_name :: string
  uo_workforce_id :: string
  uo_mfa_enrollment_required :: bool

definition user_out_of :: "user \<Rightarrow> user_out" where
  "user_out_of u = \<lparr>uo_id = us_id u, uo_email = us_email u, uo_display_name = us_display_name u,
     uo_workforce_id = us_workforce_id u, uo_mfa_enrollment_required = (\<not> us_totp_enrolled u)\<rparr>"

text \<open>The two cookies: the session token and a CSRF token bound to the session.\<close>

record auth_cookies =
  ck_session :: string
  ck_csrf :: string
  ck_secure :: bool

definition set_auth_cookies ::
  "crypto \<Rightarrow> settings \<Rightarrow> auth_platform \<Rightarrow> string \<Rightarrow> uuid \<Rightarrow> auth_cookies" where
  "set_auth_cookies c cfg p token session_id =
     \<lparr>ck_session = token, ck_csrf = csrf_issue c (ap_str_uuid p session_id),
      ck_secure = cookie_secure cfg\<rparr>"

record login_request =
  lr_email :: string
  lr_password :: string
  lr_totp_code :: "string option"

definition auth_reason :: "auth_error \<Rightarrow> string" where
  "auth_reason err =
     (if err = Second_factor_required then ''second factor required'' else ''invalid credentials'')"

definition mfa_state_of :: "user \<Rightarrow> string" where
  "mfa_state_of u = (if us_totp_enrolled u then mfa_satisfied else mfa_enrollment_required)"

section \<open>Signing in\<close>

definition login_success ::
  "crypto \<Rightarrow> settings \<Rightarrow> auth_platform \<Rightarrow> env \<Rightarrow> request \<Rightarrow> user \<Rightarrow> db
   \<Rightarrow> (user_out \<times> auth_cookies) \<times> db" where
  "login_success c cfg p e rq u d =
     (let ((row, token), d1) = create_session c e cfg (clk e 1) (us_id u) (Some (source_summary rq))
            (mfa_state_of u) (us_totp_enrolled u) d;
          d2 = put_user (u\<lparr>us_last_login_at := Some (clk e 2)\<rparr>) d1;
          d3 = record_request_audit ''auth.login'' ''success'' (Some (us_id u)) (Some ''session'')
            (Some (ss_id row)) None [] (client_ip rq) (Some (source_summary rq)) d2
      in ((user_out_of u, set_auth_cookies c cfg p token (ss_id row)), d3))"

definition login ::
  "crypto \<Rightarrow> settings \<Rightarrow> auth_platform \<Rightarrow> env \<Rightarrow> request \<Rightarrow> login_request \<Rightarrow> world
   \<Rightarrow> (user_out \<times> auth_cookies) reply \<times> world" where
  "login c cfg p e rq payload w =
     (let rate_key = normalize_email (lr_email payload);
          (allowed, r) = check_and_increment (ap_digest p) (ap_redis_up p) cfg (clk e 0) rate_key
                           (client_ip rq) (fst w);
          d = snd w;
          audit = (\<lambda>result reason. record_request_audit ''auth.login'' result None None None
                     (Some reason) [] (client_ip rq) (Some (source_summary rq)) d)
      in if \<not> allowed
         then (Http_error 429 ''too many attempts'', r, audit ''denied'' ''rate_limited'')
         else case authenticate c (lr_email payload) (lr_password payload) (lr_totp_code payload) d of
           Inl err \<Rightarrow>
             (if err = Undecryptable_secret then (Server_error, r, d)
              else (Http_error 401 (if err = Second_factor_required then ''totp_required''
                                    else ''invalid credentials''),
                    r, audit ''failure'' (auth_reason err)))
         | Inr u \<Rightarrow>
             let (out, d') = login_success c cfg p e rq u d
             in (Reply out, reset_account (ap_digest p) (\<lambda>i. ap_redis_up p (3 + i)) rate_key r, d'))"

definition logout ::
  "crypto \<Rightarrow> settings \<Rightarrow> auth_platform \<Rightarrow> env \<Rightarrow> request \<Rightarrow> world \<Rightarrow> unit reply \<times> world" where
  "logout c cfg p e rq =
     with_session c cfg (ap_str_uuid p) e rq [Csrf]
       (\<lambda>row (r, d).
          (Reply (), r,
           record_audit ''auth.logout'' ''success'' (Some (ss_user_id row)) (Some ''session'')
             (Some (ss_id row)) None [] (revoke_session (clk e 2) row d)))"

definition me ::
  "crypto \<Rightarrow> settings \<Rightarrow> auth_platform \<Rightarrow> env \<Rightarrow> request \<Rightarrow> world \<Rightarrow> user_out reply \<times> world" where
  "me c cfg p e rq =
     with_user c cfg (ap_str_uuid p) e rq [] True (\<lambda>row u w. (Reply (user_out_of u), w))"

section \<open>Stepping up\<close>

definition reauthenticate ::
  "crypto \<Rightarrow> settings \<Rightarrow> auth_platform \<Rightarrow> env \<Rightarrow> request \<Rightarrow> string \<Rightarrow> string option \<Rightarrow> world
   \<Rightarrow> unit reply \<times> world" where
  "reauthenticate c cfg p e rq password totp_code =
     with_user c cfg (ap_str_uuid p) e rq [Csrf] False
       (\<lambda>row u (r, d).
          let rate_key = ''reauth:'' @ normalize_email (us_email u);
              (allowed, r1) = check_and_increment (ap_digest p) (ap_redis_up p) cfg (clk e 2) rate_key
                                (client_ip rq) r;
              audit = (\<lambda>result reason. record_audit ''auth.reauthenticate'' result (Some (us_id u))
                         None None reason [])
          in if \<not> allowed
             then (Http_error 429 ''too many attempts'', r1, audit ''denied'' (Some ''rate_limited'') d)
             else case authenticate c (us_email u) password totp_code d of
               Inl err \<Rightarrow>
                 (if err = Undecryptable_secret then (Server_error, r1, d)
                  else (Http_error 401 ''invalid credentials'', r1, audit ''failure'' None d))
             | Inr _ \<Rightarrow>
                 (Reply (), reset_account (ap_digest p) (\<lambda>i. ap_redis_up p (3 + i)) rate_key r1,
                  audit ''success'' None
                    (put_session_row (row\<lparr>ss_mfa_state := mfa_state_of u,
                                          ss_reauthenticated_at := Some (clk e 3)\<rparr>) d)))"

definition revoke_own_session ::
  "crypto \<Rightarrow> settings \<Rightarrow> auth_platform \<Rightarrow> env \<Rightarrow> request \<Rightarrow> uuid \<Rightarrow> world \<Rightarrow> unit reply \<times> world" where
  "revoke_own_session c cfg p e rq session_id =
     with_user c cfg (ap_str_uuid p) e rq [Csrf] True
       (\<lambda>_ u (r, d).
          case get_session_row d session_id of
            None \<Rightarrow> (Http_error 404 ''not found'', r, d)
          | Some row \<Rightarrow>
              (if ss_user_id row \<noteq> us_id u then (Http_error 404 ''not found'', r, d)
               else (Reply (), r,
                 record_audit ''auth.session.revoke'' ''success'' (Some (us_id u)) (Some ''session'')
                   (Some (ss_id row)) None [] (revoke_session (clk e 2) row d))))"

section \<open>Enrolling a second factor\<close>

definition totp_status :: "totp_error \<Rightarrow> nat" where
  "totp_status err = (if err = Already_enrolled then 409 else 400)"

fun totp_message :: "totp_error \<Rightarrow> string" where
  "totp_message Totp_account_unavailable = ''account unavailable''"
| "totp_message Already_enrolled = ''already enrolled''"
| "totp_message No_enrollment_in_progress = ''no enrollment in progress''"
| "totp_message Invalid_code = ''invalid code''"
| "totp_message Totp_undecryptable = ''''"

definition totp_enroll ::
  "crypto \<Rightarrow> settings \<Rightarrow> auth_platform \<Rightarrow> env \<Rightarrow> request \<Rightarrow> world \<Rightarrow> (string \<times> string) reply \<times> world" where
  "totp_enroll c cfg p e rq =
     with_user c cfg (ap_str_uuid p) e rq [Csrf, Recent_reauthentication] False
       (\<lambda>row u (r, d).
          case begin_totp_enrollment c e cfg (us_id u) d of
            Inl err \<Rightarrow> (Http_error (totp_status err) (totp_message err), r, d)
          | Inr ((locked_user, secret), d1) \<Rightarrow>
              (Reply (secret, ap_provisioning_uri p secret (us_email locked_user)), r,
               record_audit ''auth.totp.enroll_start'' ''success'' (Some (us_id u)) None None None []
                 (put_session_row (row\<lparr>ss_mfa_state := mfa_enrollment_required\<rparr>) d1)))"

text \<open>\<open>str(exc).replace(" ", "_")\<close>\<close>

definition underscored :: "string \<Rightarrow> string" where
  "underscored s = map (\<lambda>x. if x = CHR '' '' then CHR ''_'' else x) s"

definition totp_verify ::
  "crypto \<Rightarrow> settings \<Rightarrow> auth_platform \<Rightarrow> env \<Rightarrow> request \<Rightarrow> string \<Rightarrow> world
   \<Rightarrow> auth_cookies reply \<times> world" where
  "totp_verify c cfg p e rq entered =
     with_user c cfg (ap_str_uuid p) e rq [Csrf, Recent_reauthentication] False
       (\<lambda>row u (r, d).
          let rate_key = ''totp-enrollment:'' @ normalize_email (us_email u);
              (allowed, r1) = check_and_increment (ap_digest p) (ap_redis_up p) cfg (clk e 2) rate_key
                                (client_ip rq) r;
              audit = (\<lambda>result reason. record_audit ''auth.totp.verify'' result (Some (us_id u))
                         None None (Some reason) [])
          in if \<not> allowed
             then (Http_error 429 ''too many attempts'', r1, audit ''denied'' ''rate_limited'' d)
             else case complete_totp_enrollment c (us_id u) entered d of
               Inl err \<Rightarrow>
                 (if err = Totp_undecryptable then (Server_error, r1, d)
                  else (Http_error (totp_status err) (totp_message err), r1,
                        audit ''failure'' (underscored (totp_message err)) d))
             | Inr (enrolled_user, d1) \<Rightarrow>
                 let d2 = revoke_all_for_user (clk e 3) (us_id enrolled_user) d1;
                     ((new_session, token), d3) =
                       create_session c e cfg (clk e 4) (us_id enrolled_user) (ss_source_summary row)
                         mfa_satisfied True d2
                 in (Reply (set_auth_cookies c cfg p token (ss_id new_session)),
                     reset_account (ap_digest p) (\<lambda>i. ap_redis_up p (3 + i)) rate_key r1,
                     record_audit ''auth.totp.verify'' ''success'' (Some (us_id enrolled_user))
                       (Some ''session'') (Some (ss_id new_session)) None [] d3))"

section \<open>Activation\<close>

fun weak_password_message :: "weak_password \<Rightarrow> string" where
  "weak_password_message Password_too_short = ''password must be at least 12 characters''"
| "weak_password_message Password_too_common =
     ''that password is too common; choose something less guessable''"
| "weak_password_message Password_is_identity =
     ''password must not be the same as your name, email, or ID''"

definition activate ::
  "crypto \<Rightarrow> settings \<Rightarrow> auth_platform \<Rightarrow> env \<Rightarrow> request \<Rightarrow> string \<Rightarrow> string \<Rightarrow> world
   \<Rightarrow> unit reply \<times> world" where
  "activate c cfg p e rq token new_password w =
     (let (allowed, r) = check_and_increment_activation (ap_digest p) (ap_redis_up p) cfg (clk e 0)
                           (client_ip rq) (fst w);
          d = snd w;
          audit = (\<lambda>result actor reason. record_request_audit ''auth.activate'' result actor None None
                     reason [] (client_ip rq) (Some (source_summary rq)))
      in if \<not> allowed
         then (Http_error 429 ''too many attempts'', r, audit ''denied'' None (Some ''rate_limited'') d)
         else case validate_password_strength new_password [] of
           Some weak \<Rightarrow> (Http_error 400 (weak_password_message weak), r, d)
         | None \<Rightarrow>
             (case activate_user_password c (clk e 1) token new_password d of
                (None, d1) \<Rightarrow>
                  (Http_error 400 ''invalid or expired token'', r,
                   audit ''failure'' None (Some ''invalid_or_expired_token'') d1)
              | (Some u, d1) \<Rightarrow>
                  (Reply (), r, audit ''success'' (Some (us_id u)) None
                                  (revoke_all_for_user (clk e 2) (us_id u) d1))))"

end
