(* ===== verification/Auth_Flow_Properties.thy ===== *)
theory Auth_Flow_Properties
  imports Auth_Flows Db_Prelude
begin

text \<open>
  What the authentication API guarantees: a sign-in opens one session of the person who proved
  who they are and a refused one leaves only its audit row; guessing at an account ends at the
  limit, whatever is guessed; enrolling a second factor ends every other session.
\<close>

section \<open>Signing in\<close>

lemma login_cases:
  assumes "login c cfg p e rq q w = (out, w')"
  obtains
    (limited) "\<not> fst (check_and_increment (ap_digest p) (ap_redis_up p) cfg (clk e 0)
        (normalize_email (lr_email q)) (client_ip rq) (fst w))"
      and "out = Http_error 429 ''too many attempts''"
      and "snd w' = record_request_audit ''auth.login'' ''denied'' None None None
        (Some ''rate_limited'') [] (client_ip rq) (Some (source_summary rq)) (snd w)"
  | (broken) "out = Server_error" and "snd w' = snd w"
  | (refused) msg reason where "out = Http_error 401 msg"
      and "snd w' = record_request_audit ''auth.login'' ''failure'' None None None
        (Some reason) [] (client_ip rq) (Some (source_summary rq)) (snd w)"
  | (accepted) u x where "out = Reply x"
      and "authenticate c (lr_email q) (lr_password q) (lr_totp_code q) (snd w) = Inr u"
      and "login_success c cfg p e rq u (snd w) = (x, snd w')"
  using assms
  by (auto simp: login_def Let_def split: prod.splits sum.splits if_splits)

lemma create_session_parts:
  assumes "create_session c e cfg now u src mfa recent d = ((row, token), d')"
  shows "token = fresh_token e 0 \<and> d' = d\<lparr>sessions := sessions d @ [row]\<rparr> \<and> ss_user_id row = u
    \<and> ss_token_hash row = hash_token c token \<and> ss_mfa_state row = mfa
    \<and> ss_reauthenticated_at row = (if recent then Some now else None)
    \<and> ss_revoked_at row = None \<and> ss_id row = fresh_id e 0
    \<and> ss_idle_expires_at row = now + minutes (session_idle_minutes cfg)
    \<and> ss_absolute_expires_at row = now + hours (session_absolute_hours cfg)"
  using assms by (auto simp: create_session_def Let_def)

lemma login_success_parts:
  assumes "login_success c cfg p e rq u d = ((out, ck), d')"
  obtains row where "ck_session ck = fresh_token e 0" and "uo_id out = us_id u"
    and "sessions d' = sessions d @ [row]" and "ss_user_id row = us_id u"
    and "ss_token_hash row = hash_token c (fresh_token e 0)" and "ss_mfa_state row = mfa_state_of u"
    and "ss_reauthenticated_at row = (if us_totp_enrolled u then Some (clk e 1) else None)"
    and "users d' = row_put us_id (u\<lparr>us_last_login_at := Some (clk e 2)\<rparr>) (users d)"
    and "\<exists>ev. audit_events d' = audit_events d @ [ev] \<and> au_action ev = ''auth.login''
           \<and> au_result ev = ''success'' \<and> au_actor_user_id ev = Some (us_id u)
           \<and> au_source_ip ev = client_ip rq"
    and "activation_tokens d' = activation_tokens d"
proof -
  obtain row token d1 where cs: "create_session c e cfg (clk e 1) (us_id u)
      (Some (source_summary rq)) (mfa_state_of u) (us_totp_enrolled u) d = ((row, token), d1)"
    by (metis prod.exhaust)
  note parts = create_session_parts [OF cs]
  show thesis
    by (rule that [of row])
      (use assms parts in \<open>auto simp: login_success_def cs Let_def set_auth_cookies_def user_out_of_def
        put_user_def record_request_audit_def simp del: One_nat_def\<close>)
qed

text \<open>
  C34: Who asks for a session gets one exactly by authenticating: the cookie's token opens the one
  new session, which belongs to the person \<open>authenticate\<close> accepted, satisfies the second factor
  only if they have one, and counts as stepped up only then; nobody else's row, session or
  password changes. A refused attempt changes nothing but the audit trail, which grows by at most
  the one row that names the client's address.
\<close>

theorem login_opens_session:
  assumes pk: "distinct (map us_id (users (snd w)))"
    and run: "login c cfg p e rq q w = (out, r', d')"
  shows "case out of
      Reply (who, ck) \<Rightarrow>
        (\<exists>u row ev. authenticate c (lr_email q) (lr_password q) (lr_totp_code q) (snd w) = Inr u
          \<and> uo_id who = us_id u \<and> ck_session ck = fresh_token e 0
          \<and> sessions d' = sessions (snd w) @ [row] \<and> ss_user_id row = us_id u
          \<and> ss_token_hash row = hash_token c (ck_session ck)
          \<and> (ss_mfa_state row = mfa_satisfied \<longleftrightarrow> us_totp_enrolled u)
          \<and> (ss_reauthenticated_at row \<noteq> None \<longleftrightarrow> us_totp_enrolled u)
          \<and> (\<forall>i. map_option us_password_hash (get_user d' i) = map_option us_password_hash (get_user (snd w) i)
               \<and> (i \<noteq> us_id u \<longrightarrow> get_user d' i = get_user (snd w) i))
          \<and> audit_events d' = audit_events (snd w) @ [ev] \<and> au_result ev = ''success''
          \<and> au_actor_user_id ev = Some (us_id u) \<and> au_source_ip ev = client_ip rq)
    | _ \<Rightarrow> users d' = users (snd w) \<and> sessions d' = sessions (snd w)
        \<and> activation_tokens d' = activation_tokens (snd w)
        \<and> (audit_events d' = audit_events (snd w)
           \<or> (\<exists>ev. audit_events d' = audit_events (snd w) @ [ev] \<and> au_result ev \<noteq> ''success''
                \<and> au_actor_user_id ev = None \<and> au_source_ip ev = client_ip rq))"
  using run
proof (cases rule: login_cases)
  case (accepted u x)
  obtain who ck where x: "x = (who, ck)" by (cases x)
  from accepted(3) have "login_success c cfg p e rq u (snd w) = ((who, ck), d')" by (simp add: x)
  then show ?thesis
  proof (rule login_success_parts)
    fix row
    assume a: "ck_session ck = fresh_token e 0" "uo_id who = us_id u"
      "sessions d' = sessions (snd w) @ [row]" "ss_user_id row = us_id u"
      "ss_token_hash row = hash_token c (fresh_token e 0)" "ss_mfa_state row = mfa_state_of u"
      "ss_reauthenticated_at row = (if us_totp_enrolled u then Some (clk e 1) else None)"
      "users d' = row_put us_id (u\<lparr>us_last_login_at := Some (clk e 2)\<rparr>) (users (snd w))"
      and ev: "\<exists>ev. audit_events d' = audit_events (snd w) @ [ev] \<and> au_action ev = ''auth.login''
           \<and> au_result ev = ''success'' \<and> au_actor_user_id ev = Some (us_id u)
           \<and> au_source_ip ev = client_ip rq"
    have u: "u \<in> set (users (snd w))" using authenticated_user [OF accepted(2)] by simp
    have found: "row_get us_id (us_id u) (users (snd w)) = Some u"
      by (rule row_get_distinct [OF pk u])
    have get: "get_user d' i = (if i = us_id u then Some (u\<lparr>us_last_login_at := Some (clk e 2)\<rparr>)
        else get_user (snd w) i)" for i
      using found by (simp add: get_user_def a(8) row_get_put)
    have "map_option us_password_hash (get_user d' i) = map_option us_password_hash (get_user (snd w) i)
        \<and> (i \<noteq> us_id u \<longrightarrow> get_user d' i = get_user (snd w) i)" for i
      using found unfolding get by (simp add: get_user_def)
    moreover have "mfa_state_of u = mfa_satisfied \<longleftrightarrow> us_totp_enrolled u"
      by (simp add: mfa_state_of_def mfa_satisfied_def mfa_enrollment_required_def)
    ultimately show ?thesis
      using a ev accepted(1,2) unfolding x by (auto simp del: One_nat_def)
  qed
qed (auto simp: record_request_audit_def)

section \<open>Guessing\<close>

abbreviation account_key :: "auth_platform \<Rightarrow> string \<Rightarrow> string" where
  "account_key p account \<equiv> limiter_key (ap_digest p) ''login_attempts'' ''account'' account"

text \<open>Sign-in requests served one after the other, each with its own surroundings.\<close>

fun logins ::
  "crypto \<Rightarrow> settings \<Rightarrow> auth_platform \<Rightarrow> (env \<times> request \<times> login_request) list \<Rightarrow> world
   \<Rightarrow> (user_out \<times> auth_cookies) reply list \<times> world" where
  "logins c cfg p [] w = ([], w)"
| "logins c cfg p ((e, rq, q) # rest) w =
     (let (out, w1) = login c cfg p e rq q w; (outs, w2) = logins c cfg p rest w1
      in (out # outs, w2))"

lemma count_after_check:
  assumes up: "\<forall>j. up j"
  shows "snd (check_and_increment digest up cfg now account source r)
             (limiter_key digest ''login_attempts'' ''account'' account) =
           snd (increment (limiter_key digest ''login_attempts'' ''account'' account) account_limit now r)
             (limiter_key digest ''login_attempts'' ''account'' account)"
    and "fst (check_and_increment digest up cfg now account source r) \<Longrightarrow>
           fst (increment (limiter_key digest ''login_attempts'' ''account'' account) account_limit now r)"
proof -
  let ?k = "limiter_key digest ''login_attempts'' ''account'' account"
  obtain rest where sig: "login_signals digest account source = (?k, account_limit) # rest"
    and "?k \<notin> fst ` set rest"
    by (simp add: login_signals_def limiter_key_def)
  then have "snd (count_signals up i t rest r') ?k = r' ?k" for i t r'
    by (intro count_signals_frame)
  then show "snd (check_and_increment digest up cfg now account source r) ?k
      = snd (increment ?k account_limit now r) ?k"
    using up by (simp add: check_and_increment_def sig decide_def Let_def split: prod.splits option.splits)
      (metis snd_conv)
  show "fst (check_and_increment digest up cfg now account source r) \<Longrightarrow>
      fst (increment ?k account_limit now r)"
    using login_limiter_decision [OF up, of digest cfg now account source r] by (simp add: sig)
qed

lemma refused_login_keeps_count:
  assumes "login c cfg p e rq q w = (out, w')" and "\<And>x. out \<noteq> Reply x"
  shows "fst w' = snd (check_and_increment (ap_digest p) (ap_redis_up p) cfg (clk e 0)
      (normalize_email (lr_email q)) (client_ip rq) (fst w))"
  using assms by (auto simp: login_def Let_def split: prod.splits sum.splits if_splits)

lemma limited_login:
  assumes "\<not> fst (check_and_increment (ap_digest p) (ap_redis_up p) cfg (clk e 0)
      (normalize_email (lr_email q)) (client_ip rq) (fst w))"
  shows "fst (login c cfg p e rq q w) = Http_error 429 ''too many attempts''"
  using assms by (auto simp: login_def Let_def split: prod.splits)

lemma logins_Cons:
  "login c cfg p e rq q w = (out, w1) \<Longrightarrow> logins c cfg p ((e, rq, q) # qs) w
     = (out # fst (logins c cfg p qs w1), snd (logins c cfg p qs w1))"
  by (simp add: case_prod_beta)

text \<open>Refused attempts on an account within its window leave its count one higher each.\<close>

lemma logins_count:
  assumes up: "\<forall>j. ap_redis_up p j"
    and "r (account_key p k) = Some (n, Some t)" and "0 < n"
    and "\<forall>(e, rq, q) \<in> set qs. normalize_email (lr_email q) = k \<and> clk e 0 < t"
    and "\<forall>out \<in> set (fst (logins c cfg p qs (r, d))). \<forall>x. out \<noteq> Reply x"
  shows "fst (snd (logins c cfg p qs (r, d))) (account_key p k) = Some (n + length qs, Some t)"
  using assms(2-)
proof (induction qs arbitrary: r d n)
  case Nil
  then show ?case by simp
next
  case (Cons x qs)
  obtain e rq q where x: "x = (e, rq, q)" by (cases x)
  obtain out r1 d1 where l: "login c cfg p e rq q (r, d) = (out, r1, d1)" by (metis prod.exhaust)
  have "out \<noteq> Reply y" for y using Cons.prems(4) by (cases y) (simp add: x logins_Cons [OF l] del: logins.simps)
  from refused_login_keeps_count [OF l this] have "r1 (account_key p k) = Some (Suc n, Some t)"
    using Cons.prems(1-3) by (simp add: x count_after_check(1) [OF up] increment_live)
  moreover have "\<forall>out \<in> set (fst (logins c cfg p qs (r1, d1))). \<forall>x. out \<noteq> Reply x"
    using Cons.prems(4) by (simp add: x logins_Cons [OF l] del: logins.simps)
  ultimately show ?case
    using Cons.IH [of r1 "Suc n" d1] Cons.prems(3)
    by (simp add: x logins_Cons [OF l] del: logins.simps)
qed

text \<open>
  C35: Ten attempts on one account that do not sign in close it for the rest of the window the first
  of them opened: every further attempt is answered with 429 without a look at its credentials,
  whatever spelling of the address, client address or password it comes with.
\<close>

theorem account_lockout:
  assumes up: "\<forall>j. ap_redis_up p j"
    and fresh: "redis_get r (clk e0 0) (account_key p k) = None"
    and attempts: "\<forall>(e, rq, q) \<in> set ((e0, rq0, q0) # qs @ [(e1, rq1, q1)]).
       normalize_email (lr_email q) = k \<and> clk e 0 < clk e0 0 + seconds window_seconds"
    and failed: "\<forall>out \<in> set (fst (logins c cfg p ((e0, rq0, q0) # qs) (r, d))). \<forall>x. out \<noteq> Reply x"
    and many: "account_limit \<le> length ((e0, rq0, q0) # qs)"
  shows "fst (login c cfg p e1 rq1 q1 (snd (logins c cfg p ((e0, rq0, q0) # qs) (r, d))))
     = Http_error 429 ''too many attempts''"
proof (rule limited_login)
  let ?t = "clk e0 0 + seconds window_seconds"
  define w where "w = snd (logins c cfg p ((e0, rq0, q0) # qs) (r, d))"
  obtain out r1 d1 where l: "login c cfg p e0 rq0 q0 (r, d) = (out, r1, d1)" by (metis prod.exhaust)
  have "out \<noteq> Reply y" for y using failed by (cases y) (simp add: logins_Cons [OF l] del: logins.simps)
  from refused_login_keeps_count [OF l this] have "r1 (account_key p k) = Some (1, Some ?t)"
    using attempts by (simp add: count_after_check(1) [OF up] increment_fresh [OF fresh])
  then have "fst w (account_key p k) = Some (1 + length qs, Some ?t)"
    unfolding w_def using logins_count [OF up, of r1 k 1 ?t qs c cfg d1] attempts failed
    by (simp add: logins_Cons [OF l] del: logins.simps)
  then have "\<not> fst (increment (account_key p k) account_limit (clk e1 0) (fst w))"
    using attempts many by (simp add: increment_live)
  then show "\<not> fst (check_and_increment (ap_digest p) (ap_redis_up p) cfg (clk e1 0)
      (normalize_email (lr_email q1)) (client_ip rq1)
      (fst (snd (logins c cfg p ((e0, rq0, q0) # qs) (r, d)))))"
    unfolding w_def [symmetric] using count_after_check(2) [OF up] attempts by fastforce
qed

section \<open>Enrolling a second factor\<close>

text \<open>
  Completing an enrolment leaves the person exactly one usable session, the new one whose token
  the reply carries, with the second factor satisfied: the session it was asked through and every
  other one are revoked, and nobody else's session changes. It takes a live, stepped-up session
  of an active person not enrolled yet and a six-digit code that checks against the secret under
  enrolment.
\<close>

theorem enrolment_replaces_sessions:
  assumes ids: "distinct (map ss_id (sessions (snd w)))"
    and run: "totp_verify c cfg p e rq entered w = (Reply ck, r', d')"
  shows "\<exists>u ct secret row. get_user (snd w) (us_id u) = Some u \<and> us_active u \<and> \<not> us_totp_enrolled u
    \<and> us_totp_secret_ciphertext u = Some ct \<and> decrypt c ct = Some secret
    \<and> totp_check c secret (filter (\<lambda>x. x \<noteq> CHR '' '') (strip entered))
    \<and> get_user d' (us_id u) = Some (u\<lparr>us_totp_enrolled := True\<rparr>)
    \<and> filter (\<lambda>s. ss_user_id s = us_id u \<and> ss_revoked_at s = None) (sessions d') = [row]
    \<and> ss_token_hash row = hash_token c (ck_session ck) \<and> ss_mfa_state row = mfa_satisfied
    \<and> filter (\<lambda>s. ss_user_id s \<noteq> us_id u) (sessions d') =
      filter (\<lambda>s. ss_user_id s \<noteq> us_id u) (sessions (snd w))"
  using run unfolding totp_verify_def
proof (rule handler_runs_authenticated)
  fix row0 row u
  assume row: "row0 \<in> set (sessions (snd w))" "row = slide cfg (clk e 0) row0"
    and u: "get_user (snd w) (ss_user_id row) = Some u"
    and h: "(\<lambda>(r, d).
          let rate_key = ''totp-enrollment:'' @ normalize_email (us_email u);
              (allowed, r1) = check_and_increment (ap_digest p) (ap_redis_up p) cfg (clk e 2) rate_key
                                (client_ip rq) r;
              audit = (\<lambda>result reason. record_audit ''auth.totp.verify'' result (Some (us_id u))
                         None None (Some reason) [])
          in if \<not> allowed
             then (Http_error 429 ''too many attempts'', r1, audit ''denied'' ''rate_limited'' d)
             else case complete_totp_enrollment c (us_id u) entered d of
               Inl err \<Rightarrow>
                 (if err = Totp_undecryptable then (Server_error, r1, d)
                  else (Http_error (totp_status err) (totp_message err), r1,
                        audit ''failure'' (underscored (totp_message err)) d))
             | Inr (enrolled_user, d1) \<Rightarrow>
                 let d2 = revoke_all_for_user (clk e 3) (us_id enrolled_user) d1;
                     ((new_session, token), d3) =
                       create_session c e cfg (clk e 4) (us_id enrolled_user) (ss_source_summary row)
                         mfa_satisfied True d2
                 in (Reply (set_auth_cookies c cfg p token (ss_id new_session)),
                     reset_account (ap_digest p) (\<lambda>i. ap_redis_up p (3 + i)) rate_key r1,
                     record_audit ''auth.totp.verify'' ''success'' (Some (us_id enrolled_user))
                       (Some ''session'') (Some (ss_id new_session)) None [] d3))
       (fst w, put_session_row row (snd w)) = (Reply ck, r', d')"
  let ?d = "put_session_row row (snd w)"
  have id: "us_id u = ss_user_id row" by (rule user_table.get_key [OF u])
  from h obtain eu d1 new token d3 where
    comp: "complete_totp_enrollment c (us_id u) entered ?d = Inr (eu, d1)"
    and cs: "create_session c e cfg (clk e 4) (us_id eu) (ss_source_summary row) mfa_satisfied True
       (revoke_all_for_user (clk e 3) (us_id eu) d1) = ((new, token), d3)"
    and ck: "ck = set_auth_cookies c cfg p token (ss_id new)"
    and d': "d' = record_audit ''auth.totp.verify'' ''success'' (Some (us_id eu)) (Some ''session'')
       (Some (ss_id new)) None [] d3"
    by (auto simp: Let_def split: prod.splits sum.splits if_splits)
  from comp u obtain ct secret where c: "us_active u" "\<not> us_totp_enrolled u"
      "us_totp_secret_ciphertext u = Some ct" "decrypt c ct = Some secret"
      "totp_check c secret (filter (\<lambda>x. x \<noteq> CHR '' '') (strip entered))"
    and eu: "eu = u\<lparr>us_totp_enrolled := True\<rparr>" and d1: "d1 = put_user eu ?d"
    by (auto simp: complete_totp_enrollment_def id Let_def split: option.splits if_splits)
  have new: "ss_user_id new = us_id u" "ss_revoked_at new = None" "ss_mfa_state new = mfa_satisfied"
      "ss_token_hash new = hash_token c (ck_session ck)"
    and sess: "sessions d' = rows_update (\<lambda>s. ss_user_id s = us_id u \<and> ss_revoked_at s = None)
        (\<lambda>s. s\<lparr>ss_revoked_at := Some (clk e 3)\<rparr>) (row_put ss_id row (sessions (snd w))) @ [new]"
    using create_session_parts [OF cs]
    by (simp_all add: eu d' ck set_auth_cookies_def revoke_all_for_user_def d1 put_user_def
        put_session_row_def)
  have "users d' = row_put us_id eu (users (snd w))"
    using create_session_parts [OF cs] by (simp add: d' d1 put_user_def)
  then have got: "get_user d' (us_id u) = Some eu"
    using u by (simp add: get_user_def row_get_put eu id)
  have others: "filter (\<lambda>s. ss_user_id s \<noteq> us_id u) (sessions d') =
      filter (\<lambda>s. ss_user_id s \<noteq> us_id u) (sessions (snd w))"
  proof -
    have "filter (\<lambda>s. ss_user_id s \<noteq> us_id u) (row_put ss_id row (sessions (snd w)))
        = filter (\<lambda>s. ss_user_id s \<noteq> us_id u) (sessions (snd w))"
      using ids row id by (intro filter_row_put [of _ _ row0]) (simp_all add: slide_def)
    moreover have "filter (\<lambda>s. ss_user_id s \<noteq> us_id u)
        (rows_update (\<lambda>s. ss_user_id s = us_id u \<and> ss_revoked_at s = None)
          (\<lambda>s. s\<lparr>ss_revoked_at := Some (clk e 3)\<rparr>) (row_put ss_id row (sessions (snd w))))
        = filter (\<lambda>s. ss_user_id s \<noteq> us_id u) (row_put ss_id row (sessions (snd w)))"
      by (rule filter_rows_update) simp
    ultimately show ?thesis unfolding sess filter_append using new(1) by simp
  qed
  have one: "filter (\<lambda>s. ss_user_id s = us_id u \<and> ss_revoked_at s = None) (sessions d') = [new]"
    by (auto simp: sess new filter_empty_conv dest!: rows_update_none_left)
  show ?thesis
    using u c got others one new(3,4) by (intro exI [of _ u] exI [of _ ct] exI [of _ secret] exI [of _ new])
      (simp add: id eu)
qed

section \<open>Concrete requests\<close>

definition plain_request :: request where
  "plain_request = \<lparr>rq_cookie = Some ''t'', rq_csrf_token = Some ''s'', rq_fetch_site = None,
     rq_forwarded_for = None, rq_client_host = Some ''10.0.0.1'', rq_user_agent = None\<rparr>"

lemma plain_cookie [simp]: "rq_cookie plain_request = Some ''t''"
  by (simp add: plain_request_def)

definition demo_platform :: auth_platform where
  "demo_platform = \<lparr>ap_digest = id, ap_str_uuid = (\<lambda>i. ''s''), ap_redis_up = (\<lambda>i. True),
     ap_provisioning_uri = (@)\<rparr>"

definition demo_login :: "string \<Rightarrow> login_request" where
  "demo_login pw = \<lparr>lr_email = ''a@b'', lr_password = pw, lr_totp_code = None\<rparr>"

lemma demo_email: "normalize_email ''a@b'' = ''a@b''"
  by code_simp

lemma demo_found: "user_by_email auth_db ''a@b'' = Some sample_user"
  by (simp add: user_by_email_def auth_eval)

lemma login_opens_session_witness:
  "\<exists>who ck r' d'. login rot_crypto default_settings demo_platform auth_env plain_request
       (demo_login ''pw'') (Map.empty, auth_db) = (Reply (who, ck), r', d')
     \<and> sessions d' \<noteq> sessions auth_db \<and> length (audit_events d') = 1"
proof -
  have check: "fst (check_and_increment id (\<lambda>i. True) default_settings 50 ''a@b''
      (client_ip plain_request) Map.empty)"
    using login_limiter_decision [of "\<lambda>_. True" id default_settings 50 "''a@b''"
        "client_ip plain_request" "\<lambda>k. None"]
    by (simp add: login_signals_def increment_def increment_script_def redis_get_def
        account_limit_def source_limit_def global_limit_def)
  have auth: "authenticate rot_crypto ''a@b'' ''pw'' None auth_db = Inr sample_user"
    by (simp add: authenticate_def demo_email demo_found)
      (simp add: verify_password_def sample_user_def rot_crypto_def)
  obtain x r' d' where run: "login rot_crypto default_settings demo_platform auth_env plain_request
      (demo_login ''pw'') (Map.empty, auth_db) = (Reply x, r', d')"
    using check by (simp add: login_def demo_login_def demo_platform_def demo_email auth auth_env_def
        Let_def split_def)
  obtain who ck where x: "x = (who, ck)" by (cases x)
  have "distinct (map us_id (users (snd (Map.empty :: redis, auth_db))))"
    by (simp add: auth_db_def)
  from login_opens_session [OF this run] run show ?thesis
    by (auto simp: x auth_db_def empty_db_def)
qed

lemma account_lockout_witness:
  "fst (login rot_crypto default_settings demo_platform auth_env plain_request (demo_login ''pw'')
     (snd (logins rot_crypto default_settings demo_platform
        ((auth_env, plain_request, demo_login ''guess'')
           # replicate 9 (auth_env, plain_request, demo_login ''guess''))
        (Map.empty, auth_db\<lparr>users := []\<rparr>)))) = Http_error 429 ''too many attempts''"
proof (rule account_lockout [where k = "''a@b''"])
  have nobody: "authenticate rot_crypto email pw k d \<noteq> Inr u" if "users d = []" for email pw k u d
    using that by (simp add: authenticate_def user_by_email_def)
  have "\<forall>out \<in> set (fst (logins rot_crypto default_settings demo_platform qs (r, d))).
      \<forall>x. out \<noteq> Reply x" if "users d = []" for qs r d
    using that
  proof (induction qs arbitrary: r d)
    case (Cons q qs)
    obtain e rq l where q: "q = (e, rq, l)" by (cases q)
    obtain out w1 where one: "login rot_crypto default_settings demo_platform e rq l (r, d) = (out, w1)"
      by (metis prod.exhaust)
    from one have "(\<forall>x. out \<noteq> Reply x) \<and> users (snd w1) = []"
      using Cons.prems nobody [of d] by (cases rule: login_cases) auto
    then show ?case
      using Cons.IH [of "snd w1" "fst w1"] by (simp add: q logins_Cons [OF one] del: logins.simps)
  qed simp
  from this [of "auth_db\<lparr>users := []\<rparr>"] show "\<forall>out \<in> set (fst (logins rot_crypto default_settings demo_platform
      ((auth_env, plain_request, demo_login ''guess'')
           # replicate 9 (auth_env, plain_request, demo_login ''guess''))
      (Map.empty, auth_db\<lparr>users := []\<rparr>))). \<forall>x. out \<noteq> Reply x"
    by (simp del: logins.simps)
qed (auto simp: demo_platform_def redis_get_def demo_login_def demo_email auth_env_def seconds_def
      window_seconds_def account_limit_def)

definition enrolling_db :: db where
  "enrolling_db = empty_db\<lparr>
     users := [sample_user\<lparr>us_totp_secret_ciphertext := Some ''v1:654321''\<rparr>],
     sessions := [sample_session\<lparr>ss_mfa_state := ''enrollment_required'', ss_reauthenticated_at := Some 40\<rparr>]\<rparr>"

lemma enrolment_replaces_sessions_witness:
  "\<exists>ck r' d'. totp_verify rot_crypto default_settings demo_platform auth_env plain_request
      '' 123 456'' (Map.empty, enrolling_db) = (Reply ck, r', d')
     \<and> (\<exists>row. filter (\<lambda>s. ss_user_id s = 7 \<and> ss_revoked_at s = None) (sessions d') = [row])"
proof -
  define slid where "slid = slide default_settings 50
    (sample_session\<lparr>ss_mfa_state := ''enrollment_required'', ss_reauthenticated_at := Some 40\<rparr>)"
  have digits: "strip '' 123 456'' = ''123 456''" "isdigit ''123456''"
    "after_first CHR '':'' ''v1:654321'' = ''654321''"
    by code_simp+
  have check: "fst (check_and_increment id (\<lambda>i. True) default_settings 50 (''totp-enrollment:'' @ a) s Map.empty)" for a s
    using login_limiter_decision [of "\<lambda>_. True" id default_settings 50 "''totp-enrollment:'' @ a" s "\<lambda>k. None"]
    by (simp add: login_signals_def increment_def increment_script_def redis_get_def
        account_limit_def source_limit_def global_limit_def)
  have load: "get_current_session rot_crypto default_settings 50 (Some ''t'') enrolling_db
      = Inr (slid, put_session_row slid enrolling_db)"
    by (simp add: get_current_session_def load_session_def session_by_token_def enrolling_db_def
        sample_session_def slid_def hash_token_def rot_crypto_def)
  have gates: "check_gate rot_crypto default_settings (\<lambda>i. ''s'') 50 plain_request slid g = None" for g
    by (cases g) (simp_all add: check_gate_def require_csrf_def plain_request_def csrf_validate_def
        require_recent_reauthentication_def is_recently_reauthenticated_def slid_def slide_def
        sample_session_def default_settings_def minutes_def rot_crypto_def)
  have user: "get_authenticated_user (put_session_row slid enrolling_db) slid
      = Inr (sample_user\<lparr>us_totp_secret_ciphertext := Some ''v1:654321''\<rparr>)"
    by (simp add: get_authenticated_user_def enrolling_db_def slid_def slide_def sample_session_def
        sample_user_def get_user_def row_get_def)
  have comp: "complete_totp_enrollment rot_crypto 7 '' 123 456'' (put_session_row slid enrolling_db)
      = Inr (sample_user\<lparr>us_totp_secret_ciphertext := Some ''v1:654321'', us_totp_enrolled := True\<rparr>,
         put_user (sample_user\<lparr>us_totp_secret_ciphertext := Some ''v1:654321'', us_totp_enrolled := True\<rparr>)
           (put_session_row slid enrolling_db))"
    by (simp add: complete_totp_enrollment_def digits Let_def decrypt_def enrolling_db_def sample_user_def
        get_user_def row_get_def rot_crypto_def)
  obtain ck r' d' where run: "totp_verify rot_crypto default_settings demo_platform auth_env plain_request
      '' 123 456'' (Map.empty, enrolling_db) = (Reply ck, r', d')"
    using check gates comp
    by (simp add: totp_verify_def with_user_def with_session_def
        auth_env_def demo_platform_def load user Let_def split_def sample_user_def)
  have "distinct (map ss_id (sessions (snd (Map.empty :: redis, enrolling_db))))"
    by (simp add: enrolling_db_def)
  from enrolment_replaces_sessions [OF this run] obtain u row where
    "get_user enrolling_db (us_id u) = Some u"
    "filter (\<lambda>s. ss_user_id s = us_id u \<and> ss_revoked_at s = None) (sessions d') = [row]" by auto
  moreover from this(1) have "us_id u = 7"
    by (simp add: enrolling_db_def get_user_def row_get_def sample_user_def split: if_splits)
  ultimately show ?thesis using run by auto
qed

end
