(* ===== verification/Gamification.thy ===== *)
theory Gamification
  imports Runtime Db_Prelude Complex_Main
begin

text \<open>
  Python's \<open>n / m * 100\<close> and \<open>int(...)\<close> on a fraction between 0 and 1, in IEEE 754 double
  arithmetic: the quotient of two integers is correctly rounded to 53 bits, half to even, and so
  is its product with 100. A positive double is its 53-bit significand and a count of binary
  places.
\<close>

definition round_half_even :: "nat \<Rightarrow> nat \<Rightarrow> nat" where
  "round_half_even n m =
     (let q = n div m; r = n mod m in
      if 2 * r < m then q else if m < 2 * r then Suc q else if even q then q else Suc q)"

text \<open>The binary places that bring \<open>n / m\<close> to 53 bits before the point.\<close>

function places :: "nat \<Rightarrow> nat \<Rightarrow> nat \<Rightarrow> nat" where
  "places n m k = (if n = 0 \<or> m * 2 ^ 52 \<le> n * 2 ^ k then k else places n m (Suc k))"
  by pat_completeness auto

termination
proof (relation "measure (\<lambda>(n, m, k). m * 2 ^ 52 - n * 2 ^ k)")
  fix n m k :: nat
  assume "\<not> (n = 0 \<or> m * 2 ^ 52 \<le> n * 2 ^ k)"
  then have "n * 2 ^ k < m * 2 ^ 52" and "n * 2 ^ k < n * 2 ^ Suc k" by auto
  then show "((n, m, Suc k), n, m, k) \<in> measure (\<lambda>(n, m, k). m * 2 ^ 52 - n * 2 ^ k)"
    by (simp only: in_measure prod.case diff_less_mono2)
qed simp

declare places.simps [simp del]

definition float_div :: "nat \<Rightarrow> nat \<Rightarrow> nat \<times> nat" where
  "float_div n m = (let k = places n m 0 in (round_half_even (n * 2 ^ k) m, k))"

text \<open>A 53-bit significand times 100 has 59 or 60 bits: six or seven are rounded away.\<close>

definition float_times_100 :: "nat \<times> nat \<Rightarrow> nat \<times> nat" where
  "float_times_100 x =
     (let (mant, k) = x; j = (if mant * 100 < 2 ^ 59 then 6 else 7 :: nat)
      in (round_half_even (mant * 100) (2 ^ j) * 2 ^ j, k))"

definition float_int :: "nat \<times> nat \<Rightarrow> nat" where
  "float_int x = fst x div 2 ^ snd x"

text \<open>\<open>int(n / m * 100)\<close>\<close>

definition percent_of :: "nat \<Rightarrow> nat \<Rightarrow> nat" where
  "percent_of n m = float_int (float_times_100 (float_div n m))"

section \<open>How far the rounding goes\<close>

lemma round_half_even_near:
  assumes "0 < m"
  shows "2 * n \<le> 2 * (m * round_half_even n m) + m \<and> 2 * (m * round_half_even n m) \<le> 2 * n + m"
proof -
  define q r where "q = n div m" and "r = n mod m"
  have n: "n = m * q + r" and r: "r < m" using assms by (simp_all add: q_def r_def)
  have "round_half_even n m = q \<and> 2 * r \<le> m \<or> round_half_even n m = Suc q \<and> m \<le> 2 * r"
    by (auto simp: round_half_even_def Let_def q_def r_def)
  then show ?thesis using r unfolding n by auto
qed

lemma round_half_even_exact: "0 < m \<Longrightarrow> round_half_even (m * n) m = n"
  by (simp add: round_half_even_def)

lemma places_enough: "0 < n \<Longrightarrow> m * 2 ^ 52 \<le> n * 2 ^ places n m k"
proof (induction n m k rule: places.induct)
  case (1 n m k)
  then show ?case by (subst places.simps) auto
qed

lemma places_all:
  assumes "0 < n" "j \<le> 52"
  shows "places n n (52 - j) = 52"
  using assms
proof (induction j)
  case 0
  then show ?case by (subst places.simps) simp
next
  case (Suc j)
  have "(2::nat) ^ (52 - Suc j) < 2 ^ 52" by (rule power_strict_increasing) simp_all
  with Suc.prems(1) have "\<not> n * 2 ^ 52 \<le> n * (2 ^ (52 - Suc j) :: nat)"
    by (simp only: not_le nat_mult_less_cancel_disj)
  then have "places n n (52 - Suc j) = places n n (Suc (52 - Suc j))"
    using Suc.prems(1) by (subst places.simps) (simp only: neq0_conv if_False simp_thms less_not_refl2)
  also have "Suc (52 - Suc j) = 52 - j" using Suc.prems(2) by simp
  finally show ?case using Suc by simp
qed

lemma times_100_near:
  "P = fst (float_times_100 (mant, k)) \<Longrightarrow> P \<le> 100 * mant + 64 \<and> 100 * mant \<le> P + 64"
  using round_half_even_near [of "2 ^ 6" "mant * 100"] round_half_even_near [of "2 ^ 7" "mant * 100"]
  by (auto simp: float_times_100_def Let_def)

text \<open>
  With at most \<open>2 ^ 45\<close> in all, the percentage is the exact one rounded down, or one less; it is
  100 only for the whole.
\<close>

lemma percent_of_all: "0 < m \<Longrightarrow> percent_of m m = 100"
  using places_all [of m 52]
  by (simp add: percent_of_def float_div_def round_half_even_exact float_times_100_def float_int_def)
    (simp add: round_half_even_def)

lemma percent_of_near:
  assumes "n \<le> m" "0 < m" "m \<le> 2 ^ 45"
  shows "m * percent_of n m \<le> 100 * n" and "100 * n div m \<le> percent_of n m + 1"
proof -
  have "m * percent_of n m \<le> 100 * n \<and> 100 * n div m \<le> percent_of n m + 1"
  proof (cases "n = 0")
    case True
    then show ?thesis
      using assms(2) by (simp add: percent_of_def float_div_def places.simps [of 0] round_half_even_def
          float_times_100_def float_int_def)
  next
    case False
    define k where "k = places n m 0"
    define mant where "mant = round_half_even (n * 2 ^ k) m"
    define P where "P = fst (float_times_100 (mant, k))"
    define B where "B = (2::nat) ^ k"
    have pct: "percent_of n m = P div B"
      by (simp add: percent_of_def float_div_def Let_def float_int_def P_def mant_def k_def B_def
          float_times_100_def)
    have "m * 2 ^ 52 \<le> n * B" unfolding k_def B_def using False by (intro places_enough) simp
    also have "\<dots> \<le> m * B" using assms(1) by (rule mult_le_mono1)
    finally have B: "2 ^ 52 \<le> B" using assms(2) by (simp only: nat_mult_le_cancel_disj)
    then have small: "114 * m < B" using assms(3) by simp
    have near: "2 * (n * B) \<le> 2 * (m * mant) + m" "2 * (m * mant) \<le> 2 * (n * B) + m"
      using round_half_even_near [OF assms(2), of "n * 2 ^ k"] by (simp_all add: mant_def B_def)
    have "m * P \<le> m * (100 * mant + 64)" "m * (100 * mant) \<le> m * (P + 64)"
      using times_100_near [OF P_def] by (simp_all del: mult_le_cancel1 add: mult_le_mono2)
    then have up: "m * P \<le> 100 * (n * B) + 114 * m" and lo: "100 * (n * B) \<le> m * P + 114 * m"
      using near by (simp_all add: algebra_simps)
    have "B * (m * (P div B)) = m * (B * (P div B))" by (simp only: mult.left_commute)
    also have "\<dots> \<le> m * P" by (rule mult_le_mono2) simp
    also have "\<dots> < B * (100 * n + 1)" using up small by (simp add: algebra_simps)
    finally have "B * (m * (P div B)) < B * (100 * n + 1)" .
    then have "m * (P div B) < 100 * n + 1" using B by (simp only: nat_mult_less_cancel_disj)
    moreover have "100 * n div m \<le> P div B + 1"
    proof (rule ccontr)
      assume "\<not> ?thesis"
      then have "P div B + 2 \<le> 100 * n div m" by simp
      then have "m * (P div B + 2) \<le> m * (100 * n div m)" by (rule mult_le_mono2)
      also have "\<dots> \<le> 100 * n" by simp
      finally have "m * (P div B + 2) \<le> 100 * n" .
      then have "B * (m * (P div B + 2)) \<le> B * (100 * n)" by (rule mult_le_mono2)
      moreover have "P < B * (P div B + 1)"
        using B by (metis add.commute dividend_less_times_div plus_1_eq_Suc mult_Suc_right
            pos2 zero_less_power less_le_trans)
      then have "m * P < m * (B * (P div B + 1))" using assms(2) by simp
      moreover have "B * (m * (P div B + 2)) = B * (m * (P div B)) + 2 * (m * B)"
        "m * (B * (P div B + 1)) = B * (m * (P div B)) + m * B" "B * (100 * n) = 100 * (n * B)"
        by (simp_all add: algebra_simps)
      moreover have "m * 114 \<le> m * B" using B by (intro mult_le_mono2) simp
      ultimately show False using lo by linarith
    qed
    ultimately show ?thesis by (simp add: pct)
  qed
  then show "m * percent_of n m \<le> 100 * n" and "100 * n div m \<le> percent_of n m + 1" by simp_all
qed

lemma percent_of_bounds:
  assumes "n \<le> m" "0 < m" "m \<le> 2 ^ 45"
  shows "percent_of n m \<le> 100 * n div m \<and> 100 * n div m \<le> percent_of n m + 1
    \<and> (percent_of n m = 100 \<longleftrightarrow> n = m)"
  using percent_of_near [OF assms] percent_of_all [OF assms(2)] assms(1,2)
  by (auto simp: less_eq_div_iff_mult_less_eq mult.commute)

lemma percent_29_of_100: "percent_of 29 100 = 28"
proof -
  have "places 29 100 0 = 54" by (simp add: places.simps)
  then show ?thesis
    by (simp add: percent_of_def float_div_def round_half_even_def float_times_100_def float_int_def)
qed

section \<open>Gamification\<close>

text \<open>
  Agent gamification (\<open>app/gamification/service.py\<close> and \<open>tasks.py\<close>): an agent's own preferences
  and progress of the day, the progress of a campaign, and achievements, which are computed from
  the recorded call attempts and never taken back. The time-zone database (\<open>zoneinfo\<close>) is a
  parameter: whether a name is known, and the instant the current local day began.
\<close>

datatype zone_lookup = Zone_found | Zone_not_found | Zone_malformed

record zone_lib =
  zl_lookup :: "string \<Rightarrow> zone_lookup"
  zl_day_start :: "string \<Rightarrow> time \<Rightarrow> time"

section \<open>Preferences\<close>

definition min_daily_goal :: int where "min_daily_goal = 1"
definition max_daily_goal :: int where "max_daily_goal = 500"

datatype gamification_error = Daily_goal_out_of_range | Bad_zone_name

definition get_preference :: "db \<Rightarrow> uuid \<Rightarrow> preference option" where
  "get_preference d agent_id = row_get pf_user_id agent_id (preferences d)"

definition put_preference :: "preference \<Rightarrow> db \<Rightarrow> db" where
  "put_preference q d = d\<lparr>preferences := row_put pf_user_id q (preferences d)\<rparr>"

interpretation preference_table: row_table get_preference put_preference pf_user_id
  by unfold_locales
    (auto simp: get_preference_def put_preference_def row_get_put dest: row_get_Some)

text \<open>The defaults of a new row.\<close>

definition new_preference :: "uuid \<Rightarrow> preference" where
  "new_preference agent_id = \<lparr>pf_user_id = agent_id, pf_enabled = False,
     pf_celebrations_enabled = True, pf_daily_goal = None\<rparr>"

definition with_preference :: "uuid \<Rightarrow> db \<Rightarrow> preference \<times> db" where
  "with_preference agent_id d =
     (case get_preference d agent_id of
        Some q \<Rightarrow> (q, d)
      | None \<Rightarrow> (new_preference agent_id, d\<lparr>preferences := preferences d @ [new_preference agent_id]\<rparr>))"

definition set_preference ::
  "uuid \<Rightarrow> bool option \<Rightarrow> bool option \<Rightarrow> int option \<Rightarrow> bool \<Rightarrow> db
   \<Rightarrow> (gamification_error, preference, db) outcome" where
  "set_preference agent_id enabled celebrations_enabled daily_goal clear_daily_goal d =
     (if (case daily_goal of None \<Rightarrow> False
          | Some g \<Rightarrow> \<not> clear_daily_goal \<and> \<not> (min_daily_goal \<le> g \<and> g \<le> max_daily_goal))
      then Inl Daily_goal_out_of_range
      else
        let (q, d1) = with_preference agent_id d;
            q1 = (case enabled of None \<Rightarrow> q | Some b \<Rightarrow> q\<lparr>pf_enabled := b\<rparr>);
            q2 = (case celebrations_enabled of None \<Rightarrow> q1
                  | Some b \<Rightarrow> q1\<lparr>pf_celebrations_enabled := b\<rparr>);
            q3 = (if clear_daily_goal then q2\<lparr>pf_daily_goal := None\<rparr>
                  else case daily_goal of None \<Rightarrow> q2 | Some g \<Rightarrow> q2\<lparr>pf_daily_goal := Some g\<rparr>)
        in Inr (q3, record_audit ''gamification.preference.update'' ''success'' (Some agent_id)
             (Some ''user'') (Some agent_id) None
             [(''enabled'', JBool (pf_enabled q3)),
              (''celebrations_enabled'', JBool (pf_celebrations_enabled q3)),
              (''daily_goal'', case pf_daily_goal q3 of None \<Rightarrow> JNull | Some g \<Rightarrow> JInt g)]
             (put_preference q3 d1)))"

section \<open>Progress\<close>

record daily_progress =
  dp_unique_contacts_handled_today :: nat
  dp_attempts_recorded_today :: nat
  dp_daily_goal :: "int option"

record campaign_progress =
  cp_campaign_id :: uuid
  cp_campaign_name :: string
  cp_resolved_contacts :: nat
  cp_total_contacts :: nat
  cp_progress_percent :: nat

definition current_primary :: "uuid \<Rightarrow> time \<Rightarrow> user_assignment \<Rightarrow> bool" where
  "current_primary agent_id now a \<longleftrightarrow>
     ua_user_id a = agent_id \<and> ua_campaign_role a = ''agent'' \<and> ua_assignment_type a = ''primary''
     \<and> ua_status a = Row_active \<and> effective_at (ua_effective_from a) (ua_effective_to a) now"

definition get_agent_primary_campaign :: "db \<Rightarrow> time \<Rightarrow> uuid \<Rightarrow> campaign option" where
  "get_agent_primary_campaign d now agent_id =
     (case find (\<lambda>a. current_primary agent_id now a \<and> get_campaign d (ua_campaign_id a) \<noteq> None)
             (user_assignments d) of
        None \<Rightarrow> None
      | Some a \<Rightarrow> get_campaign d (ua_campaign_id a))"

definition agent_timezone ::
  "zone_lib \<Rightarrow> settings \<Rightarrow> db \<Rightarrow> time \<Rightarrow> uuid \<Rightarrow> gamification_error + string" where
  "agent_timezone z cfg d now agent_id =
     (let name = (case get_agent_primary_campaign d now agent_id of
                    Some ca \<Rightarrow> ca_timezone ca | None \<Rightarrow> default_timezone cfg)
      in case zl_lookup z name of
           Zone_found \<Rightarrow> Inr name | Zone_not_found \<Rightarrow> Inr ''UTC'' | Zone_malformed \<Rightarrow> Inl Bad_zone_name)"

definition attempts_since :: "db \<Rightarrow> uuid \<Rightarrow> time \<Rightarrow> call_attempt list" where
  "attempts_since d agent_id since =
     filter (\<lambda>a. at_agent_id a = agent_id \<and> since \<le> at_created_at a) (call_attempts d)"

text \<open>\<open>count(distinct(campaign_contact_id))\<close>\<close>

definition distinct_contacts :: "call_attempt list \<Rightarrow> nat" where
  "distinct_contacts xs = length (remdups (map at_campaign_contact_id xs))"

definition get_daily_progress ::
  "zone_lib \<Rightarrow> settings \<Rightarrow> env \<Rightarrow> uuid \<Rightarrow> db \<Rightarrow> gamification_error + daily_progress" where
  "get_daily_progress z cfg e agent_id d =
     (case agent_timezone z cfg d (clk e 0) agent_id of
        Inl err \<Rightarrow> Inl err
      | Inr zone \<Rightarrow>
          let today = attempts_since d agent_id (zl_day_start z zone (clk e 1))
          in Inr \<lparr>dp_unique_contacts_handled_today = distinct_contacts today,
               dp_attempts_recorded_today = length today,
               dp_daily_goal = (case get_preference d agent_id of
                                  None \<Rightarrow> None | Some q \<Rightarrow> pf_daily_goal q)\<rparr>)"

definition get_campaign_progress :: "db \<Rightarrow> uuid \<Rightarrow> campaign_progress option" where
  "get_campaign_progress d campaign_id =
     (case get_campaign d campaign_id of
        None \<Rightarrow> None
      | Some ca \<Rightarrow>
          let total = count_where (\<lambda>x. cc_campaign_id x = campaign_id) (campaign_contacts d);
              resolved = count_where (\<lambda>x. cc_campaign_id x = campaign_id \<and> cc_completed_at x \<noteq> None)
                           (campaign_contacts d);
              percent = (if total = 0 then 0 else max 0 (min 100 (percent_of resolved total)))
          in Some \<lparr>cp_campaign_id = ca_id ca, cp_campaign_name = ca_name ca,
               cp_resolved_contacts = resolved, cp_total_contacts = total,
               cp_progress_percent = percent\<rparr>)"

section \<open>Achievements\<close>

definition achievement_criteria_version :: int where "achievement_criteria_version = 1"

definition list_achievements :: "db \<Rightarrow> uuid \<Rightarrow> achievement list" where
  "list_achievements d agent_id =
     sort_key (\<lambda>a. - ac_awarded_at a) (filter (\<lambda>a. ac_user_id a = agent_id) (achievements d))"

text \<open>The \<open>earned\<close> dictionary, in its order.\<close>

definition earned :: "db \<Rightarrow> uuid \<Rightarrow> (string \<times> bool) list" where
  "earned d agent_id =
     (let mine = filter (\<lambda>a. at_agent_id a = agent_id) (call_attempts d)
      in [(''first_outcome'', 1 \<le> length mine),
          (''ten_contacts'', 10 \<le> distinct_contacts mine),
          (''fifty_contacts'', 50 \<le> distinct_contacts mine),
          (''callback_follow_through'',
             list_ex (\<lambda>a. at_source_lease_reason a = Some Scheduled_callback) mine)])"

definition holds :: "db \<Rightarrow> uuid \<Rightarrow> string \<Rightarrow> bool" where
  "holds d agent_id c =
     list_ex (\<lambda>a. ac_user_id a = agent_id \<and> ac_achievement_code a = c
                \<and> ac_criteria_version a = achievement_criteria_version) (achievements d)"

text \<open>\<open>INSERT ... ON CONFLICT DO NOTHING RETURNING id\<close>: whether a row was inserted.\<close>

definition insert_achievement :: "time \<Rightarrow> uuid \<Rightarrow> string \<Rightarrow> db \<Rightarrow> bool \<times> db" where
  "insert_achievement now agent_id c d =
     (if holds d agent_id c then (False, d)
      else (True, d\<lparr>achievements := achievements d @
         [\<lparr>ac_user_id = agent_id, ac_achievement_code = c,
           ac_criteria_version = achievement_criteria_version, ac_awarded_at = now\<rparr>]\<rparr>))"

fun award :: "(nat \<Rightarrow> time) \<Rightarrow> nat \<Rightarrow> uuid \<Rightarrow> (string \<times> bool) list \<Rightarrow> db \<Rightarrow> string list \<times> db" where
  "award now i agent_id [] d = ([], d)"
| "award now i agent_id ((c, is_earned) # rest) d =
     (if \<not> is_earned then award now i agent_id rest d
      else
        let (inserted, d1) = insert_achievement (now i) agent_id c d;
            (cs, d2) = award now (Suc i) agent_id rest d1
        in (if inserted then c # cs else cs, d2))"

definition audit_award :: "uuid \<Rightarrow> string \<Rightarrow> db \<Rightarrow> db" where
  "audit_award agent_id c =
     record_audit ''gamification.achievement.award'' ''success'' None (Some ''user'') (Some agent_id)
       None [(''achievement_code'', JStr c), (''criteria_version'', JInt achievement_criteria_version)]"

definition refresh_agent_achievements :: "(nat \<Rightarrow> time) \<Rightarrow> uuid \<Rightarrow> db \<Rightarrow> string list \<times> db" where
  "refresh_agent_achievements now agent_id d =
     (let (awarded_now, d1) = award now 0 agent_id (earned d agent_id) d
      in (awarded_now, fold (audit_award agent_id) awarded_now d1))"

section \<open>The tasks\<close>

definition reconciliation_window :: time where "reconciliation_window = hours 24"

definition refresh_agent_achievements_task ::
  "(nat \<Rightarrow> time) \<Rightarrow> uuid \<Rightarrow> db \<Rightarrow> string list \<times> db" where
  "refresh_agent_achievements_task now agent_id d =
     (if \<not> is_enabled d ''agent_gamification_enabled'' then ([], d)
      else refresh_agent_achievements now agent_id d)"

fun refresh_all :: "(nat \<Rightarrow> nat \<Rightarrow> time) \<Rightarrow> nat \<Rightarrow> uuid list \<Rightarrow> db \<Rightarrow> db" where
  "refresh_all now i [] d = d"
| "refresh_all now i (a # as) d =
     refresh_all now (Suc i) as (snd (refresh_agent_achievements (now i) a d))"

definition reconcile_agent_achievements_task ::
  "(nat \<Rightarrow> nat \<Rightarrow> time) \<Rightarrow> time \<Rightarrow> db \<Rightarrow> nat \<times> db" where
  "reconcile_agent_achievements_task now start d =
     (if \<not> is_enabled d ''agent_gamification_enabled'' then (0, d)
      else
        let since = start - reconciliation_window;
            agent_ids = remdups (map at_agent_id
              (filter (\<lambda>a. since \<le> at_created_at a) (call_attempts d)))
        in (length agent_ids, refresh_all now 0 agent_ids d))"

section \<open>What they guarantee\<close>

text \<open>The unique constraint of the table.\<close>

definition achievements_unique :: "db \<Rightarrow> bool" where
  "achievements_unique d =
     distinct (map (\<lambda>a. (ac_user_id a, ac_achievement_code a, ac_criteria_version a)) (achievements d))"

lemma holds_insert [simp]:
  "holds (snd (insert_achievement t u c d)) u' c' \<longleftrightarrow> holds d u' c' \<or> (u' = u \<and> c' = c)"
  by (auto simp: insert_achievement_def holds_def list_ex_iff)

lemma insert_achievement_parts:
  "fst (insert_achievement t u c d) = (\<not> holds d u c)"
  "call_attempts (snd (insert_achievement t u c d)) = call_attempts d"
  "audit_events (snd (insert_achievement t u c d)) = audit_events d"
  "\<exists>xs. achievements (snd (insert_achievement t u c d)) = achievements d @ xs"
  "achievements_unique d \<Longrightarrow> achievements_unique (snd (insert_achievement t u c d))"
  by (auto simp: insert_achievement_def achievements_unique_def holds_def list_ex_iff)

lemma award_parts:
  assumes "distinct (map fst es)" and "award now i u es d = (cs, d')"
  shows "cs = map fst (filter (\<lambda>(c, b). b \<and> \<not> holds d u c) es)
    \<and> (\<forall>u' c. holds d' u' c \<longleftrightarrow> holds d u' c \<or> (u' = u \<and> (c, True) \<in> set es))
    \<and> call_attempts d' = call_attempts d \<and> audit_events d' = audit_events d
    \<and> (\<exists>xs. achievements d' = achievements d @ xs)
    \<and> (achievements_unique d \<longrightarrow> achievements_unique d')"
  using assms
proof (induction es arbitrary: i d cs d')
  case Nil
  then show ?case by simp
next
  case (Cons x es)
  obtain c b where x: "x = (c, b)" by (cases x)
  show ?case
  proof (cases b)
    case False
    with Cons.prems Cons.IH [of i d cs d'] show ?thesis by (auto simp: x)
  next
    case True
    define d1 where "d1 = snd (insert_achievement (now i) u c d)"
    obtain cs2 d2 where rest: "award now (Suc i) u es d1 = (cs2, d2)" by (metis prod.exhaust)
    have c: "c \<notin> fst ` set es" using Cons.prems(1) by (simp add: x)
    note one = insert_achievement_parts [where t = "now i" and u = u and c = c and d = d, folded d1_def]
    have h: "holds d1 u' c' \<longleftrightarrow> holds d u' c' \<or> (u' = u \<and> c' = c)" for u' c' by (simp add: d1_def)
    have out: "cs = (if \<not> holds d u c then c # cs2 else cs2)" "d' = d2"
      using Cons.prems(2) True rest one(1) by (auto simp: x Let_def d1_def split: prod.splits)
    have "distinct (map fst es)" using Cons.prems(1) by (simp add: x)
    note tail = Cons.IH [OF this rest]
    have "filter (\<lambda>(c, b). b \<and> \<not> holds d1 u c) es = filter (\<lambda>(c, b). b \<and> \<not> holds d u c) es"
      using c by (intro filter_cong) (auto simp: h image_iff)
    then have "cs = map fst (filter (\<lambda>(c, b). b \<and> \<not> holds d u c) (x # es))"
      using tail True out(1) by (simp add: x)
    moreover have "\<exists>xs. achievements d2 = achievements d @ xs" using tail one(4) by fastforce
    ultimately show ?thesis using tail one(2,3,5) True unfolding out(2) by (auto simp: h x)
  qed
qed

lemma fold_audit_award:
  "achievements (fold (audit_award u) cs d) = achievements d"
  "call_attempts (fold (audit_award u) cs d) = call_attempts d"
  "length (audit_events (fold (audit_award u) cs d)) = length (audit_events d) + length cs"
  by (induction cs arbitrary: d) (simp_all add: audit_award_def record_audit_def)

lemma earned_codes: "distinct (map fst (earned d u))"
  by (simp add: earned_def Let_def)

lemma refresh_parts:
  assumes "refresh_agent_achievements now u d = (cs, d')"
  shows "cs = map fst (filter (\<lambda>(c, b). b \<and> \<not> holds d u c) (earned d u))
    \<and> (\<forall>u' c. holds d' u' c \<longleftrightarrow> holds d u' c \<or> (u' = u \<and> (c, True) \<in> set (earned d u)))
    \<and> call_attempts d' = call_attempts d \<and> length (audit_events d') = length (audit_events d) + length cs
    \<and> (\<exists>xs. achievements d' = achievements d @ xs)
    \<and> (achievements_unique d \<longrightarrow> achievements_unique d')"
proof -
  obtain d1 where a: "award now 0 u (earned d u) d = (cs, d1)" and d': "d' = fold (audit_award u) cs d1"
    using assms by (auto simp: refresh_agent_achievements_def split: prod.splits)
  from award_parts [OF earned_codes a] show ?thesis
    by (simp add: d' fold_audit_award holds_def achievements_unique_def)
qed

text \<open>
  A refresh awards an agent exactly the achievements the recorded attempts earn and the agent
  does not hold yet, keeps every award there is, never breaks the unique constraint and writes
  one audit row per award; run again at any time before another attempt is recorded it awards
  nothing and changes nothing.
\<close>

theorem achievements_are_earned_once:
  assumes "refresh_agent_achievements now u d = (cs, d')"
  shows "(\<forall>c. c \<in> set cs \<longleftrightarrow> (c, True) \<in> set (earned d u) \<and> \<not> holds d u c)
    \<and> (\<forall>u' c. holds d' u' c \<longleftrightarrow> holds d u' c \<or> (u' = u \<and> c \<in> set cs))
    \<and> (\<exists>xs. achievements d' = achievements d @ xs)
    \<and> (achievements_unique d \<longrightarrow> achievements_unique d')
    \<and> length (audit_events d') = length (audit_events d) + length cs
    \<and> refresh_agent_achievements now' u d' = ([], d')"
proof -
  note r = refresh_parts [OF assms]
  have same: "earned d' u = earned d u" using r by (simp add: earned_def)
  obtain cs2 d2 where again: "refresh_agent_achievements now' u d' = (cs2, d2)"
    by (metis prod.exhaust)
  have "\<forall>(c, b) \<in> set (earned d' u). b \<longrightarrow> holds d' u c" using r same by auto
  then have none: "award now' i u es d' = ([], d')" if "set es \<subseteq> set (earned d' u)" for i es
    using that
  proof (induction es arbitrary: i)
    case (Cons x es)
    obtain c b where x: "x = (c, b)" by (cases x)
    have "b \<longrightarrow> holds d' u c" using Cons.prems by (auto simp: x)
    then show ?case using Cons.IH [of i] Cons.IH [of "Suc i"] Cons.prems
      by (simp add: x insert_achievement_def)
  qed simp
  have "refresh_agent_achievements now' u d' = ([], d')"
    by (simp add: refresh_agent_achievements_def none)
  moreover have "c \<in> set cs \<longleftrightarrow> (c, True) \<in> set (earned d u) \<and> \<not> holds d u c" for c
    using r by force
  ultimately show ?thesis using r by auto
qed

text \<open>
  Progress of a campaign: the percentage shown never exceeds the exact share of the resolved
  contacts, falls short of it rounded down by at most one, and is 100 exactly when every contact
  is resolved (for up to \<open>2 ^ 45\<close> contacts).
\<close>

theorem campaign_percentage:
  assumes "get_campaign_progress d campaign_id = Some g" and "cp_total_contacts g \<le> 2 ^ 45"
  shows "cp_resolved_contacts g \<le> cp_total_contacts g
    \<and> cp_progress_percent g \<le> 100 * cp_resolved_contacts g div cp_total_contacts g
    \<and> 100 * cp_resolved_contacts g div cp_total_contacts g \<le> cp_progress_percent g + 1
    \<and> (cp_progress_percent g = 100 \<longleftrightarrow>
         0 < cp_total_contacts g \<and> cp_resolved_contacts g = cp_total_contacts g)"
proof -
  let ?r = "cp_resolved_contacts g" and ?t = "cp_total_contacts g"
  obtain r t where g: "?r = count_where (\<lambda>x. cc_campaign_id x = campaign_id \<and> cc_completed_at x \<noteq> None)
        (campaign_contacts d)"
      "?t = count_where (\<lambda>x. cc_campaign_id x = campaign_id) (campaign_contacts d)"
      "cp_progress_percent g = (if ?t = 0 then 0 else max 0 (min 100 (percent_of ?r ?t)))"
    using assms(1) by (auto simp: get_campaign_progress_def Let_def split: option.splits)
  have le: "?r \<le> ?t"
  proof -
    have "length (filter (\<lambda>x. cc_campaign_id x = campaign_id \<and> cc_completed_at x \<noteq> None) xs)
        \<le> length (filter (\<lambda>x. cc_campaign_id x = campaign_id) xs)" for xs :: "campaign_contact list"
      by (induction xs) auto
    then show ?thesis by (simp add: g(1,2) count_where_def)
  qed
  show ?thesis
  proof (cases "?t = 0")
    case True
    with le g(3) show ?thesis by simp
  next
    case False
    then have b: "percent_of ?r ?t \<le> 100 * ?r div ?t \<and> 100 * ?r div ?t \<le> percent_of ?r ?t + 1
        \<and> (percent_of ?r ?t = 100 \<longleftrightarrow> ?r = ?t)"
      using le assms(2) by (intro percent_of_bounds) simp_all
    have "100 * ?r div ?t \<le> 100 * ?t div ?t" by (intro div_le_mono mult_le_mono2 le)
    then have "100 * ?r div ?t \<le> 100" using False by simp
    then have "cp_progress_percent g = percent_of ?r ?t" using g(3) b False by simp
    with b le False show ?thesis by simp
  qed
qed

text \<open>
  Twenty-nine of a hundred contacts are shown as 28 per cent: the quotient 0.29 is stored a little
  low, and its product with 100 is cut off instead of rounded.
\<close>

theorem progress_falls_short:
  assumes "get_campaign d i \<noteq> None"
    and "count_where (\<lambda>x. cc_campaign_id x = i \<and> cc_completed_at x \<noteq> None) (campaign_contacts d) = 29"
    and "count_where (\<lambda>x. cc_campaign_id x = i) (campaign_contacts d) = 100"
  shows "map_option cp_progress_percent (get_campaign_progress d i) = Some 28"
  using assms by (auto simp: get_campaign_progress_def percent_29_of_100)

text \<open>Preferences: a goal that is stored is within its bounds, and nothing unasked changes.\<close>

theorem preference_in_range:
  assumes "\<forall>q \<in> set (preferences d). case pf_daily_goal q of None \<Rightarrow> True
             | Some g \<Rightarrow> min_daily_goal \<le> g \<and> g \<le> max_daily_goal"
    and "set_preference u en ce goal clear d = Inr (q, d')"
  shows "(\<forall>q \<in> set (preferences d'). case pf_daily_goal q of None \<Rightarrow> True
             | Some g \<Rightarrow> min_daily_goal \<le> g \<and> g \<le> max_daily_goal)
    \<and> get_preference d' u = Some q
    \<and> (\<forall>v. v \<noteq> u \<longrightarrow> get_preference d' v = get_preference d v)"
proof -
  let ?ok = "\<lambda>q. case pf_daily_goal q of None \<Rightarrow> True
             | Some g \<Rightarrow> min_daily_goal \<le> g \<and> g \<le> max_daily_goal"
  obtain q0 d1 where wp: "with_preference u d = (q0, d1)" by (metis prod.exhaust)
  have q0: "?ok q0" "pf_user_id q0 = u" "get_preference d1 u = Some q0"
    and d1: "\<forall>q \<in> set (preferences d1). ?ok q"
    and frame: "v \<noteq> u \<Longrightarrow> get_preference d1 v = get_preference d v" for v
    using wp assms(1) preference_table.get_key [of d u q0]
    by (auto simp: with_preference_def new_preference_def get_preference_def row_get_snoc
        dest: row_get_Some split: option.splits)
  have prefs: "preferences d' = row_put pf_user_id q (preferences d1)"
    and q: "?ok q" "pf_user_id q = u"
    using assms(2) wp q0(1,2)
    by (auto simp: set_preference_def put_preference_def Let_def split: option.splits if_splits)
  have "\<forall>x \<in> set (preferences d'). ?ok x"
    unfolding prefs by (rule row_put_all [OF d1 q(1)])
  moreover have "get_preference d' v = get_preference (put_preference q d1) v" for v
    by (simp add: get_preference_def put_preference_def prefs)
  ultimately show ?thesis
    using q0(3) frame q(2) by (simp add: preference_table.get_put)
qed

end
