(* ===== verification/Export.thy ===== *)
theory Export
  imports Import_Files Runtime Db_Prelude
begin

text \<open>
  The export of a completed campaign (\<open>app/campaigns/export.py\<close>): the one way raw numbers leave
  the system. A workbook is the list of its sheets, each with its title and its rows of cells;
  what openpyxl writes for it (\<open>save\<close>) and the text of an instant (\<open>isoformat\<close>) are parameters.
\<close>

record sheet =
  sh_title :: string
  sh_footer :: "string option"
  sh_rows :: "string list list"

record workbook_lib =
  wb_save :: "sheet list \<Rightarrow> string"
  wb_isoformat :: "time \<Rightarrow> string"

datatype export_error = Campaign_not_exportable | Export_undecryptable

record export_context =
  ex_exporter_name :: string
  ex_justification :: string
  ex_approver :: string
  ex_recipient :: string
  ex_exported_at :: time

definition export_columns :: "string list" where
  "export_columns = [''Phone'', ''Final disposition'', ''Agent'', ''Completed at'', ''Imported at'']"

definition justification_max :: nat where "justification_max = 500"
definition short_field_max :: nat where "short_field_max = 200"

section \<open>The contacts sheet\<close>

text \<open>The dictionary of labels: a later definition of a code replaces an earlier one.\<close>

definition disposition_label :: "db \<Rightarrow> uuid \<Rightarrow> string \<Rightarrow> string" where
  "disposition_label d campaign_id c =
     (case find (\<lambda>r. di_stable_semantic_code r = c)
             (rev (filter (\<lambda>r. di_campaign_id r = campaign_id) (dispositions d))) of
        None \<Rightarrow> c
      | Some r \<Rightarrow> di_label r)"

text \<open>The joined records, by \<open>completed_at\<close>; PostgreSQL sorts the missing ones last.\<close>

definition export_records :: "db \<Rightarrow> uuid \<Rightarrow> (campaign_contact \<times> contact) list" where
  "export_records d campaign_id =
     List.map_filter (\<lambda>cc. map_option (Pair cc) (get_contact d (cc_contact_id cc)))
       (sort_key (\<lambda>cc. case cc_completed_at cc of None \<Rightarrow> (True, 0) | Some t \<Rightarrow> (False, t))
         (filter (\<lambda>cc. cc_campaign_id cc = campaign_id) (campaign_contacts d)))"

definition agent_name :: "db \<Rightarrow> campaign_contact \<Rightarrow> string" where
  "agent_name d cc =
     (case cc_completed_by_agent_id cc of
        None \<Rightarrow> ''''
      | Some i \<Rightarrow> (case get_user d i of None \<Rightarrow> '''' | Some u \<Rightarrow> sanitize_text (us_display_name u)))"

definition export_row ::
  "crypto \<Rightarrow> workbook_lib \<Rightarrow> db \<Rightarrow> uuid \<Rightarrow> campaign_contact \<times> contact \<Rightarrow> string list option" where
  "export_row c wb d campaign_id rec =
     (let (cc, co) = rec;
          final = (case cc_final_disposition_code cc of None \<Rightarrow> '''' | Some s \<Rightarrow> s)
      in case decrypt c (co_phone_ciphertext co) of
           None \<Rightarrow> None
         | Some phone \<Rightarrow>
             Some [phone, sanitize_text (disposition_label d campaign_id final), agent_name d cc,
                   (case cc_completed_at cc of None \<Rightarrow> '''' | Some t \<Rightarrow> wb_isoformat wb t),
                   wb_isoformat wb (cc_imported_at cc)])"

fun export_rows_of ::
  "crypto \<Rightarrow> workbook_lib \<Rightarrow> db \<Rightarrow> uuid \<Rightarrow> (campaign_contact \<times> contact) list
   \<Rightarrow> string list list option" where
  "export_rows_of c wb d campaign_id [] = Some []"
| "export_rows_of c wb d campaign_id (rec # recs) =
     (case export_row c wb d campaign_id rec of
        None \<Rightarrow> None
      | Some row \<Rightarrow> map_option ((#) row) (export_rows_of c wb d campaign_id recs))"

section \<open>The provenance sheet\<close>

definition export_info :: "workbook_lib \<Rightarrow> campaign \<Rightarrow> export_context \<Rightarrow> sheet" where
  "export_info wb ca ctx =
     \<lparr>sh_title = ''Export Info'', sh_footer = None,
      sh_rows =
        [[''Classification'', ''RESTRICTED - do not share outside the approved recipient''],
         [''Campaign'', sanitize_text (ca_name ca)],
         [''Campaign code'', sanitize_text (ca_external_code ca)],
         [''Exported by'', sanitize_text (ex_exporter_name ctx)],
         [''Exported at'', wb_isoformat wb (ex_exported_at ctx)],
         [''Recipient'', sanitize_text (ex_recipient ctx)],
         [''Approved by'', sanitize_text (ex_approver ctx)],
         [''Business justification'', sanitize_text (ex_justification ctx)]]\<rparr>"

text \<open>\<open>build_export_workbook\<close> up to the call of \<open>workbook.save\<close>.\<close>

definition export_sheets ::
  "crypto \<Rightarrow> workbook_lib \<Rightarrow> campaign \<Rightarrow> export_context option \<Rightarrow> db \<Rightarrow> export_error + sheet list" where
  "export_sheets c wb ca context d =
     (if ca_status ca \<noteq> Campaign_completed then Inl Campaign_not_exportable
      else case export_rows_of c wb d (ca_id ca) (export_records d (ca_id ca)) of
        None \<Rightarrow> Inl Export_undecryptable
      | Some rows \<Rightarrow>
          let contacts_sheet = \<lparr>sh_title = ''Contacts'',
                sh_footer = Some ''RESTRICTED - CipherContact export - do not share'',
                sh_rows = export_columns # rows\<rparr>
          in Inr (contacts_sheet #
               (case context of None \<Rightarrow> [] | Some ctx \<Rightarrow> [export_info wb ca ctx])))"

definition build_export_workbook ::
  "crypto \<Rightarrow> workbook_lib \<Rightarrow> campaign \<Rightarrow> export_context option \<Rightarrow> db \<Rightarrow> export_error + string" where
  "build_export_workbook c wb ca context d =
     (case export_sheets c wb ca context d of
        Inl err \<Rightarrow> Inl err
      | Inr sheets \<Rightarrow> Inr (wb_save wb sheets))"

section \<open>The audited export\<close>

definition export_context_of ::
  "time \<Rightarrow> string \<Rightarrow> string \<Rightarrow> string \<Rightarrow> string \<Rightarrow> export_context" where
  "export_context_of now exporter_name justification approver recipient =
     \<lparr>ex_exporter_name = take short_field_max exporter_name,
      ex_justification = take justification_max (strip justification),
      ex_approver = take short_field_max (strip approver),
      ex_recipient = take short_field_max (strip recipient), ex_exported_at = now\<rparr>"

definition export_completed_campaign ::
  "crypto \<Rightarrow> workbook_lib \<Rightarrow> time \<Rightarrow> campaign \<Rightarrow> uuid \<Rightarrow> string \<Rightarrow> string \<Rightarrow> string \<Rightarrow> string \<Rightarrow> db
   \<Rightarrow> (export_error, string, db) outcome" where
  "export_completed_campaign c wb now ca actor_id exporter_name justification approver recipient d =
     (let ctx = export_context_of now exporter_name justification approver recipient in
      case build_export_workbook c wb ca (Some ctx) d of
        Inl err \<Rightarrow> Inl err
      | Inr data \<Rightarrow>
          let total = count_where (\<lambda>cc. cc_campaign_id cc = ca_id ca) (campaign_contacts d)
          in Inr (data, record_audit ''campaign.export'' ''success'' (Some actor_id) (Some ''campaign'')
               (Some (ca_id ca)) None
               [(''rows'', JInt (int total)), (''format'', JStr ''xlsx''),
                (''justification'', JStr (ex_justification ctx)),
                (''approver'', JStr (ex_approver ctx)), (''recipient'', JStr (ex_recipient ctx))] d))"

section \<open>What leaves the system\<close>

text \<open>A cell a spreadsheet would run: its first character starts a formula.\<close>

definition live_formula :: "string \<Rightarrow> bool" where
  "live_formula s = (s \<noteq> [] \<and> hd s \<in> formula_like_prefixes)"

lemma sanitized_is_inert [simp]: "\<not> live_formula (sanitize_text s)"
  by (cases s) (auto simp: live_formula_def formula_like_prefixes_def)

lemma blank_is_inert [simp]: "\<not> live_formula []"
  by (simp add: live_formula_def)

lemma export_rows_of_map:
  "export_rows_of c wb d i recs = Some rows \<Longrightarrow> map (export_row c wb d i) recs = map Some rows"
  by (induction recs arbitrary: rows) (auto split: option.splits)

lemma map_filter_total:
  "\<forall>x \<in> set xs. f x \<noteq> None \<Longrightarrow> length (List.map_filter f xs) = length xs"
  by (induction xs) (auto simp: List.map_filter_simps)

lemma export_records_length:
  assumes "\<forall>cc \<in> set (campaign_contacts d). get_contact d (cc_contact_id cc) \<noteq> None"
  shows "length (export_records d i) = count_where (\<lambda>cc. cc_campaign_id cc = i) (campaign_contacts d)"
  using assms unfolding export_records_def
  by (subst map_filter_total) (auto simp: count_where_def)


end
