(* ===== verification/Standardize.thy ===== *)
theory Standardize
  imports Campaign_Properties "HOL-Library.Multiset"
begin

text \<open>
  The operator command of the standard-dispositions rollout
  (\<open>app/ops/standardize_dispositions.py\<close>): classifying every campaign, the report of the dry run,
  and applying the policy to one campaign. The parsed command line, the text-to-UUID conversion
  and the \<open>created_at\<close> column of the campaigns are arguments.
\<close>

section \<open>Classification\<close>

datatype classification =
  New_empty_draft | Draft_compatible | Draft_with_conflicts | Active_or_paused
| Already_policy_v1 | Completed_or_archived

text \<open>Classifications are ordered as the report lists them (\<open>REPORT_ORDER\<close>).\<close>

fun report_rank :: "classification \<Rightarrow> nat" where
  "report_rank New_empty_draft = 0"
| "report_rank Draft_compatible = 1"
| "report_rank Draft_with_conflicts = 2"
| "report_rank Active_or_paused = 3"
| "report_rank Already_policy_v1 = 4"
| "report_rank Completed_or_archived = 5"

lemma report_rank_eq [simp]: "report_rank x = report_rank y \<longleftrightarrow> x = y"
  by (cases x; cases y) simp_all

instantiation classification :: linorder
begin

definition less_eq_classification :: "classification \<Rightarrow> classification \<Rightarrow> bool" where
  "less_eq_classification x y = (report_rank x \<le> report_rank y)"

definition less_classification :: "classification \<Rightarrow> classification \<Rightarrow> bool" where
  "less_classification x y = (report_rank x < report_rank y)"

instance
  by standard (auto simp: less_eq_classification_def less_classification_def antisym)

end

definition report_order :: "classification list" where
  "report_order = [New_empty_draft, Draft_compatible, Draft_with_conflicts, Active_or_paused,
     Already_policy_v1, Completed_or_archived]"

definition actionable_classifications :: "classification list" where
  "actionable_classifications = [New_empty_draft, Already_policy_v1]"

fun classification_name :: "classification \<Rightarrow> string" where
  "classification_name New_empty_draft = ''new_empty_draft''"
| "classification_name Draft_compatible = ''draft_compatible''"
| "classification_name Draft_with_conflicts = ''draft_with_conflicts''"
| "classification_name Active_or_paused = ''active_or_paused''"
| "classification_name Completed_or_archived = ''completed_or_archived''"
| "classification_name Already_policy_v1 = ''already_policy_v1''"

record campaign_classification =
  kl_campaign_id :: uuid
  kl_external_code :: string
  kl_name :: string
  kl_status :: campaign_status
  kl_classification :: classification
  kl_conflicting_codes :: "string list"

definition matches_entry :: "standard_disposition \<Rightarrow> disposition \<Rightarrow> bool" where
  "matches_entry entry row \<longleftrightarrow>
     di_label row = sd_label entry \<and> di_next_action row = sd_next_action entry
     \<and> di_causes_dnc row = sd_causes_dnc entry
     \<and> di_requires_callback_time row = sd_requires_callback_time entry
     \<and> di_counts_as_connected row = sd_counts_as_connected entry"

definition conflicting_codes :: "disposition list \<Rightarrow> string list" where
  "conflicting_codes existing =
     sort (map di_stable_semantic_code
       (filter (\<lambda>row. case standard_disposition_by_code (di_stable_semantic_code row) of
                        None \<Rightarrow> False | Some entry \<Rightarrow> \<not> matches_entry entry row) existing))"

definition classify_campaign :: "db \<Rightarrow> campaign \<Rightarrow> campaign_classification" where
  "classify_campaign d ca =
     (let existing = filter (\<lambda>r. di_campaign_id r = ca_id ca) (dispositions d);
          conflicts = conflicting_codes existing;
          (classification, conflicting) =
            (if ca_status ca \<in> {Campaign_completed, Archived} then (Completed_or_archived, [])
             else if ca_disposition_policy_version ca = Some policy_version then (Already_policy_v1, [])
             else if ca_status ca \<in> {Active, Paused} then (Active_or_paused, [])
             else if existing = [] then (New_empty_draft, [])
             else (if conflicts \<noteq> [] then Draft_with_conflicts else Draft_compatible, conflicts))
      in \<lparr>kl_campaign_id = ca_id ca, kl_external_code = ca_external_code ca, kl_name = ca_name ca,
          kl_status = ca_status ca, kl_classification = classification,
          kl_conflicting_codes = conflicting\<rparr>)"

definition classify_all_campaigns :: "(uuid \<Rightarrow> time) \<Rightarrow> db \<Rightarrow> campaign_classification list" where
  "classify_all_campaigns created_at d =
     map (classify_campaign d) (sort_key (\<lambda>ca. created_at (ca_id ca)) (campaigns d))"

text \<open>What the dry run prints: one section per classification, in the order of the report.\<close>

definition report :: "campaign_classification list
    \<Rightarrow> (classification \<times> bool \<times> campaign_classification list) list" where
  "report rows = map (\<lambda>bucket. (bucket, bucket \<in> set actionable_classifications,
     filter (\<lambda>r. kl_classification r = bucket) rows)) report_order"

section \<open>Applying the policy\<close>

datatype apply_error =
  Invalid_installed_policy "policy_defect list"
| Install_failed campaign_error
| Not_automated string classification

definition apply_to_campaign ::
  "env \<Rightarrow> campaign \<Rightarrow> uuid \<Rightarrow> string \<Rightarrow> db
   \<Rightarrow> (apply_error, campaign_classification, db) outcome" where
  "apply_to_campaign e ca actor_id reason d =
     (let result = classify_campaign d ca;
          finish = (\<lambda>ca' d1.
            let d2 = record_audit ''ops.standardize_dispositions.apply'' ''success'' (Some actor_id)
                  (Some ''campaign'') (Some (ca_id ca)) (Some (take 50 reason))
                  [(''campaign_external_code'', JStr (ca_external_code ca)),
                   (''classification'', JStr (classification_name (kl_classification result)))] d1
            in Inr (classify_campaign d2 ca', d2))
      in if kl_classification result = Already_policy_v1 then
           (let validation = validate_standard_dispositions d ca in
            if \<not> pv_valid validation then Inl (Invalid_installed_policy (pv_errors validation))
            else finish ca d)
         else if kl_classification result = New_empty_draft then
           (case install_standard_dispositions e ca actor_id None None d of
              Inl err \<Rightarrow> Inl (Install_failed err)
            | Inr (_, d1) \<Rightarrow> finish (ca\<lparr>ca_disposition_policy_version := Some policy_version\<rparr>) d1)
         else Inl (Not_automated (ca_external_code ca) (kl_classification result)))"

section \<open>The command\<close>

record standardize_args =
  sa_apply :: bool
  sa_campaign :: "string option"
  sa_actor :: "string option"
  sa_reason :: "string option"

definition blank_arg :: "string option \<Rightarrow> bool" where
  "blank_arg a = (a = None \<or> a = Some '''')"

text \<open>
  The exit status and what the command committed; \<open>None\<close> when an exception it does not catch ends
  it (an integrity error of the database is not a \<open>DispositionPolicyError\<close>).
\<close>

definition standardize_main ::
  "(string \<Rightarrow> uuid option) \<Rightarrow> env \<Rightarrow> standardize_args \<Rightarrow> db \<Rightarrow> nat option \<times> db" where
  "standardize_main parse_uuid e args d =
     (if \<not> sa_apply args then (Some 0, d)
      else if blank_arg (sa_campaign args) \<or> blank_arg (sa_actor args) \<or> blank_arg (sa_reason args)
      then (Some 2, d)
      else
        case (Option.bind (sa_campaign args) parse_uuid, Option.bind (sa_actor args) parse_uuid,
              sa_reason args) of
          (Some campaign_id, Some actor_id, Some reason) \<Rightarrow>
            (case get_campaign d campaign_id of
               None \<Rightarrow> (Some 2, d)
             | Some ca \<Rightarrow>
                 (case apply_to_campaign e ca actor_id reason d of
                    Inr (_, d') \<Rightarrow> (Some 0, d')
                  | Inl (Install_failed (Campaign_integrity _)) \<Rightarrow> (None, d)
                  | Inl _ \<Rightarrow> (Some 3, d)))
        | _ \<Rightarrow> (Some 2, d))"

section \<open>What the command guarantees\<close>

lemma classify_sel [simp]:
  "kl_campaign_id (classify_campaign d ca) = ca_id ca"
  "kl_status (classify_campaign d ca) = ca_status ca"
  by (simp_all add: classify_campaign_def Let_def split: prod.splits)

lemma classify_cong:
  "dispositions d' = dispositions d \<Longrightarrow> classify_campaign d' ca = classify_campaign d ca"
  by (simp add: classify_campaign_def)

lemma classify_audit [simp]: "classify_campaign (record_audit a r u tt ti rc m d) ca = classify_campaign d ca"
  by (rule classify_cong) simp

lemma one_audit_row:
  "\<exists>ev. record_audit a r u tt ti rc m d = d\<lparr>audit_events := audit_events d @ [ev]\<rparr>
     \<and> au_actor_user_id ev = u"
  unfolding record_audit_def by (rule exI, rule conjI, rule refl) simp

lemma apply_adopted:
  assumes "kl_classification (classify_campaign d ca) = Already_policy_v1"
    and "pv_valid (validate_standard_dispositions d ca)"
  obtains ev where "apply_to_campaign e ca actor reason d
      = Inr (classify_campaign d ca, d\<lparr>audit_events := audit_events d @ [ev]\<rparr>)"
    and "au_actor_user_id ev = Some actor"
  using one_audit_row [of "''ops.standardize_dispositions.apply''" "''success''" "Some actor"
      "Some ''campaign''" "Some (ca_id ca)" "Some (take 50 reason)"
      "[(''campaign_external_code'', JStr (ca_external_code ca)),
        (''classification'', JStr (classification_name Already_policy_v1))]" d] assms
  by (auto simp: apply_to_campaign_def Let_def simp del: classification_name.simps)

lemma classified_new:
  "kl_classification (classify_campaign d ca) = New_empty_draft \<longleftrightarrow>
     ca_status ca = Draft \<and> ca_disposition_policy_version ca \<noteq> Some policy_version
     \<and> (\<forall>r \<in> set (dispositions d). di_campaign_id r \<noteq> ca_id ca)"
  by (cases "ca_status ca") (auto simp: classify_campaign_def Let_def filter_empty_conv)

lemma classified_adopted:
  "kl_classification (classify_campaign d ca) = Already_policy_v1 \<longleftrightarrow>
     ca_status ca \<notin> {Campaign_completed, Archived}
     \<and> ca_disposition_policy_version ca = Some policy_version"
  by (cases "ca_status ca") (auto simp: classify_campaign_def Let_def)

text \<open>The report lists every classified campaign once, grouped, otherwise in the given order.\<close>

lemma bucket_mset:
  "distinct ks \<Longrightarrow> \<forall>r \<in> set rows. f r \<in> set ks
   \<Longrightarrow> mset (concat (map (\<lambda>k. filter (\<lambda>r. f r = k) rows) ks)) = mset rows"
proof (induction ks arbitrary: rows)
  case (Cons k ks)
  have rest: "map (\<lambda>k'. filter (\<lambda>r. f r = k') rows) ks
      = map (\<lambda>k'. filter (\<lambda>r. f r = k') (filter (\<lambda>r. f r \<noteq> k) rows)) ks"
    using Cons.prems(1) by (auto intro!: filter_cong)
  have "mset (concat (map (\<lambda>k'. filter (\<lambda>r. f r = k') (filter (\<lambda>r. f r \<noteq> k) rows)) ks))
      = mset (filter (\<lambda>r. f r \<noteq> k) rows)"
    using Cons.prems by (intro Cons.IH) auto
  then show ?case by (simp add: rest multiset_partition [of "mset rows" "\<lambda>r. f r = k", symmetric])
qed simp

lemma sorted_group: "sorted (map f (filter (\<lambda>r. f r = k) xs))"
  by (induction xs) auto

lemma report_is_sorted: "sort_key kl_classification rows = concat (map (\<lambda>(_, _, rows). rows) (report rows))"
proof (rule properties_for_sort_key)
  let ?groups = "concat (map (\<lambda>k. filter (\<lambda>r. kl_classification r = k) rows) report_order)"
  have eq: "concat (map (\<lambda>(_, _, rows). rows) (report rows)) = ?groups"
    by (simp add: report_def comp_def)
  have all: "k \<in> set report_order" for k by (cases k) (simp_all add: report_order_def)
  show "mset (concat (map (\<lambda>(_, _, rows). rows) (report rows))) = mset rows"
    unfolding eq by (rule bucket_mset) (simp_all add: all, simp add: report_order_def)
  show "filter (\<lambda>x. kl_classification k = kl_classification x)
          (concat (map (\<lambda>(_, _, rows). rows) (report rows)))
        = filter (\<lambda>x. kl_classification k = kl_classification x) rows" for k
    unfolding eq
    by (cases "kl_classification k") (auto simp: report_order_def filter_empty_conv intro!: filter_cong)
  show "sorted (map kl_classification (concat (map (\<lambda>(_, _, rows). rows) (report rows))))"
    unfolding eq by (auto simp: report_order_def sorted_append less_eq_classification_def sorted_group)
qed

text \<open>
  Applying the policy succeeds only on an empty draft or a campaign already on the policy.
  It leaves the campaign on a policy that is complete and valid, changes no other campaign and no
  disposition of another one; and applying it again, by anyone and for any reason, succeeds,
  finds it adopted and adds nothing but its audit row.
\<close>

theorem apply_is_idempotent:
  assumes ca: "get_campaign d i = Some ca"
    and run: "apply_to_campaign e ca actor reason d = Inr (result, d')"
  shows "kl_classification (classify_campaign d ca) \<in> set actionable_classifications
    \<and> kl_classification result = Already_policy_v1
    \<and> (\<exists>ca'. get_campaign d' i = Some ca' \<and> ca' = ca\<lparr>ca_disposition_policy_version := Some policy_version\<rparr>
        \<and> pv_valid (validate_standard_dispositions d' ca')
        \<and> (\<forall>j. j \<noteq> i \<longrightarrow> get_campaign d' j = get_campaign d j)
        \<and> filter (\<lambda>r. di_campaign_id r \<noteq> i) (dispositions d') = filter (\<lambda>r. di_campaign_id r \<noteq> i) (dispositions d)
        \<and> (\<exists>ev. apply_to_campaign e2 ca' actor2 reason2 d'
              = Inr (result, d'\<lparr>audit_events := audit_events d' @ [ev]\<rparr>)
            \<and> au_actor_user_id ev = Some actor2))"
proof -
  let ?ca' = "ca\<lparr>ca_disposition_policy_version := Some policy_version\<rparr>"
  have id: "ca_id ca = i" by (rule campaign_table.get_key [OF ca])
  have after: "kl_classification (classify_campaign d ca) \<in> set actionable_classifications
      \<and> get_campaign d' i = Some ?ca' \<and> pv_valid (validate_standard_dispositions d' ?ca')
      \<and> (\<forall>j. j \<noteq> i \<longrightarrow> get_campaign d' j = get_campaign d j)
      \<and> filter (\<lambda>r. di_campaign_id r \<noteq> i) (dispositions d') = filter (\<lambda>r. di_campaign_id r \<noteq> i) (dispositions d)
      \<and> result = classify_campaign d' ?ca' \<and> ca_status ca \<notin> {Campaign_completed, Archived}"
  proof (cases "kl_classification (classify_campaign d ca) = Already_policy_v1")
    case True
    then have same: "?ca' = ca" and st: "ca_status ca \<notin> {Campaign_completed, Archived}"
      by (auto simp: classified_adopted)
    have "pv_valid (validate_standard_dispositions d ca) \<and> campaigns d' = campaigns d
        \<and> dispositions d' = dispositions d \<and> result = classify_campaign d' ca"
      using run True by (auto simp: apply_to_campaign_def Let_def split: if_splits)
    then show ?thesis
      using ca True st unfolding same
      by (simp add: get_campaign_def actionable_classifications_def validate_standard_dispositions_def
          active_dispositions_def)
  next
    case False
    obtain rows d1 where inst: "install_standard_dispositions e ca actor None None d = Inr (rows, d1)"
      and new: "kl_classification (classify_campaign d ca) = New_empty_draft"
      and d': "campaigns d' = campaigns d1" "dispositions d' = dispositions d1"
        "result = classify_campaign d' ?ca'"
      using run False by (auto simp: apply_to_campaign_def Let_def split: if_splits sum.splits)
    note parts = install_Inr [OF inst]
    have act: "active_dispositions d' ?ca' = standard_rows e ca None None"
      using parts d'(2) by (intro installed_active(1)) auto
    have "delays_ok None None" using parts by simp
    from standard_rows_valid [OF act this] have "pv_valid (validate_standard_dispositions d' ?ca')" .
    moreover have "filter (\<lambda>r. di_campaign_id r \<noteq> i) (standard_rows e ca None None) = []"
      using standard_rows_campaign id by (auto simp: filter_empty_conv)
    moreover have "get_campaign d' j = get_campaign (put_campaign ?ca' d) j" for j
      using parts d'(1) by (simp add: get_campaign_def put_campaign_def)
    ultimately show ?thesis
      using parts new ca d' by (simp add: campaign_table.get_put id actionable_classifications_def)
  qed
  have adopted: "kl_classification (classify_campaign d' ?ca') = Already_policy_v1"
    using after by (simp add: classified_adopted)
  have valid: "pv_valid (validate_standard_dispositions d' ?ca')" using after by (elim conjE)
  have res: "result = classify_campaign d' ?ca'" using after by (elim conjE)
  obtain ev where "apply_to_campaign e2 ?ca' actor2 reason2 d'
      = Inr (result, d'\<lparr>audit_events := audit_events d' @ [ev]\<rparr>)" "au_actor_user_id ev = Some actor2"
    unfolding res by (rule apply_adopted [OF adopted valid])
  then have "\<exists>ev. apply_to_campaign e2 ?ca' actor2 reason2 d'
      = Inr (result, d'\<lparr>audit_events := audit_events d' @ [ev]\<rparr>) \<and> au_actor_user_id ev = Some actor2"
    by (intro exI conjI)
  with after adopted [folded res] show ?thesis by blast
qed

end
