(* ===== verification/Bootstrap.thy ===== *)
theory Bootstrap
  imports Workforce
begin

text \<open>
  Creating the first Super Admin (\<open>app/ops/bootstrap_super_admin.py\<close>), an operator command: the
  identity checks, the one transaction, the token file and the order in which the command commits
  or takes everything back. The file system is a record: the files of each directory, what
  \<open>Path.resolve(strict=True)\<close> answers, and which of its calls raise \<open>OSError\<close>.
\<close>

datatype bootstrap_error =
  Already_initialized | Invalid_email | Invalid_display_name | Invalid_workforce_id
| Duplicate_person | Token_issue account_error

section \<open>The identity\<close>

definition bootstrap_email_ok :: "string \<Rightarrow> bool" where
  "bootstrap_email_ok email \<longleftrightarrow>
     CHR ''@'' \<in> set email \<and> before_first CHR ''@'' email \<noteq> '''' \<and> after_first CHR ''@'' email \<noteq> ''''
     \<and> CHR ''.'' \<in> set (after_first CHR ''@'' email) \<and> length email \<le> 320
     \<and> \<not> list_ex py_isspace email"

definition validate_identity ::
  "string \<Rightarrow> string \<Rightarrow> string option \<Rightarrow> bootstrap_error + (string \<times> string \<times> string)" where
  "validate_identity email display_name workforce_id =
     (let normalized_email = normalize_email email;
          local_part = before_first CHR ''@'' normalized_email;
          normalized_name = strip display_name;
          normalized_workforce_id =
            strip (case workforce_id of None \<Rightarrow> local_part | Some w \<Rightarrow> if w = '''' then local_part else w)
      in if \<not> bootstrap_email_ok normalized_email then Inl Invalid_email
         else if normalized_name = '''' \<or> length normalized_name > 200 then Inl Invalid_display_name
         else if normalized_workforce_id = '''' \<or> length normalized_workforce_id > 150
              \<or> list_ex py_isspace normalized_workforce_id
         then Inl Invalid_workforce_id
         else Inr (normalized_email, normalized_name, normalized_workforce_id))"

section \<open>The transaction\<close>

definition is_active_super_admin :: "role_assignment \<Rightarrow> bool" where
  "is_active_super_admin r \<longleftrightarrow>
     ra_role_code r = ''super_admin'' \<and> ra_status r = Row_active \<and> ra_effective_to r = None"

definition first_admin_role :: "env \<Rightarrow> role_assignment" where
  "first_admin_role e =
     \<lparr>ra_id = fresh_id e 2, ra_user_id = fresh_id e 1, ra_role_code = ''super_admin'',
      ra_scope_type = ''installation'', ra_scope_id = None, ra_effective_from = clk e 0,
      ra_effective_to = None, ra_status = Row_active, ra_reason_code = Some ''ops_bootstrap'',
      ra_appointed_by = None, ra_ended_at = None\<rparr>"

definition bootstrap_super_admin ::
  "crypto \<Rightarrow> env \<Rightarrow> string \<Rightarrow> string \<Rightarrow> string option \<Rightarrow> db
   \<Rightarrow> (bootstrap_error, uuid \<times> string, db) outcome" where
  "bootstrap_super_admin c e email display_name workforce_id d =
     (case validate_identity email display_name workforce_id of
        Inl err \<Rightarrow> Inl err
      | Inr (mail, name, wid) \<Rightarrow>
          (if list_ex is_active_super_admin (role_assignments d) then Inl Already_initialized
           else if list_ex (\<lambda>u. us_email u = mail \<or> us_workforce_id u = wid) (users d)
           then Inl Duplicate_person
           else
             let u = new_user (fresh_id e 1) (clk e 1) wid mail name;
                 d1 = d\<lparr>users := users d @ [u],
                        role_assignments := role_assignments d @ [first_admin_role e]\<rparr>
             in case issue_activation_token c e (clk e 2) (us_id u) None d1 of
                  Inl err \<Rightarrow> Inl (Token_issue err)
                | Inr (token, d2) \<Rightarrow>
                    Inr ((us_id u, token),
                      record_audit ''ops.bootstrap_super_admin'' ''success'' None (Some ''user'')
                        (Some (us_id u)) (Some ''ops_bootstrap'')
                        [(''role_code'', JStr ''super_admin''), (''scope_type'', JStr ''installation''),
                         (''provisioning_path'', JStr ''operator_cli'')] d2)))"

section \<open>The token file\<close>

text \<open>A path: whether it is absolute, its parent and its last component.\<close>

record path =
  pa_absolute :: bool
  pa_parent :: string
  pa_name :: string

record file_system =
  fs_files :: "string \<times> string \<rightharpoonup> string"
  fs_resolve :: "string \<Rightarrow> string option"
  fs_open_fails :: bool
  fs_write_fails :: bool
  fs_unlink_fails :: bool

datatype token_file_error =
  Path_not_absolute | Directory_unavailable | Outside_directory | Token_file_exists
| Cannot_create | Cannot_write

definition unlink :: "string \<times> string \<Rightarrow> file_system \<Rightarrow> file_system" where
  "unlink k fs = (if fs_unlink_fails fs then fs else fs\<lparr>fs_files := (fs_files fs)(k := None)\<rparr>)"

definition file_key :: "file_system \<Rightarrow> path \<Rightarrow> string \<times> string" where
  "file_key fs p = (case fs_resolve fs (pa_parent p) of None \<Rightarrow> '''' | Some r \<Rightarrow> r, pa_name p)"

text \<open>\<open>O_CREAT | O_EXCL\<close>: the file is created empty or the call fails, never reused.\<close>

definition write_activation_token ::
  "string \<Rightarrow> path \<Rightarrow> string \<Rightarrow> file_system \<Rightarrow> token_file_error option \<times> file_system" where
  "write_activation_token token token_file allowed_directory fs =
     (if \<not> pa_absolute token_file then (Some Path_not_absolute, fs)
      else case (fs_resolve fs allowed_directory, fs_resolve fs (pa_parent token_file)) of
        (Some resolved_directory, Some resolved_parent) \<Rightarrow>
          (let k = (resolved_parent, pa_name token_file) in
           if resolved_parent \<noteq> resolved_directory \<or> pa_name token_file \<in> {'''', ''.'', ''..''}
           then (Some Outside_directory, fs)
           else if fs_files fs k \<noteq> None then (Some Token_file_exists, fs)
           else if fs_open_fails fs then (Some Cannot_create, fs)
           else if fs_write_fails fs
           then (Some Cannot_write, unlink k (fs\<lparr>fs_files := (fs_files fs)(k \<mapsto> '''')\<rparr>))
           else (None, fs\<lparr>fs_files := (fs_files fs)(k \<mapsto> token @ [CHR 0x0A])\<rparr>))
      | _ \<Rightarrow> (Some Directory_unavailable, fs))"

definition remove_token_file :: "path \<Rightarrow> file_system \<Rightarrow> file_system" where
  "remove_token_file token_file fs = unlink (file_key fs token_file) fs"

section \<open>The command\<close>

record bootstrap_args =
  ba_email :: string
  ba_display_name :: string
  ba_workforce_id :: "string option"
  ba_token_file :: path
  ba_confirmed :: bool

definition default_token_directory :: string where
  "default_token_directory = ''/var/lib/ciphercontact/bootstrap''"

text \<open>
  The exit status, the database that is left and the file system. \<open>commit_ok\<close>: the commit does not
  raise. A failed token issue is a \<open>ValueError\<close>, which nothing catches.
\<close>

definition bootstrap_main ::
  "crypto \<Rightarrow> env \<Rightarrow> bool \<Rightarrow> bootstrap_args \<Rightarrow> db \<times> file_system \<Rightarrow> nat option \<times> db \<times> file_system" where
  "bootstrap_main c e commit_ok args w =
     (let (d, fs) = w in
      if \<not> ba_confirmed args then (Some 2, d, fs)
      else case bootstrap_super_admin c e (ba_email args) (ba_display_name args)
                  (ba_workforce_id args) d of
        Inl (Token_issue _) \<Rightarrow> (None, d, fs)
      | Inl _ \<Rightarrow> (Some 2, d, fs)
      | Inr ((user_id, token), d') \<Rightarrow>
          (case write_activation_token token (ba_token_file args) default_token_directory fs of
             (Some _, fs1) \<Rightarrow> (Some 2, d, fs1)
           | (None, fs1) \<Rightarrow>
               (if commit_ok then (Some 0, d', fs1)
                else (Some 3, d, remove_token_file (ba_token_file args) fs1))))"

section \<open>What the command guarantees\<close>

lemma write_token_cases:
  assumes "write_activation_token token p dir fs = (err, fs')"
  obtains (failed) x where "err = Some x" and "fs_files fs' = fs_files fs \<or> fs_unlink_fails fs"
  | (written) "err = None" and "fs_files fs (file_key fs p) = None"
      and "fs' = fs\<lparr>fs_files := (fs_files fs)(file_key fs p \<mapsto> token @ [CHR 0x0A])\<rparr>"
      and "Some (fst (file_key fs p)) = fs_resolve fs dir"
proof (cases err)
  case (Some x)
  then have "fs_files fs' = fs_files fs \<or> fs_unlink_fails fs"
    using assms by (auto simp: write_activation_token_def Let_def unlink_def fun_upd_idem
        split: option.splits if_splits)
  with Some show thesis by (rule failed)
next
  case None
  then show thesis
    using assms by (intro written)
      (auto simp: write_activation_token_def Let_def file_key_def split: option.splits if_splits)
qed

lemma bootstrap_Inr:
  assumes "bootstrap_super_admin c e email name wid d = Inr ((i, token), d')"
    and fresh: "fresh_id e 1 \<notin> us_id ` set (users d)"
  shows "i = fresh_id e 1 \<and> token = fresh_token e 0
    \<and> \<not> list_ex is_active_super_admin (role_assignments d)
    \<and> role_assignments d' = role_assignments d @ [first_admin_role e]
    \<and> (\<exists>u. users d' = users d @ [u] \<and> us_id u = i \<and> us_active u \<and> us_password_hash u = None
         \<and> us_email u = normalize_email email \<and> bootstrap_email_ok (us_email u)
         \<and> us_email u \<notin> us_email ` set (users d) \<and> us_workforce_id u \<notin> us_workforce_id ` set (users d))
    \<and> (\<forall>t \<in> set (activation_tokens d'). tk_user_id t = i \<longrightarrow> tk_purpose t = activation_purpose
         \<longrightarrow> tk_used_at t = None \<longrightarrow> tk_token_hash t = hash_token c token)
    \<and> (\<exists>t \<in> set (activation_tokens d'). tk_user_id t = i \<and> tk_token_hash t = hash_token c token
         \<and> token_live (clk e 2) t)"
proof -
  obtain mail nm w where v: "validate_identity email name wid = Inr (mail, nm, w)"
    and no: "\<not> list_ex is_active_super_admin (role_assignments d)"
      "\<not> list_ex (\<lambda>u. us_email u = mail \<or> us_workforce_id u = w) (users d)"
    and i: "i = fresh_id e 1"
    and "\<exists>d2. issue_activation_token c e (clk e 2) (fresh_id e 1) None
        (d\<lparr>users := users d @ [new_user (fresh_id e 1) (clk e 1) w mail nm],
           role_assignments := role_assignments d @ [first_admin_role e]\<rparr>) = Inr (token, d2)
      \<and> users d' = users d2 \<and> role_assignments d' = role_assignments d2
      \<and> activation_tokens d' = activation_tokens d2"
    using assms(1) by (auto simp: bootstrap_super_admin_def Let_def new_user_def
        split: sum.splits prod.splits if_splits)
  then obtain d2 where iss: "issue_activation_token c e (clk e 2) (fresh_id e 1) None
        (d\<lparr>users := users d @ [new_user (fresh_id e 1) (clk e 1) w mail nm],
           role_assignments := role_assignments d @ [first_admin_role e]\<rparr>) = Inr (token, d2)"
    and d': "users d' = users d2" "role_assignments d' = role_assignments d2"
      "activation_tokens d' = activation_tokens d2" by auto
  have mail: "mail = normalize_email email" "bootstrap_email_ok mail"
    using v by (auto simp: validate_identity_def Let_def split: if_splits option.splits)
  have roles: "role_assignments d2 = role_assignments d @ [first_admin_role e]"
    and live: "\<exists>t \<in> set (activation_tokens d2). tk_user_id t = fresh_id e 1
      \<and> tk_token_hash t = hash_token c token \<and> token_live (clk e 2) t"
    using iss by (auto simp: issue_activation_token_def Let_def token_live_def seconds_def
        activation_max_age_def split: option.splits)
  show ?thesis
    using issue_Inr [OF iss] no i mail roles live
    by (auto simp: d' new_user_def list_ex_iff)
qed

text \<open>
  C39: The command is all or nothing. When it reports success there was no active Super Admin
  before and there is exactly the one it created, whose only usable activation token is the one
  in the token file, a file that did not exist and lies directly in the approved directory; the
  command then refuses ever to create another while that appointment stands, whatever it is given. When it
  reports a failure the database is untouched, and so are the files unless removing the file
  fails.
\<close>

theorem bootstrap_all_or_nothing:
  assumes fresh: "fresh_id e 1 \<notin> us_id ` set (users d)"
    and run: "bootstrap_main c e commit_ok args (d, fs) = (status, d', fs')"
  shows "if status = Some 0 then
      filter is_active_super_admin (role_assignments d) = []
      \<and> filter is_active_super_admin (role_assignments d') = [first_admin_role e]
      \<and> (\<exists>u. users d' = users d @ [u] \<and> us_id u = ra_user_id (first_admin_role e)
           \<and> us_email u = normalize_email (ba_email args) \<and> us_password_hash u = None)
      \<and> (\<forall>t \<in> set (activation_tokens d'). tk_user_id t = fresh_id e 1 \<longrightarrow> token_live now t
           \<longrightarrow> tk_token_hash t = hash_token c (fresh_token e 0))
      \<and> (\<exists>k. fs_files fs k = None \<and> Some (fst k) = fs_resolve fs default_token_directory
           \<and> fs_files fs' = (fs_files fs)(k \<mapsto> fresh_token e 0 @ [CHR 0x0A]))
      \<and> (\<forall>c2 e2 ok2 args2 d2 fs2. first_admin_role e \<in> set (role_assignments d2) \<longrightarrow>
           bootstrap_main c2 e2 ok2 args2 (d2, fs2) = (Some 2, d2, fs2))
    else d' = d \<and> (\<not> fs_unlink_fails fs \<longrightarrow> fs_files fs' = fs_files fs)"
proof (cases "bootstrap_super_admin c e (ba_email args) (ba_display_name args) (ba_workforce_id args) d")
  case (Inl err)
  then show ?thesis
    using run by (cases err) (auto simp: bootstrap_main_def split: if_splits)
next
  case (Inr y)
  obtain i token d1 where y: "y = ((i, token), d1)" by (metis prod.exhaust)
  note boot = Inr [unfolded y]
  note parts = bootstrap_Inr [OF boot fresh]
  obtain err fs1 where wr: "write_activation_token token (ba_token_file args) default_token_directory fs = (err, fs1)"
    by (metis prod.exhaust)
  show ?thesis
  proof (cases "ba_confirmed args")
    case False
    with run show ?thesis by (auto simp: bootstrap_main_def)
  next
    case True
    from wr show ?thesis
    proof (cases rule: write_token_cases)
      case (failed x)
      with run True boot wr show ?thesis by (auto simp: bootstrap_main_def)
    next
      case written
      show ?thesis
      proof (cases commit_ok)
        case False
        then have res: "status = Some 3" "d' = d" "fs' = remove_token_file (ba_token_file args) fs1"
          using run True boot wr written(1) by (auto simp: bootstrap_main_def)
        have "file_key fs1 (ba_token_file args) = file_key fs (ba_token_file args)"
          by (simp add: written(3) file_key_def)
        then have "\<not> fs_unlink_fails fs \<longrightarrow> fs_files fs' = fs_files fs"
          using written(2) by (simp add: res(3) remove_token_file_def unlink_def written(3) fun_upd_idem)
        with res show ?thesis by simp
      next
        case ok: True
        then have res: "status = Some 0" "d' = d1" "fs' = fs1"
          using run True boot wr written(1) by (auto simp: bootstrap_main_def)
        have again: "bootstrap_main c2 e2 ok2 args2 (d2, fs2) = (Some 2, d2, fs2)"
          if "first_admin_role e \<in> set (role_assignments d2)" for c2 e2 ok2 args2 d2 fs2
        proof -
          have "list_ex is_active_super_admin (role_assignments d2)"
            unfolding list_ex_iff using that by (rule bexI [rotated])
              (simp add: is_active_super_admin_def first_admin_role_def)
          then show ?thesis
            by (auto simp: bootstrap_main_def bootstrap_super_admin_def validate_identity_def Let_def)
        qed
        have one: "filter is_active_super_admin (role_assignments d') = [first_admin_role e]"
          using parts by (auto simp: res list_ex_iff filter_empty_conv)
            (simp_all add: is_active_super_admin_def first_admin_role_def)
        have tok: "\<exists>k. fs_files fs k = None \<and> Some (fst k) = fs_resolve fs default_token_directory
           \<and> fs_files fs' = (fs_files fs)(k \<mapsto> fresh_token e 0 @ [CHR 0x0A])"
          using written parts by (intro exI [of _ "file_key fs (ba_token_file args)"]) (simp add: res)
        have admin: "ra_user_id (first_admin_role e) = fresh_id e 1" by (simp add: first_admin_role_def)
        show ?thesis
          using parts one tok again unfolding res admin
          by (auto simp: list_ex_iff filter_empty_conv token_live_def)
      qed
    qed
  qed
qed

end
