(* ===== verification/Reporting.thy ===== *)
theory Reporting
  imports Runtime
begin

text \<open>
  Performance figures computed from the recorded call attempts (\<open>app/reporting/campaign_stats.py\<close>
  and \<open>agent_stats.py\<close>). A disposition flag is read through the join on the attempt's disposition
  row; the day of an agent begins at midnight UTC.
\<close>

datatype only_flag = All_attempts | Connected_only | Conversion_only | Dnc_only

definition has_disposition :: "db \<Rightarrow> (disposition \<Rightarrow> bool) \<Rightarrow> call_attempt \<Rightarrow> bool" where
  "has_disposition d P a =
     (case get_disposition d (at_disposition_definition_id a) of None \<Rightarrow> False | Some r \<Rightarrow> P r)"

definition flag_holds :: "db \<Rightarrow> only_flag \<Rightarrow> call_attempt \<Rightarrow> bool" where
  "flag_holds d f a =
     (case f of
        All_attempts \<Rightarrow> True
      | Connected_only \<Rightarrow> has_disposition d di_counts_as_connected a
      | Conversion_only \<Rightarrow> has_disposition d di_counts_as_conversion a
      | Dnc_only \<Rightarrow> at_explicit_dnc_requested a)"

section \<open>Campaigns\<close>

record campaign_stats =
  st_total_contacts :: nat
  st_assigned_agents :: nat
  st_total_attempts :: nat
  st_connected :: nat
  st_conversions :: nat
  st_dnc_requests :: nat

definition on_campaign :: "db \<Rightarrow> uuid \<Rightarrow> call_attempt \<Rightarrow> bool" where
  "on_campaign d campaign_id a =
     (case get_campaign_contact d (at_campaign_contact_id a) of
        None \<Rightarrow> False | Some cc \<Rightarrow> cc_campaign_id cc = campaign_id)"

definition campaign_count :: "db \<Rightarrow> uuid \<Rightarrow> only_flag \<Rightarrow> nat" where
  "campaign_count d campaign_id f =
     count_where (\<lambda>a. on_campaign d campaign_id a \<and> flag_holds d f a) (call_attempts d)"

definition get_campaign_stats :: "db \<Rightarrow> uuid \<Rightarrow> campaign_stats" where
  "get_campaign_stats d campaign_id =
     \<lparr>st_total_contacts = count_where (\<lambda>cc. cc_campaign_id cc = campaign_id) (campaign_contacts d),
      st_assigned_agents = count_where (\<lambda>a. ua_campaign_id a = campaign_id
        \<and> ua_status a = Row_active \<and> ua_effective_to a = None) (user_assignments d),
      st_total_attempts = campaign_count d campaign_id All_attempts,
      st_connected = campaign_count d campaign_id Connected_only,
      st_conversions = campaign_count d campaign_id Conversion_only,
      st_dnc_requests = campaign_count d campaign_id Dnc_only\<rparr>"

section \<open>Agents\<close>

record agent_stats =
  as_total_attempts :: nat
  as_connected :: nat
  as_conversions :: nat
  as_dnc_requests :: nat

definition agent_count :: "db \<Rightarrow> uuid \<Rightarrow> time \<Rightarrow> only_flag \<Rightarrow> nat" where
  "agent_count d agent_id since f =
     count_where (\<lambda>a. at_agent_id a = agent_id \<and> since \<le> at_created_at a \<and> flag_holds d f a)
       (call_attempts d)"

text \<open>\<open>datetime.now(UTC).replace(hour=0, minute=0, second=0, microsecond=0)\<close>\<close>

definition utc_midnight :: "time \<Rightarrow> time" where
  "utc_midnight now = now div days 1 * days 1"

definition get_today_stats :: "time \<Rightarrow> uuid \<Rightarrow> db \<Rightarrow> agent_stats" where
  "get_today_stats now agent_id d =
     (let today_start = utc_midnight now in
      \<lparr>as_total_attempts = agent_count d agent_id today_start All_attempts,
       as_connected = agent_count d agent_id today_start Connected_only,
       as_conversions = agent_count d agent_id today_start Conversion_only,
       as_dnc_requests = agent_count d agent_id today_start Dnc_only\<rparr>)"

section \<open>What the figures are\<close>

lemma utc_midnight_bounds: "utc_midnight now \<le> now \<and> now < utc_midnight now + days 1"
proof -
  have "now div days 1 * days 1 + now mod days 1 = now" by (rule div_mult_mod_eq)
  moreover have "0 \<le> now mod days 1 \<and> now mod days 1 < days 1" by (simp add: days_def)
  ultimately show ?thesis unfolding utc_midnight_def by linarith
qed

lemma count_where_mono: "(\<And>x. P x \<Longrightarrow> Q x) \<Longrightarrow> count_where P xs \<le> count_where Q xs"
  by (induction xs) (auto simp: count_where_def)

lemma count_where_swap:
  "distinct ks \<Longrightarrow> \<forall>x \<in> set xs. P x \<longrightarrow> f x \<in> set ks
   \<Longrightarrow> (\<Sum>k\<leftarrow>ks. count_where (\<lambda>x. f x = k \<and> P x) xs) = count_where P xs"
proof (induction xs)
  case Nil
  then show ?case by (simp add: count_where_def)
next
  case (Cons x xs)
  have one: "(\<Sum>k\<leftarrow>ks. if f x = k \<and> P x then 1 else 0 :: nat) = (if P x then 1 else 0)"
    if "P x \<longrightarrow> f x \<in> set ks"
  proof (cases "P x")
    case True
    then have "(\<Sum>k\<leftarrow>ks. if f x = k \<and> P x then 1 else 0 :: nat) = (\<Sum>k\<in>set ks. if f x = k then 1 else 0)"
      using Cons.prems(1) by (simp add: sum_list_distinct_conv_sum_set)
    also have "\<dots> = 1" using that True by (simp add: sum.delta)
    finally show ?thesis using True by simp
  qed simp
  have "count_where (\<lambda>x. f x = k \<and> P x) (x # xs)
      = (if f x = k \<and> P x then 1 else 0) + count_where (\<lambda>x. f x = k \<and> P x) xs" for k
    by (simp add: count_where_def)
  then have "(\<Sum>k\<leftarrow>ks. count_where (\<lambda>x. f x = k \<and> P x) (x # xs))
      = (\<Sum>k\<leftarrow>ks. if f x = k \<and> P x then 1 else 0) + (\<Sum>k\<leftarrow>ks. count_where (\<lambda>x. f x = k \<and> P x) xs)"
    by (simp add: sum_list_addf)
  also have "\<dots> = count_where P (x # xs)"
    using Cons one by (simp add: count_where_def)
  finally show ?case .
qed

text \<open>
  The figures of all agents of a day add up: for every kind of attempt the sum over the agents is
  the number of attempts recorded since midnight, so an attempt is counted for exactly one agent.
\<close>

theorem agents_add_up:
  assumes "distinct agents"
    and "\<forall>a \<in> set (call_attempts d). utc_midnight now \<le> at_created_at a \<longrightarrow> at_agent_id a \<in> set agents"
  shows "(\<Sum>i\<leftarrow>agents. agent_count d i (utc_midnight now) f) =
    count_where (\<lambda>a. utc_midnight now \<le> at_created_at a \<and> flag_holds d f a) (call_attempts d)"
  unfolding agent_count_def using assms by (intro count_where_swap) auto

text \<open>No figure of a campaign exceeds its number of attempts.\<close>

lemma campaign_count_le: "campaign_count d i f \<le> st_total_attempts (get_campaign_stats d i)"
  by (simp add: get_campaign_stats_def campaign_count_def) (rule count_where_mono, simp add: flag_holds_def)

end
