(* ===== verification/Service_Witnesses.thy ===== *)
theory Service_Witnesses
  imports Gamification Export Standardize Bootstrap Reporting Campaign_Witnesses
begin

text \<open>
  The theorems about progress and awards, the export, the reports and the operator commands at
  concrete inputs.
\<close>

section \<open>Gamification and reports\<close>

definition resolved_contact :: campaign_contact where
  "resolved_contact = (sample_campaign_contact 1 1)\<lparr>cc_completed_at := Some 500\<rparr>"

definition progress_db :: db where
  "progress_db = sample_db\<lparr>campaign_contacts :=
     replicate 29 resolved_contact @ replicate 71 (sample_campaign_contact 2 2)\<rparr>"

lemma count_where_replicate: "count_where P (replicate n x) = (if P x then n else 0)"
  by (simp add: count_where_def)

lemma progress_counts:
  "count_where (\<lambda>x. cc_campaign_id x = 1 \<and> cc_completed_at x \<noteq> None) (campaign_contacts progress_db) = 29"
  "count_where (\<lambda>x. cc_campaign_id x = 1) (campaign_contacts progress_db) = 100"
  by (simp_all add: progress_db_def count_where_replicate resolved_contact_def sample_campaign_contact_def)

lemma progress_campaign: "get_campaign progress_db 1 = Some sample_campaign"
  by (simp add: get_campaign_def row_get_def progress_db_def sample_db_def sample_campaign_def empty_db_def)

lemma campaign_percentage_witness:
  "\<exists>g. get_campaign_progress progress_db 1 = Some g \<and> cp_progress_percent g = 28
     \<and> 29 \<le> cp_progress_percent g + 1"
proof -
  obtain g where g: "get_campaign_progress progress_db 1 = Some g" and n: "cp_resolved_contacts g = 29"
      "cp_total_contacts g = 100" "cp_progress_percent g = 28"
    using progress_counts progress_campaign
    by (simp add: get_campaign_progress_def percent_29_of_100)
  have "cp_total_contacts g \<le> 2 ^ 45" by (simp add: n)
  from campaign_percentage [OF g this] g n show ?thesis by simp
qed

definition attempt_of :: "uuid \<Rightarrow> uuid \<Rightarrow> call_attempt" where
  "attempt_of i contact = \<lparr>at_id = i, at_work_item_id = 1, at_campaign_contact_id = contact,
     at_agent_id = 7, at_campaign_user_assignment_id = None, at_disposition_definition_id = 1,
     at_semantic_outcome = ''sale'', at_notes_ciphertext = None,
     at_self_reported_duration_seconds = None, at_explicit_dnc_requested = False,
     at_callback_at = None, at_idempotency_key = ''k'', at_resulting_work_item_state = Completed,
     at_correction_of_attempt_id = None, at_created_at = 90000000000, at_source_lease_reason = None,
     at_resulting_lease_id = None, at_resulting_lease_expires_at = None\<rparr>"

lemma achievements_are_earned_once_witness:
  "\<exists>d'. refresh_agent_achievements (\<lambda>i. 5) 7 (sample_db\<lparr>call_attempts := [attempt_of 1 1]\<rparr>)
       = ([''first_outcome''], d')
     \<and> refresh_agent_achievements (\<lambda>i. 9) 7 d' = ([], d')"
proof -
  obtain d' where run: "refresh_agent_achievements (\<lambda>i. 5) 7 (sample_db\<lparr>call_attempts := [attempt_of 1 1]\<rparr>)
       = ([''first_outcome''], d')"
    by (simp add: refresh_agent_achievements_def earned_def Let_def distinct_contacts_def attempt_of_def
        insert_achievement_def holds_def sample_db_def empty_db_def)
  from achievements_are_earned_once [OF run, of "\<lambda>i. 9"] run show ?thesis by blast
qed

lemma agents_add_up_witness:
  "(\<Sum>i\<leftarrow>[7, 8]. agent_count (sample_db\<lparr>call_attempts := [attempt_of 1 1, attempt_of 2 1]\<rparr>) i
      (utc_midnight 90000000001) All_attempts) = 2"
  using agents_add_up [of "[7, 8]" "sample_db\<lparr>call_attempts := [attempt_of 1 1, attempt_of 2 1]\<rparr>"
      90000000001 All_attempts]
  by (simp add: attempt_of_def count_where_def flag_holds_def utc_midnight_def days_def)

section \<open>The export\<close>

definition plain_workbook :: workbook_lib where
  "plain_workbook = \<lparr>wb_save = (\<lambda>sheets. concat (concat (concat (map sh_rows sheets)))),
     wb_isoformat = (\<lambda>t. ''1970'')\<rparr>"

definition exported_campaign :: campaign where
  "exported_campaign = sample_campaign\<lparr>ca_status := Campaign_completed, ca_completed_at := Some 600\<rparr>"


section \<open>The operator commands\<close>

lemma apply_is_idempotent_witness:
  "\<exists>result d'. apply_to_campaign sample_env draft_campaign 1 ''pilot'' draft_db = Inr (result, d')
     \<and> kl_classification result = Already_policy_v1"
proof -
  have ca: "get_campaign draft_db 1 = Some draft_campaign"
    by (simp add: get_campaign_def row_get_def draft_db_def draft_campaign_def sample_campaign_def)
  obtain rows d1 where "install_standard_dispositions sample_env draft_campaign 1 None None draft_db
      = Inr (rows, d1)"
    using installed_policy_valid [of draft_db sample_env draft_campaign 1 None None]
    by (auto simp: draft_db_def draft_campaign_def delays_ok_def)
  moreover have "kl_classification (classify_campaign draft_db draft_campaign) = New_empty_draft"
    by (simp add: classified_new draft_db_def draft_campaign_def)
  ultimately obtain result d' where run: "apply_to_campaign sample_env draft_campaign 1 ''pilot'' draft_db
      = Inr (result, d')"
    by (simp add: apply_to_campaign_def Let_def)
  from apply_is_idempotent [OF ca run] run show ?thesis by blast
qed

definition bootstrap_files :: file_system where
  "bootstrap_files = \<lparr>fs_files = Map.empty, fs_resolve = Some, fs_open_fails = False,
     fs_write_fails = False, fs_unlink_fails = False\<rparr>"

definition bootstrap_input :: bootstrap_args where
  "bootstrap_input = \<lparr>ba_email = ''Root@x.org'', ba_display_name = ''Root'', ba_workforce_id = None,
     ba_token_file = \<lparr>pa_absolute = True, pa_parent = default_token_directory, pa_name = ''token''\<rparr>,
     ba_confirmed = True\<rparr>"

lemma bootstrap_all_or_nothing_witness:
  "\<exists>d' fs'. bootstrap_main sample_crypto sample_env True bootstrap_input (empty_db, bootstrap_files)
       = (Some 0, d', fs')
     \<and> filter is_active_super_admin (role_assignments d') = [first_admin_role sample_env]
     \<and> bootstrap_main sample_crypto sample_env True bootstrap_input (d', fs') = (Some 2, d', fs')"
proof -
  have valid: "validate_identity ''Root@x.org'' ''Root'' None = Inr (''root@x.org'', ''Root'', ''root'')"
    by code_simp
  obtain d' fs' where run: "bootstrap_main sample_crypto sample_env True bootstrap_input
      (empty_db, bootstrap_files) = (Some 0, d', fs')"
    by (simp add: bootstrap_main_def bootstrap_input_def bootstrap_super_admin_def valid Let_def
        issue_activation_token_def get_user_def row_get_def new_user_def write_activation_token_def
        bootstrap_files_def empty_db_def)
  have "fresh_id sample_env 1 \<notin> us_id ` set (users empty_db)" by (simp add: empty_db_def)
  note all = bootstrap_all_or_nothing [OF this run, of 0, unfolded if_P [OF refl]]
  then have one: "filter is_active_super_admin (role_assignments d') = [first_admin_role sample_env]"
    by (elim conjE)
  then have "first_admin_role sample_env \<in> set (filter is_active_super_admin (role_assignments d'))"
    by simp
  then have "first_admin_role sample_env \<in> set (role_assignments d')" by simp
  with all have "bootstrap_main sample_crypto sample_env True bootstrap_input (d', fs') = (Some 2, d', fs')"
    by (elim conjE allE) (erule mp)
  with run one show ?thesis by blast
qed

end
