(* ===== verification/Http.thy ===== *)
theory Http
  imports Auth_Flows Wf_Reverse Directory Gamification
begin

text \<open>
  What the endpoints of the API share: the site they run on (the rate limiter's Redis, the
  database, the upload storage, the queue of the Celery worker), the context of a call, the gates
  in front of every handler, and how a handler answers. A handler that raises leaves the
  transaction uncommitted, so the refused site is the one the gates left. Where a handler passes
  the text of an exception on, the reply carries the name of its class; a detail that is a
  dictionary is represented by its code. The body of a reply is the row the response model
  projects. The gates read the clock at 0 and 1, a handler from 2 on, the service it calls from 8
  on.
\<close>

section \<open>The site and the context of a call\<close>

datatype task =
  Parse_import_job uuid import_columns | Parse_workforce_import_job uuid | Refresh_achievements uuid

record site =
  si_redis :: redis
  si_db :: db
  si_storage :: storage
  si_tasks :: "task list"

record call =
  cx_crypto :: crypto
  cx_settings :: settings
  cx_str_uuid :: "uuid \<Rightarrow> string"
  cx_redis_up :: "nat \<Rightarrow> bool"
  cx_files :: file_lib
  cx_env :: env
  cx_request :: request

definition handler_now :: "call \<Rightarrow> nat \<Rightarrow> time" where
  "handler_now x i = clk (cx_env x) (2 + i)"

definition service_env :: "call \<Rightarrow> env" where
  "service_env x = (cx_env x)\<lparr>clk := \<lambda>i. clk (cx_env x) (8 + i)\<rparr>"

definition enqueue :: "task \<Rightarrow> site \<Rightarrow> site" where
  "enqueue t s = s\<lparr>si_tasks := si_tasks s @ [t]\<rparr>"

section \<open>Gates and answers\<close>

definition authenticated :: "call \<Rightarrow> gate list \<Rightarrow> world \<Rightarrow> (session \<times> user) reply \<times> world" where
  "authenticated x gates =
     with_user (cx_crypto x) (cx_settings x) (cx_str_uuid x) (cx_env x) (cx_request x) gates True
       (\<lambda>row u w. (Reply (row, u), w))"

type_synonym 'a handler = "session \<Rightarrow> user \<Rightarrow> site \<Rightarrow> 'a reply \<times> site"

definition endpoint :: "call \<Rightarrow> gate list \<Rightarrow> 'a handler \<Rightarrow> site \<Rightarrow> 'a reply \<times> site" where
  "endpoint x gates h s =
     (case authenticated x gates (si_redis s, si_db s) of
        (answer, r, d) \<Rightarrow>
          let s1 = s\<lparr>si_redis := r, si_db := d\<rparr> in
          (case answer of
             Reply (row, u) \<Rightarrow> h row u s1
           | Http_error st detail \<Rightarrow> (Http_error st detail, s1)
           | Server_error \<Rightarrow> (Server_error, s1)))"

text \<open>
  \<open>except (A, B) as exc: raise HTTPException(st, ...)\<close>: the classes a handler catches, with the
  status and the detail it answers; any other exception is a server error.
\<close>

definition raised_as :: "nat \<Rightarrow> string list \<Rightarrow> (string \<times> nat \<times> string) list" where
  "raised_as st classes = map (\<lambda>c. (c, st, c)) classes"

definition caught :: "(string \<times> nat \<times> string) list \<Rightarrow> string \<Rightarrow> 'a reply" where
  "caught clauses cls =
     (case map_of clauses cls of
        None \<Rightarrow> Server_error
      | Some (st, detail) \<Rightarrow> Http_error st detail)"

text \<open>A service call, its \<open>except\<close> clauses and the commit that follows it.\<close>

definition committed ::
  "('e \<Rightarrow> string) \<Rightarrow> (string \<times> nat \<times> string) list \<Rightarrow> ('e, 'a, db) outcome \<Rightarrow> site \<Rightarrow> 'a reply \<times> site" where
  "committed cls clauses r s =
     (case r of
        Inl err \<Rightarrow> (caught clauses (cls err), s)
      | Inr (y, d) \<Rightarrow> (Reply y, s\<lparr>si_db := d\<rparr>))"

definition commit :: "'a \<times> db \<Rightarrow> site \<Rightarrow> 'a reply \<times> site" where
  "commit r s = (Reply (fst r), s\<lparr>si_db := snd r\<rparr>)"

definition not_authorized :: "site \<Rightarrow> 'a reply \<times> site" where
  "not_authorized s = (Http_error 403 ''not authorized'', s)"

lemma caught_refuses [simp]: "caught clauses cls \<noteq> Reply y" "Reply y \<noteq> caught clauses cls"
  by (simp_all add: caught_def split: option.splits prod.splits)

lemma committed_Reply [simp]:
  "committed cls clauses r s = (Reply y, s') \<longleftrightarrow> (\<exists>d. r = Inr (y, d) \<and> s' = s\<lparr>si_db := d\<rparr>)"
  by (auto simp: committed_def split: sum.splits)

lemma committed_refused:
  "committed cls clauses r s = (answer, s') \<Longrightarrow> \<forall>y. answer \<noteq> Reply y \<Longrightarrow> s' = s"
  by (auto simp: committed_def split: sum.splits)

lemma commit_Reply [simp]:
  "commit r s = (answer, s') \<longleftrightarrow> answer = Reply (fst r) \<and> s' = s\<lparr>si_db := snd r\<rparr>"
  by (auto simp: commit_def)

lemma not_authorized_refuses [simp]:
  "not_authorized s = (answer, s') \<longleftrightarrow> answer = Http_error 403 ''not authorized'' \<and> s' = s"
  by (auto simp: not_authorized_def)

section \<open>The contract of a guarded handler\<close>

text \<open>
  A careful handler leaves the site as it was when it refuses, but for the counters of the limiter.
  A guarded one also answers only when its policy grants the request to the user; the policy does
  not look at the sessions, whose deadline the gates have just slid.
\<close>

locale careful_handler =
  fixes h :: "'a handler"
  assumes refused: "h row u s = (answer, s') \<Longrightarrow> \<forall>y. answer \<noteq> Reply y
                      \<Longrightarrow> s' = s\<lparr>si_redis := si_redis s'\<rparr>"

locale guarded_handler = careful_handler h for h :: "'a handler" +
  fixes P :: "user \<Rightarrow> db \<Rightarrow> bool"
  assumes granted: "h row u s = (Reply y, s') \<Longrightarrow> P u (si_db s)"
    and blind: "P u (d\<lparr>sessions := ss\<rparr>) = P u d"

text \<open>Authority is decided without looking at the sessions.\<close>

lemma get_campaign_blind [simp]: "get_campaign (d\<lparr>sessions := ss\<rparr>) = get_campaign d"
  by (intro ext) (simp add: get_campaign_def)

lemma get_user_blind [simp]: "get_user (d\<lparr>sessions := ss\<rparr>) = get_user d"
  by (intro ext) (simp add: get_user_def)

lemma effective_role_assignments_blind [simp]: "effective_role_assignments (d\<lparr>sessions := ss\<rparr>) = effective_role_assignments d"
  by (intro ext) (simp add: effective_role_assignments_def)

lemma role_capability_grants_blind [simp]: "role_capability_grants (d\<lparr>sessions := ss\<rparr>) = role_capability_grants d"
  by (intro ext) (simp add: role_capability_grants_def)

lemma active_delegations_blind [simp]: "active_delegations (d\<lparr>sessions := ss\<rparr>) = active_delegations d"
  by (intro ext) (simp add: active_delegations_def)

lemma active_team_organization_blind [simp]: "active_team_organization (d\<lparr>sessions := ss\<rparr>) = active_team_organization d"
  by (intro ext) (simp add: active_team_organization_def)

lemma scope_assignment_covers_target_blind [simp]: "scope_assignment_covers_target (d\<lparr>sessions := ss\<rparr>) = scope_assignment_covers_target d"
  by (intro ext) (simp add: scope_assignment_covers_target_def Let_def cong: option.case_cong if_cong)

lemma has_scope_capability_via_role_blind [simp]: "has_scope_capability_via_role (d\<lparr>sessions := ss\<rparr>) = has_scope_capability_via_role d"
  by (intro ext) (simp add: has_scope_capability_via_role_def)

lemma delegation_still_backed_blind [simp]: "delegation_still_backed (d\<lparr>sessions := ss\<rparr>) = delegation_still_backed d"
  by (intro ext) (simp add: delegation_still_backed_def)

lemma capability_grants_blind [simp]: "capability_grants (d\<lparr>sessions := ss\<rparr>) = capability_grants d"
  by (intro ext) (simp add: capability_grants_def)

lemma has_capability_blind [simp]: "has_capability (d\<lparr>sessions := ss\<rparr>) = has_capability d"
  by (intro ext) (simp add: has_capability_def)

lemma has_assigned_capability_blind [simp]: "has_assigned_capability (d\<lparr>sessions := ss\<rparr>) = has_assigned_capability d"
  by (intro ext) (simp add: has_assigned_capability_def)

lemma has_scope_capability_blind [simp]: "has_scope_capability (d\<lparr>sessions := ss\<rparr>) = has_scope_capability d"
  by (intro ext) (simp add: has_scope_capability_def)

lemma organization_team_ids_blind [simp]: "organization_team_ids (d\<lparr>sessions := ss\<rparr>) = organization_team_ids d"
  by (intro ext) (simp add: organization_team_ids_def)

lemma team_on_campaign_blind [simp]: "team_on_campaign (d\<lparr>sessions := ss\<rparr>) = team_on_campaign d"
  by (intro ext) (simp add: team_on_campaign_def)

lemma campaign_scope_filter_blind [simp]: "campaign_scope_filter (d\<lparr>sessions := ss\<rparr>) = campaign_scope_filter d"
  by (intro ext) (simp add: campaign_scope_filter_def)

lemma has_campaign_capability_blind [simp]: "has_campaign_capability (d\<lparr>sessions := ss\<rparr>) = has_campaign_capability d"
  by (intro ext) (simp add: has_campaign_capability_def)

lemma can_manage_user_blind [simp]: "can_manage_user (d\<lparr>sessions := ss\<rparr>) = can_manage_user d"
  by (intro ext) (simp add: can_manage_user_def Let_def cong: option.case_cong if_cong)

lemma can_view_admin_directory_blind [simp]: "can_view_admin_directory (d\<lparr>sessions := ss\<rparr>) = can_view_admin_directory d"
  by (intro ext) (simp add: can_view_admin_directory_def)

lemma appointment_grants_blind [simp]: "appointment_grants (d\<lparr>sessions := ss\<rparr>) = appointment_grants d"
  by (intro ext) (simp add: appointment_grants_def)

lemma visible_team_ids_blind [simp]: "visible_team_ids (d\<lparr>sessions := ss\<rparr>) = visible_team_ids d"
  by (intro ext) (simp add: visible_team_ids_def Let_def cong: option.case_cong if_cong)

lemma directory_scope_blind [simp]: "directory_scope (d\<lparr>sessions := ss\<rparr>) = directory_scope d"
  by (intro ext) (simp add: directory_scope_def)

lemma member_of_blind [simp]: "member_of (d\<lparr>sessions := ss\<rparr>) = member_of d"
  by (intro ext) (simp add: member_of_def)

lemma user_in_admin_scope_blind [simp]: "user_in_admin_scope (d\<lparr>sessions := ss\<rparr>) = user_in_admin_scope d"
  by (intro ext) (simp add: user_in_admin_scope_def)

definition sessions_only :: "db \<Rightarrow> db \<Rightarrow> bool" where
  "sessions_only d d' \<longleftrightarrow> d' = d\<lparr>sessions := sessions d'\<rparr>"

lemma sessions_only_refl [simp]: "sessions_only d d" by (simp add: sessions_only_def)

lemma sessions_only_put [simp]: "sessions_only d (put_session_row row d)"
  by (simp add: sessions_only_def put_session_row_def)

lemma with_session_frame:
  assumes "with_session c cfg su e rq gates h w = (answer, w')" and "\<forall>x. answer \<noteq> Reply x"
    and "\<And>row v a v'. h row v = (a, v') \<Longrightarrow> \<forall>x. a \<noteq> Reply x \<Longrightarrow> v' = v"
  shows "fst w' = fst w \<and> sessions_only (snd w) (snd w')"
proof (cases "load_session c cfg (clk e 0) (rq_cookie rq) (snd w)")
  case (Pair loaded d)
  show ?thesis
  proof (cases loaded)
    case None
    then show ?thesis using assms(1) Pair
      by (auto simp: with_session_def get_current_session_def)
  next
    case (Some row)
    with Pair have "d = put_session_row row (snd w)" by (auto elim: load_session_Some)
    with assms(1,2) Pair Some show ?thesis
      by (cases w) (auto simp: with_session_def get_current_session_def split: option.splits dest!: assms(3))
  qed
qed

lemma authenticated_refused:
  assumes "authenticated x gates w = (answer, w')" and "\<forall>y. answer \<noteq> Reply y"
  shows "fst w' = fst w \<and> sessions_only (snd w) (snd w')"
  using assms(1)[unfolded authenticated_def with_user_def] assms(2)
  by (rule with_session_frame) (auto split: sum.splits if_splits)

text \<open>
  What a live, fully enrolled session behind a call is: the row as stored, the row with its idle
  deadline slid, and the person it belongs to.
\<close>

definition live_session :: "call \<Rightarrow> gate list \<Rightarrow> db \<Rightarrow> session \<Rightarrow> session \<Rightarrow> user \<Rightarrow> bool" where
  "live_session x gates d row0 row u \<longleftrightarrow>
     row0 \<in> set (sessions d) \<and> row = slide (cx_settings x) (clk (cx_env x) 0) row0
     \<and> (\<exists>t. rq_cookie (cx_request x) = Some t \<and> ss_token_hash row0 = hash_token (cx_crypto x) t)
     \<and> ss_revoked_at row0 = None \<and> clk (cx_env x) 0 < ss_absolute_expires_at row0
     \<and> get_user d (ss_user_id row) = Some u \<and> us_active u \<and> us_totp_enrolled u
     \<and> ss_mfa_state row = mfa_satisfied
     \<and> (\<forall>g \<in> set gates. check_gate (cx_crypto x) (cx_settings x) (cx_str_uuid x)
          (clk (cx_env x) 1) (cx_request x) row g = None)"

lemma authenticated_Reply:
  assumes "authenticated x gates w = (Reply (row, u), w')"
  obtains row0 where "live_session x gates (snd w) row0 row u"
    and "w' = (fst w, put_session_row row (snd w))"
proof -
  from assms obtain row0 row1 u1 where a: "row0 \<in> set (sessions (snd w))"
    "row1 = slide (cx_settings x) (clk (cx_env x) 0) row0"
    "\<exists>t. rq_cookie (cx_request x) = Some t \<and> ss_token_hash row0 = hash_token (cx_crypto x) t"
    "ss_revoked_at row0 = None" "clk (cx_env x) 0 < ss_absolute_expires_at row0"
    "get_user (snd w) (ss_user_id row1) = Some u1" "us_active u1"
    "us_totp_enrolled u1 \<and> ss_mfa_state row1 = mfa_satisfied"
    "\<forall>g \<in> set gates. check_gate (cx_crypto x) (cx_settings x) (cx_str_uuid x)
       (clk (cx_env x) 1) (cx_request x) row1 g = None"
    "(Reply (row1, u1), fst w, put_session_row row1 (snd w)) = (Reply (row, u), w')"
    unfolding authenticated_def by (rule handler_runs_authenticated) blast
  then have "row1 = row" "u1 = u" "w' = (fst w, put_session_row row (snd w))" by auto
  with a show thesis by (intro that [of row0]) (simp_all add: live_session_def)
qed

text \<open>
  What the contract gives for the endpoint: an answer went to a live session whose user the
  policy allows, and a refused request changed nothing but the idle deadline of the session and
  the counters.
\<close>

definition mediated ::
  "call \<Rightarrow> gate list \<Rightarrow> (user \<Rightarrow> db \<Rightarrow> bool) \<Rightarrow> (site \<Rightarrow> 'a reply \<times> site) \<Rightarrow> bool" where
  "mediated x gates P f \<longleftrightarrow>
     (\<forall>s y s'. f s = (Reply y, s') \<longrightarrow>
        (\<exists>row0 row u. live_session x gates (si_db s) row0 row u \<and> P u (si_db s)))
     \<and> (\<forall>s answer s'. f s = (answer, s') \<longrightarrow> (\<forall>y. answer \<noteq> Reply y) \<longrightarrow>
        (\<exists>d r. sessions_only (si_db s) d \<and> s' = s\<lparr>si_db := d, si_redis := r\<rparr>))"

context careful_handler
begin

lemma endpoint_refused:
  assumes "endpoint x gates h s = (answer, s')" and "\<forall>y. answer \<noteq> Reply y"
  shows "\<exists>d r. sessions_only (si_db s) d \<and> s' = s\<lparr>si_db := d, si_redis := r\<rparr>"
proof -
  obtain a w where auth: "authenticated x gates (si_redis s, si_db s) = (a, w)"
    by (rule prod.exhaust)
  show ?thesis
  proof (cases "\<exists>v. a = Reply v")
    case True
    then obtain row u where v: "a = Reply (row, u)" by fastforce
    from auth[unfolded v] have w: "fst w = si_redis s" "sessions_only (si_db s) (snd w)"
      by (auto elim: authenticated_Reply)
    from assms(1) auth v have "h row u (s\<lparr>si_redis := fst w, si_db := snd w\<rparr>) = (answer, s')"
      by (cases w) (simp add: endpoint_def Let_def)
    from refused [OF this assms(2)] w show ?thesis
      by (intro exI [of _ "snd w"] exI [of _ "si_redis s'"]) (simp add: prod_eq_iff)
  next
    case False
    with auth have "fst w = si_redis s \<and> sessions_only (si_db s) (snd w)"
      by (auto dest!: authenticated_refused)
    with assms(1) auth False show ?thesis
      by (cases w, intro exI [of _ "snd w"] exI [of _ "si_redis s"])
        (auto simp: endpoint_def Let_def split: reply.splits)
  qed
qed

end

context guarded_handler
begin

lemma endpoint_granted:
  assumes "endpoint x gates h s = (Reply y, s')"
  obtains row0 row u where "live_session x gates (si_db s) row0 row u" and "P u (si_db s)"
    and "h row u (s\<lparr>si_db := put_session_row row (si_db s)\<rparr>) = (Reply y, s')"
proof -
  obtain answer w where a: "authenticated x gates (si_redis s, si_db s) = (answer, w)"
    by (rule prod.exhaust)
  with assms obtain row u where r: "answer = Reply (row, u)"
    and h: "h row u (s\<lparr>si_redis := fst w, si_db := snd w\<rparr>) = (Reply y, s')"
    by (auto simp: endpoint_def Let_def split: reply.splits prod.splits)
  from a[unfolded r] show thesis
  proof (rule authenticated_Reply)
    fix row0
    assume live: "live_session x gates (snd (si_redis s, si_db s)) row0 row u"
      and w: "w = (fst (si_redis s, si_db s), put_session_row row (snd (si_redis s, si_db s)))"
    from h w have h': "h row u (s\<lparr>si_db := put_session_row row (si_db s)\<rparr>) = (Reply y, s')" by simp
    from granted [OF h'] have "P u (si_db s)" by (simp add: put_session_row_def blind)
    with h' live show thesis by (intro that [of row0 row u]) simp_all
  qed
qed

lemma mediated: "mediated x gates P (endpoint x gates h)"
  unfolding mediated_def
proof (intro conjI allI impI)
  fix s y s'
  assume "endpoint x gates h s = (Reply y, s')"
  then show "\<exists>row0 row u. live_session x gates (si_db s) row0 row u \<and> P u (si_db s)"
    by (rule endpoint_granted) blast
next
  fix s answer s'
  assume "endpoint x gates h s = (answer, s')" and "\<forall>y. answer \<noteq> Reply y"
  then show "\<exists>d r. sessions_only (si_db s) d \<and> s' = s\<lparr>si_db := d, si_redis := r\<rparr>"
    by (rule endpoint_refused)
qed

end

section \<open>Building blocks\<close>

text \<open>How a handler is put together, so that being careful follows from its shape.\<close>

named_theorems careful

lemma careful_committed [careful]: "careful_handler (\<lambda>row u s. committed cls clauses (f row u s) s)"
  by unfold_locales (auto dest: committed_refused)

lemma careful_commit [careful]: "careful_handler (\<lambda>row u s. commit (f row u s) s)"
  by unfold_locales auto

lemma careful_answer [careful]: "careful_handler (\<lambda>row u s. (Reply (f row u s), g row u s))"
  by unfold_locales auto

lemma careful_refusal [careful]:
  "careful_handler (\<lambda>row u s. (Http_error (st row u s) (detail row u s), s))"
  "careful_handler (\<lambda>row u s. (caught clauses (cls row u s), s))"
  "careful_handler (\<lambda>row u s. (Server_error, s))"
  "careful_handler (\<lambda>row u s. not_authorized s)"
  by (unfold_locales; auto)+

lemma careful_if [careful]:
  assumes "careful_handler h" and "careful_handler k"
  shows "careful_handler (\<lambda>row u s. if b row u s then h row u s else k row u s)"
  by unfold_locales (auto split: if_splits intro: careful_handler.refused [OF assms(1)]
      careful_handler.refused [OF assms(2)])

lemma careful_option [careful]:
  assumes "careful_handler h" and "\<And>a. careful_handler (k a)"
  shows "careful_handler (\<lambda>row u s. case f row u s of None \<Rightarrow> h row u s | Some a \<Rightarrow> k a row u s)"
  by unfold_locales (auto split: option.splits intro: careful_handler.refused [OF assms(1)]
      careful_handler.refused [OF assms(2)])

lemma careful_sum [careful]:
  assumes "\<And>err. careful_handler (h err)" and "\<And>a. careful_handler (k a)"
  shows "careful_handler (\<lambda>row u s. case f row u s of Inl err \<Rightarrow> h err row u s | Inr a \<Rightarrow> k a row u s)"
  by unfold_locales (auto split: sum.splits intro: careful_handler.refused [OF assms(1)]
      careful_handler.refused [OF assms(2)])

lemma careful_prod [careful]:
  assumes "\<And>a b. careful_handler (k a b)"
  shows "careful_handler (\<lambda>row u s. case f row u s of (a, b) \<Rightarrow> k a b row u s)"
  by unfold_locales (auto split: prod.splits intro: careful_handler.refused [OF assms])

text \<open>A handler behind one check of authority.\<close>

definition behind :: "(user \<Rightarrow> db \<Rightarrow> bool) \<Rightarrow> 'a handler \<Rightarrow> 'a handler" where
  "behind allowed h row u s = (if allowed u (si_db s) then h row u s else not_authorized s)"

lemma behind_guarded:
  assumes "careful_handler h" and "\<And>u d ss. allowed u (d\<lparr>sessions := ss\<rparr>) = allowed u d"
  shows "guarded_handler (behind allowed h) allowed"
proof
  show "s' = s\<lparr>si_redis := si_redis s'\<rparr>"
    if "behind allowed h row u s = (answer, s')" and "\<forall>y. answer \<noteq> Reply y" for row u s answer s'
    using that by (auto simp: behind_def split: if_splits dest: careful_handler.refused [OF assms(1)])
qed (auto simp: behind_def assms(2) split: if_splits)

section \<open>Handlers that only read\<close>

definition reader :: "(user \<Rightarrow> db \<Rightarrow> bool) \<Rightarrow> (user \<Rightarrow> db \<Rightarrow> 'a) \<Rightarrow> 'a handler" where
  "reader allowed view row u s =
     (if allowed u (si_db s) then (Reply (view u (si_db s)), s) else not_authorized s)"

interpretation reader: careful_handler "reader allowed view" for allowed view
  by unfold_locales (auto simp: reader_def split: if_splits)

lemma reader_guarded:
  assumes "\<And>u d ss. allowed u (d\<lparr>sessions := ss\<rparr>) = allowed u d"
  shows "guarded_handler (reader allowed view) allowed"
  by (intro guarded_handler.intro reader.careful_handler_axioms guarded_handler_axioms.intro)
    (auto simp: reader_def assms split: if_splits)

end
