(* ===== verification/Campaign_Api.thy ===== *)
theory Campaign_Api
  imports Http Reporting
begin

text \<open>
  The campaign and import API (\<open>app/api/campaigns.py\<close>): one definition per endpoint, each a
  handler behind the gates of its route. A campaign is loaded before the capability on it is
  checked, so an unknown campaign is a 404 for anybody signed in.
\<close>

section \<open>Exceptions\<close>

fun flag_exception :: "flag_error \<Rightarrow> string" where
  "flag_exception (Feature_disabled k) = ''FeatureDisabledError''"
| "flag_exception (Unknown_flag k) = ''UnknownFlag''"
| "flag_exception (Permanently_disabled_flag k) = ''PermanentlyDisabledFlag''"
| "flag_exception Invalid_reason_code = ''InvalidReasonCode''"

fun campaign_exception :: "campaign_error \<Rightarrow> string" where
  "campaign_exception Empty_code = ''InvalidCampaignCode''"
| "campaign_exception Code_too_long = ''InvalidCampaignCode''"
| "campaign_exception Code_with_whitespace = ''InvalidCampaignCode''"
| "campaign_exception (Duplicate_campaign_code c) = ''DuplicateCampaignCode''"
| "campaign_exception Only_draft_editable = ''CampaignStateError''"
| "campaign_exception (Cannot_launch st) = ''CampaignStateError''"
| "campaign_exception (Campaigns.Missing_provenance fs) = ''CampaignStateError''"
| "campaign_exception No_contacts = ''CampaignStateError''"
| "campaign_exception (Invalid_policy defects) = ''CampaignStateError''"
| "campaign_exception (Launch_disabled err) = flag_exception err"
| "campaign_exception (Cannot_pause st) = ''CampaignStateError''"
| "campaign_exception (Cannot_archive st) = ''CampaignStateError''"
| "campaign_exception (At_staffing_capacity n k) = ''CampaignAssignmentError''"
| "campaign_exception Already_has_primary = ''CampaignAssignmentError''"
| "campaign_exception Same_campaign = ''CampaignAssignmentError''"
| "campaign_exception No_primary_on_source = ''CampaignAssignmentError''"
| "campaign_exception Destination_not_active = ''CampaignAssignmentError''"
| "campaign_exception Dnc_needs_protected_code = ''DispositionPolicyError''"
| "campaign_exception Protected_code_needs_dnc = ''DispositionPolicyError''"
| "campaign_exception Unknown_next_action = ''DispositionPolicyError''"
| "campaign_exception Retry_delay_range = ''DispositionPolicyError''"
| "campaign_exception Install_needs_draft = ''DispositionPolicyError''"
| "campaign_exception Policy_already_installed = ''DispositionPolicyError''"
| "campaign_exception Dispositions_exist = ''DispositionPolicyError''"
| "campaign_exception (No_configurable_delay c) = ''DispositionPolicyError''"
| "campaign_exception Delay_needs_draft = ''CampaignStateError''"
| "campaign_exception (Not_configured c) = ''DispositionPolicyError''"
| "campaign_exception (Campaign_integrity c) = ''IntegrityError''"

fun import_exception :: "import_error \<Rightarrow> string" where
  "import_exception (Import_flag err) = flag_exception err"
| "import_exception (Upload_rejected err) = ''UploadRejected''"
| "import_exception (Upload_validation err) = ''UploadValidationError''"
| "import_exception Source_file_missing = ''FileNotFoundError''"
| "import_exception (Unhandled_csv_error err) = ''Error''"
| "import_exception Job_not_found = ''ImportNotReady''"
| "import_exception Committed_under_other_key = ''ImportNotReady''"
| "import_exception (Not_ready st) = ''ImportNotReady''"
| "import_exception Stale_decision_version = ''StaleDecisionVersion''"
| "import_exception Not_approved = ''ImportNotReady''"
| "import_exception (Import_missing_provenance fs) = ''MissingProvenance''"
| "import_exception No_campaign_row = ''NoResultFound''"
| "import_exception Unknown_decision = ''ValueError''"
| "import_exception (Import_integrity c) = ''IntegrityError''"

section \<open>Loading and authorizing\<close>

definition get_team :: "db \<Rightarrow> uuid \<Rightarrow> team option" where
  "get_team d i = row_get te_id i (teams d)"

definition active_team :: "db \<Rightarrow> uuid option \<Rightarrow> bool" where
  "active_team d i =
     (case Option.bind i (get_team d) of None \<Rightarrow> False | Some t \<Rightarrow> te_status t = ''active'')"

definition active_organization :: "db \<Rightarrow> uuid \<Rightarrow> bool" where
  "active_organization d i =
     (case row_get og_id i (organizations d) of None \<Rightarrow> False | Some g \<Rightarrow> og_status g = ''active'')"

definition may_on_campaign :: "call \<Rightarrow> nat \<Rightarrow> string \<Rightarrow> campaign \<Rightarrow> user \<Rightarrow> db \<Rightarrow> bool" where
  "may_on_campaign x i capability ca u d =
     has_campaign_capability d (us_id u) capability (ca_id ca) (handler_now x i)"

definition with_campaign :: "call \<Rightarrow> string \<Rightarrow> uuid \<Rightarrow> (campaign \<Rightarrow> 'a handler) \<Rightarrow> 'a handler" where
  "with_campaign x capability campaign_id k row u s =
     (case get_campaign (si_db s) campaign_id of
        None \<Rightarrow> (Http_error 404 ''campaign not found'', s)
      | Some ca \<Rightarrow>
          (if may_on_campaign x 0 capability ca u (si_db s) then k ca row u s else not_authorized s))"

text \<open>\<open>_load_job_or_404\<close> and \<open>_require_job_capability\<close>\<close>

definition with_import_job :: "call \<Rightarrow> string \<Rightarrow> uuid \<Rightarrow> (import_job \<Rightarrow> 'a handler) \<Rightarrow> 'a handler" where
  "with_import_job x capability import_id k row u s =
     (case get_job (si_db s) import_id of
        None \<Rightarrow> (Http_error 404 ''import job not found'', s)
      | Some job \<Rightarrow> with_campaign x capability (ij_campaign_id job) (\<lambda>_. k job) row u s)"

section \<open>Creating and editing\<close>

text \<open>
  The validators of \<open>CampaignCreateRequest\<close>: a payload they refuse never reaches the handler.
\<close>

definition validated_campaign :: "campaign_request \<Rightarrow> campaign_request option" where
  "validated_campaign q =
     (if cq_owning_scope_type q \<notin> {''organization'', ''team''} then None
      else let cleaned = strip (cq_external_code q) in
        if cleaned = '''' \<or> length cleaned > 50 \<or> list_ex py_isspace cleaned then None
        else if cq_owning_scope_type q = ''team'' \<and> cq_owning_scope_id q = None then None
        else Some (q\<lparr>cq_external_code := cleaned\<rparr>))"

definition may_create_campaign :: "call \<Rightarrow> campaign_request \<Rightarrow> user \<Rightarrow> db \<Rightarrow> bool" where
  "may_create_campaign x q u d =
     has_scope_capability d (us_id u) ''create_campaign'' (cq_owning_scope_type q)
       (cq_owning_scope_id q) (handler_now x 0)"

definition invalid_owner :: "campaign_request \<Rightarrow> db \<Rightarrow> string option" where
  "invalid_owner q d =
     (if cq_owning_scope_type q = ''team''
      then (if active_team d (cq_owning_scope_id q) then None else Some ''invalid owning team'')
      else case cq_owning_scope_id q of
             None \<Rightarrow> None
           | Some i \<Rightarrow> if active_organization d i then None else Some ''invalid owning organization'')"

definition create_campaign_handler :: "call \<Rightarrow> campaign_request \<Rightarrow> campaign handler" where
  "create_campaign_handler x payload row u s =
     (case validated_campaign payload of
        None \<Rightarrow> (Http_error 422 ''validation'', s)
      | Some q \<Rightarrow>
          (if \<not> may_create_campaign x q u (si_db s) then not_authorized s
           else case invalid_owner q (si_db s) of
             Some detail \<Rightarrow> (Http_error 400 detail, s)
           | None \<Rightarrow>
               committed campaign_exception
                 (raised_as 409 [''DuplicateCampaignCode''] @ raised_as 400 [''InvalidCampaignCode''])
                 (create_campaign (service_env x) (q\<lparr>cq_created_by := us_id u\<rparr>) (si_db s)) s))"

definition create_campaign_api :: "call \<Rightarrow> campaign_request \<Rightarrow> site \<Rightarrow> campaign reply \<times> site" where
  "create_campaign_api x payload = endpoint x [Csrf] (create_campaign_handler x payload)"

text \<open>\<open>created\<close> is the \<open>created_at\<close> column the listings order by.\<close>

definition list_campaigns_api ::
  "call \<Rightarrow> (campaign \<Rightarrow> time) \<Rightarrow> nat \<Rightarrow> site \<Rightarrow> campaign list reply \<times> site" where
  "list_campaigns_api x created limit =
     endpoint x [] (reader (\<lambda>u d. has_assigned_capability d (us_id u) ''view_campaign'' (handler_now x 0))
       (\<lambda>u d. take limit (sort_key (\<lambda>ca. - created ca)
          (filter (campaign_scope_filter d (us_id u) ''view_campaign'' (handler_now x 1)) (campaigns d)))))"

definition get_campaign_api :: "call \<Rightarrow> uuid \<Rightarrow> site \<Rightarrow> campaign reply \<times> site" where
  "get_campaign_api x campaign_id =
     endpoint x [] (with_campaign x ''view_campaign'' campaign_id (\<lambda>ca row u s. (Reply ca, s)))"

definition get_campaign_stats_api :: "call \<Rightarrow> uuid \<Rightarrow> site \<Rightarrow> campaign_stats reply \<times> site" where
  "get_campaign_stats_api x campaign_id =
     endpoint x [] (with_campaign x ''view_campaign_reports'' campaign_id
       (\<lambda>ca row u s. (Reply (get_campaign_stats (si_db s) (ca_id ca)), s)))"

definition update_campaign_api :: "call \<Rightarrow> uuid \<Rightarrow> campaign_fields \<Rightarrow> site \<Rightarrow> campaign reply \<times> site" where
  "update_campaign_api x campaign_id payload =
     endpoint x [Csrf] (with_campaign x ''manage_campaign'' campaign_id (\<lambda>ca row u s.
       committed campaign_exception (raised_as 409 [''CampaignStateError''])
         (update_campaign ca (us_id u) payload (si_db s)) s))"

section \<open>Life cycle\<close>

definition launch_campaign_api :: "call \<Rightarrow> uuid \<Rightarrow> site \<Rightarrow> campaign reply \<times> site" where
  "launch_campaign_api x campaign_id =
     endpoint x [Csrf] (with_campaign x ''launch_campaign'' campaign_id (\<lambda>ca row u s.
       committed campaign_exception (raised_as 409 [''CampaignStateError'', ''FeatureDisabledError''])
         (launch_campaign (service_env x) ca (us_id u) (si_db s)) s))"

definition pause_campaign_api :: "call \<Rightarrow> uuid \<Rightarrow> site \<Rightarrow> campaign reply \<times> site" where
  "pause_campaign_api x campaign_id =
     endpoint x [Csrf] (with_campaign x ''pause_campaign'' campaign_id (\<lambda>ca row u s.
       committed campaign_exception (raised_as 409 [''CampaignStateError''])
         (pause_campaign ca (us_id u) (si_db s)) s))"

definition archive_campaign_api :: "call \<Rightarrow> uuid \<Rightarrow> site \<Rightarrow> campaign reply \<times> site" where
  "archive_campaign_api x campaign_id =
     endpoint x [Csrf] (with_campaign x ''archive_campaign'' campaign_id (\<lambda>ca row u s.
       committed campaign_exception (raised_as 409 [''CampaignStateError''])
         (archive_campaign (service_env x) ca (us_id u) (si_db s)) s))"

definition create_disposition_api ::
  "call \<Rightarrow> uuid \<Rightarrow> disposition_request \<Rightarrow> site \<Rightarrow> disposition reply \<times> site" where
  "create_disposition_api x campaign_id payload =
     endpoint x [Csrf] (with_campaign x ''manage_campaign'' campaign_id (\<lambda>ca row u s.
       committed campaign_exception (raised_as 400 [''DispositionPolicyError''])
         (create_disposition (service_env x) ca (us_id u) payload (si_db s)) s))"

section \<open>Staffing\<close>

definition assign_team_api ::
  "call \<Rightarrow> uuid \<Rightarrow> uuid \<Rightarrow> int option \<Rightarrow> site \<Rightarrow> team_assignment reply \<times> site" where
  "assign_team_api x campaign_id team_id staffing_capacity =
     endpoint x [Csrf] (with_campaign x ''manage_campaign'' campaign_id (\<lambda>ca row u s.
       if \<not> active_team (si_db s) (Some team_id) then (Http_error 400 ''invalid team'', s)
       else commit (assign_team_to_campaign (service_env x) ca team_id staffing_capacity (us_id u)
                      (si_db s)) s))"

definition list_team_assignments_api ::
  "call \<Rightarrow> (team_assignment \<Rightarrow> time) \<Rightarrow> uuid \<Rightarrow> site \<Rightarrow> team_assignment list reply \<times> site" where
  "list_team_assignments_api x created campaign_id =
     endpoint x [] (with_campaign x ''view_campaign'' campaign_id (\<lambda>ca row u s.
       (Reply (sort_key (\<lambda>a. - created a)
          (filter (\<lambda>a. ta_campaign_id a = campaign_id) (team_assignments (si_db s)))), s)))"

definition end_team_assignment_api ::
  "call \<Rightarrow> uuid \<Rightarrow> uuid \<Rightarrow> site \<Rightarrow> team_assignment reply \<times> site" where
  "end_team_assignment_api x campaign_id assignment_id =
     endpoint x [Csrf] (with_campaign x ''manage_campaign'' campaign_id (\<lambda>ca row u s.
       case row_get ta_id assignment_id (team_assignments (si_db s)) of
         None \<Rightarrow> (Http_error 404 ''team assignment not found'', s)
       | Some a \<Rightarrow>
           (if ta_campaign_id a \<noteq> campaign_id then (Http_error 404 ''team assignment not found'', s)
            else commit (end_team_assignment (service_env x) a (us_id u) (si_db s)) s)))"

record assignment_request =
  aq_agent_id :: uuid
  aq_team_id :: "uuid option"
  aq_assignment_type :: string
  aq_priority :: "int option"
  aq_allocation_percentage :: "int option"
  aq_shift_reference :: "string option"

definition invalid_team :: "uuid option \<Rightarrow> db \<Rightarrow> bool" where
  "invalid_team team_id d \<longleftrightarrow> team_id \<noteq> None \<and> \<not> active_team d team_id"

definition assign_agent_api ::
  "call \<Rightarrow> uuid \<Rightarrow> assignment_request \<Rightarrow> site \<Rightarrow> user_assignment reply \<times> site" where
  "assign_agent_api x campaign_id q =
     endpoint x [Csrf] (with_campaign x ''assign_campaign_agent'' campaign_id (\<lambda>ca row u s.
       if invalid_team (aq_team_id q) (si_db s) then (Http_error 400 ''invalid team'', s)
       else committed campaign_exception (raised_as 409 [''CampaignAssignmentError''])
         (assign_agent_to_campaign (service_env x) ca (aq_agent_id q) (aq_team_id q) (us_id u)
            (aq_assignment_type q) (aq_priority q) (aq_allocation_percentage q)
            (aq_shift_reference q) (si_db s)) s))"

definition list_agent_assignments_api ::
  "call \<Rightarrow> (user_assignment \<Rightarrow> time) \<Rightarrow> uuid \<Rightarrow> site \<Rightarrow> user_assignment list reply \<times> site" where
  "list_agent_assignments_api x created campaign_id =
     endpoint x [] (with_campaign x ''view_campaign'' campaign_id (\<lambda>ca row u s.
       (Reply (sort_key (\<lambda>a. - created a)
          (filter (\<lambda>a. ua_campaign_id a = campaign_id) (user_assignments (si_db s)))), s)))"

definition end_agent_assignment_api ::
  "call \<Rightarrow> uuid \<Rightarrow> uuid \<Rightarrow> site \<Rightarrow> user_assignment reply \<times> site" where
  "end_agent_assignment_api x campaign_id assignment_id =
     endpoint x [Csrf] (with_campaign x ''assign_campaign_agent'' campaign_id (\<lambda>ca row u s.
       case row_get ua_id assignment_id (user_assignments (si_db s)) of
         None \<Rightarrow> (Http_error 404 ''assignment not found'', s)
       | Some a \<Rightarrow>
           (if ua_campaign_id a \<noteq> campaign_id then (Http_error 404 ''assignment not found'', s)
            else commit (end_user_assignment (service_env x) a (us_id u) None (si_db s)) s)))"

record transfer_request =
  tq_agent_id :: uuid
  tq_to_campaign_id :: uuid
  tq_team_id :: "uuid option"
  tq_reason_code :: "string option"

text \<open>Both campaigns are loaded before either capability is checked.\<close>

definition transfer_handler :: "call \<Rightarrow> uuid \<Rightarrow> transfer_request \<Rightarrow> user_assignment handler" where
  "transfer_handler x campaign_id q row u s =
     (case (get_campaign (si_db s) campaign_id, get_campaign (si_db s) (tq_to_campaign_id q)) of
        (Some src, Some dst) \<Rightarrow>
          (if \<not> may_on_campaign x 0 ''assign_campaign_agent'' src u (si_db s)
              \<or> \<not> may_on_campaign x 1 ''assign_campaign_agent'' dst u (si_db s)
           then not_authorized s
           else if invalid_team (tq_team_id q) (si_db s) then (Http_error 400 ''invalid team'', s)
           else committed campaign_exception (raised_as 409 [''CampaignAssignmentError''])
             (transfer_agent (service_env x) (tq_agent_id q) src dst (tq_team_id q) (us_id u)
                (tq_reason_code q) (si_db s)) s)
      | _ \<Rightarrow> (Http_error 404 ''campaign not found'', s))"

definition transfer_agent_api ::
  "call \<Rightarrow> uuid \<Rightarrow> transfer_request \<Rightarrow> site \<Rightarrow> user_assignment reply \<times> site" where
  "transfer_agent_api x campaign_id q = endpoint x [Csrf] (transfer_handler x campaign_id q)"

section \<open>Imports\<close>

definition upload_chunk_size :: nat where "upload_chunk_size = 65536"

function read_chunks :: "string \<Rightarrow> string list" where
  "read_chunks content =
     (if content = '''' then []
      else take upload_chunk_size content # read_chunks (drop upload_chunk_size content))"
  by pat_completeness auto

termination by (relation "measure length") (auto simp: upload_chunk_size_def)

declare read_chunks.simps [simp del]

lemma concat_read_chunks [simp]: "concat (read_chunks content) = content"
proof (induction content rule: read_chunks.induct)
  case (1 content)
  then show ?case by (cases "content = ''''") (simp_all add: read_chunks.simps [of content] read_chunks.simps [of "[]"])
qed

text \<open>\<open>[c.strip() for c in metadata_columns.split(",") if c.strip()]\<close>\<close>

definition metadata_names :: "string \<Rightarrow> string list" where
  "metadata_names s = filter (\<lambda>c. c \<noteq> '''') (map strip (split_on CHR '','' s))"

record upload_form =
  uf_filename :: "string option"
  uf_content :: string
  uf_phone_column :: string
  uf_name_column :: "string option"
  uf_metadata_columns :: string

definition upload_name :: "string option \<Rightarrow> string" where
  "upload_name name = (case name of None \<Rightarrow> ''upload'' | Some n \<Rightarrow> if n = '''' then ''upload'' else n)"

text \<open>The parse task is enqueued after the commit.\<close>

definition upload_import_api :: "call \<Rightarrow> uuid \<Rightarrow> upload_form \<Rightarrow> site \<Rightarrow> import_job reply \<times> site" where
  "upload_import_api x campaign_id f =
     endpoint x [Csrf] (with_campaign x ''manage_campaign'' campaign_id (\<lambda>ca row u s.
       case create_import_job (cx_crypto x) (cx_files x) (service_env x) (cx_settings x) ca (us_id u)
              (upload_name (uf_filename f)) (read_chunks (uf_content f)) (si_storage s) (si_db s) of
         Inl err \<Rightarrow>
           (caught (raised_as 400 [''UploadRejected''] @ raised_as 409 [''FeatureDisabledError''])
              (import_exception err), s)
       | Inr (job, st, d) \<Rightarrow>
           (Reply job, enqueue (Parse_import_job (ij_id job)
              \<lparr>ic_phone = uf_phone_column f, ic_name = uf_name_column f,
               ic_metadata = metadata_names (uf_metadata_columns f)\<rparr>)
              (s\<lparr>si_storage := st, si_db := d\<rparr>))))"

definition get_import_api :: "call \<Rightarrow> uuid \<Rightarrow> site \<Rightarrow> import_job reply \<times> site" where
  "get_import_api x import_id =
     endpoint x [] (with_import_job x ''view_campaign'' import_id (\<lambda>job row u s. (Reply job, s)))"

definition preview_import_api :: "call \<Rightarrow> uuid \<Rightarrow> site \<Rightarrow> (import_job \<times> import_row list) reply \<times> site" where
  "preview_import_api x import_id =
     endpoint x [] (with_import_job x ''manage_campaign'' import_id
       (\<lambda>job row u s. (Reply (job, get_preview job (si_db s)), s)))"

definition decide_import_api ::
  "call \<Rightarrow> uuid \<Rightarrow> string \<Rightarrow> string option \<Rightarrow> site \<Rightarrow> import_decision reply \<times> site" where
  "decide_import_api x import_id decision note =
     endpoint x [Csrf] (with_import_job x ''manage_campaign'' import_id (\<lambda>job row u s.
       committed import_exception (raised_as 400 [''ValueError''])
         (record_decision (clk (service_env x) 0) (fresh_id (service_env x) 0) job (us_id u) decision
            note (si_db s)) s))"

definition commit_import_api ::
  "call \<Rightarrow> uuid \<Rightarrow> int \<Rightarrow> string \<Rightarrow> site \<Rightarrow> (nat \<times> nat) reply \<times> site" where
  "commit_import_api x import_id decision_version idempotency_key =
     endpoint x [Csrf] (with_import_job x ''manage_campaign'' import_id (\<lambda>job row u s.
       case commit_job (service_env x) (cx_settings x) (ij_id job) (us_id u) decision_version
              idempotency_key (si_db s) of
         Inl err \<Rightarrow>
           (caught [(''StaleDecisionVersion'', 409, ''stale_version''),
                    (''MissingProvenance'', 409, ''provenance_required''),
                    (''ImportNotReady'', 409, ''approval_required'')] (import_exception err), s)
       | Inr (result, d) \<Rightarrow>
           (Reply result, s\<lparr>si_db := d, si_storage := cleanup_committed_source job (si_storage s)\<rparr>)))"

section \<open>The policy of each endpoint\<close>

definition campaign_grant :: "call \<Rightarrow> string \<Rightarrow> uuid \<Rightarrow> user \<Rightarrow> db \<Rightarrow> bool" where
  "campaign_grant x capability campaign_id u d \<longleftrightarrow>
     (\<exists>ca. get_campaign d campaign_id = Some ca \<and> may_on_campaign x 0 capability ca u d)"

definition import_grant :: "call \<Rightarrow> string \<Rightarrow> uuid \<Rightarrow> user \<Rightarrow> db \<Rightarrow> bool" where
  "import_grant x capability import_id u d \<longleftrightarrow>
     (\<exists>job. get_job d import_id = Some job \<and> campaign_grant x capability (ij_campaign_id job) u d)"

lemma may_on_campaign_blind [simp]:
  "may_on_campaign x i capability ca u (d\<lparr>sessions := ss\<rparr>) = may_on_campaign x i capability ca u d"
  by (simp add: may_on_campaign_def)

lemma get_job_blind [simp]: "get_job (d\<lparr>sessions := ss\<rparr>) = get_job d"
  by (intro ext) (simp add: get_job_def)

lemma campaign_grant_blind [simp]:
  "campaign_grant x capability i u (d\<lparr>sessions := ss\<rparr>) = campaign_grant x capability i u d"
  "import_grant x capability i u (d\<lparr>sessions := ss\<rparr>) = import_grant x capability i u d"
  by (simp_all add: campaign_grant_def import_grant_def)

lemma with_campaign_careful [careful]:
  assumes "\<And>ca. careful_handler (k ca)"
  shows "careful_handler (with_campaign x capability i k)"
  by unfold_locales (auto simp: with_campaign_def split: option.splits if_splits
      dest: careful_handler.refused [OF assms])

lemma with_campaign_guarded:
  assumes "\<And>ca. careful_handler (k ca)"
  shows "guarded_handler (with_campaign x capability i k) (campaign_grant x capability i)"
  by (intro guarded_handler.intro with_campaign_careful assms guarded_handler_axioms.intro)
    (auto simp: with_campaign_def campaign_grant_def split: option.splits if_splits)

lemma with_import_job_guarded:
  assumes "\<And>job. careful_handler (k job)"
  shows "guarded_handler (with_import_job x capability i k) (import_grant x capability i)"
proof
  show "s' = s\<lparr>si_redis := si_redis s'\<rparr>"
    if "with_import_job x capability i k row u s = (answer, s')" and "\<forall>y. answer \<noteq> Reply y"
    for row u s answer s'
    using that careful_handler.refused [OF with_campaign_careful [OF assms]]
    by (auto simp: with_import_job_def split: option.splits)
  show "import_grant x capability i u (si_db s)"
    if "with_import_job x capability i k row u s = (Reply y, s')" for row u s y s'
    using that guarded_handler.granted [OF with_campaign_guarded [OF assms]]
    by (auto simp: with_import_job_def import_grant_def split: option.splits)
qed simp

lemma get_campaign_api_mediated:
  "mediated x [] (campaign_grant x ''view_campaign'' campaign_id) (get_campaign_api x campaign_id)"
  unfolding get_campaign_api_def by (intro guarded_handler.mediated with_campaign_guarded careful)

lemma get_campaign_stats_api_mediated:
  "mediated x [] (campaign_grant x ''view_campaign_reports'' campaign_id) (get_campaign_stats_api x campaign_id)"
  unfolding get_campaign_stats_api_def by (intro guarded_handler.mediated with_campaign_guarded careful)

lemma update_campaign_api_mediated:
  "mediated x [Csrf] (campaign_grant x ''manage_campaign'' campaign_id) (update_campaign_api x campaign_id payload)"
  unfolding update_campaign_api_def by (intro guarded_handler.mediated with_campaign_guarded careful)

lemma launch_campaign_api_mediated:
  "mediated x [Csrf] (campaign_grant x ''launch_campaign'' campaign_id) (launch_campaign_api x campaign_id)"
  unfolding launch_campaign_api_def by (intro guarded_handler.mediated with_campaign_guarded careful)

lemma pause_campaign_api_mediated:
  "mediated x [Csrf] (campaign_grant x ''pause_campaign'' campaign_id) (pause_campaign_api x campaign_id)"
  unfolding pause_campaign_api_def by (intro guarded_handler.mediated with_campaign_guarded careful)

lemma archive_campaign_api_mediated:
  "mediated x [Csrf] (campaign_grant x ''archive_campaign'' campaign_id) (archive_campaign_api x campaign_id)"
  unfolding archive_campaign_api_def by (intro guarded_handler.mediated with_campaign_guarded careful)

lemma create_disposition_api_mediated:
  "mediated x [Csrf] (campaign_grant x ''manage_campaign'' campaign_id) (create_disposition_api x campaign_id payload)"
  unfolding create_disposition_api_def by (intro guarded_handler.mediated with_campaign_guarded careful)

lemma assign_team_api_mediated:
  "mediated x [Csrf] (campaign_grant x ''manage_campaign'' campaign_id) (assign_team_api x campaign_id team_id staffing_capacity)"
  unfolding assign_team_api_def by (intro guarded_handler.mediated with_campaign_guarded careful)

lemma list_team_assignments_api_mediated:
  "mediated x [] (campaign_grant x ''view_campaign'' campaign_id) (list_team_assignments_api x created campaign_id)"
  unfolding list_team_assignments_api_def by (intro guarded_handler.mediated with_campaign_guarded careful)

lemma end_team_assignment_api_mediated:
  "mediated x [Csrf] (campaign_grant x ''manage_campaign'' campaign_id) (end_team_assignment_api x campaign_id assignment_id)"
  unfolding end_team_assignment_api_def by (intro guarded_handler.mediated with_campaign_guarded careful)

lemma assign_agent_api_mediated:
  "mediated x [Csrf] (campaign_grant x ''assign_campaign_agent'' campaign_id) (assign_agent_api x campaign_id q)"
  unfolding assign_agent_api_def by (intro guarded_handler.mediated with_campaign_guarded careful)

lemma list_agent_assignments_api_mediated:
  "mediated x [] (campaign_grant x ''view_campaign'' campaign_id) (list_agent_assignments_api x created campaign_id)"
  unfolding list_agent_assignments_api_def by (intro guarded_handler.mediated with_campaign_guarded careful)

lemma end_agent_assignment_api_mediated:
  "mediated x [Csrf] (campaign_grant x ''assign_campaign_agent'' campaign_id) (end_agent_assignment_api x campaign_id assignment_id)"
  unfolding end_agent_assignment_api_def by (intro guarded_handler.mediated with_campaign_guarded careful)

lemma upload_import_api_mediated:
  "mediated x [Csrf] (campaign_grant x ''manage_campaign'' campaign_id) (upload_import_api x campaign_id f)"
  unfolding upload_import_api_def by (intro guarded_handler.mediated with_campaign_guarded careful)

lemma get_import_api_mediated:
  "mediated x [] (import_grant x ''view_campaign'' import_id) (get_import_api x import_id)"
  unfolding get_import_api_def by (intro guarded_handler.mediated with_import_job_guarded careful)

lemma preview_import_api_mediated:
  "mediated x [] (import_grant x ''manage_campaign'' import_id) (preview_import_api x import_id)"
  unfolding preview_import_api_def by (intro guarded_handler.mediated with_import_job_guarded careful)

lemma decide_import_api_mediated:
  "mediated x [Csrf] (import_grant x ''manage_campaign'' import_id) (decide_import_api x import_id decision note)"
  unfolding decide_import_api_def by (intro guarded_handler.mediated with_import_job_guarded careful)

lemma commit_import_api_mediated:
  "mediated x [Csrf] (import_grant x ''manage_campaign'' import_id) (commit_import_api x import_id decision_version idempotency_key)"
  unfolding commit_import_api_def by (intro guarded_handler.mediated with_import_job_guarded careful)

lemma list_campaigns_api_mediated:
  "mediated x [] (\<lambda>u d. has_assigned_capability d (us_id u) ''view_campaign'' (handler_now x 0))
     (list_campaigns_api x created limit)"
  unfolding list_campaigns_api_def by (intro guarded_handler.mediated reader_guarded) simp

definition create_grant :: "call \<Rightarrow> campaign_request \<Rightarrow> user \<Rightarrow> db \<Rightarrow> bool" where
  "create_grant x payload u d \<longleftrightarrow>
     (\<exists>q. validated_campaign payload = Some q \<and> may_create_campaign x q u d)"

lemma create_campaign_careful: "careful_handler (create_campaign_handler x payload)"
  unfolding create_campaign_handler_def [abs_def] by (intro careful)

lemma create_campaign_api_mediated:
  "mediated x [Csrf] (create_grant x payload) (create_campaign_api x payload)"
  unfolding create_campaign_api_def
  by (intro guarded_handler.mediated guarded_handler.intro create_campaign_careful
      guarded_handler_axioms.intro)
    (auto simp: create_campaign_handler_def create_grant_def may_create_campaign_def
      split: option.splits if_splits)

definition transfer_grant :: "call \<Rightarrow> uuid \<Rightarrow> transfer_request \<Rightarrow> user \<Rightarrow> db \<Rightarrow> bool" where
  "transfer_grant x campaign_id q u d \<longleftrightarrow>
     (\<exists>src dst. get_campaign d campaign_id = Some src \<and> get_campaign d (tq_to_campaign_id q) = Some dst
        \<and> may_on_campaign x 0 ''assign_campaign_agent'' src u d
        \<and> may_on_campaign x 1 ''assign_campaign_agent'' dst u d)"

lemma transfer_agent_api_mediated:
  "mediated x [Csrf] (transfer_grant x campaign_id q) (transfer_agent_api x campaign_id q)"
  unfolding transfer_agent_api_def
proof (intro guarded_handler.mediated, unfold_locales)
  show "s' = s\<lparr>si_redis := si_redis s'\<rparr>"
    if "transfer_handler x campaign_id q row u s = (answer, s')" and "\<forall>y. answer \<noteq> Reply y"
    for row u s answer s'
    using that by (auto simp: transfer_handler_def split: option.splits if_splits dest: committed_refused)
  show "transfer_grant x campaign_id q u (si_db s)"
    if "transfer_handler x campaign_id q row u s = (Reply y, s')" for row u s y s'
    using that by (auto simp: transfer_handler_def transfer_grant_def split: option.splits if_splits)
qed (simp add: transfer_grant_def)

end
