(* ===== verification/Work_Api.thy ===== *)
theory Work_Api
  imports Campaign_Api Notifications Delegations
begin

text \<open>
  The work API (\<open>app/api/work.py\<close>), and the thin APIs of the flags, the inbox and the delegations
  (\<open>app/api/flags.py\<close>, \<open>notifications.py\<close>, \<open>delegations.py\<close>). Every work route asks for the
  \<open>work_queue\<close> capability; that a lease belongs to the caller is decided by the service. The inbox
  and the delegations ask for no capability: each acts on the caller's own rows.
\<close>

section \<open>Exceptions\<close>

fun work_exception :: "work_error \<Rightarrow> string" where
  "work_exception (Work_item_error f) = ''WorkItemError''"
| "work_exception Lease_conflict = ''LeaseConflict''"
| "work_exception Lease_expired = ''LeaseConflict''"
| "work_exception (Disposition_mismatch f) = ''DispositionMismatch''"
| "work_exception (Missing_required_field f) = ''MissingRequiredField''"
| "work_exception Idempotency_conflict = ''IdempotencyConflict''"
| "work_exception Review_state_error = ''ReviewStateError''"
| "work_exception Lease_rate_limited = ''LeaseRateLimited''"
| "work_exception (Feature_off err) = flag_exception err"
| "work_exception (Integrity_error c) = ''IntegrityError''"
| "work_exception Invalid_token = ''InvalidToken''"
| "work_exception (Key_error st) = ''KeyError''"
| "work_exception Loop_fuel = ''''"

fun delegation_exception :: "delegation_error \<Rightarrow> string" where
  "delegation_exception Self_delegation = ''SelfDelegation''"
| "delegation_exception (Unknown_scope_type t) = ''DelegationError''"
| "delegation_exception (Scope_id_required t) = ''DelegationError''"
| "delegation_exception No_capability = ''DelegationError''"
| "delegation_exception (Unknown_capability cs) = ''UnknownCapability''"
| "delegation_exception (Non_delegable_capability cs) = ''NonDelegableCapability''"
| "delegation_exception Invalid_delegation_window = ''InvalidDelegationWindow''"
| "delegation_exception (Insufficient_delegator_authority cs) = ''InsufficientDelegatorAuthority''"
| "delegation_exception Delegation_not_found = ''DelegationNotFound''"
| "delegation_exception Not_authorized_to_revoke = ''NotAuthorizedToRevoke''"

section \<open>Work\<close>

text \<open>\<open>require_capability(WORK_QUEUE)\<close>\<close>

definition require_capability :: "call \<Rightarrow> string \<Rightarrow> user \<Rightarrow> db \<Rightarrow> bool" where
  "require_capability x capability u d =
     has_capability d (us_id u) capability None None (handler_now x 0)"

abbreviation agent_only :: "call \<Rightarrow> user \<Rightarrow> db \<Rightarrow> bool" where
  "agent_only x \<equiv> require_capability x ''work_queue''"

text \<open>\<open>None\<close> is the empty answer 204. The counters of the limiter stay whatever comes of it.\<close>

definition lease_next_handler :: "call \<Rightarrow> lease_result option handler" where
  "lease_next_handler x row u s =
     (case lease_next (cx_crypto x) (service_env x) (cx_settings x) (cx_redis_up x) (cx_str_uuid x)
             (us_id u) (si_redis s) (si_db s) of
        (r, counters) \<Rightarrow>
          committed work_exception
            [(''LeaseRateLimited'', 429, ''rate_limited''),
             (''FeatureDisabledError'', 409, ''FeatureDisabledError'')] r
            (s\<lparr>si_redis := counters\<rparr>))"

definition lease_next_api :: "call \<Rightarrow> site \<Rightarrow> lease_result option reply \<times> site" where
  "lease_next_api x = endpoint x [Csrf] (behind (agent_only x) (lease_next_handler x))"

text \<open>The bounds of \<open>CompleteRequest\<close>, and the request the handler makes of it.\<close>

definition valid_completion :: "completion_request \<Rightarrow> bool" where
  "valid_completion q \<longleftrightarrow>
     (case rq_notes q of None \<Rightarrow> True | Some n \<Rightarrow> length n \<le> 3000)
     \<and> (case rq_duration_seconds q of None \<Rightarrow> True | Some n \<Rightarrow> 0 \<le> n \<and> n \<le> 86400)
     \<and> 1 \<le> length (rq_idempotency_key q) \<and> length (rq_idempotency_key q) \<le> 100"

definition complete_clauses :: "(string \<times> nat \<times> string) list" where
  "complete_clauses =
     [(''LeaseConflict'', 409, ''lease_conflict''),
      (''IdempotencyConflict'', 409, ''idempotency_conflict'')]
     @ raised_as 400 [''DispositionMismatch'', ''MissingRequiredField'']
     @ raised_as 409 [''FeatureDisabledError'']"

text \<open>The refresh of the achievements is enqueued after the commit.\<close>

definition complete_handler :: "call \<Rightarrow> completion_request \<Rightarrow> completion_result handler" where
  "complete_handler x q row u s =
     (if \<not> valid_completion q then (Http_error 422 ''validation'', s)
      else case complete_work_item (cx_crypto x) (service_env x) (cx_settings x)
                  (q\<lparr>rq_agent_id := us_id u\<rparr>) (si_db s) of
        Inl err \<Rightarrow> (caught complete_clauses (work_exception err), s)
      | Inr (result, d) \<Rightarrow>
          (Reply result,
           if is_enabled d ''agent_gamification_enabled''
           then enqueue (Refresh_achievements (us_id u)) (s\<lparr>si_db := d\<rparr>) else s\<lparr>si_db := d\<rparr>))"

definition complete_work_item_api ::
  "call \<Rightarrow> completion_request \<Rightarrow> site \<Rightarrow> completion_result reply \<times> site" where
  "complete_work_item_api x q = endpoint x [Csrf] (behind (agent_only x) (complete_handler x q))"

definition skip_handler :: "call \<Rightarrow> uuid \<Rightarrow> uuid \<Rightarrow> string \<Rightarrow> work_item handler" where
  "skip_handler x work_item_id lease_id reason row u s =
     (if length reason < 1 \<or> 500 < length reason then (Http_error 422 ''validation'', s)
      else committed work_exception
        ((''LeaseConflict'', 409, ''lease_conflict'') # raised_as 400 [''MissingRequiredField''])
        (skip_work_item (service_env x) (cx_settings x) work_item_id (us_id u) lease_id reason
           (si_db s)) s)"

definition skip_work_item_api ::
  "call \<Rightarrow> uuid \<Rightarrow> uuid \<Rightarrow> string \<Rightarrow> site \<Rightarrow> work_item reply \<times> site" where
  "skip_work_item_api x work_item_id lease_id reason =
     endpoint x [Csrf] (behind (agent_only x) (skip_handler x work_item_id lease_id reason))"

definition renew_lease_api :: "call \<Rightarrow> uuid \<Rightarrow> uuid \<Rightarrow> site \<Rightarrow> work_item reply \<times> site" where
  "renew_lease_api x work_item_id lease_id =
     endpoint x [Csrf] (behind (agent_only x) (\<lambda>row u s.
       committed work_exception [(''LeaseConflict'', 409, ''lease_conflict'')]
         (renew_lease (service_env x) (cx_settings x) work_item_id (us_id u) lease_id (si_db s)) s))"

definition list_callbacks_api :: "call \<Rightarrow> site \<Rightarrow> callback_list_item list reply \<times> site" where
  "list_callbacks_api x =
     endpoint x [] (reader (agent_only x)
       (\<lambda>u d. list_agent_callbacks (cx_str_uuid x) (service_env x) (us_id u) d))"

definition get_stats_api :: "call \<Rightarrow> site \<Rightarrow> agent_stats reply \<times> site" where
  "get_stats_api x =
     endpoint x [] (reader (agent_only x) (\<lambda>u d. get_today_stats (clk (service_env x) 0) (us_id u) d))"

section \<open>Flags\<close>

definition require_manage_roles :: "call \<Rightarrow> user \<Rightarrow> db \<Rightarrow> bool" where
  "require_manage_roles x u d = has_assigned_capability d (us_id u) ''manage_roles'' (handler_now x 0)"

definition list_flags :: "db \<Rightarrow> feature_flag list" where
  "list_flags d = sort_key ff_flag_key (feature_flags d)"

definition list_flags_api :: "call \<Rightarrow> site \<Rightarrow> feature_flag list reply \<times> site" where
  "list_flags_api x = endpoint x [] (reader (require_manage_roles x) (\<lambda>u d. list_flags d))"

definition set_flag_api ::
  "call \<Rightarrow> string \<Rightarrow> bool \<Rightarrow> string option \<Rightarrow> site \<Rightarrow> feature_flag reply \<times> site" where
  "set_flag_api x flag_key enabled reason_code =
     endpoint x [Csrf] (behind (require_manage_roles x) (\<lambda>row u s.
       committed flag_exception
         (raised_as 404 [''UnknownFlag''] @ raised_as 409 [''PermanentlyDisabledFlag'']
          @ raised_as 422 [''InvalidReasonCode''])
         (set_flag flag_key enabled (us_id u) reason_code (si_db s)) s))"

section \<open>The inbox\<close>

definition anyone :: "user \<Rightarrow> db \<Rightarrow> bool" where
  "anyone u d = True"

definition list_notifications_api ::
  "call \<Rightarrow> bool \<Rightarrow> nat \<Rightarrow> site \<Rightarrow> notification list reply \<times> site" where
  "list_notifications_api x unread_only limit =
     endpoint x [] (reader anyone (\<lambda>u d. list_for_user (us_id u) unread_only limit d))"

definition unread_count_api :: "call \<Rightarrow> site \<Rightarrow> nat reply \<times> site" where
  "unread_count_api x = endpoint x [] (reader anyone (\<lambda>u d. unread_count (us_id u) d))"

definition mark_read_api :: "call \<Rightarrow> uuid \<Rightarrow> site \<Rightarrow> unit reply \<times> site" where
  "mark_read_api x notification_id =
     endpoint x [Csrf] (behind anyone (\<lambda>row u s.
       case mark_read (clk (service_env x) 0) notification_id (us_id u) (si_db s) of
         (found, d) \<Rightarrow>
           (if \<not> found then (Http_error 404 ''notification not found'', s)
            else (Reply (), s\<lparr>si_db := d\<rparr>))))"

definition mark_all_read_api :: "call \<Rightarrow> site \<Rightarrow> nat reply \<times> site" where
  "mark_all_read_api x =
     endpoint x [Csrf] (behind anyone (\<lambda>row u s.
       commit (mark_all_read (clk (service_env x) 0) (us_id u) (si_db s)) s))"

section \<open>Delegations\<close>

record delegation_request =
  eq_delegate_id :: uuid
  eq_capability_set :: "string list"
  eq_scope_type :: string
  eq_scope_id :: "uuid option"
  eq_effective_from :: time
  eq_effective_to :: "time option"
  eq_reason_code :: "string option"

definition create_delegation_of ::
  "call \<Rightarrow> delegation_request \<Rightarrow> user \<Rightarrow> db \<Rightarrow> (delegation_error, delegation, db) outcome" where
  "create_delegation_of x q u d =
     create_delegation (service_env x) (us_id u) (eq_delegate_id q) (eq_capability_set q)
       (eq_scope_type q) (eq_scope_id q) (eq_effective_from q) (eq_effective_to q) (eq_reason_code q) d"

definition create_delegation_api ::
  "call \<Rightarrow> delegation_request \<Rightarrow> site \<Rightarrow> delegation reply \<times> site" where
  "create_delegation_api x q =
     endpoint x [Csrf, Recent_reauthentication] (behind anyone (\<lambda>row u s.
       committed delegation_exception
         (raised_as 403 [''InsufficientDelegatorAuthority'']
          @ raised_as 400 [''SelfDelegation'', ''DelegationError'', ''UnknownCapability'',
              ''NonDelegableCapability'', ''InvalidDelegationWindow''])
         (create_delegation_of x q u (si_db s)) s))"

definition revoke_delegation_api :: "call \<Rightarrow> uuid \<Rightarrow> site \<Rightarrow> delegation reply \<times> site" where
  "revoke_delegation_api x delegation_id =
     endpoint x [Csrf] (behind anyone (\<lambda>row u s.
       committed delegation_exception
         (raised_as 404 [''DelegationNotFound''] @ raised_as 403 [''NotAuthorizedToRevoke''])
         (revoke_delegation (service_env x) delegation_id (us_id u) (si_db s)) s))"

definition list_delegations_api :: "call \<Rightarrow> site \<Rightarrow> delegation list reply \<times> site" where
  "list_delegations_api x =
     endpoint x [] (reader anyone (\<lambda>u d. list_delegations d None None (Some (us_id u))))"

section \<open>The policy of each endpoint\<close>

lemma policy_blind:
  "require_capability x c u (d\<lparr>sessions := ss\<rparr>) = require_capability x c u d"
  "require_manage_roles x u (d\<lparr>sessions := ss\<rparr>) = require_manage_roles x u d"
  "anyone u (d\<lparr>sessions := ss\<rparr>) = anyone u d"
  by (simp_all add: require_capability_def require_manage_roles_def anyone_def)

lemma work_handlers_careful [careful]:
  "careful_handler (complete_handler x q)"
  "careful_handler (skip_handler x i l r)"
  unfolding complete_handler_def [abs_def] skip_handler_def [abs_def] by (intro careful)+

lemma lease_next_careful [careful]: "careful_handler (lease_next_handler x)"
  by unfold_locales (auto simp: lease_next_handler_def split: prod.splits dest: committed_refused)

lemma lease_next_api_mediated:
  "mediated x [Csrf] (agent_only x) (lease_next_api x)"
  unfolding lease_next_api_def by (intro guarded_handler.mediated behind_guarded careful policy_blind)

lemma complete_work_item_api_mediated:
  "mediated x [Csrf] (agent_only x) (complete_work_item_api x q)"
  unfolding complete_work_item_api_def by (intro guarded_handler.mediated behind_guarded careful policy_blind)

lemma skip_work_item_api_mediated:
  "mediated x [Csrf] (agent_only x) (skip_work_item_api x work_item_id lease_id reason)"
  unfolding skip_work_item_api_def by (intro guarded_handler.mediated behind_guarded careful policy_blind)

lemma renew_lease_api_mediated:
  "mediated x [Csrf] (agent_only x) (renew_lease_api x work_item_id lease_id)"
  unfolding renew_lease_api_def by (intro guarded_handler.mediated behind_guarded careful policy_blind)

lemma list_callbacks_api_mediated:
  "mediated x [] (agent_only x) (list_callbacks_api x)"
  unfolding list_callbacks_api_def by (intro guarded_handler.mediated reader_guarded careful policy_blind)

lemma get_stats_api_mediated:
  "mediated x [] (agent_only x) (get_stats_api x)"
  unfolding get_stats_api_def by (intro guarded_handler.mediated reader_guarded careful policy_blind)

lemma list_flags_api_mediated:
  "mediated x [] (require_manage_roles x) (list_flags_api x)"
  unfolding list_flags_api_def by (intro guarded_handler.mediated reader_guarded careful policy_blind)

lemma set_flag_api_mediated:
  "mediated x [Csrf] (require_manage_roles x) (set_flag_api x flag_key enabled reason_code)"
  unfolding set_flag_api_def by (intro guarded_handler.mediated behind_guarded careful policy_blind)

lemma list_notifications_api_mediated:
  "mediated x [] anyone (list_notifications_api x unread_only limit)"
  unfolding list_notifications_api_def by (intro guarded_handler.mediated reader_guarded careful policy_blind)

lemma unread_count_api_mediated:
  "mediated x [] anyone (unread_count_api x)"
  unfolding unread_count_api_def by (intro guarded_handler.mediated reader_guarded careful policy_blind)

lemma mark_read_api_mediated:
  "mediated x [Csrf] anyone (mark_read_api x notification_id)"
  unfolding mark_read_api_def by (intro guarded_handler.mediated behind_guarded careful policy_blind)

lemma mark_all_read_api_mediated:
  "mediated x [Csrf] anyone (mark_all_read_api x)"
  unfolding mark_all_read_api_def by (intro guarded_handler.mediated behind_guarded careful policy_blind)

lemma create_delegation_api_mediated:
  "mediated x [Csrf, Recent_reauthentication] anyone (create_delegation_api x q)"
  unfolding create_delegation_api_def by (intro guarded_handler.mediated behind_guarded careful policy_blind)

lemma revoke_delegation_api_mediated:
  "mediated x [Csrf] anyone (revoke_delegation_api x delegation_id)"
  unfolding revoke_delegation_api_def by (intro guarded_handler.mediated behind_guarded careful policy_blind)

lemma list_delegations_api_mediated:
  "mediated x [] anyone (list_delegations_api x)"
  unfolding list_delegations_api_def by (intro guarded_handler.mediated reader_guarded careful policy_blind)

end
