(* ===== verification/Workforce_Api.thy ===== *)
theory Workforce_Api
  imports Work_Api
begin

text \<open>
  The workforce API (\<open>app/api/workforce.py\<close>): people, roles, teams and reporting lines. A target is
  loaded before the authority over it is checked. Lists that page by \<open>created_at\<close> take that column
  as the argument \<open>created\<close> where the row does not carry it; one reading of the clock stands for the
  readings of one check.
\<close>

section \<open>Exceptions\<close>

fun workforce_exception :: "workforce_error \<Rightarrow> string" where
  "workforce_exception Duplicate_identity = ''DuplicateIdentity''"
| "workforce_exception (Unknown_role r) = ''UnknownRole''"
| "workforce_exception Self_supervision = ''SelfSupervision''"
| "workforce_exception (Workforce_self err) = ''SelfApprovalError''"
| "workforce_exception (Workforce_flag err) = flag_exception err"
| "workforce_exception (Cannot_change fs) = ''ValueError''"
| "workforce_exception (Workforce_account err) = ''ValueError''"
| "workforce_exception (Workforce_integrity c) = ''IntegrityError''"

section \<open>Who may\<close>

definition may_appoint :: "call \<Rightarrow> user \<Rightarrow> db \<Rightarrow> bool" where
  "may_appoint x u d =
     list_ex (\<lambda>c. has_assigned_capability d (us_id u) c (handler_now x 0)) appointment_capabilities"

definition with_target :: "uuid \<Rightarrow> (user \<Rightarrow> 'a handler) \<Rightarrow> 'a handler" where
  "with_target user_id k row u s =
     (case get_user (si_db s) user_id of
        None \<Rightarrow> (Http_error 404 ''user not found'', s)
      | Some target \<Rightarrow> k target row u s)"

definition with_managed :: "call \<Rightarrow> uuid \<Rightarrow> (user \<Rightarrow> 'a handler) \<Rightarrow> 'a handler" where
  "with_managed x user_id k =
     with_target user_id (\<lambda>target.
       behind (\<lambda>u d. can_manage_user d (us_id u) (us_id target) (handler_now x 0)) (k target))"

definition may_appoint_role ::
  "call \<Rightarrow> string \<Rightarrow> string \<Rightarrow> uuid option \<Rightarrow> user \<Rightarrow> db \<Rightarrow> bool" where
  "may_appoint_role x role_code scope_type scope_id u d =
     (case map_of role_appointment_capability role_code of
        None \<Rightarrow> False
      | Some capability \<Rightarrow>
          has_scope_capability d (us_id u) capability scope_type scope_id (handler_now x 0))"

section \<open>People\<close>

definition create_user_api ::
  "call \<Rightarrow> string \<Rightarrow> string \<Rightarrow> string option \<Rightarrow> site \<Rightarrow> (user \<times> string option) reply \<times> site" where
  "create_user_api x email display_name workforce_id =
     endpoint x [Csrf] (behind (may_appoint x) (\<lambda>row u s.
       committed workforce_exception (raised_as 409 [''DuplicateIdentity''])
         (create_user (cx_crypto x) (service_env x) email display_name workforce_id (us_id u) True
            (si_db s)) s))"

definition list_users_api :: "call \<Rightarrow> nat \<Rightarrow> site \<Rightarrow> user list reply \<times> site" where
  "list_users_api x limit =
     endpoint x [] (reader (may_appoint x)
       (\<lambda>u d. list_visible_users d (us_id u) (clk (service_env x) 0) limit))"

definition disable_user_api :: "call \<Rightarrow> uuid \<Rightarrow> string \<Rightarrow> site \<Rightarrow> user reply \<times> site" where
  "disable_user_api x user_id reason_code =
     endpoint x [Csrf] (with_managed x user_id (\<lambda>target row u s.
       committed workforce_exception (raised_as 403 [''SelfApprovalError''])
         (disable_user (service_env x) target (us_id u) reason_code (si_db s)) s))"

definition reactivate_user_api :: "call \<Rightarrow> uuid \<Rightarrow> string \<Rightarrow> site \<Rightarrow> user reply \<times> site" where
  "reactivate_user_api x user_id reason_code =
     endpoint x [Csrf] (with_managed x user_id (\<lambda>target row u s.
       commit (reactivate_user target (us_id u) reason_code (si_db s)) s))"

section \<open>Roles\<close>

definition list_user_roles_api ::
  "call \<Rightarrow> (role_assignment \<Rightarrow> time) \<Rightarrow> uuid \<Rightarrow> site \<Rightarrow> role_assignment list reply \<times> site" where
  "list_user_roles_api x created user_id =
     endpoint x [] (behind (may_appoint x) (with_target user_id (\<lambda>target row u s.
       (Reply (sort_key (\<lambda>ra. - created ra)
          (filter (\<lambda>ra. ra_user_id ra = us_id target) (role_assignments (si_db s)))), s))))"

record role_request =
  lq_role_code :: string
  lq_scope_type :: string
  lq_scope_id :: "uuid option"
  lq_reason_code :: "string option"

definition valid_role_request :: "role_request \<Rightarrow> bool" where
  "valid_role_request q \<longleftrightarrow>
     lq_role_code q \<in> set [''manager'', ''team_leader'', ''team_captain'', ''agent'', ''viewer'']
     \<and> lq_scope_type q \<in> set [''installation'', ''organization'', ''team'', ''campaign'']"

definition assign_role_handler :: "call \<Rightarrow> uuid \<Rightarrow> role_request \<Rightarrow> role_assignment handler" where
  "assign_role_handler x user_id q row u s =
     (if \<not> valid_role_request q then (Http_error 422 ''validation'', s)
      else with_target user_id (\<lambda>target row u s.
        if \<not> may_appoint_role x (lq_role_code q) (lq_scope_type q) (lq_scope_id q) u (si_db s)
        then not_authorized s
        else if lq_scope_type q = ''team'' \<and> \<not> active_team (si_db s) (lq_scope_id q)
        then (Http_error 400 ''invalid scope team'', s)
        else committed workforce_exception
          (raised_as 400 [''UnknownRole''] @ raised_as 403 [''SelfApprovalError'']
           @ raised_as 409 [''FeatureDisabledError''])
          (assign_role (service_env x) (us_id target) (lq_role_code q) (lq_scope_type q)
             (lq_scope_id q) (us_id u) (lq_reason_code q) (si_db s)) s) row u s)"

definition assign_role_api ::
  "call \<Rightarrow> uuid \<Rightarrow> role_request \<Rightarrow> site \<Rightarrow> role_assignment reply \<times> site" where
  "assign_role_api x user_id q = endpoint x [Csrf] (assign_role_handler x user_id q)"

definition end_role_handler :: "call \<Rightarrow> uuid \<Rightarrow> string \<Rightarrow> role_assignment handler" where
  "end_role_handler x role_assignment_id reason_code row u s =
     (case row_get ra_id role_assignment_id (role_assignments (si_db s)) of
        None \<Rightarrow> (Http_error 404 ''role assignment not found'', s)
      | Some ra \<Rightarrow>
          (if \<not> may_appoint_role x (ra_role_code ra) (ra_scope_type ra) (ra_scope_id ra) u (si_db s)
           then not_authorized s
           else committed workforce_exception (raised_as 403 [''SelfApprovalError''])
             (end_role_assignment (service_env x) ra (us_id u) reason_code (si_db s)) s))"

definition end_role_assignment_api :: "call \<Rightarrow> uuid \<Rightarrow> string \<Rightarrow> site \<Rightarrow> role_assignment reply \<times> site" where
  "end_role_assignment_api x role_assignment_id reason_code =
     endpoint x [Csrf] (end_role_handler x role_assignment_id reason_code)"

section \<open>Teams\<close>

definition create_team_api ::
  "call \<Rightarrow> string \<Rightarrow> string \<Rightarrow> uuid option \<Rightarrow> string \<Rightarrow> site \<Rightarrow> team reply \<times> site" where
  "create_team_api x name external_code parent_team_id timezone =
     endpoint x [Csrf] (behind (require_manage_roles x) (\<lambda>row u s.
       committed workforce_exception []
         (create_team (service_env x) name external_code parent_team_id timezone (us_id u)
            (si_db s)) s))"

definition list_teams_api :: "call \<Rightarrow> site \<Rightarrow> team list reply \<times> site" where
  "list_teams_api x =
     endpoint x [] (reader (may_appoint x)
       (\<lambda>u d. sort_key te_name (filter (\<lambda>t. te_status t = ''active'') (teams d))))"

definition with_team :: "call \<Rightarrow> uuid \<Rightarrow> (team \<Rightarrow> 'a handler) \<Rightarrow> 'a handler" where
  "with_team x team_id k row u s =
     (case get_team (si_db s) team_id of
        None \<Rightarrow> (Http_error 404 ''team not found'', s)
      | Some t \<Rightarrow>
          (if has_scope_capability (si_db s) (us_id u) ''appoint_team_captain'' ''team'' (Some (te_id t))
                (handler_now x 0)
           then k t row u s else not_authorized s))"

definition add_team_member_api :: "call \<Rightarrow> uuid \<Rightarrow> uuid \<Rightarrow> site \<Rightarrow> team_membership reply \<times> site" where
  "add_team_member_api x team_id user_id =
     endpoint x [Csrf] (with_team x team_id (\<lambda>t. with_target user_id (\<lambda>target row u s.
       commit (add_team_membership (service_env x) t user_id (us_id u) (si_db s)) s)))"

definition end_membership_handler :: "call \<Rightarrow> uuid \<Rightarrow> team_membership handler" where
  "end_membership_handler x membership_id row u s =
     (case row_get tm_id membership_id (team_memberships (si_db s)) of
        None \<Rightarrow> (Http_error 404 ''membership not found'', s)
      | Some m \<Rightarrow> with_team x (tm_team_id m) (\<lambda>_ row u s.
          commit (end_team_membership (service_env x) m (us_id u) None (si_db s)) s) row u s)"

definition end_team_membership_api :: "call \<Rightarrow> uuid \<Rightarrow> site \<Rightarrow> team_membership reply \<times> site" where
  "end_team_membership_api x membership_id = endpoint x [Csrf] (end_membership_handler x membership_id)"

section \<open>Reporting lines\<close>

record line_request =
  rq_supervisor_user_id :: uuid
  rq_context_type :: string
  rq_context_id :: "uuid option"
  rq_line_type :: string
  rq_line_reason_code :: "string option"

definition valid_line_request :: "line_request \<Rightarrow> bool" where
  "valid_line_request q \<longleftrightarrow>
     rq_context_type q \<in> set [''organization'', ''team'', ''campaign'']
     \<and> rq_line_type q \<in> set [''primary'', ''acting'', ''dotted_line'']"

definition reporting_line_handler :: "call \<Rightarrow> uuid \<Rightarrow> line_request \<Rightarrow> reporting_assignment handler" where
  "reporting_line_handler x user_id q row u s =
     (if \<not> valid_line_request q then (Http_error 422 ''validation'', s)
      else with_managed x user_id (\<lambda>target. with_target (rq_supervisor_user_id q) (\<lambda>_ row u s.
        committed workforce_exception (raised_as 400 [''SelfSupervision''])
          (set_reporting_line (service_env x) (us_id target) (rq_supervisor_user_id q)
             (rq_context_type q) (rq_context_id q) (rq_line_type q) (us_id u)
             (rq_line_reason_code q) (si_db s)) s)) row u s)"

definition set_reporting_line_api ::
  "call \<Rightarrow> uuid \<Rightarrow> line_request \<Rightarrow> site \<Rightarrow> reporting_assignment reply \<times> site" where
  "set_reporting_line_api x user_id q = endpoint x [Csrf] (reporting_line_handler x user_id q)"

section \<open>The policy of each endpoint\<close>

lemma get_team_blind [simp]: "get_team (d\<lparr>sessions := ss\<rparr>) = get_team d"
  by (intro ext) (simp add: get_team_def)

lemma workforce_policy_blind [simp]:
  "may_appoint x u (d\<lparr>sessions := ss\<rparr>) = may_appoint x u d"
  "may_appoint_role x r t i u (d\<lparr>sessions := ss\<rparr>) = may_appoint_role x r t i u d"
  by (simp_all add: may_appoint_def may_appoint_role_def cong: option.case_cong)

lemma with_target_careful [careful]:
  assumes "\<And>t. careful_handler (k t)"
  shows "careful_handler (with_target i k)"
  unfolding with_target_def [abs_def] by (intro careful assms)

lemma behind_careful [careful]: "careful_handler h \<Longrightarrow> careful_handler (behind allowed h)"
  unfolding behind_def [abs_def] by (intro careful)

lemma with_managed_careful [careful]:
  assumes "\<And>t. careful_handler (k t)"
  shows "careful_handler (with_managed x i k)"
  unfolding with_managed_def by (intro careful assms)

lemma with_team_careful [careful]:
  assumes "\<And>t. careful_handler (k t)"
  shows "careful_handler (with_team x i k)"
  unfolding with_team_def [abs_def] by (intro careful assms)

definition manage_grant :: "call \<Rightarrow> uuid \<Rightarrow> user \<Rightarrow> db \<Rightarrow> bool" where
  "manage_grant x user_id u d \<longleftrightarrow>
     (\<exists>target. get_user d user_id = Some target
        \<and> can_manage_user d (us_id u) (us_id target) (handler_now x 0))"

definition captain_grant :: "call \<Rightarrow> uuid \<Rightarrow> user \<Rightarrow> db \<Rightarrow> bool" where
  "captain_grant x team_id u d \<longleftrightarrow>
     (\<exists>t. get_team d team_id = Some t
        \<and> has_scope_capability d (us_id u) ''appoint_team_captain'' ''team'' (Some (te_id t)) (handler_now x 0))"

lemma guardedI:
  assumes "careful_handler h"
    and "\<And>row u s y s'. h row u s = (Reply y, s') \<Longrightarrow> P u (si_db s)"
    and "\<And>u d ss. P u (d\<lparr>sessions := ss\<rparr>) = P u d"
  shows "guarded_handler h P"
  using assms by (intro guarded_handler.intro guarded_handler_axioms.intro) auto

lemma with_managed_guarded:
  assumes "\<And>t. careful_handler (k t)"
  shows "guarded_handler (with_managed x i k) (manage_grant x i)"
  by (intro guardedI careful assms)
    (auto simp: with_managed_def with_target_def behind_def manage_grant_def split: option.splits if_splits)

lemma with_team_guarded:
  assumes "\<And>t. careful_handler (k t)"
  shows "guarded_handler (with_team x i k) (captain_grant x i)"
  by (intro guardedI careful assms)
    (auto simp: with_team_def captain_grant_def split: option.splits if_splits)

definition end_role_grant :: "call \<Rightarrow> uuid \<Rightarrow> user \<Rightarrow> db \<Rightarrow> bool" where
  "end_role_grant x i u d \<longleftrightarrow>
     (\<exists>ra. row_get ra_id i (role_assignments d) = Some ra
        \<and> may_appoint_role x (ra_role_code ra) (ra_scope_type ra) (ra_scope_id ra) u d)"

definition end_membership_grant :: "call \<Rightarrow> uuid \<Rightarrow> user \<Rightarrow> db \<Rightarrow> bool" where
  "end_membership_grant x i u d \<longleftrightarrow>
     (\<exists>m. row_get tm_id i (team_memberships d) = Some m \<and> captain_grant x (tm_team_id m) u d)"

lemma assign_role_guarded:
  "guarded_handler (assign_role_handler x user_id q)
     (may_appoint_role x (lq_role_code q) (lq_scope_type q) (lq_scope_id q))"
proof (rule guardedI)
  show "careful_handler (assign_role_handler x user_id q)"
    unfolding assign_role_handler_def [abs_def] by (intro careful)
qed (auto simp: assign_role_handler_def with_target_def split: option.splits if_splits)

lemma end_role_guarded: "guarded_handler (end_role_handler x i r) (end_role_grant x i)"
proof (rule guardedI)
  show "careful_handler (end_role_handler x i r)"
    unfolding end_role_handler_def [abs_def] by (intro careful)
qed (auto simp: end_role_handler_def end_role_grant_def split: option.splits if_splits)

lemma end_membership_guarded: "guarded_handler (end_membership_handler x i) (end_membership_grant x i)"
proof (rule guardedI)
  show "careful_handler (end_membership_handler x i)"
    unfolding end_membership_handler_def [abs_def] by (intro careful)
qed (auto simp: end_membership_handler_def end_membership_grant_def with_team_def captain_grant_def
    split: option.splits if_splits)

lemma reporting_line_guarded: "guarded_handler (reporting_line_handler x i q) (manage_grant x i)"
proof (rule guardedI)
  show "careful_handler (reporting_line_handler x i q)"
    unfolding reporting_line_handler_def [abs_def] by (intro careful)
qed (auto simp: reporting_line_handler_def with_managed_def with_target_def behind_def manage_grant_def
    split: option.splits if_splits)

lemma create_user_api_mediated:
  "mediated x [Csrf] (may_appoint x) (create_user_api x email display_name workforce_id)"
  unfolding create_user_api_def by (intro guarded_handler.mediated behind_guarded careful policy_blind workforce_policy_blind)

lemma list_users_api_mediated:
  "mediated x [] (may_appoint x) (list_users_api x limit)"
  unfolding list_users_api_def by (intro guarded_handler.mediated reader_guarded careful policy_blind workforce_policy_blind)

lemma disable_user_api_mediated:
  "mediated x [Csrf] (manage_grant x user_id) (disable_user_api x user_id reason_code)"
  unfolding disable_user_api_def by (intro guarded_handler.mediated with_managed_guarded careful policy_blind workforce_policy_blind)

lemma reactivate_user_api_mediated:
  "mediated x [Csrf] (manage_grant x user_id) (reactivate_user_api x user_id reason_code)"
  unfolding reactivate_user_api_def by (intro guarded_handler.mediated with_managed_guarded careful policy_blind workforce_policy_blind)

lemma list_user_roles_api_mediated:
  "mediated x [] (may_appoint x) (list_user_roles_api x created user_id)"
  unfolding list_user_roles_api_def by (intro guarded_handler.mediated behind_guarded careful policy_blind workforce_policy_blind)

lemma assign_role_api_mediated:
  "mediated x [Csrf] (may_appoint_role x (lq_role_code q) (lq_scope_type q) (lq_scope_id q)) (assign_role_api x user_id q)"
  unfolding assign_role_api_def by (intro guarded_handler.mediated assign_role_guarded careful policy_blind workforce_policy_blind)

lemma end_role_assignment_api_mediated:
  "mediated x [Csrf] (end_role_grant x role_assignment_id) (end_role_assignment_api x role_assignment_id reason_code)"
  unfolding end_role_assignment_api_def by (intro guarded_handler.mediated end_role_guarded careful policy_blind workforce_policy_blind)

lemma create_team_api_mediated:
  "mediated x [Csrf] (require_manage_roles x) (create_team_api x name external_code parent_team_id timezone)"
  unfolding create_team_api_def by (intro guarded_handler.mediated behind_guarded careful policy_blind workforce_policy_blind)

lemma list_teams_api_mediated:
  "mediated x [] (may_appoint x) (list_teams_api x)"
  unfolding list_teams_api_def by (intro guarded_handler.mediated reader_guarded careful policy_blind workforce_policy_blind)

lemma add_team_member_api_mediated:
  "mediated x [Csrf] (captain_grant x team_id) (add_team_member_api x team_id user_id)"
  unfolding add_team_member_api_def by (intro guarded_handler.mediated with_team_guarded careful policy_blind workforce_policy_blind)

lemma end_team_membership_api_mediated:
  "mediated x [Csrf] (end_membership_grant x membership_id) (end_team_membership_api x membership_id)"
  unfolding end_team_membership_api_def by (intro guarded_handler.mediated end_membership_guarded careful policy_blind workforce_policy_blind)

lemma set_reporting_line_api_mediated:
  "mediated x [Csrf] (manage_grant x user_id) (set_reporting_line_api x user_id q)"
  unfolding set_reporting_line_api_def by (intro guarded_handler.mediated reporting_line_guarded careful policy_blind workforce_policy_blind)

section \<open>Administration\<close>

text \<open>
  The administration API (\<open>app/api/admin.py\<close>): who am I, credential resets, and the audit search,
  whose visibility is decided by the scopes of the caller's own roles. The pages of the audit trail
  share the search.
\<close>

section \<open>Who am I\<close>

definition whoami :: "call \<Rightarrow> user \<Rightarrow> db \<Rightarrow> uuid \<times> string \<times> string list \<times> string list" where
  "whoami x u d =
     (let roles = effective_roles d (us_id u) (handler_now x 0)
      in (us_id u, us_email u, sorted_list_of_set roles, sorted_list_of_set (capabilities_for roles)))"

definition whoami_api :: "call \<Rightarrow> site \<Rightarrow> (uuid \<times> string \<times> string list \<times> string list) reply \<times> site" where
  "whoami_api x = endpoint x [] (reader anyone (whoami x))"

section \<open>Credential resets\<close>

text \<open>
  \<open>_assert_not_self\<close> and the reset of another person's account; \<open>AccountNotEligible\<close> is the only
  exception of the service.
\<close>

fun account_exception :: "account_error \<Rightarrow> string" where
  "account_exception User_does_not_exist = ''AccountNotEligible''"
| "account_exception Account_disabled = ''AccountNotEligible''"
| "account_exception Already_activated = ''AccountNotEligible''"

definition resetting ::
  "call \<Rightarrow> uuid \<Rightarrow> (user \<Rightarrow> user \<Rightarrow> db \<Rightarrow> (account_error, 'a, db) outcome) \<Rightarrow> 'a handler" where
  "resetting x user_id reset row u s =
     (case get_user (si_db s) user_id of
        None \<Rightarrow> (Http_error 404 ''not found'', s)
      | Some target \<Rightarrow>
          (case assert_not_self (us_id u) (us_id target) of
             Some _ \<Rightarrow> (Http_error 403 ''self-service credential reset is not allowed here'', s)
           | None \<Rightarrow> committed account_exception (raised_as 409 [''AccountNotEligible''])
               (reset u target (si_db s)) s))"

definition may_reset :: "call \<Rightarrow> user \<Rightarrow> db \<Rightarrow> bool" where
  "may_reset x = require_capability x ''reset_user_auth''"

definition reset_2fa_api :: "call \<Rightarrow> uuid \<Rightarrow> site \<Rightarrow> unit reply \<times> site" where
  "reset_2fa_api x user_id =
     endpoint x [Csrf, Recent_reauthentication] (behind (may_reset x)
       (resetting x user_id (\<lambda>u target d. reset_mfa (service_env x) (us_id target) (us_id u) d)))"

definition reset_password_api :: "call \<Rightarrow> uuid \<Rightarrow> site \<Rightarrow> (string \<times> time) reply \<times> site" where
  "reset_password_api x user_id =
     endpoint x [Csrf, Recent_reauthentication] (behind (may_reset x)
       (resetting x user_id (\<lambda>u target d.
          reset_password (cx_crypto x) (service_env x) (us_id target) (us_id u) d)))"

section \<open>The audit search\<close>

definition audit_grants :: "db \<Rightarrow> uuid \<Rightarrow> time \<Rightarrow> scoped_grant list" where
  "audit_grants d actor_id now =
     map role_grant (filter (\<lambda>ra. ''view_audit'' \<in> set (role_grants (ra_role_code ra)))
       (effective_role_assignments d actor_id now))"

definition audit_visibility :: "db \<Rightarrow> uuid \<Rightarrow> time \<Rightarrow> bool \<times> uuid set" where
  "audit_visibility d actor_id now =
     (list_ex wide_grant (audit_grants d actor_id now),
      set (grant_ids ''team'' (audit_grants d actor_id now)))"

record audit_search =
  as_limit :: int
  as_action :: "string option"
  as_result :: "string option"
  as_since :: "time option"
  as_until :: "time option"

text \<open>An absent or empty filter does not filter. \<open>occurred\<close> is the \<open>occurred_at\<close> column.\<close>

definition text_filter :: "string option \<Rightarrow> (string \<Rightarrow> bool) \<Rightarrow> bool" where
  "text_filter f p \<longleftrightarrow> (case f of None \<Rightarrow> True | Some v \<Rightarrow> v = '''' \<or> p v)"

definition audit_match :: "(audit_event \<Rightarrow> time) \<Rightarrow> audit_search \<Rightarrow> audit_event \<Rightarrow> bool" where
  "audit_match occurred q a \<longleftrightarrow>
     text_filter (as_action q) (\<lambda>v. ilike (au_action a) (''%'' @ v @ ''%''))
     \<and> text_filter (as_result q) (\<lambda>v. au_result a = v)
     \<and> (case as_since q of None \<Rightarrow> True | Some t \<Rightarrow> t \<le> occurred a)
     \<and> (case as_until q of None \<Rightarrow> True | Some t \<Rightarrow> occurred a \<le> t)"

definition audit_actor_visible :: "db \<Rightarrow> uuid \<Rightarrow> time \<Rightarrow> uuid option \<Rightarrow> bool" where
  "audit_actor_visible d actor_id now who \<longleftrightarrow>
     (case audit_visibility d actor_id now of
        (sees_everyone, team_ids) \<Rightarrow>
          sees_everyone \<or> who = Some actor_id
          \<or> (case who of None \<Rightarrow> False | Some i \<Rightarrow> team_ids \<noteq> {} \<and> member_of d team_ids i))"

text \<open>A negative \<open>LIMIT\<close> is an error of the database.\<close>

definition list_visible_audit_events ::
  "(audit_event \<Rightarrow> time) \<Rightarrow> db \<Rightarrow> uuid \<Rightarrow> time \<Rightarrow> audit_search \<Rightarrow> audit_event list option" where
  "list_visible_audit_events occurred d actor_id now q =
     (if min (as_limit q) 200 < 0 then None
      else Some (take (nat (min (as_limit q) 200)) (sort_key (\<lambda>a. - occurred a)
        (filter (\<lambda>a. audit_actor_visible d actor_id now (au_actor_user_id a) \<and> audit_match occurred q a)
           (audit_events d)))))"

definition may_view_audit :: "call \<Rightarrow> user \<Rightarrow> db \<Rightarrow> bool" where
  "may_view_audit x u d = has_assigned_capability d (us_id u) ''view_audit'' (handler_now x 0)"

definition audit_events_api ::
  "call \<Rightarrow> (audit_event \<Rightarrow> time) \<Rightarrow> audit_search \<Rightarrow> site \<Rightarrow> audit_event list reply \<times> site" where
  "audit_events_api x occurred q =
     endpoint x [] (behind (may_view_audit x) (\<lambda>row u s.
       case list_visible_audit_events occurred (si_db s) (us_id u) (clk (service_env x) 0) q of
         None \<Rightarrow> (Server_error, s)
       | Some events \<Rightarrow> (Reply events, s)))"

section \<open>What the search shows\<close>

text \<open>A filter narrows what the scope allows; it never widens it.\<close>

lemma audit_events_in_scope:
  assumes "list_visible_audit_events occurred d actor_id now q = Some events" and "a \<in> set events"
  shows "a \<in> set (audit_events d)" "audit_actor_visible d actor_id now (au_actor_user_id a)"
    "audit_match occurred q a"
  using assms by (auto simp: list_visible_audit_events_def split: if_splits dest!: in_set_takeD)

lemma audit_events_bounded:
  assumes "list_visible_audit_events occurred d actor_id now q = Some events"
  shows "length events \<le> 200"
  using assms by (auto simp: list_visible_audit_events_def split: if_splits)

lemma audit_actor_stranger:
  assumes "\<not> fst (audit_visibility d actor_id now)" and "who \<noteq> actor_id"
    and "\<And>m. m \<in> set (team_memberships d) \<Longrightarrow> tm_user_id m = who \<Longrightarrow> tm_membership_status m = Row_active
           \<Longrightarrow> tm_team_id m \<notin> snd (audit_visibility d actor_id now)"
  shows "\<not> audit_actor_visible d actor_id now (Some who)"
  using assms by (auto simp: audit_actor_visible_def member_of_def list_ex_iff split: prod.splits)

section \<open>The policy of each endpoint\<close>

lemma admin_policy_blind [simp]:
  "may_reset x u (d\<lparr>sessions := ss\<rparr>) = may_reset x u d"
  "may_view_audit x u (d\<lparr>sessions := ss\<rparr>) = may_view_audit x u d"
  by (simp_all add: may_reset_def policy_blind may_view_audit_def)

lemma resetting_careful [careful]: "careful_handler (resetting x i reset)"
  unfolding resetting_def [abs_def] by (intro careful)

lemma whoami_api_mediated:
  "mediated x [] anyone (whoami_api x)"
  unfolding whoami_api_def by (intro guarded_handler.mediated reader_guarded careful policy_blind workforce_policy_blind admin_policy_blind)

lemma reset_2fa_api_mediated:
  "mediated x [Csrf, Recent_reauthentication] (may_reset x) (reset_2fa_api x user_id)"
  unfolding reset_2fa_api_def by (intro guarded_handler.mediated behind_guarded careful policy_blind workforce_policy_blind admin_policy_blind)

lemma reset_password_api_mediated:
  "mediated x [Csrf, Recent_reauthentication] (may_reset x) (reset_password_api x user_id)"
  unfolding reset_password_api_def by (intro guarded_handler.mediated behind_guarded careful policy_blind workforce_policy_blind admin_policy_blind)

lemma audit_events_api_mediated:
  "mediated x [] (may_view_audit x) (audit_events_api x occurred q)"
  unfolding audit_events_api_def by (intro guarded_handler.mediated behind_guarded careful policy_blind workforce_policy_blind admin_policy_blind)

end
