(* ===== verification/Wf_Import_Api.thy ===== *)
theory Wf_Import_Api
  imports Workforce_Api
begin

text \<open>
  The staged workforce import API (\<open>app/api/workforce_imports.py\<close>): a gate on the capabilities that may
  upload, then the service, which decides on the job. A job outside the caller's reach answers as
  one that does not exist. The audit, the approvals and the reach of a job are the service's own.
\<close>

section \<open>Exceptions\<close>

fun wf_exception :: "wf_error \<Rightarrow> string" where
  "wf_exception (Wf_unknown_type t) = ''UnknownImportType''"
| "wf_exception (Wf_flag err) = flag_exception err"
| "wf_exception (Wf_upload_rejected err) = ''UploadRejected''"
| "wf_exception (Wf_upload_validation err) = ''UploadValidationError''"
| "wf_exception Wf_source_missing = ''FileNotFoundError''"
| "wf_exception (Wf_csv_error err) = ''Error''"
| "wf_exception Wf_not_found = ''ImportNotReady''"
| "wf_exception (Wf_not_ready st) = ''ImportNotReady''"
| "wf_exception Wf_other_key = ''ImportNotReady''"
| "wf_exception Wf_not_approved = ''ImportNotReady''"
| "wf_exception Wf_no_high_risk_approval = ''ImportNotReady''"
| "wf_exception Wf_only_committed = ''ImportNotReady''"
| "wf_exception Wf_already_reversed = ''ImportNotReady''"
| "wf_exception Wf_stale_version = ''StaleDecisionVersion''"
| "wf_exception Wf_self_approval = ''SelfApproval''"
| "wf_exception Wf_insufficient_authority = ''InsufficientApprovalAuthority''"
| "wf_exception (Wf_blocking_errors n) = ''UnresolvedBlockingErrors''"
| "wf_exception (Wf_unacknowledged_warnings n) = ''WarningsNotAcknowledged''"
| "wf_exception Wf_bad_decision = ''ValueError''"
| "wf_exception Wf_bad_tier = ''ValueError''"
| "wf_exception Wf_no_high_risk_rows = ''ValueError''"
| "wf_exception Wf_bad_footprint = ''ValueError''"
| "wf_exception (Wf_key_error key) = ''KeyError''"
| "wf_exception (Wf_bad_date s) = ''ValueError''"
| "wf_exception Wf_no_row = ''NoResultFound''"
| "wf_exception Wf_many_rows = ''MultipleResultsFound''"
| "wf_exception (Wf_workforce err) = workforce_exception err"

section \<open>Endpoints\<close>

text \<open>\<open>any\<close> over the upload capabilities, at one reading of the clock.\<close>

definition may_upload_wf :: "call \<Rightarrow> user \<Rightarrow> db \<Rightarrow> bool" where
  "may_upload_wf x u d \<longleftrightarrow>
     (\<exists>c \<in> upload_capabilities. has_assigned_capability d (us_id u) c (handler_now x 0))"

record wf_upload_form =
  wu_import_type :: string
  wu_filename :: "string option"
  wu_content :: string

definition upload_wf_clauses :: "(string \<times> nat \<times> string) list" where
  "upload_wf_clauses = raised_as 400 [''UploadRejected'', ''UnknownImportType'']
     @ raised_as 409 [''FeatureDisabledError'']"

definition upload_wf_import_api :: "call \<Rightarrow> wf_upload_form \<Rightarrow> site \<Rightarrow> wf_job reply \<times> site" where
  "upload_wf_import_api x f =
     endpoint x [Csrf] (behind (may_upload_wf x) (\<lambda>row u s.
       case create_wf_job (cx_crypto x) (cx_files x) (service_env x) (cx_settings x)
              (wu_import_type f) (us_id u) (upload_name (wu_filename f)) (read_chunks (wu_content f))
              (si_storage s) (si_db s) of
         Inl err \<Rightarrow> (caught upload_wf_clauses (wf_exception err), s)
       | Inr (job, st, d) \<Rightarrow>
           (Reply job, enqueue (Parse_workforce_import_job (wj_id job))
              (s\<lparr>si_storage := st, si_db := d\<rparr>))))"

text \<open>A stored footprint that does not parse is a \<open>ValueError\<close> nobody catches.\<close>

definition with_accessible_job :: "call \<Rightarrow> uuid \<Rightarrow> (wf_job \<Rightarrow> 'a handler) \<Rightarrow> 'a handler" where
  "with_accessible_job x import_id k row u s =
     (case get_wf_job (si_db s) import_id of
        None \<Rightarrow> (Http_error 404 ''import job not found'', s)
      | Some job \<Rightarrow>
          (case can_access_job (si_db s) (us_id u) job (handler_now x 1) of
             Inl _ \<Rightarrow> (Server_error, s)
           | Inr ok \<Rightarrow>
               (if ok then k job row u s else (Http_error 404 ''import job not found'', s))))"

definition get_wf_import_api :: "call \<Rightarrow> uuid \<Rightarrow> site \<Rightarrow> wf_job reply \<times> site" where
  "get_wf_import_api x import_id =
     endpoint x [] (behind (may_upload_wf x)
       (with_accessible_job x import_id (\<lambda>job row u s. (Reply job, s))))"

definition preview_wf_import_api :: "call \<Rightarrow> uuid \<Rightarrow> site \<Rightarrow> (wf_job \<times> wf_row list) reply \<times> site" where
  "preview_wf_import_api x import_id =
     endpoint x [] (behind (may_upload_wf x)
       (with_accessible_job x import_id (\<lambda>job row u s. (Reply (job, wf_preview job (si_db s)), s))))"

definition decide_wf_import_api ::
  "call \<Rightarrow> uuid \<Rightarrow> string \<Rightarrow> string \<Rightarrow> string option \<Rightarrow> bool \<Rightarrow> site \<Rightarrow> wf_decision reply \<times> site" where
  "decide_wf_import_api x import_id decision decision_tier note acknowledge_warnings =
     endpoint x [Csrf] (behind (may_upload_wf x) (\<lambda>row u s.
       committed wf_exception
         (raised_as 404 [''ImportNotReady'']
          @ raised_as 403 [''SelfApproval'', ''InsufficientApprovalAuthority'']
          @ raised_as 409 [''UnresolvedBlockingErrors'', ''WarningsNotAcknowledged'']
          @ raised_as 400 [''ValueError''])
         (record_wf_decision (service_env x) import_id (us_id u) decision decision_tier note
            acknowledge_warnings (si_db s)) s))"

definition with_wf_job :: "uuid \<Rightarrow> (wf_job \<Rightarrow> 'a handler) \<Rightarrow> 'a handler" where
  "with_wf_job import_id k row u s =
     (case get_wf_job (si_db s) import_id of
        None \<Rightarrow> (Http_error 404 ''import job not found'', s)
      | Some job \<Rightarrow> k job row u s)"

text \<open>The source file goes after the commit; a failure to delete it is only logged.\<close>

definition commit_wf_import_api ::
  "call \<Rightarrow> uuid \<Rightarrow> int \<Rightarrow> string \<Rightarrow> site
   \<Rightarrow> ((nat \<times> string) list \<times> (string \<times> string) list) reply \<times> site" where
  "commit_wf_import_api x import_id decision_version idempotency_key =
     endpoint x [Csrf] (behind (may_upload_wf x) (with_wf_job import_id (\<lambda>job row u s.
       case commit_wf_job (cx_crypto x) (service_env x) (wj_id job) (us_id u) decision_version
              idempotency_key (si_db s) of
         Inl err \<Rightarrow>
           (caught [(''StaleDecisionVersion'', 409, ''stale_version''),
                    (''InsufficientApprovalAuthority'', 409, ''approval_authority_changed''),
                    (''ImportNotReady'', 409, ''approval_required''),
                    (''UnresolvedBlockingErrors'', 409, ''blocking_errors_unresolved'')]
              (wf_exception err), s)
       | Inr (result, d) \<Rightarrow>
           (Reply result,
            s\<lparr>si_db := d, si_storage := wf_cleanup_committed_source job (si_storage s)\<rparr>))))"

definition reverse_wf_import_api ::
  "call \<Rightarrow> uuid \<Rightarrow> site \<Rightarrow> ((nat \<times> string) list \<times> nat list) reply \<times> site" where
  "reverse_wf_import_api x import_id =
     endpoint x [Csrf] (behind (may_upload_wf x) (with_wf_job import_id (\<lambda>job row u s.
       committed wf_exception
         (raised_as 403 [''SelfApproval'', ''InsufficientApprovalAuthority'']
          @ raised_as 409 [''ImportNotReady''])
         (reverse_wf_job (service_env x) (wj_id job) (us_id u) (si_db s)) s)))"

section \<open>The extension is checked outside the except clauses\<close>

text \<open>
  A file whose name does not end in an accepted extension is refused by an exception no clause of
  the upload catches: the answer is a server error, not the 400 of the other rejections.
\<close>

lemma upload_wf_wrong_extension:
  assumes "import_type \<in> set import_types" and "require_enabled d ''workforce_import_enabled'' = None"
    and "check_extension name = Inl err"
  shows "create_wf_job c fl e cfg import_type uploader name chunks st d = Inl (Wf_upload_validation err)"
    "caught upload_wf_clauses (wf_exception (Wf_upload_validation err)) = (Server_error :: wf_job reply)"
  using assms by (simp_all add: create_wf_job_def caught_def upload_wf_clauses_def raised_as_def)

section \<open>The policy of each endpoint\<close>

lemma wf_policy_blind [simp]:
  "may_upload_wf x u (d\<lparr>sessions := ss\<rparr>) = may_upload_wf x u d"
  by (simp add: may_upload_wf_def)

lemma with_accessible_job_careful [careful]:
  assumes "\<And>job. careful_handler (k job)"
  shows "careful_handler (with_accessible_job x i k)"
  unfolding with_accessible_job_def [abs_def] by (intro careful assms)

lemma with_wf_job_careful [careful]:
  assumes "\<And>job. careful_handler (k job)"
  shows "careful_handler (with_wf_job i k)"
  unfolding with_wf_job_def [abs_def] by (intro careful assms)

lemma upload_wf_import_api_mediated:
  "mediated x [Csrf] (may_upload_wf x) (upload_wf_import_api x f)"
  unfolding upload_wf_import_api_def by (intro guarded_handler.mediated behind_guarded careful policy_blind workforce_policy_blind wf_policy_blind)

lemma get_wf_import_api_mediated:
  "mediated x [] (may_upload_wf x) (get_wf_import_api x import_id)"
  unfolding get_wf_import_api_def by (intro guarded_handler.mediated behind_guarded careful policy_blind workforce_policy_blind wf_policy_blind)

lemma preview_wf_import_api_mediated:
  "mediated x [] (may_upload_wf x) (preview_wf_import_api x import_id)"
  unfolding preview_wf_import_api_def by (intro guarded_handler.mediated behind_guarded careful policy_blind workforce_policy_blind wf_policy_blind)

lemma decide_wf_import_api_mediated:
  "mediated x [Csrf] (may_upload_wf x) (decide_wf_import_api x import_id decision decision_tier note acknowledge_warnings)"
  unfolding decide_wf_import_api_def by (intro guarded_handler.mediated behind_guarded careful policy_blind workforce_policy_blind wf_policy_blind)

lemma commit_wf_import_api_mediated:
  "mediated x [Csrf] (may_upload_wf x) (commit_wf_import_api x import_id decision_version idempotency_key)"
  unfolding commit_wf_import_api_def by (intro guarded_handler.mediated behind_guarded careful policy_blind workforce_policy_blind wf_policy_blind)

lemma reverse_wf_import_api_mediated:
  "mediated x [Csrf] (may_upload_wf x) (reverse_wf_import_api x import_id)"
  unfolding reverse_wf_import_api_def by (intro guarded_handler.mediated behind_guarded careful policy_blind workforce_policy_blind wf_policy_blind)

end
