(* ===== verification/Py_Datetime.thy ===== *)
theory Py_Datetime
  imports Py_Date
begin

text \<open>
  \<open>datetime.datetime\<close> as the forms use it: the instant of a date, \<open>datetime.fromisoformat\<close> (a date, a
  separator, a time of day with an optional fraction, an optional offset), attaching a zone to a
  naive value, and \<open>int(str)\<close>. A zone is given by its offset at a local wall time.
\<close>

section \<open>Days\<close>

text \<open>\<open>date.toordinal\<close>, and the instant of midnight UTC; 719163 is the ordinal of 1 January 1970.\<close>

definition days_before_month :: "nat \<Rightarrow> nat \<Rightarrow> nat" where
  "days_before_month y m = sum_list (map (days_in_month y) [1..<m])"

definition toordinal :: "date \<Rightarrow> nat" where
  "toordinal dt = (case dt of (y, m, d) \<Rightarrow>
     (let p = y - 1 in 365 * p + p div 4 - p div 100 + p div 400) + days_before_month y m + d)"

definition day_start :: "date \<Rightarrow> time" where
  "day_start dt = days (int (toordinal dt) - 719163)"

text \<open>\<open>datetime.combine(day, time.min)\<close> and \<open>datetime.combine(day, time.max)\<close>\<close>

definition day_end :: "date \<Rightarrow> time" where
  "day_end dt = day_start dt + days 1 - 1"

section \<open>Reading a date and time\<close>

definition char_at :: "string \<Rightarrow> nat \<Rightarrow> char option" where
  "char_at s i = (if i < length s then Some (s ! i) else None)"

definition digit_at :: "string \<Rightarrow> nat \<Rightarrow> bool" where
  "digit_at s i = (case char_at s i of None \<Rightarrow> False | Some c \<Rightarrow> digit_val c \<noteq> None)"

text \<open>\<open>_find_isoformat_datetime_separator\<close>: where the date part ends.\<close>

definition date_length :: "string \<Rightarrow> nat option" where
  "date_length s =
     (let n = length s in
      if n < 7 then None
      else if n = 7 then Some 7
      else if s ! 4 = CHR ''-'' then
        (if s ! 5 = CHR ''W'' then
           (if n > 8 \<and> s ! 8 = CHR ''-'' then
              (if n = 9 then None else if n > 10 \<and> digit_at s 10 then Some 8 else Some 10)
            else Some 8)
         else Some 10)
      else if s ! 4 = CHR ''W'' then
        (let run = length (takeWhile (\<lambda>c. digit_val c \<noteq> None) (drop 7 s)); i = 7 + run
         in Some (if i < 9 then i else if even i then 7 else 8))
      else Some 8)"

text \<open>Up to six digits of a fraction count; the digits after them are only checked.\<close>

definition parse_fraction :: "string \<Rightarrow> nat option" where
  "parse_fraction s =
     (let k = min 6 (length s) in
      if k = 0 then None
      else case parse_digits k 0 s of
          None \<Rightarrow> None
        | Some (v, rest) \<Rightarrow>
            if list_all (\<lambda>c. digit_val c \<noteq> None) rest then Some (v * 10 ^ (6 - k)) else None)"

definition fraction_or_end :: "string \<Rightarrow> nat option" where
  "fraction_or_end s =
     (case s of [] \<Rightarrow> Some 0
      | c # rest \<Rightarrow> if c = CHR ''.'' \<or> c = CHR '','' then parse_fraction rest else None)"

text \<open>\<open>_parse_hh_mm_ss_ff\<close>: two digits per component, with or without colons.\<close>

definition next_component :: "bool \<Rightarrow> string \<Rightarrow> string option" where
  "next_component colons s =
     (if \<not> colons then Some s
      else case s of [] \<Rightarrow> None | c # rest \<Rightarrow> if c = CHR '':'' then Some rest else None)"

fun parse_components :: "nat \<Rightarrow> bool \<Rightarrow> string \<Rightarrow> (nat list \<times> nat) option" where
  "parse_components 0 colons s = None"
| "parse_components (Suc n) colons s =
     (case parse_digits 2 0 s of
        None \<Rightarrow> None
      | Some (v, rest) \<Rightarrow>
          (if rest = [] then Some ([v], 0)
           else if n = 0 then map_option (\<lambda>f. ([v], f)) (fraction_or_end rest)
           else case next_component colons rest of
               None \<Rightarrow> None
             | Some rest' \<Rightarrow>
                 map_option (\<lambda>(vs, f). (v # vs, f)) (parse_components n colons rest')))"

definition parse_clock :: "string \<Rightarrow> (nat \<times> nat \<times> nat \<times> nat) option" where
  "parse_clock s =
     (case parse_components 3 (char_at s 2 = Some CHR '':'') s of
        Some ([h], f) \<Rightarrow> Some (h, 0, 0, f)
      | Some ([h, m], f) \<Rightarrow> Some (h, m, 0, f)
      | Some ([h, m, sec], f) \<Rightarrow> Some (h, m, sec, f)
      | _ \<Rightarrow> None)"

definition clock_micros :: "nat \<times> nat \<times> nat \<times> nat \<Rightarrow> time" where
  "clock_micros t = (case t of (h, m, sec, f) \<Rightarrow>
     hours (int h) + minutes (int m) + seconds (int sec) + int f)"

definition valid_clock :: "nat \<times> nat \<times> nat \<times> nat \<Rightarrow> bool" where
  "valid_clock t = (case t of (h, m, sec, f) \<Rightarrow> h < 24 \<and> m < 60 \<and> sec < 60)"

text \<open>The offset starts at the first sign or \<open>Z\<close>.\<close>

definition offset_mark :: "string \<Rightarrow> char option" where
  "offset_mark s = find (\<lambda>c. c \<in> set [CHR ''-'', CHR ''+'', CHR ''Z'']) s"

definition parse_offset :: "char \<Rightarrow> string \<Rightarrow> time option" where
  "parse_offset mark s =
     (if mark = CHR ''Z'' \<and> s = [] then Some 0
      else if length s \<in> {0, 1, 3} \<or> mark = CHR ''Z'' then None
      else case parse_clock s of
          None \<Rightarrow> None
        | Some t \<Rightarrow>
            (let v = clock_micros t in
             if v \<ge> days 1 then None else Some (if mark = CHR ''-'' then - v else v)))"

definition parse_time :: "string \<Rightarrow> (time \<times> time option) option" where
  "parse_time s =
     (if length s < 2 then None
      else case offset_mark s of
          None \<Rightarrow>
            (case parse_clock s of
               None \<Rightarrow> None
             | Some t \<Rightarrow> if valid_clock t then Some (clock_micros t, None) else None)
        | Some mark \<Rightarrow>
            (case (parse_clock (before_first mark s), parse_offset mark (after_first mark s)) of
               (Some t, Some off) \<Rightarrow> if valid_clock t then Some (clock_micros t, Some off) else None
             | _ \<Rightarrow> None))"

text \<open>The wall time, as if it were UTC, and the offset if one is given; \<open>None\<close> is the \<open>ValueError\<close>.\<close>

definition datetime_fromisoformat :: "string \<Rightarrow> (time \<times> time option) option" where
  "datetime_fromisoformat s =
     (case date_length s of
        None \<Rightarrow> None
      | Some n \<Rightarrow>
          (case fromisoformat (take n s) of
             None \<Rightarrow> None
           | Some dt \<Rightarrow>
               (let rest = drop (Suc n) s in
                if rest = [] then Some (day_start dt, None)
                else map_option (\<lambda>(t, off). (day_start dt + t, off)) (parse_time rest))))"

text \<open>
  \<open>replace(tzinfo=zone)\<close> when it has no offset of its own, then \<open>astimezone(UTC)\<close>; \<open>zone\<close> gives the
  offset at a local wall time.
\<close>

definition as_utc :: "(time \<Rightarrow> time) \<Rightarrow> time \<times> time option \<Rightarrow> time" where
  "as_utc zone v = (case v of (wall, off) \<Rightarrow> wall - (case off of None \<Rightarrow> zone wall | Some t \<Rightarrow> t))"

section \<open>Reading an integer\<close>

text \<open>\<open>int(s)\<close> in base ten: blanks around, a sign, digits with single underscores between them.\<close>

fun digit_groups :: "int \<Rightarrow> string \<Rightarrow> int option" where
  "digit_groups acc [] = Some acc"
| "digit_groups acc (c # s) =
     (case digit_val c of
        Some v \<Rightarrow> digit_groups (acc * 10 + int v) s
      | None \<Rightarrow>
          (if c = CHR ''_'' \<and> digit_at s 0 then digit_groups acc s else None))"

definition py_int :: "string \<Rightarrow> int option" where
  "py_int s =
     (let t = strip s;
          negative = startswith t ''-'';
          u = (if negative \<or> startswith t ''+'' then drop 1 t else t)
      in if digit_at u 0 then map_option (\<lambda>n. if negative then - n else n) (digit_groups 0 u) else None)"

section \<open>Checks\<close>

lemma day_start_epoch: "day_start (1970, 1, 1) = 0"
  by (simp add: day_start_def toordinal_def days_before_month_def days_def)

lemma day_end_before_next: "day_start dt \<le> day_end dt" "day_end dt < day_start dt + days 1"
  by (simp_all add: day_end_def days_def hours_def minutes_def seconds_def)

lemma digit_groups_append:
  assumes "list_all (\<lambda>c. digit_val c \<noteq> None) xs"
  shows "digit_groups acc (xs @ ys)
    = (case digit_groups acc xs of None \<Rightarrow> None | Some a \<Rightarrow> digit_groups a ys)"
  using assms by (induction xs arbitrary: acc) (auto split: option.splits)

lemma digit_val_char: "n < 10 \<Longrightarrow> digit_val (char_of (48 + n)) = Some n"
  by (simp add: digit_val_def code_def)

lemma dec_digits_digits: "list_all (\<lambda>c. digit_val c \<noteq> None) (dec_digits n)"
  by (auto simp: list_all_iff digit_val_def dest: digit_range)

lemma digit_groups_dec:
  "digit_groups acc (dec_digits n) = Some (acc * 10 ^ length (dec_digits n) + int n)"
proof (induction n arbitrary: acc rule: dec_digits.induct)
  case (1 n)
  show ?case
  proof (cases "n < 10")
    case True
    then show ?thesis by (simp add: dec_digits.simps [of n] digit_val_char)
  next
    case False
    have "n mod 10 < 10" by simp
    moreover from 1 False have "digit_groups acc (dec_digits (n div 10))
        = Some (acc * 10 ^ length (dec_digits (n div 10)) + int (n div 10))" by blast
    moreover have "int (n div 10) * 10 + int (n mod 10) = int n" by presburger
    ultimately show ?thesis using False
      by (simp add: dec_digits.simps [of n] digit_groups_append [OF dec_digits_digits] digit_val_char
          algebra_simps)
  qed
qed

lemma strip_unspaced:
  assumes "list_all (\<lambda>c. \<not> py_isspace c) s"
  shows "strip s = s"
proof -
  have keep: "dropWhile py_isspace xs = xs" if "list_all (\<lambda>c. \<not> py_isspace c) xs" for xs
    using that by (cases xs) auto
  have "list_all (\<lambda>c. \<not> py_isspace c) (rev s)" using assms by (simp add: list_all_iff)
  with keep [OF assms] keep [of "rev s"] show ?thesis by (simp add: strip_def lstrip_def)
qed

lemma digit_at_dec: "digit_at (dec_digits n) 0"
proof -
  have "dec_digits n \<noteq> []" by (subst dec_digits.simps) simp
  moreover from this have "dec_digits n ! 0 \<in> set (dec_digits n)" by (intro nth_mem) simp
  from digit_range [OF this] have "digit_val (dec_digits n ! 0) \<noteq> None" by (simp add: digit_val_def)
  ultimately show ?thesis by (simp add: digit_at_def char_at_def)
qed

text \<open>\<open>int(str(i))\<close> is \<open>i\<close>.\<close>

lemma py_int_str_int: "py_int (str_int i) = Some i"
proof -
  have not_space: "list_all (\<lambda>c. \<not> py_isspace c) (dec_digits n)" for n
    by (auto simp: list_all_iff py_isspace_def Let_def dest: digit_range)
  have sign: "\<not> startswith (dec_digits n) [c]" if "digit_val c = None" for n c
    using digit_at_dec [of n] that
    by (auto simp: digit_at_def char_at_def startswith_def take_Suc_conv_app_nth split: if_splits)
  have minus: "digit_val CHR 0x2D = None" "digit_val CHR ''+'' = None"
    by (simp_all add: digit_val_def code_def)
  show ?thesis
  proof (cases "i < 0")
    case True
    have "\<not> py_isspace CHR 0x2D" by (simp add: py_isspace_def code_def)
    then have "strip (str_int i) = CHR 0x2D # dec_digits (nat (- i))"
      using True not_space by (simp add: str_int_def strip_unspaced)
    with True show ?thesis
      by (simp add: py_int_def startswith_def digit_at_dec digit_groups_dec)
  next
    case False
    then have "strip (str_int i) = dec_digits (nat i)"
      using not_space by (simp add: str_int_def strip_unspaced)
    with False sign [OF minus(1), of "nat i"] sign [OF minus(2), of "nat i"] show ?thesis
      by (simp add: py_int_def digit_at_dec digit_groups_dec)
  qed
qed

end
