(* ===== verification/Web.thy ===== *)
theory Web
  imports Wf_Import_Api Py_Datetime
begin

text \<open>
  What the pages share (\<open>app/web/dependencies.py\<close>, \<open>templates.py\<close>, the exception handlers of
  \<open>app/main.py\<close>): the gates of a page, which redirect where those of the API refuse, the context
  every page renders, and the redirect after a form. A page that refuses redirects with the text of
  \<open>flash_error\<close>: it is an \<open>Http_error 303\<close> whose detail is the location, the text being shown as it
  was before the URL encoding; where the text is that of an exception, the name of its class stands
  for it. A page that is rendered reads the clock after the service.
\<close>

section \<open>The gates of a page\<close>

datatype page_refusal = Redirect_to_login | Invalid_form_csrf | Redirect_to_mfa_enrollment

definition require_page_session ::
  "crypto \<Rightarrow> settings \<Rightarrow> time \<Rightarrow> string option \<Rightarrow> db \<Rightarrow> (page_refusal, session, db) outcome" where
  "require_page_session c cfg now cookie d =
     (case load_session c cfg now cookie d of
        (None, _) \<Rightarrow> Inl Redirect_to_login
      | (Some row, d') \<Rightarrow> Inr (row, d'))"

definition verify_form_csrf ::
  "crypto \<Rightarrow> (uuid \<Rightarrow> string) \<Rightarrow> string option \<Rightarrow> string option \<Rightarrow> session \<Rightarrow> page_refusal option" where
  "verify_form_csrf c str_uuid fetch_site token row =
     (if (case fetch_site of None \<Rightarrow> False
          | Some s \<Rightarrow> s \<notin> {''same-origin'', ''same-site'', ''none''})
      then Some Invalid_form_csrf
      else if \<not> csrf_validate c token (str_uuid (ss_id row)) then Some Invalid_form_csrf
      else None)"

definition require_authenticated_page_user :: "db \<Rightarrow> session \<Rightarrow> page_refusal + user" where
  "require_authenticated_page_user d row =
     (case get_user d (ss_user_id row) of
        None \<Rightarrow> Inl Redirect_to_login
      | Some u \<Rightarrow> if \<not> us_active u then Inl Redirect_to_login else Inr u)"

definition require_page_user :: "user \<Rightarrow> session \<Rightarrow> page_refusal + user" where
  "require_page_user u row =
     (if \<not> us_totp_enrolled u \<or> ss_mfa_state row \<noteq> mfa_satisfied
      then Inl Redirect_to_mfa_enrollment else Inr u)"

text \<open>
  As FastAPI resolves them: the session, the token of the form where the route asks for it, the
  user, and the second factor where the handler asks for it. The token of a form is the field
  \<open>csrf_token\<close>; a form without the field has none.
\<close>

definition page_gates ::
  "call \<Rightarrow> bool \<Rightarrow> bool \<Rightarrow> world \<Rightarrow> (page_refusal + session \<times> user) \<times> world" where
  "page_gates x form full w =
     (case require_page_session (cx_crypto x) (cx_settings x) (clk (cx_env x) 0)
             (rq_cookie (cx_request x)) (snd w) of
        Inl r \<Rightarrow> (Inl r, w)
      | Inr (row, d) \<Rightarrow>
          (case (if form then verify_form_csrf (cx_crypto x) (cx_str_uuid x)
                   (rq_fetch_site (cx_request x)) (rq_csrf_token (cx_request x)) row else None) of
             Some r \<Rightarrow> (Inl r, fst w, d)
           | None \<Rightarrow>
               (case require_authenticated_page_user d row of
                  Inl r \<Rightarrow> (Inl r, fst w, d)
                | Inr u \<Rightarrow>
                    (case (if full then require_page_user u row else Inr u) of
                       Inl r \<Rightarrow> (Inl r, fst w, d)
                     | Inr u' \<Rightarrow> (Inr (row, u'), fst w, d)))))"

text \<open>\<open>_invalid_form_csrf\<close> goes back to the section the form belongs to.\<close>

definition stale_form_target :: "string \<Rightarrow> string" where
  "stale_form_target path =
     (if startswith path ''/agent/work'' then ''/agent/work''
      else if startswith path ''/security/mfa'' then ''/security/mfa''
      else if startswith path ''/workforce/imports'' then ''/workforce/imports''
      else if startswith path ''/campaigns'' then ''/campaigns''
      else ''/dashboard'')"

text \<open>The parameters of a location are listed in the order they are added to its path.\<close>

definition flash_location :: "string \<Rightarrow> string \<Rightarrow> string" where
  "flash_location path message =
     path @ (if CHR ''?'' \<in> set path then ''&flash_error='' else ''?flash_error='') @ message"

fun page_refused :: "string \<Rightarrow> page_refusal \<Rightarrow> 'a reply" where
  "page_refused path Redirect_to_login = Http_error 303 ''/login''"
| "page_refused path Redirect_to_mfa_enrollment = Http_error 303 ''/security/mfa''"
| "page_refused path Invalid_form_csrf =
     Http_error 303 (flash_location (stale_form_target path)
       ''Your session expired or the form was stale. Please retry.'')"

definition page :: "call \<Rightarrow> bool \<Rightarrow> string \<Rightarrow> 'a handler \<Rightarrow> site \<Rightarrow> 'a reply \<times> site" where
  "page x form path h s =
     (case page_gates x form True (si_redis s, si_db s) of
        (answer, r, d) \<Rightarrow>
          let s1 = s\<lparr>si_redis := r, si_db := d\<rparr> in
          (case answer of
             Inl refusal \<Rightarrow> (page_refused path refusal, s1)
           | Inr (row, u) \<Rightarrow> h row u s1))"

section \<open>Redirects\<close>

text \<open>
  A form that succeeds redirects, with the text of \<open>flash_success\<close> if any; a page is rendered.
  \<open>Warned\<close> is the redirect that carries a \<open>flash_error\<close> after the handler has committed.
\<close>

datatype 'v view = Rendered 'v | Redirected string "string option" | Warned string string

definition flash_error :: "string \<Rightarrow> string \<Rightarrow> 'a reply" where
  "flash_error path message = Http_error 303 (flash_location path message)"

definition flash_error_at :: "string \<Rightarrow> string \<Rightarrow> site \<Rightarrow> 'a reply \<times> site" where
  "flash_error_at path message s = (flash_error path message, s)"

definition done_at :: "string \<Rightarrow> string \<Rightarrow> site \<Rightarrow> 'v view reply \<times> site" where
  "done_at path message s = (Reply (Redirected path (Some message)), s)"

text \<open>
  The service call of a form: an exception of a class the handler names is flashed at \<open>path\<close> with
  the handler's text, or its own; \<open>after\<close> is the redirect of a success.
\<close>

definition own_text :: "string list \<Rightarrow> (string \<times> string) list" where
  "own_text classes = map (\<lambda>c. (c, c)) classes"

definition flashed :: "(string \<times> string) list \<Rightarrow> string \<Rightarrow> string \<Rightarrow> 'a reply" where
  "flashed classes path cls =
     (case map_of classes cls of None \<Rightarrow> Server_error | Some message \<Rightarrow> flash_error path message)"

definition submitted ::
  "('e \<Rightarrow> string) \<Rightarrow> (string \<times> string) list \<Rightarrow> string \<Rightarrow> ('b \<Rightarrow> 'v view) \<Rightarrow> ('e, 'b, db) outcome \<Rightarrow> site
   \<Rightarrow> 'v view reply \<times> site" where
  "submitted cls classes path after r s =
     (case r of
        Inl err \<Rightarrow> (flashed classes path (cls err), s)
      | Inr (y, d) \<Rightarrow> (Reply (after y), s\<lparr>si_db := d\<rparr>))"

definition page_behind ::
  "(user \<Rightarrow> db \<Rightarrow> bool) \<Rightarrow> string \<Rightarrow> string \<Rightarrow> 'a handler \<Rightarrow> 'a handler" where
  "page_behind allowed path message h row u s =
     (if allowed u (si_db s) then h row u s else flash_error_at path message s)"

section \<open>The context of a page\<close>

definition render_now :: "call \<Rightarrow> nat \<Rightarrow> time" where
  "render_now x i = clk (cx_env x) (32 + i)"

record nav =
  nv_can_work_queue :: bool
  nv_can_view_campaigns :: bool
  nv_can_manage_workforce :: bool
  nv_can_manage_teams :: bool
  nv_can_view_teams_nav :: bool
  nv_can_view_audit :: bool
  nv_can_view_admin_users :: bool

definition holds_any :: "db \<Rightarrow> user \<Rightarrow> time \<Rightarrow> bool" where
  "holds_any d u now = list_ex (\<lambda>c. has_assigned_capability d (us_id u) c now) appointment_capabilities"

definition nav_flags :: "time \<Rightarrow> db \<Rightarrow> user \<Rightarrow> nav" where
  "nav_flags now d u =
     (let workforce = holds_any d u now; roles = has_assigned_capability d (us_id u) ''manage_roles'' now
      in \<lparr>nv_can_work_queue = has_assigned_capability d (us_id u) ''work_queue'' now,
          nv_can_view_campaigns = has_assigned_capability d (us_id u) ''view_campaign'' now,
          nv_can_manage_workforce = workforce,
          nv_can_manage_teams = roles,
          nv_can_view_teams_nav = (roles \<or> workforce),
          nv_can_view_audit = has_assigned_capability d (us_id u) ''view_audit'' now,
          nv_can_view_admin_users = can_view_admin_directory d (us_id u) now\<rparr>)"

text \<open>The token of the form is the one the browser sent, and is left out here.\<close>

record page_shell =
  pc_user :: user
  pc_roles :: "string list"
  pc_unread_notifications :: nat
  pc_nav :: nav

definition page_context :: "call \<Rightarrow> db \<Rightarrow> user \<Rightarrow> page_shell" where
  "page_context x d u =
     \<lparr>pc_user = u, pc_roles = sorted_list_of_set (effective_roles d (us_id u) (render_now x 0)),
      pc_unread_notifications = unread_count (us_id u) d, pc_nav = nav_flags (render_now x 0) d u\<rparr>"

definition render :: "call \<Rightarrow> user \<Rightarrow> site \<Rightarrow> 'v \<Rightarrow> (page_shell \<times> 'v) view reply \<times> site" where
  "render x u s v = (Reply (Rendered (page_context x (si_db s) u, v)), s)"

section \<open>The gates of a page are those of the API\<close>

lemma page_gates_Inr:
  "page_gates x form True w = (Inr (row, u), w')
   \<longleftrightarrow> authenticated x (if form then [Csrf] else []) w = (Reply (row, u), w')"
  by (auto simp: page_gates_def authenticated_def with_user_def with_session_def
      get_current_session_def require_page_session_def check_gate_def verify_form_csrf_def
      require_csrf_def get_authenticated_user_def require_authenticated_page_user_def
      get_current_user_def require_page_user_def
      split: option.splits prod.splits if_splits)

lemma page_gates_Inl:
  assumes "page_gates x form full w = (Inl refusal, w')"
  shows "fst w' = fst w \<and> sessions_only (snd w) (snd w')"
proof (cases "load_session (cx_crypto x) (cx_settings x) (clk (cx_env x) 0) (rq_cookie (cx_request x)) (snd w)")
  case (Pair loaded d)
  show ?thesis
  proof (cases loaded)
    case None
    with assms Pair show ?thesis by (auto simp: page_gates_def require_page_session_def)
  next
    case (Some row)
    with Pair have "d = put_session_row row (snd w)" by (auto elim: load_session_Some)
    with assms Pair Some show ?thesis
      by (auto simp: page_gates_def require_page_session_def split: option.splits sum.splits)
  qed
qed

lemma page_refused_refuses [simp]: "page_refused path r \<noteq> Reply y"
  by (cases r) simp_all

text \<open>
  A page and an endpoint with the same handler: the page answers exactly when the endpoint does,
  with the same reply and the same site.
\<close>

lemma page_Reply_endpoint:
  assumes refuses: "gates = (if form then [Csrf] else [])"
  shows "page x form path h s = (Reply y, s') \<longleftrightarrow> endpoint x gates h s = (Reply y, s')"
proof -
  obtain a w where pg: "page_gates x form True (si_redis s, si_db s) = (a, w)" by (rule prod.exhaust)
  obtain b v where ep: "authenticated x gates (si_redis s, si_db s) = (b, v)" by (rule prod.exhaust)
  show ?thesis
  proof (cases "\<exists>row u. a = Inr (row, u)")
    case True
    then obtain row u where a: "a = Inr (row, u)" by blast
    with pg have "authenticated x gates (si_redis s, si_db s) = (Reply (row, u), w)"
      unfolding refuses by (simp add: page_gates_Inr)
    with pg a show ?thesis by (cases w) (simp add: page_def endpoint_def Let_def)
  next
    case False
    have "b \<noteq> Reply (row, u)" for row u
      using False pg ep page_gates_Inr [of x form "(si_redis s, si_db s)" row u v] refuses by auto
    with False pg ep show ?thesis
      by (cases w; cases v) (auto simp: page_def endpoint_def Let_def split: sum.splits reply.splits)
  qed
qed

context guarded_handler
begin

lemma page_mediated:
  "mediated x (if form then [Csrf] else []) P (page x form path h)"
  unfolding mediated_def
proof (intro conjI allI impI)
  fix s y s'
  assume "page x form path h s = (Reply y, s')"
  then have "endpoint x (if form then [Csrf] else []) h s = (Reply y, s')"
    by (simp only: page_Reply_endpoint [OF refl])
  then show "\<exists>row0 row u. live_session x (if form then [Csrf] else []) (si_db s) row0 row u
      \<and> P u (si_db s)"
    by (rule endpoint_granted) blast
next
  fix s answer s'
  assume run: "page x form path h s = (answer, s')" and no: "\<forall>y. answer \<noteq> Reply y"
  obtain a w where pg: "page_gates x form True (si_redis s, si_db s) = (a, w)" by (rule prod.exhaust)
  show "\<exists>d r. sessions_only (si_db s) d \<and> s' = s\<lparr>si_db := d, si_redis := r\<rparr>"
  proof (cases a)
    case (Inl r)
    from page_gates_Inl [OF pg [unfolded Inl]] run pg Inl show ?thesis
      by (cases w, intro exI [of _ "snd w"] exI [of _ "si_redis s"]) (auto simp: page_def Let_def)
  next
    case (Inr ru)
    then obtain row u where a: "a = Inr (row, u)" by (cases ru) simp
    from pg[unfolded a page_gates_Inr] have w: "fst w = si_redis s" "sessions_only (si_db s) (snd w)"
      by (auto elim: authenticated_Reply)
    from run pg a have "h row u (s\<lparr>si_redis := fst w, si_db := snd w\<rparr>) = (answer, s')"
      by (cases w) (simp add: page_def Let_def)
    from refused [OF this no] w show ?thesis
      by (intro exI [of _ "snd w"] exI [of _ "si_redis s'"]) (simp add: prod_eq_iff)
  qed
qed

end

lemmas page_form_mediated = guarded_handler.page_mediated [where form = True, simplified]
lemmas page_view_mediated = guarded_handler.page_mediated [where form = False, simplified]

section \<open>Building blocks\<close>

lemma flashed_refuses [simp]: "flashed classes path cls \<noteq> Reply y" "Reply y \<noteq> flashed classes path cls"
  by (simp_all add: flashed_def flash_error_def split: option.splits)

lemma flash_error_refuses [simp]: "flash_error path m \<noteq> Reply y" "Reply y \<noteq> flash_error path m"
  by (simp_all add: flash_error_def)

lemma submitted_Reply [simp]:
  "submitted cls classes path after r s = (Reply v, s')
   \<longleftrightarrow> (\<exists>y d. r = Inr (y, d) \<and> v = after y \<and> s' = s\<lparr>si_db := d\<rparr>)"
  by (auto simp: submitted_def split: sum.splits)

lemma careful_page [careful]:
  "careful_handler (\<lambda>row u s. submitted cls classes (path row u s) after (f row u s) s)"
  "careful_handler (\<lambda>row u s. flash_error_at (path' row u s) (message row u s) s)"
  "careful_handler (\<lambda>row u s. (flash_error (path' row u s) (message row u s), s))"
  "careful_handler (\<lambda>row u s. (flashed classes (path' row u s) (c row u s), s))"
  by (unfold_locales; auto simp: submitted_def flash_error_at_def split: sum.splits)+

lemma careful_done [careful]: "careful_handler (\<lambda>row u s. done_at (path row u s) (message row u s) (g row u s))"
  by unfold_locales (auto simp: done_at_def)

lemma careful_render [careful]: "careful_handler (\<lambda>row u s. render x u s (f row u s))"
  by unfold_locales (auto simp: render_def)

lemma page_behind_careful [careful]:
  "careful_handler h \<Longrightarrow> careful_handler (page_behind allowed path message h)"
  unfolding page_behind_def [abs_def] by (intro careful)

lemma page_behind_guarded:
  assumes "careful_handler h" and "\<And>u d ss. allowed u (d\<lparr>sessions := ss\<rparr>) = allowed u d"
  shows "guarded_handler (page_behind allowed path message h) allowed"
  by (intro guardedI careful assms)
    (auto simp: page_behind_def flash_error_at_def split: if_splits)

end
