(* ===== verification/Web_Inbox.thy ===== *)
theory Web_Inbox
  imports Web
begin

text \<open>
  The pages of the flags, the inbox, the audit trail and the delegations
  (\<open>app/web/flags.py\<close>, \<open>notifications.py\<close>, \<open>audit.py\<close>, \<open>delegations.py\<close>), over the services of
  their JSON APIs.
\<close>

section \<open>Flags\<close>

definition flags_list :: "call \<Rightarrow> site \<Rightarrow> (page_shell \<times> feature_flag list \<times> string set) view reply \<times> site" where
  "flags_list x =
     page x False ''/flags'' (page_behind (require_manage_roles x) ''/dashboard''
       ''Not authorized for feature flags.''
       (\<lambda>row u s. render x u s (list_flags (si_db s), permanently_disabled)))"

text \<open>\<open>reason_code.strip() or None\<close>\<close>

definition stripped :: "string \<Rightarrow> string option" where
  "stripped s = (if strip s = '''' then None else Some (strip s))"

definition set_flag_action ::
  "call \<Rightarrow> string \<Rightarrow> string \<Rightarrow> string \<Rightarrow> site \<Rightarrow> unit view reply \<times> site" where
  "set_flag_action x flag_key enabled reason_code =
     page x True (''/flags/'' @ flag_key) (page_behind (require_manage_roles x) ''/flags''
       ''Not authorized for feature flags.''
       (\<lambda>row u s. submitted flag_exception
          (own_text [''InvalidReasonCode'', ''UnknownFlag'', ''PermanentlyDisabledFlag'']) ''/flags''
          (\<lambda>_. Redirected ''/flags'' (Some (flag_key @ '' updated.'')))
          (set_flag flag_key (enabled = ''true'') (us_id u) (stripped reason_code) (si_db s)) s))"

section \<open>The inbox\<close>

definition inbox_page :: "call \<Rightarrow> site \<Rightarrow> (page_shell \<times> notification list) view reply \<times> site" where
  "inbox_page x =
     page x False ''/notifications'' (behind anyone
       (\<lambda>row u s. render x u s (list_for_user (us_id u) False 100 (si_db s))))"

text \<open>Whether the notification was theirs or not, the answer is the same.\<close>

definition mark_read_action :: "call \<Rightarrow> uuid \<Rightarrow> site \<Rightarrow> unit view reply \<times> site" where
  "mark_read_action x notification_id =
     page x True ''/notifications'' (behind anyone
       (\<lambda>row u s. (Reply (Redirected ''/notifications'' None),
          s\<lparr>si_db := snd (mark_read (clk (service_env x) 0) notification_id (us_id u) (si_db s))\<rparr>)))"

definition mark_all_read_action :: "call \<Rightarrow> site \<Rightarrow> unit view reply \<times> site" where
  "mark_all_read_action x =
     page x True ''/notifications'' (behind anyone
       (\<lambda>row u s. case mark_all_read (clk (service_env x) 0) (us_id u) (si_db s) of
          (marked, d) \<Rightarrow>
            (Reply (Redirected ''/notifications''
               (if marked = 0 then None
                else Some (''Marked '' @ str_int (int marked) @ '' notification(s) as read.''))),
             s\<lparr>si_db := d\<rparr>)))"

section \<open>The audit trail\<close>

text \<open>\<open>_parse_day\<close>: an absent or malformed day does not filter.\<close>

definition parse_day :: "bool \<Rightarrow> string \<Rightarrow> time option" where
  "parse_day end_of_day s =
     (if s = '''' then None
      else map_option (if end_of_day then day_end else day_start) (fromisoformat s))"

record audit_form =
  af_action :: string
  af_result :: string
  af_since :: string
  af_until :: string

definition audit_search_of :: "audit_form \<Rightarrow> audit_search" where
  "audit_search_of f =
     \<lparr>as_limit = 200, as_action = stripped (af_action f), as_result = stripped (af_result f),
      as_since = parse_day False (strip (af_since f)), as_until = parse_day True (strip (af_until f))\<rparr>"

definition audit_list ::
  "call \<Rightarrow> (audit_event \<Rightarrow> time) \<Rightarrow> audit_form \<Rightarrow> site
   \<Rightarrow> (page_shell \<times> audit_event list \<times> user list) view reply \<times> site" where
  "audit_list x occurred f =
     page x False ''/audit'' (page_behind (may_view_audit x) ''/dashboard''
       ''Not authorized for the audit trail.''
       (\<lambda>row u s.
          case list_visible_audit_events occurred (si_db s) (us_id u) (clk (service_env x) 0)
                 (audit_search_of f) of
            None \<Rightarrow> (Server_error, s)
          | Some events \<Rightarrow>
              render x u s (events,
                filter (\<lambda>a. Some (us_id a) \<in> au_actor_user_id ` set events) (users (si_db s)))))"

section \<open>Delegations\<close>

definition delegation_status :: "time \<Rightarrow> delegation \<Rightarrow> string" where
  "delegation_status now dg =
     (if dg_revoked_at dg \<noteq> None then ''revoked''
      else if now < dg_effective_from dg then ''scheduled''
      else case dg_effective_to dg of
          None \<Rightarrow> ''active''
        | Some t \<Rightarrow> if t \<le> now then ''expired'' else ''active'')"

definition scope_name :: "db \<Rightarrow> delegation \<Rightarrow> string option" where
  "scope_name d dg =
     (case dg_scope_id dg of
        None \<Rightarrow> None
      | Some i \<Rightarrow>
          (if dg_scope_type dg = ''team'' then map_option te_name (get_team d i)
           else if dg_scope_type dg = ''campaign'' then map_option ca_name (get_campaign d i)
           else None))"

text \<open>The teams the caller may pick: all, those their own roles reach, or none.\<close>

definition pickable_teams :: "db \<Rightarrow> uuid \<Rightarrow> time \<Rightarrow> team list" where
  "pickable_teams d user_id now =
     (case visible_team_ids d user_id now of
        (sees_all, team_ids) \<Rightarrow>
          sort_key te_name (filter (\<lambda>t. te_status t = ''active'' \<and> (sees_all \<or> te_id t \<in> team_ids)) (teams d)))"

record delegations_view =
  dv_granted :: "delegation list"
  dv_held :: "delegation list"
  dv_statuses :: "(uuid \<times> string) list"
  dv_user_names :: "user list"
  dv_scope_names :: "(uuid \<times> string option) list"
  dv_delegable_capabilities :: "string list"
  dv_candidates :: "user list"
  dv_teams :: "team list"
  dv_campaigns :: "campaign list"
  dv_recently_reauthenticated :: bool

definition delegations_view_of :: "call \<Rightarrow> session \<Rightarrow> user \<Rightarrow> db \<Rightarrow> delegations_view" where
  "delegations_view_of x row u d =
     (let now = clk (service_env x) 0;
          granted = list_delegations d (Some (us_id u)) None None;
          held = list_delegations d None (Some (us_id u)) None;
          rows = granted @ held;
          ids = set (map dg_delegator_user_id rows) \<union> set (map dg_delegate_user_id rows)
      in \<lparr>dv_granted = granted, dv_held = held,
          dv_statuses = map (\<lambda>dg. (dg_id dg, delegation_status now dg)) rows,
          dv_user_names = filter (\<lambda>v. us_id v \<in> ids) (users d),
          dv_scope_names = map (\<lambda>dg. (dg_id dg, scope_name d dg)) rows,
          dv_delegable_capabilities =
            sorted_list_of_set (capabilities_for (effective_roles d (us_id u) now) - set non_delegable),
          dv_candidates = filter (\<lambda>v. us_id v \<noteq> us_id u) (list_visible_users d (us_id u) now 50),
          dv_teams = pickable_teams d (us_id u) now,
          dv_campaigns = sort_key ca_name
            (filter (campaign_scope_filter d (us_id u) ''view_campaign'' now) (campaigns d)),
          dv_recently_reauthenticated =
            is_recently_reauthenticated (cx_settings x) now row\<rparr>)"

definition delegations_page :: "call \<Rightarrow> site \<Rightarrow> (page_shell \<times> delegations_view) view reply \<times> site" where
  "delegations_page x =
     page x False ''/delegations'' (behind anyone
       (\<lambda>row u s. render x u s (delegations_view_of x row u (si_db s))))"

record delegation_form =
  df_delegate_id :: string
  df_capabilities :: "string list"
  df_scope_type :: string
  df_team_id :: string
  df_campaign_id :: string
  df_effective_from :: string
  df_effective_to :: string
  df_reason_code :: string

text \<open>
  \<open>_parse_uuid\<close> and \<open>_parse_dt\<close>: \<open>Inl ()\<close> is the \<open>ValueError\<close>, \<open>Inr None\<close> a blank field; a time without
  an offset is in UTC. \<open>parse_uuid\<close> is \<open>uuid.UUID\<close>.
\<close>

definition optional_field :: "(string \<Rightarrow> 'a option) \<Rightarrow> string \<Rightarrow> unit + 'a option" where
  "optional_field parse s =
     (if strip s = '''' then Inr None
      else case parse (strip s) of None \<Rightarrow> Inl () | Some v \<Rightarrow> Inr (Some v))"

definition parse_utc :: "string \<Rightarrow> time option" where
  "parse_utc s = map_option (as_utc (\<lambda>_. 0)) (datetime_fromisoformat s)"

definition delegation_fields ::
  "(string \<Rightarrow> uuid option) \<Rightarrow> time \<Rightarrow> delegation_form \<Rightarrow> unit + uuid option \<times> uuid option \<times> time \<times> time option" where
  "delegation_fields parse_uuid now f =
     (case (optional_field parse_uuid (df_delegate_id f),
            if df_scope_type f = ''team'' then optional_field parse_uuid (df_team_id f)
            else if df_scope_type f = ''campaign'' then optional_field parse_uuid (df_campaign_id f)
            else Inr None,
            optional_field parse_utc (df_effective_from f),
            optional_field parse_utc (df_effective_to f)) of
        (Inr delegate, Inr scope, Inr window_from, Inr window_to) \<Rightarrow>
          Inr (delegate, scope, case window_from of None \<Rightarrow> now | Some t \<Rightarrow> t, window_to)
      | _ \<Rightarrow> Inl ())"

text \<open>Every class of \<open>DelegationError\<close> that \<open>create_delegation\<close> raises is caught.\<close>

definition delegation_classes :: "string list" where
  "delegation_classes = [''SelfDelegation'', ''DelegationError'', ''UnknownCapability'',
     ''NonDelegableCapability'', ''InvalidDelegationWindow'', ''InsufficientDelegatorAuthority'']"

definition create_delegation_action ::
  "call \<Rightarrow> (string \<Rightarrow> uuid option) \<Rightarrow> delegation_form \<Rightarrow> site \<Rightarrow> unit view reply \<times> site" where
  "create_delegation_action x parse_uuid f =
     page x True ''/delegations'' (behind anyone (\<lambda>row u s.
       if \<not> is_recently_reauthenticated (cx_settings x) (handler_now x 0) row
       then flash_error_at ''/delegations''
         ''For security, confirm your identity at Account security within the last few minutes, then grant the delegation.'' s
       else case delegation_fields parse_uuid (handler_now x 1) f of
           Inl _ \<Rightarrow> flash_error_at ''/delegations'' ''Choose a valid delegate and dates.'' s
         | Inr (None, _) \<Rightarrow> flash_error_at ''/delegations'' ''Choose who to delegate to.'' s
         | Inr (Some delegate, scope_id, window_from, window_to) \<Rightarrow>
             submitted delegation_exception (own_text delegation_classes) ''/delegations''
               (\<lambda>_. Redirected ''/delegations''
                  (Some ''Delegation granted. The delegate's sessions were refreshed.''))
               (create_delegation (service_env x) (us_id u) delegate (df_capabilities f)
                  (df_scope_type f) scope_id window_from window_to (stripped (df_reason_code f))
                  (si_db s)) s))"

definition revoke_delegation_action :: "call \<Rightarrow> uuid \<Rightarrow> site \<Rightarrow> unit view reply \<times> site" where
  "revoke_delegation_action x delegation_id =
     page x True ''/delegations'' (behind anyone (\<lambda>row u s.
       submitted delegation_exception
         [(''DelegationNotFound'', ''Delegation not found.''),
          (''NotAuthorizedToRevoke'', ''Only the person who granted a delegation can revoke it.'')]
         ''/delegations''
         (\<lambda>_. Redirected ''/delegations''
            (Some ''Delegation revoked. The delegate's sessions were refreshed.''))
         (revoke_delegation (service_env x) delegation_id (us_id u) (si_db s)) s))"

section \<open>What the pages show and do\<close>

text \<open>The status of a delegation is \<open>active\<close> exactly when the authorization service counts it.\<close>

lemma delegation_status_active:
  "delegation_status now dg = ''active''
   \<longleftrightarrow> dg_revoked_at dg = None \<and> dg_effective_from dg \<le> now
       \<and> (case dg_effective_to dg of None \<Rightarrow> True | Some t \<Rightarrow> now < t)"
  by (auto simp: delegation_status_def split: option.splits)

section \<open>The policy of each page\<close>

lemma flags_list_mediated:
  "mediated x [] (require_manage_roles x) (flags_list x)"
  unfolding flags_list_def by (intro page_view_mediated page_behind_guarded careful policy_blind workforce_policy_blind admin_policy_blind wf_policy_blind)

lemma set_flag_action_mediated:
  "mediated x [Csrf] (require_manage_roles x) (set_flag_action x flag_key enabled reason_code)"
  unfolding set_flag_action_def by (intro page_form_mediated page_behind_guarded careful policy_blind workforce_policy_blind admin_policy_blind wf_policy_blind)

lemma inbox_page_mediated:
  "mediated x [] anyone (inbox_page x)"
  unfolding inbox_page_def by (intro page_view_mediated behind_guarded careful policy_blind workforce_policy_blind admin_policy_blind wf_policy_blind)

lemma mark_read_action_mediated:
  "mediated x [Csrf] anyone (mark_read_action x notification_id)"
  unfolding mark_read_action_def by (intro page_form_mediated behind_guarded careful policy_blind workforce_policy_blind admin_policy_blind wf_policy_blind)

lemma mark_all_read_action_mediated:
  "mediated x [Csrf] anyone (mark_all_read_action x)"
  unfolding mark_all_read_action_def by (intro page_form_mediated behind_guarded careful policy_blind workforce_policy_blind admin_policy_blind wf_policy_blind)

lemma audit_list_mediated:
  "mediated x [] (may_view_audit x) (audit_list x occurred f)"
  unfolding audit_list_def by (intro page_view_mediated page_behind_guarded careful policy_blind workforce_policy_blind admin_policy_blind wf_policy_blind)

lemma delegations_page_mediated:
  "mediated x [] anyone (delegations_page x)"
  unfolding delegations_page_def by (intro page_view_mediated behind_guarded careful policy_blind workforce_policy_blind admin_policy_blind wf_policy_blind)

lemma create_delegation_action_mediated:
  "mediated x [Csrf] anyone (create_delegation_action x parse_uuid f)"
  unfolding create_delegation_action_def by (intro page_form_mediated behind_guarded careful policy_blind workforce_policy_blind admin_policy_blind wf_policy_blind)

lemma revoke_delegation_action_mediated:
  "mediated x [Csrf] anyone (revoke_delegation_action x delegation_id)"
  unfolding revoke_delegation_action_def by (intro page_form_mediated behind_guarded careful policy_blind workforce_policy_blind admin_policy_blind wf_policy_blind)

end
