(* ===== verification/Web_Work.thy ===== *)
theory Web_Work
  imports Web_Inbox
begin

text \<open>
  The agents' pages (\<open>app/web/agent_work.py\<close>): the workbench with the one contact that is leased, the
  forms that lease, complete, skip and renew, and the preferences. Time zones and the text of a
  local time are those of \<open>zoneinfo\<close>, an argument of the pages that use them.
\<close>

section \<open>Zones\<close>

text \<open>
  \<open>po_zones\<close> looks a name up, \<open>po_offset\<close> is the offset of a zone at a local wall time and
  \<open>po_text\<close> an instant in a zone as \<open>strftime('%d %b %Y, %H:%M')\<close> prints it.
\<close>

record page_zones =
  po_zones :: zone_lib
  po_offset :: "string \<Rightarrow> time \<Rightarrow> time"
  po_text :: "string \<Rightarrow> time \<Rightarrow> string"

text \<open>
  A local date and time of a form, in UTC; \<open>None\<close> is the \<open>MissingRequiredField\<close> of a malformed value
  or of a zone that does not exist.
\<close>

definition parse_local_datetime :: "page_zones \<Rightarrow> string \<Rightarrow> string \<Rightarrow> time option" where
  "parse_local_datetime z value timezone_name =
     (case datetime_fromisoformat value of
        None \<Rightarrow> None
      | Some v \<Rightarrow>
          (if zl_lookup (po_zones z) timezone_name = Zone_found
           then Some (as_utc (po_offset z timezone_name) v) else None))"

definition parse_callback :: "page_zones \<Rightarrow> string \<Rightarrow> string \<Rightarrow> unit + time option" where
  "parse_callback z value timezone_name =
     (if strip value = '''' then Inr None
      else case parse_local_datetime z value timezone_name of None \<Rightarrow> Inl () | Some t \<Rightarrow> Inr (Some t))"

section \<open>Texts\<close>

definition disposition_help_template :: "string \<Rightarrow> string option" where
  "disposition_help_template = map_of
     [(''connected'', ''This number will be completed.''),
      (''no_answer'', ''This number will return to the pool after {minutes} minutes.''),
      (''callback_later'', ''Choose the agreed future date and time.''),
      (''hung_up'', ''The outcome will be saved and this contact kept ready for immediate redial.''),
      (''number_disconnected'', ''This number will be completed and will not return to the pool.''),
      (''explicit_dnc'', ''This records an explicit do-not-call request and suppresses this number across active campaigns.''),
      (''unavailable'', ''This number will return to the pool after {minutes} minutes.'')]"

text \<open>\<open>str.format(minutes=...)\<close>, on templates whose only field is \<open>{minutes}\<close>.\<close>

fun format_minutes :: "string \<Rightarrow> string \<Rightarrow> string" where
  "format_minutes n [] = []"
| "format_minutes n (c # s) =
     (if startswith (c # s) ''{minutes}'' then n @ format_minutes n (drop 8 s)
      else c # format_minutes n s)"

definition disposition_help_text :: "disposition \<Rightarrow> string" where
  "disposition_help_text di =
     (case disposition_help_template (di_stable_semantic_code di) of
        None \<Rightarrow> ''''
      | Some t \<Rightarrow>
          (case di_retry_delay_minutes di of
             None \<Rightarrow> t
           | Some n \<Rightarrow> if contains t ''{minutes}'' then format_minutes (str_int n) t else t))"

text \<open>\<open>None\<close> is the \<open>ValueError\<close> of a malformed zone name, which is not caught.\<close>

definition completion_message :: "page_zones \<Rightarrow> completion_result \<Rightarrow> string \<Rightarrow> string option" where
  "completion_message z r timezone_name =
     (case zl_lookup (po_zones z) timezone_name of
        Zone_malformed \<Rightarrow> None
      | looked_up \<Rightarrow>
          (let zone = (if looked_up = Zone_found then timezone_name else ''UTC'') in
           Some (case cr_next_step r of
             Step_suppressed \<Rightarrow> ''Do-not-call recorded. This number will not be called again.''
           | Step_callback_scheduled \<Rightarrow>
               (case cr_callback_at r of
                  Some t \<Rightarrow> ''Callback scheduled for '' @ po_text z zone t @ ''.''
                | None \<Rightarrow> ''Callback scheduled.'')
           | Step_retry_scheduled \<Rightarrow>
               (case cr_retry_at r of
                  Some t \<Rightarrow> ''This number will return to the pool at '' @ po_text z zone t @ ''.''
                | None \<Rightarrow> ''Returned to the shared queue.'')
           | Step_redial_ready \<Rightarrow>
               ''Outcome saved. This contact is ready for immediate redial - press Redial now.''
           | Step_review \<Rightarrow> ''Attempt limit reached. This number has gone to manager review.''
           | Step_complete \<Rightarrow> ''Number completed.'')))"

section \<open>The workbench\<close>

text \<open>\<open>_authorized\<close>: the page asks for the capability in an own role, the API also takes a delegated one.\<close>

definition agent_page :: "call \<Rightarrow> user \<Rightarrow> db \<Rightarrow> bool" where
  "agent_page x u d = has_assigned_capability d (us_id u) ''work_queue'' (handler_now x 0)"

definition active_dispositions_of :: "db \<Rightarrow> uuid \<Rightarrow> disposition list" where
  "active_dispositions_of d campaign_id =
     sort_key (\<lambda>di. (di_display_order di, di_label di))
       (filter (\<lambda>di. di_campaign_id di = campaign_id \<and> di_active di) (dispositions d))"

definition daily_goal_percent :: "daily_progress \<Rightarrow> nat option" where
  "daily_goal_percent p =
     (case dp_daily_goal p of
        None \<Rightarrow> None
      | Some g \<Rightarrow> if g = 0 then None
          else Some (min 100 (percent_of (dp_unique_contacts_handled_today p) (nat g))))"

record gamification_view =
  gv_daily_progress :: daily_progress
  gv_daily_goal_percent :: "nat option"
  gv_campaign_progress :: "campaign_progress option"
  gv_achievements :: "achievement list"
  gv_recent_achievement :: "achievement option"

definition gamification_view_of ::
  "call \<Rightarrow> page_zones \<Rightarrow> campaign option \<Rightarrow> user \<Rightarrow> db \<Rightarrow> gamification_error + gamification_view" where
  "gamification_view_of x z ca u d =
     (case get_daily_progress (po_zones z) (cx_settings x) (service_env x) (us_id u) d of
        Inl err \<Rightarrow> Inl err
      | Inr p \<Rightarrow>
          (let active = (case ca of Some c \<Rightarrow> Some c
                         | None \<Rightarrow> get_agent_primary_campaign d (clk (service_env x) 2) (us_id u));
               achieved = list_achievements d (us_id u)
           in Inr \<lparr>gv_daily_progress = p, gv_daily_goal_percent = daily_goal_percent p,
                gv_campaign_progress = Option.bind active (\<lambda>c. get_campaign_progress d (ca_id c)),
                gv_achievements = achieved,
                gv_recent_achievement =
                  (case achieved of [] \<Rightarrow> None
                   | a # _ \<Rightarrow> if clk (service_env x) 3 - minutes 2 \<le> ac_awarded_at a then Some a else None)\<rparr>))"

record workbench_view =
  wv_lease :: "lease_result option"
  wv_campaign :: "campaign option"
  wv_dispositions :: "disposition list"
  wv_is_standard_policy :: bool
  wv_disposition_help :: "(uuid \<times> string) list"
  wv_callbacks :: "callback_list_item list"
  wv_stats :: agent_stats
  wv_flag_enabled :: bool
  wv_preference :: "preference option"
  wv_gamification :: "gamification_view option"

text \<open>A stored number that does not decrypt is not a \<open>WorkItemError\<close>.\<close>

definition workbench_view_of ::
  "call \<Rightarrow> page_zones \<Rightarrow> lease_result option \<Rightarrow> user \<Rightarrow> db \<Rightarrow> gamification_error + workbench_view" where
  "workbench_view_of x z lease u d =
     (let ca = Option.bind lease (\<lambda>l. get_campaign d (lr_campaign_id l));
          dis = (case ca of None \<Rightarrow> [] | Some c \<Rightarrow> active_dispositions_of d (ca_id c));
          flag = is_enabled d ''agent_gamification_enabled'';
          pref = (if flag then get_preference d (us_id u) else None);
          active = (case pref of None \<Rightarrow> False | Some q \<Rightarrow> pf_enabled q)
      in map_sum id
           (\<lambda>g. \<lparr>wv_lease = lease, wv_campaign = ca, wv_dispositions = dis,
              wv_is_standard_policy =
                (case ca of None \<Rightarrow> False | Some c \<Rightarrow> ca_disposition_policy_version c = Some policy_version),
              wv_disposition_help = map (\<lambda>di. (di_id di, disposition_help_text di)) dis,
              wv_callbacks = list_agent_callbacks (cx_str_uuid x) (service_env x) (us_id u) d,
              wv_stats = get_today_stats (clk (service_env x) 1) (us_id u) d,
              wv_flag_enabled = flag, wv_preference = pref, wv_gamification = g\<rparr>)
           (if active then map_sum id Some (gamification_view_of x z ca u d) else Inr None))"

definition workbench_handler :: "call \<Rightarrow> page_zones \<Rightarrow> (page_shell \<times> workbench_view) view handler" where
  "workbench_handler x z row u s =
     (case get_active_lease (cx_crypto x) (service_env x) (us_id u) (si_db s) of
        Inl Invalid_token \<Rightarrow> (Server_error, s)
      | looked_up \<Rightarrow>
          (case workbench_view_of x z (case looked_up of Inl _ \<Rightarrow> None | Inr l \<Rightarrow> l) u (si_db s) of
             Inl _ \<Rightarrow> (Server_error, s)
           | Inr v \<Rightarrow> render x u s v))"

definition workbench :: "call \<Rightarrow> page_zones \<Rightarrow> site \<Rightarrow> (page_shell \<times> workbench_view) view reply \<times> site" where
  "workbench x z =
     page x False ''/agent/work'' (page_behind (agent_page x) ''/dashboard''
       ''Not authorized for agent work.'' (workbench_handler x z))"

section \<open>The forms of the workbench\<close>

definition work_form :: "call \<Rightarrow> 'v view handler \<Rightarrow> site \<Rightarrow> 'v view reply \<times> site" where
  "work_form x h =
     page x True ''/agent/work'' (page_behind (agent_page x) ''/agent/work''
       ''Not authorized for agent work.'' h)"

abbreviation at_work :: "string \<Rightarrow> 'b \<Rightarrow> 'v view" where
  "at_work message \<equiv> \<lambda>_. Redirected ''/agent/work'' (Some message)"

text \<open>The counters of the limiter stay whatever comes of the call.\<close>

definition next_contact_handler :: "call \<Rightarrow> unit view handler" where
  "next_contact_handler x row u s =
     (case lease_next (cx_crypto x) (service_env x) (cx_settings x) (cx_redis_up x) (cx_str_uuid x)
             (us_id u) (si_redis s) (si_db s) of
        (r, counters) \<Rightarrow>
          (case r of
             Inl err \<Rightarrow>
               (flashed [(''LeaseRateLimited'',
                          ''You are leasing contacts too quickly. Wait a moment and try again.''),
                         (''FeatureDisabledError'', ''FeatureDisabledError'')] ''/agent/work''
                  (work_exception err), s\<lparr>si_redis := counters\<rparr>)
           | Inr (None, d) \<Rightarrow>
               (Reply (Warned ''/agent/work'' ''No contact is available in your assigned campaign.''),
                s\<lparr>si_redis := counters, si_db := d\<rparr>)
           | Inr (Some _, d) \<Rightarrow>
               (Reply (at_work ''Contact secured. Complete or release it before moving on.'' ()),
                s\<lparr>si_redis := counters, si_db := d\<rparr>)))"

definition next_contact :: "call \<Rightarrow> site \<Rightarrow> unit view reply \<times> site" where
  "next_contact x = work_form x (next_contact_handler x)"

record completion_form =
  cf_lease_id :: uuid
  cf_disposition_id :: uuid
  cf_notes :: string
  cf_callback_at :: string
  cf_duration_seconds :: "int option"
  cf_idempotency_key :: string

text \<open>The zone of a form is that of the campaign its disposition belongs to.\<close>

definition form_zone :: "db \<Rightarrow> uuid \<Rightarrow> string" where
  "form_zone d disposition_id =
     (case find (\<lambda>di. di_id di = disposition_id) (dispositions d) of
        None \<Rightarrow> ''UTC''
      | Some di \<Rightarrow>
          (case get_campaign d (di_campaign_id di) of None \<Rightarrow> ''UTC'' | Some ca \<Rightarrow> ca_timezone ca))"

definition completion_of :: "completion_form \<Rightarrow> uuid \<Rightarrow> uuid \<Rightarrow> time option \<Rightarrow> completion_request" where
  "completion_of f work_item_id agent_id callback =
     \<lparr>rq_work_item_id = work_item_id, rq_agent_id = agent_id, rq_lease_id = cf_lease_id f,
      rq_disposition_id = cf_disposition_id f, rq_notes = stripped (cf_notes f),
      rq_callback_at = callback, rq_duration_seconds = cf_duration_seconds f,
      rq_idempotency_key = cf_idempotency_key f\<rparr>"

definition complete_flashes :: "(string \<times> string) list" where
  "complete_flashes = own_text [''LeaseConflict'', ''DispositionMismatch'', ''MissingRequiredField'',
     ''IdempotencyConflict'', ''FeatureDisabledError'']"

text \<open>
  The outcome is committed, and the refresh enqueued, before the text of the answer is made; the
  answer of a campaign whose zone name is malformed is then a server error.
\<close>

definition complete_contact_handler ::
  "call \<Rightarrow> page_zones \<Rightarrow> uuid \<Rightarrow> completion_form \<Rightarrow> unit view handler" where
  "complete_contact_handler x z work_item_id f row u s =
     (let zone = form_zone (si_db s) (cf_disposition_id f) in
      case parse_callback z (cf_callback_at f) zone of
        Inl _ \<Rightarrow> (flashed complete_flashes ''/agent/work'' ''MissingRequiredField'', s)
      | Inr callback \<Rightarrow>
          (case complete_work_item (cx_crypto x) (service_env x) (cx_settings x)
                  (completion_of f work_item_id (us_id u) callback) (si_db s) of
             Inl err \<Rightarrow> (flashed complete_flashes ''/agent/work'' (work_exception err), s)
           | Inr (result, d) \<Rightarrow>
               ((case completion_message z result zone of
                   None \<Rightarrow> Server_error
                 | Some message \<Rightarrow> Reply (at_work message ())),
                if is_enabled d ''agent_gamification_enabled''
                then enqueue (Refresh_achievements (us_id u)) (s\<lparr>si_db := d\<rparr>) else s\<lparr>si_db := d\<rparr>)))"

definition complete_contact ::
  "call \<Rightarrow> page_zones \<Rightarrow> uuid \<Rightarrow> completion_form \<Rightarrow> site \<Rightarrow> unit view reply \<times> site" where
  "complete_contact x z work_item_id f = work_form x (complete_contact_handler x z work_item_id f)"

definition skip_contact :: "call \<Rightarrow> uuid \<Rightarrow> uuid \<Rightarrow> string \<Rightarrow> site \<Rightarrow> unit view reply \<times> site" where
  "skip_contact x work_item_id lease_id reason =
     work_form x (\<lambda>row u s.
       submitted work_exception (own_text [''LeaseConflict'', ''MissingRequiredField'']) ''/agent/work''
         (at_work ''Contact released with a recorded reason.'')
         (skip_work_item (service_env x) (cx_settings x) work_item_id (us_id u) lease_id reason
            (si_db s)) s)"

definition renew_contact :: "call \<Rightarrow> uuid \<Rightarrow> uuid \<Rightarrow> site \<Rightarrow> unit view reply \<times> site" where
  "renew_contact x work_item_id lease_id =
     work_form x (\<lambda>row u s.
       submitted work_exception (own_text [''LeaseConflict'']) ''/agent/work''
         (at_work ''Contact hold extended.'')
         (renew_lease (service_env x) (cx_settings x) work_item_id (us_id u) lease_id (si_db s)) s)"

section \<open>Preferences\<close>

definition preferences_page ::
  "call \<Rightarrow> site \<Rightarrow> (page_shell \<times> bool \<times> preference option \<times> int \<times> int) view reply \<times> site" where
  "preferences_page x =
     page x False ''/agent/work/preferences'' (page_behind (agent_page x) ''/dashboard''
       ''Not authorized for agent work.''
       (\<lambda>row u s. render x u s (is_enabled (si_db s) ''agent_gamification_enabled'',
          get_preference (si_db s) (us_id u), min_daily_goal, max_daily_goal)))"

record preferences_form =
  rf_enabled :: string
  rf_celebrations_enabled :: string
  rf_daily_goal :: string

fun gamification_exception :: "gamification_error \<Rightarrow> string" where
  "gamification_exception Daily_goal_out_of_range = ''GamificationPolicyError''"
| "gamification_exception Bad_zone_name = ''ValueError''"

text \<open>A blank goal clears it; \<open>Inl ()\<close> is the \<open>ValueError\<close>.\<close>

definition goal_of :: "string \<Rightarrow> unit + int option" where
  "goal_of s = optional_field py_int s"

definition update_preferences :: "call \<Rightarrow> preferences_form \<Rightarrow> site \<Rightarrow> unit view reply \<times> site" where
  "update_preferences x f =
     page x True ''/agent/work/preferences'' (page_behind (agent_page x) ''/agent/work/preferences''
       ''Not authorized for agent work.'' (\<lambda>row u s.
         case goal_of (rf_daily_goal f) of
           Inl _ \<Rightarrow> flash_error_at ''/agent/work/preferences'' ''Daily goal must be a whole number.'' s
         | Inr goal \<Rightarrow>
             submitted gamification_exception (own_text [''GamificationPolicyError''])
               ''/agent/work/preferences''
               (\<lambda>_. Redirected ''/agent/work/preferences'' (Some ''Preferences updated.''))
               (set_preference (us_id u) (Some (rf_enabled f = ''true''))
                  (Some (rf_celebrations_enabled f = ''true'')) goal (goal = None) (si_db s)) s))"

section \<open>The form and the API complete alike\<close>

lemma agent_page_blind [simp]: "agent_page x u (d\<lparr>sessions := ss\<rparr>) = agent_page x u d"
  by (simp add: agent_page_def)

text \<open>The database a form leaves is the one the service committed.\<close>

lemma complete_contact_runs_service:
  assumes "complete_contact_handler x z i f row u s = (Reply v, s')"
  obtains callback result d where
    "parse_callback z (cf_callback_at f) (form_zone (si_db s) (cf_disposition_id f)) = Inr callback"
    and "complete_work_item (cx_crypto x) (service_env x) (cx_settings x)
           (completion_of f i (us_id u) callback) (si_db s) = Inr (result, d)"
    and "si_db s' = d" "si_storage s' = si_storage s" "si_redis s' = si_redis s"
  using assms
  by (auto simp: complete_contact_handler_def Let_def enqueue_def split: sum.splits option.splits if_splits)

text \<open>A malformed zone name: the outcome is saved, the answer is a server error.\<close>

lemma complete_contact_malformed_zone:
  assumes "zl_lookup (po_zones z) (form_zone (si_db s) (cf_disposition_id f)) = Zone_malformed"
    and "strip (cf_callback_at f) = ''''"
    and "complete_work_item (cx_crypto x) (service_env x) (cx_settings x)
           (completion_of f i (us_id u) None) (si_db s) = Inr (result, d)"
  shows "\<exists>s'. complete_contact_handler x z i f row u s = (Server_error, s') \<and> si_db s' = d"
  using assms
  by (auto simp: complete_contact_handler_def Let_def parse_callback_def completion_message_def enqueue_def)

section \<open>Policies\<close>

lemma work_form_mediated:
  assumes "careful_handler h"
  shows "mediated x [Csrf] (agent_page x) (work_form x h)"
  unfolding work_form_def by (intro page_form_mediated page_behind_guarded assms) simp

lemma complete_contact_careful:
  assumes "\<And>n. zl_lookup (po_zones z) n \<noteq> Zone_malformed"
  shows "careful_handler (complete_contact_handler x z i f)"
proof
  have no: "completion_message z r n = None \<Longrightarrow> P" for r n and P :: bool
    using assms [of n] by (cases "zl_lookup (po_zones z) n") (simp_all add: completion_message_def Let_def)
  show "s' = s\<lparr>si_redis := si_redis s'\<rparr>"
    if "complete_contact_handler x z i f row u s = (answer, s')" and "\<forall>y. answer \<noteq> Reply y"
    for row u s answer s'
    using that by (auto simp: complete_contact_handler_def Let_def split: sum.splits option.splits elim: no)
qed

lemma complete_contact_mediated:
  assumes "\<And>n. zl_lookup (po_zones z) n \<noteq> Zone_malformed"
  shows "mediated x [Csrf] (agent_page x) (complete_contact x z i f)"
  unfolding complete_contact_def by (intro work_form_mediated complete_contact_careful assms)

lemma next_contact_mediated: "mediated x [Csrf] (agent_page x) (next_contact x)"
  unfolding next_contact_def
proof (rule work_form_mediated, unfold_locales)
  show "s' = s\<lparr>si_redis := si_redis s'\<rparr>"
    if "next_contact_handler x row u s = (answer, s')" and "\<forall>y. answer \<noteq> Reply y" for row u s answer s'
    using that by (auto simp: next_contact_handler_def split: prod.splits sum.splits option.splits)
qed

lemma skip_contact_mediated: "mediated x [Csrf] (agent_page x) (skip_contact x i l reason)"
  unfolding skip_contact_def by (intro work_form_mediated careful)

lemma renew_contact_mediated: "mediated x [Csrf] (agent_page x) (renew_contact x i l)"
  unfolding renew_contact_def by (intro work_form_mediated careful)

lemma workbench_careful: "careful_handler (workbench_handler x z)"
  by unfold_locales (auto simp: workbench_handler_def render_def split: sum.splits work_error.splits)

lemma workbench_mediated: "mediated x [] (agent_page x) (workbench x z)"
  unfolding workbench_def by (intro page_view_mediated page_behind_guarded workbench_careful) simp

lemma preferences_page_mediated: "mediated x [] (agent_page x) (preferences_page x)"
  unfolding preferences_page_def by (intro page_view_mediated page_behind_guarded careful) simp

lemma update_preferences_mediated: "mediated x [Csrf] (agent_page x) (update_preferences x f)"
  unfolding update_preferences_def by (intro page_form_mediated page_behind_guarded careful) simp

end
