(* ===== verification/Web_Campaigns.thy ===== *)
theory Web_Campaigns
  imports Web_Work Export Retention
begin

text \<open>
  The campaign pages (\<open>app/web/campaigns.py\<close>): the list, the page of one campaign, and the forms of
  its life cycle, imports, outcomes, reviews, staffing, export and deletion. Each form loads the
  campaign, checks one capability on it, and calls the service the JSON API calls; an unknown
  campaign and one out of reach answer alike.
\<close>

section \<open>Loading and authorizing\<close>

definition campaign_path :: "call \<Rightarrow> uuid \<Rightarrow> string" where
  "campaign_path x campaign_id = ''/campaigns/'' @ cx_str_uuid x campaign_id"

definition import_path :: "call \<Rightarrow> uuid \<Rightarrow> uuid \<Rightarrow> string" where
  "import_path x campaign_id import_id =
     campaign_path x campaign_id @ ''?import='' @ cx_str_uuid x import_id"

definition page_campaign ::
  "call \<Rightarrow> string \<Rightarrow> uuid \<Rightarrow> string \<Rightarrow> string \<Rightarrow> (campaign \<Rightarrow> 'a handler) \<Rightarrow> 'a handler" where
  "page_campaign x capability campaign_id path message k row u s =
     (case get_campaign (si_db s) campaign_id of
        None \<Rightarrow> flash_error_at path message s
      | Some ca \<Rightarrow>
          (if may_on_campaign x 0 capability ca u (si_db s) then k ca row u s
           else flash_error_at path message s))"

definition campaign_form ::
  "call \<Rightarrow> string \<Rightarrow> uuid \<Rightarrow> string \<Rightarrow> string \<Rightarrow> (campaign \<Rightarrow> 'a handler) \<Rightarrow> site \<Rightarrow> 'a reply \<times> site" where
  "campaign_form x capability campaign_id path message k =
     page x True ''/campaigns'' (page_campaign x capability campaign_id path message k)"

definition redirect_to :: "string \<Rightarrow> string \<Rightarrow> 'b \<Rightarrow> unit view" where
  "redirect_to path message = (\<lambda>_. Redirected path (Some message))"

section \<open>The list\<close>

definition default_provenance :: "string \<times> string" where
  "default_provenance = (''ZW'', ''Africa/Harare'')"

text \<open>The columns the ORM maintains and the rows do not carry.\<close>

record stamps =
  sp_campaign_created :: "campaign \<Rightarrow> time"
  sp_job_created :: "import_job \<Rightarrow> time"
  sp_assignment_created :: "user_assignment \<Rightarrow> time"
  sp_item_updated :: "work_item \<Rightarrow> time"

definition shown_may :: "call \<Rightarrow> string \<Rightarrow> campaign \<Rightarrow> user \<Rightarrow> db \<Rightarrow> bool" where
  "shown_may x capability ca u d =
     has_campaign_capability d (us_id u) capability (ca_id ca) (render_now x 1)"

definition shown_stats :: "call \<Rightarrow> campaign \<Rightarrow> user \<Rightarrow> db \<Rightarrow> campaign_stats option" where
  "shown_stats x ca u d =
     (if shown_may x ''view_campaign_reports'' ca u d then Some (get_campaign_stats d (ca_id ca)) else None)"

definition may_create :: "time \<Rightarrow> user \<Rightarrow> db \<Rightarrow> bool" where
  "may_create now u d = has_scope_capability d (us_id u) ''create_campaign'' ''organization'' None now"

definition may_list_campaigns :: "call \<Rightarrow> user \<Rightarrow> db \<Rightarrow> bool" where
  "may_list_campaigns x u d = has_assigned_capability d (us_id u) ''view_campaign'' (handler_now x 0)"

definition visible_campaigns :: "stamps \<Rightarrow> nat \<Rightarrow> time \<Rightarrow> user \<Rightarrow> db \<Rightarrow> campaign list" where
  "visible_campaigns t limit now u d =
     take limit (sort_key (\<lambda>ca. - sp_campaign_created t ca)
       (filter (campaign_scope_filter d (us_id u) ''view_campaign'' now) (campaigns d)))"

definition campaign_list ::
  "call \<Rightarrow> stamps \<Rightarrow> site
   \<Rightarrow> (page_shell \<times> (campaign \<times> campaign_stats option) list \<times> bool \<times> string \<times> string) view reply \<times> site" where
  "campaign_list x t =
     page x False ''/campaigns'' (page_behind (may_list_campaigns x) ''/dashboard''
       ''Not authorized for campaigns.''
       (\<lambda>row u s. render x u s
          (map (\<lambda>ca. (ca, shown_stats x ca u (si_db s)))
             (visible_campaigns t 100 (handler_now x 1) u (si_db s)),
           may_create (render_now x 1) u (si_db s), default_provenance)))"

record campaign_create_form =
  kf_external_code :: string
  kf_name :: string
  kf_purpose :: string
  kf_data_source :: string
  kf_data_obtained_at :: string
  kf_lawful_basis :: string
  kf_description :: string

definition campaign_of_form :: "campaign_create_form \<Rightarrow> uuid \<Rightarrow> date \<Rightarrow> campaign_request" where
  "campaign_of_form f created_by obtained =
     \<lparr>cq_created_by = created_by, cq_external_code = strip (kf_external_code f),
      cq_name = strip (kf_name f), cq_description = stripped (kf_description f),
      cq_owning_scope_type = ''organization'', cq_owning_scope_id = None,
      cq_default_region = fst default_provenance, cq_timezone = snd default_provenance,
      cq_purpose = Some (strip (kf_purpose f)), cq_data_source = Some (strip (kf_data_source f)),
      cq_data_obtained_at = Some (day_start obtained),
      cq_lawful_basis = Some (strip (kf_lawful_basis f))\<rparr>"

definition may_create_here :: "call \<Rightarrow> user \<Rightarrow> db \<Rightarrow> bool" where
  "may_create_here x = may_create (handler_now x 0)"

definition create_campaign_form ::
  "call \<Rightarrow> campaign_create_form \<Rightarrow> site \<Rightarrow> unit view reply \<times> site" where
  "create_campaign_form x f =
     page x True ''/campaigns'' (page_behind (may_create_here x) ''/campaigns''
       ''Not authorized to create a campaign.'' (\<lambda>row u s.
         case fromisoformat (kf_data_obtained_at f) of
           None \<Rightarrow> flash_error_at ''/campaigns'' ''Data-obtained date must be a valid date.'' s
         | Some obtained \<Rightarrow>
             submitted campaign_exception (own_text [''DuplicateCampaignCode'', ''InvalidCampaignCode''])
               ''/campaigns''
               (\<lambda>ca. Redirected (campaign_path x (ca_id ca))
                  (Some ''Campaign created. Add and approve data before launch.''))
               (create_campaign (service_env x) (campaign_of_form f (us_id u) obtained) (si_db s)) s))"

section \<open>The page of a campaign\<close>

record policy_row =
  py_entry :: standard_disposition
  py_row :: "disposition option"
  py_help_text :: string
  py_retry_delay_minutes :: "int option"

definition standard_policy_rows :: "disposition list \<Rightarrow> policy_row list" where
  "standard_policy_rows rows =
     map (\<lambda>entry.
        let installed = find (\<lambda>r. di_stable_semantic_code r = sd_stable_semantic_code entry) (rev rows);
            delay = (case installed of Some r \<Rightarrow> di_retry_delay_minutes r
                     | None \<Rightarrow> sd_default_retry_delay_minutes entry);
            help = (case disposition_help_template (sd_stable_semantic_code entry) of
                      None \<Rightarrow> '''' | Some h \<Rightarrow> h)
        in \<lparr>py_entry = entry, py_row = installed,
            py_help_text = (case delay of None \<Rightarrow> help | Some n \<Rightarrow> format_minutes (str_int n) help),
            py_retry_delay_minutes = delay\<rparr>)
       standard_dispositions"

definition latest_decision_of :: "db \<Rightarrow> uuid \<Rightarrow> import_decision option" where
  "latest_decision_of d job_id =
     first_by (\<lambda>x. - id_decision_version x)
       (filter (\<lambda>x. id_import_job_id x = job_id) (import_decisions d))"

definition available_agents :: "call \<Rightarrow> user \<Rightarrow> db \<Rightarrow> user list" where
  "available_agents x u d =
     filter (\<lambda>c. us_active c \<and> ''agent'' \<in> effective_roles d (us_id c) (render_now x 1))
       (list_visible_users d (us_id u) (render_now x 1) 100)"

record campaign_view =
  cv_campaign :: campaign
  cv_stats :: "campaign_stats option"
  cv_can :: "(string \<times> bool) list"
  cv_import_jobs :: "import_job list"
  cv_selected_job :: "import_job option"
  cv_selected_preview :: "import_row list"
  cv_latest_decisions :: "(uuid \<times> import_decision) list"
  cv_dispositions :: "disposition list"
  cv_is_standard_policy :: bool
  cv_standard_policy_rows :: "policy_row list option"
  cv_standard_policy_validation :: "policy_validation option"
  cv_can_install_standard_policy :: bool
  cv_review_items :: "review_item list"
  cv_assignments :: "(user_assignment \<times> user) list"
  cv_available_agents :: "user list"
  cv_retention_days_remaining :: "int option"

definition campaign_capabilities_shown :: "string list" where
  "campaign_capabilities_shown =
     [''manage_campaign'', ''assign_campaign_agent'', ''launch_campaign'', ''pause_campaign'',
      ''archive_campaign'', ''export_completed_campaign'']"

definition campaign_jobs :: "stamps \<Rightarrow> uuid \<Rightarrow> db \<Rightarrow> import_job list" where
  "campaign_jobs t campaign_id d =
     take 25 (sort_key (\<lambda>j. - sp_job_created t j)
       (filter (\<lambda>j. ij_campaign_id j = campaign_id) (import_jobs d)))"

text \<open>The job the query names, else the newest.\<close>

definition selected_job :: "call \<Rightarrow> string option \<Rightarrow> import_job list \<Rightarrow> import_job option" where
  "selected_job x wanted jobs =
     (case find (\<lambda>j. Some (cx_str_uuid x (ij_id j)) = wanted) jobs of
        Some j \<Rightarrow> Some j
      | None \<Rightarrow> (case jobs of [] \<Rightarrow> None | j # _ \<Rightarrow> Some j))"

definition assignments_shown :: "stamps \<Rightarrow> uuid \<Rightarrow> db \<Rightarrow> (user_assignment \<times> user) list" where
  "assignments_shown t campaign_id d =
     List.map_filter (\<lambda>a. map_option (Pair a) (get_user d (ua_user_id a)))
       (sort_key (\<lambda>a. - sp_assignment_created t a)
          (filter (\<lambda>a. ua_campaign_id a = campaign_id) (user_assignments d)))"

definition all_dispositions_of :: "db \<Rightarrow> uuid \<Rightarrow> disposition list" where
  "all_dispositions_of d campaign_id =
     sort_key (\<lambda>di. (di_display_order di, di_label di))
       (filter (\<lambda>di. di_campaign_id di = campaign_id) (dispositions d))"

definition campaign_view_of ::
  "call \<Rightarrow> stamps \<Rightarrow> string option \<Rightarrow> campaign \<Rightarrow> user \<Rightarrow> db \<Rightarrow> campaign_view" where
  "campaign_view_of x t wanted ca u d =
     (let manage = shown_may x ''manage_campaign'' ca u d;
          jobs = campaign_jobs t (ca_id ca) d;
          job = selected_job x wanted jobs;
          outcomes = all_dispositions_of d (ca_id ca);
          is_standard = (ca_disposition_policy_version ca = Some policy_version)
      in \<lparr>cv_campaign = ca, cv_stats = shown_stats x ca u d,
          cv_can = map (\<lambda>c. (c, shown_may x c ca u d)) campaign_capabilities_shown,
          cv_import_jobs = jobs, cv_selected_job = job,
          cv_selected_preview =
            (case job of None \<Rightarrow> [] | Some j \<Rightarrow> if manage then get_preview j d else []),
          cv_latest_decisions =
            List.map_filter (\<lambda>j. map_option (Pair (ij_id j)) (latest_decision_of d (ij_id j))) jobs,
          cv_dispositions = outcomes, cv_is_standard_policy = is_standard,
          cv_standard_policy_rows = (if is_standard then Some (standard_policy_rows outcomes) else None),
          cv_standard_policy_validation =
            (if is_standard then Some (validate_standard_dispositions d ca) else None),
          cv_can_install_standard_policy =
            (manage \<and> ca_disposition_policy_version ca = None \<and> ca_status ca = Draft \<and> outcomes = []),
          cv_review_items =
            (if manage then list_review_items (cx_str_uuid x) (sp_item_updated t) (ca_id ca) d else []),
          cv_assignments = assignments_shown t (ca_id ca) d,
          cv_available_agents =
            (if shown_may x ''assign_campaign_agent'' ca u d then available_agents x u d else []),
          cv_retention_days_remaining = retention_days_remaining ca (render_now x 2)\<rparr>)"

definition campaign_detail ::
  "call \<Rightarrow> stamps \<Rightarrow> string option \<Rightarrow> uuid \<Rightarrow> site \<Rightarrow> (page_shell \<times> campaign_view) view reply \<times> site" where
  "campaign_detail x t wanted campaign_id =
     page x False ''/campaigns'' (page_campaign x ''view_campaign'' campaign_id ''/campaigns''
       ''Campaign not found or not authorized.''
       (\<lambda>ca row u s. render x u s (campaign_view_of x t wanted ca u (si_db s))))"

section \<open>Export and deletion\<close>

fun export_exception :: "export_error \<Rightarrow> string" where
  "export_exception Campaign_not_exportable = ''CampaignNotExportable''"
| "export_exception Export_undecryptable = ''InvalidToken''"

record export_form =
  xf_justification :: string
  xf_approver :: string
  xf_recipient :: string

text \<open>The workbook is the body of the answer, under a file name made of the campaign's code.\<close>

definition export_campaign ::
  "call \<Rightarrow> workbook_lib \<Rightarrow> uuid \<Rightarrow> export_form \<Rightarrow> site \<Rightarrow> (string \<times> string) view reply \<times> site" where
  "export_campaign x wb campaign_id f =
     campaign_form x ''export_completed_campaign'' campaign_id ''/campaigns''
       ''Campaign not found or not authorized to export.'' (\<lambda>ca row u s.
         if strip (xf_justification f) = '''' \<or> strip (xf_approver f) = '''' \<or> strip (xf_recipient f) = ''''
         then flash_error_at (campaign_path x campaign_id)
           ''Export needs a business justification, an approver and a recipient.'' s
         else submitted export_exception (own_text [''CampaignNotExportable''])
           (campaign_path x campaign_id)
           (\<lambda>data. Rendered (''campaign-'' @ ca_external_code ca @ ''-contacts.xlsx'', data))
           (export_completed_campaign (cx_crypto x) wb (clk (service_env x) 0) ca (us_id u)
              (us_display_name u) (xf_justification f) (xf_approver f) (xf_recipient f) (si_db s)) s)"

fun retention_exception :: "retention_error \<Rightarrow> string" where
  "retention_exception Campaign_not_deletable = ''CampaignNotDeletable''"

definition deletion_text :: "deletion_summary \<Rightarrow> string" where
  "deletion_text r = ''Contact data deleted: '' @ str_int (int (dl_campaign_contacts r))
     @ '' campaign contact(s), '' @ str_int (int (dl_contacts_deleted r)) @ '' number(s) removed.''"

definition delete_campaign_data_action :: "call \<Rightarrow> uuid \<Rightarrow> site \<Rightarrow> unit view reply \<times> site" where
  "delete_campaign_data_action x campaign_id =
     campaign_form x ''export_completed_campaign'' campaign_id ''/campaigns''
       ''Campaign not found or not authorized.'' (\<lambda>ca row u s.
         submitted retention_exception (own_text [''CampaignNotDeletable'']) (campaign_path x campaign_id)
           (\<lambda>r. Redirected (campaign_path x campaign_id) (Some (deletion_text r)))
           (delete_completed_campaign_data ca (Some (us_id u)) (Some ''manual'') (si_db s)) s)"

section \<open>Imports\<close>

definition upload_import_form :: "call \<Rightarrow> uuid \<Rightarrow> upload_form \<Rightarrow> site \<Rightarrow> unit view reply \<times> site" where
  "upload_import_form x campaign_id f =
     campaign_form x ''manage_campaign'' campaign_id ''/campaigns''
       ''Campaign not found or not authorized.'' (\<lambda>ca row u s.
         case create_import_job (cx_crypto x) (cx_files x) (service_env x) (cx_settings x) ca (us_id u)
                (upload_name (uf_filename f)) (read_chunks (uf_content f)) (si_storage s) (si_db s) of
           Inl err \<Rightarrow>
             (flashed (own_text [''UploadRejected'', ''FeatureDisabledError''])
                (campaign_path x campaign_id) (import_exception err), s)
         | Inr (job, st, d) \<Rightarrow>
             (Reply (Redirected (import_path x campaign_id (ij_id job))
                (Some ''Import received. Refresh this page to review its validation result.'')),
              enqueue (Parse_import_job (ij_id job)
                \<lparr>ic_phone = strip (uf_phone_column f),
                 ic_name = Option.bind (uf_name_column f) stripped,
                 ic_metadata = metadata_names (uf_metadata_columns f)\<rparr>)
                (s\<lparr>si_storage := st, si_db := d\<rparr>)))"

text \<open>The job must be the campaign's; only then is the capability checked.\<close>

definition page_import ::
  "call \<Rightarrow> uuid \<Rightarrow> uuid \<Rightarrow> string \<Rightarrow> (import_job \<Rightarrow> 'a handler) \<Rightarrow> 'a handler" where
  "page_import x campaign_id import_id message k row u s =
     (case (get_campaign (si_db s) campaign_id, get_job (si_db s) import_id) of
        (Some ca, Some job) \<Rightarrow>
          (if ij_campaign_id job \<noteq> ca_id ca
           then flash_error_at (campaign_path x campaign_id) ''Import job not found.'' s
           else if may_on_campaign x 0 ''manage_campaign'' ca u (si_db s) then k job row u s
           else flash_error_at (campaign_path x campaign_id) message s)
      | _ \<Rightarrow> flash_error_at (campaign_path x campaign_id) ''Import job not found.'' s)"

definition decide_import_form ::
  "call \<Rightarrow> uuid \<Rightarrow> uuid \<Rightarrow> string \<Rightarrow> string \<Rightarrow> site \<Rightarrow> unit view reply \<times> site" where
  "decide_import_form x campaign_id import_id decision note =
     page x True ''/campaigns'' (page_import x campaign_id import_id
       ''Not authorized to review this import.'' (\<lambda>job row u s.
         submitted import_exception (own_text [''ValueError'']) (import_path x campaign_id (ij_id job))
           (redirect_to (import_path x campaign_id (ij_id job)) ''Import decision recorded.'')
           (record_decision (clk (service_env x) 0) (fresh_id (service_env x) 0) job (us_id u) decision
              (stripped note) (si_db s)) s))"

definition import_commit_text :: "nat \<times> nat \<Rightarrow> string" where
  "import_commit_text r = ''Import committed: '' @ str_int (int (fst r)) @ '' contacts queued, ''
     @ str_int (int (snd r)) @ '' suppressed.''"

definition commit_import_form ::
  "call \<Rightarrow> uuid \<Rightarrow> uuid \<Rightarrow> int \<Rightarrow> string \<Rightarrow> site \<Rightarrow> unit view reply \<times> site" where
  "commit_import_form x campaign_id import_id decision_version idempotency_key =
     page x True ''/campaigns'' (page_import x campaign_id import_id
       ''Not authorized to commit this import.'' (\<lambda>job row u s.
         case commit_job (service_env x) (cx_settings x) (ij_id job) (us_id u) decision_version
                idempotency_key (si_db s) of
           Inl err \<Rightarrow>
             (flashed (own_text [''ImportNotReady'', ''MissingProvenance'', ''StaleDecisionVersion''])
                (import_path x campaign_id (ij_id job)) (import_exception err), s)
         | Inr (result, d) \<Rightarrow>
             (Reply (Redirected (import_path x campaign_id (ij_id job)) (Some (import_commit_text result))),
              s\<lparr>si_db := d, si_storage := cleanup_committed_source job (si_storage s)\<rparr>)))"

section \<open>Outcomes\<close>

definition create_disposition_form ::
  "call \<Rightarrow> uuid \<Rightarrow> disposition_request \<Rightarrow> site \<Rightarrow> unit view reply \<times> site" where
  "create_disposition_form x campaign_id q =
     campaign_form x ''manage_campaign'' campaign_id (campaign_path x campaign_id)
       ''Not authorized to configure dispositions.'' (\<lambda>ca row u s.
         submitted campaign_exception (own_text [''DispositionPolicyError'']) (campaign_path x campaign_id)
           (redirect_to (campaign_path x campaign_id) ''Disposition added.'')
           (create_disposition (service_env x) ca (us_id u)
              (q\<lparr>dq_label := strip (dq_label q),
                 dq_stable_semantic_code := strip (dq_stable_semantic_code q),
                 dq_next_action := (case dq_next_action q of
                    None \<Rightarrow> Some ''complete'' | Some a \<Rightarrow> if a = '''' then None else Some a)\<rparr>)
              (si_db s)) s)"

definition install_standard_policy ::
  "call \<Rightarrow> uuid \<Rightarrow> string \<Rightarrow> string \<Rightarrow> site \<Rightarrow> unit view reply \<times> site" where
  "install_standard_policy x campaign_id no_answer unavailable =
     campaign_form x ''manage_campaign'' campaign_id (campaign_path x campaign_id)
       ''Not authorized to configure dispositions.'' (\<lambda>ca row u s.
         case (optional_field py_int no_answer, optional_field py_int unavailable) of
           (Inr n1, Inr n2) \<Rightarrow>
             submitted campaign_exception (own_text [''DispositionPolicyError''])
               (campaign_path x campaign_id)
               (redirect_to (campaign_path x campaign_id) ''Standard call outcomes installed.'')
               (install_standard_dispositions (service_env x) ca (us_id u) n1 n2 (si_db s)) s
         | _ \<Rightarrow> flash_error_at (campaign_path x campaign_id)
                  ''Retry delays must be whole numbers of minutes.'' s)"

definition update_retry_policy_form ::
  "call \<Rightarrow> uuid \<Rightarrow> string \<Rightarrow> int \<Rightarrow> site \<Rightarrow> unit view reply \<times> site" where
  "update_retry_policy_form x campaign_id stable_semantic_code retry_delay_minutes =
     campaign_form x ''manage_campaign'' campaign_id (campaign_path x campaign_id)
       ''Not authorized to configure dispositions.'' (\<lambda>ca row u s.
         submitted campaign_exception (own_text [''DispositionPolicyError'', ''CampaignStateError''])
           (campaign_path x campaign_id)
           (redirect_to (campaign_path x campaign_id) ''Retry delay updated.'')
           (update_retry_policy ca stable_semantic_code retry_delay_minutes (us_id u) (si_db s)) s)"

section \<open>The review screen\<close>

definition review_screen ::
  "call \<Rightarrow> stamps \<Rightarrow> uuid \<Rightarrow> site \<Rightarrow> (page_shell \<times> campaign \<times> review_item list) view reply \<times> site" where
  "review_screen x t campaign_id =
     page x False ''/campaigns'' (page_campaign x ''manage_campaign'' campaign_id ''/campaigns''
       ''Campaign not found or not authorized.''
       (\<lambda>ca row u s. render x u s
          (ca, list_review_items (cx_str_uuid x) (sp_item_updated t) (ca_id ca) (si_db s))))"

definition review_item_in_campaign :: "db \<Rightarrow> uuid \<Rightarrow> uuid \<Rightarrow> bool" where
  "review_item_in_campaign d work_item_id campaign_id \<longleftrightarrow>
     (case get_work_item d work_item_id of
        None \<Rightarrow> False
      | Some w \<Rightarrow>
          (case get_campaign_contact d (wi_campaign_contact_id w) of
             None \<Rightarrow> False | Some cc \<Rightarrow> cc_campaign_id cc = campaign_id))"

definition review_path :: "call \<Rightarrow> uuid \<Rightarrow> string" where
  "review_path x campaign_id = campaign_path x campaign_id @ ''/review''"

definition review_form ::
  "call \<Rightarrow> uuid \<Rightarrow> uuid \<Rightarrow> (campaign \<Rightarrow> unit view handler) \<Rightarrow> site \<Rightarrow> unit view reply \<times> site" where
  "review_form x campaign_id work_item_id k =
     campaign_form x ''manage_campaign'' campaign_id ''/campaigns''
       ''Campaign not found or not authorized.'' (\<lambda>ca row u s.
         if review_item_in_campaign (si_db s) work_item_id campaign_id then k ca row u s
         else flash_error_at (review_path x campaign_id) ''Review item not found.'' s)"

definition review_flashes :: "(string \<times> string) list" where
  "review_flashes = own_text [''MissingRequiredField'', ''ReviewStateError'']"

definition retry_review_item ::
  "call \<Rightarrow> page_zones \<Rightarrow> uuid \<Rightarrow> uuid \<Rightarrow> string \<Rightarrow> string \<Rightarrow> site \<Rightarrow> unit view reply \<times> site" where
  "retry_review_item x z campaign_id work_item_id retry_at reason =
     review_form x campaign_id work_item_id (\<lambda>ca row u s.
       case parse_local_datetime z retry_at (ca_timezone ca) of
         None \<Rightarrow> (flashed review_flashes (review_path x campaign_id) ''MissingRequiredField'', s)
       | Some t \<Rightarrow>
           submitted work_exception review_flashes (review_path x campaign_id)
             (redirect_to (review_path x campaign_id) ''Retry scheduled.'')
             (reschedule_review_item (service_env x) work_item_id (us_id u) t (strip reason) (si_db s)) s)"

definition allow_more_review_attempts ::
  "call \<Rightarrow> uuid \<Rightarrow> uuid \<Rightarrow> int \<Rightarrow> string \<Rightarrow> site \<Rightarrow> unit view reply \<times> site" where
  "allow_more_review_attempts x campaign_id work_item_id new_max_attempts reason =
     review_form x campaign_id work_item_id (\<lambda>ca row u s.
       submitted work_exception review_flashes (review_path x campaign_id)
         (redirect_to (review_path x campaign_id)
            ''Attempt limit increased; back in the shared pool now.'')
         (increase_review_item_attempts (service_env x) work_item_id (us_id u) new_max_attempts
            (strip reason) (si_db s)) s)"

text \<open>\<open>WorkItemError\<close> catches its subclasses.\<close>

definition work_item_errors :: "string list" where
  "work_item_errors = [''WorkItemError'', ''LeaseConflict'', ''DispositionMismatch'',
     ''MissingRequiredField'', ''IdempotencyConflict'', ''ReviewStateError'', ''LeaseRateLimited'']"

definition close_review_item_action ::
  "call \<Rightarrow> uuid \<Rightarrow> uuid \<Rightarrow> string \<Rightarrow> site \<Rightarrow> unit view reply \<times> site" where
  "close_review_item_action x campaign_id work_item_id reason =
     review_form x campaign_id work_item_id (\<lambda>ca row u s.
       submitted work_exception (own_text work_item_errors) (review_path x campaign_id)
         (redirect_to (review_path x campaign_id) ''Contact closed after repeated attempts.'')
         (close_review_item (service_env x) work_item_id (us_id u) (strip reason) (si_db s)) s)"

section \<open>Staffing and life cycle\<close>

text \<open>An identifier that does not parse is a \<open>ValueError\<close>, flashed like the service's own.\<close>

definition assign_agent_form ::
  "call \<Rightarrow> (string \<Rightarrow> uuid option) \<Rightarrow> uuid \<Rightarrow> string \<Rightarrow> string \<Rightarrow> site \<Rightarrow> unit view reply \<times> site" where
  "assign_agent_form x parse_uuid campaign_id agent_id assignment_type =
     campaign_form x ''assign_campaign_agent'' campaign_id (campaign_path x campaign_id)
       ''Not authorized to assign an agent.'' (\<lambda>ca row u s.
         case parse_uuid agent_id of
           None \<Rightarrow> (flashed (own_text [''ValueError'']) (campaign_path x campaign_id) ''ValueError'', s)
         | Some agent \<Rightarrow>
             submitted campaign_exception (own_text [''CampaignAssignmentError'', ''ValueError''])
               (campaign_path x campaign_id)
               (redirect_to (campaign_path x campaign_id) ''Agent assigned to campaign.'')
               (assign_agent_to_campaign (service_env x) ca agent None (us_id u) assignment_type
                  None None None (si_db s)) s)"

definition lifecycle_capability :: "string \<Rightarrow> (string \<times> string) option" where
  "lifecycle_capability = map_of
     [(''launch'', ''launch_campaign'', ''Campaign launched.''),
      (''pause'', ''pause_campaign'', ''Campaign paused.''),
      (''archive'', ''archive_campaign'', ''Campaign archived.'')]"

definition lifecycle_service ::
  "call \<Rightarrow> string \<Rightarrow> campaign \<Rightarrow> uuid \<Rightarrow> db \<Rightarrow> (campaign_error, campaign, db) outcome" where
  "lifecycle_service x action ca actor d =
     (if action = ''launch'' then launch_campaign (service_env x) ca actor d
      else if action = ''pause'' then pause_campaign ca actor d
      else archive_campaign (service_env x) ca actor d)"

definition lifecycle_handler :: "call \<Rightarrow> uuid \<Rightarrow> string \<Rightarrow> unit view handler" where
  "lifecycle_handler x campaign_id action row u s =
     (case (get_campaign (si_db s) campaign_id, lifecycle_capability action) of
        (Some ca, Some (capability, success)) \<Rightarrow>
          (if \<not> may_on_campaign x 0 capability ca u (si_db s)
           then flash_error_at (campaign_path x campaign_id) ''Not authorized for that campaign action.'' s
           else submitted campaign_exception (own_text [''CampaignStateError'', ''FeatureDisabledError''])
             (campaign_path x campaign_id) (redirect_to (campaign_path x campaign_id) success)
             (lifecycle_service x action ca (us_id u) (si_db s)) s)
      | _ \<Rightarrow> flash_error_at (campaign_path x campaign_id) ''Campaign action not available.'' s)"

definition campaign_lifecycle :: "call \<Rightarrow> uuid \<Rightarrow> string \<Rightarrow> site \<Rightarrow> unit view reply \<times> site" where
  "campaign_lifecycle x campaign_id action =
     page x True ''/campaigns'' (lifecycle_handler x campaign_id action)"

section \<open>The policy of each page\<close>

lemma page_campaign_careful [careful]:
  assumes "\<And>ca. careful_handler (k ca)"
  shows "careful_handler (page_campaign x capability i path m k)"
  unfolding page_campaign_def [abs_def] by (intro careful assms)

lemma page_campaign_guarded:
  assumes "\<And>ca. careful_handler (k ca)"
  shows "guarded_handler (page_campaign x capability i path m k) (campaign_grant x capability i)"
  by (intro guardedI careful assms)
    (auto simp: page_campaign_def campaign_grant_def flash_error_at_def split: option.splits if_splits)

lemma campaign_form_mediated:
  assumes "\<And>ca. careful_handler (k ca)"
  shows "mediated x [Csrf] (campaign_grant x capability i) (campaign_form x capability i path m k)"
  unfolding campaign_form_def by (intro page_form_mediated page_campaign_guarded assms)

lemma page_import_careful [careful]:
  assumes "\<And>job. careful_handler (k job)"
  shows "careful_handler (page_import x i j m k)"
  unfolding page_import_def [abs_def] case_prod_conv by (intro careful assms)

lemma page_import_guarded:
  assumes "\<And>job. careful_handler (k job)"
  shows "guarded_handler (page_import x i j m k) (campaign_grant x ''manage_campaign'' i)"
  by (intro guardedI careful assms)
    (auto simp: page_import_def campaign_grant_def flash_error_at_def split: option.splits if_splits)

lemma may_create_here_blind [simp]: "may_create_here x u (d\<lparr>sessions := ss\<rparr>) = may_create_here x u d"
  by (simp add: may_create_here_def may_create_def)

lemma may_list_campaigns_blind [simp]:
  "may_list_campaigns x u (d\<lparr>sessions := ss\<rparr>) = may_list_campaigns x u d"
  by (simp add: may_list_campaigns_def)

lemma campaign_list_mediated: "mediated x [] (may_list_campaigns x) (campaign_list x t)"
  unfolding campaign_list_def by (intro page_view_mediated page_behind_guarded careful) simp

lemma create_campaign_form_mediated: "mediated x [Csrf] (may_create_here x) (create_campaign_form x f)"
  unfolding create_campaign_form_def by (intro page_form_mediated page_behind_guarded careful) simp

lemma campaign_detail_mediated:
  "mediated x [] (campaign_grant x ''view_campaign'' i) (campaign_detail x t wanted i)"
  unfolding campaign_detail_def by (intro page_view_mediated page_campaign_guarded careful)

lemma export_campaign_mediated:
  "mediated x [Csrf] (campaign_grant x ''export_completed_campaign'' i) (export_campaign x wb i f)"
  unfolding export_campaign_def by (intro campaign_form_mediated careful)

lemma delete_campaign_data_mediated:
  "mediated x [Csrf] (campaign_grant x ''export_completed_campaign'' i) (delete_campaign_data_action x i)"
  unfolding delete_campaign_data_action_def by (intro campaign_form_mediated careful)

lemma upload_import_form_mediated:
  "mediated x [Csrf] (campaign_grant x ''manage_campaign'' i) (upload_import_form x i f)"
  unfolding upload_import_form_def by (intro campaign_form_mediated careful)

lemma decide_import_form_mediated:
  "mediated x [Csrf] (campaign_grant x ''manage_campaign'' i) (decide_import_form x i j v note)"
  unfolding decide_import_form_def by (intro page_form_mediated page_import_guarded careful)

lemma commit_import_form_mediated:
  "mediated x [Csrf] (campaign_grant x ''manage_campaign'' i) (commit_import_form x i j v key)"
  unfolding commit_import_form_def by (intro page_form_mediated page_import_guarded careful)

lemma disposition_forms_mediated:
  "mediated x [Csrf] (campaign_grant x ''manage_campaign'' i) (create_disposition_form x i q)"
  "mediated x [Csrf] (campaign_grant x ''manage_campaign'' i) (update_retry_policy_form x i sem n)"
  unfolding create_disposition_form_def update_retry_policy_form_def
  by (intro campaign_form_mediated careful)+

lemma install_standard_policy_mediated:
  "mediated x [Csrf] (campaign_grant x ''manage_campaign'' i) (install_standard_policy x i a b)"
  unfolding install_standard_policy_def case_prod_conv by (intro campaign_form_mediated careful)

lemma review_screen_mediated:
  "mediated x [] (campaign_grant x ''manage_campaign'' i) (review_screen x t i)"
  unfolding review_screen_def by (intro page_view_mediated page_campaign_guarded careful)

lemma review_form_mediated:
  assumes "\<And>ca. careful_handler (k ca)"
  shows "mediated x [Csrf] (campaign_grant x ''manage_campaign'' i) (review_form x i w k)"
  unfolding review_form_def by (intro campaign_form_mediated careful assms)

lemma review_forms_mediated:
  "mediated x [Csrf] (campaign_grant x ''manage_campaign'' i) (retry_review_item x z i w v reason)"
  "mediated x [Csrf] (campaign_grant x ''manage_campaign'' i) (allow_more_review_attempts x i w n reason)"
  "mediated x [Csrf] (campaign_grant x ''manage_campaign'' i) (close_review_item_action x i w reason)"
  unfolding retry_review_item_def allow_more_review_attempts_def close_review_item_action_def
  by (intro review_form_mediated careful)+

lemma assign_agent_form_mediated:
  "mediated x [Csrf] (campaign_grant x ''assign_campaign_agent'' i) (assign_agent_form x p i a t)"
  unfolding assign_agent_form_def by (intro campaign_form_mediated careful)

definition lifecycle_grant :: "call \<Rightarrow> uuid \<Rightarrow> string \<Rightarrow> user \<Rightarrow> db \<Rightarrow> bool" where
  "lifecycle_grant x campaign_id action u d \<longleftrightarrow>
     (\<exists>capability success. lifecycle_capability action = Some (capability, success)
        \<and> campaign_grant x capability campaign_id u d)"

lemma lifecycle_guarded:
  "guarded_handler (lifecycle_handler x i action) (lifecycle_grant x i action)"
proof (rule guardedI)
  show "careful_handler (lifecycle_handler x i action)"
    unfolding lifecycle_handler_def [abs_def] case_prod_conv by (intro careful)
qed (auto simp: lifecycle_handler_def lifecycle_grant_def campaign_grant_def flash_error_at_def
    split: option.splits if_splits)

lemma campaign_lifecycle_mediated:
  "mediated x [Csrf] (lifecycle_grant x i action) (campaign_lifecycle x i action)"
  unfolding campaign_lifecycle_def by (intro page_form_mediated lifecycle_guarded)

end
