(* ===== verification/Web_Workforce.thy ===== *)
theory Web_Workforce
  imports Web_Campaigns
begin

text \<open>
  The workforce pages (\<open>app/web/workforce.py\<close>), the dashboard with its own create forms
  (\<open>app/web/dashboard.py\<close>) and the wizard of the workforce imports (\<open>app/web/workforce_imports.py\<close>).
  The forms of the dashboard hand their fields to the service as they came; those of the workforce
  pages strip them first.
\<close>

section \<open>The workforce pages\<close>

definition user_path :: "call \<Rightarrow> uuid \<Rightarrow> string" where
  "user_path x user_id = ''/workforce/users/'' @ cx_str_uuid x user_id"

definition team_path :: "call \<Rightarrow> uuid \<Rightarrow> string" where
  "team_path x team_id = ''/workforce/teams/'' @ cx_str_uuid x team_id"

definition active_teams :: "db \<Rightarrow> team list" where
  "active_teams d = sort_key te_name (filter (\<lambda>t. te_status t = ''active'') (teams d))"

definition appointable_roles :: "string list" where
  "appointable_roles = sorted_list_of_set (fst ` set role_appointment_capability)"

definition sorted_roles :: "db \<Rightarrow> uuid \<Rightarrow> time \<Rightarrow> string list" where
  "sorted_roles d user_id now = sorted_list_of_set (effective_roles d user_id now)"

definition may_see_workforce :: "call \<Rightarrow> user \<Rightarrow> db \<Rightarrow> bool" where
  "may_see_workforce x u d \<longleftrightarrow> may_appoint x u d \<or> require_manage_roles x u d"

record workforce_view =
  ov_users :: "user list"
  ov_user_roles :: "(uuid \<times> string list) list"
  ov_teams :: "team list"
  ov_can_manage_workforce :: bool
  ov_can_manage_teams :: bool
  ov_appointable_roles :: "string list"

definition workforce_view_of :: "call \<Rightarrow> nat \<Rightarrow> bool \<Rightarrow> bool \<Rightarrow> user \<Rightarrow> db \<Rightarrow> workforce_view" where
  "workforce_view_of x team_limit can_workforce can_teams u d =
     (let now = clk (service_env x) 0;
          listed = (if can_workforce then list_visible_users d (us_id u) now 100 else [])
      in \<lparr>ov_users = listed, ov_user_roles = map (\<lambda>v. (us_id v, sorted_roles d (us_id v) now)) listed,
          ov_teams = take team_limit (active_teams d), ov_can_manage_workforce = can_workforce,
          ov_can_manage_teams = can_teams, ov_appointable_roles = appointable_roles\<rparr>)"

definition workforce_list :: "call \<Rightarrow> site \<Rightarrow> (page_shell \<times> workforce_view) view reply \<times> site" where
  "workforce_list x =
     page x False ''/workforce'' (page_behind (may_see_workforce x) ''/dashboard''
       ''Not authorized for workforce.'' (\<lambda>row u s.
         render x u s (workforce_view_of x 100 (may_appoint x u (si_db s))
           (require_manage_roles x u (si_db s)) u (si_db s))))"

text \<open>The one-time code is rendered, never put in a location.\<close>

definition user_created :: "call \<Rightarrow> user \<Rightarrow> user \<times> string option \<Rightarrow> db \<Rightarrow> (page_shell \<times> user \<times> string option) view" where
  "user_created x u r d = Rendered (page_context x d u, r)"

definition create_user_at ::
  "call \<Rightarrow> string \<Rightarrow> string \<Rightarrow> string \<Rightarrow> (page_shell \<times> user \<times> string option) view handler" where
  "create_user_at x path email display_name row u s =
     (case create_user (cx_crypto x) (service_env x) email display_name None (us_id u) True (si_db s) of
        Inl err \<Rightarrow> (flashed (own_text [''DuplicateIdentity'']) path (workforce_exception err), s)
      | Inr (r, d) \<Rightarrow> (Reply (user_created x u r d), s\<lparr>si_db := d\<rparr>))"

definition create_user_action ::
  "call \<Rightarrow> string \<Rightarrow> string \<Rightarrow> site \<Rightarrow> (page_shell \<times> user \<times> string option) view reply \<times> site" where
  "create_user_action x email display_name =
     page x True ''/workforce'' (page_behind (may_appoint x) ''/workforce''
       ''Not authorized to create a user.''
       (create_user_at x ''/workforce'' (strip email) (strip display_name)))"

definition created_text :: "string \<Rightarrow> string \<Rightarrow> string" where
  "created_text kind name = kind @ '' '' @ [CHR 0x22] @ name @ [CHR 0x22] @ '' created.''"

definition create_team_action :: "call \<Rightarrow> string \<Rightarrow> string \<Rightarrow> site \<Rightarrow> unit view reply \<times> site" where
  "create_team_action x name external_code =
     page x True ''/workforce'' (page_behind (require_manage_roles x) ''/workforce''
       ''Not authorized to create a team.'' (\<lambda>row u s.
         submitted workforce_exception [] ''/workforce''
           (\<lambda>t. Redirected (team_path x (te_id t)) (Some (created_text ''Team'' (te_name t))))
           (create_team (service_env x) (strip name) (strip external_code) None
              (snd default_provenance) (us_id u) (si_db s)) s))"

text \<open>A person who does not exist and one out of reach answer alike.\<close>

definition page_managed :: "call \<Rightarrow> uuid \<Rightarrow> (user \<Rightarrow> 'a handler) \<Rightarrow> 'a handler" where
  "page_managed x user_id k row u s =
     (case get_user (si_db s) user_id of
        None \<Rightarrow> flash_error_at ''/workforce'' ''User not found or not authorized.'' s
      | Some target \<Rightarrow>
          (if can_manage_user (si_db s) (us_id u) (us_id target) (handler_now x 0) then k target row u s
           else flash_error_at ''/workforce'' ''User not found or not authorized.'' s))"

record user_view =
  hv_target :: user
  hv_roles :: "role_assignment list"
  hv_memberships :: "(team_membership \<times> team) list"
  hv_reporting_line :: "(reporting_assignment \<times> user) option"
  hv_appointable_roles :: "string list"
  hv_scope_teams :: "team list"
  hv_candidate_supervisors :: "user list"

definition active_memberships :: "db \<Rightarrow> (team_membership \<Rightarrow> bool) \<Rightarrow> (team_membership \<times> team) list" where
  "active_memberships d p =
     List.map_filter (\<lambda>m. map_option (Pair m) (get_team d (tm_team_id m)))
       (filter (\<lambda>m. p m \<and> tm_membership_status m = Row_active) (team_memberships d))"

definition primary_line :: "db \<Rightarrow> uuid \<Rightarrow> (reporting_assignment \<times> user) option" where
  "primary_line d user_id =
     (case List.map_filter (\<lambda>r. map_option (Pair r) (get_user d (rp_supervisor_user_id r)))
             (filter (\<lambda>r. rp_subordinate_user_id r = user_id \<and> rp_status r = Row_active
                \<and> rp_assignment_type r = ''primary'') (reporting_assignments d)) of
        [] \<Rightarrow> None | x # _ \<Rightarrow> Some x)"

definition user_view_of :: "call \<Rightarrow> (role_assignment \<Rightarrow> time) \<Rightarrow> user \<Rightarrow> user \<Rightarrow> db \<Rightarrow> user_view" where
  "user_view_of x created target u d =
     \<lparr>hv_target = target,
      hv_roles = sort_key (\<lambda>ra. - created ra)
        (filter (\<lambda>ra. ra_user_id ra = us_id target \<and> ra_status ra = Row_active) (role_assignments d)),
      hv_memberships = sort_key (\<lambda>(m, t). te_name t)
        (active_memberships d (\<lambda>m. tm_user_id m = us_id target)),
      hv_reporting_line = primary_line d (us_id target), hv_appointable_roles = appointable_roles,
      hv_scope_teams = active_teams d,
      hv_candidate_supervisors = filter (\<lambda>v. us_id v \<noteq> us_id target)
        (list_visible_users d (us_id u) (clk (service_env x) 0) 100)\<rparr>"

definition user_detail ::
  "call \<Rightarrow> (role_assignment \<Rightarrow> time) \<Rightarrow> uuid \<Rightarrow> site \<Rightarrow> (page_shell \<times> user_view) view reply \<times> site" where
  "user_detail x created user_id =
     page x False ''/workforce'' (page_managed x user_id (\<lambda>target row u s.
       render x u s (user_view_of x created target u (si_db s))))"

definition disable_user_action :: "call \<Rightarrow> uuid \<Rightarrow> string \<Rightarrow> site \<Rightarrow> unit view reply \<times> site" where
  "disable_user_action x user_id reason_code =
     page x True ''/workforce'' (page_managed x user_id (\<lambda>target row u s.
       submitted workforce_exception (own_text [''SelfApprovalError'']) (user_path x user_id)
         (redirect_to (user_path x user_id) (us_display_name target @ '' disabled.''))
         (disable_user (service_env x) target (us_id u) (strip reason_code) (si_db s)) s))"

definition reactivate_user_action :: "call \<Rightarrow> uuid \<Rightarrow> string \<Rightarrow> site \<Rightarrow> unit view reply \<times> site" where
  "reactivate_user_action x user_id reason_code =
     page x True ''/workforce'' (page_managed x user_id (\<lambda>target row u s.
       done_at (user_path x user_id) (us_display_name target @ '' reactivated.'')
         (s\<lparr>si_db := snd (reactivate_user target (us_id u) (strip reason_code) (si_db s))\<rparr>)))"

text \<open>
  An identifier that does not parse is a \<open>ValueError\<close> nobody catches; \<open>classes\<close> are those the form
  flashes. Neither the person nor the team of the scope is looked up.
\<close>

definition grant_role_handler ::
  "call \<Rightarrow> (string \<Rightarrow> uuid option) \<Rightarrow> string list \<Rightarrow> string \<Rightarrow> uuid \<Rightarrow> string \<Rightarrow> string \<Rightarrow> string
   \<Rightarrow> unit view handler" where
  "grant_role_handler x parse_uuid classes path user_id role_code scope_type scope_id row u s =
     (if strip scope_id \<noteq> '''' \<and> parse_uuid scope_id = None then (Server_error, s)
      else let i = (if strip scope_id = '''' then None else parse_uuid scope_id) in
        if \<not> may_appoint_role x role_code scope_type i u (si_db s)
        then flash_error_at path ''Not authorized to grant that role at that scope.'' s
        else submitted workforce_exception (own_text classes) path (redirect_to path ''Role assigned.'')
          (assign_role (service_env x) user_id role_code scope_type i (us_id u) None (si_db s)) s)"

definition assign_role_action ::
  "call \<Rightarrow> (string \<Rightarrow> uuid option) \<Rightarrow> uuid \<Rightarrow> string \<Rightarrow> string \<Rightarrow> string \<Rightarrow> site \<Rightarrow> unit view reply \<times> site" where
  "assign_role_action x parse_uuid user_id role_code scope_type scope_id =
     page x True ''/workforce'' (grant_role_handler x parse_uuid
       [''UnknownRole'', ''SelfApprovalError'', ''FeatureDisabledError''] (user_path x user_id)
       user_id role_code scope_type scope_id)"

definition end_role_form :: "call \<Rightarrow> uuid \<Rightarrow> string \<Rightarrow> unit view handler" where
  "end_role_form x role_assignment_id reason_code row u s =
     (case row_get ra_id role_assignment_id (role_assignments (si_db s)) of
        None \<Rightarrow> flash_error_at ''/workforce'' ''Role assignment not found.'' s
      | Some ra \<Rightarrow>
          (if \<not> may_appoint_role x (ra_role_code ra) (ra_scope_type ra) (ra_scope_id ra) u (si_db s)
           then flash_error_at (user_path x (ra_user_id ra)) ''Not authorized to end that role.'' s
           else submitted workforce_exception (own_text [''SelfApprovalError''])
             (user_path x (ra_user_id ra)) (redirect_to (user_path x (ra_user_id ra)) ''Role ended.'')
             (end_role_assignment (service_env x) ra (us_id u) (strip reason_code) (si_db s)) s))"

definition end_role_action :: "call \<Rightarrow> uuid \<Rightarrow> string \<Rightarrow> site \<Rightarrow> unit view reply \<times> site" where
  "end_role_action x i reason_code = page x True ''/workforce'' (end_role_form x i reason_code)"

definition set_reporting_line_action :: "call \<Rightarrow> uuid \<Rightarrow> uuid \<Rightarrow> site \<Rightarrow> unit view reply \<times> site" where
  "set_reporting_line_action x user_id supervisor_user_id =
     page x True ''/workforce'' (page_managed x user_id (\<lambda>target row u s.
       submitted workforce_exception (own_text [''SelfSupervision'']) (user_path x user_id)
         (redirect_to (user_path x user_id) ''Reporting line updated.'')
         (set_reporting_line (service_env x) user_id supervisor_user_id ''organization'' None ''primary''
            (us_id u) None (si_db s)) s))"

record team_view =
  mv_team :: team
  mv_members :: "(team_membership \<times> user) list"
  mv_can_manage_team :: bool
  mv_candidate_members :: "user list"

definition may_captain :: "call \<Rightarrow> uuid \<Rightarrow> user \<Rightarrow> db \<Rightarrow> bool" where
  "may_captain x team_id u d =
     has_scope_capability d (us_id u) ''appoint_team_captain'' ''team'' (Some team_id) (handler_now x 0)"

definition team_view_of :: "call \<Rightarrow> team \<Rightarrow> user \<Rightarrow> db \<Rightarrow> team_view" where
  "team_view_of x t u d =
     (let members = sort_key (\<lambda>(m, v). us_display_name v)
            (List.map_filter (\<lambda>m. map_option (Pair m) (get_user d (tm_user_id m)))
               (filter (\<lambda>m. tm_team_id m = te_id t \<and> tm_membership_status m = Row_active)
                  (team_memberships d)));
          manage = may_captain x (te_id t) u d
      in \<lparr>mv_team = t, mv_members = members, mv_can_manage_team = manage,
          mv_candidate_members =
            (if manage
             then filter (\<lambda>v. us_id v \<notin> tm_user_id ` fst ` set members)
                    (list_visible_users d (us_id u) (clk (service_env x) 0) 100)
             else [])\<rparr>)"

definition team_detail_handler :: "call \<Rightarrow> uuid \<Rightarrow> (page_shell \<times> team_view) view handler" where
  "team_detail_handler x team_id row u s =
     (case get_team (si_db s) team_id of
        None \<Rightarrow> flash_error_at ''/workforce'' ''Team not found or not authorized.'' s
      | Some t \<Rightarrow>
          (if may_see_workforce x u (si_db s) then render x u s (team_view_of x t u (si_db s))
           else flash_error_at ''/workforce'' ''Team not found or not authorized.'' s))"

definition team_detail :: "call \<Rightarrow> uuid \<Rightarrow> site \<Rightarrow> (page_shell \<times> team_view) view reply \<times> site" where
  "team_detail x team_id = page x False ''/workforce'' (team_detail_handler x team_id)"

definition page_team :: "call \<Rightarrow> uuid \<Rightarrow> string \<Rightarrow> string \<Rightarrow> string \<Rightarrow> (team \<Rightarrow> 'a handler) \<Rightarrow> 'a handler" where
  "page_team x team_id path missing denied k row u s =
     (if \<not> may_captain x team_id u (si_db s) then flash_error_at path denied s
      else case get_team (si_db s) team_id of
          None \<Rightarrow> flash_error_at path missing s
        | Some t \<Rightarrow> k t row u s)"

definition add_team_member_action :: "call \<Rightarrow> uuid \<Rightarrow> uuid \<Rightarrow> site \<Rightarrow> unit view reply \<times> site" where
  "add_team_member_action x team_id member_user_id =
     page x True ''/workforce'' (page_team x team_id ''/workforce''
       ''Team not found or not authorized.'' ''Team not found or not authorized.''
       (\<lambda>t row u s. done_at (team_path x team_id) ''Team member added.''
          (s\<lparr>si_db := snd (add_team_membership (service_env x) t member_user_id (us_id u) (si_db s))\<rparr>)))"

definition end_membership_form :: "call \<Rightarrow> uuid \<Rightarrow> unit view handler" where
  "end_membership_form x membership_id row u s =
     (case row_get tm_id membership_id (team_memberships (si_db s)) of
        None \<Rightarrow> flash_error_at ''/workforce'' ''Team membership not found.'' s
      | Some m \<Rightarrow>
          (if \<not> may_captain x (tm_team_id m) u (si_db s)
           then flash_error_at (team_path x (tm_team_id m)) ''Not authorized to manage this team.'' s
           else done_at (team_path x (tm_team_id m)) ''Team member removed.''
             (s\<lparr>si_db := snd (end_team_membership (service_env x) m (us_id u) None (si_db s))\<rparr>)))"

definition end_team_membership_action :: "call \<Rightarrow> uuid \<Rightarrow> site \<Rightarrow> unit view reply \<times> site" where
  "end_team_membership_action x membership_id =
     page x True ''/workforce'' (end_membership_form x membership_id)"

section \<open>The dashboard\<close>

record dashboard_view =
  bv_campaigns :: "(campaign \<times> campaign_stats option) list"
  bv_can_create_campaign :: bool
  bv_workforce :: workforce_view
  bv_audit_events :: "audit_event list"

text \<open>Somebody who only works the queue is sent to the workbench.\<close>

definition only_works_queue :: "nav \<Rightarrow> bool" where
  "only_works_queue n \<longleftrightarrow> nv_can_work_queue n
     \<and> \<not> (nv_can_view_campaigns n \<or> nv_can_manage_workforce n \<or> nv_can_manage_teams n \<or> nv_can_view_audit n)"

definition dashboard_handler ::
  "call \<Rightarrow> stamps \<Rightarrow> (audit_event \<Rightarrow> time) \<Rightarrow> (page_shell \<times> dashboard_view) view handler" where
  "dashboard_handler x t occurred row u s =
     (let d = si_db s; n = nav_flags (handler_now x 0) d u;
          now = clk (service_env x) 0;
          reports = has_assigned_capability d (us_id u) ''view_campaign_reports'' (handler_now x 1)
      in if only_works_queue n then (Reply (Redirected ''/agent/work'' None), s)
         else case (if nv_can_view_audit n
                    then list_visible_audit_events occurred d (us_id u) now
                           \<lparr>as_limit = 20, as_action = None, as_result = None, as_since = None, as_until = None\<rparr>
                    else Some []) of
             None \<Rightarrow> (Server_error, s)
           | Some events \<Rightarrow>
               render x u s
                 \<lparr>bv_campaigns =
                    (if nv_can_view_campaigns n
                     then map (\<lambda>ca. (ca, if reports then Some (get_campaign_stats d (ca_id ca)) else None))
                            (visible_campaigns t 50 now u d)
                     else []),
                  bv_can_create_campaign = may_create (handler_now x 2) u d,
                  bv_workforce = workforce_view_of x (if nv_can_view_teams_nav n then 50 else 0)
                    (nv_can_manage_workforce n) (nv_can_manage_teams n) u d,
                  bv_audit_events = events\<rparr>)"

definition dashboard ::
  "call \<Rightarrow> stamps \<Rightarrow> (audit_event \<Rightarrow> time) \<Rightarrow> site \<Rightarrow> (page_shell \<times> dashboard_view) view reply \<times> site" where
  "dashboard x t occurred =
     page x False ''/dashboard'' (behind anyone (dashboard_handler x t occurred))"

definition raw_campaign_of_form :: "campaign_create_form \<Rightarrow> uuid \<Rightarrow> date \<Rightarrow> campaign_request" where
  "raw_campaign_of_form f created_by obtained =
     (campaign_of_form f created_by obtained)\<lparr>cq_name := kf_name f, cq_description := None,
       cq_purpose := Some (kf_purpose f), cq_data_source := Some (kf_data_source f),
       cq_lawful_basis := Some (kf_lawful_basis f)\<rparr>"

definition create_campaign_action ::
  "call \<Rightarrow> campaign_create_form \<Rightarrow> site \<Rightarrow> unit view reply \<times> site" where
  "create_campaign_action x f =
     page x True ''/dashboard'' (page_behind (may_create_here x) ''/dashboard''
       ''Not authorized to create a campaign.'' (\<lambda>row u s.
         case fromisoformat (kf_data_obtained_at f) of
           None \<Rightarrow> flash_error_at ''/dashboard'' ''Data-obtained date must be a valid date.'' s
         | Some obtained \<Rightarrow>
             submitted campaign_exception (own_text [''DuplicateCampaignCode'', ''InvalidCampaignCode''])
               ''/dashboard''
               (redirect_to ''/dashboard'' (created_text ''Campaign'' (kf_name f)))
               (create_campaign (service_env x) (raw_campaign_of_form f (us_id u) obtained) (si_db s)) s))"

definition dashboard_create_user ::
  "call \<Rightarrow> string \<Rightarrow> string \<Rightarrow> site \<Rightarrow> (page_shell \<times> user \<times> string option) view reply \<times> site" where
  "dashboard_create_user x email display_name =
     page x True ''/dashboard'' (page_behind (may_appoint x) ''/dashboard''
       ''Not authorized to create a user.'' (create_user_at x ''/dashboard'' email display_name))"

definition dashboard_assign_role ::
  "call \<Rightarrow> (string \<Rightarrow> uuid option) \<Rightarrow> uuid \<Rightarrow> string \<Rightarrow> string \<Rightarrow> string \<Rightarrow> site \<Rightarrow> unit view reply \<times> site" where
  "dashboard_assign_role x parse_uuid user_id role_code scope_type scope_id =
     page x True ''/dashboard'' (grant_role_handler x parse_uuid
       [''UnknownRole'', ''SelfApprovalError''] ''/dashboard'' user_id role_code scope_type scope_id)"

definition dashboard_create_team :: "call \<Rightarrow> string \<Rightarrow> string \<Rightarrow> site \<Rightarrow> unit view reply \<times> site" where
  "dashboard_create_team x name external_code =
     page x True ''/dashboard'' (page_behind (require_manage_roles x) ''/dashboard''
       ''Not authorized to create a team.'' (\<lambda>row u s.
         submitted workforce_exception [] ''/dashboard''
           (redirect_to ''/dashboard'' (created_text ''Team'' name))
           (create_team (service_env x) name external_code None (snd default_provenance) (us_id u)
              (si_db s)) s))"

definition dashboard_add_team_member :: "call \<Rightarrow> uuid \<Rightarrow> uuid \<Rightarrow> site \<Rightarrow> unit view reply \<times> site" where
  "dashboard_add_team_member x team_id member_user_id =
     page x True ''/dashboard'' (page_team x team_id ''/dashboard'' ''Team not found.''
       ''Not authorized to manage the membership of this team.''
       (\<lambda>t row u s. done_at ''/dashboard'' ''Team member added.''
          (s\<lparr>si_db := snd (add_team_membership (service_env x) t member_user_id (us_id u) (si_db s))\<rparr>)))"

definition dashboard_assign_agent :: "call \<Rightarrow> uuid \<Rightarrow> uuid \<Rightarrow> site \<Rightarrow> unit view reply \<times> site" where
  "dashboard_assign_agent x campaign_id agent_id =
     page x True ''/dashboard'' (page_campaign x ''assign_campaign_agent'' campaign_id ''/dashboard''
       ''Not authorized to assign an agent to this campaign.'' (\<lambda>ca row u s.
         submitted campaign_exception (own_text [''CampaignAssignmentError'']) ''/dashboard''
           (redirect_to ''/dashboard'' ''Agent assigned to campaign.'')
           (assign_agent_to_campaign (service_env x) ca agent_id None (us_id u) ''primary'' None None
              None (si_db s)) s))"

section \<open>The wizard of the workforce imports\<close>

definition import_templates :: "(string \<times> string) list" where
  "import_templates =
     [(''users'', ''action,external_workforce_id,login_identifier,display_name,start_date,end_date''),
      (''explicit_deactivations'', ''external_workforce_id,reason_code''),
      (''team_memberships'', ''action,external_workforce_id,team_code,reason_code''),
      (''role_assignments'', ''action,external_workforce_id,role_code,scope_type,scope_code,reason_code''),
      (''reporting_assignments'', ''external_workforce_id,supervisor_workforce_id,reason_code''),
      (''campaign_user_assignments'', ''action,external_workforce_id,campaign_code,team_code,reason_code'')]"

text \<open>Every line ends in a carriage return and a line feed.\<close>

definition download_template :: "call \<Rightarrow> string \<Rightarrow> site \<Rightarrow> string view reply \<times> site" where
  "download_template x import_type =
     page x False ''/workforce/imports'' (behind anyone (\<lambda>row u s.
       case map_of import_templates import_type of
         None \<Rightarrow> (Http_error 404 ''unknown import type'', s)
       | Some line \<Rightarrow> (Reply (Rendered (line @ [CHR 0x0D, CHR 0x0A])), s)))"

definition job_path :: "call \<Rightarrow> uuid \<Rightarrow> string" where
  "job_path x job_id = ''/workforce/imports/'' @ cx_str_uuid x job_id"

definition imports_list :: "call \<Rightarrow> site \<Rightarrow> (page_shell \<times> wf_job list \<times> string list) view reply \<times> site" where
  "imports_list x =
     page x False ''/workforce/imports'' (page_behind (may_upload_wf x) ''/dashboard''
       ''Not authorized for workforce imports.'' (\<lambda>row u s.
         case visible_jobs (si_db s) (us_id u) (clk (service_env x) 0) 50 200 of
           Inl _ \<Rightarrow> (Server_error, s)
         | Inr jobs \<Rightarrow> render x u s (jobs, import_types)))"

definition wf_form :: "call \<Rightarrow> 'a handler \<Rightarrow> site \<Rightarrow> 'a reply \<times> site" where
  "wf_form x h =
     page x True ''/workforce/imports'' (page_behind (may_upload_wf x) ''/workforce/imports''
       ''Not authorized for workforce imports.'' h)"

definition upload_wf_import_form :: "call \<Rightarrow> wf_upload_form \<Rightarrow> site \<Rightarrow> unit view reply \<times> site" where
  "upload_wf_import_form x f =
     wf_form x (\<lambda>row u s.
       case create_wf_job (cx_crypto x) (cx_files x) (service_env x) (cx_settings x)
              (wu_import_type f) (us_id u) (upload_name (wu_filename f)) (read_chunks (wu_content f))
              (si_storage s) (si_db s) of
         Inl err \<Rightarrow>
           (flashed (own_text [''UploadRejected'', ''UnknownImportType'', ''FeatureDisabledError''])
              ''/workforce/imports'' (wf_exception err), s)
       | Inr (job, st, d) \<Rightarrow>
           (Reply (Redirected (job_path x (wj_id job))
              (Some ''Import received. Refresh to see its validation result.'')),
            enqueue (Parse_workforce_import_job (wj_id job)) (s\<lparr>si_storage := st, si_db := d\<rparr>)))"

record wf_job_view =
  jv_job :: wf_job
  jv_invalid_examples :: "wf_row list"
  jv_decisions :: "wf_decision option \<times> wf_decision option"
  jv_deciders :: "user list"

definition wf_job_view_of :: "wf_job \<Rightarrow> db \<Rightarrow> wf_job_view" where
  "wf_job_view_of job d =
     (let ds = current_decisions d job;
          ids = wd_decided_by ` (set_option (fst ds) \<union> set_option (snd ds))
      in \<lparr>jv_job = job, jv_invalid_examples = wf_preview job d, jv_decisions = ds,
          jv_deciders = filter (\<lambda>v. us_id v \<in> ids) (users d)\<rparr>)"

definition import_detail :: "call \<Rightarrow> uuid \<Rightarrow> site \<Rightarrow> (page_shell \<times> wf_job_view) view reply \<times> site" where
  "import_detail x job_id =
     page x False ''/workforce/imports'' (page_behind (may_upload_wf x) ''/dashboard''
       ''Not authorized for workforce imports.'' (\<lambda>row u s.
         case get_wf_job (si_db s) job_id of
           None \<Rightarrow> flash_error_at ''/workforce/imports'' ''Import job not found.'' s
         | Some job \<Rightarrow>
             (case can_access_job (si_db s) (us_id u) job (handler_now x 1) of
                Inl _ \<Rightarrow> (Server_error, s)
              | Inr ok \<Rightarrow>
                  (if ok then render x u s (wf_job_view_of job (si_db s))
                   else flash_error_at ''/workforce/imports'' ''Import job not found.'' s))))"

definition decide_wf_import_form ::
  "call \<Rightarrow> uuid \<Rightarrow> string \<Rightarrow> string \<Rightarrow> string \<Rightarrow> bool \<Rightarrow> site \<Rightarrow> unit view reply \<times> site" where
  "decide_wf_import_form x job_id decision decision_tier note acknowledge_warnings =
     wf_form x (\<lambda>row u s.
       submitted wf_exception
         ((''SelfApproval'', ''You uploaded this import; a different approver is required.'')
          # own_text [''ImportNotReady'', ''InsufficientApprovalAuthority'', ''UnresolvedBlockingErrors'',
              ''WarningsNotAcknowledged'', ''ValueError''])
         (job_path x job_id) (redirect_to (job_path x job_id) ''Decision recorded.'')
         (record_wf_decision (service_env x) job_id (us_id u) decision decision_tier (stripped note)
            acknowledge_warnings (si_db s)) s)"

definition page_wf_job :: "uuid \<Rightarrow> (wf_job \<Rightarrow> 'a handler) \<Rightarrow> 'a handler" where
  "page_wf_job job_id k row u s =
     (case get_wf_job (si_db s) job_id of
        None \<Rightarrow> flash_error_at ''/workforce/imports'' ''Import job not found.'' s
      | Some job \<Rightarrow> k job row u s)"

text \<open>The page of a commit that created people shows their one-time codes; it is not redirected.\<close>

definition commit_wf_import_form ::
  "call \<Rightarrow> uuid \<Rightarrow> int \<Rightarrow> string \<Rightarrow> site
   \<Rightarrow> (page_shell \<times> wf_job \<times> ((nat \<times> string) list \<times> (string \<times> string) list) \<times> nat) view reply \<times> site" where
  "commit_wf_import_form x job_id decision_version idempotency_key =
     wf_form x (page_wf_job job_id (\<lambda>job row u s.
       case commit_wf_job (cx_crypto x) (service_env x) (wj_id job) (us_id u) decision_version
              idempotency_key (si_db s) of
         Inl err \<Rightarrow>
           (flashed (own_text [''ImportNotReady'', ''StaleDecisionVersion'',
              ''InsufficientApprovalAuthority'', ''UnresolvedBlockingErrors'']) (job_path x job_id)
              (wf_exception err), s)
       | Inr (result, d) \<Rightarrow>
           (let created = count_where (\<lambda>r. snd r = ''created'') (fst result);
                s1 = s\<lparr>si_db := d, si_storage := wf_cleanup_committed_source job (si_storage s)\<rparr>
            in (Reply (if created = 0 then Redirected (job_path x job_id) (Some ''Import committed.'')
                       else Rendered (page_context x d u, job, result, created)), s1))))"

definition reversal_text :: "(nat \<times> string) list \<times> nat list \<Rightarrow> string" where
  "reversal_text r = ''Reversal complete: '' @ str_int (int (length (fst r))) @ '' reverted, ''
     @ str_int (int (length (snd r))) @ '' left unchanged (conflicting).''"

definition reverse_wf_import_form :: "call \<Rightarrow> uuid \<Rightarrow> site \<Rightarrow> unit view reply \<times> site" where
  "reverse_wf_import_form x job_id =
     wf_form x (page_wf_job job_id (\<lambda>job row u s.
       submitted wf_exception
         (own_text [''SelfApproval'', ''InsufficientApprovalAuthority'', ''ImportNotReady''])
         (job_path x job_id) (\<lambda>r. Redirected (job_path x job_id) (Some (reversal_text r)))
         (reverse_wf_job (service_env x) (wj_id job) (us_id u) (si_db s)) s))"

section \<open>The dashboard does not catch a disabled flag\<close>

text \<open>
  Granting the viewer role while its flag is off: the workforce page flashes it, the dashboard
  answers with a server error.
\<close>

lemma dashboard_viewer_flag_uncaught:
  assumes "may_appoint_role x ''viewer'' t None u (si_db s)"
    and "require_enabled (si_db s) ''viewer_enabled'' = Some (Feature_disabled k)"
  shows "grant_role_handler x p [''UnknownRole'', ''SelfApprovalError''] path i ''viewer'' t '''' row u s
      = (Server_error, s)"
    "grant_role_handler x p [''UnknownRole'', ''SelfApprovalError'', ''FeatureDisabledError''] path i
       ''viewer'' t '''' row u s = (flash_error path ''FeatureDisabledError'', s)"
  using assms
  by (simp_all add: grant_role_handler_def strip_def lstrip_def Let_def assign_role_def
      role_appointment_capability_def submitted_def flashed_def own_text_def)

section \<open>The policy of each page\<close>

lemma may_see_workforce_blind [simp]:
  "may_see_workforce x u (d\<lparr>sessions := ss\<rparr>) = may_see_workforce x u d"
  by (simp add: may_see_workforce_def policy_blind)

lemma may_captain_blind [simp]: "may_captain x i u (d\<lparr>sessions := ss\<rparr>) = may_captain x i u d"
  by (simp add: may_captain_def)

lemma page_managed_careful [careful]:
  assumes "\<And>t. careful_handler (k t)"
  shows "careful_handler (page_managed x i k)"
  unfolding page_managed_def [abs_def] by (intro careful assms)

lemma page_managed_guarded:
  assumes "\<And>t. careful_handler (k t)"
  shows "guarded_handler (page_managed x i k) (manage_grant x i)"
  by (intro guardedI careful assms)
    (auto simp: page_managed_def manage_grant_def flash_error_at_def split: option.splits if_splits)

lemma page_team_careful [careful]:
  assumes "\<And>t. careful_handler (k t)"
  shows "careful_handler (page_team x i path m n k)"
  unfolding page_team_def [abs_def] by (intro careful assms)

lemma page_team_guarded:
  assumes "\<And>t. careful_handler (k t)"
  shows "guarded_handler (page_team x i path m n k) (may_captain x i)"
  by (intro guardedI careful assms)
    (auto simp: page_team_def flash_error_at_def split: option.splits if_splits)

lemma page_wf_job_careful [careful]:
  assumes "\<And>job. careful_handler (k job)"
  shows "careful_handler (page_wf_job i k)"
  unfolding page_wf_job_def [abs_def] by (intro careful assms)

lemma create_user_at_careful [careful]: "careful_handler (create_user_at x path e n)"
  unfolding create_user_at_def [abs_def] by (intro careful)

definition grant_scope ::
  "call \<Rightarrow> (string \<Rightarrow> uuid option) \<Rightarrow> string \<Rightarrow> string \<Rightarrow> string \<Rightarrow> user \<Rightarrow> db \<Rightarrow> bool" where
  "grant_scope x parse_uuid role_code scope_type scope_id =
     may_appoint_role x role_code scope_type (if strip scope_id = '''' then None else parse_uuid scope_id)"

definition end_member_grant :: "call \<Rightarrow> uuid \<Rightarrow> user \<Rightarrow> db \<Rightarrow> bool" where
  "end_member_grant x m u d \<longleftrightarrow>
     (\<exists>tm. row_get tm_id m (team_memberships d) = Some tm \<and> may_captain x (tm_team_id tm) u d)"

lemma grant_role_guarded: "guarded_handler (grant_role_handler x p cs path i r t j) (grant_scope x p r t j)"
proof (rule guardedI)
  show "careful_handler (grant_role_handler x p cs path i r t j)"
    unfolding grant_role_handler_def [abs_def] Let_def by (intro careful)
qed (auto simp: grant_role_handler_def grant_scope_def flash_error_at_def Let_def split: if_splits)

lemma end_role_form_guarded: "guarded_handler (end_role_form x k reason) (end_role_grant x k)"
proof (rule guardedI)
  show "careful_handler (end_role_form x k reason)"
    unfolding end_role_form_def [abs_def] by (intro careful)
qed (auto simp: end_role_form_def end_role_grant_def flash_error_at_def split: option.splits if_splits)

lemma end_membership_form_guarded: "guarded_handler (end_membership_form x m) (end_member_grant x m)"
proof (rule guardedI)
  show "careful_handler (end_membership_form x m)"
    unfolding end_membership_form_def [abs_def] by (intro careful)
qed (auto simp: end_membership_form_def end_member_grant_def flash_error_at_def split: option.splits if_splits)

lemma team_detail_guarded: "guarded_handler (team_detail_handler x n) (may_see_workforce x)"
proof (rule guardedI)
  show "careful_handler (team_detail_handler x n)"
    unfolding team_detail_handler_def [abs_def] by (intro careful)
qed (auto simp: team_detail_handler_def flash_error_at_def split: option.splits if_splits)

lemma workforce_pages_mediated:
  "mediated x [] (may_see_workforce x) (workforce_list x)"
  "mediated x [Csrf] (may_appoint x) (create_user_action x e n)"
  "mediated x [Csrf] (require_manage_roles x) (create_team_action x n c)"
  "mediated x [] (manage_grant x i) (user_detail x created i)"
  "mediated x [Csrf] (manage_grant x i) (disable_user_action x i reason)"
  "mediated x [Csrf] (manage_grant x i) (reactivate_user_action x i reason)"
  "mediated x [Csrf] (end_role_grant x k) (end_role_action x k reason)"
  "mediated x [Csrf] (manage_grant x i) (set_reporting_line_action x i j)"
  "mediated x [] (may_see_workforce x) (team_detail x k)"
  "mediated x [Csrf] (may_captain x k) (add_team_member_action x k i)"
  unfolding workforce_list_def create_user_action_def create_team_action_def user_detail_def
    disable_user_action_def reactivate_user_action_def end_role_action_def
    set_reporting_line_action_def team_detail_def add_team_member_action_def
  by (intro page_form_mediated page_view_mediated page_behind_guarded page_managed_guarded
      page_team_guarded end_role_form_guarded team_detail_guarded careful may_see_workforce_blind
      workforce_policy_blind policy_blind)+

lemma role_forms_mediated:
  "mediated x [Csrf] (grant_scope x p r t j) (assign_role_action x p i r t j)"
  "mediated x [Csrf] (grant_scope x p r t j) (dashboard_assign_role x p i r t j)"
  "mediated x [Csrf] (end_member_grant x m) (end_team_membership_action x m)"
  unfolding assign_role_action_def dashboard_assign_role_def end_team_membership_action_def
  by (intro page_form_mediated grant_role_guarded end_membership_form_guarded)+

lemma dashboard_careful [careful]: "careful_handler (dashboard_handler x t occurred)"
  by unfold_locales (auto simp: dashboard_handler_def Let_def render_def split: if_splits option.splits)

lemma dashboard_mediated:
  "mediated x [] anyone (dashboard x t occurred)"
  "mediated x [Csrf] (may_create_here x) (create_campaign_action x f)"
  "mediated x [Csrf] (may_appoint x) (dashboard_create_user x e n)"
  "mediated x [Csrf] (require_manage_roles x) (dashboard_create_team x n c)"
  "mediated x [Csrf] (may_captain x k) (dashboard_add_team_member x k i)"
  "mediated x [Csrf] (campaign_grant x ''assign_campaign_agent'' j) (dashboard_assign_agent x j i)"
  unfolding dashboard_def create_campaign_action_def dashboard_create_user_def
    dashboard_create_team_def dashboard_add_team_member_def dashboard_assign_agent_def
  by (intro page_form_mediated page_view_mediated behind_guarded page_behind_guarded
      page_team_guarded page_campaign_guarded careful may_create_here_blind workforce_policy_blind
      policy_blind)+

lemma wf_form_mediated:
  assumes "careful_handler h"
  shows "mediated x [Csrf] (may_upload_wf x) (wf_form x h)"
  unfolding wf_form_def by (intro page_form_mediated page_behind_guarded assms wf_policy_blind)

lemma wf_pages_mediated:
  "mediated x [] anyone (download_template x t)"
  "mediated x [] (may_upload_wf x) (imports_list x)"
  "mediated x [] (may_upload_wf x) (import_detail x i)"
  unfolding download_template_def imports_list_def import_detail_def
  by (intro page_view_mediated behind_guarded page_behind_guarded careful wf_policy_blind policy_blind)+

lemma wf_forms_mediated:
  "mediated x [Csrf] (may_upload_wf x) (upload_wf_import_form x f)"
  "mediated x [Csrf] (may_upload_wf x) (decide_wf_import_form x i dec tier note ack)"
  "mediated x [Csrf] (may_upload_wf x) (commit_wf_import_form x i v key)"
  "mediated x [Csrf] (may_upload_wf x) (reverse_wf_import_form x i)"
  unfolding upload_wf_import_form_def decide_wf_import_form_def commit_wf_import_form_def
    reverse_wf_import_form_def Let_def
  by (intro wf_form_mediated careful)+

end
