(* ===== verification/Web_Accounts.thy ===== *)
theory Web_Accounts
  imports Web_Workforce Auth_Flows
begin

text \<open>
  The pages of accounts: signing in and out and activating (\<open>app/web/auth_pages.py\<close>), stepping up
  and enrolling a second factor (\<open>app/web/security.py\<close>), and the administrative directory with its
  credential actions (\<open>app/web/admin_users.py\<close>). A page rendered with an error status is an
  \<open>Http_error\<close> with that status and the text it flashes.
\<close>

section \<open>Signing in and out\<close>

text \<open>
  \<open>_redirect_for_existing_session\<close>: where a live session is sent; one whose person is gone or
  disabled is revoked.
\<close>

definition existing_session_target :: "user \<Rightarrow> session \<Rightarrow> string" where
  "existing_session_target u row =
     (if us_totp_enrolled u \<and> ss_mfa_state row = mfa_satisfied then ''/dashboard'' else ''/security/mfa'')"

definition redirect_for_existing_session :: "call \<Rightarrow> db \<Rightarrow> string option \<times> db" where
  "redirect_for_existing_session x d =
     (case load_session (cx_crypto x) (cx_settings x) (clk (cx_env x) 0) (rq_cookie (cx_request x)) d of
        (None, _) \<Rightarrow> (None, d)
      | (Some row, d1) \<Rightarrow>
          (case get_user d1 (ss_user_id row) of
             None \<Rightarrow> (None, revoke_session (clk (cx_env x) 1) row d1)
           | Some u \<Rightarrow>
               (if \<not> us_active u then (None, revoke_session (clk (cx_env x) 1) row d1)
                else (Some (existing_session_target u row), d1))))"

definition entry_form :: "call \<Rightarrow> 'v \<Rightarrow> world \<Rightarrow> 'v view reply \<times> world" where
  "entry_form x form w =
     (case redirect_for_existing_session x (snd w) of
        (Some target, d) \<Rightarrow> (Reply (Redirected target None), fst w, d)
      | (None, d) \<Rightarrow> (Reply (Rendered form), fst w, d))"

definition login_form :: "call \<Rightarrow> world \<Rightarrow> unit view reply \<times> world" where
  "login_form x = entry_form x ()"

text \<open>The cookies of a sign-in come with the redirect.\<close>

definition login_submit ::
  "call \<Rightarrow> auth_platform \<Rightarrow> login_request \<Rightarrow> world \<Rightarrow> (unit view \<times> auth_cookies) reply \<times> world" where
  "login_submit x p payload w =
     (let cfg = cx_settings x; e = cx_env x; rq = cx_request x; d = snd w;
          rate_key = normalize_email (lr_email payload);
          (allowed, r) = check_and_increment (ap_digest p) (ap_redis_up p) cfg (clk e 0) rate_key
                           (client_ip rq) (fst w);
          audit = (\<lambda>result reason. record_request_audit ''auth.login'' result None None None
                     (Some reason) [] (client_ip rq) (Some (source_summary rq)) d)
      in if \<not> allowed
         then (Http_error 429 ''Too many attempts. Try again shortly.'', r, audit ''denied'' ''rate_limited'')
         else case authenticate (cx_crypto x) (lr_email payload) (lr_password payload)
                     (case lr_totp_code payload of None \<Rightarrow> None | Some t \<Rightarrow> if t = '''' then None else Some t) d of
           Inl err \<Rightarrow>
             (if err = Undecryptable_secret then (Server_error, r, d)
              else (Http_error 401 (if err = Second_factor_required
                       then ''Enter your authenticator code to finish signing in.''
                       else ''Invalid email, password, or code.''),
                    r, audit ''failure'' (auth_reason err)))
         | Inr u \<Rightarrow>
             let ((row, token), d1) = create_session (cx_crypto x) e cfg (clk e 1) (us_id u)
                   (Some (source_summary rq)) (mfa_state_of u) (us_totp_enrolled u) d;
                 d2 = put_user (u\<lparr>us_last_login_at := Some (clk e 2)\<rparr>) d1;
                 d3 = record_request_audit ''auth.login'' ''success'' (Some (us_id u)) (Some ''session'')
                   (Some (ss_id row)) None [] (client_ip rq) (Some (source_summary rq)) d2
             in (Reply (Redirected (if us_totp_enrolled u then ''/dashboard'' else ''/security/mfa'') None,
                        set_auth_cookies (cx_crypto x) cfg p token (ss_id row)),
                 reset_account (ap_digest p) (\<lambda>i. ap_redis_up p (3 + i)) rate_key r, d3))"

definition logout_submit :: "call \<Rightarrow> world \<Rightarrow> unit view reply \<times> world" where
  "logout_submit x w =
     (case require_page_session (cx_crypto x) (cx_settings x) (clk (cx_env x) 0)
             (rq_cookie (cx_request x)) (snd w) of
        Inl r \<Rightarrow> (page_refused ''/logout'' r, w)
      | Inr (row, d) \<Rightarrow>
          (case verify_form_csrf (cx_crypto x) (cx_str_uuid x) (rq_fetch_site (cx_request x))
                  (rq_csrf_token (cx_request x)) row of
             Some r \<Rightarrow> (page_refused ''/logout'' r, fst w, d)
           | None \<Rightarrow>
               (Reply (Redirected ''/login'' None), fst w,
                record_audit ''auth.logout'' ''success'' (Some (ss_user_id row)) (Some ''session'')
                  (Some (ss_id row)) None [] (revoke_session (clk (cx_env x) 2) row d))))"

section \<open>Activation\<close>

definition activate_form :: "call \<Rightarrow> world \<Rightarrow> nat view reply \<times> world" where
  "activate_form x = entry_form x min_password_length"

definition activate_submit ::
  "call \<Rightarrow> auth_platform \<Rightarrow> string \<Rightarrow> string \<Rightarrow> string \<Rightarrow> world \<Rightarrow> unit view reply \<times> world" where
  "activate_submit x p token new_password confirm_password w =
     (let e = cx_env x; rq = cx_request x; d = snd w;
          (allowed, r) = check_and_increment_activation (ap_digest p) (ap_redis_up p) (cx_settings x)
                           (clk e 0) (client_ip rq) (fst w);
          audit = (\<lambda>result actor reason. record_request_audit ''auth.activate'' result actor None None
                     reason [] (client_ip rq) (Some (source_summary rq)))
      in if \<not> allowed
         then (Http_error 429 ''Too many attempts. Wait before trying again.'', r,
               audit ''denied'' None (Some ''rate_limited'') d)
         else case validate_password_strength new_password [] of
           Some weak \<Rightarrow> (Http_error 400 (weak_password_message weak), r, d)
         | None \<Rightarrow>
             (if new_password \<noteq> confirm_password
              then (Http_error 400 ''Passwords do not match.'', r, d)
              else case activate_user_password (cx_crypto x) (clk e 1) (strip token) new_password d of
                  (None, d1) \<Rightarrow>
                    (Http_error 400 ''Activation failed. Verify the one-time code and try again.'', r,
                     audit ''failure'' None (Some ''invalid_or_expired_token'') d1)
                | (Some u, d1) \<Rightarrow>
                    (Reply (Rendered ()), r,
                     audit ''success'' (Some (us_id u)) None
                       (revoke_all_for_user (clk e 2) (us_id u) d1))))"

section \<open>The second factor\<close>

text \<open>These pages take a session whose second factor is not satisfied.\<close>

definition security_page ::
  "call \<Rightarrow> bool \<Rightarrow> (session \<Rightarrow> user \<Rightarrow> world \<Rightarrow> 'a reply \<times> world) \<Rightarrow> world \<Rightarrow> 'a reply \<times> world" where
  "security_page x form h w =
     (case page_gates x form False w of
        (Inl r, w1) \<Rightarrow> (page_refused ''/security/mfa'' r, w1)
      | (Inr (row, u), w1) \<Rightarrow> h row u w1)"

fun in_fours :: "string \<Rightarrow> string list" where
  "in_fours (a # b # c # d # s) = [a, b, c, d] # in_fours s"
| "in_fours [] = []"
| "in_fours s = [s]"

fun join_spaces :: "string list \<Rightarrow> string" where
  "join_spaces [] = ''''"
| "join_spaces [s] = s"
| "join_spaces (s # ss) = s @ '' '' @ join_spaces ss"

record security_view =
  sv_mfa_active :: bool
  sv_recently_reauthenticated :: bool
  sv_setup_in_progress :: bool
  sv_enrollment_secret_display :: "string option"

definition security_view_of :: "call \<Rightarrow> session \<Rightarrow> user \<Rightarrow> string option \<Rightarrow> security_view" where
  "security_view_of x row u secret =
     \<lparr>sv_mfa_active = (us_totp_enrolled u \<and> ss_mfa_state row = mfa_satisfied),
      sv_recently_reauthenticated = is_recently_reauthenticated (cx_settings x) (render_now x 1) row,
      sv_setup_in_progress =
        ((case us_totp_secret_ciphertext u of None \<Rightarrow> False | Some t \<Rightarrow> t \<noteq> '''') \<and> \<not> us_totp_enrolled u),
      sv_enrollment_secret_display =
        (case secret of None \<Rightarrow> None
         | Some t \<Rightarrow> if t = '''' then None else Some (join_spaces (in_fours t)))\<rparr>"

definition mfa_security_page :: "call \<Rightarrow> world \<Rightarrow> (page_shell \<times> security_view) view reply \<times> world" where
  "mfa_security_page x =
     security_page x False (\<lambda>row u w.
       (Reply (Rendered (page_context x (snd w) u, security_view_of x row u None)), w))"

definition mfa_reauthenticate ::
  "call \<Rightarrow> auth_platform \<Rightarrow> string \<Rightarrow> string option \<Rightarrow> world \<Rightarrow> unit view reply \<times> world" where
  "mfa_reauthenticate x p password totp_code =
     security_page x True (\<lambda>row u (r, d).
       let e = cx_env x; rq = cx_request x;
           rate_key = ''reauth:'' @ normalize_email (us_email u);
           (allowed, r1) = check_and_increment (ap_digest p) (ap_redis_up p) (cx_settings x) (clk e 2)
                             rate_key (client_ip rq) r;
           audit = (\<lambda>result reason. record_request_audit ''auth.reauthenticate'' result (Some (us_id u))
                      None None reason [] (client_ip rq) (Some (source_summary rq)))
       in if \<not> allowed
          then (Http_error 429 ''Too many attempts. Wait before trying again.'', r1,
                audit ''denied'' (Some ''rate_limited'') d)
          else case authenticate (cx_crypto x) (us_email u) password
                      (case totp_code of None \<Rightarrow> None | Some t \<Rightarrow> if t = '''' then None else Some t) d of
            Inl err \<Rightarrow>
              (if err = Undecryptable_secret then (Server_error, r1, d)
               else (Http_error 401 ''Password or authenticator code was not accepted.'', r1,
                     audit ''failure'' (Some ''invalid_credentials'') d))
          | Inr _ \<Rightarrow>
              (Reply (Redirected ''/security/mfa''
                 (Some ''Identity confirmed. Continue with authenticator setup.'')),
               reset_account (ap_digest p) (\<lambda>i. ap_redis_up p (3 + i)) rate_key r1,
               audit ''success'' None
                 (put_session_row (row\<lparr>ss_mfa_state := mfa_state_of u,
                                       ss_reauthenticated_at := Some (clk e 3)\<rparr>) d)))"

definition mfa_start :: "call \<Rightarrow> world \<Rightarrow> (page_shell \<times> security_view) view reply \<times> world" where
  "mfa_start x =
     security_page x True (\<lambda>row u (r, d).
       if us_totp_enrolled u
       then (Reply (Redirected ''/security/mfa'' (Some ''Two-step verification is already active.'')), r, d)
       else if \<not> is_recently_reauthenticated (cx_settings x) (clk (cx_env x) 2) row
       then (Http_error 403 ''Confirm your password before starting authenticator setup.'', r, d)
       else case begin_totp_enrollment (cx_crypto x) (cx_env x) (cx_settings x) (us_id u) d of
           Inl err \<Rightarrow> (Http_error 409 ''Authenticator setup could not be started.'', r, d)
         | Inr ((locked, secret), d1) \<Rightarrow>
             let row1 = row\<lparr>ss_mfa_state := mfa_enrollment_required\<rparr>;
                 d2 = record_request_audit ''auth.totp.enroll_start'' ''success'' (Some (us_id u)) None None
                   None [] (client_ip (cx_request x)) (Some (source_summary (cx_request x)))
                   (put_session_row row1 d1)
             in (Reply (Rendered (page_context x d2 locked, security_view_of x row1 locked (Some secret))),
                 r, d2))"

definition mfa_verify ::
  "call \<Rightarrow> auth_platform \<Rightarrow> string \<Rightarrow> world \<Rightarrow> (unit view \<times> auth_cookies) reply \<times> world" where
  "mfa_verify x p entered =
     security_page x True (\<lambda>row u (r, d).
       let c = cx_crypto x; cfg = cx_settings x; e = cx_env x; rq = cx_request x;
           audit = (\<lambda>result reason. record_request_audit ''auth.totp.verify'' result (Some (us_id u))
                      None None (Some reason) [] (client_ip rq) (Some (source_summary rq)))
       in if \<not> is_recently_reauthenticated cfg (clk e 2) row
          then (Http_error 403 ''Confirm your password again before verifying setup.'', r, d)
          else
            let rate_key = ''totp-enrollment:'' @ normalize_email (us_email u);
                (allowed, r1) = check_and_increment (ap_digest p) (ap_redis_up p) cfg (clk e 3) rate_key
                                  (client_ip rq) r
            in if \<not> allowed
               then (Http_error 429 ''Too many verification attempts. Wait before trying again.'', r1,
                     audit ''denied'' ''rate_limited'' d)
               else case complete_totp_enrollment c (us_id u) entered d of
                 Inl err \<Rightarrow>
                   (if err = Totp_undecryptable then (Server_error, r1, d)
                    else (Http_error 400 ''That code was not accepted. Check the six digits and try again.'',
                          r1, audit ''failure'' (underscored (totp_message err)) d))
               | Inr (enrolled_user, d1) \<Rightarrow>
                   let d2 = revoke_all_for_user (clk e 4) (us_id enrolled_user) d1;
                       ((new_session, token), d3) =
                         create_session c e cfg (clk e 5) (us_id enrolled_user) (ss_source_summary row)
                           mfa_satisfied True d2
                   in (Reply (Redirected ''/security/mfa'' (Some ''Two-step verification is active.''),
                              set_auth_cookies c cfg p token (ss_id new_session)),
                       reset_account (ap_digest p) (\<lambda>i. ap_redis_up p (3 + i)) rate_key r1,
                       record_request_audit ''auth.totp.verify'' ''success'' (Some (us_id enrolled_user))
                         (Some ''session'') (Some (ss_id new_session)) None [] (client_ip rq)
                         (Some (source_summary rq)) d3))"

section \<open>The administrative directory\<close>

definition may_view_directory :: "call \<Rightarrow> user \<Rightarrow> db \<Rightarrow> bool" where
  "may_view_directory x u d = can_view_admin_directory d (us_id u) (handler_now x 0)"

definition parse_page :: "string \<Rightarrow> int" where
  "parse_page raw =
     (case py_int (if raw = '''' then ''1'' else raw) of None \<Rightarrow> 1 | Some n \<Rightarrow> max n 1)"

record directory_form =
  gf_q :: string
  gf_status :: string
  gf_activation_state :: string
  gf_role :: string
  gf_team_id :: string
  gf_sort :: string
  gf_page :: string

definition directory_query :: "(string \<Rightarrow> uuid option) \<Rightarrow> directory_form \<Rightarrow> user_query" where
  "directory_query parse_uuid f =
     \<lparr>uq_search = stripped (gf_q f),
      uq_status = (case stripped (gf_status f) of None \<Rightarrow> None
        | Some v \<Rightarrow> if v \<in> {''active'', ''inactive''} then Some v else None),
      uq_activation_state = stripped (gf_activation_state f), uq_role = stripped (gf_role f),
      uq_team_id = Option.bind (stripped (gf_team_id f)) parse_uuid,
      uq_page = parse_page (gf_page f), uq_page_size = directory_page_size_default,
      uq_sort = (if strip (gf_sort f) \<in> {''name'', ''recent''} then strip (gf_sort f) else ''name'')\<rparr>"

definition total_pages :: "nat \<Rightarrow> int" where
  "total_pages n =
     max ((int n + directory_page_size_default - 1) div directory_page_size_default) 1"

record directory_view =
  iv_directory :: directory_page
  iv_summary :: directory_summary
  iv_teams :: "team list"
  iv_query :: user_query
  iv_page :: int
  iv_total_pages :: int

text \<open>A page past the end is rendered empty; the pager is clamped.\<close>

definition admin_users_list ::
  "call \<Rightarrow> (string \<Rightarrow> uuid option) \<Rightarrow> directory_form \<Rightarrow> site
   \<Rightarrow> (page_shell \<times> directory_view) view reply \<times> site" where
  "admin_users_list x parse_uuid f =
     page x False ''/admin/users'' (page_behind (may_view_directory x) ''/dashboard''
       ''Not authorized for user administration.'' (\<lambda>row u s.
         let d = si_db s; now = clk (service_env x) 0; q = directory_query parse_uuid f;
             found = list_user_directory d (us_id u) now q;
             pages = total_pages (dp_total_count found)
         in render x u s \<lparr>iv_directory = found, iv_summary = summary_of d (us_id u) now,
              iv_teams = active_teams d, iv_query = q, iv_page = min (uq_page q) pages,
              iv_total_pages = pages\<rparr>))"

definition in_admin_scope :: "call \<Rightarrow> uuid \<Rightarrow> user \<Rightarrow> db \<Rightarrow> bool" where
  "in_admin_scope x user_id u d =
     (case get_user d user_id of
        None \<Rightarrow> False | Some target \<Rightarrow> user_in_admin_scope d (us_id u) (us_id target) (handler_now x 1))"

definition detail_path :: "call \<Rightarrow> uuid \<Rightarrow> string" where
  "detail_path x user_id = ''/admin/users/'' @ cx_str_uuid x user_id"

text \<open>\<open>_load_target_in_scope\<close>: unknown and out of scope answer alike.\<close>

definition with_scoped_target :: "call \<Rightarrow> uuid \<Rightarrow> (user \<Rightarrow> 'a handler) \<Rightarrow> 'a handler" where
  "with_scoped_target x user_id k row u s =
     (case get_user (si_db s) user_id of
        None \<Rightarrow> flash_error_at ''/admin/users'' ''User not found or not authorized.'' s
      | Some target \<Rightarrow>
          (if user_in_admin_scope (si_db s) (us_id u) (us_id target) (handler_now x 1)
           then k target row u s
           else flash_error_at ''/admin/users'' ''User not found or not authorized.'' s))"

record account_view =
  yv_target :: user
  yv_activation_state :: string
  yv_roles :: "string list"
  yv_teams :: "string list"
  yv_can_manage_workforce_profile :: bool
  yv_has_reset_capability :: bool
  yv_can_reset_credentials :: bool
  yv_is_self :: bool
  yv_recently_reauthenticated :: bool

definition can_reset_credentials :: "call \<Rightarrow> user \<Rightarrow> db \<Rightarrow> bool" where
  "can_reset_credentials x u d =
     has_capability d (us_id u) ''reset_user_auth'' None None (handler_now x 0)"

definition account_view_of :: "call \<Rightarrow> session \<Rightarrow> user \<Rightarrow> user \<Rightarrow> db \<Rightarrow> account_view" where
  "account_view_of x row target u d =
     (let now = clk (service_env x) 0; reset = can_reset_credentials x u d;
          own = (us_id u = us_id target); (roles, team_names) = roles_and_teams_for_user d (us_id target) now
      in \<lparr>yv_target = target, yv_activation_state = activation_state_for_user d now (us_id target),
          yv_roles = roles, yv_teams = team_names,
          yv_can_manage_workforce_profile = can_manage_user d (us_id u) (us_id target) now,
          yv_has_reset_capability = reset, yv_can_reset_credentials = (reset \<and> \<not> own), yv_is_self = own,
          yv_recently_reauthenticated = is_recently_reauthenticated (cx_settings x) now row\<rparr>)"

definition admin_user_detail :: "call \<Rightarrow> uuid \<Rightarrow> site \<Rightarrow> (page_shell \<times> account_view) view reply \<times> site" where
  "admin_user_detail x user_id =
     page x False ''/admin/users'' (page_behind (may_view_directory x) ''/dashboard''
       ''Not authorized for user administration.''
       (with_scoped_target x user_id (\<lambda>target row u s.
          render x u s (account_view_of x row target u (si_db s)))))"

section \<open>Credential actions\<close>

text \<open>The checks of the three actions, in their order; the step-up window is checked last.\<close>

definition credential_action ::
  "call \<Rightarrow> uuid \<Rightarrow> string \<Rightarrow> string \<Rightarrow> (user \<Rightarrow> 'a handler) \<Rightarrow> 'a handler" where
  "credential_action x user_id denied own k =
     with_scoped_target x user_id (\<lambda>target row u s.
       if \<not> can_reset_credentials x u (si_db s) then flash_error_at (detail_path x user_id) denied s
       else case assert_not_self (us_id u) (us_id target) of
           Some _ \<Rightarrow> flash_error_at (detail_path x user_id) own s
         | None \<Rightarrow>
             (if \<not> is_recently_reauthenticated (cx_settings x) (handler_now x 2) row
              then flash_error_at (detail_path x user_id)
                ''Confirm your identity at Account security, then try again.'' s
              else k target row u s))"

text \<open>
  The one-time code is rendered with its expiry in the zone of the installation, after the commit:
  a zone that does not exist costs the answer, not the code.
\<close>

definition issued_code ::
  "call \<Rightarrow> page_zones \<Rightarrow> uuid \<Rightarrow> (account_error, string \<times> time, db) outcome \<Rightarrow> user \<Rightarrow> user \<Rightarrow> site
   \<Rightarrow> (page_shell \<times> user \<times> string \<times> string) view reply \<times> site" where
  "issued_code x z user_id r target u s =
     (case r of
        Inl err \<Rightarrow>
          (flashed (own_text [''AccountNotEligible'']) (detail_path x user_id) (account_exception err), s)
      | Inr ((token, expires_at), d) \<Rightarrow>
          ((if zl_lookup (po_zones z) (default_timezone (cx_settings x)) = Zone_found
            then Reply (Rendered (page_context x d u, target, token,
                   po_text z (default_timezone (cx_settings x)) expires_at))
            else Server_error), s\<lparr>si_db := d\<rparr>))"

definition issue_activation_code_action ::
  "call \<Rightarrow> page_zones \<Rightarrow> uuid \<Rightarrow> site
   \<Rightarrow> (page_shell \<times> user \<times> string \<times> string) view reply \<times> site" where
  "issue_activation_code_action x z user_id =
     page x True ''/admin/users'' (credential_action x user_id
       ''Not authorized to issue activation codes.'' ''You cannot issue your own activation code.''
       (\<lambda>target row u s. issued_code x z user_id
          (issue_or_replace_activation_code (cx_crypto x) (service_env x) (us_id target) (us_id u) (si_db s))
          target u s))"

definition reset_password_action ::
  "call \<Rightarrow> page_zones \<Rightarrow> uuid \<Rightarrow> site
   \<Rightarrow> (page_shell \<times> user \<times> string \<times> string) view reply \<times> site" where
  "reset_password_action x z user_id =
     page x True ''/admin/users'' (credential_action x user_id
       ''Not authorized to reset passwords.'' ''You cannot reset your own password here.''
       (\<lambda>target row u s. issued_code x z user_id
          (reset_password (cx_crypto x) (service_env x) (us_id target) (us_id u) (si_db s)) target u s))"

definition reset_mfa_action :: "call \<Rightarrow> uuid \<Rightarrow> site \<Rightarrow> unit view reply \<times> site" where
  "reset_mfa_action x user_id =
     page x True ''/admin/users'' (credential_action x user_id
       ''Not authorized to reset MFA.'' ''You cannot reset your own MFA here.''
       (\<lambda>target row u s.
          submitted account_exception (own_text [''AccountNotEligible'']) (detail_path x user_id)
            (\<lambda>_. Redirected (detail_path x user_id)
               (Some (''MFA reset for '' @ us_display_name target @ ''. They must re-enroll to sign in.'')))
            (reset_mfa (service_env x) (us_id target) (us_id u) (si_db s)) s))"

section \<open>The form and the API sign in alike\<close>

lemma login_submit_like_login:
  assumes "lr_totp_code payload \<noteq> Some ''''"
  shows "snd (login_submit x p payload w)
      = snd (login (cx_crypto x) (cx_settings x) p (cx_env x) (cx_request x) payload w)"
    and "(\<exists>v. fst (login_submit x p payload w) = Reply v)
      \<longleftrightarrow> (\<exists>v. fst (login (cx_crypto x) (cx_settings x) p (cx_env x) (cx_request x) payload w) = Reply v)"
proof -
  have "(case lr_totp_code payload of None \<Rightarrow> None | Some t \<Rightarrow> if t = '''' then None else Some t)
      = lr_totp_code payload" using assms by (auto split: option.split)
  then show "snd (login_submit x p payload w)
      = snd (login (cx_crypto x) (cx_settings x) p (cx_env x) (cx_request x) payload w)"
    and "(\<exists>v. fst (login_submit x p payload w) = Reply v)
      \<longleftrightarrow> (\<exists>v. fst (login (cx_crypto x) (cx_settings x) p (cx_env x) (cx_request x) payload w) = Reply v)"
    by (auto simp: login_submit_def login_def login_success_def Let_def split: prod.splits sum.splits)
qed

section \<open>The page and the API reset alike\<close>

lemma authenticated_recent:
  "authenticated x [Csrf, Recent_reauthentication] w = (Reply (row, u), w')
   \<longleftrightarrow> authenticated x [Csrf] w = (Reply (row, u), w')
       \<and> is_recently_reauthenticated (cx_settings x) (clk (cx_env x) 1) row"
  by (auto simp: authenticated_def with_user_def with_session_def get_current_session_def check_gate_def
      require_recent_reauthentication_def get_authenticated_user_def get_current_user_def
      split: option.splits prod.splits if_splits sum.splits)

lemma endpoint_Reply:
  "endpoint x gates h s = (Reply y, s')
   \<longleftrightarrow> (\<exists>row u r d. authenticated x gates (si_redis s, si_db s) = (Reply (row, u), r, d)
         \<and> h row u (s\<lparr>si_redis := r, si_db := d\<rparr>) = (Reply y, s'))"
  by (auto simp: endpoint_def Let_def split: prod.splits reply.splits)

lemma endpoint_recent:
  "endpoint x [Csrf, Recent_reauthentication] h s = (Reply y, s')
   \<longleftrightarrow> (\<exists>row u r d. authenticated x [Csrf] (si_redis s, si_db s) = (Reply (row, u), r, d)
         \<and> is_recently_reauthenticated (cx_settings x) (clk (cx_env x) 1) row
         \<and> h row u (s\<lparr>si_redis := r, si_db := d\<rparr>) = (Reply y, s'))"
  by (auto simp: endpoint_Reply authenticated_recent)

lemma in_admin_scope_blind [simp]:
  "in_admin_scope x i u (d\<lparr>sessions := ss\<rparr>) = in_admin_scope x i u d"
  by (simp add: in_admin_scope_def cong: option.case_cong)

lemma authenticated_scope:
  assumes "authenticated x gates w = (Reply (row, u), r, d)"
  shows "in_admin_scope x i u d = in_admin_scope x i u (snd w)"
  using assms by (auto elim!: authenticated_Reply simp: put_session_row_def)

text \<open>A credential action answers when its checks pass and the action does.\<close>

lemma credential_action_Reply:
  assumes still: "\<And>k. clk (cx_env x) k = now"
  shows "credential_action x i denied own k row u s = (Reply v, s')
   \<longleftrightarrow> in_admin_scope x i u (si_db s) \<and> may_reset x u (si_db s)
      \<and> is_recently_reauthenticated (cx_settings x) now row
      \<and> (\<exists>target. get_user (si_db s) i = Some target \<and> us_id u \<noteq> us_id target
           \<and> k target row u s = (Reply v, s'))"
  using still
  by (auto simp: credential_action_def with_scoped_target_def in_admin_scope_def can_reset_credentials_def
      may_reset_def require_capability_def assert_not_self_def flash_error_at_def handler_now_def
      split: option.splits if_splits)

lemma resetting_Reply:
  "behind (may_reset x) (resetting x i reset) row u s = (Reply y, s')
   \<longleftrightarrow> may_reset x u (si_db s)
      \<and> (\<exists>target d. get_user (si_db s) i = Some target \<and> us_id u \<noteq> us_id target
           \<and> reset u target (si_db s) = Inr (y, d) \<and> s' = s\<lparr>si_db := d\<rparr>)"
  by (auto simp: behind_def resetting_def assert_not_self_def split: option.splits if_splits)

lemma issued_code_Reply:
  assumes "zl_lookup (po_zones z) (default_timezone (cx_settings x)) = Zone_found"
  shows "(\<exists>v. issued_code x z i r target u s = (Reply v, s'))
    \<longleftrightarrow> (\<exists>y d. r = Inr (y, d) \<and> s' = s\<lparr>si_db := d\<rparr>)"
  using assms by (auto simp: issued_code_def split: sum.splits)

section \<open>The policy of each page\<close>

lemma may_view_directory_blind [simp]:
  "may_view_directory x u (d\<lparr>sessions := ss\<rparr>) = may_view_directory x u d"
  by (simp add: may_view_directory_def)

lemma can_reset_credentials_blind [simp]:
  "can_reset_credentials x u (d\<lparr>sessions := ss\<rparr>) = can_reset_credentials x u d"
  by (simp add: can_reset_credentials_def)

lemma with_scoped_target_careful [careful]:
  assumes "\<And>t. careful_handler (k t)"
  shows "careful_handler (with_scoped_target x i k)"
  unfolding with_scoped_target_def [abs_def] by (intro careful assms)

definition credential_grant :: "call \<Rightarrow> uuid \<Rightarrow> user \<Rightarrow> db \<Rightarrow> bool" where
  "credential_grant x i u d \<longleftrightarrow>
     in_admin_scope x i u d \<and> can_reset_credentials x u d
     \<and> (\<exists>target. get_user d i = Some target \<and> us_id target \<noteq> us_id u)"

lemma credential_action_guarded:
  assumes "\<And>t. careful_handler (k t)"
  shows "guarded_handler (credential_action x i m n k) (credential_grant x i)"
proof (rule guardedI)
  show "careful_handler (credential_action x i m n k)"
    unfolding credential_action_def by (intro careful assms)
qed (auto simp: credential_action_def with_scoped_target_def credential_grant_def in_admin_scope_def
    assert_not_self_def flash_error_at_def split: option.splits if_splits)

lemma issued_code_careful:
  assumes "zl_lookup (po_zones z) (default_timezone (cx_settings x)) = Zone_found"
  shows "careful_handler (\<lambda>row u s. issued_code x z i (f u s) target u s)"
  using assms by unfold_locales (auto simp: issued_code_def split: sum.splits)

lemma admin_pages_mediated:
  "mediated x [] (may_view_directory x) (admin_users_list x p f)"
  "mediated x [] (may_view_directory x) (admin_user_detail x i)"
  "mediated x [Csrf] (credential_grant x i) (reset_mfa_action x i)"
  unfolding admin_users_list_def admin_user_detail_def reset_mfa_action_def Let_def
  by (intro page_view_mediated page_form_mediated page_behind_guarded credential_action_guarded
      careful may_view_directory_blind)+

lemma issuing_pages_mediated:
  assumes "zl_lookup (po_zones z) (default_timezone (cx_settings x)) = Zone_found"
  shows "mediated x [Csrf] (credential_grant x i) (issue_activation_code_action x z i)"
    "mediated x [Csrf] (credential_grant x i) (reset_password_action x z i)"
  unfolding issue_activation_code_action_def reset_password_action_def
  by (intro page_form_mediated credential_action_guarded issued_code_careful [OF assms])+

end
