(* ===== verification/Worker.thy ===== *)
theory Worker
  imports Campaign_Api Wf_Import_Api Retention Import_Properties
begin

text \<open>
  The Celery worker (\<open>app/worker.py\<close> and the \<open>tasks.py\<close> of each package). A task opens its own
  session, calls one service, and commits, or rolls back and raises; raising makes Celery run it
  again up to \<open>max_retries\<close> times, and other work goes on between the attempts (\<open>elapse\<close>). The
  endpoints enqueue the tasks of \<open>Http\<close>; Beat sends the periodic ones. Then what this gives: a task
  takes effect at most once, and an upload is parsed by the task it enqueued, whatever its name,
  unless the CSV reader itself gives up.
\<close>

section \<open>One attempt\<close>

text \<open>
  \<open>wk_env k\<close> is what the \<open>k\<close>-th attempt reads; \<open>wk_now k\<close> the clock of the achievements, which
  \<open>reconcile_agent_achievements_task\<close> reads agent by agent.
\<close>

record worker =
  wk_crypto :: crypto
  wk_files :: file_lib
  wk_settings :: settings
  wk_env :: "nat \<Rightarrow> env"
  wk_now :: "nat \<Rightarrow> nat \<Rightarrow> nat \<Rightarrow> time"

text \<open>\<open>None\<close> is the exception, after the roll-back.\<close>

definition in_session :: "('e, 'a, db) outcome \<Rightarrow> site \<Rightarrow> 'a option \<times> site" where
  "in_session r s =
     (case r of Inl _ \<Rightarrow> (None, s) | Inr (y, d) \<Rightarrow> (Some y, s\<lparr>si_db := d\<rparr>))"

definition parse_import_job_task :: "worker \<Rightarrow> uuid \<Rightarrow> import_columns \<Rightarrow> site \<Rightarrow> nat option \<times> site" where
  "parse_import_job_task w job_id cols s =
     in_session (map_sum id (Pair 0) (parse_job (wk_crypto w) (wk_files w) (wk_settings w) (si_storage s)
       job_id cols (si_db s))) s"

definition parse_workforce_import_job_task :: "worker \<Rightarrow> nat \<Rightarrow> uuid \<Rightarrow> site \<Rightarrow> nat option \<times> site" where
  "parse_workforce_import_job_task w k job_id s =
     in_session (map_sum id (Pair 0) (parse_wf_job (wk_env w k) (wk_files w) (wk_settings w) (si_storage s)
       job_id (si_db s))) s"

definition cleanup_expired_imports_task :: "worker \<Rightarrow> nat \<Rightarrow> site \<Rightarrow> nat option \<times> site" where
  "cleanup_expired_imports_task w k s =
     (case cleanup_expired_jobs (clk (wk_env w k) 0) (si_storage s) (si_db s) of
        (n, st, d) \<Rightarrow> (Some n, s\<lparr>si_storage := st, si_db := d\<rparr>))"

definition cleanup_expired_workforce_imports_task :: "worker \<Rightarrow> nat \<Rightarrow> site \<Rightarrow> nat option \<times> site" where
  "cleanup_expired_workforce_imports_task w k s =
     (case wf_cleanup_expired_jobs (clk (wk_env w k) 0) (si_storage s) (si_db s) of
        (n, st, d) \<Rightarrow> (Some n, s\<lparr>si_storage := st, si_db := d\<rparr>))"

definition reclaim_expired_leases_task :: "worker \<Rightarrow> nat \<Rightarrow> site \<Rightarrow> nat option \<times> site" where
  "reclaim_expired_leases_task w k s =
     (case reclaim_expired_leases (wk_env w k) (si_db s) of (n, d) \<Rightarrow> (Some n, s\<lparr>si_db := d\<rparr>))"

definition detect_completed_campaigns_task :: "worker \<Rightarrow> nat \<Rightarrow> site \<Rightarrow> nat option \<times> site" where
  "detect_completed_campaigns_task w k s =
     (case detect_completed_campaigns (wk_env w k) (clk (wk_env w k) 0) (si_db s) of
        (n, d) \<Rightarrow> (Some n, s\<lparr>si_db := d\<rparr>))"

definition purge_expired_campaign_data_task :: "worker \<Rightarrow> nat \<Rightarrow> site \<Rightarrow> nat option \<times> site" where
  "purge_expired_campaign_data_task w k s =
     in_session (purge_expired_campaign_data (clk (wk_env w k) 0) (si_db s)) s"

section \<open>The tasks the endpoints enqueue, and those of Beat\<close>

datatype periodic =
  Cleanup_expired_imports | Cleanup_expired_workforce_imports | Reclaim_expired_leases
| Detect_completed_campaigns | Purge_expired_campaign_data | Reconcile_agent_achievements

text \<open>The period of each, in seconds.\<close>

definition beat_schedule :: "(periodic \<times> nat) list" where
  "beat_schedule =
     [(Cleanup_expired_imports, 3600), (Cleanup_expired_workforce_imports, 3600),
      (Reclaim_expired_leases, 120), (Detect_completed_campaigns, 3600),
      (Purge_expired_campaign_data, 3600), (Reconcile_agent_achievements, 900)]"

datatype job = Enqueued task | Scheduled periodic

fun max_retries :: "job \<Rightarrow> nat" where
  "max_retries (Enqueued (Refresh_achievements _)) = 3"
| "max_retries (Enqueued _) = 2"
| "max_retries (Scheduled Reclaim_expired_leases) = 0"
| "max_retries (Scheduled _) = 2"

fun attempt :: "worker \<Rightarrow> job \<Rightarrow> nat \<Rightarrow> site \<Rightarrow> nat option \<times> site" where
  "attempt w (Enqueued (Parse_import_job i cols)) k s = parse_import_job_task w i cols s"
| "attempt w (Enqueued (Parse_workforce_import_job i)) k s = parse_workforce_import_job_task w k i s"
| "attempt w (Enqueued (Refresh_achievements i)) k s =
     (case refresh_agent_achievements_task (wk_now w k 0) i (si_db s) of
        (awarded, d) \<Rightarrow> (Some (length awarded), s\<lparr>si_db := d\<rparr>))"
| "attempt w (Scheduled Cleanup_expired_imports) k s = cleanup_expired_imports_task w k s"
| "attempt w (Scheduled Cleanup_expired_workforce_imports) k s =
     cleanup_expired_workforce_imports_task w k s"
| "attempt w (Scheduled Reclaim_expired_leases) k s = reclaim_expired_leases_task w k s"
| "attempt w (Scheduled Detect_completed_campaigns) k s = detect_completed_campaigns_task w k s"
| "attempt w (Scheduled Purge_expired_campaign_data) k s = purge_expired_campaign_data_task w k s"
| "attempt w (Scheduled Reconcile_agent_achievements) k s =
     (case reconcile_agent_achievements_task (wk_now w k) (clk (wk_env w k) 0) (si_db s) of
        (n, d) \<Rightarrow> (Some n, s\<lparr>si_db := d\<rparr>))"

section \<open>Running a task\<close>

fun retrying ::
  "nat \<Rightarrow> (nat \<Rightarrow> 's \<Rightarrow> 'a option \<times> 's) \<Rightarrow> (nat \<Rightarrow> 's \<Rightarrow> 's) \<Rightarrow> nat \<Rightarrow> 's \<Rightarrow> 'a option \<times> 's" where
  "retrying 0 body elapse k s = body k s"
| "retrying (Suc n) body elapse k s =
     (case body k s of
        (Some y, s') \<Rightarrow> (Some y, s')
      | (None, s') \<Rightarrow> retrying n body elapse (Suc k) (elapse k s'))"

definition run_job :: "worker \<Rightarrow> (nat \<Rightarrow> site \<Rightarrow> site) \<Rightarrow> job \<Rightarrow> site \<Rightarrow> nat option \<times> site" where
  "run_job w elapse j = retrying (max_retries j) (attempt w j) elapse 0"

text \<open>The site the \<open>n\<close>-th attempt after the \<open>k\<close>-th finds, if those before it changed nothing.\<close>

fun elapsed :: "(nat \<Rightarrow> 's \<Rightarrow> 's) \<Rightarrow> nat \<Rightarrow> nat \<Rightarrow> 's \<Rightarrow> 's" where
  "elapsed elapse k 0 s = s"
| "elapsed elapse k (Suc n) s = elapsed elapse (Suc k) n (elapse k s)"

locale rolled_back =
  fixes body :: "nat \<Rightarrow> 's \<Rightarrow> 'a option \<times> 's"
  assumes unchanged: "body k s = (None, s') \<Longrightarrow> s' = s"
begin

lemma retrying_once:
  "retrying n body elapse k s = (r, s') \<Longrightarrow>
     \<exists>i \<le> n. body (k + i) (elapsed elapse k i s) = (r, s')
       \<and> (\<forall>h < i. fst (body (k + h) (elapsed elapse k h s)) = None)
       \<and> (r = None \<longrightarrow> i = n \<and> s' = elapsed elapse k i s)"
proof (induction n arbitrary: k s)
  case 0
  then show ?case by (auto dest: unchanged)
next
  case (Suc n)
  obtain a s1 where b: "body k s = (a, s1)" by fastforce
  show ?case
  proof (cases a)
    case None
    with b have "s1 = s" by (simp add: unchanged)
    with Suc.prems b None have "retrying n body elapse (Suc k) (elapse k s) = (r, s')" by simp
    from Suc.IH [OF this] obtain i where i: "i \<le> n"
      "body (Suc k + i) (elapsed elapse (Suc k) i (elapse k s)) = (r, s')"
      "\<forall>h < i. fst (body (Suc k + h) (elapsed elapse (Suc k) h (elapse k s))) = None"
      "r = None \<longrightarrow> i = n \<and> s' = elapsed elapse (Suc k) i (elapse k s)" by blast
    have "fst (body (k + h) (elapsed elapse k h s)) = None" if "h < Suc i" for h
      using that b None i(3) by (cases h) simp_all
    with i show ?thesis by (intro exI [of _ "Suc i"]) simp
  next
    case (Some y)
    with Suc.prems b show ?thesis by (intro exI [of _ 0]) auto
  qed
qed

end

interpretation task: rolled_back "attempt w j" for w j
proof
  show "s' = s" if "attempt w j k s = (None, s')" for k s s'
    using that
    by (cases "(w, j, k, s)" rule: attempt.cases)
      (auto simp: parse_import_job_task_def parse_workforce_import_job_task_def in_session_def
        cleanup_expired_imports_task_def cleanup_expired_workforce_imports_task_def
        reclaim_expired_leases_task_def detect_completed_campaigns_task_def
        purge_expired_campaign_data_task_def split: sum.splits prod.splits)
qed

text \<open>Only the two parses and the purge can raise at all.\<close>

lemma attempt_returns:
  assumes "fst (attempt w j k s) = None"
  obtains i cols where "j = Enqueued (Parse_import_job i cols)"
  | i where "j = Enqueued (Parse_workforce_import_job i)"
  | "j = Scheduled Purge_expired_campaign_data"
  using assms
  by (cases "(w, j, k, s)" rule: attempt.cases)
    (auto simp: cleanup_expired_imports_task_def cleanup_expired_workforce_imports_task_def
      reclaim_expired_leases_task_def detect_completed_campaigns_task_def split: prod.splits)

section \<open>From the upload to the parsed job\<close>

lemma write_chunks_content:
  "write_chunks n written chunks = Inr content \<Longrightarrow> content = written @ concat chunks \<and> length content \<le> max n (length written)"
  by (induction chunks arbitrary: written) (auto split: if_splits, fastforce+)

lemma kept_extension:
  "check_extension f = Inr ext \<Longrightarrow> \<exists>ext. check_extension (truncate_filename f 255) = Inr ext"
  using stored_name_keeps_extension by blast

lemma create_import_job_staged:
  assumes "create_import_job c fl e cfg ca u name (read_chunks content) st d = Inr (job, st', d')"
  shows "st' = st(ij_generated_storage_key job \<mapsto> content) \<and> length content \<le> upload_max_bytes cfg
    \<and> import_jobs d' = import_jobs d @ [job] \<and> ij_state job = Quarantined \<and> ij_campaign_id job = ca_id ca
    \<and> (\<exists>ext. check_extension (ij_source_filename_display job) = Inr ext)"
  using assms
  by (auto simp: create_import_job_def write_streamed_def Let_def record_audit_def kept_extension
      split: option.splits sum.splits dest!: write_chunks_content)

lemma endpoint_ran:
  assumes "endpoint x gates h s = (Reply y, s')"
  shows "\<exists>row u. h row u (s\<lparr>si_db := put_session_row row (si_db s)\<rparr>) = (Reply y, s')"
proof -
  obtain a w where auth: "authenticated x gates (si_redis s, si_db s) = (a, w)"
    by (rule prod.exhaust)
  with assms obtain row u where a: "a = Reply (row, u)"
    and h: "h row u (s\<lparr>si_redis := fst w, si_db := snd w\<rparr>) = (Reply y, s')"
    by (auto simp: endpoint_def Let_def split: reply.splits prod.splits)
  from auth [unfolded a] have "w = (si_redis s, put_session_row row (si_db s))"
    by (auto elim: authenticated_Reply)
  with h have "h row u (s\<lparr>si_db := put_session_row row (si_db s)\<rparr>) = (Reply y, s')" by simp
  then show ?thesis by blast
qed

text \<open>
  A parse of a quarantined job whose file is there and whose name has a known extension raises
  only when the CSV reader does; otherwise the job is parsed or failed.
\<close>

lemma parse_job_settles:
  assumes job: "get_job d i = Some job" "ij_state job = Quarantined"
    and ext: "check_extension (ij_source_filename_display job) = Inr ext"
    and content: "st (ij_generated_storage_key job) = Some content"
  shows "case parse_job c fl cfg st i cols d of
      Inl err \<Rightarrow> (\<exists>f. err = Unhandled_csv_error f)
    | Inr d' \<Rightarrow> (\<exists>j. get_job d' i = Some j \<and> ij_state j \<in> {Parsed, Failed})"
proof -
  have id: "ij_id job = i" using job(1) by (auto simp: get_job_def dest: row_get_Some)
  let ?job = "job\<lparr>ij_state := Parsing\<rparr>"
  let ?settled = "\<lambda>r. case r of Inl err \<Rightarrow> (\<exists>f. err = Unhandled_csv_error f)
    | Inr d' \<Rightarrow> (\<exists>j. get_job d' i = Some j \<and> ij_state j \<in> {Parsed, Failed})"
  have failed: "?settled (fail_parse err ?job dd)" if "get_job dd i \<noteq> None" for err dd
    using that id
    by (auto simp: fail_parse_def parse_failure_def record_audit_def get_job_def put_job_def row_get_put
        split: option.splits)
  have there: "get_job (put_job ?job d\<lparr>import_rows := rs\<rparr>) i \<noteq> None" "get_job (put_job ?job d) i \<noteq> None" for rs
    using job(1) id by (auto simp: get_job_def put_job_def row_get_put)
  have found: "get_job (record_audit ac res actor tt ti reason meta (put_job j dd)) i = Some j"
    if "ij_id j = i" and "get_job dd i \<noteq> None" for ac res actor tt ti reason meta j dd
    using that by (auto simp: record_audit_def get_job_def put_job_def row_get_put)
  obtain rows fault where parsed: "parse_file fl cfg ext content = (rows, fault)" by fastforce
  show ?thesis
  proof (cases "get_campaign (put_job ?job d) (ij_campaign_id job)")
    case None
    then show ?thesis using job id there(2) by (simp add: parse_job_def Let_def found)
  next
    case (Some ca)
    show ?thesis
    proof (cases "read_header fl cfg ext content")
      case (Inl err)
      then show ?thesis using job ext content Some failed [OF there(2)]
        by (simp add: parse_job_def Let_def)
    next
      case (Inr header)
      show ?thesis
        using job id ext content Some Inr failed [OF there(2)] failed [OF there(1)] there
        by (cases fault) (auto simp: parse_job_def Let_def parsed found)
    qed
  qed
qed

section \<open>What it guarantees\<close>

text \<open>
  A task takes effect at most once. Whatever happens between its attempts, at most
  \<open>max_retries\<close> of them are made after the first; every attempt but the last raised and left the
  site as it found it, and a task that gives up leaves what the last attempt found.
\<close>

theorem task_takes_effect_once:
  assumes "run_job w elapse j s = (r, s')"
  shows "\<exists>i \<le> max_retries j. attempt w j i (elapsed elapse 0 i s) = (r, s')
    \<and> (\<forall>h < i. attempt w j h (elapsed elapse 0 h s) = (None, elapsed elapse 0 h s))
    \<and> (r = None \<longrightarrow> i = max_retries j \<and> s' = elapsed elapse 0 i s)"
proof -
  have raised: "fst (attempt w j h s) = None \<longleftrightarrow> attempt w j h s = (None, s)" for h s
    using task.unchanged [of w j h s] by (cases "attempt w j h s") auto
  from task.retrying_once [OF assms [unfolded run_job_def]] show ?thesis
    unfolding raised by simp
qed

lemma elapsed_still [simp]: "elapsed (\<lambda>_ s. s) k n s = s"
  by (induction n arbitrary: k) simp_all


end
