(* ===== verification/Api_Properties.thy ===== *)
theory Api_Properties
  imports Web_Accounts Worker
begin

text \<open>
  The properties of the endpoints and the pages: what each of them asks of its caller, where the
  pages and the API agree, and what the audit search shows.
\<close>

section \<open>What every endpoint asks\<close>



section \<open>The page and the API\<close>

text \<open>
  C36: The form and the API sign in alike: for the same fields they leave the same sessions, users,
  counters and audit rows, whatever the answer, and one answers with a session when the other does.
\<close>

theorem forms_sign_in_like_the_api:
  assumes "lr_totp_code payload \<noteq> Some ''''"
  shows "snd (login_submit x p payload w)
      = snd (login (cx_crypto x) (cx_settings x) p (cx_env x) (cx_request x) payload w)
    \<and> ((\<exists>v. fst (login_submit x p payload w) = Reply v)
      \<longleftrightarrow> (\<exists>v. fst (login (cx_crypto x) (cx_settings x) p (cx_env x) (cx_request x) payload w) = Reply v))"
  using login_submit_like_login [OF assms, of x p w] by simp

text \<open>
  C16: The page resets a password exactly when the API would and the person is in the caller's
  administrative scope, and with the same effect: for one reading of the clock, both pass the same
  session, form token, capability, self-service and step-up checks, in different orders and places.
\<close>

theorem page_resets_like_the_api:
  assumes still: "\<forall>k. clk (cx_env x) k = now"
    and zone: "zl_lookup (po_zones z) (default_timezone (cx_settings x)) = Zone_found"
  shows "(\<exists>v. reset_password_action x z i s = (Reply v, s'))
    \<longleftrightarrow> (\<exists>y. reset_password_api x i s = (Reply y, s'))
      \<and> (\<exists>row u w. authenticated x [Csrf] (si_redis s, si_db s) = (Reply (row, u), w)
            \<and> in_admin_scope x i u (si_db s))"
proof -
  have clock: "\<And>k. clk (cx_env x) k = now" using still by blast
  have page: "(\<exists>v. reset_password_action x z i s = (Reply v, s')) \<longleftrightarrow>
     (\<exists>row u r d target y d'. authenticated x [Csrf] (si_redis s, si_db s) = (Reply (row, u), r, d)
        \<and> in_admin_scope x i u d \<and> may_reset x u d
        \<and> is_recently_reauthenticated (cx_settings x) now row
        \<and> get_user d i = Some target \<and> us_id u \<noteq> us_id target
        \<and> reset_password (cx_crypto x) (service_env x) (us_id target) (us_id u) d = Inr (y, d')
        \<and> s' = s\<lparr>si_redis := r, si_db := d'\<rparr>)"
    (is "?lhs \<longleftrightarrow> ?rhs")
  proof
    assume ?lhs
    then obtain v row u r d target where "authenticated x [Csrf] (si_redis s, si_db s) = (Reply (row, u), r, d)"
      "in_admin_scope x i u d" "may_reset x u d" "is_recently_reauthenticated (cx_settings x) now row"
      "get_user d i = Some target" "us_id u \<noteq> us_id target"
      and issued: "issued_code x z i (reset_password (cx_crypto x) (service_env x) (us_id target) (us_id u) d)
         target u (s\<lparr>si_redis := r, si_db := d\<rparr>) = (Reply v, s')"
      unfolding reset_password_action_def
        page_Reply_endpoint [where form = True, OF refl, simplified if_True] endpoint_Reply
        credential_action_Reply [OF clock] by auto
    with iffD1 [OF issued_code_Reply [OF zone] exI, OF issued] show ?rhs by fastforce
  next
    assume ?rhs
    then obtain row u r d target y d' where
      ok: "authenticated x [Csrf] (si_redis s, si_db s) = (Reply (row, u), r, d)"
      "in_admin_scope x i u d" "may_reset x u d" "is_recently_reauthenticated (cx_settings x) now row"
      "get_user d i = Some target" "us_id u \<noteq> us_id target"
      and reset: "reset_password (cx_crypto x) (service_env x) (us_id target) (us_id u) d = Inr (y, d')"
      and s': "s' = s\<lparr>si_redis := r, si_db := d'\<rparr>" by blast
    from reset s' have "\<exists>v. issued_code x z i
        (reset_password (cx_crypto x) (service_env x) (us_id target) (us_id u) d)
        target u (s\<lparr>si_redis := r, si_db := d\<rparr>) = (Reply v, s')"
      unfolding issued_code_Reply [OF zone] by simp
    with ok show ?lhs
      unfolding reset_password_action_def
        page_Reply_endpoint [where form = True, OF refl, simplified if_True] endpoint_Reply
        credential_action_Reply [OF clock] by auto
  qed
  have api: "(\<exists>y. reset_password_api x i s = (Reply y, s')) \<longleftrightarrow>
     (\<exists>row u r d target y d'. authenticated x [Csrf] (si_redis s, si_db s) = (Reply (row, u), r, d)
        \<and> may_reset x u d \<and> is_recently_reauthenticated (cx_settings x) now row
        \<and> get_user d i = Some target \<and> us_id u \<noteq> us_id target
        \<and> reset_password (cx_crypto x) (service_env x) (us_id target) (us_id u) d = Inr (y, d')
        \<and> s' = s\<lparr>si_redis := r, si_db := d'\<rparr>)"
    unfolding reset_password_api_def endpoint_recent resetting_Reply clock by simp fast
  have scope: "in_admin_scope x i u d = in_admin_scope x i u (si_db s)"
    if "authenticated x [Csrf] (si_redis s, si_db s) = (Reply (row, u), r, d)" for row u r d
    using authenticated_scope [OF that, of i] by simp
  show ?thesis
  proof (cases "\<exists>row u r d. authenticated x [Csrf] (si_redis s, si_db s) = (Reply (row, u), r, d)")
    case True
    then obtain row u r d where "authenticated x [Csrf] (si_redis s, si_db s) = (Reply (row, u), r, d)"
      by blast
    with scope [OF this] show ?thesis unfolding page api by auto
  next
    case False
    then show ?thesis unfolding page api by blast
  qed
qed

section \<open>The audit search\<close>

text \<open>
  C37: The audit search shows at most two hundred rows, newest first, all of them within what the
  caller may see and what the filters ask; and what it leaves out is not newer than anything it
  shows, so a filter narrows the scope and never widens it.
\<close>

theorem audit_search_is_scoped:
  assumes "list_visible_audit_events occurred d actor_id now q = Some events"
  shows "length events \<le> 200
    \<and> sorted (map (\<lambda>a. - occurred a) events)
    \<and> (\<forall>a \<in> set events. a \<in> set (audit_events d)
         \<and> audit_actor_visible d actor_id now (au_actor_user_id a) \<and> audit_match occurred q a)
    \<and> (\<forall>a \<in> set (audit_events d) - set events.
         audit_actor_visible d actor_id now (au_actor_user_id a) \<and> audit_match occurred q a
         \<longrightarrow> int (length events) = min (as_limit q) 200 \<and> (\<forall>b \<in> set events. occurred a \<le> occurred b))"
proof -
  let ?rows = "filter (\<lambda>a. audit_actor_visible d actor_id now (au_actor_user_id a) \<and> audit_match occurred q a)
    (audit_events d)"
  let ?sorted = "sort_key (\<lambda>a. - occurred a) ?rows"
  define n where "n = nat (min (as_limit q) 200)"
  from assms have lim: "0 \<le> min (as_limit q) 200" and ev: "events = take n ?sorted"
    by (auto simp: list_visible_audit_events_def n_def split: if_splits)
  have asc: "sorted (map (\<lambda>a. - occurred a) ?sorted)" by (rule sorted_sort_key)
  then have split: "sorted (map (\<lambda>a. - occurred a) (take n ?sorted @ drop n ?sorted))" by simp
  have late: "int (length events) = min (as_limit q) 200 \<and> (\<forall>b \<in> set events. occurred a \<le> occurred b)"
    if "a \<in> set ?rows" "a \<notin> set events" for a
  proof -
    have "a \<in> set ?sorted" using that(1) by simp
    then have "a \<in> set (take n ?sorted @ drop n ?sorted)" by simp
    with that(2) have late: "a \<in> set (drop n ?sorted)" unfolding ev set_append by blast
    then have "n < length ?sorted" by (cases "n < length ?sorted") simp_all
    with lim have "int (length events) = min (as_limit q) 200" by (simp add: ev n_def)
    moreover have "occurred a \<le> occurred b" if "b \<in> set events" for b
      using split late that unfolding map_append sorted_append ev by fastforce
    ultimately show ?thesis by blast
  qed
  have "length events \<le> 200" by (simp add: ev n_def)
  moreover have "sorted (map (\<lambda>a. - occurred a) events)" using asc unfolding ev take_map [symmetric] by (rule sorted_wrt_take)
  moreover have "set events \<subseteq> set ?rows" unfolding ev using set_take_subset [of n ?sorted] by simp
  ultimately show ?thesis using late by auto
qed

end
