(* ===== verification/Api_Witnesses.thy ===== *)
theory Api_Witnesses
  imports Api_Properties Import_Witnesses Workforce_Witnesses Auth_Flow_Properties
begin

text \<open>
  The properties of the endpoints, the pages and the worker at a concrete installation: a Super
  Admin, who is a manager too and has just re-authenticated, a second person, one campaign, imports switched on.
\<close>

definition front_user :: user where "front_user = sample_user\<lparr>us_totp_enrolled := True\<rparr>"

definition front_db :: db where
  "front_db = empty_db\<lparr>users := [front_user, sample_user\<lparr>us_id := 8, us_email := ''c@d''\<rparr>],
     sessions := [sample_session\<lparr>ss_reauthenticated_at := Some 40\<rparr>],
     role_assignments := [sample_role 7 ''super_admin'' ''installation'' None,
       sample_role 7 ''manager'' ''installation'' None],
     campaigns := [sample_campaign],
     feature_flags := [\<lparr>ff_flag_key = ''campaign_import_enabled'', ff_enabled = True, ff_updated_by = None\<rparr>]\<rparr>"

definition front_site :: site where
  "front_site = \<lparr>si_redis = Map.empty, si_db = front_db, si_storage = Map.empty, si_tasks = []\<rparr>"

definition front_call :: call where
  "front_call = \<lparr>cx_crypto = rot_crypto, cx_settings = default_settings, cx_str_uuid = (\<lambda>i. ''s''),
     cx_redis_up = (\<lambda>i. True), cx_files = plain_files, cx_env = auth_env, cx_request = plain_request\<rparr>"

definition front_zones :: page_zones where
  "front_zones = \<lparr>po_zones = \<lparr>zl_lookup = (\<lambda>n. Zone_found), zl_day_start = (\<lambda>n t. t)\<rparr>,
     po_offset = (\<lambda>n t. 0), po_text = (\<lambda>n t. n)\<rparr>"

definition front_worker :: worker where
  "front_worker = \<lparr>wk_crypto = rot_crypto, wk_files = plain_files, wk_settings = default_settings,
     wk_env = (\<lambda>k. auth_env), wk_now = (\<lambda>k i n. 50)\<rparr>"

section \<open>Signing in and the matrix\<close>


lemma forms_sign_in_like_the_api_witness:
  "snd (login_submit front_call demo_platform (demo_login ''pw'') (Map.empty, auth_db))
     = snd (login rot_crypto default_settings demo_platform auth_env plain_request (demo_login ''pw'')
         (Map.empty, auth_db))"
proof -
  have "lr_totp_code (demo_login ''pw'') \<noteq> Some ''''" by (simp add: demo_login_def)
  from forms_sign_in_like_the_api [OF this, of front_call demo_platform "(Map.empty, auth_db)"]
  show ?thesis by (simp add: front_call_def)
qed

section \<open>Resetting a password\<close>

lemma front_simps [simp]:
  "cx_crypto front_call = rot_crypto" "cx_settings front_call = default_settings"
  "cx_env front_call = auth_env" "cx_request front_call = plain_request" "clk auth_env k = 50"
  "cx_str_uuid front_call = (\<lambda>i. ''s'')" "cx_files front_call = plain_files" "handler_now front_call i = 50"
  "si_db front_site = front_db" "si_redis front_site = Map.empty" "si_storage front_site = Map.empty"
  by (simp_all add: front_call_def auth_env_def handler_now_def front_site_def)

definition front_row :: session where
  "front_row = slide default_settings 50 (sample_session\<lparr>ss_reauthenticated_at := Some 40\<rparr>)"

lemma front_gates: "check_gate rot_crypto default_settings (\<lambda>i. ''s'') 50 plain_request front_row g = None"
  by (cases g) (simp_all add: check_gate_def require_csrf_def plain_request_def csrf_validate_def
      require_recent_reauthentication_def is_recently_reauthenticated_def front_row_def slide_def
      sample_session_def default_settings_def minutes_def rot_crypto_def)

lemma front_authenticated:
  "authenticated front_call gates (Map.empty, front_db)
     = (Reply (front_row, front_user), Map.empty, put_session_row front_row front_db)"
proof -
  have load: "get_current_session rot_crypto default_settings 50 (Some ''t'') front_db
      = Inr (front_row, put_session_row front_row front_db)"
    by (simp add: get_current_session_def load_session_def session_by_token_def front_db_def
        sample_session_def front_row_def hash_token_def rot_crypto_def)
  have user: "get_authenticated_user (put_session_row front_row front_db) front_row = Inr front_user"
    by (simp add: get_authenticated_user_def front_db_def front_row_def slide_def sample_session_def
        front_user_def sample_user_def get_user_def row_get_def)
  have full: "get_current_user front_user front_row = Inr front_user"
    by (simp add: get_current_user_def front_user_def front_row_def slide_def sample_session_def mfa_satisfied_def)
  have passed: "first_refusal (check_gate rot_crypto default_settings (\<lambda>i. ''s'') 50 plain_request front_row) gates = None"
    by (simp add: front_gates)
  show ?thesis
    by (simp add: authenticated_def with_user_def with_session_def load passed user full)
qed

lemma front_endpoint:
  "endpoint front_call gates h front_site
     = h front_row front_user (front_site\<lparr>si_db := put_session_row front_row front_db\<rparr>)"
  by (simp add: endpoint_def front_authenticated front_site_def)

lemma front_powers:
  "may_reset front_call front_user (put_session_row front_row front_db)"
  "in_admin_scope front_call 8 front_user front_db"
proof -
  have own: "''reset_user_auth'' \<in> set (role_grants ''super_admin'')"
    by (simp add: role_grants_def role_capabilities_def)
  have "effective_role_assignments front_db 7 50 = [sample_role 7 ''super_admin'' ''installation'' None,
      sample_role 7 ''manager'' ''installation'' None]"
    by (simp add: effective_role_assignments_def role_effective_def effective_at_def front_db_def sample_role_def)
  then show "may_reset front_call front_user (put_session_row front_row front_db)"
    using own
    by (simp add: may_reset_def require_capability_def has_capability_def capability_grants_def
        role_capability_grants_def put_session_row_def front_user_def sample_user_def sample_role_def scope_covers_def role_grant_def)
  have "fst (directory_scope front_db 7 50)"
    by (simp add: directory_scope_def visible_team_ids_def Let_def appointment_grants_def wide_grant_def
        authz_eval front_db_def appointment_capabilities_def role_appointment_capability_def)
  moreover have "get_user front_db 8 \<noteq> None" "us_id front_user = 7"
    by (simp_all add: get_user_def row_get_def front_db_def front_user_def sample_user_def)
  ultimately show "in_admin_scope front_call 8 front_user front_db"
    by (cases "directory_scope front_db 7 50") (auto simp: in_admin_scope_def user_in_admin_scope_def)
qed

lemma front_manages:
  "may_on_campaign front_call i ''manage_campaign'' sample_campaign front_user (put_session_row front_row front_db)"
proof -
  let ?d = "put_session_row front_row front_db"
  have "''manage_campaign'' \<in> set (role_grants ''manager'')"
    by (simp add: role_grants_def role_capabilities_def)
  moreover have "effective_role_assignments ?d 7 50 = [sample_role 7 ''super_admin'' ''installation'' None,
      sample_role 7 ''manager'' ''installation'' None]"
    by (simp add: effective_role_assignments_def role_effective_def effective_at_def front_db_def
        sample_role_def put_session_row_def)
  ultimately have "role_grant (sample_role 7 ''manager'' ''installation'' None)
      \<in> set (capability_grants ?d 7 ''manage_campaign'' 50)"
    by (simp add: capability_grants_def role_capability_grants_def sample_role_def)
  then have "campaign_scope_filter ?d 7 ''manage_campaign'' 50 sample_campaign"
    by (auto simp: campaign_scope_filter_def Let_def list_ex_iff role_grant_def sample_role_def)
  then show ?thesis
    by (simp add: may_on_campaign_def has_campaign_capability_def front_user_def sample_user_def
        put_session_row_def front_db_def)
qed

lemma page_resets_like_the_api_witness:
  "\<exists>s'. (\<exists>y. reset_password_api front_call 8 front_site = (Reply y, s'))
     \<and> (\<exists>v. reset_password_action front_call front_zones 8 front_site = (Reply v, s'))"
proof -
  obtain y d where reset: "reset_password rot_crypto (service_env front_call) 8 7
      (put_session_row front_row front_db) = Inr (y, d)"
    by (simp add: reset_password_def lock_user_def issue_with_expiry_def issue_activation_token_def
        Let_def revoke_all_for_user_def front_db_def front_user_def service_env_def put_session_row_def auth_eval)
  have "get_user (put_session_row front_row front_db) 8 = Some (sample_user\<lparr>us_id := 8, us_email := ''c@d''\<rparr>)"
    "us_id front_user = 7"
    by (simp_all add: front_db_def put_session_row_def get_user_def row_get_def front_user_def sample_user_def)
  with reset front_powers(1) have "\<exists>s'. reset_password_api front_call 8 front_site = (Reply y, s')"
    unfolding reset_password_api_def front_endpoint resetting_Reply by simp
  then obtain s' where api: "reset_password_api front_call 8 front_site = (Reply y, s')" by blast
  have still: "\<forall>k. clk (cx_env front_call) k = 50"
    and zone: "zl_lookup (po_zones front_zones) (default_timezone (cx_settings front_call)) = Zone_found"
    by (simp_all add: front_zones_def)
  have "\<exists>row u w. authenticated front_call [Csrf] (si_redis front_site, si_db front_site) = (Reply (row, u), w)
      \<and> in_admin_scope front_call 8 u (si_db front_site)"
    using front_authenticated [of "[Csrf]"] front_powers(2) by auto
  with page_resets_like_the_api [OF still zone, of 8 front_site s'] api show ?thesis by blast
qed

section \<open>The audit search\<close>

definition seen_event :: "string \<Rightarrow> uuid option \<Rightarrow> audit_event" where
  "seen_event action who = \<lparr>au_action = action, au_result = ''success'', au_actor_user_id = who,
     au_target_type = None, au_target_id = None, au_reason_code = None, au_event_metadata = [],
     au_source_ip = None, au_user_agent_summary = None\<rparr>"

definition seen_db :: db where
  "seen_db = empty_db\<lparr>audit_events := [seen_event ''a'' (Some 7), seen_event ''bb'' (Some 8),
     seen_event ''ccc'' (Some 7)]\<rparr>"

definition seen_at :: "audit_event \<Rightarrow> time" where
  "seen_at a = int (length (au_action a))"

definition newest_only :: audit_search where
  "newest_only = \<lparr>as_limit = 1, as_action = None, as_result = None, as_since = None, as_until = None\<rparr>"

text \<open>Without a role that sees the trail, only the caller's own rows are left.\<close>

lemma audit_search_is_scoped_witness:
  "list_visible_audit_events seen_at seen_db 7 50 newest_only = Some [seen_event ''ccc'' (Some 7)]
   \<and> seen_at (seen_event ''a'' (Some 7)) \<le> seen_at (seen_event ''ccc'' (Some 7))"
proof -
  have "effective_role_assignments seen_db 7 50 = []"
    by (simp add: effective_role_assignments_def seen_db_def empty_db_def)
  then have vis: "audit_actor_visible seen_db 7 50 who \<longleftrightarrow> who = Some 7" for who
    by (simp add: audit_actor_visible_def audit_visibility_def audit_grants_def grant_ids_def split: option.split)
  have any: "audit_match seen_at newest_only a" for a
    by (simp add: audit_match_def text_filter_def newest_only_def)
  have run: "list_visible_audit_events seen_at seen_db 7 50 newest_only = Some [seen_event ''ccc'' (Some 7)]"
    by (simp add: list_visible_audit_events_def vis any)
      (simp add: newest_only_def seen_db_def seen_event_def seen_at_def sort_key_def)
  have "seen_event ''a'' (Some 7) \<in> set (audit_events seen_db) - set [seen_event ''ccc'' (Some 7)]"
    "au_actor_user_id (seen_event ''a'' (Some 7)) = Some 7"
    by (simp_all add: seen_db_def seen_event_def)
  then have "\<forall>b \<in> set [seen_event ''ccc'' (Some 7)]. seen_at (seen_event ''a'' (Some 7)) \<le> seen_at b"
    using audit_search_is_scoped [OF run] vis any by blast
  with run show ?thesis by simp
qed

section \<open>The worker\<close>

definition front_upload :: upload_form where
  "front_upload = \<lparr>uf_filename = Some ''list.csv'', uf_content = upload_text,
     uf_phone_column = ''tel'', uf_name_column = None, uf_metadata_columns = ''''\<rparr>"


lemma task_takes_effect_once_witness:
  "\<exists>i \<le> 0. attempt front_worker (Scheduled Reclaim_expired_leases) i front_site
     = run_job front_worker (\<lambda>k s. s) (Scheduled Reclaim_expired_leases) front_site"
proof -
  obtain r s' where run: "run_job front_worker (\<lambda>k s. s) (Scheduled Reclaim_expired_leases) front_site = (r, s')"
    by (metis prod.exhaust)
  from task_takes_effect_once [OF this] run show ?thesis by auto
qed

end
