(* ===== verification/Shell.thy ===== *)
theory Shell
  imports Config "HOL-Library.AList"
begin

text \<open>
  The shell of the application: the scrubbing of log texts (\<open>app/logging_setup.py\<close>), the headers
  every response gets (\<open>app/middleware.py\<close>), the health endpoints (\<open>app/main.py\<close>) and what Sentry is
  told (\<open>app/monitoring.py\<close>). The scrubber is the regular expression
  \<open>\+?\d[\d\s().-]{7,}\d\<close> substituted from left to right; it is compared with the texts the
  expression describes.
\<close>

section \<open>Redaction\<close>

definition is_decimal :: "char \<Rightarrow> bool" where
  "is_decimal c \<longleftrightarrow> 48 \<le> code c \<and> code c \<le> 57"

definition phone_char :: "char \<Rightarrow> bool" where
  "phone_char c \<longleftrightarrow> is_decimal c \<or> py_isspace c \<or> c \<in> set ''().-''"

text \<open>
  After the first digit: the class is repeated greedily, then given back up to the last digit that
  leaves seven before it.
\<close>

definition last_digit :: "string \<Rightarrow> nat option" where
  "last_digit r =
     (let body = takeWhile phone_char r in
      case filter (\<lambda>i. is_decimal (body ! i)) [7..<length body] of
        [] \<Rightarrow> None | i # is \<Rightarrow> Some (last (i # is)))"

definition after_plus :: "string \<Rightarrow> string" where
  "after_plus s = (case s of c # t \<Rightarrow> if c = CHR ''+'' then t else s | [] \<Rightarrow> s)"

text \<open>The length of the match at the start of a text.\<close>

definition match_phone :: "string \<Rightarrow> nat option" where
  "match_phone s =
     (case after_plus s of
        [] \<Rightarrow> None
      | d # r \<Rightarrow>
          (if is_decimal d
           then map_option (\<lambda>i. length s - length r + i + 1) (last_digit r) else None))"

definition redaction_mark :: string where "redaction_mark = ''[redacted-number]''"

lemma match_positive: "match_phone s = Some n \<Longrightarrow> 0 < n"
  by (auto simp: match_phone_def split: list.splits if_splits option.splits)

function redact :: "string \<Rightarrow> string" where
  "redact s =
     (case s of [] \<Rightarrow> []
      | c # r \<Rightarrow>
          (case match_phone s of
             None \<Rightarrow> c # redact r
           | Some n \<Rightarrow> redaction_mark @ redact (drop n s)))"
  by pat_completeness auto

termination by (relation "measure length") (auto dest: match_positive)

declare redact.simps [simp del]

lemma redact_simps [simp]:
  "redact [] = []"
  "match_phone (c # r) = None \<Longrightarrow> redact (c # r) = c # redact r"
  "match_phone (c # r) = Some n \<Longrightarrow> redact (c # r) = redaction_mark @ redact (drop n (c # r))"
  by (subst redact.simps; simp)+

text \<open>The argument of a log record: texts are scrubbed inside containers, other values pass.\<close>

datatype log_value =
  Log_text string | Log_mapping "(string \<times> log_value) list" | Log_tuple "log_value list"
| Log_list "log_value list" | Log_number int

fun redact_value :: "log_value \<Rightarrow> log_value" where
  "redact_value (Log_text s) = Log_text (redact s)"
| "redact_value (Log_mapping kvs) = Log_mapping (map (\<lambda>(k, v). (k, redact_value v)) kvs)"
| "redact_value (Log_tuple vs) = Log_tuple (map redact_value vs)"
| "redact_value (Log_list vs) = Log_list (map redact_value vs)"
| "redact_value (Log_number n) = Log_number n"

record log_record =
  lg_msg :: string
  lg_args :: "log_value option"
  lg_exc :: "string option"

text \<open>The filter of the handler; the text of an exception is scrubbed by the formatter.\<close>

definition redaction_filter :: "log_record \<Rightarrow> log_record" where
  "redaction_filter r =
     r\<lparr>lg_msg := redact (lg_msg r), lg_args := map_option redact_value (lg_args r)\<rparr>"

text \<open>
  \<open>record.getMessage()\<close>: without arguments the text itself, and for a tuple of texts and numbers each
  \<open>%s\<close> takes the next one. \<open>None\<close> stands for a formatting error and for the directives and
  containers that are not modelled.
\<close>

definition log_text :: "log_value \<Rightarrow> string option" where
  "log_text v = (case v of Log_text s \<Rightarrow> Some s | Log_number n \<Rightarrow> Some (str_int n) | _ \<Rightarrow> None)"

fun percent_s :: "string \<Rightarrow> log_value list \<Rightarrow> string option" where
  "percent_s [] vs = (if vs = [] then Some [] else None)"
| "percent_s [c] vs = (if vs = [] \<and> c \<noteq> CHR ''%'' then Some [c] else None)"
| "percent_s (c # c' # r) vs =
     (if c \<noteq> CHR ''%'' then map_option (Cons c) (percent_s (c' # r) vs)
      else if c' = CHR ''%'' then map_option (Cons c) (percent_s r vs)
      else if c' = CHR ''s'' then
        (case vs of [] \<Rightarrow> None
         | v # vs \<Rightarrow> (case (log_text v, percent_s r vs) of (Some a, Some b) \<Rightarrow> Some (a @ b) | _ \<Rightarrow> None))
      else None)"

definition get_message :: "log_record \<Rightarrow> string option" where
  "get_message r =
     (case lg_args r of None \<Rightarrow> Some (lg_msg r)
      | Some (Log_tuple vs) \<Rightarrow> if vs = [] then Some (lg_msg r) else percent_s (lg_msg r) vs
      | Some _ \<Rightarrow> None)"

record log_line =
  ll_message :: string
  ll_exc :: "string option"

definition json_line :: "log_record \<Rightarrow> log_line option" where
  "json_line r = map_option (\<lambda>m. \<lparr>ll_message = m, ll_exc = map_option redact (lg_exc r)\<rparr>) (get_message r)"

definition logged :: "log_record \<Rightarrow> log_line option" where
  "logged r = json_line (redaction_filter r)"

section \<open>Headers\<close>

text \<open>Names are lower case, as Starlette stores them.\<close>

type_synonym headers = "(string \<times> string) list"

definition setdefault :: "string \<Rightarrow> string \<Rightarrow> headers \<Rightarrow> headers" where
  "setdefault k v h = (if k \<in> fst ` set h then h else h @ [(k, v)])"

definition set_header :: "string \<Rightarrow> string \<Rightarrow> headers \<Rightarrow> headers" where
  "set_header k v h = AList.update k v h"

definition quoted_word :: "string \<Rightarrow> string" where
  "quoted_word w = [CHR 0x27] @ w @ [CHR 0x27]"

definition default_headers :: headers where
  "default_headers =
     [(''x-content-type-options'', ''nosniff''), (''x-frame-options'', ''DENY''),
      (''referrer-policy'', ''no-referrer''),
      (''permissions-policy'', ''geolocation=(), microphone=(), camera=()''),
      (''content-security-policy'',
       ''default-src '' @ quoted_word ''self'' @ ''; frame-ancestors '' @ quoted_word ''none''
       @ ''; base-uri '' @ quoted_word ''none'' @ ''; form-action '' @ quoted_word ''self'')]"

definition security_headers :: "string \<Rightarrow> headers \<Rightarrow> headers" where
  "security_headers path h =
     (let h1 = fold (\<lambda>(k, v). setdefault k v) default_headers h in
      if startswith path ''/static/'' then h1
      else set_header ''pragma'' ''no-cache'' (set_header ''cache-control'' ''no-store'' h1))"

section \<open>Health and monitoring\<close>

definition healthz :: "(string \<times> string) list" where
  "healthz = [(''status'', ''ok'')]"

definition readyz ::
  "settings \<Rightarrow> string option \<Rightarrow> bool \<Rightarrow> bool \<Rightarrow> nat \<times> (string \<times> string) list" where
  "readyz cfg token database_up redis_up =
     (if health_token cfg \<noteq> '''' \<and> token \<noteq> Some (health_token cfg)
      then (404, [(''status'', ''not found'')])
      else
        let word = (\<lambda>up. if up then ''ok'' else ''error''); healthy = database_up \<and> redis_up in
        (if healthy then 200 else 503,
         [(''database'', word database_up), (''redis'', word redis_up),
          (''status'', if healthy then ''ok'' else ''degraded'')]))"

record sentry_options =
  sy_dsn :: string
  sy_environment :: app_env
  sy_release :: "string option"
  sy_send_default_pii :: bool
  sy_include_local_variables :: bool
  sy_max_request_body_size :: string
  sy_enable_logs :: bool

definition configure_sentry :: "settings \<Rightarrow> string \<Rightarrow> string \<Rightarrow> sentry_options option" where
  "configure_sentry cfg sentry_dsn sentry_release =
     (if strip sentry_dsn = '''' then None
      else Some \<lparr>sy_dsn = strip sentry_dsn, sy_environment = app_env cfg,
        sy_release = (if strip sentry_release = '''' then None else Some (strip sentry_release)),
        sy_send_default_pii = False, sy_include_local_variables = False,
        sy_max_request_body_size = ''never'', sy_enable_logs = False\<rparr>)"

section \<open>The scrubber and the expression\<close>

text \<open>The texts the expression describes.\<close>

definition phone_shaped :: "string \<Rightarrow> bool" where
  "phone_shaped m \<longleftrightarrow> (\<exists>p d mid e. m = p @ d # mid @ [e] \<and> p \<in> {[], ''+''} \<and> is_decimal d
     \<and> is_decimal e \<and> 7 \<le> length mid \<and> list_all phone_char mid)"

lemma last_digit_None:
  "last_digit r = None \<longleftrightarrow>
     (\<forall>i. 7 \<le> i \<longrightarrow> i < length (takeWhile phone_char r) \<longrightarrow> \<not> is_decimal (takeWhile phone_char r ! i))"
proof -
  have "(case xs of [] \<Rightarrow> None | i # is \<Rightarrow> Some (last (i # is))) = None \<longleftrightarrow> xs = []" for xs :: "nat list"
    by (cases xs) simp_all
  then show ?thesis by (simp add: last_digit_def Let_def filter_empty_conv) auto
qed

lemma not_class: "\<not> is_decimal (CHR ''['')" "\<not> phone_char (CHR ''['')" "\<not> is_decimal (CHR ''+'')"
  by (simp_all add: is_decimal_def phone_char_def py_isspace_def code_def Let_def)

lemma mark_head: "redaction_mark = CHR ''['' # ''redacted-number]''" by (simp add: redaction_mark_def)

lemma redact_run:
  "\<exists>t. takeWhile phone_char r = takeWhile phone_char (redact r) @ t"
proof (induction r)
  case (Cons c r)
  then show ?case by (cases "match_phone (c # r)") (auto simp: mark_head not_class)
qed simp

lemma redact_head:
  "redact r = d # r' \<Longrightarrow> is_decimal d \<or> d = CHR ''+'' \<Longrightarrow>
     \<exists>q. r = d # q \<and> r' = redact q \<and> match_phone r = None"
  by (cases r; cases "match_phone r") (auto simp: mark_head not_class)

lemma last_digit_redact: "last_digit r = None \<Longrightarrow> last_digit (redact r) = None"
proof -
  obtain t where "takeWhile phone_char r = takeWhile phone_char (redact r) @ t" using redact_run by blast
  then show "last_digit r = None \<Longrightarrow> last_digit (redact r) = None"
    unfolding last_digit_None by (auto simp: nth_append split: if_splits)
qed

lemma match_decimal: "is_decimal d \<Longrightarrow> match_phone (d # r) = None \<longleftrightarrow> last_digit r = None"
  using not_class(3) by (auto simp: match_phone_def after_plus_def)

lemma match_other: "\<not> is_decimal d \<Longrightarrow> d \<noteq> CHR ''+'' \<Longrightarrow> match_phone (d # r) = None"
  by (simp add: match_phone_def after_plus_def)

lemma match_plus:
  "match_phone (CHR ''+'' # r) = None \<longleftrightarrow> (case r of [] \<Rightarrow> True | d # q \<Rightarrow> is_decimal d \<longrightarrow> last_digit q = None)"
  by (auto simp: match_phone_def after_plus_def split: list.split)

lemma redact_unmatched:
  assumes "match_phone (c # r) = None"
  shows "match_phone (c # redact r) = None"
proof -
  consider "is_decimal c" | "c = CHR ''+''" | "\<not> is_decimal c" "c \<noteq> CHR ''+''" by blast
  then show ?thesis
  proof cases
    case 1
    then show ?thesis using assms by (simp add: match_decimal last_digit_redact)
  next
    case 2
    then show ?thesis using assms
      by (auto simp: match_plus last_digit_redact split: list.splits dest!: redact_head)
  next
    case 3
    then show ?thesis by (rule match_other)
  qed
qed

lemma match_nowhere:
  assumes "\<forall>x \<in> set xs. \<not> is_decimal x \<and> x \<noteq> CHR ''+''" and "k < length xs"
  shows "match_phone (drop k xs @ r) = None"
  using assms
proof (induction xs arbitrary: k)
  case (Cons x xs)
  then show ?case by (cases k) (auto simp: match_other)
qed simp

lemma match_mark:
  assumes "k < length redaction_mark"
  shows "match_phone (drop k (redaction_mark @ r)) = None"
proof -
  have "\<forall>x \<in> set redaction_mark. \<not> is_decimal x \<and> x \<noteq> CHR ''+''"
    by (simp add: redaction_mark_def is_decimal_def code_def)
  from match_nowhere [OF this assms] assms show ?thesis by simp
qed

lemma redact_clean: "match_phone (drop k (redact s)) = None"
proof (induction s arbitrary: k rule: redact.induct)
  case (1 s)
  show ?case
  proof (cases s)
    case Nil
    then show ?thesis by (simp add: match_phone_def after_plus_def)
  next
    case (Cons c r)
    show ?thesis
    proof (cases "match_phone s")
      case None
      with Cons 1(1) [OF Cons None] show ?thesis by (cases k) (auto simp: redact_unmatched)
    next
      case (Some n)
      with Cons 1(2) [OF Cons Some] match_mark [of k "redact (drop n s)"] show ?thesis
        by (cases "k < length redaction_mark") simp_all
    qed
  qed
qed

lemma match_shaped:
  assumes "phone_shaped m"
  shows "match_phone (m @ b) \<noteq> None"
proof -
  obtain p d mid e where m: "m = p @ d # mid @ [e]" "p \<in> {[], ''+''}" "is_decimal d" "is_decimal e"
    "7 \<le> length mid" "list_all phone_char mid" using assms by (auto simp: phone_shaped_def)
  have "phone_char e" using m(4) by (simp add: phone_char_def)
  with m(6) have run: "takeWhile phone_char (mid @ e # b) = mid @ e # takeWhile phone_char b"
    by (simp add: list_all_iff)
  have "last_digit (mid @ e # b) \<noteq> None"
    unfolding last_digit_None run using m(4,5) by (auto intro!: exI [of _ "length mid"])
  with m(1-3) not_class(3) show ?thesis
    by (auto simp: match_phone_def after_plus_def)
qed

lemma last_digit_Some:
  assumes "last_digit r = Some i"
  shows "7 \<le> i \<and> i < length (takeWhile phone_char r) \<and> is_decimal (takeWhile phone_char r ! i)"
proof -
  have "i \<in> set xs" if "(case xs of [] \<Rightarrow> None | i # is \<Rightarrow> Some (last (i # is))) = Some i" for xs :: "nat list"
    using that by (cases xs) (auto split: if_splits)
  from this [OF assms [unfolded last_digit_def Let_def]] show ?thesis by auto
qed

lemma match_is_shaped:
  assumes "match_phone s = Some n"
  shows "phone_shaped (take n s)"
proof -
  obtain d r i where s: "after_plus s = d # r" "is_decimal d" "last_digit r = Some i"
    "n = length s - length r + i + 1"
    using assms by (auto simp: match_phone_def split: list.splits if_splits)
  let ?body = "takeWhile phone_char r"
  have i: "7 \<le> i" "i < length ?body" "is_decimal (?body ! i)" using last_digit_Some [OF s(3)] by auto
  obtain t where t: "r = ?body @ t" by (metis takeWhile_dropWhile_id)
  have take: "take (Suc i) r = take i ?body @ [?body ! i]"
    using i(2) by (subst t) (simp add: take_Suc_conv_app_nth del: takeWhile_dropWhile_id)
  obtain q where q: "s = q @ d # r" "q \<in> {[], ''+''}"
    using s(1) by (auto simp: after_plus_def split: list.splits if_splits)
  have "take n s = q @ d # take i ?body @ [?body ! i]"
    using take by (simp add: s(4) q(1) del: take_Suc)
  moreover have "list_all phone_char (take i ?body)"
    by (auto simp: list_all_iff dest!: in_set_takeD set_takeWhileD)
  ultimately show ?thesis
    using q(2) s(2) i unfolding phone_shaped_def
    by (intro exI [of _ q] exI [of _ d] exI [of _ "take i ?body"] exI [of _ "?body ! i"]) simp
qed

lemma redact_nothing: "\<forall>k. match_phone (drop k s) = None \<Longrightarrow> redact s = s"
proof (induction s)
  case (Cons c r)
  from Cons.prems have "match_phone (c # r) = None" "\<forall>k. match_phone (drop k r) = None"
    by (auto dest: spec [of _ 0] spec [of _ "Suc k" for k])
  with Cons.IH show ?case by simp
qed simp

lemmas char_class = is_decimal_def phone_char_def py_isspace_def code_def Let_def

lemma last_digit_short: "length (takeWhile phone_char r) \<le> 7 \<Longrightarrow> last_digit r = None"
  by (simp add: last_digit_def)

lemma match_short: "is_decimal d \<Longrightarrow> length (takeWhile phone_char r) \<le> 7 \<Longrightarrow> match_phone (d # r) = None"
  by (simp add: match_decimal last_digit_short)

lemmas scan = match_short match_other char_class

section \<open>What the scrubber does and does not catch\<close>


text \<open>
  The scrubber sees the pieces of a message, not the message: a number that is not a text, and a
  phone number handed over in two pieces, are logged in full.
\<close>

theorem pieces_escape_redaction:
  "logged \<lparr>lg_msg = ''%s'', lg_args = Some (Log_tuple [Log_number n]), lg_exc = None\<rparr>
     = Some \<lparr>ll_message = str_int n, ll_exc = None\<rparr>
   \<and> logged \<lparr>lg_msg = ''%s%s'', lg_args = Some (Log_tuple [Log_text ''07712'', Log_text ''34567'']),
        lg_exc = None\<rparr> = Some \<lparr>ll_message = ''0771234567'', ll_exc = None\<rparr>
   \<and> phone_shaped ''0771234567''"
proof (intro conjI)
  have "phone_shaped (CHR ''0'' # ''77123456'' @ [CHR ''7''])"
    unfolding phone_shaped_def
    by (intro exI [of _ "[]"] exI [of _ "CHR ''0''"] exI [of _ "''77123456''"] exI [of _ "CHR ''7''"])
      (simp add: is_decimal_def phone_char_def code_def)
  then show "phone_shaped ''0771234567''" by simp
  have marks: "redact ''%s'' = ''%s''" "redact ''%s%s'' = ''%s%s''" "redact ''07712'' = ''07712''"
    "redact ''34567'' = ''34567''"
    by (simp_all add: scan)
  show "logged \<lparr>lg_msg = ''%s'', lg_args = Some (Log_tuple [Log_number n]), lg_exc = None\<rparr>
     = Some \<lparr>ll_message = str_int n, ll_exc = None\<rparr>"
    "logged \<lparr>lg_msg = ''%s%s'', lg_args = Some (Log_tuple [Log_text ''07712'', Log_text ''34567'']),
        lg_exc = None\<rparr> = Some \<lparr>ll_message = ''0771234567'', ll_exc = None\<rparr>"
    by (simp_all add: logged_def redaction_filter_def json_line_def get_message_def log_text_def marks)
qed


end
